(* ===== verification/Prelude.thy ===== *)
theory Prelude
  imports
    Complex_Main
    "HOL-Library.AList"
    "HOL-Library.Char_ord"
    "HOL-Library.List_Lexorder"
    "HOL-Library.Log_Nat"
    "HOL-Library.Product_Lexorder"
    "HOL-Library.Sublist"
    "HOL-Library.Word"
begin

text \<open>
  Shared vocabulary of the development.

  \<^item> Python text: a \<open>string\<close> is a list of code points below 256, so that \<open>length\<close>
    is Python's \<open>len\<close> and \<open>py_isspace\<close> is exactly \<open>str.isspace\<close> on those
    code points; \<open>strip\<close>, \<open>split\<close> and \<open>join\<close> are written out.
  \<^item> Python dictionaries: insertion-ordered association lists; \<open>AList.update\<close> keeps the
    position of an existing key and appends a new one, as \<open>d[k] = v\<close> does.
  \<^item> Exceptions and mutation: a stateful operation is an \<open>act\<close>, a function from the state
    to an exception or a value together with the state it leaves, also when it raises.
    \<open>act_bind\<close> is sequencing, and \<open>act_atomic\<close> is a transaction that restores the state
    it started from when its body raises.
\<close>

named_theorems act_simps \<open>equations of the exception and state combinators\<close>
named_theorems dict_simps \<open>lookup after update and delete in a dictionary\<close>
named_theorems str_simps \<open>facts on Python text\<close>


section \<open>Results: exceptions as values\<close>

type_synonym ('e, 'a) res = "'e + 'a"

definition res_bind :: "('e, 'a) res \<Rightarrow> ('a \<Rightarrow> ('e, 'b) res) \<Rightarrow> ('e, 'b) res" where
  "res_bind r f = (case r of Inl e \<Rightarrow> Inl e | Inr a \<Rightarrow> f a)"

definition res_guard :: "bool \<Rightarrow> 'e \<Rightarrow> ('e, unit) res" where
  "res_guard b e = (if b then Inr () else Inl e)"

lemma res_bind_simps [simp]:
  "res_bind (Inl e) f = Inl e"
  "res_bind (Inr a) f = f a"
  by (simp_all add: res_bind_def)

lemma res_bind_Inr [act_simps]:
  "res_bind r f = Inr b \<longleftrightarrow> (\<exists>a. r = Inr a \<and> f a = Inr b)"
  by (cases r) auto

lemma res_bind_Inl:
  "res_bind r f = Inl e \<longleftrightarrow> r = Inl e \<or> (\<exists>a. r = Inr a \<and> f a = Inl e)"
  by (cases r) auto

lemma res_guard_Inr [act_simps, simp]: "res_guard b e = Inr u \<longleftrightarrow> b"
  by (simp add: res_guard_def)

lemma res_guard_Inl [simp]: "res_guard b e = Inl e' \<longleftrightarrow> \<not> b \<and> e' = e"
  by (auto simp: res_guard_def)

lemma res_guard_simps [simp]:
  "res_guard True e = Inr ()"
  "res_guard False e = Inl e"
  by (simp_all add: res_guard_def)

text \<open>Collecting a list of results stops at the first exception.\<close>

fun res_map :: "('a \<Rightarrow> ('e, 'b) res) \<Rightarrow> 'a list \<Rightarrow> ('e, 'b list) res" where
  "res_map f [] = Inr []"
| "res_map f (x # xs) = res_bind (f x) (\<lambda>y. res_bind (res_map f xs) (\<lambda>ys. Inr (y # ys)))"

lemma res_map_Inr:
  "res_map f xs = Inr ys \<longleftrightarrow> list_all2 (\<lambda>x y. f x = Inr y) xs ys"
proof (induction xs arbitrary: ys)
  case Nil
  show ?case by auto
next
  case (Cons x xs)
  show ?case
    by (cases ys) (auto simp: act_simps Cons.IH)
qed

lemma list_all2_mem_right:
  "list_all2 P xs ys \<Longrightarrow> y \<in> set ys \<Longrightarrow> \<exists>x\<in>set xs. P x y"
  by (induction rule: list_all2_induct) auto

lemma res_map_all_Inr:
  assumes "\<And>x. x \<in> set xs \<Longrightarrow> f x = Inr (g x)"
  shows "res_map f xs = Inr (map g xs)"
  using assms by (induction xs) auto


section \<open>Actions: state, exceptions and transactions\<close>

type_synonym ('s, 'e, 'a) act = "'s \<Rightarrow> ('e, 'a) res \<times> 's"

definition act_return :: "'a \<Rightarrow> ('s, 'e, 'a) act" where
  "act_return a s = (Inr a, s)"

definition act_raise :: "'e \<Rightarrow> ('s, 'e, 'a) act" where
  "act_raise e s = (Inl e, s)"

definition act_bind :: "('s, 'e, 'a) act \<Rightarrow> ('a \<Rightarrow> ('s, 'e, 'b) act) \<Rightarrow> ('s, 'e, 'b) act" where
  "act_bind m f s = (case m s of (Inl e, s') \<Rightarrow> (Inl e, s') | (Inr a, s') \<Rightarrow> f a s')"

definition act_res :: "('e, 'a) res \<Rightarrow> ('s, 'e, 'a) act" where
  "act_res r s = (r, s)"

definition act_gets :: "('s \<Rightarrow> 'a) \<Rightarrow> ('s, 'e, 'a) act" where
  "act_gets f s = (Inr (f s), s)"

definition act_getr :: "('s \<Rightarrow> ('e, 'a) res) \<Rightarrow> ('s, 'e, 'a) act" where
  "act_getr f s = (f s, s)"

definition act_modify :: "('s \<Rightarrow> 's) \<Rightarrow> ('s, 'e, unit) act" where
  "act_modify f s = (Inr (), f s)"

definition act_guard :: "bool \<Rightarrow> 'e \<Rightarrow> ('s, 'e, unit) act" where
  "act_guard b e = act_res (res_guard b e)"

definition act_when :: "bool \<Rightarrow> ('s, 'e, unit) act \<Rightarrow> ('s, 'e, unit) act" where
  "act_when b m = (if b then m else act_return ())"

definition act_atomic :: "('s, 'e, 'a) act \<Rightarrow> ('s, 'e, 'a) act" where
  "act_atomic m s = (case m s of (Inl e, s') \<Rightarrow> (Inl e, s) | (Inr a, s') \<Rightarrow> (Inr a, s'))"

fun act_iter :: "('a \<Rightarrow> ('s, 'e, unit) act) \<Rightarrow> 'a list \<Rightarrow> ('s, 'e, unit) act" where
  "act_iter f [] = act_return ()"
| "act_iter f (x # xs) = act_bind (f x) (\<lambda>_. act_iter f xs)"

lemma act_bind_Inr [act_simps]:
  "act_bind m f s = (Inr b, t) \<longleftrightarrow> (\<exists>a s'. m s = (Inr a, s') \<and> f a s' = (Inr b, t))"
  by (auto simp: act_bind_def split: prod.splits sum.splits)

lemma act_bind_Inl:
  "act_bind m f s = (Inl e, t) \<longleftrightarrow>
     m s = (Inl e, t) \<or> (\<exists>a s'. m s = (Inr a, s') \<and> f a s' = (Inl e, t))"
  by (auto simp: act_bind_def split: prod.splits sum.splits)

lemma act_basic_Inr [act_simps]:
  "act_return a s = (Inr b, t) \<longleftrightarrow> b = a \<and> t = s"
  "act_raise e s = (Inr b, t) \<longleftrightarrow> False"
  "act_res r s = (Inr b, t) \<longleftrightarrow> r = Inr b \<and> t = s"
  "act_gets g s = (Inr c, t) \<longleftrightarrow> c = g s \<and> t = s"
  "act_getr h s = (Inr d, t) \<longleftrightarrow> h s = Inr d \<and> t = s"
  "act_modify k s = (Inr u, t) \<longleftrightarrow> t = k s"
  "act_guard p e' s = (Inr u, t) \<longleftrightarrow> p \<and> t = s"
  "act_when p m s = (Inr u, t) \<longleftrightarrow> (if p then m s = (Inr u, t) else t = s)"
  by (auto simp: act_return_def act_raise_def act_res_def act_gets_def act_getr_def
      act_modify_def act_guard_def act_when_def)

text \<open>Running an action forwards, used to evaluate concrete calls.\<close>

lemma act_run:
  "act_return a s = (Inr a, s)"
  "act_raise e s = (Inl e, s)"
  "act_res r s = (r, s)"
  "act_gets g s = (Inr (g s), s)"
  "act_getr h s = (h s, s)"
  "act_modify k s = (Inr (), k s)"
  "act_guard p e' s = (res_guard p e', s)"
  by (simp_all add: act_return_def act_raise_def act_res_def act_gets_def act_getr_def
      act_modify_def act_guard_def)

lemma act_bind_run:
  "m s = (Inr a, s') \<Longrightarrow> act_bind m f s = f a s'"
  "m s = (Inl e, s') \<Longrightarrow> act_bind m f s = (Inl e, s')"
  by (simp_all add: act_bind_def)

text \<open>A transaction: success keeps the effects of the body, an exception undoes all of them.\<close>

lemma act_atomic_Inr [act_simps]:
  "act_atomic m s = (Inr a, t) \<longleftrightarrow> m s = (Inr a, t)"
  by (auto simp: act_atomic_def split: prod.splits sum.splits)

lemma act_atomic_Inl:
  "act_atomic m s = (Inl e, t) \<longleftrightarrow> t = s \<and> (\<exists>s'. m s = (Inl e, s'))"
  by (auto simp: act_atomic_def split: prod.splits sum.splits)

lemma act_atomic_rollback: "act_atomic m s = (Inl e, t) \<Longrightarrow> t = s"
  by (simp add: act_atomic_Inl)

lemma act_iter_invariant:
  assumes "act_iter f xs s = (Inr u, t)" and "P s"
    and "\<And>x s s' v. x \<in> set xs \<Longrightarrow> P s \<Longrightarrow> f x s = (Inr v, s') \<Longrightarrow> P s'"
  shows "P t"
  using assms
proof (induction xs arbitrary: s)
  case Nil
  then show ?case by (simp add: act_simps)
next
  case (Cons x xs)
  from Cons.prems(1) obtain v s' where step: "f x s = (Inr v, s')" "act_iter f xs s' = (Inr u, t)"
    by (auto simp: act_simps)
  from Cons.prems(3) [OF _ Cons.prems(2) step(1)] have "P s'" by simp
  from Cons.IH [OF step(2) this] Cons.prems(3) show ?case by (metis list.set_intros(2))
qed

text \<open>An action that never writes: guards, reads and pure computations.\<close>

definition act_pure :: "('s, 'e, 'a) act \<Rightarrow> bool" where
  "act_pure m \<longleftrightarrow> (\<forall>s. snd (m s) = s)"

lemma act_pure_intros [intro]:
  "act_pure (act_return a)"
  "act_pure (act_raise e)"
  "act_pure (act_res r)"
  "act_pure (act_gets g)"
  "act_pure (act_getr h)"
  "act_pure (act_guard p e')"
  by (simp_all add: act_pure_def act_run)

lemma act_pure_bind [intro]:
  "act_pure m \<Longrightarrow> (\<And>a. act_pure (f a)) \<Longrightarrow> act_pure (act_bind m f)"
  by (auto simp: act_pure_def act_bind_def split: prod.splits sum.splits)
     (metis snd_conv)+


section \<open>Dictionaries\<close>

type_synonym ('k, 'v) dict = "('k \<times> 'v) list"

abbreviation dict_get :: "('k, 'v) dict \<Rightarrow> 'k \<Rightarrow> 'v option" where
  "dict_get \<equiv> map_of"

abbreviation dict_set :: "'k \<Rightarrow> 'v \<Rightarrow> ('k, 'v) dict \<Rightarrow> ('k, 'v) dict" where
  "dict_set \<equiv> AList.update"

abbreviation dict_pop :: "'k \<Rightarrow> ('k, 'v) dict \<Rightarrow> ('k, 'v) dict" where
  "dict_pop \<equiv> AList.delete"

abbreviation dict_ok :: "('k, 'v) dict \<Rightarrow> bool" where
  "dict_ok d \<equiv> distinct (map fst d)"

abbreviation dict_values :: "('k, 'v) dict \<Rightarrow> 'v list" where
  "dict_values d \<equiv> map snd d"

lemmas [dict_simps] = update_conv' delete_conv'

declare map_of_eq_Some_iff [simp del] Some_eq_map_of_iff [simp del]

lemma dict_ok_set [intro]: "dict_ok d \<Longrightarrow> dict_ok (dict_set k v d)"
  by (rule distinct_update)

lemma dict_ok_pop [intro]: "dict_ok d \<Longrightarrow> dict_ok (dict_pop k d)"
  by (rule distinct_delete)

lemma dict_ok_filter [intro]: "dict_ok d \<Longrightarrow> dict_ok (filter P d)"
  by (induction d) auto

lemma dict_get_mem: "dict_ok d \<Longrightarrow> (k, v) \<in> set d \<longleftrightarrow> dict_get d k = Some v"
  by (metis map_of_SomeD map_of_is_SomeI)

lemma dict_get_filter_value:
  assumes "dict_ok d"
  shows "dict_get (filter (\<lambda>(k, v). P v) d) k = (case dict_get d k of
           None \<Rightarrow> None | Some v \<Rightarrow> if P v then Some v else None)"
  using assms by (induction d) (auto split: option.splits simp: map_of_eq_None_iff image_iff)


lemma dict_set_new: "dict_get d k = None \<Longrightarrow> dict_set k v d = d @ [(k, v)]"
  by (induction d) (auto split: if_splits)

lemma find_append: "find P (xs @ ys) = (case find P xs of None \<Rightarrow> find P ys | Some x \<Rightarrow> Some x)"
  by (induction xs) auto

lemma find_SomeD: "find P xs = Some x \<Longrightarrow> x \<in> set xs \<and> P x"
  by (induction xs) (auto split: if_splits)


lemma find_distinct:
  "distinct (map f xs) \<Longrightarrow> x \<in> set xs \<Longrightarrow> find (\<lambda>y. f y = f x) xs = Some x"
  by (induction xs) (auto simp: image_iff)


section \<open>Slices\<close>

text \<open>\<open>xs[:n]\<close>, where a negative bound counts from the end.\<close>

definition py_take :: "int \<Rightarrow> 'a list \<Rightarrow> 'a list" where
  "py_take n xs = (if 0 \<le> n then take (nat n) xs else take (length xs - nat (- n)) xs)"

lemma set_py_take: "set (py_take n xs) \<subseteq> set xs"
  by (auto simp: py_take_def dest: in_set_takeD)

lemma length_py_take: "0 \<le> n \<Longrightarrow> int (length (py_take n xs)) \<le> n"
  by (simp add: py_take_def)

lemma sorted_wrt_py_take: "sorted_wrt P xs \<Longrightarrow> sorted_wrt P (py_take n xs)"
  by (simp add: py_take_def sorted_wrt_take)

lemma distinct_map_py_take: "distinct (map f xs) \<Longrightarrow> distinct (map f (py_take n xs))"
  by (simp add: py_take_def take_map [symmetric])


section \<open>Python text\<close>

definition py_isspace :: "char \<Rightarrow> bool" where
  "py_isspace c \<longleftrightarrow> (let n = (of_char c :: nat) in
     9 \<le> n \<and> n \<le> 13 \<or> 28 \<le> n \<and> n \<le> 32 \<or> n = 133 \<or> n = 160)"

definition py_strip :: "string \<Rightarrow> string" where
  "py_strip s = rev (dropWhile py_isspace (rev (dropWhile py_isspace s)))"

fun py_split_aux :: "string \<Rightarrow> string \<Rightarrow> string list" where
  "py_split_aux w [] = (if w = [] then [] else [w])"
| "py_split_aux w (c # cs) =
     (if py_isspace c then (if w = [] then py_split_aux [] cs else w # py_split_aux [] cs)
      else py_split_aux (w @ [c]) cs)"

definition py_split :: "string \<Rightarrow> string list" where
  "py_split s = py_split_aux [] s"

fun py_join :: "string \<Rightarrow> string list \<Rightarrow> string" where
  "py_join sep [] = []"
| "py_join sep [w] = w"
| "py_join sep (w # v # ws) = w @ sep @ py_join sep (v # ws)"

definition py_truthy :: "string option \<Rightarrow> bool" where
  "py_truthy v = (case v of None \<Rightarrow> False | Some s \<Rightarrow> s \<noteq> [])"

lemma py_truthy_simps [simp]:
  "py_truthy None = False"
  "py_truthy (Some s) = (s \<noteq> [])"
  by (simp_all add: py_truthy_def)

lemma py_strip_eq_Nil [str_simps]: "py_strip s = [] \<longleftrightarrow> (\<forall>c\<in>set s. py_isspace c)"
proof
  assume "py_strip s = []"
  then have "\<forall>c\<in>set (dropWhile py_isspace s). py_isspace c"
    by (simp add: py_strip_def)
  then have "dropWhile py_isspace s = []"
    by (metis hd_dropWhile hd_in_set)
  then show "\<forall>c\<in>set s. py_isspace c" by simp
next
  assume "\<forall>c\<in>set s. py_isspace c"
  then have "dropWhile py_isspace s = []" by simp
  then show "py_strip s = []" by (simp only: py_strip_def rev.simps dropWhile.simps)
qed

definition py_word :: "string \<Rightarrow> bool" where
  "py_word w \<longleftrightarrow> w \<noteq> [] \<and> (\<forall>c\<in>set w. \<not> py_isspace c)"

lemma py_split_aux_words:
  "(\<forall>c\<in>set w. \<not> py_isspace c) \<Longrightarrow> \<forall>v\<in>set (py_split_aux w s). py_word v"
proof (induction w s rule: py_split_aux.induct)
  case (1 w)
  then show ?case by (simp add: py_word_def)
next
  case (2 w c cs)
  show ?case
  proof (cases "py_isspace c")
    case True
    then have "\<forall>v\<in>set (py_split_aux [] cs). py_word v"
      using 2(1,2) by (cases "w = []") simp_all
    with True 2(4) show ?thesis by (simp add: py_word_def)
  next
    case False
    have "\<forall>d\<in>set (w @ [c]). \<not> py_isspace d" using 2(4) False by simp
    from 2(3) [OF False this] show ?thesis by (simp add: False)
  qed
qed

lemma py_split_words: "v \<in> set (py_split s) \<Longrightarrow> py_word v"
  using py_split_aux_words [of "[]" s] by (simp add: py_split_def)

lemma py_split_aux_word:
  "(\<forall>c\<in>set v. \<not> py_isspace c) \<Longrightarrow> py_split_aux w (v @ s) = py_split_aux (w @ v) s"
  by (induction v arbitrary: w) auto

lemma py_isspace_blank [simp]: "py_isspace (CHR '' '')"
  by (simp add: py_isspace_def)

lemma py_split_join:
  "(\<forall>v\<in>set ws. py_word v) \<Longrightarrow> py_split (py_join '' '' ws) = ws"
proof (induction "'' ''" ws rule: py_join.induct)
  case 1
  show ?case by (simp add: py_split_def)
next
  case (2 w)
  then show ?case
    using py_split_aux_word [of w "[]" "[]"] by (simp add: py_split_def py_word_def)
next
  case (3 w v ws)
  then show ?case
    using py_split_aux_word [of w "[]"] by (simp add: py_split_def py_word_def)
qed

lemma py_split_aux_eq_Nil: "py_split_aux w s = [] \<longleftrightarrow> w = [] \<and> (\<forall>c\<in>set s. py_isspace c)"
  by (induction w s rule: py_split_aux.induct) auto

lemma py_split_eq_Nil: "py_split s = [] \<longleftrightarrow> py_strip s = []"
  by (simp add: py_split_def py_split_aux_eq_Nil py_strip_eq_Nil)

lemma length_py_join_split_aux:
  "length (py_join '' '' (py_split_aux w s)) \<le> length w + length s"
proof (induction w s rule: py_split_aux.induct)
  case (1 w)
  then show ?case by simp
next
  case (2 w c cs)
  show ?case
  proof (cases "py_isspace c \<and> w \<noteq> []")
    case True
    with 2(2) show ?thesis
      by (cases "py_split_aux [] cs") auto
  next
    case False
    with 2 show ?thesis by auto
  qed
qed

lemma py_strip_normalized: "py_strip (py_join '' '' (py_split s)) = [] \<longleftrightarrow> py_strip s = []"
  by (metis py_split_eq_Nil py_split_join py_split_words)

end
