(* ===== verification/Pyfloat.thy ===== *)
theory Pyfloat
  imports Prelude
begin

text \<open>
  Python floats. A finite binary64 value is the rational it denotes; every arithmetic
  operation rounds its exact result to the nearest binary64 value, ties to even (\<open>fl\<close>),
  with the gradual underflow of subnormal numbers. Infinities, NaN and overflow are outside
  the model: the values the program computes with are unit-interval scores and the components
  of embedding vectors.
  \<open>fsum\<close> is the left-to-right summation of \<open>sum\<close> in Python 3.11, \<open>fsqrt\<close> is the
  correctly rounded \<open>math.sqrt\<close>, \<open>round6\<close> is \<open>round(x, 6)\<close>, which rounds the exact
  value of the float to six decimals, ties to even, and converts back.
\<close>

type_synonym pyfloat = rat

section \<open>Rounding to integers\<close>

definition round_even :: "rat \<Rightarrow> int" where
  "round_even x = (let f = \<lfloor>x\<rfloor>; r = x - of_int f in
     if r < 1/2 then f else if 1/2 < r then f + 1 else if even f then f else f + 1)"

lemma round_even_of_int [simp]: "round_even (of_int n) = n"
  by (simp add: round_even_def)

lemma round_even_near: "\<bar>x - of_int (round_even x)\<bar> \<le> 1/2"
proof -
  have "of_int \<lfloor>x\<rfloor> \<le> x" "x < of_int \<lfloor>x\<rfloor> + 1" by linarith+
  then show ?thesis by (auto simp: round_even_def Let_def)
qed

lemma round_even_mono: "x \<le> y \<Longrightarrow> round_even x \<le> round_even y"
proof -
  assume le: "x \<le> y"
  show ?thesis
  proof (cases "\<lfloor>x\<rfloor> = \<lfloor>y\<rfloor>")
    case True
    with le show ?thesis by (auto simp: round_even_def Let_def)
  next
    case False
    with le have "\<lfloor>x\<rfloor> + 1 \<le> \<lfloor>y\<rfloor>" using floor_mono [of x y] by linarith
    moreover have "round_even x \<le> \<lfloor>x\<rfloor> + 1" by (simp add: round_even_def Let_def)
    moreover have "\<lfloor>y\<rfloor> \<le> round_even y" by (simp add: round_even_def Let_def)
    ultimately show ?thesis by linarith
  qed
qed

lemma round_even_nonneg: "0 \<le> x \<Longrightarrow> 0 \<le> round_even x"
  using round_even_mono [of 0 x] round_even_of_int [of 0] by simp

section \<open>The binary exponent and rounding to binary64\<close>

definition bin_exp :: "rat \<Rightarrow> int" where
  "bin_exp x = (let (n, d) = quotient_of x; k = bitlen n - bitlen d in
     if 2 powi k \<le> x then k else k - 1)"

lemma bitlen_powi:
  assumes "0 < n"
  shows "(2::rat) powi (bitlen n - 1) \<le> of_int n" and "of_int n < (2::rat) powi (bitlen n)"
proof -
  have pos: "0 < bitlen n" using bitlen_bounds [OF assms] assms
    by (cases "0 < bitlen n") auto
  from bitlen_bounds [OF assms] have *: "2 ^ nat (bitlen n - 1) \<le> n" "n < 2 ^ nat (bitlen n)"
    by auto
  from * (1) have "of_int (2 ^ nat (bitlen n - 1)) \<le> (of_int n :: rat)"
    by (simp only: of_int_le_iff)
  with pos show "(2::rat) powi (bitlen n - 1) \<le> of_int n"
    by (simp add: power_int_def)
  from * (2) have "(of_int n :: rat) < of_int (2 ^ nat (bitlen n))"
    by (simp only: of_int_less_iff)
  with pos show "of_int n < (2::rat) powi (bitlen n)"
    by (simp add: power_int_def)
qed

lemma powi2_mono: "(2::rat) powi a \<le> 2 powi b \<longleftrightarrow> a \<le> b"
  by (meson leD linorder_le_cases one_less_numeral_iff power_int_increasing
      power_int_strict_increasing semiring_norm(76) order_less_imp_le not_le_imp_less
      order.strict_iff_not)

lemma powi2_less: "(2::rat) powi a < 2 powi b \<longleftrightarrow> a < b"
  using powi2_mono [of b a] by (metis not_le)

lemma powi2_add: "(2::rat) powi (a + b) = 2 powi a * 2 powi b"
  by (simp add: power_int_add)

lemma powi2_pos [simp]: "0 < (2::rat) powi a"
  by (simp add: zero_less_power_int)

lemma bin_exp_bounds:
  assumes "0 < x"
  shows "2 powi (bin_exp x) \<le> x" and "x < 2 powi (bin_exp x + 1)"
proof -
  obtain n d where q: "quotient_of x = (n, d)" by (cases "quotient_of x")
  have d: "0 < d" using q by (rule quotient_of_denom_pos)
  have x: "x = of_int n / of_int d" using q by (rule quotient_of_div)
  have n: "0 < n" using assms d x by (simp add: zero_less_divide_iff)
  let ?k = "bitlen n - bitlen d"
  have dr: "(0::rat) < of_int d" using d by simp
  have lo: "2 powi (?k - 1) < x"
  proof -
    have "2 powi (?k - 1) * (of_int d :: rat) < 2 powi (?k - 1) * 2 powi (bitlen d)"
      using bitlen_powi(2) [OF d] by (intro mult_strict_left_mono) simp_all
    also have "\<dots> = 2 powi (bitlen n - 1)" by (simp flip: powi2_add)
    also have "\<dots> \<le> of_int n" by (rule bitlen_powi(1) [OF n])
    finally show ?thesis using dr by (simp add: x pos_less_divide_eq)
  qed
  have hi: "x < 2 powi (?k + 1)"
  proof -
    have "(of_int n :: rat) < 2 powi (bitlen n)" by (rule bitlen_powi(2) [OF n])
    also have "\<dots> = 2 powi (?k + 1) * 2 powi (bitlen d - 1)" by (simp flip: powi2_add)
    also have "\<dots> \<le> 2 powi (?k + 1) * of_int d"
      using bitlen_powi(1) [OF d] by (intro mult_left_mono) simp_all
    finally show ?thesis using dr by (simp add: x pos_divide_less_eq)
  qed
  show "2 powi (bin_exp x) \<le> x" and "x < 2 powi (bin_exp x + 1)"
    using lo hi by (auto simp: bin_exp_def q Let_def)
qed

lemma bin_exp_mono: "0 < x \<Longrightarrow> x \<le> y \<Longrightarrow> bin_exp x \<le> bin_exp y"
  using bin_exp_bounds [of x] bin_exp_bounds [of y] powi2_less [of "bin_exp x" "bin_exp y + 1"]
  by linarith

definition ulp_exp :: "rat \<Rightarrow> int" where
  "ulp_exp x = max (bin_exp x - 52) (- 1074)"

definition fl_pos :: "rat \<Rightarrow> rat" where
  "fl_pos x = of_int (round_even (x / 2 powi (ulp_exp x))) * 2 powi (ulp_exp x)"

definition fl :: "rat \<Rightarrow> pyfloat" where
  "fl x = (if x = 0 then 0 else if 0 < x then fl_pos x else - fl_pos (- x))"

lemma fl_pos_nonneg: "0 < x \<Longrightarrow> 0 \<le> fl_pos x"
  by (simp add: fl_pos_def round_even_nonneg)

lemma fl_pos_mono:
  assumes "0 < x" and "x \<le> y"
  shows "fl_pos x \<le> fl_pos y"
proof (cases "ulp_exp x = ulp_exp y")
  case True
  then show ?thesis
    using assms by (simp add: fl_pos_def round_even_mono divide_right_mono mult_right_mono)
next
  case False
  let ?g = "ulp_exp x" and ?h = "ulp_exp y"
  have gh: "?g + 1 \<le> ?h" and h: "?h = bin_exp y - 52"
    using False bin_exp_mono [OF assms] by (auto simp: ulp_exp_def)
  have y: "0 < y" using assms by linarith
  have "x < 2 powi (?g + 53)"
    using bin_exp_bounds(2) [OF assms(1)] powi2_mono [of "bin_exp x + 1" "?g + 53"]
    by (auto simp: ulp_exp_def)
  then have "x / 2 powi ?g \<le> of_int (2 ^ 53)"
    by (simp add: divide_le_eq power_int_add mult.commute)
  then have "round_even (x / 2 powi ?g) \<le> 2 ^ 53"
    using round_even_mono round_even_of_int by metis
  then have "(of_int (round_even (x / 2 powi ?g)) :: rat) \<le> of_int (2 ^ 53)"
    by (simp only: of_int_le_iff)
  then have "fl_pos x \<le> of_int (2 ^ 53) * 2 powi ?g"
    unfolding fl_pos_def by (intro mult_right_mono) (simp_all add: less_imp_le)
  also have "\<dots> = 2 powi (?g + 53)"
    by (simp add: power_int_add mult.commute)
  also have "\<dots> \<le> 2 powi (?h + 52)"
    using gh by (simp only: powi2_mono)
  also have "\<dots> = of_int (2 ^ 52) * 2 powi ?h"
    by (simp add: power_int_add mult.commute)
  also have "\<dots> \<le> fl_pos y"
  proof -
    have "2 powi (?h + 52) \<le> y" using bin_exp_bounds(1) [OF y] h by simp
    then have "of_int (2 ^ 52) \<le> y / 2 powi ?h"
      by (simp add: le_divide_eq power_int_add mult.commute)
    then have "2 ^ 52 \<le> round_even (y / 2 powi ?h)"
      using round_even_mono round_even_of_int by metis
    then have "(of_int (2 ^ 52) :: rat) \<le> of_int (round_even (y / 2 powi ?h))"
      by (simp only: of_int_le_iff)
    then show ?thesis
      unfolding fl_pos_def by (intro mult_right_mono) (simp_all add: less_imp_le)
  qed
  finally show ?thesis .
qed

lemma fl_mono: "x \<le> y \<Longrightarrow> fl x \<le> fl y"
  using fl_pos_mono [of x y] fl_pos_mono [of "- y" "- x"] fl_pos_nonneg [of y]
    fl_pos_nonneg [of "- x"]
  by (auto simp: fl_def)

lemma fl_0 [simp]: "fl 0 = 0"
  by (simp add: fl_def)

lemma fl_nonneg: "0 \<le> x \<Longrightarrow> 0 \<le> fl x"
  using fl_mono [of 0 x] by simp

section \<open>Arithmetic\<close>

definition fadd :: "pyfloat \<Rightarrow> pyfloat \<Rightarrow> pyfloat" where "fadd x y = fl (x + y)"
definition fmul :: "pyfloat \<Rightarrow> pyfloat \<Rightarrow> pyfloat" where "fmul x y = fl (x * y)"
definition fdiv :: "pyfloat \<Rightarrow> pyfloat \<Rightarrow> pyfloat" where "fdiv x y = fl (x / y)"

definition fsum :: "pyfloat list \<Rightarrow> pyfloat" where
  "fsum xs = foldl fadd 0 xs"

function isqrt :: "int \<Rightarrow> int" where
  "isqrt n = (if n \<le> 0 then 0 else
     let r = 2 * isqrt (n div 4) in if (r + 1) * (r + 1) \<le> n then r + 1 else r)"
  by pat_completeness auto
termination
  by (relation "measure nat") auto

declare isqrt.simps [simp del]

definition fsqrt :: "pyfloat \<Rightarrow> pyfloat" where
  "fsqrt x = (if x \<le> 0 then 0 else
     let g = bin_exp x div 2 - 52; y = x / 2 powi (2 * g); r = isqrt \<lfloor>y\<rfloor>;
         h = of_int r + 1/2
     in of_int (if y < h * h \<or> y = h * h \<and> even r then r else r + 1) * 2 powi g)"

definition round6 :: "pyfloat \<Rightarrow> pyfloat" where
  "round6 x = fl (of_int (round_even (x * 1000000)) / 1000000)"

lemma fadd_mono: "x \<le> x' \<Longrightarrow> y \<le> y' \<Longrightarrow> fadd x y \<le> fadd x' y'"
  by (simp add: fadd_def fl_mono)

lemma fmul_mono_right: "0 \<le> c \<Longrightarrow> x \<le> y \<Longrightarrow> fmul c x \<le> fmul c y"
  by (simp add: fmul_def fl_mono mult_left_mono)

lemma fmul_nonneg: "0 \<le> x \<Longrightarrow> 0 \<le> y \<Longrightarrow> 0 \<le> fmul x y"
  by (simp add: fmul_def fl_nonneg)

lemma fadd_nonneg: "0 \<le> x \<Longrightarrow> 0 \<le> y \<Longrightarrow> 0 \<le> fadd x y"
  by (simp add: fadd_def fl_nonneg)

lemma round6_mono: "x \<le> y \<Longrightarrow> round6 x \<le> round6 y"
  unfolding round6_def
  by (intro fl_mono divide_right_mono) (auto intro: round_even_mono)

lemma isqrt_bounds:
  "0 \<le> n \<Longrightarrow> 0 \<le> isqrt n \<and> isqrt n * isqrt n \<le> n \<and> n < (isqrt n + 1) * (isqrt n + 1)"
proof (induction n rule: isqrt.induct)
  case (1 n)
  show ?case
  proof (cases "n \<le> 0")
    case True
    with 1 show ?thesis by (simp add: isqrt.simps [of 0])
  next
    case False
    let ?q = "isqrt (n div 4)"
    have "0 \<le> n div 4" using False by simp
    with 1(1) [OF False] have q: "0 \<le> ?q" and lo: "?q * ?q \<le> n div 4"
      and "n div 4 < (?q + 1) * (?q + 1)"
      by blast+
    then have hi: "n div 4 + 1 \<le> (?q + 1) * (?q + 1)" by linarith
    have "(2 * ?q) * (2 * ?q) = 4 * (?q * ?q)" by simp
    also have "\<dots> \<le> n" using lo by linarith
    finally have a: "(2 * ?q) * (2 * ?q) \<le> n" .
    have "n < 4 * (n div 4 + 1)" by presburger
    also have "\<dots> \<le> 4 * ((?q + 1) * (?q + 1))" using hi by simp
    also have "\<dots> = (2 * ?q + 2) * (2 * ?q + 2)" by (simp add: algebra_simps)
    finally have b: "n < (2 * ?q + 2) * (2 * ?q + 2)" .
    show ?thesis
      using False q a b by (auto simp: isqrt.simps [of n] Let_def not_le add.commute)
  qed
qed

end
