(* ===== verification/Pyvalues.thy ===== *)
theory Pyvalues
  imports Pyfloat
begin

text \<open>
  The standard-library values the program passes around: \<open>datetime\<close>, \<open>uuid.UUID\<close> and
  JSON documents.

  A \<open>datetime\<close> is its wall-clock reading in microseconds since 0001-01-01T00:00 with its
  UTC offset, or no offset for a naive value; aware values compare by the instant they denote.
  The range limit of years 1 to 9999 is not modelled. \<open>isoformat\<close> is
  \<open>datetime.isoformat\<close>, over the proleptic Gregorian calendar.
  A UUID is its 128-bit integer, and \<open>uuid_str\<close> its canonical text.
\<close>

section \<open>datetime\<close>

record datetime =
  dt_local :: int
  dt_offset :: "int option"

definition dt_aware :: "datetime \<Rightarrow> bool" where
  "dt_aware d \<longleftrightarrow> dt_offset d \<noteq> None"

definition dt_instant :: "datetime \<Rightarrow> int" where
  "dt_instant d = dt_local d - (case dt_offset d of None \<Rightarrow> 0 | Some z \<Rightarrow> z)"

definition astimezone_utc :: "datetime \<Rightarrow> datetime" where
  "astimezone_utc d = \<lparr>dt_local = dt_instant d, dt_offset = Some 0\<rparr>"

text \<open>Python's \<open>==\<close> on datetimes: equal instants, and a naive value never equals an aware one.\<close>

definition dt_key :: "datetime \<Rightarrow> bool \<times> int" where
  "dt_key d = (dt_aware d, dt_instant d)"

definition dt_plus :: "datetime \<Rightarrow> int \<Rightarrow> datetime" where
  "dt_plus d us = d\<lparr>dt_local := dt_local d + us\<rparr>"

lemma astimezone_utc_simps [simp]:
  "dt_aware (astimezone_utc d)"
  "dt_instant (astimezone_utc d) = dt_instant d"
  "astimezone_utc (astimezone_utc d) = astimezone_utc d"
  by (simp_all add: astimezone_utc_def dt_aware_def dt_instant_def)

lemma dt_key_astimezone_utc: "dt_aware d \<Longrightarrow> dt_key (astimezone_utc d) = dt_key d"
  by (simp add: dt_key_def)

section \<open>isoformat\<close>

definition leap_year :: "int \<Rightarrow> bool" where
  "leap_year y \<longleftrightarrow> y mod 4 = 0 \<and> (y mod 100 \<noteq> 0 \<or> y mod 400 = 0)"

fun month_day :: "int list \<Rightarrow> int \<Rightarrow> int \<Rightarrow> int \<times> int" where
  "month_day [] m d = (m, d + 1)"
| "month_day (k # ks) m d = (if d < k then (m, d + 1) else month_day ks (m + 1) (d - k))"

definition date_of_days :: "int \<Rightarrow> int \<times> int \<times> int" where
  "date_of_days n = (let
     n400 = n div 146097; r400 = n mod 146097;
     n100 = r400 div 36524; r100 = r400 mod 36524;
     n4 = r100 div 1461; r4 = r100 mod 1461;
     n1 = r4 div 365; r1 = r4 mod 365;
     y = 400 * n400 + 100 * n100 + 4 * n4 + n1 + 1
   in if n1 = 4 \<or> n100 = 4 then (y - 1, 12, 31)
      else let (m, d) = month_day
          [31, if leap_year y then 29 else 28, 31, 30, 31, 30, 31, 31, 30, 31, 30] 1 r1
        in (y, m, d))"

fun dec_pad :: "nat \<Rightarrow> int \<Rightarrow> string" where
  "dec_pad 0 n = []"
| "dec_pad (Suc k) n = dec_pad k (n div 10) @ [char_of (48 + n mod 10 :: int)]"

fun nat_str :: "nat \<Rightarrow> string" where
  "nat_str n = (if n < 10 then [char_of (48 + n)] else nat_str (n div 10) @ [char_of (48 + n mod 10)])"

declare nat_str.simps [simp del]

definition int_str :: "int \<Rightarrow> string" where
  "int_str i = (if i < 0 then ''-'' @ nat_str (nat (- i)) else nat_str (nat i))"

definition time_text :: "int \<Rightarrow> string" where
  "time_text us = (let s = us div 1000000; f = us mod 1000000 in
     dec_pad 2 (s div 3600) @ '':'' @ dec_pad 2 (s div 60 mod 60) @ '':'' @
     dec_pad 2 (s mod 60) @ (if f = 0 then [] else ''.'' @ dec_pad 6 f))"

definition offset_text :: "int \<Rightarrow> string" where
  "offset_text z = (let a = \<bar>z\<bar>; t = time_text a in
     (if z < 0 then ''-'' else ''+'') @
     (if a mod 60000000 = 0 then take 5 t else t))"

definition isoformat :: "datetime \<Rightarrow> string" where
  "isoformat d = (let (y, m, dd) = date_of_days (dt_local d div 86400000000) in
     dec_pad 4 y @ ''-'' @ dec_pad 2 m @ ''-'' @ dec_pad 2 dd @ ''T'' @
     time_text (dt_local d mod 86400000000) @
     (case dt_offset d of None \<Rightarrow> [] | Some z \<Rightarrow> offset_text z))"

section \<open>UUID\<close>

type_synonym uuid = "128 word"

definition hex_digit :: "int \<Rightarrow> char" where
  "hex_digit n = char_of (if n < 10 then 48 + n else 87 + n :: int)"

fun hex_pad :: "nat \<Rightarrow> int \<Rightarrow> string" where
  "hex_pad 0 n = []"
| "hex_pad (Suc k) n = hex_pad k (n div 16) @ [hex_digit (n mod 16)]"

definition uuid_hex :: "uuid \<Rightarrow> string" where
  "uuid_hex u = hex_pad 32 (uint u)"

definition uuid_str :: "uuid \<Rightarrow> string" where
  "uuid_str u = (let h = uuid_hex u in
     take 8 h @ ''-'' @ take 4 (drop 8 h) @ ''-'' @ take 4 (drop 12 h) @ ''-'' @
     take 4 (drop 16 h) @ ''-'' @ drop 20 h)"

lemma length_hex_pad [simp]: "length (hex_pad k n) = k"
  by (induction k arbitrary: n) auto

lemma hex_digit_inject:
  "0 \<le> m \<Longrightarrow> m < 16 \<Longrightarrow> 0 \<le> n \<Longrightarrow> n < 16 \<Longrightarrow> hex_digit m = hex_digit n \<longleftrightarrow> m = n"
  by (auto simp: hex_digit_def char_of_eq_iff take_bit_eq_mod split: if_splits)

lemma hex_pad_inject:
  "0 \<le> m \<Longrightarrow> m < 16 ^ k \<Longrightarrow> 0 \<le> n \<Longrightarrow> n < 16 ^ k \<Longrightarrow>
     hex_pad k m = hex_pad k n \<longleftrightarrow> m = n"
proof (induction k arbitrary: m n)
  case 0
  then show ?case by simp
next
  case (Suc k)
  have "hex_pad k (m div 16) = hex_pad k (n div 16) \<longleftrightarrow> m div 16 = n div 16"
    using Suc.prems by (intro Suc.IH) (simp_all add: int_div_less_self div_less_iff_less_mult)
  then show ?case by (auto simp: hex_digit_inject) (metis div_mult_mod_eq)
qed

lemma uuid_hex_inject [simp]: "uuid_hex u = uuid_hex v \<longleftrightarrow> u = v"
proof -
  have "uint u < 16 ^ 32" "uint v < 16 ^ 32"
    using uint_lt2p [of u] uint_lt2p [of v] by simp_all
  then show ?thesis by (auto simp: uuid_hex_def hex_pad_inject word_uint_eq_iff)
qed

lemma uuid_str_segments:
  assumes "length h = (32::nat)"
  shows "take 8 h @ take 4 (drop 8 h) @ take 4 (drop 12 h) @ take 4 (drop 16 h) @ drop 20 h = h"
proof -
  have "take 4 (drop 16 h) @ drop 20 h = drop 16 h"
    using append_take_drop_id [of 4 "drop 16 h"] by simp
  moreover have "take 4 (drop 12 h) @ drop 16 h = drop 12 h"
    using append_take_drop_id [of 4 "drop 12 h"] by simp
  moreover have "take 4 (drop 8 h) @ drop 12 h = drop 8 h"
    using append_take_drop_id [of 4 "drop 8 h"] by simp
  ultimately show ?thesis by simp
qed

lemma uuid_str_inject [simp]: "uuid_str u = uuid_str v \<longleftrightarrow> u = v"
proof
  assume eq: "uuid_str u = uuid_str v"
  let ?f = "\<lambda>s. take 8 s @ take 4 (drop 9 s) @ take 4 (drop 14 s) @ take 4 (drop 19 s) @ drop 24 s"
  have f: "?f (uuid_str w) = uuid_hex w" for w
  proof -
    have len: "length (uuid_hex w) = 32" by (simp add: uuid_hex_def)
    then have "?f (uuid_str w) = take 8 (uuid_hex w) @ take 4 (drop 8 (uuid_hex w)) @
        take 4 (drop 12 (uuid_hex w)) @ take 4 (drop 16 (uuid_hex w)) @ drop 20 (uuid_hex w)"
      by (simp add: uuid_str_def Let_def)
    also have "\<dots> = uuid_hex w" by (rule uuid_str_segments [OF len])
    finally show ?thesis .
  qed
  from eq have "uuid_hex u = uuid_hex v" by (metis f)
  then show "u = v" by simp
qed simp

section \<open>JSON documents\<close>

datatype json =
    JNull
  | JBool bool
  | JInt int
  | JFloat pyfloat
  | JStr string
  | JList "json list"
  | JObj "(string \<times> json) list"

definition json_opt :: "('a \<Rightarrow> json) \<Rightarrow> 'a option \<Rightarrow> json" where
  "json_opt f v = (case v of None \<Rightarrow> JNull | Some x \<Rightarrow> f x)"

end
