(* ===== verification/Domain_Types.thy ===== *)
theory Domain_Types
  imports Pyvalues
begin

text \<open>
  The canonical enums and value objects of \<open>omp/domain/types.py\<close> and the errors of
  \<open>omp/domain/errors.py\<close>. Values are typed as the source annotates them, so the
  \<open>isinstance\<close> tests of the source that only reject values of another type have no branch
  here. A dataclass with a \<open>__post_init__\<close> is a record together with a checking
  constructor \<open>*_post_init\<close> that raises or returns the value as the source stores it.
\<close>

section \<open>Errors\<close>

datatype error =
    ValidationError
  | NotFoundError
  | OwnerAccessError
  | InvalidStateTransitionError
  | VersionConflictError
  | IdempotencyConflictError
  | IdempotencyInProgressError
  | ImportConflictError
  | EmbeddingProfileMismatchError
  | RelationConflictError
  | StorageError
  | ConsentRequiredError
  | CaptureDisabledError
  | ConnectionRevokedError
  | ScopeDeniedError
  | SpaceForbiddenError
  | RestoreBlockedByTombstoneError
  | PyValueError
  | PyKeyError
  | PyTypeError
  | PyRuntimeError
  | PyPermissionError

text \<open>The \<open>code\<close> attribute of the error classes; builtin exceptions have none.\<close>

fun error_code :: "error \<Rightarrow> string option" where
  "error_code ValidationError = Some ''validation_error''"
| "error_code NotFoundError = Some ''not_found''"
| "error_code OwnerAccessError = Some ''owner_access_denied''"
| "error_code InvalidStateTransitionError = Some ''invalid_state_transition''"
| "error_code VersionConflictError = Some ''version_conflict''"
| "error_code IdempotencyConflictError = Some ''idempotency_conflict''"
| "error_code IdempotencyInProgressError = Some ''idempotency_in_progress''"
| "error_code ImportConflictError = Some ''import_conflict''"
| "error_code EmbeddingProfileMismatchError = Some ''embedding_profile_mismatch''"
| "error_code RelationConflictError = Some ''relation_conflict''"
| "error_code StorageError = Some ''storage_error''"
| "error_code ConsentRequiredError = Some ''consent_required''"
| "error_code CaptureDisabledError = Some ''capture_disabled''"
| "error_code ConnectionRevokedError = Some ''connection_revoked''"
| "error_code ScopeDeniedError = Some ''scope_denied''"
| "error_code SpaceForbiddenError = Some ''space_forbidden''"
| "error_code RestoreBlockedByTombstoneError = Some ''restore_blocked_by_tombstone''"
| "error_code PyValueError = None"
| "error_code PyKeyError = None"
| "error_code PyTypeError = None"
| "error_code PyRuntimeError = None"
| "error_code PyPermissionError = None"

type_synonym 'a result = "(error, 'a) res"

section \<open>Enums\<close>

datatype MemoryType =
    FACT | PREFERENCE | DECISION | INSIGHT | HYPOTHESIS | LESSON | GOAL | PROJECT_CONTEXT
  | CONCEPT | RELATIONSHIP | OPEN_QUESTION | MENTAL_NOTE

fun memory_type_value :: "MemoryType \<Rightarrow> string" where
  "memory_type_value FACT = ''fact''"
| "memory_type_value PREFERENCE = ''preference''"
| "memory_type_value DECISION = ''decision''"
| "memory_type_value INSIGHT = ''insight''"
| "memory_type_value HYPOTHESIS = ''hypothesis''"
| "memory_type_value LESSON = ''lesson''"
| "memory_type_value GOAL = ''goal''"
| "memory_type_value PROJECT_CONTEXT = ''project_context''"
| "memory_type_value CONCEPT = ''concept''"
| "memory_type_value RELATIONSHIP = ''relationship''"
| "memory_type_value OPEN_QUESTION = ''open_question''"
| "memory_type_value MENTAL_NOTE = ''mental_note''"

datatype MemoryState =
    CANDIDATE | CONFIRMED | PINNED | STALE | ACTIVE | SUPERSEDED | CONTRADICTED | ARCHIVED

fun memory_state_value :: "MemoryState \<Rightarrow> string" where
  "memory_state_value CANDIDATE = ''candidate''"
| "memory_state_value CONFIRMED = ''confirmed''"
| "memory_state_value PINNED = ''pinned''"
| "memory_state_value STALE = ''stale''"
| "memory_state_value ACTIVE = ''active''"
| "memory_state_value SUPERSEDED = ''superseded''"
| "memory_state_value CONTRADICTED = ''contradicted''"
| "memory_state_value ARCHIVED = ''archived''"

datatype RelationType =
    SUPPORTS | CONTRADICTS | DERIVED_FROM | RELATED_TO | SUPERSEDES | APPLIES_TO

fun relation_type_value :: "RelationType \<Rightarrow> string" where
  "relation_type_value SUPPORTS = ''supports''"
| "relation_type_value CONTRADICTS = ''contradicts''"
| "relation_type_value DERIVED_FROM = ''derived_from''"
| "relation_type_value RELATED_TO = ''related_to''"
| "relation_type_value SUPERSEDES = ''supersedes''"
| "relation_type_value APPLIES_TO = ''applies_to''"

datatype SourceType = USER | AGENT | CONVERSATION | IMPORT | SYSTEM | UNKNOWN

fun source_type_value :: "SourceType \<Rightarrow> string" where
  "source_type_value USER = ''user''"
| "source_type_value AGENT = ''agent''"
| "source_type_value CONVERSATION = ''conversation''"
| "source_type_value IMPORT = ''import''"
| "source_type_value SYSTEM = ''system''"
| "source_type_value UNKNOWN = ''unknown''"

datatype ConsentMode = MANUAL | ASSISTED | AUTOMATIC | LEGACY_UNVERIFIED

fun consent_mode_value :: "ConsentMode \<Rightarrow> string" where
  "consent_mode_value MANUAL = ''manual''"
| "consent_mode_value ASSISTED = ''assisted''"
| "consent_mode_value AUTOMATIC = ''automatic''"
| "consent_mode_value LEGACY_UNVERIFIED = ''legacy_unverified''"

datatype ConsentReason =
    USER_REQUESTED_MEMORY | USER_CONFIRMED_INBOX | CONNECTION_POLICY_AUTOMATIC | IMPORT_AUTHORIZED

fun consent_reason_value :: "ConsentReason \<Rightarrow> string" where
  "consent_reason_value USER_REQUESTED_MEMORY = ''user_requested_memory''"
| "consent_reason_value USER_CONFIRMED_INBOX = ''user_confirmed_inbox''"
| "consent_reason_value CONNECTION_POLICY_AUTOMATIC = ''connection_policy_automatic''"
| "consent_reason_value IMPORT_AUTHORIZED = ''import_authorized''"

text \<open>Looking an enum member up by its value, as \<open>MemoryType("fact")\<close> does.\<close>

fun enum_of :: "('a \<Rightarrow> string) \<Rightarrow> 'a list \<Rightarrow> string \<Rightarrow> 'a result" where
  "enum_of f [] s = Inl PyValueError"
| "enum_of f (x # xs) s = (if f x = s then Inr x else enum_of f xs s)"

definition memory_types :: "MemoryType list" where
  "memory_types = [FACT, PREFERENCE, DECISION, INSIGHT, HYPOTHESIS, LESSON, GOAL, PROJECT_CONTEXT,
     CONCEPT, RELATIONSHIP, OPEN_QUESTION, MENTAL_NOTE]"

definition memory_states :: "MemoryState list" where
  "memory_states = [CANDIDATE, CONFIRMED, PINNED, STALE, ACTIVE, SUPERSEDED, CONTRADICTED, ARCHIVED]"

definition relation_types :: "RelationType list" where
  "relation_types = [SUPPORTS, CONTRADICTS, DERIVED_FROM, RELATED_TO, SUPERSEDES, APPLIES_TO]"

definition memory_type_of :: "string \<Rightarrow> MemoryType result" where
  "memory_type_of = enum_of memory_type_value memory_types"

definition memory_state_of :: "string \<Rightarrow> MemoryState result" where
  "memory_state_of = enum_of memory_state_value memory_states"

definition relation_type_of :: "string \<Rightarrow> RelationType result" where
  "relation_type_of = enum_of relation_type_value relation_types"

lemma memory_type_of_value [simp]: "memory_type_of (memory_type_value t) = Inr t"
  by (cases t) (simp_all add: memory_type_of_def memory_types_def)

lemma memory_state_of_value [simp]: "memory_state_of (memory_state_value t) = Inr t"
  by (cases t) (simp_all add: memory_state_of_def memory_states_def)

lemma relation_type_of_value [simp]: "relation_type_of (relation_type_value t) = Inr t"
  by (cases t) (simp_all add: relation_type_of_def relation_types_def)

lemma enum_value_inject [simp]:
  "relation_type_value r = relation_type_value r' \<longleftrightarrow> r = r'"
  "memory_state_value a = memory_state_value a' \<longleftrightarrow> a = a'"
  "memory_type_value t = memory_type_value t' \<longleftrightarrow> t = t'"
  by (metis relation_type_of_value sum.inject(2) memory_state_of_value memory_type_of_value)+

section \<open>Field validators\<close>

definition MAX_OWNER_ID_LENGTH :: int where "MAX_OWNER_ID_LENGTH = 256"
definition MAX_SPACE_LENGTH :: int where "MAX_SPACE_LENGTH = 256"
definition MAX_IDEMPOTENCY_KEY_LENGTH :: int where "MAX_IDEMPOTENCY_KEY_LENGTH = 256"
definition MAX_OPAQUE_ID_LENGTH :: int where "MAX_OPAQUE_ID_LENGTH = 256"
definition MAX_EVIDENCE_ITEM_LENGTH :: int where "MAX_EVIDENCE_ITEM_LENGTH = 512"

definition ensure_aware :: "datetime \<Rightarrow> datetime result" where
  "ensure_aware value = (if \<not> dt_aware value then Inl ValidationError
     else Inr (astimezone_utc value))"

definition validate_owner_id :: "string \<Rightarrow> string result" where
  "validate_owner_id value =
     (if py_strip value = [] then Inl ValidationError
      else if int (length (py_strip value)) > MAX_OWNER_ID_LENGTH then Inl ValidationError
      else Inr (py_strip value))"

definition validate_space :: "string option \<Rightarrow> string option result" where
  "validate_space value = (case value of None \<Rightarrow> Inr None | Some v \<Rightarrow>
     let normalized = py_strip v in
     if normalized = [] \<or> int (length normalized) > MAX_SPACE_LENGTH then Inl ValidationError
     else Inr (Some normalized))"

definition validate_idempotency_key :: "string option \<Rightarrow> string option result" where
  "validate_idempotency_key value = (case value of None \<Rightarrow> Inr None | Some v \<Rightarrow>
     let normalized = py_strip v in
     if normalized = [] \<or> int (length normalized) > MAX_IDEMPOTENCY_KEY_LENGTH then Inl ValidationError
     else Inr (Some normalized))"

definition validate_unit_interval :: "pyfloat \<Rightarrow> pyfloat result" where
  "validate_unit_interval value =
     (if \<not> (0 \<le> value \<and> value \<le> 1) then Inl ValidationError else Inr value)"

lemma ensure_aware_Inr [act_simps]:
  "ensure_aware d = Inr d' \<longleftrightarrow> dt_aware d \<and> d' = astimezone_utc d"
  by (auto simp: ensure_aware_def)

definition owner_id_ok :: "string \<Rightarrow> bool" where
  "owner_id_ok v \<longleftrightarrow> py_strip v \<noteq> [] \<and> int (length (py_strip v)) \<le> MAX_OWNER_ID_LENGTH"

definition label_ok :: "int \<Rightarrow> string option \<Rightarrow> bool" where
  "label_ok n v \<longleftrightarrow> (\<forall>x. v = Some x \<longrightarrow> py_strip x \<noteq> [] \<and> int (length (py_strip x)) \<le> n)"

lemma validate_Inr [act_simps]:
  "validate_owner_id v = Inr w \<longleftrightarrow> owner_id_ok v \<and> w = py_strip v"
  "validate_space sp = Inr x \<longleftrightarrow> label_ok MAX_SPACE_LENGTH sp \<and> x = map_option py_strip sp"
  "validate_idempotency_key k = Inr y \<longleftrightarrow>
     label_ok MAX_IDEMPOTENCY_KEY_LENGTH k \<and> y = map_option py_strip k"
  "validate_unit_interval f = Inr g \<longleftrightarrow> 0 \<le> f \<and> f \<le> 1 \<and> g = f"
  by (auto simp: validate_owner_id_def owner_id_ok_def validate_space_def label_ok_def
      validate_idempotency_key_def validate_unit_interval_def Let_def split: option.splits)

text \<open>An accepted label is never the empty string, so it is truthy in Python.\<close>

lemma py_strip_Nil [simp]: "py_strip [] = []"
  by (simp add: py_strip_def)

lemma label_ok_truthy: "label_ok n v \<Longrightarrow> py_truthy v \<longleftrightarrow> v \<noteq> None"
  by (auto simp: label_ok_def py_truthy_def split: option.splits)

section \<open>Provenance\<close>

record Provenance =
  pv_source_type :: SourceType
  pv_captured_at :: datetime
  pv_source_id :: "string option"
  pv_source_model :: "string option"
  pv_evidence :: "string list"
  pv_source_client :: "string option"
  pv_source_connection_id :: "string option"
  pv_conversation_id :: "string option"
  pv_message_id :: "string option"

definition not_blank :: "string option \<Rightarrow> bool" where
  "not_blank v = (case v of None \<Rightarrow> True | Some s \<Rightarrow> py_strip s \<noteq> [])"

definition opaque_id_ok :: "string option \<Rightarrow> bool" where
  "opaque_id_ok v = (case v of None \<Rightarrow> True
     | Some s \<Rightarrow> py_strip s \<noteq> [] \<and> int (length s) \<le> MAX_OPAQUE_ID_LENGTH)"

definition provenance_post_init :: "Provenance \<Rightarrow> Provenance result" where
  "provenance_post_init p =
     res_bind (ensure_aware (pv_captured_at p)) (\<lambda>captured_at.
     res_bind (res_guard (not_blank (pv_source_id p)) ValidationError) (\<lambda>_.
     res_bind (res_guard (not_blank (pv_source_model p)) ValidationError) (\<lambda>_.
     res_bind (res_guard (\<not> list_ex (\<lambda>item. py_strip item = []) (pv_evidence p)) ValidationError) (\<lambda>_.
     res_bind (res_guard (opaque_id_ok (pv_source_client p)) ValidationError) (\<lambda>_.
     res_bind (res_guard (opaque_id_ok (pv_source_connection_id p)) ValidationError) (\<lambda>_.
     res_bind (res_guard (opaque_id_ok (pv_conversation_id p)) ValidationError) (\<lambda>_.
     res_bind (res_guard (opaque_id_ok (pv_message_id p)) ValidationError) (\<lambda>_.
     res_bind (res_guard
       (\<not> list_ex (\<lambda>item. int (length item) > MAX_EVIDENCE_ITEM_LENGTH) (pv_evidence p)) ValidationError) (\<lambda>_.
     Inr (p\<lparr>pv_captured_at := captured_at\<rparr>))))))))))"

section \<open>CaptureConsent\<close>

record CaptureConsent =
  cc_mode :: ConsentMode
  cc_consent_id :: string
  cc_reason_code :: ConsentReason
  cc_policy_version :: string
  cc_granted_at :: datetime

definition capture_consent_post_init :: "CaptureConsent \<Rightarrow> CaptureConsent result" where
  "capture_consent_post_init c =
     res_bind (res_guard (opaque_id_ok (Some (cc_consent_id c))) ValidationError) (\<lambda>_.
     res_bind (res_guard (opaque_id_ok (Some (cc_policy_version c))) ValidationError) (\<lambda>_.
     res_bind (ensure_aware (cc_granted_at c)) (\<lambda>_.
     Inr c)))"

section \<open>EmbeddingDescriptor and Relation\<close>

record EmbeddingDescriptor =
  ed_profile_id :: string
  ed_profile_version :: string
  ed_dimension :: int
  ed_metric :: string

definition embedding_descriptor_post_init :: "EmbeddingDescriptor \<Rightarrow> EmbeddingDescriptor result" where
  "embedding_descriptor_post_init d =
     (if py_strip (ed_profile_id d) = [] \<or> py_strip (ed_profile_version d) = [] then Inl ValidationError
      else if ed_dimension d \<le> 0 then Inl ValidationError
      else if ed_metric d \<notin> {''cosine'', ''l2'', ''inner_product''} then Inl ValidationError
      else Inr d)"

record Relation =
  rel_source_id :: uuid
  rel_target_id :: uuid
  rel_type :: RelationType
  rel_owner_id :: string
  rel_created_at :: datetime

definition relation_post_init :: "Relation \<Rightarrow> Relation result" where
  "relation_post_init r =
     res_bind (validate_owner_id (rel_owner_id r)) (\<lambda>_.
     res_bind (ensure_aware (rel_created_at r)) (\<lambda>_.
     res_bind (res_guard (rel_source_id r \<noteq> rel_target_id r) ValidationError) (\<lambda>_.
     Inr r)))"

lemma relation_post_init_Inr [act_simps]:
  "relation_post_init r = Inr r' \<longleftrightarrow> r' = r \<and> owner_id_ok (rel_owner_id r) \<and>
     dt_aware (rel_created_at r) \<and> rel_source_id r \<noteq> rel_target_id r"
  by (auto simp: relation_post_init_def act_simps)

lemma embedding_descriptor_post_init_Inr:
  "embedding_descriptor_post_init d = Inr d' \<Longrightarrow> d' = d"
  by (auto simp: embedding_descriptor_post_init_def split: if_splits)

text \<open>Constructing a provenance twice changes nothing: its timestamp is already in UTC.\<close>

lemma provenance_post_init_idem:
  "provenance_post_init p = Inr q \<Longrightarrow> provenance_post_init q = Inr q"
  by (auto simp: provenance_post_init_def act_simps)

end
