(* ===== verification/Memory_Aggregate.thy ===== *)
theory Memory_Aggregate
  imports Domain_Types
begin

text \<open>
  The memory aggregate of \<open>omp/domain/memory.py\<close>: the record, the checks its constructor
  makes, \<open>create\<close>, \<open>snapshot\<close>, and \<open>evolve\<close> with the lifecycle table of
  \<open>_assert_transition\<close>. A keyword argument of \<open>evolve\<close> that may be \<open>_UNSET\<close> is an
  option; an argument that may also be \<open>None\<close> is an option of an option.
\<close>

record MemoryVersion =
  mv_memory_id :: uuid
  mv_version :: int
  mv_content :: string
  mv_memory_type :: MemoryType
  mv_state :: MemoryState
  mv_importance :: pyfloat
  mv_confidence :: pyfloat
  mv_space :: "string option"
  mv_occurred_at :: "datetime option"
  mv_provenance :: Provenance
  mv_changed_at :: datetime
  mv_change_reason :: string
  mv_capture_consent :: "CaptureConsent option"

record Memory =
  m_id :: uuid
  m_owner_id :: string
  m_content :: string
  m_memory_type :: MemoryType
  m_importance :: pyfloat
  m_confidence :: pyfloat
  m_state :: MemoryState
  m_version :: int
  m_created_at :: datetime
  m_updated_at :: datetime
  m_occurred_at :: "datetime option"
  m_space :: "string option"
  m_provenance :: Provenance
  m_embedding :: "EmbeddingDescriptor option"
  m_idempotency_key :: "string option"
  m_tenant_id :: "string option"
  m_capture_consent :: "CaptureConsent option"

definition normalize_content :: "string \<Rightarrow> string" where
  "normalize_content s = py_join '' '' (py_split s)"

definition memory_post_init :: "Memory \<Rightarrow> Memory result" where
  "memory_post_init m =
     res_bind (validate_owner_id (m_owner_id m)) (\<lambda>_.
     res_bind (case m_tenant_id m of None \<Rightarrow> Inr [] | Some t \<Rightarrow> validate_owner_id t) (\<lambda>_.
     res_bind (res_guard (py_strip (m_content m) \<noteq> []) ValidationError) (\<lambda>_.
     let content = normalize_content (m_content m) in
     res_bind (res_guard (int (length content) \<le> 100000) ValidationError) (\<lambda>_.
     res_bind (validate_unit_interval (m_importance m)) (\<lambda>_.
     res_bind (validate_unit_interval (m_confidence m)) (\<lambda>_.
     res_bind (res_guard (1 \<le> m_version m) ValidationError) (\<lambda>_.
     res_bind (ensure_aware (m_created_at m)) (\<lambda>created_at.
     res_bind (ensure_aware (m_updated_at m)) (\<lambda>updated_at.
     res_bind (res_guard (\<not> dt_instant updated_at < dt_instant created_at) ValidationError) (\<lambda>_.
     res_bind (case m_occurred_at m of None \<Rightarrow> Inr updated_at | Some t \<Rightarrow> ensure_aware t) (\<lambda>_.
     res_bind (validate_space (m_space m)) (\<lambda>_.
     res_bind (validate_idempotency_key (m_idempotency_key m)) (\<lambda>_.
     Inr (m\<lparr>m_content := content\<rparr>))))))))))))))"

text \<open>The well-formedness of a constructed memory.\<close>

definition memory_ok :: "Memory \<Rightarrow> bool" where
  "memory_ok m \<longleftrightarrow>
     owner_id_ok (m_owner_id m) \<and>
     (\<forall>t. m_tenant_id m = Some t \<longrightarrow> owner_id_ok t) \<and>
     py_strip (m_content m) \<noteq> [] \<and>
     normalize_content (m_content m) = m_content m \<and>
     int (length (m_content m)) \<le> 100000 \<and>
     0 \<le> m_importance m \<and> m_importance m \<le> 1 \<and>
     0 \<le> m_confidence m \<and> m_confidence m \<le> 1 \<and>
     1 \<le> m_version m \<and>
     dt_aware (m_created_at m) \<and> dt_aware (m_updated_at m) \<and>
     dt_instant (m_created_at m) \<le> dt_instant (m_updated_at m) \<and>
     (\<forall>t. m_occurred_at m = Some t \<longrightarrow> dt_aware t) \<and>
     label_ok MAX_SPACE_LENGTH (m_space m) \<and>
     label_ok MAX_IDEMPOTENCY_KEY_LENGTH (m_idempotency_key m)"

lemma normalize_content_idem [simp]:
  "normalize_content (normalize_content s) = normalize_content s"
  unfolding normalize_content_def by (metis py_split_join py_split_words)

lemma normalize_content_blank [simp]:
  "py_strip (normalize_content s) = [] \<longleftrightarrow> py_strip s = []"
  by (simp add: normalize_content_def py_strip_normalized)

lemma length_normalize_content: "length (normalize_content s) \<le> length s"
  using length_py_join_split_aux [of "[]" s] by (simp add: normalize_content_def py_split_def)

text \<open>
  The constructor accepts exactly the memories whose normalised form is well-formed, and
  returns that form.
\<close>

lemma memory_post_init_Inr [act_simps]:
  "memory_post_init m = Inr n \<longleftrightarrow>
     n = m\<lparr>m_content := normalize_content (m_content m)\<rparr> \<and> memory_ok n"
proof -
  have t: "(case m_tenant_id m of None \<Rightarrow> Inr [] | Some t \<Rightarrow> validate_owner_id t) = Inr x \<longleftrightarrow>
      (\<forall>t. m_tenant_id m = Some t \<longrightarrow> owner_id_ok t) \<and>
      x = (case m_tenant_id m of None \<Rightarrow> [] | Some t \<Rightarrow> py_strip t)" for x
    by (auto simp: act_simps split: option.splits)
  have o: "(case m_occurred_at m of None \<Rightarrow> Inr u | Some t \<Rightarrow> ensure_aware t) = Inr x \<longleftrightarrow>
      (\<forall>t. m_occurred_at m = Some t \<longrightarrow> dt_aware t) \<and>
      x = (case m_occurred_at m of None \<Rightarrow> u | Some t \<Rightarrow> astimezone_utc t)" for x u
    by (auto simp: act_simps split: option.splits)
  show ?thesis
    by (auto simp: memory_post_init_def memory_ok_def Let_def act_simps t o not_less)
qed

lemma memory_ok_post_init: "memory_ok m \<Longrightarrow> memory_post_init m = Inr m"
  by (simp add: memory_post_init_Inr) (simp add: memory_ok_def)

section \<open>create and snapshot\<close>

record CreateArgs =
  ca_owner_id :: string
  ca_content :: string
  ca_memory_type :: MemoryType
  ca_importance :: pyfloat
  ca_confidence :: pyfloat
  ca_provenance :: Provenance
  ca_capture_consent :: "CaptureConsent option"
  ca_tenant_id :: "string option"
  ca_space :: "string option"
  ca_occurred_at :: "datetime option"
  ca_embedding :: "EmbeddingDescriptor option"
  ca_idempotency_key :: "string option"
  ca_initial_state :: MemoryState

text \<open>
  \<open>Memory.create\<close> with the time passed by its callers and the identifier \<open>uuid4()\<close>
  returns, which no caller under \<open>src/\<close> overrides.
\<close>

definition memory_create :: "CreateArgs \<Rightarrow> uuid \<Rightarrow> datetime \<Rightarrow> Memory result" where
  "memory_create a uuid4 now =
     res_bind (ensure_aware now) (\<lambda>timestamp.
     memory_post_init
       \<lparr>m_id = uuid4, m_owner_id = ca_owner_id a, m_content = ca_content a,
        m_memory_type = ca_memory_type a, m_importance = ca_importance a,
        m_confidence = ca_confidence a, m_state = ca_initial_state a, m_version = 1,
        m_created_at = timestamp, m_updated_at = timestamp, m_occurred_at = ca_occurred_at a,
        m_space = ca_space a, m_provenance = ca_provenance a, m_embedding = ca_embedding a,
        m_idempotency_key = ca_idempotency_key a, m_tenant_id = ca_tenant_id a,
        m_capture_consent = ca_capture_consent a\<rparr>)"

definition memory_snapshot :: "Memory \<Rightarrow> string \<Rightarrow> MemoryVersion" where
  "memory_snapshot m change_reason =
     \<lparr>mv_memory_id = m_id m, mv_version = m_version m, mv_content = m_content m,
      mv_memory_type = m_memory_type m, mv_state = m_state m, mv_importance = m_importance m,
      mv_confidence = m_confidence m, mv_space = m_space m, mv_occurred_at = m_occurred_at m,
      mv_provenance = m_provenance m, mv_changed_at = m_updated_at m,
      mv_change_reason = change_reason, mv_capture_consent = m_capture_consent m\<rparr>"

section \<open>evolve and the lifecycle\<close>

fun allowed_transitions :: "MemoryState \<Rightarrow> MemoryState list" where
  "allowed_transitions CANDIDATE = [CONFIRMED, PINNED]"
| "allowed_transitions CONFIRMED =
     [CONFIRMED, PINNED, ACTIVE, STALE, SUPERSEDED, CONTRADICTED, ARCHIVED]"
| "allowed_transitions PINNED =
     [PINNED, CONFIRMED, ACTIVE, STALE, SUPERSEDED, CONTRADICTED, ARCHIVED]"
| "allowed_transitions STALE = [CONFIRMED, PINNED]"
| "allowed_transitions ACTIVE = [ACTIVE, SUPERSEDED, CONTRADICTED, ARCHIVED]"
| "allowed_transitions CONTRADICTED = [ACTIVE, CONFIRMED]"
| "allowed_transitions ARCHIVED = [ACTIVE, CONFIRMED]"
| "allowed_transitions SUPERSEDED = []"

definition assert_transition :: "MemoryState \<Rightarrow> MemoryState \<Rightarrow> uuid option \<Rightarrow> unit result" where
  "assert_transition state target related_memory_id =
     (if target = state then Inr ()
      else if target \<notin> set (allowed_transitions state) then Inl InvalidStateTransitionError
      else if target \<in> {SUPERSEDED, CONTRADICTED} \<and> related_memory_id = None
        then Inl InvalidStateTransitionError
      else Inr ())"

record EvolveArgs =
  ev_now :: datetime
  ev_content :: "string option"
  ev_memory_type :: "MemoryType option"
  ev_importance :: "pyfloat option"
  ev_confidence :: "pyfloat option"
  ev_state :: "MemoryState option"
  ev_occurred_at :: "datetime option option"
  ev_space :: "string option option"
  ev_provenance :: "Provenance option"
  ev_embedding :: "EmbeddingDescriptor option option"
  ev_change_reason :: string
  ev_related_memory_id :: "uuid option"

definition evolve_defaults :: "datetime \<Rightarrow> EvolveArgs" where
  "evolve_defaults now =
     \<lparr>ev_now = now, ev_content = None, ev_memory_type = None, ev_importance = None,
      ev_confidence = None, ev_state = None, ev_occurred_at = None, ev_space = None,
      ev_provenance = None, ev_embedding = None, ev_change_reason = ''updated'',
      ev_related_memory_id = None\<rparr>"

definition or_default :: "'a option \<Rightarrow> 'a \<Rightarrow> 'a" where
  "or_default v d = (case v of None \<Rightarrow> d | Some x \<Rightarrow> x)"

definition memory_evolve :: "Memory \<Rightarrow> EvolveArgs \<Rightarrow> Memory result" where
  "memory_evolve m a =
     (let next_state = or_default (ev_state a) (m_state m) in
     res_bind (assert_transition (m_state m) next_state (ev_related_memory_id a)) (\<lambda>_.
     res_bind (res_guard (py_strip (ev_change_reason a) \<noteq> []) ValidationError) (\<lambda>_.
     res_bind (ensure_aware (ev_now a)) (\<lambda>now.
     memory_post_init (m
       \<lparr>m_content := or_default (ev_content a) (m_content m),
        m_memory_type := or_default (ev_memory_type a) (m_memory_type m),
        m_importance := or_default (ev_importance a) (m_importance m),
        m_confidence := or_default (ev_confidence a) (m_confidence m),
        m_state := next_state,
        m_occurred_at := or_default (ev_occurred_at a) (m_occurred_at m),
        m_space := or_default (ev_space a) (m_space m),
        m_provenance := or_default (ev_provenance a) (m_provenance m),
        m_embedding := or_default (ev_embedding a) (m_embedding m),
        m_version := m_version m + 1,
        m_updated_at := now\<rparr>)))))"

lemma assert_transition_Inr [act_simps]:
  "assert_transition a b r = Inr u \<longleftrightarrow>
     b = a \<or> b \<in> set (allowed_transitions a) \<and> (b \<in> {SUPERSEDED, CONTRADICTED} \<longrightarrow> r \<noteq> None)"
  by (auto simp: assert_transition_def)

text \<open>Inversion of \<open>evolve\<close>: what a successful call did.\<close>

lemma memory_evolve_Inr:
  assumes "memory_evolve m a = Inr n"
  shows "memory_ok n" "m_id n = m_id m" "m_owner_id n = m_owner_id m"
    "m_created_at n = m_created_at m" "m_tenant_id n = m_tenant_id m"
    "m_idempotency_key n = m_idempotency_key m" "m_capture_consent n = m_capture_consent m"
    "m_version n = m_version m + 1" "m_updated_at n = astimezone_utc (ev_now a)"
    "m_state n = or_default (ev_state a) (m_state m)"
    "m_state n = m_state m \<or> m_state n \<in> set (allowed_transitions (m_state m))"
    "m_content n = normalize_content (or_default (ev_content a) (m_content m))"
    "m_embedding n = or_default (ev_embedding a) (m_embedding m)"
  using assms unfolding memory_evolve_def Let_def by (auto simp: act_simps)

lemma memory_create_Inr:
  assumes "memory_create a u now = Inr n"
  shows "memory_ok n" "m_id n = u" "m_owner_id n = ca_owner_id a" "m_version n = 1"
    "m_state n = ca_initial_state a" "m_tenant_id n = ca_tenant_id a"
    "m_idempotency_key n = ca_idempotency_key a" "m_embedding n = ca_embedding a"
    "m_content n = normalize_content (ca_content a)" "m_space n = ca_space a"
    "m_memory_type n = ca_memory_type a" "m_capture_consent n = ca_capture_consent a"
    "m_updated_at n = astimezone_utc now"
  using assms unfolding memory_create_def by (auto simp: act_simps)

section \<open>Equality of memories\<close>

text \<open>
  The \<open>==\<close> of the frozen dataclasses: field by field, where datetimes compare by instant.
  \<open>memory_key\<close> is the tuple of comparison keys.
\<close>

definition provenance_key where
  "provenance_key p = (pv_source_type p, dt_key (pv_captured_at p), pv_source_id p,
     pv_source_model p, pv_evidence p, pv_source_client p, pv_source_connection_id p,
     pv_conversation_id p, pv_message_id p)"

definition consent_key where
  "consent_key c = (cc_mode c, cc_consent_id c, cc_reason_code c, cc_policy_version c,
     dt_key (cc_granted_at c))"

definition memory_key where
  "memory_key m = (m_id m, m_owner_id m, m_content m, m_memory_type m, m_importance m,
     m_confidence m, m_state m, m_version m, dt_key (m_created_at m), dt_key (m_updated_at m),
     map_option dt_key (m_occurred_at m), m_space m, provenance_key (m_provenance m),
     m_embedding m, m_idempotency_key m, m_tenant_id m, map_option consent_key (m_capture_consent m))"

definition memory_version_key where
  "memory_version_key v = (mv_memory_id v, mv_version v, mv_content v, mv_memory_type v,
     mv_state v, mv_importance v, mv_confidence v, mv_space v, map_option dt_key (mv_occurred_at v),
     provenance_key (mv_provenance v), dt_key (mv_changed_at v), mv_change_reason v,
     map_option consent_key (mv_capture_consent v))"

definition memory_eq :: "Memory \<Rightarrow> Memory \<Rightarrow> bool" where
  "memory_eq m n \<longleftrightarrow> memory_key m = memory_key n"

lemma memory_eq_refl [simp]: "memory_eq m m"
  by (simp add: memory_eq_def)

lemma memory_eqD:
  "memory_eq m n \<Longrightarrow> m_id m = m_id n"
  "memory_eq m n \<Longrightarrow> m_owner_id m = m_owner_id n"
  "memory_eq m n \<Longrightarrow> m_version m = m_version n"
  by (simp_all add: memory_eq_def memory_key_def)

end
