(* ===== verification/App_Models.thy ===== *)
theory App_Models
  imports Memory_Aggregate
begin

text \<open>
  Commands, results and port values of \<open>omp/application/models.py\<close> and
  \<open>omp/application/ports.py\<close>. A frozen set of the source is a finite \<open>set\<close>.
\<close>

section \<open>Ports\<close>

record EmbeddingProfile =
  ep_id :: string
  ep_version :: string
  ep_dimension :: int
  ep_metric :: string

definition profile_descriptor :: "EmbeddingProfile \<Rightarrow> EmbeddingDescriptor result" where
  "profile_descriptor p = embedding_descriptor_post_init
     \<lparr>ed_profile_id = ep_id p, ed_profile_version = ep_version p,
      ed_dimension = ep_dimension p, ed_metric = ep_metric p\<rparr>"

record IdempotencyLookup =
  il_memory :: Memory
  il_fingerprint :: string

datatype IdempotencyOperationType = UPDATE | FORGET | CONFIRM | PIN | DISCARD

fun operation_type_value :: "IdempotencyOperationType \<Rightarrow> string" where
  "operation_type_value UPDATE = ''update''"
| "operation_type_value FORGET = ''forget''"
| "operation_type_value CONFIRM = ''confirm''"
| "operation_type_value PIN = ''pin''"
| "operation_type_value DISCARD = ''discard''"

lemma operation_type_value_inject [simp]:
  "operation_type_value a = operation_type_value b \<longleftrightarrow> a = b"
  by (cases a; cases b) simp_all

record IdempotencyClaim =
  ic_owner_id :: string
  ic_operation_type :: IdempotencyOperationType
  ic_idempotency_key :: string
  ic_fingerprint :: string
  ic_replay :: bool
  ic_memory_id :: "uuid option"
  ic_result_version :: "int option"
  ic_result_status :: "string option"

record CreateMemoryResult =
  cr_memory :: Memory
  cr_created :: bool

record MemorySearchCandidate =
  sc_memory :: Memory
  sc_similarity :: pyfloat
  sc_profile :: EmbeddingProfile

section \<open>Commands and results\<close>

record WriteMemoryCommand =
  wr_owner_id :: string
  wr_content :: string
  wr_memory_type :: MemoryType
  wr_provenance :: Provenance
  wr_importance :: pyfloat
  wr_confidence :: pyfloat
  wr_space :: "string option"
  wr_occurred_at :: "datetime option"
  wr_idempotency_key :: "string option"
  wr_tenant_id :: "string option"

record WriteMemoryResult =
  wres_memory :: Memory
  wres_created :: bool

record UpdateMemoryCommand =
  up_owner_id :: string
  up_memory_id :: uuid
  up_expected_version :: int
  up_content :: "string option"
  up_memory_type :: "MemoryType option"
  up_importance :: "pyfloat option"
  up_confidence :: "pyfloat option"
  up_state :: "MemoryState option"
  up_occurred_at :: "datetime option"
  up_space :: "string option"
  up_provenance :: "Provenance option"
  up_supersedes_memory_id :: "uuid option"
  up_contradicts_memory_id :: "uuid option"
  up_change_reason :: string
  up_idempotency_key :: "string option"

record ForgetMemoryCommand =
  fg_owner_id :: string
  fg_memory_id :: uuid
  fg_idempotency_key :: "string option"
  fg_reason_code :: string
  fg_tenant_id :: "string option"

record ForgetMemoryResult =
  fres_memory_id :: uuid
  fres_forgotten :: bool

record SpacePolicy =
  sp_default_recall :: string
  sp_allowed_spaces :: "string set"
  sp_allow_global :: bool
  sp_allow_mental_notes_cross_space :: bool

definition space_policy_allows :: "SpacePolicy \<Rightarrow> string option \<Rightarrow> string option \<Rightarrow> bool" where
  "space_policy_allows p space context_space =
     (if space = context_space then True
      else if space = None \<and> sp_allow_global p then True
      else sp_default_recall p = ''explicit_allowlist'' \<and>
        (case space of None \<Rightarrow> False | Some s \<Rightarrow> s \<in> sp_allowed_spaces p))"

definition default_space_policy :: SpacePolicy where
  "default_space_policy =
     \<lparr>sp_default_recall = ''same_space_only'', sp_allowed_spaces = {}, sp_allow_global = False,
      sp_allow_mental_notes_cross_space = False\<rparr>"

record CaptureMemoryCommand =
  cp_tenant_id :: string
  cp_owner_id :: string
  cp_connection_id :: string
  cp_content :: string
  cp_memory_type :: MemoryType
  cp_space :: "string option"
  cp_provenance :: Provenance
  cp_consent :: CaptureConsent
  cp_idempotency_key :: string
  cp_importance :: pyfloat
  cp_confidence :: pyfloat
  cp_capture_policy :: string
  cp_connection_revoked :: bool
  cp_scopes :: "string set"

record ListInboxCommand =
  li_tenant_id :: string
  li_owner_id :: string
  li_connection_id :: string
  li_space :: "string option"
  li_limit :: int
  li_cursor :: "string option"
  li_connection_revoked :: bool
  li_scopes :: "string set"

record InboxResult =
  ir_candidates :: "Memory list"
  ir_next_cursor :: "string option"

record ConfirmCandidateCommand =
  cf_tenant_id :: string
  cf_owner_id :: string
  cf_connection_id :: string
  cf_memory_id :: uuid
  cf_expected_version :: int
  cf_idempotency_key :: string
  cf_content :: "string option"
  cf_memory_type :: "MemoryType option"
  cf_space :: "string option"
  cf_actor_reason :: string
  cf_connection_revoked :: bool
  cf_scopes :: "string set"

record PinMemoryCommand =
  pn_tenant_id :: string
  pn_owner_id :: string
  pn_connection_id :: string
  pn_memory_id :: uuid
  pn_expected_version :: int
  pn_pinned :: bool
  pn_idempotency_key :: string
  pn_connection_revoked :: bool
  pn_scopes :: "string set"

record DiscardCandidateCommand =
  dc_tenant_id :: string
  dc_owner_id :: string
  dc_connection_id :: string
  dc_memory_id :: uuid
  dc_expected_version :: int
  dc_idempotency_key :: string
  dc_reason_code :: string
  dc_connection_revoked :: bool
  dc_scopes :: "string set"

record DiscardResult =
  dres_memory_id :: uuid
  dres_forgotten :: bool

record RecallMemoryCommand =
  rc_tenant_id :: string
  rc_owner_id :: string
  rc_connection_id :: string
  rc_query :: string
  rc_context_space :: "string option"
  rc_include_spaces :: "string list"
  rc_memory_types :: "MemoryType set option"
  rc_states :: "MemoryState set"
  rc_allow_mental_notes :: bool
  rc_limit :: int
  rc_candidate_limit :: int
  rc_threshold :: pyfloat
  rc_space_policy :: SpacePolicy
  rc_connection_revoked :: bool
  rc_scopes :: "string set"

record MemoryExportRecord =
  xr_memory :: Memory
  xr_history :: "MemoryVersion list"
  xr_relations :: "Relation list"
  xr_embedding :: "pyfloat list option"
  xr_write_fingerprint :: "string option"

type_synonym MemoryImportRecord = MemoryExportRecord

record ImportResult =
  im_imported :: nat
  im_replayed :: nat

record SearchFilters =
  sf_states :: "MemoryState set"
  sf_memory_types :: "MemoryType set option"
  sf_space :: "string option"
  sf_min_importance :: "pyfloat option"
  sf_min_confidence :: "pyfloat option"

record SearchMemoryCommand =
  sr_owner_id :: string
  sr_query :: string
  sr_filters :: SearchFilters
  sr_limit :: int
  sr_candidate_limit :: int
  sr_threshold :: pyfloat

record SearchMemoryItem =
  si_memory :: Memory
  si_score :: pyfloat
  si_similarity :: pyfloat
  si_profile_id :: string
  si_profile_version :: string
  si_reason_retrieved :: string

record SearchMemoryResult =
  sres_items :: "SearchMemoryItem list"
  sres_profile_id :: string
  sres_profile_version :: string

record RecallResult =
  rres_items :: "SearchMemoryItem list"
  rres_count :: nat
  rres_profile_id :: string
  rres_profile_version :: string

record RelateMemoriesCommand =
  rm_owner_id :: string
  rm_source_memory_id :: uuid
  rm_target_memory_id :: uuid
  rm_relation_type :: string

text \<open>
  The default policy keeps a request inside its context space: only the context space itself
  passes, and no space passes when the request names a space outside an empty allowlist.
\<close>

lemma default_space_policy_allows [simp]:
  "space_policy_allows default_space_policy sp ctx \<longleftrightarrow> sp = ctx"
  by (simp add: space_policy_allows_def default_space_policy_def)

end
