(* ===== verification/Memory_Store.thy ===== *)
theory Memory_Store
  imports App_Models
begin

text \<open>
  The in-memory adapters of \<open>omp/application/fakes.py\<close>: the store, the idempotency ledger,
  the memory repository, the administrative repository and the unit of work.

  The store is the record of the seven dictionaries of \<open>InMemoryStore\<close>. A unit of work
  holds the store's transaction lock from \<open>__aenter__\<close> to \<open>__aexit__\<close>, so one unit of
  work is one atomic step of the store, and \<open>__aexit__\<close> puts the snapshot back when the
  body raised: this is \<open>act_atomic\<close>. The copies made by \<open>deepcopy\<close> are the value
  semantics of HOL.
\<close>

section \<open>State\<close>

record StoredIdempotencyOperation =
  so_fingerprint :: string
  so_status :: string
  so_memory_id :: "uuid option"
  so_result_version :: "int option"
  so_result_status :: "string option"

type_synonym op_key = "string \<times> string \<times> string"
type_synonym rel_key = "string \<times> uuid \<times> uuid \<times> string"

record InMemoryStore =
  st_memories :: "(uuid, Memory) dict"
  st_vectors :: "(uuid, pyfloat list) dict"
  st_fingerprints :: "(string \<times> string, string) dict"
  st_history :: "(uuid, MemoryVersion list) dict"
  st_relations :: "(rel_key, Relation) dict"
  st_ops :: "(op_key, StoredIdempotencyOperation) dict"
  st_tombstones :: "(string \<times> string option \<times> uuid) set"

type_synonym 'a store_act = "(InMemoryStore, error, 'a) act"

definition empty_store :: InMemoryStore where
  "empty_store = \<lparr>st_memories = [], st_vectors = [], st_fingerprints = [], st_history = [],
     st_relations = [], st_ops = [], st_tombstones = {}\<rparr>"

section \<open>cosine_similarity\<close>

definition cosine_similarity :: "pyfloat list \<Rightarrow> pyfloat list \<Rightarrow> pyfloat" where
  "cosine_similarity left right =
     (if length left \<noteq> length right then - 1
      else let left_norm = fsqrt (fsum (map (\<lambda>v. fmul v v) left));
               right_norm = fsqrt (fsum (map (\<lambda>v. fmul v v) right))
           in if left_norm = 0 \<or> right_norm = 0 then 0
              else fdiv (fsum (map (\<lambda>(a, b). fmul a b) (zip left right)))
                        (fmul left_norm right_norm))"

section \<open>Idempotency ledger\<close>

definition idem_claim ::
  "string \<Rightarrow> IdempotencyOperationType \<Rightarrow> string \<Rightarrow> string \<Rightarrow> IdempotencyClaim store_act" where
  "idem_claim owner_id operation_type idempotency_key fingerprint s =
     (let key = (owner_id, operation_type_value operation_type, idempotency_key);
          claim = \<lparr>ic_owner_id = owner_id, ic_operation_type = operation_type,
            ic_idempotency_key = idempotency_key, ic_fingerprint = fingerprint, ic_replay = False,
            ic_memory_id = None, ic_result_version = None, ic_result_status = None\<rparr>
      in case dict_get (st_ops s) key of
        None \<Rightarrow>
          (Inr claim,
           s\<lparr>st_ops := dict_set key
              \<lparr>so_fingerprint = fingerprint, so_status = ''in_progress'', so_memory_id = None,
               so_result_version = None, so_result_status = None\<rparr> (st_ops s)\<rparr>)
      | Some prior \<Rightarrow>
          if so_fingerprint prior \<noteq> fingerprint then (Inl IdempotencyConflictError, s)
          else if so_status prior \<noteq> ''completed'' then (Inl IdempotencyInProgressError, s)
          else (Inr (claim\<lparr>ic_replay := True, ic_memory_id := so_memory_id prior,
                  ic_result_version := so_result_version prior,
                  ic_result_status := so_result_status prior\<rparr>), s))"

definition idem_complete ::
  "IdempotencyClaim \<Rightarrow> uuid option \<Rightarrow> int option \<Rightarrow> string \<Rightarrow> unit store_act" where
  "idem_complete claim memory_id result_version result_status s =
     (let key = (ic_owner_id claim, operation_type_value (ic_operation_type claim),
                 ic_idempotency_key claim)
      in case dict_get (st_ops s) key of
        None \<Rightarrow> (Inl IdempotencyConflictError, s)
      | Some operation \<Rightarrow>
          if so_fingerprint operation \<noteq> ic_fingerprint claim then (Inl IdempotencyConflictError, s)
          else if so_status operation = ''completed'' then (Inr (), s)
          else (Inr (), s\<lparr>st_ops := dict_set key
                 (operation\<lparr>so_status := ''completed'', so_memory_id := memory_id,
                    so_result_version := result_version,
                    so_result_status := Some result_status\<rparr>) (st_ops s)\<rparr>))"

section \<open>Memory repository\<close>

definition repo_get :: "InMemoryStore \<Rightarrow> string \<Rightarrow> uuid \<Rightarrow> string option \<Rightarrow> Memory option" where
  "repo_get s owner_id memory_id tenant_id =
     (case dict_get (st_memories s) memory_id of
        None \<Rightarrow> None
      | Some memory \<Rightarrow>
          if m_owner_id memory \<noteq> owner_id then None
          else if tenant_id \<noteq> None \<and> m_tenant_id memory \<noteq> tenant_id then None
          else Some memory)"

definition replace_with_snapshot :: "Memory \<Rightarrow> MemoryVersion \<Rightarrow> Memory" where
  "replace_with_snapshot current snapshot = current
     \<lparr>m_content := mv_content snapshot, m_memory_type := mv_memory_type snapshot,
      m_importance := mv_importance snapshot, m_confidence := mv_confidence snapshot,
      m_state := mv_state snapshot, m_version := mv_version snapshot,
      m_updated_at := mv_changed_at snapshot, m_occurred_at := mv_occurred_at snapshot,
      m_space := mv_space snapshot, m_provenance := mv_provenance snapshot\<rparr>"

definition repo_get_version ::
  "InMemoryStore \<Rightarrow> string \<Rightarrow> uuid \<Rightarrow> int \<Rightarrow> string option \<Rightarrow> Memory option result" where
  "repo_get_version s owner_id memory_id version tenant_id =
     (case repo_get s owner_id memory_id tenant_id of
        None \<Rightarrow> Inr None
      | Some current \<Rightarrow>
          if m_version current = version then Inr (Some current)
          else case find (\<lambda>snapshot. mv_version snapshot = version)
                      (case dict_get (st_history s) memory_id of None \<Rightarrow> [] | Some h \<Rightarrow> h) of
              None \<Rightarrow> Inr None
            | Some snapshot \<Rightarrow>
                res_bind (memory_post_init (replace_with_snapshot current snapshot))
                  (\<lambda>m. Inr (Some m)))"

definition memory_with_key :: "InMemoryStore \<Rightarrow> string \<Rightarrow> string \<Rightarrow> Memory option" where
  "memory_with_key s owner_id idempotency_key =
     find (\<lambda>value. m_owner_id value = owner_id \<and> m_idempotency_key value = Some idempotency_key)
       (dict_values (st_memories s))"

text \<open>A generator that \<open>next\<close> finds exhausted raises inside a coroutine: a \<open>RuntimeError\<close>.\<close>

definition repo_find_by_idempotency_key ::
  "InMemoryStore \<Rightarrow> string \<Rightarrow> string \<Rightarrow> IdempotencyLookup option result" where
  "repo_find_by_idempotency_key s owner_id idempotency_key =
     (case dict_get (st_fingerprints s) (owner_id, idempotency_key) of
        None \<Rightarrow> Inr None
      | Some fingerprint \<Rightarrow>
          (case memory_with_key s owner_id idempotency_key of
             None \<Rightarrow> Inl PyRuntimeError
           | Some memory \<Rightarrow> Inr (Some \<lparr>il_memory = memory, il_fingerprint = fingerprint\<rparr>)))"

definition insert_memory :: "Memory \<Rightarrow> pyfloat list \<Rightarrow> MemoryVersion list \<Rightarrow> InMemoryStore \<Rightarrow> InMemoryStore" where
  "insert_memory memory vector history s = s
     \<lparr>st_memories := dict_set (m_id memory) memory (st_memories s),
      st_vectors := dict_set (m_id memory) vector (st_vectors s),
      st_history := dict_set (m_id memory) history (st_history s)\<rparr>"

definition repo_create :: "Memory \<Rightarrow> string \<Rightarrow> pyfloat list \<Rightarrow> CreateMemoryResult store_act" where
  "repo_create memory fingerprint embedding s =
     (let insert = insert_memory memory embedding [memory_snapshot memory ''created''] in
      case m_idempotency_key memory of
        Some k \<Rightarrow>
          if k \<noteq> [] then
            (case dict_get (st_fingerprints s) (m_owner_id memory, k) of
               Some prior_fingerprint \<Rightarrow>
                 if prior_fingerprint \<noteq> fingerprint then (Inl IdempotencyConflictError, s)
                 else (case memory_with_key s (m_owner_id memory) k of
                     None \<Rightarrow> (Inl PyRuntimeError, s)
                   | Some prior \<Rightarrow> (Inr \<lparr>cr_memory = prior, cr_created = False\<rparr>, s))
             | None \<Rightarrow>
                 (Inr \<lparr>cr_memory = memory, cr_created = True\<rparr>,
                  insert (s\<lparr>st_fingerprints :=
                    dict_set (m_owner_id memory, k) fingerprint (st_fingerprints s)\<rparr>)))
          else (Inr \<lparr>cr_memory = memory, cr_created = True\<rparr>, insert s)
      | None \<Rightarrow> (Inr \<lparr>cr_memory = memory, cr_created = True\<rparr>, insert s))"

definition repo_update :: "Memory \<Rightarrow> int \<Rightarrow> MemoryVersion \<Rightarrow> pyfloat list \<Rightarrow> Memory store_act" where
  "repo_update memory expected_version version_snapshot embedding s =
     (case dict_get (st_memories s) (m_id memory) of
        None \<Rightarrow> (Inl NotFoundError, s)
      | Some current \<Rightarrow>
          if m_owner_id current \<noteq> m_owner_id memory then (Inl NotFoundError, s)
          else if m_version current \<noteq> expected_version then (Inl VersionConflictError, s)
          else (case dict_get (st_history s) (m_id memory) of
              None \<Rightarrow> (Inl PyKeyError, s)
            | Some h \<Rightarrow> (Inr memory, insert_memory memory embedding (h @ [version_snapshot]) s)))"

definition filters_match :: "string \<Rightarrow> string option \<Rightarrow> SearchFilters \<Rightarrow> Memory \<Rightarrow> bool" where
  "filters_match owner_id tenant_id filters memory \<longleftrightarrow>
     m_owner_id memory = owner_id \<and>
     \<not> (tenant_id \<noteq> None \<and> m_tenant_id memory \<noteq> tenant_id) \<and>
     m_state memory \<in> sf_states filters \<and>
     (case sf_memory_types filters of None \<Rightarrow> True
        | Some ts \<Rightarrow> ts = {} \<or> m_memory_type memory \<in> ts) \<and>
     \<not> (sf_space filters \<noteq> None \<and> m_space memory \<noteq> sf_space filters) \<and>
     (case sf_min_importance filters of None \<Rightarrow> True | Some x \<Rightarrow> \<not> m_importance memory < x) \<and>
     (case sf_min_confidence filters of None \<Rightarrow> True | Some x \<Rightarrow> \<not> m_confidence memory < x)"

fun collect_candidates ::
  "(Memory \<Rightarrow> bool) \<Rightarrow> pyfloat list \<Rightarrow> EmbeddingProfile \<Rightarrow> (uuid, pyfloat list) dict \<Rightarrow>
   (uuid, Memory) dict \<Rightarrow> MemorySearchCandidate list result" where
  "collect_candidates match query_embedding profile vectors [] = Inr []"
| "collect_candidates match query_embedding profile vectors ((memory_id, memory) # rest) =
     (if \<not> match memory \<or> m_embedding memory = None
      then collect_candidates match query_embedding profile vectors rest
      else res_bind (profile_descriptor profile) (\<lambda>descriptor.
        if m_embedding memory \<noteq> Some descriptor
        then collect_candidates match query_embedding profile vectors rest
        else (case dict_get vectors memory_id of
            None \<Rightarrow> Inl PyKeyError
          | Some vector \<Rightarrow>
              res_bind (collect_candidates match query_embedding profile vectors rest) (\<lambda>cs.
              Inr (\<lparr>sc_memory = memory,
                    sc_similarity = fdiv (fadd (cosine_similarity query_embedding vector) 1) 2,
                    sc_profile = profile\<rparr> # cs)))))"

definition repo_search_candidates ::
  "InMemoryStore \<Rightarrow> string \<Rightarrow> string option \<Rightarrow> pyfloat list \<Rightarrow> EmbeddingProfile \<Rightarrow> SearchFilters \<Rightarrow>
   int \<Rightarrow> MemorySearchCandidate list result" where
  "repo_search_candidates s owner_id tenant_id query_embedding profile filters limit =
     res_bind (collect_candidates (filters_match owner_id tenant_id filters) query_embedding profile
                 (st_vectors s) (st_memories s)) (\<lambda>candidates.
     Inr (py_take limit (sort_key (\<lambda>c. (- sc_similarity c, uuid_str (m_id (sc_memory c)))) candidates)))"

definition repo_forget :: "string \<Rightarrow> uuid \<Rightarrow> string option \<Rightarrow> bool store_act" where
  "repo_forget owner_id memory_id tenant_id s =
     (case dict_get (st_memories s) memory_id of
        None \<Rightarrow> (Inr False, s)
      | Some memory \<Rightarrow>
          if m_owner_id memory \<noteq> owner_id then (Inr False, s)
          else if tenant_id \<noteq> None \<and> m_tenant_id memory \<noteq> tenant_id then (Inr False, s)
          else (Inr True, s
            \<lparr>st_memories := dict_pop memory_id (st_memories s),
             st_vectors := dict_pop memory_id (st_vectors s),
             st_history := dict_pop memory_id (st_history s),
             st_fingerprints := (case m_idempotency_key memory of
                 Some k \<Rightarrow> if k \<noteq> [] then dict_pop (owner_id, k) (st_fingerprints s)
                           else st_fingerprints s
               | None \<Rightarrow> st_fingerprints s),
             st_relations := filter (\<lambda>(key, relation).
                 rel_source_id relation \<noteq> memory_id \<and> rel_target_id relation \<noteq> memory_id)
               (st_relations s),
             st_tombstones := insert (owner_id, m_tenant_id memory, memory_id) (st_tombstones s)\<rparr>))"

definition repo_list_candidates ::
  "InMemoryStore \<Rightarrow> string \<Rightarrow> string option \<Rightarrow> string option \<Rightarrow> int \<Rightarrow> Memory list" where
  "repo_list_candidates s owner_id tenant_id space limit =
     py_take limit (sort_key (\<lambda>item. (dt_instant (m_created_at item), uuid_str (m_id item)))
       (filter (\<lambda>memory. m_owner_id memory = owner_id
          \<and> (tenant_id = None \<or> m_tenant_id memory = tenant_id)
          \<and> m_state memory = CANDIDATE
          \<and> (space = None \<or> m_space memory = space)) (dict_values (st_memories s))))"

definition relation_key :: "Relation \<Rightarrow> rel_key" where
  "relation_key r = (rel_owner_id r, rel_source_id r, rel_target_id r, relation_type_value (rel_type r))"

definition repo_add_relation :: "Relation \<Rightarrow> Relation store_act" where
  "repo_add_relation relation s =
     (if repo_get s (rel_owner_id relation) (rel_source_id relation) None = None \<or>
         repo_get s (rel_owner_id relation) (rel_target_id relation) None = None
      then (Inl NotFoundError, s)
      else if dict_get (st_relations s) (relation_key relation) \<noteq> None
      then (Inl RelationConflictError, s)
      else (Inr relation,
            s\<lparr>st_relations := dict_set (relation_key relation) relation (st_relations s)\<rparr>))"

definition repo_list_relations :: "InMemoryStore \<Rightarrow> string \<Rightarrow> uuid \<Rightarrow> Relation list" where
  "repo_list_relations s owner_id memory_id =
     filter (\<lambda>relation. rel_owner_id relation = owner_id \<and>
       (rel_source_id relation = memory_id \<or> rel_target_id relation = memory_id))
       (dict_values (st_relations s))"

definition repo_history :: "InMemoryStore \<Rightarrow> string \<Rightarrow> uuid \<Rightarrow> MemoryVersion list result" where
  "repo_history s owner_id memory_id =
     (case repo_get s owner_id memory_id None of
        None \<Rightarrow> Inl NotFoundError
      | Some _ \<Rightarrow> Inr (case dict_get (st_history s) memory_id of None \<Rightarrow> [] | Some h \<Rightarrow> h))"

section \<open>Administrative repository\<close>

definition admin_export_memory ::
  "InMemoryStore \<Rightarrow> string \<Rightarrow> uuid \<Rightarrow> bool \<Rightarrow> MemoryExportRecord option result" where
  "admin_export_memory s owner_id memory_id include_embeddings =
     (case repo_get s owner_id memory_id None of
        None \<Rightarrow> Inr None
      | Some memory \<Rightarrow>
          res_bind (repo_history s owner_id memory_id) (\<lambda>history.
          Inr (Some
            \<lparr>xr_memory = memory, xr_history = history,
             xr_relations = repo_list_relations s owner_id memory_id,
             xr_embedding = (if include_embeddings then dict_get (st_vectors s) memory_id else None),
             xr_write_fingerprint = (case m_idempotency_key memory of None \<Rightarrow> None
               | Some k \<Rightarrow> dict_get (st_fingerprints s) (owner_id, k))\<rparr>)))"

definition admin_export_memories ::
  "InMemoryStore \<Rightarrow> string \<Rightarrow> bool \<Rightarrow> MemoryExportRecord list result" where
  "admin_export_memories s owner_id include_embeddings =
     res_bind (res_map (\<lambda>memory. admin_export_memory s owner_id (m_id memory) include_embeddings)
       (filter (\<lambda>memory. m_owner_id memory = owner_id)
          (sort_key (\<lambda>item. uuid_str (m_id item)) (dict_values (st_memories s))))) (\<lambda>records.
     Inr (map the (filter (\<lambda>r. r \<noteq> None) records)))"

text \<open>The body of the first loop of \<open>import_memories\<close>, for one record.\<close>

definition import_one :: "MemoryImportRecord \<Rightarrow> bool store_act" where
  "import_one record s =
     (let memory = xr_memory record in
      if (m_owner_id memory, m_tenant_id memory, m_id memory) \<in> st_tombstones s
      then (Inl RestoreBlockedByTombstoneError, s)
      else (case dict_get (st_memories s) (m_id memory) of
          Some current \<Rightarrow>
            if \<not> memory_eq current memory then (Inl ImportConflictError, s) else (Inr False, s)
        | None \<Rightarrow>
            (case xr_embedding record of
               None \<Rightarrow> (Inl PyValueError, s)
             | Some embedding \<Rightarrow>
                 (Inr True,
                  let s' = insert_memory memory embedding (xr_history record) s in
                  case m_idempotency_key memory of
                    None \<Rightarrow> s'
                  | Some k \<Rightarrow> s'\<lparr>st_fingerprints := dict_set (m_owner_id memory, k)
                      (case xr_write_fingerprint record of None \<Rightarrow> [] | Some f \<Rightarrow> f)
                      (st_fingerprints s')\<rparr>))))"

fun import_records :: "MemoryImportRecord list \<Rightarrow> nat \<Rightarrow> nat \<Rightarrow> ImportResult store_act" where
  "import_records [] imported replayed = act_return \<lparr>im_imported = imported, im_replayed = replayed\<rparr>"
| "import_records (record # rest) imported replayed =
     act_bind (import_one record) (\<lambda>new.
     if new then import_records rest (imported + 1) replayed
     else import_records rest imported (replayed + 1))"

definition import_relation :: "Relation \<Rightarrow> InMemoryStore \<Rightarrow> InMemoryStore" where
  "import_relation relation s =
     (if dict_get (st_relations s) (relation_key relation) = None
      then s\<lparr>st_relations := dict_set (relation_key relation) relation (st_relations s)\<rparr>
      else s)"

definition admin_import_memories :: "MemoryImportRecord list \<Rightarrow> ImportResult store_act" where
  "admin_import_memories records =
     act_bind (import_records records 0 0) (\<lambda>result.
     act_bind (act_modify (fold import_relation (concat (map xr_relations records)))) (\<lambda>_.
     act_return result))"

definition admin_is_tombstoned ::
  "InMemoryStore \<Rightarrow> string \<Rightarrow> uuid \<Rightarrow> string option \<Rightarrow> bool" where
  "admin_is_tombstoned s owner_id memory_id tenant_id \<longleftrightarrow>
     (owner_id, tenant_id, memory_id) \<in> st_tombstones s"

section \<open>Unit of work\<close>

definition unit_of_work :: "'a store_act \<Rightarrow> 'a store_act" where
  "unit_of_work body = act_atomic body"

end
