(* ===== verification/Memory_Service.thy ===== *)
theory Memory_Service
  imports Memory_Store
begin

text \<open>
  The use cases of \<open>omp/application/services.py\<close> over the in-memory unit of work. Every
  method of \<open>MemoryApplicationService\<close> that runs a unit of work is an action on the store.

  The ports the service is constructed with are the fields of \<open>ServiceEnv\<close>: the embedding
  provider (\<open>env_embed text query\<close>, which may raise, and \<open>env_profile\<close>), the clock
  (\<open>env_clock i\<close> is its reading number \<open>i\<close> within one call), the identifier \<open>uuid4()\<close>
  returns in this call, and \<open>env_digest\<close>, the SHA-256 hex digest of the canonical JSON text
  of a document.
\<close>

record ServiceEnv =
  env_embed :: "string \<Rightarrow> bool \<Rightarrow> pyfloat list result"
  env_profile :: EmbeddingProfile
  env_clock :: "nat \<Rightarrow> datetime"
  env_uuid4 :: uuid
  env_digest :: "json \<Rightarrow> string"

section \<open>Canonical documents and fingerprints\<close>

definition canonical_provenance :: "Provenance \<Rightarrow> json" where
  "canonical_provenance p = JObj
     [(''source_type'', JStr (source_type_value (pv_source_type p))),
      (''source_id'', json_opt JStr (pv_source_id p)),
      (''source_model'', json_opt JStr (pv_source_model p)),
      (''source_client'', json_opt JStr (pv_source_client p)),
      (''source_connection_id'', json_opt JStr (pv_source_connection_id p)),
      (''conversation_id'', json_opt JStr (pv_conversation_id p)),
      (''message_id'', json_opt JStr (pv_message_id p)),
      (''captured_at'', JStr (isoformat (pv_captured_at p))),
      (''evidence'', JList (map JStr (pv_evidence p)))]"

definition canonical_consent :: "CaptureConsent \<Rightarrow> json" where
  "canonical_consent c = JObj
     [(''mode'', JStr (consent_mode_value (cc_mode c))),
      (''consent_id'', JStr (cc_consent_id c)),
      (''reason_code'', JStr (consent_reason_value (cc_reason_code c))),
      (''policy_version'', JStr (cc_policy_version c)),
      (''granted_at'', JStr (isoformat (cc_granted_at c)))]"

definition canonical_write_command :: "WriteMemoryCommand \<Rightarrow> json" where
  "canonical_write_command c = JObj
     [(''content'', JStr (wr_content c)),
      (''type'', JStr (memory_type_value (wr_memory_type c))),
      (''importance'', JFloat (wr_importance c)),
      (''confidence'', JFloat (wr_confidence c)),
      (''space'', json_opt JStr (wr_space c)),
      (''occurred_at'', json_opt (\<lambda>t. JStr (isoformat t)) (wr_occurred_at c)),
      (''provenance'', canonical_provenance (wr_provenance c))]"

definition canonical_capture_command :: "CaptureMemoryCommand \<Rightarrow> json" where
  "canonical_capture_command c = JObj
     [(''tenant_id'', JStr (cp_tenant_id c)),
      (''connection_id'', JStr (cp_connection_id c)),
      (''content'', JStr (cp_content c)),
      (''type'', JStr (memory_type_value (cp_memory_type c))),
      (''space'', json_opt JStr (cp_space c)),
      (''importance'', JFloat (cp_importance c)),
      (''confidence'', JFloat (cp_confidence c)),
      (''provenance'', canonical_provenance (cp_provenance c)),
      (''consent'', canonical_consent (cp_consent c))]"

definition canonical_confirm_command :: "ConfirmCandidateCommand \<Rightarrow> json" where
  "canonical_confirm_command c = JObj
     [(''memory_id'', JStr (uuid_str (cf_memory_id c))),
      (''expected_version'', JInt (cf_expected_version c)),
      (''content'', json_opt JStr (cf_content c)),
      (''type'', json_opt (\<lambda>t. JStr (memory_type_value t)) (cf_memory_type c)),
      (''space'', json_opt JStr (cf_space c)),
      (''reason'', JStr (cf_actor_reason c))]"

definition canonical_pin_command :: "PinMemoryCommand \<Rightarrow> json" where
  "canonical_pin_command c = JObj
     [(''memory_id'', JStr (uuid_str (pn_memory_id c))),
      (''expected_version'', JInt (pn_expected_version c)),
      (''pinned'', JBool (pn_pinned c))]"

definition canonical_discard_command :: "DiscardCandidateCommand \<Rightarrow> json" where
  "canonical_discard_command c = JObj
     [(''memory_id'', JStr (uuid_str (dc_memory_id c))),
      (''expected_version'', JInt (dc_expected_version c)),
      (''reason'', JStr (dc_reason_code c))]"

definition canonical_update_command :: "UpdateMemoryCommand \<Rightarrow> json" where
  "canonical_update_command c = JObj
     [(''owner_id'', JStr (up_owner_id c)),
      (''memory_id'', JStr (uuid_str (up_memory_id c))),
      (''expected_version'', JInt (up_expected_version c)),
      (''content'', json_opt JStr (up_content c)),
      (''memory_type'', json_opt (\<lambda>t. JStr (memory_type_value t)) (up_memory_type c)),
      (''importance'', json_opt JFloat (up_importance c)),
      (''confidence'', json_opt JFloat (up_confidence c)),
      (''state'', json_opt (\<lambda>t. JStr (memory_state_value t)) (up_state c)),
      (''occurred_at'', json_opt (\<lambda>t. JStr (isoformat t)) (up_occurred_at c)),
      (''space'', json_opt JStr (up_space c)),
      (''provenance'', json_opt canonical_provenance (up_provenance c)),
      (''supersedes_memory_id'', json_opt (\<lambda>u. JStr (uuid_str u)) (up_supersedes_memory_id c)),
      (''contradicts_memory_id'', json_opt (\<lambda>u. JStr (uuid_str u)) (up_contradicts_memory_id c)),
      (''change_reason'', JStr (up_change_reason c))]"

definition canonical_forget_command :: "ForgetMemoryCommand \<Rightarrow> json" where
  "canonical_forget_command c = JObj
     [(''owner_id'', JStr (fg_owner_id c)),
      (''memory_id'', JStr (uuid_str (fg_memory_id c)))]"

section \<open>Shared checks\<close>

definition validate_scope :: "string set \<Rightarrow> string \<Rightarrow> unit result" where
  "validate_scope scopes required = res_guard (required \<in> scopes) ScopeDeniedError"

definition validate_scope_value :: "string \<Rightarrow> unit result" where
  "validate_scope_value v = res_guard (py_strip v \<noteq> []) ValidationError"

definition validate_mutation_scope :: "string \<Rightarrow> string \<Rightarrow> bool \<Rightarrow> unit result" where
  "validate_mutation_scope tenant_id owner_id revoked =
     res_bind (validate_scope_value tenant_id) (\<lambda>_.
     res_bind (validate_owner_id owner_id) (\<lambda>_.
     res_guard (\<not> revoked) ConnectionRevokedError))"

definition validate_vector :: "ServiceEnv \<Rightarrow> pyfloat list \<Rightarrow> unit result" where
  "validate_vector env vector =
     res_guard (int (length vector) = ep_dimension (env_profile env)) ValidationError"

text \<open>Embedding a text and validating the vector, the two lines every caller pairs.\<close>

definition embed_checked :: "ServiceEnv \<Rightarrow> string \<Rightarrow> bool \<Rightarrow> pyfloat list result" where
  "embed_checked env text query =
     res_bind (env_embed env text query) (\<lambda>vector.
     res_bind (validate_vector env vector) (\<lambda>_. Inr vector))"

definition find_prior :: "string \<Rightarrow> string option \<Rightarrow> IdempotencyLookup option store_act" where
  "find_prior owner_id key =
     (case key of None \<Rightarrow> act_return None
      | Some k \<Rightarrow> if k = [] then act_return None
          else act_getr (\<lambda>s. repo_find_by_idempotency_key s owner_id k))"

section \<open>write and capture\<close>

definition svc_write :: "ServiceEnv \<Rightarrow> WriteMemoryCommand \<Rightarrow> WriteMemoryResult store_act" where
  "svc_write env c =
     act_bind (act_res (validate_owner_id (wr_owner_id c))) (\<lambda>_.
     act_bind (act_res (ensure_aware (env_clock env 0))) (\<lambda>timestamp.
     let fingerprint = env_digest env (canonical_write_command c) in
     unit_of_work (
       act_bind (find_prior (wr_owner_id c) (wr_idempotency_key c)) (\<lambda>prior.
       case prior of
         Some p \<Rightarrow>
           if il_fingerprint p \<noteq> fingerprint then act_raise IdempotencyConflictError
           else act_return \<lparr>wres_memory = il_memory p, wres_created = False\<rparr>
       | None \<Rightarrow>
           act_bind (act_res (embed_checked env (wr_content c) False)) (\<lambda>vector.
           act_bind (act_res (profile_descriptor (env_profile env))) (\<lambda>descriptor.
           act_bind (act_res (memory_create
             \<lparr>ca_owner_id = wr_owner_id c, ca_content = wr_content c,
              ca_memory_type = wr_memory_type c, ca_importance = wr_importance c,
              ca_confidence = wr_confidence c, ca_provenance = wr_provenance c,
              ca_capture_consent = None, ca_tenant_id = wr_tenant_id c, ca_space = wr_space c,
              ca_occurred_at = wr_occurred_at c, ca_embedding = Some descriptor,
              ca_idempotency_key = wr_idempotency_key c, ca_initial_state = ACTIVE\<rparr>
             (env_uuid4 env) timestamp)) (\<lambda>memory.
           act_bind (repo_create memory fingerprint vector) (\<lambda>result.
           act_return \<lparr>wres_memory = cr_memory result, wres_created = cr_created result\<rparr>))))))))"

definition capture_checks :: "CaptureMemoryCommand \<Rightarrow> unit result" where
  "capture_checks c =
     res_bind (validate_scope (cp_scopes c) ''memory:write'') (\<lambda>_.
     res_bind (validate_scope_value (cp_tenant_id c)) (\<lambda>_.
     res_bind (validate_scope_value (cp_connection_id c)) (\<lambda>_.
     res_bind (validate_owner_id (cp_owner_id c)) (\<lambda>_.
     res_bind (res_guard (\<not> cp_connection_revoked c) ConnectionRevokedError) (\<lambda>_.
     res_bind (res_guard (cp_capture_policy c \<noteq> ''disabled'') CaptureDisabledError) (\<lambda>_.
     res_bind (res_guard (cp_capture_policy c \<in> {''manual'', ''assisted'', ''automatic''})
                 ValidationError) (\<lambda>_.
     res_bind (res_guard (\<not> (cp_capture_policy c = ''manual'' \<and>
                   consent_reason_value (cc_reason_code (cp_consent c)) \<notin>
                     {''user_requested_memory'', ''user_confirmed_inbox''})) ConsentRequiredError) (\<lambda>_.
     res_bind (res_guard (\<not> (cp_capture_policy c = ''automatic'' \<and>
                   cc_mode (cp_consent c) \<noteq> AUTOMATIC)) ConsentRequiredError) (\<lambda>_.
     res_guard (py_truthy (pv_source_client (cp_provenance c))) ValidationError)))))))))"

definition svc_capture :: "ServiceEnv \<Rightarrow> CaptureMemoryCommand \<Rightarrow> CreateMemoryResult store_act" where
  "svc_capture env c =
     act_bind (act_res (capture_checks c)) (\<lambda>_.
     let fingerprint = env_digest env (canonical_capture_command c) in
     unit_of_work (
       act_bind (act_getr (\<lambda>s. repo_find_by_idempotency_key s (cp_owner_id c) (cp_idempotency_key c))) (\<lambda>prior.
       case prior of
         Some p \<Rightarrow>
           if il_fingerprint p \<noteq> fingerprint then act_raise IdempotencyConflictError
           else act_return \<lparr>cr_memory = il_memory p, cr_created = False\<rparr>
       | None \<Rightarrow>
           act_bind (act_res (embed_checked env (cp_content c) False)) (\<lambda>vector.
           act_bind (act_res (profile_descriptor (env_profile env))) (\<lambda>descriptor.
           act_bind (act_res (ensure_aware (env_clock env 0))) (\<lambda>now.
           act_bind (act_res (memory_create
             \<lparr>ca_owner_id = cp_owner_id c, ca_content = cp_content c,
              ca_memory_type = cp_memory_type c, ca_importance = cp_importance c,
              ca_confidence = cp_confidence c, ca_provenance = cp_provenance c,
              ca_capture_consent = Some (cp_consent c), ca_tenant_id = Some (cp_tenant_id c),
              ca_space = cp_space c, ca_occurred_at = None, ca_embedding = Some descriptor,
              ca_idempotency_key = Some (cp_idempotency_key c), ca_initial_state = CANDIDATE\<rparr>
             (env_uuid4 env) now)) (\<lambda>memory.
           repo_create memory fingerprint vector)))))))"

section \<open>Inbox: list, confirm, pin, discard\<close>

definition svc_list_inbox :: "ListInboxCommand \<Rightarrow> InMemoryStore \<Rightarrow> InboxResult result" where
  "svc_list_inbox c s =
     res_bind (validate_scope (li_scopes c) ''memory:read'') (\<lambda>_.
     res_bind (validate_scope_value (li_tenant_id c)) (\<lambda>_.
     res_bind (validate_owner_id (li_owner_id c)) (\<lambda>_.
     res_bind (res_guard (\<not> li_connection_revoked c) ConnectionRevokedError) (\<lambda>_.
     res_bind (res_guard (1 \<le> li_limit c \<and> li_limit c \<le> 100) ValidationError) (\<lambda>_.
     let candidates = repo_list_candidates s (li_owner_id c) (Some (li_tenant_id c)) (li_space c)
           (li_limit c + 1)
     in Inr \<lparr>ir_candidates = py_take (li_limit c) candidates,
             ir_next_cursor = (if int (length candidates) > li_limit c
               then Some (int_str (li_limit c))
               else None)\<rparr>)))))"

definition replayed_version :: "IdempotencyClaim \<Rightarrow> int \<Rightarrow> int" where
  "replayed_version claim expected =
     (case ic_result_version claim of None \<Rightarrow> expected | Some v \<Rightarrow> if v = 0 then expected else v)"

definition replay_snapshot ::
  "string \<Rightarrow> string option \<Rightarrow> uuid \<Rightarrow> int \<Rightarrow> IdempotencyClaim \<Rightarrow> Memory store_act" where
  "replay_snapshot owner_id tenant_id memory_id expected_version claim =
     act_bind (act_getr (\<lambda>s. repo_get_version s owner_id
       (or_default (ic_memory_id claim) memory_id)
       (replayed_version claim expected_version) tenant_id)) (\<lambda>replay.
     case replay of None \<Rightarrow> act_raise NotFoundError | Some m \<Rightarrow> act_return m)"

definition get_current :: "string \<Rightarrow> uuid \<Rightarrow> string option \<Rightarrow> int \<Rightarrow> Memory store_act" where
  "get_current owner_id memory_id tenant_id expected_version =
     act_bind (act_gets (\<lambda>s. repo_get s owner_id memory_id tenant_id)) (\<lambda>current.
     case current of
       None \<Rightarrow> act_raise NotFoundError
     | Some m \<Rightarrow>
         if m_version m \<noteq> expected_version then act_raise VersionConflictError else act_return m)"

definition confirm_body ::
  "ServiceEnv \<Rightarrow> ConfirmCandidateCommand \<Rightarrow> IdempotencyClaim \<Rightarrow> Memory store_act" where
  "confirm_body env c claim =
     act_bind (get_current (cf_owner_id c) (cf_memory_id c) (Some (cf_tenant_id c))
       (cf_expected_version c)) (\<lambda>current.
     act_bind (act_guard (m_state current \<in> {CANDIDATE, STALE}) InvalidStateTransitionError) (\<lambda>_.
     act_bind (act_res (ensure_aware (env_clock env 0))) (\<lambda>now.
     act_bind (act_res (profile_descriptor (env_profile env))) (\<lambda>descriptor.
     act_bind (act_res (memory_evolve current ((evolve_defaults now)
       \<lparr>ev_state := Some CONFIRMED, ev_change_reason := cf_actor_reason c,
        ev_embedding := Some (Some descriptor), ev_content := cf_content c,
        ev_memory_type := cf_memory_type c,
        ev_space := map_option Some (cf_space c)\<rparr>))) (\<lambda>updated.
     act_bind (act_res (embed_checked env (m_content updated) False)) (\<lambda>vector.
     act_bind (repo_update updated (cf_expected_version c)
       (memory_snapshot updated (cf_actor_reason c)) vector) (\<lambda>persisted.
     act_bind (idem_complete claim (Some (m_id persisted)) (Some (m_version persisted))
       ''confirmed'') (\<lambda>_.
     act_return persisted))))))))"

definition svc_confirm_candidate ::
  "ServiceEnv \<Rightarrow> ConfirmCandidateCommand \<Rightarrow> Memory store_act" where
  "svc_confirm_candidate env c =
     act_bind (act_res (validate_scope (cf_scopes c) ''memory:write'')) (\<lambda>_.
     act_bind (act_res (validate_mutation_scope (cf_tenant_id c) (cf_owner_id c)
       (cf_connection_revoked c))) (\<lambda>_.
     let fingerprint = env_digest env (canonical_confirm_command c) in
     unit_of_work (
       act_bind (idem_claim (cf_owner_id c) CONFIRM (cf_idempotency_key c) fingerprint) (\<lambda>claim.
       if ic_replay claim then
         replay_snapshot (cf_owner_id c) (Some (cf_tenant_id c)) (cf_memory_id c)
           (cf_expected_version c) claim
       else confirm_body env c claim))))"

definition pin_body ::
  "ServiceEnv \<Rightarrow> PinMemoryCommand \<Rightarrow> IdempotencyClaim \<Rightarrow> Memory store_act" where
  "pin_body env c claim =
     (let target_state = (if pn_pinned c then PINNED else CONFIRMED) in
     act_bind (get_current (pn_owner_id c) (pn_memory_id c) (Some (pn_tenant_id c))
       (pn_expected_version c)) (\<lambda>current.
     act_bind (act_guard (m_state current \<in> {CONFIRMED, PINNED}) InvalidStateTransitionError) (\<lambda>_.
     if m_state current = target_state then
       act_bind (idem_complete claim (Some (m_id current)) (Some (m_version current))
         (memory_state_value target_state)) (\<lambda>_.
       act_return current)
     else
       act_bind (act_res (ensure_aware (env_clock env 0))) (\<lambda>now.
       act_bind (act_res (memory_evolve current ((evolve_defaults now)
         \<lparr>ev_state := Some target_state,
          ev_change_reason := (if pn_pinned c then ''pinned'' else ''unpinned'')\<rparr>))) (\<lambda>updated.
       act_bind (act_res (embed_checked env (m_content updated) False)) (\<lambda>vector.
       act_bind (repo_update updated (m_version current)
         (memory_snapshot updated (memory_state_value (m_state updated))) vector) (\<lambda>persisted.
       act_bind (idem_complete claim (Some (m_id persisted)) (Some (m_version persisted))
         (memory_state_value target_state)) (\<lambda>_.
       act_return persisted))))))))"

definition svc_pin :: "ServiceEnv \<Rightarrow> PinMemoryCommand \<Rightarrow> Memory store_act" where
  "svc_pin env c =
     act_bind (act_res (validate_scope (pn_scopes c) ''memory:write'')) (\<lambda>_.
     act_bind (act_res (validate_mutation_scope (pn_tenant_id c) (pn_owner_id c)
       (pn_connection_revoked c))) (\<lambda>_.
     let fingerprint = env_digest env (canonical_pin_command c) in
     unit_of_work (
       act_bind (idem_claim (pn_owner_id c) PIN (pn_idempotency_key c) fingerprint) (\<lambda>claim.
       if ic_replay claim then
         replay_snapshot (pn_owner_id c) (Some (pn_tenant_id c)) (pn_memory_id c)
           (pn_expected_version c) claim
       else pin_body env c claim))))"

definition svc_discard_candidate ::
  "ServiceEnv \<Rightarrow> DiscardCandidateCommand \<Rightarrow> DiscardResult store_act" where
  "svc_discard_candidate env c =
     act_bind (act_res (validate_scope (dc_scopes c) ''memory:delete'')) (\<lambda>_.
     act_bind (act_res (validate_mutation_scope (dc_tenant_id c) (dc_owner_id c)
       (dc_connection_revoked c))) (\<lambda>_.
     let fingerprint = env_digest env (canonical_discard_command c) in
     unit_of_work (
       act_bind (idem_claim (dc_owner_id c) DISCARD (dc_idempotency_key c) fingerprint) (\<lambda>claim.
       if ic_replay claim then
         act_return \<lparr>dres_memory_id = dc_memory_id c,
           dres_forgotten = (ic_result_status claim = Some ''forgotten'')\<rparr>
       else
         act_bind (get_current (dc_owner_id c) (dc_memory_id c) (Some (dc_tenant_id c))
           (dc_expected_version c)) (\<lambda>current.
         act_bind (act_guard (m_state current = CANDIDATE) InvalidStateTransitionError) (\<lambda>_.
         act_bind (repo_forget (dc_owner_id c) (dc_memory_id c) (Some (dc_tenant_id c))) (\<lambda>forgotten.
         act_bind (idem_complete claim (Some (dc_memory_id c)) None
           (if forgotten then ''forgotten'' else ''already_absent'')) (\<lambda>_.
         act_return \<lparr>dres_memory_id = dc_memory_id c, dres_forgotten = forgotten\<rparr>))))))))"

section \<open>update, forget, relate\<close>

text \<open>The keyword arguments \<open>update\<close> collects from the fields of the command that are set.\<close>

definition update_kwargs ::
  "UpdateMemoryCommand \<Rightarrow> datetime \<Rightarrow> EmbeddingDescriptor \<Rightarrow> EvolveArgs" where
  "update_kwargs c now descriptor =
     (let kwargs =
        \<lparr>ev_now = now, ev_content = up_content c, ev_memory_type = up_memory_type c,
         ev_importance = up_importance c, ev_confidence = up_confidence c, ev_state = up_state c,
         ev_occurred_at = map_option Some (up_occurred_at c),
         ev_space = map_option Some (up_space c), ev_provenance = up_provenance c,
         ev_embedding = Some (Some descriptor), ev_change_reason = up_change_reason c,
         ev_related_memory_id = None\<rparr>
      in case up_supersedes_memory_id c of
           Some r \<Rightarrow> kwargs\<lparr>ev_state := Some SUPERSEDED, ev_related_memory_id := Some r\<rparr>
         | None \<Rightarrow>
             (case up_contradicts_memory_id c of
                Some r \<Rightarrow> kwargs\<lparr>ev_state := Some CONTRADICTED, ev_related_memory_id := Some r\<rparr>
              | None \<Rightarrow> kwargs))"

definition update_related :: "UpdateMemoryCommand \<Rightarrow> (RelationType \<times> uuid) option" where
  "update_related c =
     (case up_supersedes_memory_id c of
        Some r \<Rightarrow> Some (SUPERSEDES, r)
      | None \<Rightarrow> map_option (\<lambda>r. (CONTRADICTS, r)) (up_contradicts_memory_id c))"

definition check_related :: "UpdateMemoryCommand \<Rightarrow> Memory \<Rightarrow> unit store_act" where
  "check_related c current =
     act_bind (act_guard (\<not> (up_supersedes_memory_id c \<noteq> None \<and> up_contradicts_memory_id c \<noteq> None))
       ValidationError) (\<lambda>_.
     case update_related c of
       None \<Rightarrow> act_return ()
     | Some (_, related_id) \<Rightarrow>
         act_bind (act_guard (related_id \<noteq> m_id current) ValidationError) (\<lambda>_.
         act_bind (act_gets (\<lambda>s. repo_get s (up_owner_id c) related_id None)) (\<lambda>related.
         act_guard (related \<noteq> None) NotFoundError)))"

definition add_update_relation ::
  "ServiceEnv \<Rightarrow> UpdateMemoryCommand \<Rightarrow> Memory \<Rightarrow> unit store_act" where
  "add_update_relation env c persisted =
     (case update_related c of
        None \<Rightarrow> act_return ()
      | Some (relation_type, target) \<Rightarrow>
          act_bind (act_res (ensure_aware (env_clock env 1))) (\<lambda>created_at.
          act_bind (act_res (relation_post_init
            \<lparr>rel_source_id = m_id persisted, rel_target_id = target, rel_type = relation_type,
             rel_owner_id = up_owner_id c, rel_created_at = created_at\<rparr>)) (\<lambda>relation.
          act_bind (repo_add_relation relation) (\<lambda>_. act_return ()))))"

definition update_body ::
  "ServiceEnv \<Rightarrow> UpdateMemoryCommand \<Rightarrow> IdempotencyClaim option \<Rightarrow> Memory store_act" where
  "update_body env c claim =
     act_bind (get_current (up_owner_id c) (up_memory_id c) None (up_expected_version c)) (\<lambda>current.
     act_bind (act_res (ensure_aware (env_clock env 0))) (\<lambda>now.
     act_bind (check_related c current) (\<lambda>_.
     act_bind (act_res (profile_descriptor (env_profile env))) (\<lambda>descriptor.
     act_bind (act_res (memory_evolve current (update_kwargs c now descriptor))) (\<lambda>updated.
     act_bind (act_res (embed_checked env
       (if m_content updated \<noteq> m_content current then m_content updated else m_content current)
       False)) (\<lambda>vector.
     act_bind (repo_update updated (up_expected_version c)
       (memory_snapshot updated (up_change_reason c)) vector) (\<lambda>persisted.
     act_bind (add_update_relation env c persisted) (\<lambda>_.
     act_bind (case claim of None \<Rightarrow> act_return ()
       | Some cl \<Rightarrow> idem_complete cl (Some (m_id persisted)) (Some (m_version persisted)) ''updated'') (\<lambda>_.
     act_return persisted)))))))))"

definition svc_update :: "ServiceEnv \<Rightarrow> UpdateMemoryCommand \<Rightarrow> Memory store_act" where
  "svc_update env c =
     act_bind (act_res (validate_owner_id (up_owner_id c))) (\<lambda>_.
     let fingerprint = env_digest env (canonical_update_command c) in
     unit_of_work (
       case up_idempotency_key c of
         None \<Rightarrow> update_body env c None
       | Some key \<Rightarrow>
           if key = [] then update_body env c None
           else
             act_bind (idem_claim (up_owner_id c) UPDATE key fingerprint) (\<lambda>claim.
             if ic_replay claim then
               replay_snapshot (up_owner_id c) None (up_memory_id c) (up_expected_version c) claim
             else update_body env c (Some claim))))"

definition forget_body ::
  "ForgetMemoryCommand \<Rightarrow> IdempotencyClaim option \<Rightarrow> ForgetMemoryResult store_act" where
  "forget_body c claim =
     (if (case claim of None \<Rightarrow> False | Some cl \<Rightarrow> ic_replay cl) then
        act_return \<lparr>fres_memory_id = fg_memory_id c, fres_forgotten = False\<rparr>
      else
        act_bind (repo_forget (fg_owner_id c) (fg_memory_id c) (fg_tenant_id c)) (\<lambda>forgotten.
        act_bind (case claim of None \<Rightarrow> act_return ()
          | Some cl \<Rightarrow> idem_complete cl (Some (fg_memory_id c)) None
              (if forgotten then ''forgotten'' else ''already_absent'')) (\<lambda>_.
        act_return \<lparr>fres_memory_id = fg_memory_id c, fres_forgotten = forgotten\<rparr>)))"

definition svc_forget :: "ServiceEnv \<Rightarrow> ForgetMemoryCommand \<Rightarrow> ForgetMemoryResult store_act" where
  "svc_forget env c =
     act_bind (act_res (validate_owner_id (fg_owner_id c))) (\<lambda>_.
     let fingerprint = env_digest env (canonical_forget_command c) in
     unit_of_work (
       case fg_idempotency_key c of
         None \<Rightarrow> forget_body c None
       | Some key \<Rightarrow>
           if key = [] then forget_body c None
           else act_bind (idem_claim (fg_owner_id c) FORGET key fingerprint) (\<lambda>claim.
                forget_body c (Some claim))))"

definition svc_relate :: "ServiceEnv \<Rightarrow> RelateMemoriesCommand \<Rightarrow> Relation store_act" where
  "svc_relate env c =
     act_bind (act_res (validate_owner_id (rm_owner_id c))) (\<lambda>_.
     act_bind (act_res (case relation_type_of (rm_relation_type c) of
         Inl _ \<Rightarrow> Inl ValidationError | Inr t \<Rightarrow> Inr t)) (\<lambda>relation_type.
     act_bind (act_guard (rm_source_memory_id c \<noteq> rm_target_memory_id c) ValidationError) (\<lambda>_.
     unit_of_work (
       act_bind (act_gets (\<lambda>s. repo_get s (rm_owner_id c) (rm_source_memory_id c) None)) (\<lambda>source.
       act_bind (act_gets (\<lambda>s. repo_get s (rm_owner_id c) (rm_target_memory_id c) None)) (\<lambda>target.
       case (source, target) of
         (Some src, Some tgt) \<Rightarrow>
           act_bind (act_res (ensure_aware (env_clock env 0))) (\<lambda>created_at.
           act_bind (act_res (relation_post_init
             \<lparr>rel_source_id = m_id src, rel_target_id = m_id tgt, rel_type = relation_type,
              rel_owner_id = rm_owner_id c, rel_created_at = created_at\<rparr>)) (\<lambda>relation.
           repo_add_relation relation))
       | _ \<Rightarrow> act_raise NotFoundError))))))"

end
