(* ===== verification/Service_Import.thy ===== *)
theory Service_Import
  imports Memory_Service
begin

text \<open>
  \<open>MemoryApplicationService.export_memories\<close> and \<open>import_memories\<close>: a package is
  validated as a whole (versions, fingerprints, embeddings, relation endpoints, tombstones,
  equivalence with what is stored) before the administrative repository writes any record.
\<close>

section \<open>Validation of a package\<close>

definition hex64 :: "string \<Rightarrow> bool" where
  "hex64 f \<longleftrightarrow> length f = 64 \<and> list_all (\<lambda>ch. ch \<in> set ''0123456789abcdef'') f"

definition expected_versions :: "int \<Rightarrow> int list" where
  "expected_versions n = map int [1 ..< Suc (nat n)]"

definition validate_import_record ::
  "string \<Rightarrow> MemoryImportRecord \<Rightarrow> uuid set \<Rightarrow> uuid set result" where
  "validate_import_record owner_id record incoming_ids =
     (let memory = xr_memory record in
     res_bind (res_guard (m_id memory \<notin> incoming_ids) ValidationError) (\<lambda>_.
     res_bind (res_guard (m_owner_id memory = owner_id) ValidationError) (\<lambda>_.
     res_bind (res_guard (\<not> (map mv_version (xr_history record) \<noteq> expected_versions (m_version memory) \<or>
         list_ex (\<lambda>snapshot. mv_memory_id snapshot \<noteq> m_id memory) (xr_history record)))
       ValidationError) (\<lambda>_.
     res_bind (res_guard (\<not> (m_idempotency_key memory \<noteq> None \<and> xr_write_fingerprint record = None))
       ValidationError) (\<lambda>_.
     res_bind (res_guard (case xr_write_fingerprint record of None \<Rightarrow> True | Some f \<Rightarrow> hex64 f)
       ValidationError) (\<lambda>_.
     res_bind (res_guard (case xr_embedding record of None \<Rightarrow> True
         | Some e \<Rightarrow> (case m_embedding memory of None \<Rightarrow> False
             | Some d \<Rightarrow> int (length e) = ed_dimension d)) ValidationError) (\<lambda>_.
     res_bind (res_guard (list_all (\<lambda>relation. rel_owner_id relation = owner_id) (xr_relations record))
       ValidationError) (\<lambda>_.
     Inr (insert (m_id memory) incoming_ids)))))))))"

fun validate_import_records ::
  "string \<Rightarrow> MemoryImportRecord list \<Rightarrow> uuid set \<Rightarrow> uuid set result" where
  "validate_import_records owner_id [] incoming_ids = Inr incoming_ids"
| "validate_import_records owner_id (record # rest) incoming_ids =
     res_bind (validate_import_record owner_id record incoming_ids)
       (validate_import_records owner_id rest)"

text \<open>Every endpoint of an incoming relation is in the package or stored for the owner.\<close>

definition endpoints_ok :: "string \<Rightarrow> MemoryImportRecord list \<Rightarrow> uuid set \<Rightarrow> InMemoryStore \<Rightarrow> bool" where
  "endpoints_ok owner_id incoming incoming_ids s \<longleftrightarrow>
     list_all (\<lambda>record. list_all (\<lambda>relation.
       list_all (\<lambda>endpoint. \<not> (endpoint \<notin> incoming_ids \<and> repo_get s owner_id endpoint None = None))
         [rel_source_id relation, rel_target_id relation]) (xr_relations record)) incoming"

section \<open>Equivalence of records\<close>

definition import_relation_key :: "Relation \<Rightarrow> string \<times> string \<times> string \<times> string" where
  "import_relation_key relation =
     (uuid_str (rel_source_id relation), uuid_str (rel_target_id relation),
      relation_type_value (rel_type relation), rel_owner_id relation)"

definition import_records_equivalent :: "MemoryImportRecord \<Rightarrow> MemoryExportRecord \<Rightarrow> bool" where
  "import_records_equivalent incoming current =
     (if \<not> memory_eq (xr_memory incoming) (xr_memory current) then False
      else if xr_write_fingerprint incoming \<noteq> None \<and>
              xr_write_fingerprint incoming \<noteq> xr_write_fingerprint current then False
      else if map memory_version_key (xr_history incoming) \<noteq>
              map memory_version_key (xr_history current) then False
      else if import_relation_key ` set (xr_relations incoming) \<noteq>
              import_relation_key ` set (xr_relations current) then False
      else xr_embedding incoming = None \<or> xr_embedding incoming = xr_embedding current)"

section \<open>import_memories and export_memories\<close>

text \<open>The identifiers of the incoming records the owner already stores, all equivalent.\<close>

fun existing_records ::
  "string \<Rightarrow> MemoryImportRecord list \<Rightarrow> InMemoryStore \<Rightarrow> uuid set result" where
  "existing_records owner_id [] s = Inr {}"
| "existing_records owner_id (record # rest) s =
     res_bind (admin_export_memory s owner_id (m_id (xr_memory record)) True) (\<lambda>current.
     case current of
       None \<Rightarrow>
         if admin_is_tombstoned s owner_id (m_id (xr_memory record)) (m_tenant_id (xr_memory record))
         then Inl RestoreBlockedByTombstoneError
         else existing_records owner_id rest s
     | Some cur \<Rightarrow>
         if \<not> import_records_equivalent record cur then Inl ImportConflictError
         else res_bind (existing_records owner_id rest s) (\<lambda>ids.
              Inr (insert (m_id (xr_memory record)) ids)))"

definition prepare_record ::
  "ServiceEnv \<Rightarrow> uuid set \<Rightarrow> MemoryImportRecord \<Rightarrow> MemoryImportRecord result" where
  "prepare_record env existing record =
     (if m_id (xr_memory record) \<in> existing \<or> xr_embedding record \<noteq> None then Inr record
      else (case m_embedding (xr_memory record) of
          None \<Rightarrow> Inl EmbeddingProfileMismatchError
        | Some descriptor \<Rightarrow>
            res_bind (profile_descriptor (env_profile env)) (\<lambda>active.
            if descriptor \<noteq> active then Inl EmbeddingProfileMismatchError
            else res_bind (embed_checked env (m_content (xr_memory record)) False) (\<lambda>vector.
                 Inr (record\<lparr>xr_embedding := Some vector\<rparr>)))))"

definition svc_import_memories ::
  "ServiceEnv \<Rightarrow> string \<Rightarrow> MemoryImportRecord list \<Rightarrow> ImportResult store_act" where
  "svc_import_memories env owner_id incoming =
     act_bind (act_res (validate_owner_id owner_id)) (\<lambda>_.
     unit_of_work (
       act_bind (act_res (validate_import_records owner_id incoming {})) (\<lambda>incoming_ids.
       act_bind (act_getr (\<lambda>s. res_guard (endpoints_ok owner_id incoming incoming_ids s) NotFoundError)) (\<lambda>_.
       act_bind (act_getr (existing_records owner_id incoming)) (\<lambda>existing.
       act_bind (act_res (res_map (prepare_record env existing) incoming)) (\<lambda>prepared.
       admin_import_memories prepared))))))"

definition svc_export_memories ::
  "string \<Rightarrow> bool \<Rightarrow> InMemoryStore \<Rightarrow> MemoryExportRecord list result" where
  "svc_export_memories owner_id include_embeddings s =
     res_bind (validate_owner_id owner_id) (\<lambda>_.
     admin_export_memories s owner_id include_embeddings)"

section \<open>What validation and preparation establish\<close>

definition record_validated :: "string \<Rightarrow> MemoryImportRecord \<Rightarrow> bool" where
  "record_validated owner_id r \<longleftrightarrow>
     m_owner_id (xr_memory r) = owner_id \<and>
     map mv_version (xr_history r) = expected_versions (m_version (xr_memory r)) \<and>
     (\<forall>v\<in>set (xr_history r). mv_memory_id v = m_id (xr_memory r)) \<and>
     (m_idempotency_key (xr_memory r) \<noteq> None \<longrightarrow> xr_write_fingerprint r \<noteq> None) \<and>
     (\<forall>f. xr_write_fingerprint r = Some f \<longrightarrow> hex64 f) \<and>
     (\<forall>e. xr_embedding r = Some e \<longrightarrow> (\<exists>d. m_embedding (xr_memory r) = Some d \<and>
        int (length e) = ed_dimension d)) \<and>
     (\<forall>rel\<in>set (xr_relations r). rel_owner_id rel = owner_id)"

lemma validate_import_record_Inr [act_simps]:
  "validate_import_record o' r ids = Inr ids' \<longleftrightarrow>
     record_validated o' r \<and> m_id (xr_memory r) \<notin> ids \<and> ids' = insert (m_id (xr_memory r)) ids"
  by (auto simp: validate_import_record_def record_validated_def Let_def act_simps
      list_ex_iff list_all_iff split: option.splits)

lemma validate_import_records_Inr [act_simps]:
  "validate_import_records o' rs ids = Inr ids' \<longleftrightarrow>
     (\<forall>r\<in>set rs. record_validated o' r) \<and> distinct (map (\<lambda>r. m_id (xr_memory r)) rs) \<and>
     (\<forall>r\<in>set rs. m_id (xr_memory r) \<notin> ids) \<and> ids' = ids \<union> (\<lambda>r. m_id (xr_memory r)) ` set rs"
proof (induction rs arbitrary: ids)
  case Nil
  show ?case by auto
next
  case (Cons r rs)
  show ?case by (auto simp: act_simps Cons.IH) (metis imageI)+
qed

lemma prepare_record_Inr:
  assumes "prepare_record env ex r = Inr p"
  shows "p = r\<lparr>xr_embedding := xr_embedding p\<rparr>"
    "m_id (xr_memory r) \<notin> ex \<Longrightarrow> xr_embedding p \<noteq> None"
  using assms by (auto simp: prepare_record_def act_simps split: if_splits option.splits)

lemma endpoints_ok_iff:
  "endpoints_ok o' rs ids s \<longleftrightarrow> (\<forall>r\<in>set rs. \<forall>rel\<in>set (xr_relations r).
     \<forall>e\<in>{rel_source_id rel, rel_target_id rel}. e \<in> ids \<or> repo_get s o' e None \<noteq> None)"
  by (auto simp: endpoints_ok_def list_all_iff)

end
