(* ===== verification/Store_Invariant.thy ===== *)
theory Store_Invariant
  imports Service_Import
begin

text \<open>
  The invariant of the in-memory store and the proof that every operation of the repository,
  of the ledger and of the administrative repository keeps it.

  \<open>core_ok\<close> speaks about memories, vectors, history, fingerprints, relations and
  tombstones; \<open>ops_ok\<close> about the ledger: between two units of work no operation is left
  in progress.
\<close>

section \<open>The invariant\<close>

definition mems_ok :: "InMemoryStore \<Rightarrow> bool" where
  "mems_ok s \<longleftrightarrow> dict_ok (st_memories s) \<and>
     (\<forall>i m. dict_get (st_memories s) i = Some m \<longrightarrow> m_id m = i \<and> memory_ok m)"

definition history_ok :: "Memory \<Rightarrow> MemoryVersion list \<Rightarrow> bool" where
  "history_ok m h \<longleftrightarrow> map mv_version h = expected_versions (m_version m) \<and>
     (\<forall>v\<in>set h. mv_memory_id v = m_id m)"

definition index_ok :: "InMemoryStore \<Rightarrow> bool" where
  "index_ok s \<longleftrightarrow> dict_ok (st_vectors s) \<and> dict_ok (st_history s) \<and>
     (\<forall>i. dict_get (st_vectors s) i = None \<longleftrightarrow> dict_get (st_memories s) i = None) \<and>
     (\<forall>i. dict_get (st_history s) i = None \<longleftrightarrow> dict_get (st_memories s) i = None) \<and>
     (\<forall>i m h. dict_get (st_memories s) i = Some m \<longrightarrow> dict_get (st_history s) i = Some h \<longrightarrow>
        history_ok m h)"

definition has_key :: "InMemoryStore \<Rightarrow> string \<Rightarrow> string \<Rightarrow> bool" where
  "has_key s owner k \<longleftrightarrow> (\<exists>i m. dict_get (st_memories s) i = Some m \<and> m_owner_id m = owner \<and>
     m_idempotency_key m = Some k)"

definition fps_ok :: "InMemoryStore \<Rightarrow> bool" where
  "fps_ok s \<longleftrightarrow> dict_ok (st_fingerprints s) \<and>
     (\<forall>owner k f. dict_get (st_fingerprints s) (owner, k) = Some f \<longrightarrow> has_key s owner k)"

definition owns :: "InMemoryStore \<Rightarrow> string \<Rightarrow> uuid \<Rightarrow> bool" where
  "owns s owner i \<longleftrightarrow> (\<exists>m. dict_get (st_memories s) i = Some m \<and> m_owner_id m = owner)"

definition rels_ok :: "InMemoryStore \<Rightarrow> bool" where
  "rels_ok s \<longleftrightarrow> dict_ok (st_relations s) \<and>
     (\<forall>key r. dict_get (st_relations s) key = Some r \<longrightarrow>
        key = relation_key r \<and> rel_source_id r \<noteq> rel_target_id r \<and>
        owns s (rel_owner_id r) (rel_source_id r) \<and> owns s (rel_owner_id r) (rel_target_id r))"

definition tombs_ok :: "InMemoryStore \<Rightarrow> bool" where
  "tombs_ok s \<longleftrightarrow> (\<forall>i m. dict_get (st_memories s) i = Some m \<longrightarrow>
     (m_owner_id m, m_tenant_id m, i) \<notin> st_tombstones s)"

definition core_ok :: "InMemoryStore \<Rightarrow> bool" where
  "core_ok s \<longleftrightarrow> mems_ok s \<and> index_ok s \<and> fps_ok s \<and> rels_ok s \<and> tombs_ok s"

definition ops_ok :: "InMemoryStore \<Rightarrow> bool" where
  "ops_ok s \<longleftrightarrow> (\<forall>k op. dict_get (st_ops s) k = Some op \<longrightarrow> so_status op = ''completed'')"

definition store_ok :: "InMemoryStore \<Rightarrow> bool" where
  "store_ok s \<longleftrightarrow> core_ok s \<and> ops_ok s"

lemma store_ok_empty: "store_ok empty_store"
  by (simp add: store_ok_def core_ok_def mems_ok_def index_ok_def fps_ok_def rels_ok_def
      tombs_ok_def ops_ok_def empty_store_def)

text \<open>The core does not look at the ledger.\<close>

lemma core_ok_ops [simp]: "core_ok (s\<lparr>st_ops := x\<rparr>) \<longleftrightarrow> core_ok s"
  by (simp add: core_ok_def mems_ok_def index_ok_def fps_ok_def rels_ok_def tombs_ok_def
      has_key_def owns_def)

lemma core_okD:
  assumes "core_ok s" and "dict_get (st_memories s) i = Some m"
  shows "m_id m = i" "memory_ok m" "(m_owner_id m, m_tenant_id m, i) \<notin> st_tombstones s"
  using assms by (auto simp: core_ok_def mems_ok_def tombs_ok_def)

lemma core_ok_history:
  assumes "core_ok s" and "dict_get (st_memories s) i = Some m"
  obtains h where "dict_get (st_history s) i = Some h" "history_ok m h"
proof (cases "dict_get (st_history s) i")
  case None
  with assms show ?thesis by (auto simp: core_ok_def index_ok_def)
next
  case (Some h)
  with assms that show ?thesis by (auto simp: core_ok_def index_ok_def)
qed

lemma core_ok_vector:
  assumes "core_ok s" and "dict_get (st_memories s) i = Some m"
  obtains v where "dict_get (st_vectors s) i = Some v"
  using assms by (cases "dict_get (st_vectors s) i") (auto simp: core_ok_def index_ok_def)

lemma repo_get_Some:
  "repo_get s owner i tenant = Some m \<longleftrightarrow>
     dict_get (st_memories s) i = Some m \<and> m_owner_id m = owner \<and>
     (tenant \<noteq> None \<longrightarrow> m_tenant_id m = tenant)"
  by (auto simp: repo_get_def split: option.splits if_splits)

lemma repo_get_owns: "repo_get s owner i None \<noteq> None \<longleftrightarrow> owns s owner i"
  by (auto simp: repo_get_def owns_def split: option.splits if_splits)

text \<open>A memory found by its key is stored, belongs to the owner and carries the key.\<close>

lemma memory_with_key_Some:
  assumes "mems_ok s" and "memory_with_key s owner k = Some m"
  shows "dict_get (st_memories s) (m_id m) = Some m" "m_owner_id m = owner"
    "m_idempotency_key m = Some k"
proof -
  from assms(2) have m: "m \<in> set (map snd (st_memories s))" "m_owner_id m = owner"
    "m_idempotency_key m = Some k"
    unfolding memory_with_key_def using find_SomeD by fast+
  then show "m_owner_id m = owner" "m_idempotency_key m = Some k" by simp_all
  from m(1) obtain i where "(i, m) \<in> set (st_memories s)" by auto
  moreover have "dict_ok (st_memories s)" using assms(1) by (simp add: mems_ok_def)
  ultimately have "dict_get (st_memories s) i = Some m"
    by (intro map_of_is_SomeI)
  with assms(1) show "dict_get (st_memories s) (m_id m) = Some m"
    by (auto simp: mems_ok_def)
qed

lemma memory_with_key_None:
  "memory_with_key s owner k = None \<Longrightarrow> \<not> has_key s owner k"
  by (auto simp: memory_with_key_def has_key_def find_None_iff dest!: map_of_SomeD)

section \<open>Inserting a memory\<close>

text \<open>The history grows by the snapshot of the next version.\<close>

lemma expected_versions_Suc:
  "0 \<le> n \<Longrightarrow> expected_versions (n + 1) = expected_versions n @ [n + 1]"
  by (simp add: expected_versions_def nat_add_distrib)

lemma history_ok_append:
  assumes "history_ok m h" "m_id n = m_id m" "m_version n = m_version m + 1" "1 \<le> m_version m"
  shows "history_ok n (h @ [memory_snapshot n reason])"
  using assms expected_versions_Suc [of "m_version m"]
  by (auto simp: history_ok_def memory_snapshot_def)

lemma history_ok_created:
  "m_version m = 1 \<Longrightarrow> history_ok m [memory_snapshot m reason]"
  by (simp add: history_ok_def memory_snapshot_def expected_versions_def)

text \<open>
  What may be written at an identifier: a new memory that is not tombstoned, or a new version
  that keeps the owner, the tenant and the idempotency key of the stored one.
\<close>

definition fits :: "InMemoryStore \<Rightarrow> Memory \<Rightarrow> bool" where
  "fits s m \<longleftrightarrow> memory_ok m \<and> (m_owner_id m, m_tenant_id m, m_id m) \<notin> st_tombstones s \<and>
     (\<forall>cur. dict_get (st_memories s) (m_id m) = Some cur \<longrightarrow> m_owner_id cur = m_owner_id m \<and>
        m_tenant_id cur = m_tenant_id m \<and> m_idempotency_key cur = m_idempotency_key m)"

lemma insert_memory_frame [simp]:
  "insert_memory m v h (s\<lparr>st_fingerprints := x\<rparr>) = (insert_memory m v h s)\<lparr>st_fingerprints := x\<rparr>"
  "st_fingerprints (insert_memory m v h s) = st_fingerprints s"
  "st_ops (insert_memory m v h s) = st_ops s"
  "st_tombstones (insert_memory m v h s) = st_tombstones s"
  "st_relations (insert_memory m v h s) = st_relations s"
  "st_memories (insert_memory m v h s) = dict_set (m_id m) m (st_memories s)"
  by (simp_all add: insert_memory_def)

lemma insert_memory_has_key:
  assumes "has_key s owner k" and "fits s m"
  shows "has_key (insert_memory m v h s) owner k"
proof -
  from assms(1) obtain i n where n: "dict_get (st_memories s) i = Some n" "m_owner_id n = owner"
    "m_idempotency_key n = Some k" by (auto simp: has_key_def)
  show ?thesis
  proof (cases "i = m_id m")
    case True
    with n assms(2) show ?thesis
      by (auto simp: has_key_def fits_def insert_memory_def dict_simps)
  next
    case False
    with n show ?thesis
      by (auto simp: has_key_def insert_memory_def dict_simps intro!: exI [of _ i])
  qed
qed

lemma insert_memory_owns:
  assumes "fits s m"
  shows "owns (insert_memory m v h s) owner i \<longleftrightarrow>
    owns s owner i \<or> (i = m_id m \<and> owner = m_owner_id m)"
  using assms by (auto simp: owns_def fits_def insert_memory_def dict_simps)

lemma insert_memory_has_own_key:
  "m_idempotency_key m = Some k \<Longrightarrow> has_key (insert_memory m v h s) (m_owner_id m) k"
  by (auto simp: has_key_def insert_memory_def dict_simps intro!: exI [of _ "m_id m"])

lemma core_ok_insert_memory:
  assumes "core_ok s" "fits s m" "history_ok m h"
  shows "core_ok (insert_memory m v h s)"
proof -
  let ?t = "insert_memory m v h s"
  have "mems_ok ?t" using assms
    by (auto simp: core_ok_def mems_ok_def fits_def insert_memory_def dict_simps)
  moreover have "index_ok ?t" using assms
    by (auto simp: core_ok_def index_ok_def insert_memory_def dict_simps)
  moreover have "fps_ok ?t"
    unfolding fps_ok_def
    using assms(1) insert_memory_has_key [OF _ assms(2)] unfolding core_ok_def fps_ok_def
    by simp
  moreover have "rels_ok ?t"
    using assms(1)
    by (auto simp: core_ok_def rels_ok_def insert_memory_owns [OF assms(2)])
  moreover have "tombs_ok ?t" using assms
    by (auto simp: core_ok_def tombs_ok_def fits_def insert_memory_def dict_simps)
  ultimately show ?thesis by (simp add: core_ok_def)
qed

lemma core_ok_set_fingerprint:
  assumes "core_ok s" and "has_key s owner k"
  shows "core_ok (s\<lparr>st_fingerprints := dict_set (owner, k) f (st_fingerprints s)\<rparr>)"
proof -
  let ?t = "s\<lparr>st_fingerprints := dict_set (owner, k) f (st_fingerprints s)\<rparr>"
  have key: "has_key ?t o' k' \<longleftrightarrow> has_key s o' k'" for o' k' by (simp add: has_key_def)
  have "dict_ok (st_fingerprints s)" "\<And>o' k' f'. dict_get (st_fingerprints s) (o', k') = Some f' \<Longrightarrow>
      has_key s o' k'"
    using assms(1) unfolding core_ok_def fps_ok_def by blast+
  with assms(2) have "fps_ok ?t" unfolding fps_ok_def key
    by (auto simp: update_conv' dict_ok_set split: if_splits)
  with assms(1) show ?thesis
    by (simp add: core_ok_def mems_ok_def index_ok_def rels_ok_def tombs_ok_def owns_def)
qed

section \<open>Repository operations\<close>

lemma repo_create_Inr:
  assumes "repo_create m f v s = (Inr r, t)" and "memory_ok m"
  shows "(\<not> cr_created r \<and> t = s \<and> (\<exists>k. m_idempotency_key m = Some k \<and>
            dict_get (st_fingerprints s) (m_owner_id m, k) = Some f \<and>
            memory_with_key s (m_owner_id m) k = Some (cr_memory r))) \<or>
         (r = \<lparr>cr_memory = m, cr_created = True\<rparr> \<and>
          t = (case m_idempotency_key m of
             None \<Rightarrow> insert_memory m v [memory_snapshot m ''created''] s
           | Some k \<Rightarrow> (insert_memory m v [memory_snapshot m ''created''] s)
               \<lparr>st_fingerprints := dict_set (m_owner_id m, k) f (st_fingerprints s)\<rparr>) \<and>
          (\<forall>k. m_idempotency_key m = Some k \<longrightarrow>
             dict_get (st_fingerprints s) (m_owner_id m, k) = None))"
proof (cases "m_idempotency_key m")
  case None
  with assms(1) show ?thesis by (simp add: repo_create_def)
next
  case (Some k)
  with assms(2) have "k \<noteq> []" by (auto simp: memory_ok_def label_ok_def)
  with Some assms(1) show ?thesis
    by (auto simp: repo_create_def Let_def split: option.splits if_splits)
qed

lemma core_ok_create:
  assumes "core_ok s" "repo_create m f v s = (Inr r, t)" "fits s m" "m_version m = 1"
  shows "core_ok t"
proof -
  let ?t = "insert_memory m v [memory_snapshot m ''created''] s"
  have ok: "memory_ok m" using assms(3) by (simp add: fits_def)
  have ins: "core_ok ?t"
    using core_ok_insert_memory [OF assms(1,3) history_ok_created [OF assms(4)]] .
  have keyed: "m_idempotency_key m = Some k \<Longrightarrow>
      core_ok (?t\<lparr>st_fingerprints := dict_set (m_owner_id m, k) f (st_fingerprints s)\<rparr>)" for k
    using core_ok_set_fingerprint [OF ins insert_memory_has_own_key] by simp
  show ?thesis
    using repo_create_Inr [OF assms(2) ok] assms(1) ins keyed by (auto split: option.splits)
qed

lemma repo_update_Inr:
  assumes "repo_update m n snap v s = (Inr r, t)"
  obtains cur h where "dict_get (st_memories s) (m_id m) = Some cur" "m_owner_id cur = m_owner_id m"
    "m_version cur = n" "dict_get (st_history s) (m_id m) = Some h" "r = m"
    "t = insert_memory m v (h @ [snap]) s"
proof -
  have "\<exists>cur h. dict_get (st_memories s) (m_id m) = Some cur \<and> m_owner_id cur = m_owner_id m \<and>
      m_version cur = n \<and> dict_get (st_history s) (m_id m) = Some h \<and> r = m \<and>
      t = insert_memory m v (h @ [snap]) s"
    using assms by (auto simp: repo_update_def split: option.splits if_splits)
  then show thesis using that by blast
qed

lemma core_ok_update:
  assumes "core_ok s" "repo_update m n (memory_snapshot m reason) v s = (Inr r, t)"
    and "dict_get (st_memories s) (m_id m) = Some cur"
    and "memory_ok m" "m_version m = m_version cur + 1"
    and "m_tenant_id m = m_tenant_id cur" "m_idempotency_key m = m_idempotency_key cur"
  shows "core_ok t"
  using assms(2)
proof (rule repo_update_Inr)
  fix cur' h
  assume *: "dict_get (st_memories s) (m_id m) = Some cur'" "m_owner_id cur' = m_owner_id m"
    "dict_get (st_history s) (m_id m) = Some h"
    "t = insert_memory m v (h @ [memory_snapshot m reason]) s"
  note cur = core_okD [OF assms(1,3)]
  have "history_ok cur h"
    using core_ok_history [OF assms(1,3)] *(3) by auto
  then have "history_ok m (h @ [memory_snapshot m reason])"
    using history_ok_append [of cur h m] assms(5) cur by (simp add: memory_ok_def)
  moreover have "fits s m" using assms * cur by (auto simp: fits_def)
  ultimately show ?thesis using core_ok_insert_memory [OF assms(1)] * by simp
qed

lemma repo_forget_Inr:
  assumes "repo_forget owner i tenant s = (Inr b, t)"
  shows "(b \<longleftrightarrow> repo_get s owner i tenant \<noteq> None) \<and> (\<not> b \<longrightarrow> t = s)"
  using assms by (auto simp: repo_forget_def repo_get_def split: option.splits if_splits)

lemma repo_forget_total: "\<exists>b t. repo_forget owner i tenant s = (Inr b, t)"
  by (auto simp: repo_forget_def split: option.splits)

lemma repo_forget_True:
  assumes "repo_forget owner i tenant s = (Inr True, t)"
  obtains m where "dict_get (st_memories s) i = Some m" "m_owner_id m = owner"
    "tenant \<noteq> None \<longrightarrow> m_tenant_id m = tenant"
    "st_memories t = dict_pop i (st_memories s)" "st_vectors t = dict_pop i (st_vectors s)"
    "st_history t = dict_pop i (st_history s)"
    "st_fingerprints t = (case m_idempotency_key m of
        Some k \<Rightarrow> if k \<noteq> [] then dict_pop (owner, k) (st_fingerprints s) else st_fingerprints s
      | None \<Rightarrow> st_fingerprints s)"
    "st_relations t = filter (\<lambda>(key, r). rel_source_id r \<noteq> i \<and> rel_target_id r \<noteq> i) (st_relations s)"
    "st_tombstones t = insert (owner, m_tenant_id m, i) (st_tombstones s)" "st_ops t = st_ops s"
proof -
  from assms obtain m where m: "dict_get (st_memories s) i = Some m" "m_owner_id m = owner"
    "tenant \<noteq> None \<longrightarrow> m_tenant_id m = tenant"
    by (auto simp: repo_forget_def split: option.splits if_splits)
  with assms have t: "t = s
            \<lparr>st_memories := dict_pop i (st_memories s),
             st_vectors := dict_pop i (st_vectors s),
             st_history := dict_pop i (st_history s),
             st_fingerprints := (case m_idempotency_key m of
                 Some k \<Rightarrow> if k \<noteq> [] then dict_pop (owner, k) (st_fingerprints s)
                           else st_fingerprints s
               | None \<Rightarrow> st_fingerprints s),
             st_relations := filter (\<lambda>(key, relation).
                 rel_source_id relation \<noteq> i \<and> rel_target_id relation \<noteq> i)
               (st_relations s),
             st_tombstones := insert (owner, m_tenant_id m, i) (st_tombstones s)\<rparr>"
    by (auto simp: repo_forget_def)
  show thesis by (rule that [OF m]) (simp_all add: t)
qed

lemma core_ok_forget:
  assumes "core_ok s" "repo_forget owner i tenant s = (Inr b, t)"
  shows "core_ok t"
proof (cases b)
  case False
  with assms repo_forget_Inr [OF assms(2)] show ?thesis by auto
next
  case True
  with assms(2) have "repo_forget owner i tenant s = (Inr True, t)" by simp
  then obtain m where m: "dict_get (st_memories s) i = Some m" "m_owner_id m = owner"
    and t: "st_memories t = dict_pop i (st_memories s)" "st_vectors t = dict_pop i (st_vectors s)"
    "st_history t = dict_pop i (st_history s)"
    and fp: "st_fingerprints t = (case m_idempotency_key m of
        Some k \<Rightarrow> if k \<noteq> [] then dict_pop (owner, k) (st_fingerprints s) else st_fingerprints s
      | None \<Rightarrow> st_fingerprints s)"
    and rl: "st_relations t = filter (\<lambda>(key, r). rel_source_id r \<noteq> i \<and> rel_target_id r \<noteq> i) (st_relations s)"
    and tb: "st_tombstones t = insert (owner, m_tenant_id m, i) (st_tombstones s)"
    by (rule repo_forget_True)
  have ok: "memory_ok m" using core_okD [OF assms(1) m(1)] by simp
  have "mems_ok t" "index_ok t" "tombs_ok t" using assms(1)
    by (auto simp: core_ok_def mems_ok_def index_ok_def tombs_ok_def t tb dict_simps)
  moreover have "fps_ok t"
  proof -
    have d: "dict_ok (st_fingerprints s)"
      and k: "\<And>o' k f. dict_get (st_fingerprints s) (o', k) = Some f \<Longrightarrow> has_key s o' k"
      using assms(1) unfolding core_ok_def fps_ok_def by blast+
    have keep: "has_key t o' k" if hk: "has_key s o' k"
      and "\<not> (o' = owner \<and> m_idempotency_key m = Some k)" for o' k
    proof -
      from hk obtain j n where j: "dict_get (st_memories s) j = Some n" "m_owner_id n = o'"
        "m_idempotency_key n = Some k" by (auto simp: has_key_def)
      with that(2) m have "j \<noteq> i" by auto
      with j show ?thesis
        unfolding has_key_def t by (auto simp: dict_simps intro!: exI [of _ j])
    qed
    have nk: "m_idempotency_key m = Some k \<Longrightarrow> k \<noteq> []" for k
      using ok by (auto simp: memory_ok_def label_ok_def)
    show ?thesis unfolding fps_ok_def fp using d k keep nk
      by (auto simp: dict_simps split: option.splits if_splits)
  qed
  moreover have "rels_ok t" using assms(1)
    unfolding core_ok_def rels_ok_def owns_def rl t
    by (auto simp: dict_simps dict_get_filter_value split: option.splits if_splits)
  ultimately show ?thesis by (simp add: core_ok_def)
qed

lemma repo_add_relation_Inr:
  assumes "repo_add_relation r s = (Inr r', t)"
  shows "r' = r" "owns s (rel_owner_id r) (rel_source_id r)" "owns s (rel_owner_id r) (rel_target_id r)"
    "dict_get (st_relations s) (relation_key r) = None"
    "t = s\<lparr>st_relations := dict_set (relation_key r) r (st_relations s)\<rparr>"
  using assms repo_get_owns by (auto simp: repo_add_relation_def split: if_splits)

lemma core_ok_set_relation:
  assumes "core_ok s" "rel_source_id r \<noteq> rel_target_id r"
    and "owns s (rel_owner_id r) (rel_source_id r)" "owns s (rel_owner_id r) (rel_target_id r)"
  shows "core_ok (s\<lparr>st_relations := dict_set (relation_key r) r (st_relations s)\<rparr>)"
proof -
  let ?t = "s\<lparr>st_relations := dict_set (relation_key r) r (st_relations s)\<rparr>"
  have "mems_ok ?t" "index_ok ?t" "fps_ok ?t" "tombs_ok ?t" using assms(1)
    by (auto simp: core_ok_def mems_ok_def index_ok_def fps_ok_def tombs_ok_def has_key_def)
  moreover have "rels_ok ?t" using assms unfolding core_ok_def rels_ok_def owns_def
    by (auto simp: dict_simps split: if_splits)
  ultimately show ?thesis by (simp add: core_ok_def)
qed

lemma core_ok_add_relation:
  assumes "core_ok s" "repo_add_relation r s = (Inr r', t)" "rel_source_id r \<noteq> rel_target_id r"
  shows "core_ok t"
  using core_ok_set_relation [OF assms(1,3)] repo_add_relation_Inr [OF assms(2)] by simp

section \<open>Ledger\<close>

abbreviation ledger_key :: "string \<Rightarrow> IdempotencyOperationType \<Rightarrow> string \<Rightarrow> op_key" where
  "ledger_key owner_id operation_type idempotency_key \<equiv>
     (owner_id, operation_type_value operation_type, idempotency_key)"

definition pending_op :: "string \<Rightarrow> StoredIdempotencyOperation" where
  "pending_op fingerprint = \<lparr>so_fingerprint = fingerprint, so_status = ''in_progress'',
     so_memory_id = None, so_result_version = None, so_result_status = None\<rparr>"

definition completed_op ::
  "string \<Rightarrow> uuid option \<Rightarrow> int option \<Rightarrow> string \<Rightarrow> StoredIdempotencyOperation" where
  "completed_op fingerprint memory_id result_version result_status =
     \<lparr>so_fingerprint = fingerprint, so_status = ''completed'', so_memory_id = memory_id,
      so_result_version = result_version, so_result_status = Some result_status\<rparr>"

definition fresh_claim ::
  "string \<Rightarrow> IdempotencyOperationType \<Rightarrow> string \<Rightarrow> string \<Rightarrow> IdempotencyClaim" where
  "fresh_claim owner_id operation_type idempotency_key fingerprint =
     \<lparr>ic_owner_id = owner_id, ic_operation_type = operation_type,
      ic_idempotency_key = idempotency_key, ic_fingerprint = fingerprint, ic_replay = False,
      ic_memory_id = None, ic_result_version = None, ic_result_status = None\<rparr>"

lemma idem_claim_Inr:
  assumes "idem_claim owner ty k f s = (Inr cl, t)"
  shows "(ic_replay cl \<and> t = s \<and> (\<exists>op. dict_get (st_ops s) (ledger_key owner ty k) = Some op \<and>
            so_fingerprint op = f \<and> so_status op = ''completed'' \<and> ic_memory_id cl = so_memory_id op \<and>
            ic_result_version cl = so_result_version op \<and> ic_result_status cl = so_result_status op)) \<or>
         (cl = fresh_claim owner ty k f \<and> dict_get (st_ops s) (ledger_key owner ty k) = None \<and>
          t = s\<lparr>st_ops := dict_set (ledger_key owner ty k) (pending_op f) (st_ops s)\<rparr>)"
  using assms
  by (auto simp: idem_claim_def Let_def fresh_claim_def pending_op_def split: option.splits if_splits)

lemma fresh_claim_simps [simp]: "ic_replay (fresh_claim owner ty k f) = False"
  by (simp add: fresh_claim_def)

text \<open>Completing a claim on a store whose ledger still holds the pending entry.\<close>

lemma idem_complete_fresh:
  assumes "st_ops u = dict_set (ledger_key owner ty k) (pending_op f) ops"
  shows "idem_complete (fresh_claim owner ty k f) i n st u =
    (Inr (), u\<lparr>st_ops := dict_set (ledger_key owner ty k) (completed_op f i n st) ops\<rparr>)"
  using assms
  by (simp add: idem_complete_def fresh_claim_def pending_op_def completed_op_def dict_simps)

lemma ops_ok_completed:
  "ops_ok s \<Longrightarrow> ops_ok (u\<lparr>st_ops := dict_set k (completed_op f i n st) (st_ops s)\<rparr>)"
  by (auto simp: ops_ok_def completed_op_def dict_simps split: if_splits)

lemma idem_claim_not_in_progress:
  assumes "ops_ok s"
  shows "idem_claim owner ty k f s \<noteq> (Inl IdempotencyInProgressError, t)"
  using assms by (auto simp: idem_claim_def ops_ok_def Let_def split: option.splits if_splits)

section \<open>Import\<close>

definition import_record_ok :: "string \<Rightarrow> MemoryImportRecord \<Rightarrow> bool" where
  "import_record_ok owner r \<longleftrightarrow> memory_ok (xr_memory r) \<and> m_owner_id (xr_memory r) = owner \<and>
     history_ok (xr_memory r) (xr_history r) \<and>
     (\<forall>rel\<in>set (xr_relations r). rel_owner_id rel = owner \<and> rel_source_id rel \<noteq> rel_target_id rel)"

lemma import_one_Inr:
  assumes "import_one r s = (Inr new, t)"
  shows "(\<not> new \<and> t = s \<and> (\<exists>cur. dict_get (st_memories s) (m_id (xr_memory r)) = Some cur \<and>
            memory_eq cur (xr_memory r))) \<or>
         (new \<and> dict_get (st_memories s) (m_id (xr_memory r)) = None \<and>
          (m_owner_id (xr_memory r), m_tenant_id (xr_memory r), m_id (xr_memory r)) \<notin> st_tombstones s \<and>
          (\<exists>e. xr_embedding r = Some e \<and>
             t = (let s' = insert_memory (xr_memory r) e (xr_history r) s in
                  case m_idempotency_key (xr_memory r) of None \<Rightarrow> s'
                  | Some k \<Rightarrow> s'\<lparr>st_fingerprints := dict_set (m_owner_id (xr_memory r), k)
                      (case xr_write_fingerprint r of None \<Rightarrow> [] | Some f \<Rightarrow> f)
                      (st_fingerprints s')\<rparr>)))"
  using assms by (auto simp: import_one_def Let_def split: option.splits if_splits)

lemma core_ok_import_one:
  assumes "core_ok s" "import_one r s = (Inr new, t)" "import_record_ok owner r"
  shows "core_ok t" "owns s o' i \<Longrightarrow> owns t o' i" "owns t owner (m_id (xr_memory r))"
    "owns t o' i \<Longrightarrow> o' \<noteq> owner \<Longrightarrow> owns s o' i"
    "st_ops t = st_ops s" "st_tombstones t = st_tombstones s" "st_relations t = st_relations s"
proof -
  let ?m = "xr_memory r"
  have r: "memory_ok ?m" "m_owner_id ?m = owner" "history_ok ?m (xr_history r)"
    using assms(3) by (simp_all add: import_record_ok_def)
  have "core_ok t \<and> (owns s o' i \<longrightarrow> owns t o' i) \<and> owns t owner (m_id ?m) \<and>
    (owns t o' i \<longrightarrow> o' \<noteq> owner \<longrightarrow> owns s o' i) \<and>
    st_ops t = st_ops s \<and> st_tombstones t = st_tombstones s \<and> st_relations t = st_relations s"
  proof (cases new)
    case False
    with import_one_Inr [OF assms(2)] assms(1) r memory_eqD(2) show ?thesis
      by (auto simp: owns_def)
  next
    case True
    with import_one_Inr [OF assms(2)] obtain e where
      new: "dict_get (st_memories s) (m_id ?m) = None"
        "(m_owner_id ?m, m_tenant_id ?m, m_id ?m) \<notin> st_tombstones s"
      and t: "t = (let s' = insert_memory ?m e (xr_history r) s in
                  case m_idempotency_key ?m of None \<Rightarrow> s'
                  | Some k \<Rightarrow> s'\<lparr>st_fingerprints := dict_set (m_owner_id ?m, k)
                      (case xr_write_fingerprint r of None \<Rightarrow> [] | Some f \<Rightarrow> f)
                      (st_fingerprints s')\<rparr>)" by blast
    let ?s = "insert_memory ?m e (xr_history r) s"
    have fit: "fits s ?m" using new r by (simp add: fits_def)
    have core: "core_ok ?s" using core_ok_insert_memory [OF assms(1) fit r(3)] .
    have own: "owns t o' i \<longleftrightarrow> owns ?s o' i" for o' i
      by (simp add: t Let_def owns_def split: option.splits)
    have "core_ok t"
      using core core_ok_set_fingerprint [OF core insert_memory_has_own_key]
      by (auto simp: t Let_def split: option.splits)
    then show ?thesis
      using r(2) by (auto simp: own insert_memory_owns [OF fit]) (auto simp: t Let_def split: option.splits)
  qed
  then show "core_ok t" "owns s o' i \<Longrightarrow> owns t o' i" "owns t owner (m_id (xr_memory r))"
    "owns t o' i \<Longrightarrow> o' \<noteq> owner \<Longrightarrow> owns s o' i"
    "st_ops t = st_ops s" "st_tombstones t = st_tombstones s" "st_relations t = st_relations s"
    by blast+
qed

lemma core_ok_import_records:
  assumes "core_ok s" "import_records rs a b s = (Inr res, t)" "\<forall>r\<in>set rs. import_record_ok owner r"
  shows "core_ok t \<and> (\<forall>o' i. owns s o' i \<longrightarrow> owns t o' i) \<and>
    (\<forall>r\<in>set rs. owns t owner (m_id (xr_memory r))) \<and>
    st_ops t = st_ops s \<and> st_tombstones t = st_tombstones s \<and> st_relations t = st_relations s"
  using assms
proof (induction rs arbitrary: a b s)
  case Nil
  then show ?case by (simp add: act_simps)
next
  case (Cons r rs)
  from Cons.prems(2) obtain new s1 where one: "import_one r s = (Inr new, s1)"
    and rest: "import_records rs (if new then a + 1 else a) (if new then b else b + 1) s1 = (Inr res, t)"
    by (auto simp: act_simps split: if_splits)
  have r: "import_record_ok owner r" using Cons.prems(3) by simp
  note step = core_ok_import_one [OF Cons.prems(1) one r]
  from Cons.IH [OF step(1) rest] Cons.prems(3) step show ?case by simp
qed

lemma core_ok_import_relation:
  assumes "core_ok s" "rel_source_id rel \<noteq> rel_target_id rel"
    "owns s (rel_owner_id rel) (rel_source_id rel)" "owns s (rel_owner_id rel) (rel_target_id rel)"
  shows "core_ok (import_relation rel s)"
  using assms core_ok_set_relation by (simp add: import_relation_def)

lemma owns_import_relation [simp]: "owns (import_relation rel s) = owns s"
  by (simp add: owns_def import_relation_def fun_eq_iff)

lemma core_ok_import_relations:
  assumes "core_ok s"
    "\<forall>rel\<in>set rels. rel_source_id rel \<noteq> rel_target_id rel \<and>
       owns s (rel_owner_id rel) (rel_source_id rel) \<and> owns s (rel_owner_id rel) (rel_target_id rel)"
  shows "core_ok (fold import_relation rels s)"
  using assms
proof (induction rels arbitrary: s)
  case (Cons rel rels)
  then have "core_ok (import_relation rel s)" by (intro core_ok_import_relation) simp_all
  then show ?case using Cons by simp
qed simp

lemma import_relations_frame [simp]:
  "st_ops (fold import_relation rels s) = st_ops s"
  "st_memories (fold import_relation rels s) = st_memories s"
  "st_vectors (fold import_relation rels s) = st_vectors s"
  "st_history (fold import_relation rels s) = st_history s"
  "st_fingerprints (fold import_relation rels s) = st_fingerprints s"
  "st_tombstones (fold import_relation rels s) = st_tombstones s"
  by (induction rels arbitrary: s) (simp_all add: import_relation_def)

lemma core_ok_admin_import:
  assumes "core_ok s" "admin_import_memories rs s = (Inr res, t)"
    and ok: "\<forall>r\<in>set rs. import_record_ok owner r"
    and ends: "\<forall>r\<in>set rs. \<forall>rel\<in>set (xr_relations r). \<forall>e\<in>{rel_source_id rel, rel_target_id rel}.
      e \<in> (\<lambda>r. m_id (xr_memory r)) ` set rs \<or> owns s owner e"
  shows "core_ok t" "st_ops t = st_ops s"
proof -
  from assms(2) obtain u where u: "import_records rs 0 0 s = (Inr res, u)"
    and t: "t = fold import_relation (concat (map xr_relations rs)) u"
    by (auto simp: admin_import_memories_def act_simps)
  note imp = core_ok_import_records [OF assms(1) u ok]
  have "core_ok (fold import_relation (concat (map xr_relations rs)) u)"
  proof (rule core_ok_import_relations)
    show "core_ok u" using imp by simp
    show "\<forall>rel\<in>set (concat (map xr_relations rs)). rel_source_id rel \<noteq> rel_target_id rel \<and>
       owns u (rel_owner_id rel) (rel_source_id rel) \<and> owns u (rel_owner_id rel) (rel_target_id rel)"
    proof
      fix rel assume "rel \<in> set (concat (map xr_relations rs))"
      then obtain r where r: "r \<in> set rs" "rel \<in> set (xr_relations r)" by auto
      have "owns u owner e" if "e \<in> {rel_source_id rel, rel_target_id rel}" for e
      proof -
        have "e \<in> (\<lambda>r. m_id (xr_memory r)) ` set rs \<or> owns s owner e"
          using ends r that by blast
        then show ?thesis using imp by (elim disjE imageE) simp_all
      qed
      with ok r show "rel_source_id rel \<noteq> rel_target_id rel \<and>
       owns u (rel_owner_id rel) (rel_source_id rel) \<and> owns u (rel_owner_id rel) (rel_target_id rel)"
        by (simp add: import_record_ok_def)
    qed
  qed
  then show "core_ok t" by (simp add: t)
  show "st_ops t = st_ops s" using imp by (simp add: t)
qed

end
