(* ===== verification/Service_Search.thy ===== *)
theory Service_Search
  imports Memory_Service
begin

text \<open>
  \<open>MemoryApplicationService.search\<close> and \<open>recall\<close>: policy checks, candidate retrieval,
  the abstention threshold, scoring and ranking. Both only read the store.
\<close>

section \<open>Definitions\<close>

text \<open>\<open>f"{x:.2f}"\<close> for a non-negative float.\<close>

definition fmt2 :: "pyfloat \<Rightarrow> string" where
  "fmt2 x = (let n = round_even (x * 100) in int_str (n div 100) @ ''.'' @ dec_pad 2 (n mod 100))"

definition clamp01 :: "pyfloat \<Rightarrow> pyfloat" where
  "clamp01 x = max 0 (min 1 x)"

definition relevance_score :: "pyfloat \<Rightarrow> Memory \<Rightarrow> pyfloat" where
  "relevance_score similarity m =
     fadd (fadd (fmul (fl (75/100)) similarity) (fmul (fl (15/100)) (m_importance m)))
          (fmul (fl (10/100)) (m_confidence m))"

definition item_order :: "SearchMemoryItem \<Rightarrow> pyfloat \<times> pyfloat \<times> string" where
  "item_order item = (- si_score item, - si_similarity item, uuid_str (m_id (si_memory item)))"

definition make_item :: "EmbeddingProfile \<Rightarrow> MemorySearchCandidate \<Rightarrow> string \<Rightarrow> SearchMemoryItem" where
  "make_item profile candidate reason =
     (let similarity = clamp01 (sc_similarity candidate) in
      \<lparr>si_memory = sc_memory candidate,
       si_score = round6 (relevance_score similarity (sc_memory candidate)),
       si_similarity = round6 similarity,
       si_profile_id = ep_id profile,
       si_profile_version = ep_version profile,
       si_reason_retrieved = reason\<rparr>)"

definition search_reason :: "MemorySearchCandidate \<Rightarrow> string" where
  "search_reason candidate =
     ''semantic similarity '' @ fmt2 (clamp01 (sc_similarity candidate)) @
     ''; importance '' @ fmt2 (m_importance (sc_memory candidate)) @
     ''; confidence '' @ fmt2 (m_confidence (sc_memory candidate))"

fun rank_search ::
  "EmbeddingProfile \<Rightarrow> pyfloat \<Rightarrow> MemorySearchCandidate list \<Rightarrow> SearchMemoryItem list result" where
  "rank_search profile threshold [] = Inr []"
| "rank_search profile threshold (candidate # rest) =
     (if sc_profile candidate \<noteq> profile then Inl EmbeddingProfileMismatchError
      else if clamp01 (sc_similarity candidate) < threshold then rank_search profile threshold rest
      else res_bind (rank_search profile threshold rest) (\<lambda>items.
           Inr (make_item profile candidate (search_reason candidate) # items)))"

definition search_states :: "MemoryState set \<Rightarrow> MemoryState set" where
  "search_states states =
     (if ACTIVE \<in> states then states \<union> {CONFIRMED, PINNED} else states)"

definition svc_search ::
  "ServiceEnv \<Rightarrow> SearchMemoryCommand \<Rightarrow> InMemoryStore \<Rightarrow> SearchMemoryResult result" where
  "svc_search env c s =
     res_bind (validate_owner_id (sr_owner_id c)) (\<lambda>_.
     res_bind (res_guard (py_strip (sr_query c) \<noteq> []) ValidationError) (\<lambda>_.
     res_bind (res_guard (1 \<le> sr_limit c \<and> sr_limit c \<le> 100) ValidationError) (\<lambda>_.
     res_bind (res_guard (1 \<le> sr_candidate_limit c \<and> sr_candidate_limit c \<le> 500) ValidationError) (\<lambda>_.
     res_bind (res_guard (0 \<le> sr_threshold c \<and> sr_threshold c \<le> 1) ValidationError) (\<lambda>_.
     res_bind (embed_checked env (sr_query c) True) (\<lambda>query_vector.
     let profile = env_profile env;
         filters = (sr_filters c)\<lparr>sf_states := search_states (sf_states (sr_filters c))\<rparr>
     in res_bind (repo_search_candidates s (sr_owner_id c) None query_vector profile filters
          (sr_candidate_limit c)) (\<lambda>candidates.
        res_bind (rank_search profile (sr_threshold c) candidates) (\<lambda>ranked.
        Inr \<lparr>sres_items = py_take (sr_limit c) (sort_key item_order ranked),
             sres_profile_id = ep_id profile, sres_profile_version = ep_version profile\<rparr>))))))))"

definition requested_spaces :: "RecallMemoryCommand \<Rightarrow> string option list" where
  "requested_spaces c =
     (let requested = (if rc_include_spaces c \<noteq> [] then map Some (rc_include_spaces c)
                       else [rc_context_space c])
      in if list_ex (\<lambda>space. space = None) requested
         then (let named = filter (\<lambda>space. space \<noteq> None) requested
               in if named = [] then [None] else named)
         else requested)"

definition spaces_permitted :: "RecallMemoryCommand \<Rightarrow> string option list \<Rightarrow> bool" where
  "spaces_permitted c requested \<longleftrightarrow>
     list_all (\<lambda>space. space = rc_context_space c \<or>
       space_policy_allows (rc_space_policy c) space (rc_context_space c)) requested"

definition recall_reason :: "string option \<Rightarrow> MemorySearchCandidate \<Rightarrow> string" where
  "recall_reason context_space candidate =
     (if m_space (sc_memory candidate) \<noteq> context_space
      then ''explicit_cross_space_semantic_match'' else ''same_space_semantic_match'')"

fun rank_recall ::
  "RecallMemoryCommand \<Rightarrow> EmbeddingProfile \<Rightarrow> uuid set \<Rightarrow> MemorySearchCandidate list \<Rightarrow>
   SearchMemoryItem list" where
  "rank_recall c profile seen [] = []"
| "rank_recall c profile seen (candidate # rest) =
     (if m_id (sc_memory candidate) \<in> seen \<or>
         m_memory_type (sc_memory candidate) = MENTAL_NOTE \<and> \<not> rc_allow_mental_notes c
      then rank_recall c profile seen rest
      else
        let seen' = insert (m_id (sc_memory candidate)) seen in
        if clamp01 (sc_similarity candidate) < rc_threshold c then rank_recall c profile seen' rest
        else make_item profile candidate (recall_reason (rc_context_space c) candidate)
               # rank_recall c profile seen' rest)"

definition recall_filters :: "RecallMemoryCommand \<Rightarrow> string option \<Rightarrow> SearchFilters" where
  "recall_filters c space =
     \<lparr>sf_states = rc_states c, sf_memory_types = rc_memory_types c, sf_space = space,
      sf_min_importance = None, sf_min_confidence = None\<rparr>"

definition svc_recall ::
  "ServiceEnv \<Rightarrow> RecallMemoryCommand \<Rightarrow> InMemoryStore \<Rightarrow> RecallResult result" where
  "svc_recall env c s =
     res_bind (validate_scope (rc_scopes c) ''memory:read'') (\<lambda>_.
     res_bind (validate_scope_value (rc_tenant_id c)) (\<lambda>_.
     res_bind (validate_owner_id (rc_owner_id c)) (\<lambda>_.
     res_bind (res_guard (\<not> rc_connection_revoked c) ConnectionRevokedError) (\<lambda>_.
     res_bind (res_guard (py_strip (rc_query c) \<noteq> []) ValidationError) (\<lambda>_.
     res_bind (res_guard (1 \<le> rc_limit c \<and> rc_limit c \<le> 100 \<and>
       1 \<le> rc_candidate_limit c \<and> rc_candidate_limit c \<le> 500) ValidationError) (\<lambda>_.
     res_bind (res_guard (0 \<le> rc_threshold c \<and> rc_threshold c \<le> 1) ValidationError) (\<lambda>_.
     let requested = requested_spaces c in
     res_bind (res_guard (spaces_permitted c requested) SpaceForbiddenError) (\<lambda>_.
     res_bind (embed_checked env (rc_query c) True) (\<lambda>query_vector.
     let profile = env_profile env in
     res_bind (res_map (\<lambda>space. repo_search_candidates s (rc_owner_id c) (Some (rc_tenant_id c))
       query_vector profile (recall_filters c space) (rc_candidate_limit c)) requested) (\<lambda>candidates.
     let items = py_take (rc_limit c)
           (sort_key item_order (rank_recall c profile {} (concat candidates)))
     in Inr \<lparr>rres_items = items, rres_count = length items,
             rres_profile_id = ep_id profile, rres_profile_version = ep_version profile\<rparr>))))))))))"

section \<open>Candidates returned by the repository\<close>

lemma collect_candidates_memories:
  assumes "collect_candidates match q p vs ms = Inr cs"
  shows "map sc_memory cs = filter (\<lambda>m. match m \<and> m_embedding m \<noteq> None \<and>
            profile_descriptor p = Inr (the (m_embedding m))) (map snd ms)"
  using assms
proof (induction match q p vs ms arbitrary: cs rule: collect_candidates.induct)
  case (1 match q p vs)
  then show ?case by simp
next
  case (2 match q p vs i m rest)
  then show ?case
    by (auto simp: act_simps split: option.splits if_splits)
qed

lemma collect_candidates_profile:
  assumes "collect_candidates match q p vs ms = Inr cs" and "c \<in> set cs"
  shows "sc_profile c = p"
  using assms
proof (induction match q p vs ms arbitrary: cs rule: collect_candidates.induct)
  case (1 match q p vs)
  then show ?case by simp
next
  case (2 match q p vs i m rest)
  then show ?case
    by (auto simp: act_simps split: option.splits if_splits)
qed

lemma collect_candidates_sound:
  assumes "collect_candidates match q p vs ms = Inr cs" and "c \<in> set cs"
  shows "(\<exists>i. (i, sc_memory c) \<in> set ms) \<and> match (sc_memory c) \<and> sc_profile c = p"
proof -
  have "sc_memory c \<in> set (map sc_memory cs)" using assms(2) by simp
  then have "sc_memory c \<in> set (map snd ms)" "match (sc_memory c)"
    unfolding collect_candidates_memories [OF assms(1)] by simp_all
  then show ?thesis using collect_candidates_profile [OF assms] by auto
qed

lemma repo_search_candidates_sound:
  assumes "repo_search_candidates s owner tenant q p f n = Inr cs" and "c \<in> set cs"
  shows "(\<exists>i. (i, sc_memory c) \<in> set (st_memories s)) \<and>
         filters_match owner tenant f (sc_memory c) \<and> sc_profile c = p"
proof -
  from assms(1) obtain cs0 where cs0: "collect_candidates (filters_match owner tenant f) q p
      (st_vectors s) (st_memories s) = Inr cs0"
    and cs: "cs = py_take n (sort_key (\<lambda>c. (- sc_similarity c, uuid_str (m_id (sc_memory c)))) cs0)"
    by (auto simp: repo_search_candidates_def act_simps)
  have "c \<in> set cs0" using assms(2) set_py_take unfolding cs by fastforce
  from collect_candidates_sound [OF cs0 this] show ?thesis .
qed

section \<open>Ranking\<close>

lemma make_item_simps [simp]:
  "si_memory (make_item p c r) = sc_memory c"
  "si_reason_retrieved (make_item p c r) = r"
  by (simp_all add: make_item_def Let_def)

lemma rank_search_sound:
  assumes "rank_search p t cs = Inr items" and "x \<in> set items"
  shows "\<exists>c\<in>set cs. x = make_item p c (search_reason c) \<and> sc_profile c = p \<and>
           t \<le> clamp01 (sc_similarity c)"
  using assms
  by (induction p t cs arbitrary: items rule: rank_search.induct)
     (force simp: act_simps not_less split: if_splits)+

lemma rank_recall_sound:
  "x \<in> set (rank_recall c p seen cs) \<Longrightarrow>
     m_id (si_memory x) \<notin> seen \<and>
     (m_memory_type (si_memory x) = MENTAL_NOTE \<longrightarrow> rc_allow_mental_notes c) \<and>
     (\<exists>k\<in>set cs. x = make_item p k (recall_reason (rc_context_space c) k) \<and>
        rc_threshold c \<le> clamp01 (sc_similarity k))"
  by (induction c p seen cs rule: rank_recall.induct)
     (auto simp: Let_def not_less split: if_splits)

lemma rank_recall_distinct:
  "distinct (map (\<lambda>x. m_id (si_memory x)) (rank_recall c p seen cs))"
proof (induction c p seen cs rule: rank_recall.induct)
  case (1 c p seen)
  show ?case by simp
next
  case (2 c p seen k rest)
  have "m_id (sc_memory k) \<notin>
      (\<lambda>x. m_id (si_memory x)) ` set (rank_recall c p (insert (m_id (sc_memory k)) seen) rest)"
    by (auto dest: rank_recall_sound)
  with 2 show ?case by (simp add: Let_def)
qed

text \<open>What a successful search or recall did, with every guard that was passed.\<close>

lemma svc_search_Inr:
  assumes "svc_search env c s = Inr r"
  obtains q cs ranked where
    "owner_id_ok (sr_owner_id c)" "1 \<le> sr_limit c"
    "repo_search_candidates s (sr_owner_id c) None q (env_profile env)
       ((sr_filters c)\<lparr>sf_states := search_states (sf_states (sr_filters c))\<rparr>) (sr_candidate_limit c) = Inr cs"
    "rank_search (env_profile env) (sr_threshold c) cs = Inr ranked"
    "sres_items r = py_take (sr_limit c) (sort_key item_order ranked)"
  using assms by (auto simp: svc_search_def Let_def act_simps)

lemma svc_recall_Inr:
  assumes "svc_recall env c s = Inr r"
  obtains q css where
    "''memory:read'' \<in> rc_scopes c" "\<not> rc_connection_revoked c" "1 \<le> rc_limit c"
    "spaces_permitted c (requested_spaces c)"
    "list_all2 (\<lambda>space cs. repo_search_candidates s (rc_owner_id c) (Some (rc_tenant_id c)) q
       (env_profile env) (recall_filters c space) (rc_candidate_limit c) = Inr cs)
       (requested_spaces c) css"
    "rres_items r = py_take (rc_limit c)
       (sort_key item_order (rank_recall c (env_profile env) {} (concat css)))"
    "rres_count r = length (rres_items r)"
  using assms
  by (auto simp: svc_recall_def Let_def act_simps validate_scope_def res_map_Inr)

lemma recall_item_origin:
  assumes "svc_recall env c s = Inr r" and "x \<in> set (rres_items r)"
  obtains i space where "(i, si_memory x) \<in> set (st_memories s)" "space \<in> set (requested_spaces c)"
    "filters_match (rc_owner_id c) (Some (rc_tenant_id c)) (recall_filters c space) (si_memory x)"
    "spaces_permitted c (requested_spaces c)"
    "m_memory_type (si_memory x) = MENTAL_NOTE \<longrightarrow> rc_allow_mental_notes c"
    "si_reason_retrieved x = (if m_space (si_memory x) \<noteq> rc_context_space c
       then ''explicit_cross_space_semantic_match'' else ''same_space_semantic_match'')"
proof -
  from assms(1) obtain q css where perm: "spaces_permitted c (requested_spaces c)"
    and all: "list_all2 (\<lambda>space cs. repo_search_candidates s (rc_owner_id c) (Some (rc_tenant_id c)) q
       (env_profile env) (recall_filters c space) (rc_candidate_limit c) = Inr cs)
       (requested_spaces c) css"
    and items: "rres_items r = py_take (rc_limit c)
       (sort_key item_order (rank_recall c (env_profile env) {} (concat css)))"
    by (rule svc_recall_Inr)
  have "x \<in> set (rank_recall c (env_profile env) {} (concat css))"
    using assms(2) set_py_take unfolding items by fastforce
  note sound = rank_recall_sound [OF this]
  then obtain k where k: "k \<in> set (concat css)"
    and x: "x = make_item (env_profile env) k (recall_reason (rc_context_space c) k)" by blast
  from k obtain cs where cs: "cs \<in> set css" "k \<in> set cs" by auto
  obtain space where space: "space \<in> set (requested_spaces c)"
    and ok: "repo_search_candidates s (rc_owner_id c) (Some (rc_tenant_id c)) q
       (env_profile env) (recall_filters c space) (rc_candidate_limit c) = Inr cs"
    using list_all2_mem_right [OF all cs(1)] by blast
  have mem: "si_memory x = sc_memory k" by (simp add: x)
  from repo_search_candidates_sound [OF ok cs(2)] obtain i where
    i: "(i, si_memory x) \<in> set (st_memories s)"
      "filters_match (rc_owner_id c) (Some (rc_tenant_id c)) (recall_filters c space) (si_memory x)"
    unfolding mem by blast
  have reason: "si_reason_retrieved x = (if m_space (si_memory x) \<noteq> rc_context_space c
       then ''explicit_cross_space_semantic_match'' else ''same_space_semantic_match'')"
    by (simp only: x make_item_simps recall_reason_def)
  show thesis
    using that [OF i(1) space i(2) perm _ reason] sound by blast
qed

section \<open>Score bounds\<close>

lemma clamp01_bounds: "0 \<le> clamp01 x" "clamp01 x \<le> 1"
  by (simp_all add: clamp01_def)

lemma float_weights:
  "0 \<le> fl (75/100)" "0 \<le> fl (15/100)" "0 \<le> fl (10/100)"
  by (simp_all add: fl_nonneg)

lemma relevance_score_one: "round6 (fadd (fadd (fmul (fl (75/100)) 1) (fmul (fl (15/100)) 1))
    (fmul (fl (10/100)) 1)) = 1"
  by code_simp

lemma relevance_score_bounds:
  assumes "0 \<le> similarity" "similarity \<le> 1" "memory_ok m"
  shows "0 \<le> round6 (relevance_score similarity m)" "round6 (relevance_score similarity m) \<le> 1"
proof -
  have m: "0 \<le> m_importance m" "m_importance m \<le> 1" "0 \<le> m_confidence m" "m_confidence m \<le> 1"
    using assms(3) by (simp_all add: memory_ok_def)
  have "relevance_score similarity m \<le> fadd (fadd (fmul (fl (75/100)) 1) (fmul (fl (15/100)) 1))
      (fmul (fl (10/100)) 1)"
    unfolding relevance_score_def using assms m float_weights
    by (intro fadd_mono fmul_mono_right)
  then show "round6 (relevance_score similarity m) \<le> 1"
    using round6_mono relevance_score_one by metis
  have "0 \<le> relevance_score similarity m"
    unfolding relevance_score_def using assms m float_weights
    by (intro fadd_nonneg fmul_nonneg)
  moreover have "round6 0 = 0" by (simp add: round6_def round_even_def)
  ultimately show "0 \<le> round6 (relevance_score similarity m)"
    using round6_mono by metis
qed

end
