(* ===== verification/Service_Steps.thy ===== *)
theory Service_Steps
  imports Store_Invariant Service_Search
begin

text \<open>
  The mutating use cases as steps of a transition system.

  \<open>store_effect owner\<close> is the abstract specification of what a use case may do to the store
  on behalf of one owner: create a memory, write its next version, forget it, add a relation,
  import records, or record a completed operation. Every successful use case is shown to be a
  finite sequence of such effects, and a failing one to be no change at all, so that the
  properties of the whole service are proved once per effect, by rule induction.
\<close>

section \<open>Effects\<close>

inductive store_effect :: "string \<Rightarrow> InMemoryStore \<Rightarrow> InMemoryStore \<Rightarrow> bool" for owner where
  create: "\<lbrakk>repo_create m f v s = (Inr r, t); fits s m; dict_get (st_memories s) (m_id m) = None;
    m_version m = 1; m_owner_id m = owner\<rbrakk> \<Longrightarrow> store_effect owner s t"
| next_version: "\<lbrakk>dict_get (st_memories s) (m_id cur) = Some cur; m_owner_id cur = owner;
    memory_evolve cur a = Inr m; repo_update m n (memory_snapshot m reason) v s = (Inr r, t)\<rbrakk> \<Longrightarrow>
    store_effect owner s t"
| forget: "repo_forget owner i tenant s = (Inr b, t) \<Longrightarrow> store_effect owner s t"
| relate: "\<lbrakk>repo_add_relation rel s = (Inr r, t); rel_owner_id rel = owner;
    rel_source_id rel \<noteq> rel_target_id rel\<rbrakk> \<Longrightarrow> store_effect owner s t"
| ledger: "dict_get (st_ops s) (owner, ty, k) = None \<Longrightarrow> store_effect owner s
    (s\<lparr>st_ops := dict_set (owner, ty, k) (completed_op f i n st) (st_ops s)\<rparr>)"
| import_records: "\<lbrakk>admin_import_memories rs s = (Inr res, t); \<forall>r\<in>set rs. import_record_ok owner r;
    \<forall>r\<in>set rs. \<forall>rel\<in>set (xr_relations r). \<forall>e\<in>{rel_source_id rel, rel_target_id rel}.
      e \<in> (\<lambda>r. m_id (xr_memory r)) ` set rs \<or> owns s owner e\<rbrakk> \<Longrightarrow> store_effect owner s t"

abbreviation store_effects :: "string \<Rightarrow> InMemoryStore \<Rightarrow> InMemoryStore \<Rightarrow> bool" where
  "store_effects owner \<equiv> (store_effect owner)\<^sup>*\<^sup>*"

lemma repo_create_ops:
  "repo_create m f v s = (Inr r, t) \<Longrightarrow> st_ops t = st_ops s"
  by (auto simp: repo_create_def Let_def split: option.splits if_splits)

lemma store_effect_ok:
  assumes "store_effect owner s t" and "store_ok s"
  shows "store_ok t"
  using assms
proof (induction rule: store_effect.induct)
  case (create m f v s r t)
  then show ?case
    using core_ok_create [of s m f v r t] repo_create_ops [OF create(1)]
    by (simp add: store_ok_def ops_ok_def)
next
  case (next_version s cur a m n reason v r t)
  note ev = memory_evolve_Inr [OF next_version(3)]
  have "core_ok t"
    using core_ok_update [of s m n reason v r t cur] next_version ev by (simp add: store_ok_def)
  moreover have "st_ops t = st_ops s"
    using next_version(4) by (rule repo_update_Inr) simp
  ultimately show ?case using next_version(5) by (simp add: store_ok_def ops_ok_def)
next
  case (forget i tenant s b t)
  then have "core_ok t" using core_ok_forget [of s owner i tenant b t] by (simp add: store_ok_def)
  moreover have "st_ops t = st_ops s"
    using forget(1) by (auto simp: repo_forget_def split: option.splits if_splits)
  ultimately show ?case using forget(2) by (simp add: store_ok_def ops_ok_def)
next
  case (relate rel s r t)
  then show ?case
    using core_ok_add_relation [of s rel r t] repo_add_relation_Inr(5) [OF relate(1)]
    by (simp add: store_ok_def ops_ok_def)
next
  case (ledger s ty k f i n st)
  then show ?case using ops_ok_completed by (simp add: store_ok_def)
next
  case (import_records rs s res t)
  then show ?case
    using core_ok_admin_import [of s rs res t owner] by (simp add: store_ok_def ops_ok_def)
qed

lemma store_effects_ok: "store_effects owner s t \<Longrightarrow> store_ok s \<Longrightarrow> store_ok t"
  by (induction rule: rtranclp_induct) (auto intro: store_effect_ok)

section \<open>Running under a pending ledger entry\<close>

text \<open>The repository does not look at the ledger, so its operations commute with it.\<close>

lemma repo_get_ops [simp]: "repo_get (s\<lparr>st_ops := x\<rparr>) = repo_get s"
  by (simp add: repo_get_def fun_eq_iff)

lemma insert_memory_ops [simp]:
  "insert_memory m v h (s\<lparr>st_ops := x\<rparr>) = (insert_memory m v h s)\<lparr>st_ops := x\<rparr>"
  by (simp add: insert_memory_def)

lemma repo_update_ops:
  "repo_update m n sn v (s\<lparr>st_ops := x\<rparr>) = (Inr r, t) \<Longrightarrow>
     repo_update m n sn v s = (Inr r, t\<lparr>st_ops := st_ops s\<rparr>) \<and> st_ops t = x"
  by (auto simp: repo_update_def split: option.splits if_splits)

lemma repo_forget_ops:
  "repo_forget owner i tn (s\<lparr>st_ops := x\<rparr>) = (Inr r, t) \<Longrightarrow>
     repo_forget owner i tn s = (Inr r, t\<lparr>st_ops := st_ops s\<rparr>) \<and> st_ops t = x"
  by (auto simp: repo_forget_def split: option.splits if_splits)

lemma repo_add_relation_ops:
  "repo_add_relation rel (s\<lparr>st_ops := x\<rparr>) = (Inr r, t) \<Longrightarrow>
     repo_add_relation rel s = (Inr r, t\<lparr>st_ops := st_ops s\<rparr>) \<and> st_ops t = x"
  by (auto simp: repo_add_relation_def split: option.splits if_splits)

text \<open>
  Effects reached under a pending entry, followed by its completion, are effects from the
  store before the claim.
\<close>

lemma effects_complete:
  assumes "store_effects owner s (u\<lparr>st_ops := st_ops s\<rparr>)" "dict_get (st_ops s) (owner, ty, k) = None"
  shows "store_effects owner s (u\<lparr>st_ops := dict_set (owner, ty, k) (completed_op f i n st) (st_ops s)\<rparr>)"
proof -
  have "store_effect owner (u\<lparr>st_ops := st_ops s\<rparr>)
      (u\<lparr>st_ops := dict_set (owner, ty, k) (completed_op f i n st) (st_ops s)\<rparr>)"
    using store_effect.ledger [of "u\<lparr>st_ops := st_ops s\<rparr>" owner ty k f i n st] assms(2) by simp
  with assms(1) show ?thesis by (rule rtranclp.rtrancl_into_rtrancl)
qed

section \<open>Each use case is a sequence of effects\<close>

definition uuid_fresh :: "ServiceEnv \<Rightarrow> InMemoryStore \<Rightarrow> bool" where
  "uuid_fresh env s \<longleftrightarrow> dict_get (st_memories s) (env_uuid4 env) = None \<and>
     (\<forall>owner tenant. (owner, tenant, env_uuid4 env) \<notin> st_tombstones s)"

lemma fits_created:
  assumes "memory_create a (env_uuid4 env) now = Inr m" "uuid_fresh env s"
  shows "fits s m" "dict_get (st_memories s) (m_id m) = None" "m_version m = 1"
    "m_owner_id m = ca_owner_id a"
  using memory_create_Inr [OF assms(1)] assms(2) by (auto simp: fits_def uuid_fresh_def)

lemma find_prior_Inr:
  assumes "find_prior owner key s = (Inr prior, t)"
  shows "t = s"
    "prior = Some p \<Longrightarrow> \<exists>k. key = Some k \<and> k \<noteq> [] \<and>
       dict_get (st_fingerprints s) (owner, k) = Some (il_fingerprint p) \<and>
       memory_with_key s owner k = Some (il_memory p)"
    "prior = None \<Longrightarrow> \<forall>k. key = Some k \<and> k \<noteq> [] \<longrightarrow> dict_get (st_fingerprints s) (owner, k) = None"
  using assms
  by (auto simp: find_prior_def act_simps repo_find_by_idempotency_key_def
      split: option.splits if_splits)

text \<open>A successful write either replays a stored memory or creates one.\<close>

lemma svc_write_Inr:
  assumes "svc_write env c s = (Inr r, t)"
  shows "(\<exists>k. wr_idempotency_key c = Some k \<and> k \<noteq> [] \<and>
            dict_get (st_fingerprints s) (wr_owner_id c, k) =
              Some (env_digest env (canonical_write_command c)) \<and>
            memory_with_key s (wr_owner_id c) k = Some (wres_memory r) \<and> \<not> wres_created r \<and> t = s) \<or>
         (\<exists>a m v cr. memory_create a (env_uuid4 env) (astimezone_utc (env_clock env 0)) = Inr m \<and>
            ca_owner_id a = wr_owner_id c \<and> ca_content a = wr_content c \<and>
            ca_idempotency_key a = wr_idempotency_key c \<and> ca_initial_state a = ACTIVE \<and>
            ca_tenant_id a = wr_tenant_id c \<and>
            repo_create m (env_digest env (canonical_write_command c)) v s = (Inr cr, t) \<and>
            wres_memory r = cr_memory cr \<and> wres_created r = cr_created cr)"
proof -
  from assms obtain prior where prior: "find_prior (wr_owner_id c) (wr_idempotency_key c) s = (Inr prior, s)"
    using find_prior_Inr(1) by (fastforce simp: svc_write_def Let_def unit_of_work_def act_simps)
  show ?thesis
  proof (cases prior)
    case (Some p)
    with assms prior have "il_fingerprint p = env_digest env (canonical_write_command c)"
      "r = \<lparr>wres_memory = il_memory p, wres_created = False\<rparr>" "t = s"
      by (auto simp: svc_write_def Let_def unit_of_work_def act_simps split: if_splits)
    with find_prior_Inr(2) [OF prior Some] show ?thesis by auto
  next
    case None
    with assms prior show ?thesis
      by (simp add: svc_write_def Let_def unit_of_work_def act_simps) fastforce
  qed
qed

lemma svc_write_effects:
  assumes "svc_write env c s = (Inr r, t)" "uuid_fresh env s"
  shows "store_effects (wr_owner_id c) s t"
  using svc_write_Inr [OF assms(1)]
proof (elim disjE exE conjE)
  fix a m v cr
  assume "memory_create a (env_uuid4 env) (astimezone_utc (env_clock env 0)) = Inr m"
    "ca_owner_id a = wr_owner_id c"
    "repo_create m (env_digest env (canonical_write_command c)) v s = (Inr cr, t)"
  with fits_created [OF this(1) assms(2)] show ?thesis
    by (intro r_into_rtranclp) (rule store_effect.create, simp_all)
qed simp

lemma svc_capture_Inr:
  assumes "svc_capture env c s = (Inr r, t)"
  shows "capture_checks c = Inr () \<and> ((\<not> cr_created r \<and> t = s \<and>
            dict_get (st_fingerprints s) (cp_owner_id c, cp_idempotency_key c) =
              Some (env_digest env (canonical_capture_command c)) \<and>
            memory_with_key s (cp_owner_id c) (cp_idempotency_key c) = Some (cr_memory r)) \<or>
         (\<exists>a m v. memory_create a (env_uuid4 env) (astimezone_utc (env_clock env 0)) = Inr m \<and>
            ca_owner_id a = cp_owner_id c \<and> ca_content a = cp_content c \<and>
            ca_idempotency_key a = Some (cp_idempotency_key c) \<and> ca_initial_state a = CANDIDATE \<and>
            ca_tenant_id a = Some (cp_tenant_id c) \<and> ca_capture_consent a = Some (cp_consent c) \<and>
            dict_get (st_fingerprints s) (cp_owner_id c, cp_idempotency_key c) = None \<and>
            repo_create m (env_digest env (canonical_capture_command c)) v s = (Inr r, t)))"
proof -
  from assms obtain prior where checks: "capture_checks c = Inr ()" and
    prior: "repo_find_by_idempotency_key s (cp_owner_id c) (cp_idempotency_key c) = Inr prior"
    by (auto simp: svc_capture_def Let_def unit_of_work_def act_simps)
  show ?thesis
  proof (cases prior)
    case (Some p)
    with assms prior checks show ?thesis
      by (auto simp: svc_capture_def Let_def unit_of_work_def act_simps
          repo_find_by_idempotency_key_def split: if_splits option.splits)
  next
    case None
    with prior have "dict_get (st_fingerprints s) (cp_owner_id c, cp_idempotency_key c) = None"
      by (auto simp: repo_find_by_idempotency_key_def split: option.splits)
    with None assms prior checks show ?thesis
      by (simp add: svc_capture_def Let_def unit_of_work_def act_simps) fastforce
  qed
qed

lemma svc_capture_effects:
  assumes "svc_capture env c s = (Inr r, t)" "uuid_fresh env s"
  shows "store_effects (cp_owner_id c) s t"
  using svc_capture_Inr [OF assms(1)]
proof (elim conjE disjE exE)
  fix a m v
  assume "memory_create a (env_uuid4 env) (astimezone_utc (env_clock env 0)) = Inr m"
    "ca_owner_id a = cp_owner_id c"
    "repo_create m (env_digest env (canonical_capture_command c)) v s = (Inr r, t)"
  with fits_created [OF this(1) assms(2)] show ?thesis
    by (intro r_into_rtranclp) (rule store_effect.create, simp_all)
qed simp

text \<open>
  The mutations that carry an idempotency key: a replay reads the recorded version and changes
  nothing, a first call writes the next version and completes the ledger entry.
\<close>

definition replayed ::
  "InMemoryStore \<Rightarrow> op_key \<Rightarrow> string \<Rightarrow> string option \<Rightarrow> uuid \<Rightarrow> int \<Rightarrow> Memory \<Rightarrow> bool" where
  "replayed s key f tenant i n r \<longleftrightarrow> (\<exists>op. dict_get (st_ops s) key = Some op \<and> so_fingerprint op = f \<and>
     repo_get_version s (fst key) (or_default (so_memory_id op) i)
       (case so_result_version op of None \<Rightarrow> n | Some v \<Rightarrow> if v = 0 then n else v) tenant = Inr (Some r))"

definition first_call :: "InMemoryStore \<Rightarrow> op_key \<Rightarrow> string \<Rightarrow> string \<Rightarrow> Memory \<Rightarrow> InMemoryStore \<Rightarrow>
   InMemoryStore \<Rightarrow> bool" where
  "first_call s key f st r u t \<longleftrightarrow> dict_get (st_ops s) key = None \<and>
     t = u\<lparr>st_ops := dict_set key (completed_op f (Some (m_id r)) (Some (m_version r)) st) (st_ops s)\<rparr>"

lemma get_current_Inr [act_simps]:
  "get_current owner i tenant n s = (Inr m, t) \<longleftrightarrow>
     t = s \<and> repo_get s owner i tenant = Some m \<and> m_version m = n"
  by (auto simp: get_current_def act_simps split: option.splits if_splits)

lemma replay_snapshot_Inr [act_simps]:
  "replay_snapshot owner tenant i n cl s = (Inr m, t) \<longleftrightarrow>
     t = s \<and> repo_get_version s owner (or_default (ic_memory_id cl) i) (replayed_version cl n) tenant
       = Inr (Some m)"
  by (auto simp: replay_snapshot_def act_simps split: option.splits)

text \<open>Claim, then either replay or run a body that keeps the pending entry and completes it.\<close>

lemma claimed_run:
  assumes run: "act_bind (idem_claim owner ty k f) (\<lambda>cl. if ic_replay cl
       then replay_snapshot owner tenant i n cl else body cl) s = (Inr r, t)"
  shows "(t = s \<and> replayed s (ledger_key owner ty k) f tenant i n r) \<or>
     (dict_get (st_ops s) (ledger_key owner ty k) = None \<and>
      body (fresh_claim owner ty k f)
        (s\<lparr>st_ops := dict_set (ledger_key owner ty k) (pending_op f) (st_ops s)\<rparr>) = (Inr r, t))"
proof -
  from run obtain cl s1 where cl: "idem_claim owner ty k f s = (Inr cl, s1)"
    and rest: "(if ic_replay cl then replay_snapshot owner tenant i n cl else body cl) s1 = (Inr r, t)"
    by (auto simp: act_simps)
  show ?thesis
  proof (cases "ic_replay cl")
    case True
    with idem_claim_Inr [OF cl] obtain op where "s1 = s"
      "dict_get (st_ops s) (ledger_key owner ty k) = Some op" "so_fingerprint op = f"
      "ic_memory_id cl = so_memory_id op" "ic_result_version cl = so_result_version op" by auto
    with rest True show ?thesis
      by (auto simp: act_simps replayed_def replayed_version_def)
  next
    case False
    with idem_claim_Inr [OF cl] rest show ?thesis by auto
  qed
qed

lemma repo_update_complete:
  assumes "repo_update m n sn v (s\<lparr>st_ops := dict_set (ledger_key owner ty k) (pending_op f) (st_ops s)\<rparr>)
      = (Inr r, u)"
    and "idem_complete (fresh_claim owner ty k f) i ver st u = (Inr x, t)"
  shows "repo_update m n sn v s = (Inr m, u\<lparr>st_ops := st_ops s\<rparr>) \<and> r = m \<and>
     t = u\<lparr>st_ops := dict_set (ledger_key owner ty k) (completed_op f i ver st) (st_ops s)\<rparr>"
proof -
  note up = repo_update_ops [OF assms(1)]
  from up have "r = m" by (auto elim: repo_update_Inr)
  with up assms(2) idem_complete_fresh [of u owner ty k f "st_ops s" i ver st] show ?thesis by simp
qed

lemma confirm_body_Inr:
  assumes "confirm_body env c (fresh_claim (cf_owner_id c) CONFIRM k f)
      (s\<lparr>st_ops := dict_set (ledger_key (cf_owner_id c) CONFIRM k) (pending_op f) (st_ops s)\<rparr>) = (Inr r, t)"
  shows "\<exists>cur a v u. repo_get s (cf_owner_id c) (cf_memory_id c) (Some (cf_tenant_id c)) = Some cur \<and>
       m_version cur = cf_expected_version c \<and> m_state cur \<in> {CANDIDATE, STALE} \<and>
       ev_state a = Some CONFIRMED \<and> memory_evolve cur a = Inr r \<and>
       repo_update r (cf_expected_version c) (memory_snapshot r (cf_actor_reason c)) v s =
         (Inr r, u\<lparr>st_ops := st_ops s\<rparr>) \<and>
       t = u\<lparr>st_ops := dict_set (ledger_key (cf_owner_id c) CONFIRM k)
         (completed_op f (Some (m_id r)) (Some (m_version r)) ''confirmed'') (st_ops s)\<rparr>"
proof -
  let ?s = "s\<lparr>st_ops := dict_set (ledger_key (cf_owner_id c) CONFIRM k) (pending_op f) (st_ops s)\<rparr>"
  let ?a = "\<lambda>d. (evolve_defaults (astimezone_utc (env_clock env 0)))
       \<lparr>ev_state := Some CONFIRMED, ev_change_reason := cf_actor_reason c,
        ev_embedding := Some (Some d), ev_content := cf_content c,
        ev_memory_type := cf_memory_type c, ev_space := map_option Some (cf_space c)\<rparr>"
  from assms obtain cur d upd v u x where
    cur: "repo_get s (cf_owner_id c) (cf_memory_id c) (Some (cf_tenant_id c)) = Some cur"
      "m_version cur = cf_expected_version c" "m_state cur \<in> {CANDIDATE, STALE}"
    and a: "memory_evolve cur (?a d) = Inr upd"
    and up: "repo_update upd (cf_expected_version c) (memory_snapshot upd (cf_actor_reason c)) v ?s = (Inr r, u)"
    and co: "idem_complete (fresh_claim (cf_owner_id c) CONFIRM k f) (Some (m_id r)) (Some (m_version r))
       ''confirmed'' u = (Inr x, t)"
    unfolding confirm_body_def by (auto simp: act_simps)
  have "ev_state (?a d) = Some CONFIRMED" by simp
  with repo_update_complete [OF up co] cur a show ?thesis by blast
qed

lemma svc_confirm_Inr:
  assumes "svc_confirm_candidate env c s = (Inr r, t)"
  shows "(t = s \<and> replayed s (ledger_key (cf_owner_id c) CONFIRM (cf_idempotency_key c))
      (env_digest env (canonical_confirm_command c)) (Some (cf_tenant_id c)) (cf_memory_id c)
      (cf_expected_version c) r) \<or>
    (dict_get (st_ops s) (ledger_key (cf_owner_id c) CONFIRM (cf_idempotency_key c)) = None \<and>
     (\<exists>cur a v u. repo_get s (cf_owner_id c) (cf_memory_id c) (Some (cf_tenant_id c)) = Some cur \<and>
       m_version cur = cf_expected_version c \<and> m_state cur \<in> {CANDIDATE, STALE} \<and>
       ev_state a = Some CONFIRMED \<and> memory_evolve cur a = Inr r \<and>
       repo_update r (cf_expected_version c) (memory_snapshot r (cf_actor_reason c)) v s =
         (Inr r, u\<lparr>st_ops := st_ops s\<rparr>) \<and>
       t = u\<lparr>st_ops := dict_set (ledger_key (cf_owner_id c) CONFIRM (cf_idempotency_key c))
         (completed_op (env_digest env (canonical_confirm_command c)) (Some (m_id r))
            (Some (m_version r)) ''confirmed'') (st_ops s)\<rparr>))"
proof -
  from assms have "act_bind (idem_claim (cf_owner_id c) CONFIRM (cf_idempotency_key c)
      (env_digest env (canonical_confirm_command c))) (\<lambda>cl. if ic_replay cl
       then replay_snapshot (cf_owner_id c) (Some (cf_tenant_id c)) (cf_memory_id c)
         (cf_expected_version c) cl
       else confirm_body env c cl) s = (Inr r, t)"
    by (auto simp: svc_confirm_candidate_def Let_def unit_of_work_def act_simps)
  from claimed_run [OF this] confirm_body_Inr show ?thesis by blast
qed

lemma evolved_effect:
  assumes "store_ok s" "repo_get s owner i tenant = Some cur" "memory_evolve cur a = Inr r"
    "repo_update r n (memory_snapshot r reason) v s = (Inr r, u)"
  shows "store_effect owner s u"
proof (rule store_effect.next_version)
  have cur: "dict_get (st_memories s) i = Some cur" "m_owner_id cur = owner"
    using assms(2) by (simp_all add: repo_get_Some)
  then show "dict_get (st_memories s) (m_id cur) = Some cur" "m_owner_id cur = owner"
    using core_okD [of s i cur] assms(1) by (simp_all add: store_ok_def)
qed (use assms in simp_all)

lemma svc_confirm_effects:
  assumes "svc_confirm_candidate env c s = (Inr r, t)" "store_ok s"
  shows "store_effects (cf_owner_id c) s t"
  using svc_confirm_Inr [OF assms(1)]
proof (elim disjE conjE exE)
  fix cur a v u
  assume none: "dict_get (st_ops s) (ledger_key (cf_owner_id c) CONFIRM (cf_idempotency_key c)) = None"
  assume "repo_get s (cf_owner_id c) (cf_memory_id c) (Some (cf_tenant_id c)) = Some cur"
    "memory_evolve cur a = Inr r"
    "repo_update r (cf_expected_version c) (memory_snapshot r (cf_actor_reason c)) v s =
         (Inr r, u\<lparr>st_ops := st_ops s\<rparr>)"
  from evolved_effect [OF assms(2) this] have "store_effects (cf_owner_id c) s (u\<lparr>st_ops := st_ops s\<rparr>)"
    by (rule r_into_rtranclp)
  from effects_complete [OF this none]
  show "t = u\<lparr>st_ops := dict_set (ledger_key (cf_owner_id c) CONFIRM (cf_idempotency_key c))
         (completed_op (env_digest env (canonical_confirm_command c)) (Some (m_id r))
            (Some (m_version r)) ''confirmed'') (st_ops s)\<rparr> \<Longrightarrow> ?thesis" by simp
qed simp

abbreviation pin_target :: "PinMemoryCommand \<Rightarrow> MemoryState" where
  "pin_target c \<equiv> (if pn_pinned c then PINNED else CONFIRMED)"

lemma pin_body_Inr:
  assumes "pin_body env c (fresh_claim (pn_owner_id c) PIN k f)
      (s\<lparr>st_ops := dict_set (ledger_key (pn_owner_id c) PIN k) (pending_op f) (st_ops s)\<rparr>) = (Inr r, t)"
  shows "\<exists>cur u. repo_get s (pn_owner_id c) (pn_memory_id c) (Some (pn_tenant_id c)) = Some cur \<and>
       m_version cur = pn_expected_version c \<and> m_state cur \<in> {CONFIRMED, PINNED} \<and>
       (if m_state cur = pin_target c then r = cur \<and> u = s
        else \<exists>a v. ev_state a = Some (pin_target c) \<and> memory_evolve cur a = Inr r \<and>
          repo_update r (m_version cur) (memory_snapshot r (memory_state_value (m_state r))) v s =
           (Inr r, u\<lparr>st_ops := st_ops s\<rparr>)) \<and>
       t = u\<lparr>st_ops := dict_set (ledger_key (pn_owner_id c) PIN k)
         (completed_op f (Some (m_id r)) (Some (m_version r)) (memory_state_value (pin_target c))) (st_ops s)\<rparr>"
proof -
  let ?s = "s\<lparr>st_ops := dict_set (ledger_key (pn_owner_id c) PIN k) (pending_op f) (st_ops s)\<rparr>"
  let ?cl = "fresh_claim (pn_owner_id c) PIN k f"
  let ?a = "(evolve_defaults (astimezone_utc (env_clock env 0)))\<lparr>ev_state := Some (pin_target c),
       ev_change_reason := (if pn_pinned c then ''pinned'' else ''unpinned'')\<rparr>"
  from assms obtain cur where
    cur: "repo_get s (pn_owner_id c) (pn_memory_id c) (Some (pn_tenant_id c)) = Some cur"
      "m_version cur = pn_expected_version c" "m_state cur \<in> {CONFIRMED, PINNED}"
    and rest: "(if m_state cur = pin_target c then
       act_bind (idem_complete ?cl (Some (m_id cur)) (Some (m_version cur))
         (memory_state_value (pin_target c))) (\<lambda>_. act_return cur)
     else
       act_bind (act_res (ensure_aware (env_clock env 0))) (\<lambda>now.
       act_bind (act_res (memory_evolve cur ((evolve_defaults now)
         \<lparr>ev_state := Some (pin_target c),
          ev_change_reason := (if pn_pinned c then ''pinned'' else ''unpinned'')\<rparr>))) (\<lambda>updated.
       act_bind (act_res (embed_checked env (m_content updated) False)) (\<lambda>vector.
       act_bind (repo_update updated (m_version cur)
         (memory_snapshot updated (memory_state_value (m_state updated))) vector) (\<lambda>persisted.
       act_bind (idem_complete ?cl (Some (m_id persisted)) (Some (m_version persisted))
         (memory_state_value (pin_target c))) (\<lambda>_.
       act_return persisted)))))) ?s = (Inr r, t)"
    unfolding pin_body_def Let_def act_bind_Inr get_current_Inr act_basic_Inr repo_get_ops by blast
  show ?thesis
  proof (cases "m_state cur = pin_target c")
    case True
    with rest have "r = cur" "idem_complete ?cl (Some (m_id cur)) (Some (m_version cur))
         (memory_state_value (pin_target c)) ?s = (Inr (), t)"
      by (auto simp: act_simps)
    with idem_complete_fresh [of ?s "pn_owner_id c" PIN k f "st_ops s"] cur True show ?thesis by simp
  next
    case False
    with rest obtain upd v u x where up: "memory_evolve cur ?a = Inr upd"
      "repo_update upd (m_version cur) (memory_snapshot upd (memory_state_value (m_state upd))) v ?s = (Inr r, u)"
      "idem_complete ?cl (Some (m_id r)) (Some (m_version r)) (memory_state_value (pin_target c)) u = (Inr x, t)"
      by (auto simp: act_simps split del: if_split)
    have ev: "ev_state ?a = Some (pin_target c)" by simp
    show ?thesis
      by (rule exI [of _ cur], rule exI [of _ u], subst if_not_P [OF False])
         (use repo_update_complete [OF up(2,3)] up(1) cur ev in blast)
  qed
qed

lemma svc_pin_Inr:
  assumes "svc_pin env c s = (Inr r, t)"
  shows "(t = s \<and> replayed s (ledger_key (pn_owner_id c) PIN (pn_idempotency_key c))
      (env_digest env (canonical_pin_command c)) (Some (pn_tenant_id c)) (pn_memory_id c)
      (pn_expected_version c) r) \<or>
    (dict_get (st_ops s) (ledger_key (pn_owner_id c) PIN (pn_idempotency_key c)) = None \<and>
     pin_body env c (fresh_claim (pn_owner_id c) PIN (pn_idempotency_key c)
       (env_digest env (canonical_pin_command c)))
      (s\<lparr>st_ops := dict_set (ledger_key (pn_owner_id c) PIN (pn_idempotency_key c))
        (pending_op (env_digest env (canonical_pin_command c))) (st_ops s)\<rparr>) = (Inr r, t))"
proof -
  from assms have "act_bind (idem_claim (pn_owner_id c) PIN (pn_idempotency_key c)
      (env_digest env (canonical_pin_command c))) (\<lambda>cl. if ic_replay cl
       then replay_snapshot (pn_owner_id c) (Some (pn_tenant_id c)) (pn_memory_id c)
         (pn_expected_version c) cl
       else pin_body env c cl) s = (Inr r, t)"
    by (auto simp: svc_pin_def Let_def unit_of_work_def act_simps)
  from claimed_run [OF this] show ?thesis .
qed

lemma svc_pin_effects:
  assumes "svc_pin env c s = (Inr r, t)" "store_ok s"
  shows "store_effects (pn_owner_id c) s t"
  using svc_pin_Inr [OF assms(1)]
proof (elim disjE conjE)
  let ?op = "completed_op (env_digest env (canonical_pin_command c)) (Some (m_id r))
    (Some (m_version r)) (memory_state_value (pin_target c))"
  assume none: "dict_get (st_ops s) (ledger_key (pn_owner_id c) PIN (pn_idempotency_key c)) = None"
  assume "pin_body env c (fresh_claim (pn_owner_id c) PIN (pn_idempotency_key c)
       (env_digest env (canonical_pin_command c)))
      (s\<lparr>st_ops := dict_set (ledger_key (pn_owner_id c) PIN (pn_idempotency_key c))
        (pending_op (env_digest env (canonical_pin_command c))) (st_ops s)\<rparr>) = (Inr r, t)"
  from pin_body_Inr [OF this] obtain cur u where
    cur: "repo_get s (pn_owner_id c) (pn_memory_id c) (Some (pn_tenant_id c)) = Some cur"
    and body: "if m_state cur = pin_target c then r = cur \<and> u = s
        else \<exists>a v. ev_state a = Some (pin_target c) \<and> memory_evolve cur a = Inr r \<and>
          repo_update r (m_version cur) (memory_snapshot r (memory_state_value (m_state r))) v s =
           (Inr r, u\<lparr>st_ops := st_ops s\<rparr>)"
    and t: "t = u\<lparr>st_ops := dict_set (ledger_key (pn_owner_id c) PIN (pn_idempotency_key c)) ?op (st_ops s)\<rparr>"
    by blast
  have "store_effects (pn_owner_id c) s (u\<lparr>st_ops := st_ops s\<rparr>)"
  proof (cases "m_state cur = pin_target c")
    case True
    with body show ?thesis by simp
  next
    case False
    with body evolved_effect [OF assms(2) cur] show ?thesis
      by (simp split del: if_split) (blast intro: r_into_rtranclp)
  qed
  from effects_complete [OF this none] show ?thesis unfolding t .
qed simp

lemma repo_forget_complete:
  assumes "repo_forget owner i tn (s\<lparr>st_ops := dict_set (ledger_key owner ty k) (pending_op f) (st_ops s)\<rparr>)
      = (Inr b, u)"
    and "idem_complete (fresh_claim owner ty k f) j ver st u = (Inr x, t)"
  shows "repo_forget owner i tn s = (Inr b, u\<lparr>st_ops := st_ops s\<rparr>) \<and>
     t = u\<lparr>st_ops := dict_set (ledger_key owner ty k) (completed_op f j ver st) (st_ops s)\<rparr>"
  using repo_forget_ops [OF assms(1)] assms(2)
    idem_complete_fresh [of u owner ty k f "st_ops s" j ver st] by simp

definition forget_status :: "bool \<Rightarrow> string" where
  "forget_status b = (if b then ''forgotten'' else ''already_absent'')"

lemma svc_discard_Inr:
  assumes "svc_discard_candidate env c s = (Inr r, t)"
  shows "dres_memory_id r = dc_memory_id c \<and>
   ((t = s \<and> (\<exists>op. dict_get (st_ops s) (ledger_key (dc_owner_id c) DISCARD (dc_idempotency_key c)) = Some op \<and>
       so_fingerprint op = env_digest env (canonical_discard_command c) \<and>
       dres_forgotten r = (so_result_status op = Some ''forgotten''))) \<or>
    (\<exists>cur u. repo_get s (dc_owner_id c) (dc_memory_id c) (Some (dc_tenant_id c)) = Some cur \<and>
       m_version cur = dc_expected_version c \<and> m_state cur = CANDIDATE \<and>
       dict_get (st_ops s) (ledger_key (dc_owner_id c) DISCARD (dc_idempotency_key c)) = None \<and>
       repo_forget (dc_owner_id c) (dc_memory_id c) (Some (dc_tenant_id c)) s =
         (Inr (dres_forgotten r), u\<lparr>st_ops := st_ops s\<rparr>) \<and>
       t = u\<lparr>st_ops := dict_set (ledger_key (dc_owner_id c) DISCARD (dc_idempotency_key c))
         (completed_op (env_digest env (canonical_discard_command c)) (Some (dc_memory_id c)) None
            (forget_status (dres_forgotten r))) (st_ops s)\<rparr>))"
proof -
  let ?f = "env_digest env (canonical_discard_command c)"
  from assms obtain cl s1 where cl: "idem_claim (dc_owner_id c) DISCARD (dc_idempotency_key c) ?f s = (Inr cl, s1)"
    and rest: "(if ic_replay cl then
         act_return \<lparr>dres_memory_id = dc_memory_id c,
           dres_forgotten = (ic_result_status cl = Some ''forgotten'')\<rparr>
       else
         act_bind (get_current (dc_owner_id c) (dc_memory_id c) (Some (dc_tenant_id c))
           (dc_expected_version c)) (\<lambda>current.
         act_bind (act_guard (m_state current = CANDIDATE) InvalidStateTransitionError) (\<lambda>_.
         act_bind (repo_forget (dc_owner_id c) (dc_memory_id c) (Some (dc_tenant_id c))) (\<lambda>forgotten.
         act_bind (idem_complete cl (Some (dc_memory_id c)) None
           (if forgotten then ''forgotten'' else ''already_absent'')) (\<lambda>_.
         act_return \<lparr>dres_memory_id = dc_memory_id c, dres_forgotten = forgotten\<rparr>))))) s1 = (Inr r, t)"
    unfolding svc_discard_candidate_def Let_def unit_of_work_def act_bind_Inr act_atomic_Inr
      act_basic_Inr(3) by blast
  from idem_claim_Inr [OF cl] show ?thesis
  proof (elim disjE conjE)
    assume "ic_replay cl" "s1 = s" and op: "\<exists>op. dict_get (st_ops s) (ledger_key (dc_owner_id c) DISCARD
        (dc_idempotency_key c)) = Some op \<and> so_fingerprint op = ?f \<and> so_status op = ''completed'' \<and>
        ic_memory_id cl = so_memory_id op \<and> ic_result_version cl = so_result_version op \<and>
        ic_result_status cl = so_result_status op"
    with rest have "r = \<lparr>dres_memory_id = dc_memory_id c,
        dres_forgotten = (ic_result_status cl = Some ''forgotten'')\<rparr>" "t = s"
      by (simp_all add: act_simps)
    then show ?thesis using op by auto
  next
    let ?s = "s\<lparr>st_ops := dict_set (ledger_key (dc_owner_id c) DISCARD (dc_idempotency_key c))
      (pending_op ?f) (st_ops s)\<rparr>"
    assume none: "dict_get (st_ops s) (ledger_key (dc_owner_id c) DISCARD (dc_idempotency_key c)) = None"
    assume fresh: "cl = fresh_claim (dc_owner_id c) DISCARD (dc_idempotency_key c) ?f" "s1 = ?s"
    with rest obtain cur b u where
      cur: "repo_get s (dc_owner_id c) (dc_memory_id c) (Some (dc_tenant_id c)) = Some cur"
        "m_version cur = dc_expected_version c" "m_state cur = CANDIDATE"
      and fo: "repo_forget (dc_owner_id c) (dc_memory_id c) (Some (dc_tenant_id c)) ?s = (Inr b, u)"
      and co: "idem_complete cl (Some (dc_memory_id c)) None (forget_status b) u = (Inr (), t)"
      and r: "r = \<lparr>dres_memory_id = dc_memory_id c, dres_forgotten = b\<rparr>"
      by (auto simp: act_simps forget_status_def)
    have "dres_forgotten r = b" "dres_memory_id r = dc_memory_id c" by (simp_all add: r)
    with repo_forget_complete [OF fo co [unfolded fresh]] cur none show ?thesis by blast
  qed
qed

lemma svc_discard_effects:
  assumes "svc_discard_candidate env c s = (Inr r, t)"
  shows "store_effects (dc_owner_id c) s t"
  using svc_discard_Inr [OF assms]
proof (elim conjE disjE exE)
  fix cur u
  assume none: "dict_get (st_ops s) (ledger_key (dc_owner_id c) DISCARD (dc_idempotency_key c)) = None"
  assume "repo_forget (dc_owner_id c) (dc_memory_id c) (Some (dc_tenant_id c)) s =
         (Inr (dres_forgotten r), u\<lparr>st_ops := st_ops s\<rparr>)"
  then have "store_effects (dc_owner_id c) s (u\<lparr>st_ops := st_ops s\<rparr>)"
    by (intro r_into_rtranclp store_effect.forget)
  from effects_complete [OF this none]
  show "t = u\<lparr>st_ops := dict_set (ledger_key (dc_owner_id c) DISCARD (dc_idempotency_key c))
         (completed_op (env_digest env (canonical_discard_command c)) (Some (dc_memory_id c)) None
            (forget_status (dres_forgotten r))) (st_ops s)\<rparr> \<Longrightarrow> ?thesis" by simp
qed simp

text \<open>The body of \<open>update\<close>, with its relation, under an optional ledger entry.\<close>

definition pending :: "InMemoryStore \<Rightarrow> IdempotencyClaim option \<Rightarrow> InMemoryStore" where
  "pending s cl = (case cl of None \<Rightarrow> s | Some x \<Rightarrow> s\<lparr>st_ops := dict_set
     (ledger_key (ic_owner_id x) (ic_operation_type x) (ic_idempotency_key x))
     (pending_op (ic_fingerprint x)) (st_ops s)\<rparr>)"

definition completed :: "InMemoryStore \<Rightarrow> IdempotencyClaim option \<Rightarrow> uuid option \<Rightarrow> int option \<Rightarrow>
   string \<Rightarrow> (op_key, StoredIdempotencyOperation) dict" where
  "completed s cl i n st = (case cl of None \<Rightarrow> st_ops s | Some x \<Rightarrow> dict_set
     (ledger_key (ic_owner_id x) (ic_operation_type x) (ic_idempotency_key x))
     (completed_op (ic_fingerprint x) i n st) (st_ops s))"

definition claim_of :: "string \<Rightarrow> IdempotencyOperationType \<Rightarrow> string option \<Rightarrow> string \<Rightarrow>
   IdempotencyClaim option" where
  "claim_of owner ty key f = (case key of None \<Rightarrow> None
     | Some k \<Rightarrow> if k = [] then None else Some (fresh_claim owner ty k f))"

lemma pending_repo_get [simp]: "repo_get (pending s cl) = repo_get s"
  by (simp add: pending_def split: option.splits)

lemma pending_as_ops: "pending s cl = s\<lparr>st_ops := st_ops (pending s cl)\<rparr>"
  by (simp add: pending_def split: option.splits)

lemma complete_pending:
  assumes "st_ops u = st_ops (pending s (claim_of owner ty key f))"
  shows "(case claim_of owner ty key f of None \<Rightarrow> act_return ()
      | Some cl \<Rightarrow> idem_complete cl i n st) u = (Inr x, t) \<Longrightarrow>
    t = u\<lparr>st_ops := completed s (claim_of owner ty key f) i n st\<rparr>"
  using assms idem_complete_fresh [of u owner ty _ f "st_ops s" i n st]
  by (auto simp: claim_of_def pending_def completed_def act_simps fresh_claim_def
      split: option.splits if_splits)

lemma completed_effects:
  assumes "store_effects owner s (u\<lparr>st_ops := st_ops s\<rparr>)"
    "\<forall>k. key = Some k \<and> k \<noteq> [] \<longrightarrow> dict_get (st_ops s) (ledger_key owner ty k) = None"
  shows "store_effects owner s (u\<lparr>st_ops := completed s (claim_of owner ty key f) i n st\<rparr>)"
  using assms effects_complete [OF assms(1)]
  by (auto simp: claim_of_def completed_def fresh_claim_def split: option.splits if_splits)

definition update_relation_added ::
  "UpdateMemoryCommand \<Rightarrow> Memory \<Rightarrow> InMemoryStore \<Rightarrow> InMemoryStore \<Rightarrow> bool" where
  "update_relation_added c r u w \<longleftrightarrow> (case update_related c of None \<Rightarrow> w = u
     | Some (ty, target) \<Rightarrow> \<exists>rel. rel_source_id rel = m_id r \<and> rel_target_id rel = target \<and>
         rel_type rel = ty \<and> rel_owner_id rel = up_owner_id c \<and> target \<noteq> m_id r \<and>
         repo_add_relation rel u = (Inr rel, w))"

lemma add_update_relation_Inr:
  assumes "add_update_relation env c r (u\<lparr>st_ops := x\<rparr>) = (Inr y, w)"
  shows "update_relation_added c r u (w\<lparr>st_ops := st_ops u\<rparr>) \<and> st_ops w = x"
proof (cases "update_related c")
  case None
  with assms show ?thesis by (auto simp: add_update_relation_def update_relation_added_def act_simps)
next
  case (Some p)
  obtain ty target where p: "p = (ty, target)" by (cases p)
  let ?rel = "\<lparr>rel_source_id = m_id r, rel_target_id = target, rel_type = ty,
             rel_owner_id = up_owner_id c, rel_created_at = astimezone_utc (env_clock env 1)\<rparr>"
  from assms Some p obtain z where add: "repo_add_relation ?rel (u\<lparr>st_ops := x\<rparr>) = (Inr z, w)"
    and ne: "m_id r \<noteq> target"
    by (auto simp: add_update_relation_def act_simps)
  from repo_add_relation_ops [OF add] have w: "repo_add_relation ?rel u = (Inr z, w\<lparr>st_ops := st_ops u\<rparr>)"
    "st_ops w = x" by simp_all
  with repo_add_relation_Inr(1) have "z = ?rel" by blast
  with w ne Some p show ?thesis
    by (auto simp: update_relation_added_def intro!: exI [of _ ?rel])
qed

lemma check_related_state: "check_related c cur s = (Inr x, t) \<Longrightarrow> t = s"
  by (auto simp: check_related_def act_simps split: option.splits)

lemma update_body_Inr:
  assumes "update_body env c cl (pending s cl) = (Inr r, t)"
    and "cl = claim_of (up_owner_id c) UPDATE key f"
  shows "\<exists>cur d v u w. repo_get s (up_owner_id c) (up_memory_id c) None = Some cur \<and>
     m_version cur = up_expected_version c \<and>
     memory_evolve cur (update_kwargs c (astimezone_utc (env_clock env 0)) d) = Inr r \<and>
     repo_update r (up_expected_version c) (memory_snapshot r (up_change_reason c)) v s = (Inr r, u) \<and>
     update_relation_added c r u (w\<lparr>st_ops := st_ops s\<rparr>) \<and>
     t = w\<lparr>st_ops := completed s cl (Some (m_id r)) (Some (m_version r)) ''updated''\<rparr>"
proof -
  from assms(1) obtain cur d upd v p u1 w where
    cur: "repo_get s (up_owner_id c) (up_memory_id c) None = Some cur"
      "m_version cur = up_expected_version c"
    and ev: "memory_evolve cur (update_kwargs c (astimezone_utc (env_clock env 0)) d) = Inr upd"
    and up: "repo_update upd (up_expected_version c) (memory_snapshot upd (up_change_reason c)) v
      (pending s cl) = (Inr p, u1)"
    and rel: "add_update_relation env c p u1 = (Inr (), w)"
    and co: "(case cl of None \<Rightarrow> act_return ()
       | Some x \<Rightarrow> idem_complete x (Some (m_id p)) (Some (m_version p)) ''updated'') w = (Inr (), t)"
    and r: "r = p"
    unfolding update_body_def
    by (auto simp: act_simps dest!: check_related_state)
  from up have "repo_update upd (up_expected_version c) (memory_snapshot upd (up_change_reason c)) v
      (s\<lparr>st_ops := st_ops (pending s cl)\<rparr>) = (Inr p, u1)"
    by (simp flip: pending_as_ops)
  from repo_update_ops [OF this] have u: "repo_update upd (up_expected_version c)
      (memory_snapshot upd (up_change_reason c)) v s = (Inr p, u1\<lparr>st_ops := st_ops s\<rparr>)"
    "st_ops u1 = st_ops (pending s cl)" by simp_all
  from u(1) have p: "p = upd" by (auto elim: repo_update_Inr)
  have "add_update_relation env c p ((u1\<lparr>st_ops := st_ops s\<rparr>)\<lparr>st_ops := st_ops u1\<rparr>) = (Inr (), w)"
    using rel by simp
  from add_update_relation_Inr [OF this] have w:
    "update_relation_added c p (u1\<lparr>st_ops := st_ops s\<rparr>) (w\<lparr>st_ops := st_ops s\<rparr>)"
    "st_ops w = st_ops u1" by simp_all
  have "t = w\<lparr>st_ops := completed s cl (Some (m_id p)) (Some (m_version p)) ''updated''\<rparr>"
    using complete_pending [of w s "up_owner_id c" UPDATE key f "Some (m_id p)"] co w(2) u(2) assms(2)
    by simp
  with cur ev u(1) w(1) p r show ?thesis by blast
qed

lemma svc_update_Inr:
  assumes "svc_update env c s = (Inr r, t)"
  shows "(t = s \<and> (\<exists>k. up_idempotency_key c = Some k \<and> k \<noteq> [] \<and>
      replayed s (ledger_key (up_owner_id c) UPDATE k) (env_digest env (canonical_update_command c)) None
        (up_memory_id c) (up_expected_version c) r)) \<or>
    ((\<forall>k. up_idempotency_key c = Some k \<and> k \<noteq> [] \<longrightarrow>
        dict_get (st_ops s) (ledger_key (up_owner_id c) UPDATE k) = None) \<and>
     update_body env c (claim_of (up_owner_id c) UPDATE (up_idempotency_key c)
        (env_digest env (canonical_update_command c)))
      (pending s (claim_of (up_owner_id c) UPDATE (up_idempotency_key c)
        (env_digest env (canonical_update_command c)))) = (Inr r, t))"
proof (cases "\<exists>k. up_idempotency_key c = Some k \<and> k \<noteq> []")
  case False
  with assms show ?thesis
    by (auto simp: svc_update_def Let_def unit_of_work_def act_simps claim_of_def pending_def
        split: option.splits if_splits)
next
  case True
  then obtain k where k: "up_idempotency_key c = Some k" "k \<noteq> []" by blast
  with assms have "act_bind (idem_claim (up_owner_id c) UPDATE k
      (env_digest env (canonical_update_command c))) (\<lambda>cl. if ic_replay cl
       then replay_snapshot (up_owner_id c) None (up_memory_id c) (up_expected_version c) cl
       else update_body env c (Some cl)) s = (Inr r, t)"
    by (auto simp: svc_update_def Let_def unit_of_work_def act_simps)
  from claimed_run [OF this] k show ?thesis
    by (auto simp: claim_of_def pending_def fresh_claim_def)
qed

lemma svc_update_effects:
  assumes "svc_update env c s = (Inr r, t)" "store_ok s"
  shows "store_effects (up_owner_id c) s t"
  using svc_update_Inr [OF assms(1)]
proof (elim disjE conjE)
  let ?cl = "claim_of (up_owner_id c) UPDATE (up_idempotency_key c)
        (env_digest env (canonical_update_command c))"
  assume none: "\<forall>k. up_idempotency_key c = Some k \<and> k \<noteq> [] \<longrightarrow>
        dict_get (st_ops s) (ledger_key (up_owner_id c) UPDATE k) = None"
  assume "update_body env c ?cl (pending s ?cl) = (Inr r, t)"
  from update_body_Inr [OF this refl] obtain cur d v u w where
    cur: "repo_get s (up_owner_id c) (up_memory_id c) None = Some cur"
    and ev: "memory_evolve cur (update_kwargs c (astimezone_utc (env_clock env 0)) d) = Inr r"
    and up: "repo_update r (up_expected_version c) (memory_snapshot r (up_change_reason c)) v s = (Inr r, u)"
    and rel: "update_relation_added c r u (w\<lparr>st_ops := st_ops s\<rparr>)"
    and t: "t = w\<lparr>st_ops := completed s ?cl (Some (m_id r)) (Some (m_version r)) ''updated''\<rparr>"
    by blast
  have "store_effect (up_owner_id c) s u" using evolved_effect [OF assms(2) cur ev up] .
  moreover have "store_effects (up_owner_id c) u (w\<lparr>st_ops := st_ops s\<rparr>)"
    using rel by (auto simp: update_relation_added_def split: option.splits
        intro!: r_into_rtranclp intro: store_effect.relate)
  ultimately have "store_effects (up_owner_id c) s (w\<lparr>st_ops := st_ops s\<rparr>)"
    by (rule converse_rtranclp_into_rtranclp)
  from completed_effects [OF this none] show ?thesis unfolding t .
qed simp

lemma svc_forget_Inr:
  assumes "svc_forget env c s = (Inr r, t)"
  shows "fres_memory_id r = fg_memory_id c \<and>
   ((t = s \<and> \<not> fres_forgotten r \<and> (\<exists>k. fg_idempotency_key c = Some k \<and> k \<noteq> [] \<and>
      dict_get (st_ops s) (ledger_key (fg_owner_id c) FORGET k) \<noteq> None)) \<or>
    (\<exists>u. (\<forall>k. fg_idempotency_key c = Some k \<and> k \<noteq> [] \<longrightarrow>
         dict_get (st_ops s) (ledger_key (fg_owner_id c) FORGET k) = None) \<and>
       repo_forget (fg_owner_id c) (fg_memory_id c) (fg_tenant_id c) s =
         (Inr (fres_forgotten r), u\<lparr>st_ops := st_ops s\<rparr>) \<and>
       t = u\<lparr>st_ops := completed s (claim_of (fg_owner_id c) FORGET (fg_idempotency_key c)
         (env_digest env (canonical_forget_command c))) (Some (fg_memory_id c)) None
            (forget_status (fres_forgotten r))\<rparr>))"
proof -
  let ?f = "env_digest env (canonical_forget_command c)"
  let ?cl = "claim_of (fg_owner_id c) FORGET (fg_idempotency_key c) ?f"
  have body: ?thesis if "forget_body c ?cl (pending s ?cl) = (Inr r, t)"
    "\<forall>k. fg_idempotency_key c = Some k \<and> k \<noteq> [] \<longrightarrow>
         dict_get (st_ops s) (ledger_key (fg_owner_id c) FORGET k) = None"
  proof -
    have "\<not> (case ?cl of None \<Rightarrow> False | Some cl \<Rightarrow> ic_replay cl)"
      by (simp add: claim_of_def split: option.splits)
    with that(1) obtain b u where fo: "repo_forget (fg_owner_id c) (fg_memory_id c) (fg_tenant_id c)
        (pending s ?cl) = (Inr b, u)"
      and co: "(case ?cl of None \<Rightarrow> act_return () | Some cl \<Rightarrow> idem_complete cl (Some (fg_memory_id c)) None
         (if b then ''forgotten'' else ''already_absent'')) u = (Inr (), t)"
      and r: "r = \<lparr>fres_memory_id = fg_memory_id c, fres_forgotten = b\<rparr>"
      by (auto simp: forget_body_def act_simps)
    from fo have "repo_forget (fg_owner_id c) (fg_memory_id c) (fg_tenant_id c)
        (s\<lparr>st_ops := st_ops (pending s ?cl)\<rparr>) = (Inr b, u)" by (simp flip: pending_as_ops)
    from repo_forget_ops [OF this] have u: "repo_forget (fg_owner_id c) (fg_memory_id c) (fg_tenant_id c) s =
         (Inr b, u\<lparr>st_ops := st_ops s\<rparr>)" "st_ops u = st_ops (pending s ?cl)" by simp_all
    from complete_pending [OF u(2) co] u(1) r that(2) show ?thesis by (auto simp: forget_status_def)
  qed
  show ?thesis
  proof (cases "\<exists>k. fg_idempotency_key c = Some k \<and> k \<noteq> []")
    case False
    with assms have "forget_body c None s = (Inr r, t)"
      by (auto simp: svc_forget_def Let_def unit_of_work_def act_simps split: option.splits if_splits)
    moreover have "?cl = None" using False by (auto simp: claim_of_def split: option.splits)
    ultimately show ?thesis using body False by (auto simp: pending_def)
  next
    case True
    then obtain k where k: "fg_idempotency_key c = Some k" "k \<noteq> []" by blast
    with assms obtain cl s1 where cl: "idem_claim (fg_owner_id c) FORGET k ?f s = (Inr cl, s1)"
      and run: "forget_body c (Some cl) s1 = (Inr r, t)"
      by (auto simp: svc_forget_def Let_def unit_of_work_def act_simps)
    show ?thesis
    proof (cases "ic_replay cl")
      case True
      with idem_claim_Inr [OF cl] have "s1 = s"
        "dict_get (st_ops s) (ledger_key (fg_owner_id c) FORGET k) \<noteq> None" by auto
      with run True k show ?thesis by (auto simp: forget_body_def act_simps)
    next
      case False
      with idem_claim_Inr [OF cl] have "Some cl = ?cl" "s1 = pending s ?cl"
        "dict_get (st_ops s) (ledger_key (fg_owner_id c) FORGET k) = None"
        using k by (auto simp: claim_of_def pending_def fresh_claim_def)
      with run body k show ?thesis by simp
    qed
  qed
qed

lemma svc_forget_effects:
  assumes "svc_forget env c s = (Inr r, t)"
  shows "store_effects (fg_owner_id c) s t"
  using svc_forget_Inr [OF assms]
proof (elim conjE disjE exE)
  fix u
  assume none: "\<forall>k. fg_idempotency_key c = Some k \<and> k \<noteq> [] \<longrightarrow>
         dict_get (st_ops s) (ledger_key (fg_owner_id c) FORGET k) = None"
  assume "repo_forget (fg_owner_id c) (fg_memory_id c) (fg_tenant_id c) s =
         (Inr (fres_forgotten r), u\<lparr>st_ops := st_ops s\<rparr>)"
  then have "store_effects (fg_owner_id c) s (u\<lparr>st_ops := st_ops s\<rparr>)"
    by (intro r_into_rtranclp store_effect.forget)
  from completed_effects [OF this none]
  show "t = u\<lparr>st_ops := completed s (claim_of (fg_owner_id c) FORGET (fg_idempotency_key c)
         (env_digest env (canonical_forget_command c))) (Some (fg_memory_id c)) None
            (forget_status (fres_forgotten r))\<rparr> \<Longrightarrow> ?thesis" by simp
qed simp

lemma svc_relate_Inr:
  assumes "svc_relate env c s = (Inr r, t)"
  shows "repo_add_relation r s = (Inr r, t)" "rel_owner_id r = rm_owner_id c"
    "rel_source_id r \<noteq> rel_target_id r" "relation_type_of (rm_relation_type c) = Inr (rel_type r)"
    "\<exists>src tgt. repo_get s (rm_owner_id c) (rm_source_memory_id c) None = Some src \<and>
       repo_get s (rm_owner_id c) (rm_target_memory_id c) None = Some tgt \<and>
       rel_source_id r = m_id src \<and> rel_target_id r = m_id tgt"
proof -
  from assms obtain src tgt ty where
    src: "repo_get s (rm_owner_id c) (rm_source_memory_id c) None = Some src"
    and tgt: "repo_get s (rm_owner_id c) (rm_target_memory_id c) None = Some tgt"
    and ty: "relation_type_of (rm_relation_type c) = Inr ty"
    and ne: "m_id src \<noteq> m_id tgt"
    and add: "repo_add_relation \<lparr>rel_source_id = m_id src, rel_target_id = m_id tgt, rel_type = ty,
      rel_owner_id = rm_owner_id c, rel_created_at = astimezone_utc (env_clock env 0)\<rparr> s = (Inr r, t)"
    by (auto simp: svc_relate_def unit_of_work_def act_simps split: option.splits sum.splits)
  from repo_add_relation_Inr(1) [OF add] have r: "r = \<lparr>rel_source_id = m_id src, rel_target_id = m_id tgt,
      rel_type = ty, rel_owner_id = rm_owner_id c, rel_created_at = astimezone_utc (env_clock env 0)\<rparr>" .
  then show "repo_add_relation r s = (Inr r, t)" using add by simp
  show "rel_owner_id r = rm_owner_id c" "rel_source_id r \<noteq> rel_target_id r"
    "relation_type_of (rm_relation_type c) = Inr (rel_type r)" using r ne ty by simp_all
  show "\<exists>src tgt. repo_get s (rm_owner_id c) (rm_source_memory_id c) None = Some src \<and>
       repo_get s (rm_owner_id c) (rm_target_memory_id c) None = Some tgt \<and>
       rel_source_id r = m_id src \<and> rel_target_id r = m_id tgt"
    using src tgt r by simp
qed

lemma svc_relate_effects:
  assumes "svc_relate env c s = (Inr r, t)"
  shows "store_effects (rm_owner_id c) s t"
  using svc_relate_Inr(1-3) [OF assms]
  by (intro r_into_rtranclp) (rule store_effect.relate)

text \<open>
  An import package holds constructed memories and relations: their constructors have run.
\<close>

definition package_ok :: "MemoryImportRecord list \<Rightarrow> bool" where
  "package_ok rs \<longleftrightarrow> list_all (\<lambda>r. memory_ok (xr_memory r) \<and>
     list_all (\<lambda>rel. rel_source_id rel \<noteq> rel_target_id rel) (xr_relations r)) rs"

lemma svc_import_Inr:
  assumes "svc_import_memories env owner rs s = (Inr res, t)"
  obtains ids ex prepared where
    "\<forall>r\<in>set rs. record_validated owner r" "distinct (map (\<lambda>r. m_id (xr_memory r)) rs)"
    "ids = (\<lambda>r. m_id (xr_memory r)) ` set rs" "endpoints_ok owner rs ids s"
    "existing_records owner rs s = Inr ex"
    "list_all2 (\<lambda>r p. prepare_record env ex r = Inr p) rs prepared"
    "admin_import_memories prepared s = (Inr res, t)"
  using assms by (auto simp: svc_import_memories_def unit_of_work_def act_simps res_map_Inr)

lemma prepared_same:
  assumes "list_all2 (\<lambda>r p. prepare_record env ex r = Inr p) rs prepared"
  shows "map xr_memory prepared = map xr_memory rs" "map xr_history prepared = map xr_history rs"
    "map xr_relations prepared = map xr_relations rs"
    "map xr_write_fingerprint prepared = map xr_write_fingerprint rs"
proof -
  have "xr_memory p = xr_memory r \<and> xr_history p = xr_history r \<and> xr_relations p = xr_relations r \<and>
      xr_write_fingerprint p = xr_write_fingerprint r" if "prepare_record env ex r = Inr p" for r p
    using prepare_record_Inr(1) [OF that] by (metis MemoryExportRecord.update_convs(4)
      MemoryExportRecord.surjective MemoryExportRecord.select_convs)
  with assms show "map xr_memory prepared = map xr_memory rs" "map xr_history prepared = map xr_history rs"
    "map xr_relations prepared = map xr_relations rs"
    "map xr_write_fingerprint prepared = map xr_write_fingerprint rs"
    by (induction rule: list_all2_induct) auto
qed

lemma svc_import_effects:
  assumes "svc_import_memories env owner rs s = (Inr res, t)" "package_ok rs"
  shows "store_effects owner s t"
  using assms(1)
proof (rule svc_import_Inr)
  fix ids ex prepared
  assume val: "\<forall>r\<in>set rs. record_validated owner r"
    and ids: "ids = (\<lambda>r. m_id (xr_memory r)) ` set rs" and ends: "endpoints_ok owner rs ids s"
    and prep: "list_all2 (\<lambda>r p. prepare_record env ex r = Inr p) rs prepared"
    and run: "admin_import_memories prepared s = (Inr res, t)"
  note same = prepared_same [OF prep]
  have twin: "\<exists>r\<in>set rs. xr_memory p = xr_memory r \<and> xr_history p = xr_history r \<and>
      xr_relations p = xr_relations r" if "p \<in> set prepared" for p
  proof -
    from list_all2_mem_right [OF prep that] obtain r where r: "r \<in> set rs"
      "prepare_record env ex r = Inr p" by blast
    then have "p = r\<lparr>xr_embedding := xr_embedding p\<rparr>" using prepare_record_Inr(1) by blast
    then have "xr_memory p = xr_memory r \<and> xr_history p = xr_history r \<and> xr_relations p = xr_relations r"
      by (metis MemoryExportRecord.update_convs(4) MemoryExportRecord.surjective
          MemoryExportRecord.select_convs)
    with r show ?thesis by blast
  qed
  have "map (\<lambda>r. m_id (xr_memory r)) prepared = map (\<lambda>r. m_id (xr_memory r)) rs"
    using arg_cong [OF same(1), of "map m_id"] by (simp add: comp_def)
  then have pids: "(\<lambda>r. m_id (xr_memory r)) ` set prepared = ids"
    unfolding ids by (metis set_map)
  show ?thesis
  proof (rule r_into_rtranclp, rule store_effect.import_records [OF run])
    show "\<forall>r\<in>set prepared. import_record_ok owner r"
    proof
      fix p assume "p \<in> set prepared"
      from twin [OF this] obtain r where r: "r \<in> set rs" "xr_memory p = xr_memory r"
        "xr_history p = xr_history r" "xr_relations p = xr_relations r" by blast
      with val assms(2) show "import_record_ok owner p"
        by (auto simp: import_record_ok_def record_validated_def package_ok_def list_all_iff history_ok_def)
    qed
    show "\<forall>r\<in>set prepared. \<forall>rel\<in>set (xr_relations r). \<forall>e\<in>{rel_source_id rel, rel_target_id rel}.
      e \<in> (\<lambda>r. m_id (xr_memory r)) ` set prepared \<or> owns s owner e"
    proof
      fix p assume "p \<in> set prepared"
      from twin [OF this] obtain r where r: "r \<in> set rs" "xr_relations p = xr_relations r" by blast
      with ends show "\<forall>rel\<in>set (xr_relations p). \<forall>e\<in>{rel_source_id rel, rel_target_id rel}.
          e \<in> (\<lambda>r. m_id (xr_memory r)) ` set prepared \<or> owns s owner e"
        unfolding pids by (simp add: endpoints_ok_iff flip: repo_get_owns)
    qed
  qed
qed

section \<open>Steps of the service\<close>

text \<open>
  One call of a mutating use case, whatever its outcome. \<open>uuid4()\<close> is assumed to return an
  identifier that was never used.
\<close>

inductive service_step :: "string \<Rightarrow> InMemoryStore \<Rightarrow> InMemoryStore \<Rightarrow> bool" where
  call_write: "svc_write env c s = (r, t) \<Longrightarrow> uuid_fresh env s \<Longrightarrow> service_step (wr_owner_id c) s t"
| call_capture: "svc_capture env c s = (r, t) \<Longrightarrow> uuid_fresh env s \<Longrightarrow> service_step (cp_owner_id c) s t"
| call_confirm: "svc_confirm_candidate env c s = (r, t) \<Longrightarrow> service_step (cf_owner_id c) s t"
| call_pin: "svc_pin env c s = (r, t) \<Longrightarrow> service_step (pn_owner_id c) s t"
| call_discard: "svc_discard_candidate env c s = (r, t) \<Longrightarrow> service_step (dc_owner_id c) s t"
| call_update: "svc_update env c s = (r, t) \<Longrightarrow> service_step (up_owner_id c) s t"
| call_forget: "svc_forget env c s = (r, t) \<Longrightarrow> service_step (fg_owner_id c) s t"
| call_relate: "svc_relate env c s = (r, t) \<Longrightarrow> service_step (rm_owner_id c) s t"
| call_import_memories: "svc_import_memories env owner rs s = (r, t) \<Longrightarrow> package_ok rs \<Longrightarrow>
    service_step owner s t"

inductive_cases service_stepE: "service_step owner s t"

inductive reachable :: "InMemoryStore \<Rightarrow> bool" where
  start: "reachable empty_store"
| step: "reachable s \<Longrightarrow> service_step owner s t \<Longrightarrow> reachable t"

text \<open>A use case that raises leaves the store as it found it.\<close>

lemma guarded_rollback:
  "act_bind (act_res g) m s = (Inl e, t) \<Longrightarrow> (\<And>x. m x s = (Inl e, t) \<Longrightarrow> t = s) \<Longrightarrow> t = s"
  by (auto simp: act_bind_Inl act_run act_simps)

lemma guard_rollback:
  "act_bind (act_guard g e') m s = (Inl e, t) \<Longrightarrow> (m () s = (Inl e, t) \<Longrightarrow> t = s) \<Longrightarrow> t = s"
  by (auto simp: act_bind_Inl act_run act_simps)

lemma unit_of_work_rollback: "unit_of_work m s = (Inl e, t) \<Longrightarrow> t = s"
  unfolding unit_of_work_def by (rule act_atomic_rollback)

lemma service_error_rollback:
  "svc_write env wc s = (Inl e, t) \<Longrightarrow> t = s"
  "svc_capture env cc s = (Inl e, t) \<Longrightarrow> t = s"
  "svc_confirm_candidate env fc s = (Inl e, t) \<Longrightarrow> t = s"
  "svc_pin env pc s = (Inl e, t) \<Longrightarrow> t = s"
  "svc_discard_candidate env dc s = (Inl e, t) \<Longrightarrow> t = s"
  "svc_update env uc s = (Inl e, t) \<Longrightarrow> t = s"
  "svc_forget env gc s = (Inl e, t) \<Longrightarrow> t = s"
  "svc_relate env rc s = (Inl e, t) \<Longrightarrow> t = s"
  "svc_import_memories env owner rs s = (Inl e, t) \<Longrightarrow> t = s"
  unfolding svc_write_def svc_capture_def svc_confirm_candidate_def svc_pin_def
    svc_discard_candidate_def svc_update_def svc_forget_def svc_relate_def svc_import_memories_def Let_def
  by (erule guarded_rollback | erule guard_rollback | erule unit_of_work_rollback)+

lemma service_step_effects:
  assumes "service_step owner s t" and "store_ok s"
  shows "store_effects owner s t"
  using assms
proof (induction rule: service_step.induct)
  case (call_write env c s r t)
  then show ?case by (cases r) (auto dest: service_error_rollback intro: svc_write_effects)
next
  case (call_capture env c s r t)
  then show ?case by (cases r) (auto dest: service_error_rollback intro: svc_capture_effects)
next
  case (call_confirm env c s r t)
  then show ?case by (cases r) (auto dest: service_error_rollback intro: svc_confirm_effects)
next
  case (call_pin env c s r t)
  then show ?case by (cases r) (auto dest: service_error_rollback intro: svc_pin_effects)
next
  case (call_discard env c s r t)
  then show ?case by (cases r) (auto dest: service_error_rollback intro: svc_discard_effects)
next
  case (call_update env c s r t)
  then show ?case by (cases r) (auto dest: service_error_rollback intro: svc_update_effects)
next
  case (call_forget env c s r t)
  then show ?case by (cases r) (auto dest: service_error_rollback intro: svc_forget_effects)
next
  case (call_relate env c s r t)
  then show ?case by (cases r) (auto dest: service_error_rollback intro: svc_relate_effects)
next
  case (call_import_memories env owner rs s r t)
  then show ?case by (cases r) (auto dest: service_error_rollback intro: svc_import_effects)
qed

lemma service_step_ok: "service_step owner s t \<Longrightarrow> store_ok s \<Longrightarrow> store_ok t"
  using service_step_effects store_effects_ok by blast

lemma reachable_ok: "reachable s \<Longrightarrow> store_ok s"
  by (induction rule: reachable.induct) (auto intro: store_ok_empty service_step_ok)

end
