(* ===== verification/Store_Interfaces.thy ===== *)
theory Store_Interfaces
  imports Prelude
begin

text \<open>
  The contracts the memory stores of the program share, as locales over a step relation:
  a \<open>deletion_ledger\<close> (what is recorded as deleted is gone in every later state) and a
  \<open>versioned_store\<close> (versions of what is not deleted never go back). The in-memory store of the
  application service and the encrypted cloud store are interpretations.
\<close>

locale deletion_ledger =
  fixes inv :: "'s \<Rightarrow> bool"
    and step :: "'s \<Rightarrow> 's \<Rightarrow> bool"
    and present :: "'k \<Rightarrow> 's \<Rightarrow> bool"
    and dead :: "'k \<Rightarrow> 's \<Rightarrow> bool"
  assumes inv_step: "inv s \<Longrightarrow> step s t \<Longrightarrow> inv t"
    and dead_step: "inv s \<Longrightarrow> step s t \<Longrightarrow> dead k s \<Longrightarrow> dead k t"
    and dead_absent: "inv s \<Longrightarrow> dead k s \<Longrightarrow> \<not> present k s"
begin

lemma inv_run: "step\<^sup>*\<^sup>* s t \<Longrightarrow> inv s \<Longrightarrow> inv t"
  by (induction rule: rtranclp_induct) (auto intro: inv_step)

lemma dead_run:
  assumes "step\<^sup>*\<^sup>* s t" "inv s" "dead k s"
  shows "dead k t"
  using assms(1)
proof (induction rule: rtranclp_induct)
  case base
  show ?case by (rule assms(3))
next
  case (step t u)
  from dead_step [OF inv_run [OF step(1) assms(2)] step(2,3)] show ?case .
qed

lemma dead_for_good: "step\<^sup>*\<^sup>* s t \<Longrightarrow> inv s \<Longrightarrow> dead k s \<Longrightarrow> \<not> present k t"
  by (rule dead_absent [OF inv_run dead_run])

end

locale versioned_store = deletion_ledger inv step "\<lambda>k s. ver k s \<noteq> None" dead
  for inv :: "'s \<Rightarrow> bool"
    and step :: "'s \<Rightarrow> 's \<Rightarrow> bool"
    and ver :: "'k \<Rightarrow> 's \<Rightarrow> int option"
    and dead :: "'k \<Rightarrow> 's \<Rightarrow> bool" +
  assumes ver_step:
    "inv s \<Longrightarrow> step s t \<Longrightarrow> ver k s = Some n \<Longrightarrow> dead k t \<or> (\<exists>m\<ge>n. ver k t = Some m)"
begin

lemma ver_run:
  assumes "step\<^sup>*\<^sup>* s t" "inv s" "ver k s = Some n"
  shows "dead k t \<or> (\<exists>m\<ge>n. ver k t = Some m)"
  using assms(1)
proof (induction rule: rtranclp_induct)
  case base
  then show ?case using assms(3) by auto
next
  case (step t u)
  have i: "inv t" by (rule inv_run [OF step(1) assms(2)])
  from step(3) show ?case
  proof
    assume "dead k t"
    then show ?thesis using dead_step [OF i step(2)] by blast
  next
    assume "\<exists>m\<ge>n. ver k t = Some m"
    then obtain m where "n \<le> m" "ver k t = Some m" by blast
    with ver_step [OF i step(2)] show ?thesis by (meson order_trans)
  qed
qed

text \<open>An expectation of a version that has been left behind is never met again.\<close>

lemma stale_forever:
  assumes "step\<^sup>*\<^sup>* s t" "inv s" "ver k s = Some n" "n' < n"
  shows "ver k t \<noteq> Some n'"
proof
  assume v: "ver k t = Some n'"
  have "inv t" by (rule inv_run [OF assms(1,2)])
  with v have "\<not> dead k t" using dead_absent by fastforce
  with ver_run [OF assms(1-3)] v assms(4) show False by auto
qed

end

end
