(* ===== verification/Service_Frames.thy ===== *)
theory Service_Frames
  imports Service_Steps Store_Interfaces
begin

text \<open>
  Two relations every step of the service satisfies: the data of the other owners is
  untouched (\<open>owner_view\<close>), and nothing recorded is rewritten (\<open>grows\<close>): histories only
  get longer, versions only increase, ledger entries are final, tombstones stay.
\<close>

section \<open>What one owner can see\<close>

definition visible :: "string \<Rightarrow> InMemoryStore \<Rightarrow> uuid \<Rightarrow>
   (Memory \<times> pyfloat list option \<times> MemoryVersion list option) option" where
  "visible owner s i = (case dict_get (st_memories s) i of None \<Rightarrow> None
     | Some m \<Rightarrow> if m_owner_id m = owner
         then Some (m, dict_get (st_vectors s) i, dict_get (st_history s) i) else None)"

definition owner_view where
  "owner_view owner s =
     (visible owner s, (\<lambda>k. dict_get (st_fingerprints s) (owner, k)),
      (\<lambda>a b ty. dict_get (st_relations s) (owner, a, b, ty)),
      (\<lambda>ty k. dict_get (st_ops s) (owner, ty, k)), {(tenant, i). (owner, tenant, i) \<in> st_tombstones s})"

lemma owner_view_eqI:
  assumes "\<And>i. visible owner s i = visible owner t i"
    "\<And>k. dict_get (st_fingerprints s) (owner, k) = dict_get (st_fingerprints t) (owner, k)"
    "\<And>a b ty. dict_get (st_relations s) (owner, a, b, ty) = dict_get (st_relations t) (owner, a, b, ty)"
    "\<And>ty k. dict_get (st_ops s) (owner, ty, k) = dict_get (st_ops t) (owner, ty, k)"
    "\<And>tenant i. (owner, tenant, i) \<in> st_tombstones s \<longleftrightarrow> (owner, tenant, i) \<in> st_tombstones t"
  shows "owner_view owner s = owner_view owner t"
  using assms by (simp add: owner_view_def fun_eq_iff)

lemma visible_insert:
  assumes "fits s m" "owner \<noteq> m_owner_id m"
  shows "visible owner (insert_memory m v h s) i = visible owner s i"
  using assms by (auto simp: visible_def insert_memory_def fits_def dict_simps split: option.splits)

lemma owner_view_insert:
  assumes "fits s m" "owner \<noteq> m_owner_id m"
  shows "owner_view owner (insert_memory m v h s) = owner_view owner s"
  by (rule owner_view_eqI) (simp_all add: visible_insert [OF assms])

lemma owner_view_fingerprint:
  "o' \<noteq> owner \<Longrightarrow> fps = st_fingerprints s \<Longrightarrow>
     owner_view o' (s\<lparr>st_fingerprints := dict_set (owner, k) f fps\<rparr>) = owner_view o' s"
  by (rule owner_view_eqI) (simp_all add: visible_def dict_simps split: option.splits)

lemma owner_view_relation:
  assumes "o' \<noteq> rel_owner_id rel"
  shows "owner_view o' (s\<lparr>st_relations := dict_set (relation_key rel) rel (st_relations s)\<rparr>) = owner_view o' s"
  using assms by (intro owner_view_eqI) (simp_all add: visible_def dict_simps relation_key_def split: option.splits)

lemma owner_view_ops:
  "o' \<noteq> owner \<Longrightarrow> owner_view o' (s\<lparr>st_ops := dict_set (owner, ty, k) x (st_ops s)\<rparr>) = owner_view o' s"
  by (rule owner_view_eqI) (simp_all add: visible_def dict_simps split: option.splits)

lemma owner_view_forget:
  assumes "core_ok s" "repo_forget owner i tenant s = (Inr b, t)" "o' \<noteq> owner"
  shows "owner_view o' t = owner_view o' s"
proof (cases b)
  case False
  with repo_forget_Inr [OF assms(2)] show ?thesis by simp
next
  case True
  with assms(2) have "repo_forget owner i tenant s = (Inr True, t)" by simp
  then obtain m where m: "dict_get (st_memories s) i = Some m" "m_owner_id m = owner"
    and t: "st_memories t = dict_pop i (st_memories s)" "st_vectors t = dict_pop i (st_vectors s)"
    "st_history t = dict_pop i (st_history s)"
    and fp: "st_fingerprints t = (case m_idempotency_key m of
        Some k \<Rightarrow> if k \<noteq> [] then dict_pop (owner, k) (st_fingerprints s) else st_fingerprints s
      | None \<Rightarrow> st_fingerprints s)"
    and rl: "st_relations t = filter (\<lambda>(key, r). rel_source_id r \<noteq> i \<and> rel_target_id r \<noteq> i) (st_relations s)"
    and tb: "st_tombstones t = insert (owner, m_tenant_id m, i) (st_tombstones s)" "st_ops t = st_ops s"
    by (rule repo_forget_True)
  have rels: "dict_ok (st_relations s)" "\<And>key r. dict_get (st_relations s) key = Some r \<Longrightarrow>
      key = relation_key r \<and> owns s (rel_owner_id r) (rel_source_id r) \<and> owns s (rel_owner_id r) (rel_target_id r)"
    using assms(1) unfolding core_ok_def rels_ok_def by blast+
  show ?thesis
  proof (rule owner_view_eqI)
    show "visible o' t j = visible o' s j" for j
      using m assms(3) by (auto simp: visible_def t dict_simps split: option.splits)
    show "dict_get (st_fingerprints t) (o', k) = dict_get (st_fingerprints s) (o', k)" for k
      using assms(3) by (simp add: fp dict_simps split: option.splits)
    show "dict_get (st_relations t) (o', a, b', ty) = dict_get (st_relations s) (o', a, b', ty)" for a b' ty
    proof (cases "dict_get (st_relations s) (o', a, b', ty)")
      case None
      then show ?thesis by (simp add: rl dict_get_filter_value [OF rels(1)])
    next
      case (Some r)
      from rels(2) [OF this] have "rel_owner_id r = o'" "owns s o' (rel_source_id r)" "owns s o' (rel_target_id r)"
        by (auto simp: relation_key_def)
      then have "rel_source_id r \<noteq> i" "rel_target_id r \<noteq> i"
        using m assms(3) by (auto simp: owns_def)
      with Some show ?thesis by (simp add: rl dict_get_filter_value [OF rels(1)])
    qed
  qed (use assms(3) tb in auto)
qed

lemma owner_view_import_one:
  assumes "core_ok s" "import_one r s = (Inr new, t)" "import_record_ok owner r" "o' \<noteq> owner"
  shows "owner_view o' t = owner_view o' s"
proof (cases new)
  case False
  with import_one_Inr [OF assms(2)] show ?thesis by auto
next
  case True
  let ?m = "xr_memory r"
  from True import_one_Inr [OF assms(2)] obtain e where
    new: "dict_get (st_memories s) (m_id ?m) = None"
        "(m_owner_id ?m, m_tenant_id ?m, m_id ?m) \<notin> st_tombstones s"
    and t: "t = (let s' = insert_memory ?m e (xr_history r) s in
                  case m_idempotency_key ?m of None \<Rightarrow> s'
                  | Some k \<Rightarrow> s'\<lparr>st_fingerprints := dict_set (m_owner_id ?m, k)
                      (case xr_write_fingerprint r of None \<Rightarrow> [] | Some f \<Rightarrow> f)
                      (st_fingerprints s')\<rparr>)" by blast
  have r: "memory_ok ?m" "m_owner_id ?m = owner" using assms(3) by (simp_all add: import_record_ok_def)
  then have "fits s ?m" using new by (simp add: fits_def)
  with r assms(4) show ?thesis
    by (simp add: t Let_def owner_view_insert owner_view_fingerprint split: option.splits)
qed

lemma owner_view_import_records:
  assumes "core_ok s" "import_records rs a b s = (Inr res, t)" "\<forall>r\<in>set rs. import_record_ok owner r" "o' \<noteq> owner"
  shows "owner_view o' t = owner_view o' s"
  using assms(1-3)
proof (induction rs arbitrary: a b s)
  case Nil
  then show ?case by (simp add: act_simps)
next
  case (Cons r rs)
  from Cons.prems(2) obtain new s1 where one: "import_one r s = (Inr new, s1)"
    and rest: "import_records rs (if new then a + 1 else a) (if new then b else b + 1) s1 = (Inr res, t)"
    by (auto simp: act_simps split: if_splits)
  have r: "import_record_ok owner r" "\<forall>r\<in>set rs. import_record_ok owner r" using Cons.prems(3) by simp_all
  from Cons.IH [OF core_ok_import_one(1) [OF Cons.prems(1) one r(1)] rest r(2)]
    owner_view_import_one [OF Cons.prems(1) one r(1) assms(4)] show ?case by simp
qed

lemma owner_view_import_relations:
  assumes "\<forall>rel\<in>set rels. rel_owner_id rel \<noteq> o'"
  shows "owner_view o' (fold import_relation rels s) = owner_view o' s"
  using assms
proof (induction rels arbitrary: s)
  case (Cons rel rels)
  have "owner_view o' (import_relation rel s) = owner_view o' s"
    using Cons.prems owner_view_relation [of o' rel s] by (auto simp: import_relation_def)
  with Cons show ?case by simp
qed simp

text \<open>An effect for one owner does not touch what another owner sees.\<close>

lemma store_effect_isolation:
  assumes "store_effect owner s t" "store_ok s" "o' \<noteq> owner"
  shows "owner_view o' t = owner_view o' s"
  using assms
proof (induction rule: store_effect.induct)
  case (create m f v s r t)
  have "memory_ok m" using create(2) by (simp add: fits_def)
  from repo_create_Inr [OF create(1) this] create(2,5,7) show ?case
    by (auto simp: owner_view_insert owner_view_fingerprint split: option.splits)
next
  case (next_version s cur a m n reason v r t)
  note ev = memory_evolve_Inr [OF next_version(3)]
  have "core_ok s" using next_version(5) by (simp add: store_ok_def)
  with next_version(1) ev have "fits s m"
    using core_okD [of s "m_id cur" cur] by (auto simp: fits_def)
  from next_version(4) show ?case
    by (rule repo_update_Inr)
       (use owner_view_insert [OF \<open>fits s m\<close>] ev(3) next_version(2,6) in simp)
next
  case (forget i tenant s b t)
  then show ?case using owner_view_forget [of s owner i tenant b t o'] by (simp add: store_ok_def)
next
  case (relate rel s r t)
  then show ?case
    using repo_add_relation_Inr(5) [OF relate(1)] owner_view_relation [of o' rel s] by simp
next
  case (ledger s ty k f i n st)
  then show ?case using owner_view_ops by simp
next
  case (import_records rs s res t)
  from import_records(1) obtain u where u: "import_records rs 0 0 s = (Inr res, u)"
    and t: "t = fold import_relation (concat (map xr_relations rs)) u"
    by (auto simp: admin_import_memories_def act_simps)
  have "\<forall>rel\<in>set (concat (map xr_relations rs)). rel_owner_id rel \<noteq> o'"
    using import_records(2,5) by (auto simp: import_record_ok_def)
  then show ?case
    using owner_view_import_relations owner_view_import_records [OF _ u import_records(2,5)] import_records(4)
    by (simp add: t store_ok_def)
qed

lemma store_effects_isolation:
  "store_effects owner s t \<Longrightarrow> store_ok s \<Longrightarrow> o' \<noteq> owner \<Longrightarrow> owner_view o' t = owner_view o' s"
proof (induction rule: rtranclp_induct)
  case (step y z)
  then show ?case using store_effect_isolation [of owner y z o'] store_effects_ok [of owner s y] by simp
qed simp

lemma service_step_isolation:
  "service_step owner s t \<Longrightarrow> store_ok s \<Longrightarrow> o' \<noteq> owner \<Longrightarrow> owner_view o' t = owner_view o' s"
  using service_step_effects store_effects_isolation by blast

section \<open>Nothing recorded is rewritten\<close>

definition evolves :: "Memory \<Rightarrow> Memory \<Rightarrow> bool" where
  "evolves m m' \<longleftrightarrow> m_id m' = m_id m \<and> m_owner_id m' = m_owner_id m \<and> m_tenant_id m' = m_tenant_id m \<and>
     m_idempotency_key m' = m_idempotency_key m \<and> m_created_at m' = m_created_at m \<and>
     m_capture_consent m' = m_capture_consent m \<and> m_version m \<le> m_version m' \<and>
     (m_version m' = m_version m \<longrightarrow> m' = m)"

definition memory_grows :: "InMemoryStore \<Rightarrow> InMemoryStore \<Rightarrow> uuid \<Rightarrow> bool" where
  "memory_grows s t i \<longleftrightarrow> (\<forall>m h. dict_get (st_memories s) i = Some m \<longrightarrow>
     dict_get (st_history s) i = Some h \<longrightarrow>
     (m_owner_id m, m_tenant_id m, i) \<in> st_tombstones t \<or>
     (\<exists>m' h'. dict_get (st_memories t) i = Some m' \<and> evolves m m' \<and>
        dict_get (st_history t) i = Some h' \<and> prefix h h'))"

definition grows :: "InMemoryStore \<Rightarrow> InMemoryStore \<Rightarrow> bool" where
  "grows s t \<longleftrightarrow> st_tombstones s \<subseteq> st_tombstones t \<and>
     (\<forall>k op. dict_get (st_ops s) k = Some op \<longrightarrow> dict_get (st_ops t) k = Some op) \<and>
     (\<forall>i. memory_grows s t i)"

lemma evolves_refl [simp]: "evolves m m"
  by (simp add: evolves_def)

lemma evolves_trans: "evolves a b \<Longrightarrow> evolves b c \<Longrightarrow> evolves a c"
  by (auto simp: evolves_def)

lemma evolves_evolve: "memory_evolve m a = Inr m' \<Longrightarrow> evolves m m'"
  by (simp add: evolves_def memory_evolve_Inr)

lemma grows_refl [simp]: "grows s s"
  by (simp add: grows_def memory_grows_def)

lemma memory_grows_trans:
  assumes "memory_grows s t i" "memory_grows t u i" "st_tombstones t \<subseteq> st_tombstones u"
  shows "memory_grows s u i"
  unfolding memory_grows_def
proof (intro allI impI)
  fix m h
  assume m: "dict_get (st_memories s) i = Some m" "dict_get (st_history s) i = Some h"
  show "(m_owner_id m, m_tenant_id m, i) \<in> st_tombstones u \<or>
     (\<exists>m' h'. dict_get (st_memories u) i = Some m' \<and> evolves m m' \<and>
        dict_get (st_history u) i = Some h' \<and> prefix h h')"
  proof (cases "(m_owner_id m, m_tenant_id m, i) \<in> st_tombstones t")
    case True
    with assms(3) show ?thesis by blast
  next
    case False
    with assms(1) m obtain m1 h1 where 1: "dict_get (st_memories t) i = Some m1" "evolves m m1"
      "dict_get (st_history t) i = Some h1" "prefix h h1" by (auto simp: memory_grows_def)
    then have own: "m_owner_id m1 = m_owner_id m" "m_tenant_id m1 = m_tenant_id m" by (simp_all add: evolves_def)
    from assms(2) 1(1,3) consider "(m_owner_id m1, m_tenant_id m1, i) \<in> st_tombstones u"
      | m2 h2 where "dict_get (st_memories u) i = Some m2" "evolves m1 m2"
        "dict_get (st_history u) i = Some h2" "prefix h1 h2"
      unfolding memory_grows_def by blast
    then show ?thesis
    proof cases
      case 1
      then show ?thesis by (simp add: own)
    next
      case 2
      moreover have "evolves m m2" using evolves_trans \<open>evolves m m1\<close> 2(2) .
      moreover have "prefix h h2" using prefix_order.trans \<open>prefix h h1\<close> 2(4) .
      ultimately show ?thesis by blast
    qed
  qed
qed

lemma grows_trans: "grows s t \<Longrightarrow> grows t u \<Longrightarrow> grows s u"
  unfolding grows_def using memory_grows_trans by (metis subset_trans)

lemma grows_same:
  assumes "st_memories t = st_memories s" "st_history t = st_history s" "st_tombstones t = st_tombstones s"
    "\<And>k op. dict_get (st_ops s) k = Some op \<Longrightarrow> dict_get (st_ops t) k = Some op"
  shows "grows s t"
  using assms by (simp add: grows_def memory_grows_def)

lemma grows_insert:
  assumes "\<And>cur h0. dict_get (st_memories s) (m_id m) = Some cur \<Longrightarrow>
    dict_get (st_history s) (m_id m) = Some h0 \<Longrightarrow> evolves cur m \<and> prefix h0 h"
  shows "grows s (insert_memory m v h s)"
  using assms by (auto simp: grows_def memory_grows_def insert_memory_def dict_simps)

lemma grows_fingerprints [simp]: "grows s (t\<lparr>st_fingerprints := x\<rparr>) \<longleftrightarrow> grows s t"
  by (simp add: grows_def memory_grows_def)

lemma grows_import_one:
  assumes "import_one r s = (Inr new, t)"
  shows "grows s t"
  using import_one_Inr [OF assms]
proof (elim disjE conjE exE)
  fix e
  assume "dict_get (st_memories s) (m_id (xr_memory r)) = None"
  then have "grows s (insert_memory (xr_memory r) e (xr_history r) s)" by (intro grows_insert) simp
  then show "t = (let s' = insert_memory (xr_memory r) e (xr_history r) s in
                  case m_idempotency_key (xr_memory r) of None \<Rightarrow> s'
                  | Some k \<Rightarrow> s'\<lparr>st_fingerprints := dict_set (m_owner_id (xr_memory r), k)
                      (case xr_write_fingerprint r of None \<Rightarrow> [] | Some f \<Rightarrow> f)
                      (st_fingerprints s')\<rparr>) \<Longrightarrow> ?thesis"
    by (auto simp: Let_def split: option.splits)
qed simp

lemma grows_import_records:
  "import_records rs a b s = (Inr res, t) \<Longrightarrow> grows s t"
proof (induction rs arbitrary: a b s)
  case (Cons r rs)
  then obtain new s1 where one: "import_one r s = (Inr new, s1)"
    and rest: "import_records rs (if new then a + 1 else a) (if new then b else b + 1) s1 = (Inr res, t)"
    by (auto simp: act_simps split: if_splits)
  from grows_trans [OF grows_import_one [OF one] Cons.IH [OF rest]] show ?case .
qed (simp add: act_simps)

lemma store_effect_grows:
  assumes "store_effect owner s t" "store_ok s"
  shows "grows s t"
  using assms
proof (induction rule: store_effect.induct)
  case (create m f v s r t)
  have "memory_ok m" using create(2) by (simp add: fits_def)
  moreover have "grows s (insert_memory m v h s)" for h
    using create(3) by (intro grows_insert) simp
  ultimately show ?case
    using repo_create_Inr [OF create(1)] by (auto split: option.splits)
next
  case (next_version s cur a m n reason v r t)
  note ev = memory_evolve_Inr [OF next_version(3)] evolves_evolve [OF next_version(3)]
  from next_version(4) show ?case
    by (rule repo_update_Inr) (use next_version(1) ev in \<open>auto intro!: grows_insert\<close>)
next
  case (forget i tenant s b t)
  show ?case
  proof (cases b)
    case False
    with repo_forget_Inr [OF forget(1)] show ?thesis by simp
  next
    case True
    with forget(1) have "repo_forget owner i tenant s = (Inr True, t)" by simp
    then show ?thesis
      by (rule repo_forget_True) (auto simp: grows_def memory_grows_def dict_simps)
  qed
next
  case (relate rel s r t)
  then show ?case using repo_add_relation_Inr(5) [OF relate(1)] by (intro grows_same) simp_all
next
  case (ledger s ty k f i n st)
  then show ?case by (intro grows_same) (auto simp: dict_simps)
next
  case (import_records rs s res t)
  from import_records(1) obtain u where u: "import_records rs 0 0 s = (Inr res, u)"
    and t: "t = fold import_relation (concat (map xr_relations rs)) u"
    by (auto simp: admin_import_memories_def act_simps)
  have "grows u t" by (intro grows_same) (simp_all add: t)
  with grows_import_records [OF u] show ?case by (rule grows_trans)
qed

lemma store_effects_grows: "store_effects owner s t \<Longrightarrow> store_ok s \<Longrightarrow> grows s t"
proof (induction rule: rtranclp_induct)
  case (step y z)
  have "store_ok y" using store_effects_ok step(1,4) by blast
  from grows_trans [OF step.IH [OF step.prems] store_effect_grows [OF step.hyps(2) this]] show ?case .
qed simp

section \<open>Runs of the service\<close>

definition some_step :: "InMemoryStore \<Rightarrow> InMemoryStore \<Rightarrow> bool" where
  "some_step s t \<longleftrightarrow> (\<exists>owner. service_step owner s t)"

abbreviation service_run :: "InMemoryStore \<Rightarrow> InMemoryStore \<Rightarrow> bool" where
  "service_run \<equiv> some_step\<^sup>*\<^sup>*"

lemma service_run_ok: "service_run s t \<Longrightarrow> store_ok s \<Longrightarrow> store_ok t"
  by (induction rule: rtranclp_induct) (auto simp: some_step_def intro: service_step_ok)

lemma service_run_grows: "service_run s t \<Longrightarrow> store_ok s \<Longrightarrow> grows s t"
proof (induction rule: rtranclp_induct)
  case (step y z)
  have ok: "store_ok y" using service_run_ok step(1,4) by blast
  from step(2) obtain owner where "service_step owner y z" by (auto simp: some_step_def)
  from service_step_effects [OF this ok] have "grows y z" using store_effects_grows ok by blast
  with step.IH [OF step.prems] show ?case by (rule grows_trans)
qed simp

lemma reachable_run: "service_run s t \<Longrightarrow> reachable s \<Longrightarrow> reachable t"
  by (induction rule: rtranclp_induct) (auto simp: some_step_def intro: reachable.step)

lemma reachable_iff_run: "reachable s \<longleftrightarrow> service_run empty_store s"
proof
  show "reachable s \<Longrightarrow> service_run empty_store s"
    by (induction rule: reachable.induct)
       (auto simp: some_step_def intro: rtranclp.rtrancl_into_rtrancl)
qed (rule reachable_run [OF _ reachable.start])

section \<open>The store as a deletion ledger and a versioned store\<close>

text \<open>A memory is identified by its owner, its tenant and its identifier, as tombstones are.\<close>

definition store_ver :: "string \<times> string option \<times> uuid \<Rightarrow> InMemoryStore \<Rightarrow> int option" where
  "store_ver k s = (case dict_get (st_memories s) (snd (snd k)) of
     None \<Rightarrow> None
   | Some m \<Rightarrow> if (m_owner_id m, m_tenant_id m) = (fst k, fst (snd k)) then Some (m_version m) else None)"

definition store_dead :: "string \<times> string option \<times> uuid \<Rightarrow> InMemoryStore \<Rightarrow> bool" where
  "store_dead k s \<longleftrightarrow> k \<in> st_tombstones s"

lemma store_ver_Some:
  "store_ver k s = Some n \<longleftrightarrow> (\<exists>m. dict_get (st_memories s) (snd (snd k)) = Some m \<and>
     k = (m_owner_id m, m_tenant_id m, snd (snd k)) \<and> m_version m = n)"
  by (cases k) (auto simp: store_ver_def split: option.splits)

lemma some_step_grows:
  assumes "store_ok s" "some_step s t"
  shows "store_ok t" "grows s t"
  using service_run_ok [OF r_into_rtranclp] service_run_grows [OF r_into_rtranclp] assms by blast+

lemma store_dead_absent: "store_ok s \<Longrightarrow> store_dead k s \<Longrightarrow> store_ver k s = None"
  using core_okD(3) [of s "snd (snd k)"]
  by (cases k) (auto simp: store_ver_def store_dead_def store_ok_def split: option.splits)

lemma store_ver_grows:
  assumes "store_ok s" "grows s t" "store_ver k s = Some n"
  shows "store_dead k t \<or> (\<exists>m\<ge>n. store_ver k t = Some m)"
proof -
  from assms(3) obtain m where m: "dict_get (st_memories s) (snd (snd k)) = Some m"
    "k = (m_owner_id m, m_tenant_id m, snd (snd k))" "m_version m = n" by (auto simp: store_ver_Some)
  moreover obtain h where "dict_get (st_history s) (snd (snd k)) = Some h"
    using core_ok_history [OF _ m(1)] assms(1) by (auto simp: store_ok_def)
  moreover have "memory_grows s t (snd (snd k))" using assms(2) by (simp add: grows_def)
  ultimately have "(m_owner_id m, m_tenant_id m, snd (snd k)) \<in> st_tombstones t \<or>
      (\<exists>m'. dict_get (st_memories t) (snd (snd k)) = Some m' \<and> evolves m m')"
    unfolding memory_grows_def by blast
  with m(3) show ?thesis
    by (subst m(2), subst m(2)) (auto simp: store_dead_def store_ver_Some evolves_def)
qed

interpretation service_versions: versioned_store store_ok some_step store_ver store_dead
proof
  show "store_ok s \<Longrightarrow> some_step s t \<Longrightarrow> store_ok t" for s t by (rule some_step_grows)
  show "store_ok s \<Longrightarrow> some_step s t \<Longrightarrow> store_dead k s \<Longrightarrow> store_dead k t" for s t k
    using some_step_grows(2) unfolding grows_def store_dead_def by blast
  show "store_ok s \<Longrightarrow> store_dead k s \<Longrightarrow> \<not> store_ver k s \<noteq> None" for s k
    by (simp add: store_dead_absent)
  show "store_ok s \<Longrightarrow> some_step s t \<Longrightarrow> store_ver k s = Some n \<Longrightarrow>
      store_dead k t \<or> (\<exists>m\<ge>n. store_ver k t = Some m)" for s t k n
    by (rule store_ver_grows [OF _ some_step_grows(2)])
qed

end
