(* ===== verification/Fixtures.thy ===== *)
theory Fixtures
  imports Service_Frames
begin

text \<open>
  Concrete ports, commands and stores on which the hypotheses of the properties hold: an
  embedding provider of dimension two, a fixed clock, and a digest that is injective on the
  commands below.
\<close>

definition ex_now :: datetime where
  "ex_now = \<lparr>dt_local = 63902908800000000, dt_offset = Some 0\<rparr>"

definition ex_later :: datetime where
  "ex_later = \<lparr>dt_local = 63902908860000000, dt_offset = Some 0\<rparr>"

definition ex_profile :: EmbeddingProfile where
  "ex_profile = \<lparr>ep_id = ''hash'', ep_version = ''1'', ep_dimension = 2, ep_metric = ''cosine''\<rparr>"

fun ex_digest :: "json \<Rightarrow> string" where
  "ex_digest (JObj ((k, JStr v) # rest)) = ''sha:'' @ v"
| "ex_digest j = ''sha''"

definition ex_env :: "uuid \<Rightarrow> datetime \<Rightarrow> ServiceEnv" where
  "ex_env u now = \<lparr>env_embed = (\<lambda>text query. Inr [1, 0]),
     env_profile = ex_profile, env_clock = (\<lambda>_. now), env_uuid4 = u, env_digest = ex_digest\<rparr>"

definition ex_provenance :: Provenance where
  "ex_provenance = \<lparr>pv_source_type = USER, pv_captured_at = ex_now, pv_source_id = None,
     pv_source_model = None, pv_evidence = [], pv_source_client = Some ''cli'',
     pv_source_connection_id = None, pv_conversation_id = None, pv_message_id = None\<rparr>"

definition ex_consent :: CaptureConsent where
  "ex_consent = \<lparr>cc_mode = MANUAL, cc_consent_id = ''c1'', cc_reason_code = USER_REQUESTED_MEMORY,
     cc_policy_version = ''v1'', cc_granted_at = ex_now\<rparr>"

definition ex_write :: WriteMemoryCommand where
  "ex_write = \<lparr>wr_owner_id = ''ana'', wr_content = ''likes  tea'', wr_memory_type = FACT,
     wr_provenance = ex_provenance, wr_importance = 1/2, wr_confidence = 1, wr_space = None,
     wr_occurred_at = None, wr_idempotency_key = Some ''k1'', wr_tenant_id = Some ''t1''\<rparr>"

definition ex_capture :: CaptureMemoryCommand where
  "ex_capture = \<lparr>cp_tenant_id = ''t1'', cp_owner_id = ''ana'', cp_connection_id = ''con'',
     cp_content = ''prefers mornings'', cp_memory_type = PREFERENCE, cp_space = Some ''home'',
     cp_provenance = ex_provenance, cp_consent = ex_consent, cp_idempotency_key = ''k2'',
     cp_importance = 1/2, cp_confidence = 1/2, cp_capture_policy = ''manual'',
     cp_connection_revoked = False, cp_scopes = {''memory:write''}\<rparr>"

definition ex_update :: UpdateMemoryCommand where
  "ex_update = \<lparr>up_owner_id = ''ana'', up_memory_id = 1, up_expected_version = 1,
     up_content = Some ''likes coffee'', up_memory_type = None, up_importance = None,
     up_confidence = None, up_state = None, up_occurred_at = None, up_space = None,
     up_provenance = None, up_supersedes_memory_id = None, up_contradicts_memory_id = None,
     up_change_reason = ''changed'', up_idempotency_key = Some ''u1''\<rparr>"

definition ex_forget :: ForgetMemoryCommand where
  "ex_forget = \<lparr>fg_owner_id = ''ana'', fg_memory_id = 1, fg_idempotency_key = Some ''f1'',
     fg_reason_code = ''user_request'', fg_tenant_id = Some ''t1''\<rparr>"

definition ex_env1 :: ServiceEnv where "ex_env1 = ex_env 1 ex_now"
definition ex_env2 :: ServiceEnv where "ex_env2 = ex_env 2 ex_later"

text \<open>The stores after a write, after a capture, after an update, and after a forget.\<close>

definition ex_s1 :: InMemoryStore where "ex_s1 = snd (svc_write ex_env1 ex_write empty_store)"
definition ex_s2 :: InMemoryStore where "ex_s2 = snd (svc_capture ex_env2 ex_capture ex_s1)"
definition ex_s3 :: InMemoryStore where "ex_s3 = snd (svc_update ex_env2 ex_update ex_s2)"
definition ex_s4 :: InMemoryStore where "ex_s4 = snd (svc_forget ex_env2 ex_forget ex_s3)"

definition is_ok :: "('e, 'a) res \<times> 's \<Rightarrow> bool" where
  "is_ok r = (case fst r of Inl _ \<Rightarrow> False | Inr _ \<Rightarrow> True)"

lemma is_okE: "is_ok r \<Longrightarrow> (\<And>a. r = (Inr a, snd r) \<Longrightarrow> P) \<Longrightarrow> P"
  by (cases r) (auto simp: is_ok_def split: sum.splits)

lemma ex_write_ok: "is_ok (svc_write ex_env1 ex_write empty_store)"
  by code_simp

lemma ex_capture_ok: "is_ok (svc_capture ex_env2 ex_capture ex_s1)"
  by code_simp

lemma ex_update_ok: "is_ok (svc_update ex_env2 ex_update ex_s2)"
  by code_simp

lemma ex_forget_ok: "is_ok (svc_forget ex_env2 ex_forget ex_s3)"
  by code_simp

end
