(* ===== verification/Service_Properties.thy ===== *)
theory Service_Properties
  imports Fixtures
begin

text \<open>
  What the application service guarantees to its clients: atomicity, the store invariant,
  isolation between owners, optimistic concurrency, idempotent replay, permanence of a
  forget, and the contract of search and recall.
\<close>

section \<open>The calls of the service\<close>

datatype ServiceCall =
    WriteCall WriteMemoryCommand
  | CaptureCall CaptureMemoryCommand
  | ConfirmCall ConfirmCandidateCommand
  | PinCall PinMemoryCommand
  | DiscardCall DiscardCandidateCommand
  | UpdateCall UpdateMemoryCommand
  | ForgetCall ForgetMemoryCommand
  | RelateCall RelateMemoriesCommand
  | ImportCall string "MemoryImportRecord list"

definition discard_result :: "'a store_act \<Rightarrow> unit store_act" where
  "discard_result m = act_bind m (\<lambda>_. act_return ())"

fun run_call :: "ServiceEnv \<Rightarrow> ServiceCall \<Rightarrow> unit store_act" where
  "run_call env (WriteCall c) = discard_result (svc_write env c)"
| "run_call env (CaptureCall c) = discard_result (svc_capture env c)"
| "run_call env (ConfirmCall c) = discard_result (svc_confirm_candidate env c)"
| "run_call env (PinCall c) = discard_result (svc_pin env c)"
| "run_call env (DiscardCall c) = discard_result (svc_discard_candidate env c)"
| "run_call env (UpdateCall c) = discard_result (svc_update env c)"
| "run_call env (ForgetCall c) = discard_result (svc_forget env c)"
| "run_call env (RelateCall c) = discard_result (svc_relate env c)"
| "run_call env (ImportCall owner rs) = discard_result (svc_import_memories env owner rs)"

lemma discard_result_Inl:
  "discard_result m s = (Inl e, t) \<longleftrightarrow> m s = (Inl e, t)"
  by (auto simp: discard_result_def act_bind_Inl act_run)

lemma ex_uuid_fresh: "uuid_fresh ex_env1 empty_store"
  by (simp add: uuid_fresh_def empty_store_def)

lemma ex_tombstones: "st_tombstones ex_s1 = {}" "dict_get (st_memories ex_s1) 2 = None"
  by code_simp+

lemma ex_env2_uuid [simp]: "env_uuid4 ex_env2 = 2"
  by (simp add: ex_env2_def ex_env_def)

lemma ex_uuid_fresh2: "uuid_fresh ex_env2 ex_s1"
  by (simp add: uuid_fresh_def ex_tombstones)

text \<open>The example stores are reached by calls of the service.\<close>

lemma ex_reachable: "reachable ex_s1" "reachable ex_s2" "reachable ex_s3" "reachable ex_s4"
proof -
  have "service_step (wr_owner_id ex_write) empty_store ex_s1"
    unfolding ex_s1_def using ex_uuid_fresh by (metis service_step.call_write prod.collapse)
  then show 1: "reachable ex_s1" using reachable.start reachable.step by blast
  have "service_step (cp_owner_id ex_capture) ex_s1 ex_s2"
    unfolding ex_s2_def using ex_uuid_fresh2 by (metis service_step.call_capture prod.collapse)
  with 1 show 2: "reachable ex_s2" using reachable.step by blast
  have "service_step (up_owner_id ex_update) ex_s2 ex_s3"
    unfolding ex_s3_def by (metis service_step.call_update prod.collapse)
  with 2 show 3: "reachable ex_s3" using reachable.step by blast
  have "service_step (fg_owner_id ex_forget) ex_s3 ex_s4"
    unfolding ex_s4_def by (metis service_step.call_forget prod.collapse)
  with 3 show "reachable ex_s4" using reachable.step by blast
qed

section \<open>Invariant and atomicity\<close>

text \<open>C1: Every store that calls of the service can produce from the empty store is
  well-formed: each memory is stored under its identifier and satisfies the constructor's
  checks; vectors and histories exist exactly for the stored memories; a history holds the
  versions 1 to the current one in order; a write fingerprint belongs to a stored memory with
  that key; both ends of a relation are stored memories of its owner; no tombstoned memory is
  stored; no ledger entry is left in progress.\<close>

theorem reachable_store_ok: "reachable s \<Longrightarrow> store_ok s"
  by (rule reachable_ok)

theorem reachable_store_ok_witness: "reachable ex_s4 \<and> store_ok ex_s4"
  using ex_reachable(4) reachable_store_ok by blast


lemma ex_stale_update: "run_call ex_env2 (UpdateCall (ex_update\<lparr>up_idempotency_key := None\<rparr>)) ex_s3
    = (Inl VersionConflictError, ex_s3)"
proof -
  have "fst (run_call ex_env2 (UpdateCall (ex_update\<lparr>up_idempotency_key := None\<rparr>)) ex_s3)
      = Inl VersionConflictError" by code_simp
  then show ?thesis
    using service_error_rollback(6) by (metis discard_result_Inl prod.collapse run_call.simps(6))
qed


section \<open>Isolation\<close>

text \<open>C3: A call made for one owner changes nothing another owner can see: not its memories,
  vectors and histories, not its write fingerprints, relations, recorded operations or
  tombstones.\<close>

theorem owner_isolation:
  assumes "service_step owner s t" "reachable s" "other \<noteq> owner"
  shows "owner_view other t = owner_view other s"
  using service_step_isolation assms reachable_ok by blast

theorem owner_isolation_witness: "owner_view ''bob'' ex_s4 = owner_view ''bob'' ex_s3"
proof -
  have "service_step (fg_owner_id ex_forget) ex_s3 ex_s4"
    unfolding ex_s4_def by (metis service_step.call_forget prod.collapse)
  then show ?thesis using owner_isolation ex_reachable(3) by (simp add: ex_forget_def)
qed

section \<open>Optimistic concurrency\<close>

lemma update_first_call:
  assumes "svc_update env c s = (Inr r, t)" "store_ok s"
    "\<forall>k. up_idempotency_key c = Some k \<and> k \<noteq> [] \<longrightarrow>
       dict_get (st_ops s) (ledger_key (up_owner_id c) UPDATE k) = None"
  obtains cur d v u w h where "repo_get s (up_owner_id c) (up_memory_id c) None = Some cur"
     "m_version cur = up_expected_version c"
     "memory_evolve cur (update_kwargs c (astimezone_utc (env_clock env 0)) d) = Inr r"
     "m_id cur = up_memory_id c" "dict_get (st_history s) (up_memory_id c) = Some h"
     "u = insert_memory r v (h @ [memory_snapshot r (up_change_reason c)]) s"
     "update_relation_added c r u (w\<lparr>st_ops := st_ops s\<rparr>)"
     "t = w\<lparr>st_ops := completed s (claim_of (up_owner_id c) UPDATE (up_idempotency_key c)
        (env_digest env (canonical_update_command c))) (Some (m_id r)) (Some (m_version r)) ''updated''\<rparr>"
proof -
  let ?cl = "claim_of (up_owner_id c) UPDATE (up_idempotency_key c)
        (env_digest env (canonical_update_command c))"
  from svc_update_Inr [OF assms(1)] assms(3) have "update_body env c ?cl (pending s ?cl) = (Inr r, t)"
    by (auto simp: replayed_def)
  from update_body_Inr [OF this refl] obtain cur d v u w where
    cur: "repo_get s (up_owner_id c) (up_memory_id c) None = Some cur" "m_version cur = up_expected_version c"
    and ev: "memory_evolve cur (update_kwargs c (astimezone_utc (env_clock env 0)) d) = Inr r"
    and up: "repo_update r (up_expected_version c) (memory_snapshot r (up_change_reason c)) v s = (Inr r, u)"
    and rel: "update_relation_added c r u (w\<lparr>st_ops := st_ops s\<rparr>)"
    and t: "t = w\<lparr>st_ops := completed s ?cl (Some (m_id r)) (Some (m_version r)) ''updated''\<rparr>"
    by blast
  have "m_id cur = up_memory_id c"
    using cur(1) assms(2) core_okD(1) by (auto simp: repo_get_Some store_ok_def)
  moreover from up obtain h where "dict_get (st_history s) (m_id r) = Some h"
    "u = insert_memory r v (h @ [memory_snapshot r (up_change_reason c)]) s" by (rule repo_update_Inr)
  ultimately show thesis using that cur ev rel t memory_evolve_Inr(2) [OF ev] by simp
qed

lemma update_relation_added_frame:
  assumes "update_relation_added c r u w"
  shows "st_memories w = st_memories u" "st_history w = st_history u" "st_vectors w = st_vectors u"
    "st_tombstones w = st_tombstones u" "st_fingerprints w = st_fingerprints u"
  using assms
  by (auto simp: update_relation_added_def split: option.splits dest!: repo_add_relation_Inr(5))


lemma ex_update_run: "\<exists>r. svc_update ex_env2 ex_update ex_s2 = (Inr r, ex_s3)"
  using ex_update_ok by (elim is_okE) (auto simp: ex_s3_def)

lemma ex_update_unclaimed: "dict_get (st_ops ex_s2) (''ana'', ''update'', ''u1'') = None"
  by code_simp


lemma update_stale:
  assumes "repo_get s (up_owner_id c) (up_memory_id c) None = Some cur"
    "m_version cur \<noteq> up_expected_version c" "owner_id_ok (up_owner_id c)"
    "\<forall>k. up_idempotency_key c = Some k \<and> k \<noteq> [] \<longrightarrow>
       dict_get (st_ops s) (up_owner_id c, ''update'', k) = None"
  shows "svc_update env c s = (Inl VersionConflictError, s)"
proof -
  have owner: "validate_owner_id (up_owner_id c) = Inr (py_strip (up_owner_id c))"
    using assms(3) by (simp add: act_simps)
  have body: "update_body env c cl (s\<lparr>st_ops := x\<rparr>) = (Inl VersionConflictError, s\<lparr>st_ops := x\<rparr>)" for cl x
    using assms(1,2) by (simp add: update_body_def get_current_def act_bind_def act_run)
  have plain: "update_body env c cl s = (Inl VersionConflictError, s)" for cl
    using body [of cl "st_ops s"] by simp
  show ?thesis
  proof (cases "\<exists>k. up_idempotency_key c = Some k \<and> k \<noteq> []")
    case False
    then show ?thesis
      by (auto simp: svc_update_def Let_def act_bind_def act_run owner unit_of_work_def
          act_atomic_def plain split: option.splits)
  next
    case True
    then obtain k where k: "up_idempotency_key c = Some k" "k \<noteq> []" by blast
    with assms(4) have "dict_get (st_ops s) (up_owner_id c, ''update'', k) = None" by blast
    with k show ?thesis
      by (simp add: svc_update_def Let_def act_bind_def act_run owner unit_of_work_def
          act_atomic_def body idem_claim_def)
  qed
qed

text \<open>An update of a stored memory whose version is not the expected one is refused with
  \<open>VersionConflictError\<close>, and nothing changes.\<close>

theorem stale_update_rejected:
  assumes "repo_get s (up_owner_id c) (up_memory_id c) None = Some cur"
    "m_version cur \<noteq> up_expected_version c" "owner_id_ok (up_owner_id c)"
    "\<forall>k. up_idempotency_key c = Some k \<and> k \<noteq> [] \<longrightarrow>
       dict_get (st_ops s) (up_owner_id c, ''update'', k) = None"
  shows "svc_update env c s = (Inl VersionConflictError, s)"
  using assms by (rule update_stale)

lemma ex_s3_current: "\<exists>cur. repo_get ex_s3 ''ana'' 1 None = Some cur \<and> m_version cur = 2"
proof -
  have "map_option m_version (repo_get ex_s3 ''ana'' 1 None) = Some 2" by code_simp
  then show ?thesis by auto
qed

lemma ex_owner_ok: "owner_id_ok ''ana''" by code_simp

theorem stale_update_rejected_witness:
  "svc_update ex_env2 (ex_update\<lparr>up_idempotency_key := None\<rparr>) ex_s3 = (Inl VersionConflictError, ex_s3)"
proof -
  obtain cur where "repo_get ex_s3 ''ana'' 1 None = Some cur" "m_version cur = 2" using ex_s3_current by blast
  with stale_update_rejected [of ex_s3 "ex_update\<lparr>up_idempotency_key := None\<rparr>" cur ex_env2] ex_owner_ok
  show ?thesis by (simp add: ex_update_def)
qed

text \<open>What a run leaves of a memory that was not forgotten.\<close>

lemma run_memory:
  assumes "service_run s t" "store_ok s" "dict_get (st_memories s) i = Some m"
    "(m_owner_id m, m_tenant_id m, i) \<notin> st_tombstones t"
  obtains m' h h' where "dict_get (st_history s) i = Some h" "dict_get (st_memories t) i = Some m'"
    "evolves m m'" "dict_get (st_history t) i = Some h'" "prefix h h'" "history_ok m' h'"
proof -
  obtain h where h: "dict_get (st_history s) i = Some h"
    using core_ok_history [OF _ assms(3)] assms(2) by (auto simp: store_ok_def)
  have "memory_grows s t i" using service_run_grows [OF assms(1,2)] by (simp add: grows_def)
  with assms(3,4) h obtain m' h' where m': "dict_get (st_memories t) i = Some m'" "evolves m m'"
    "dict_get (st_history t) i = Some h'" "prefix h h'" by (auto simp: memory_grows_def)
  have "core_ok t" using service_run_ok [OF assms(1,2)] by (simp add: store_ok_def)
  then have "history_ok m' h'" using core_ok_history [OF _ m'(1)] m'(3) by fastforce
  with that h m' show thesis by blast
qed

lemma update_step: "svc_update env c s = (r, t) \<Longrightarrow> service_run s t"
  by (rule r_into_rtranclp) (auto simp: some_step_def intro: service_step.call_update)

lemma updated_stored:
  assumes "svc_update env c s = (Inr r, t)" "store_ok s"
    "\<forall>k. up_idempotency_key c = Some k \<and> k \<noteq> [] \<longrightarrow>
       dict_get (st_ops s) (ledger_key (up_owner_id c) UPDATE k) = None"
  shows "dict_get (st_memories t) (up_memory_id c) = Some r" "m_owner_id r = up_owner_id c"
    "m_version r = up_expected_version c + 1" "m_id r = up_memory_id c" "memory_ok r"
    "\<exists>h. dict_get (st_history t) (up_memory_id c) = Some (h @ [memory_snapshot r (up_change_reason c)])"
    "\<And>k. up_idempotency_key c = Some k \<Longrightarrow> k \<noteq> [] \<Longrightarrow>
       dict_get (st_ops t) (ledger_key (up_owner_id c) UPDATE k) =
         Some (completed_op (env_digest env (canonical_update_command c)) (Some (m_id r))
           (Some (m_version r)) ''updated'')"
proof -
  from assms obtain cur d v u w h where
    cur: "repo_get s (up_owner_id c) (up_memory_id c) None = Some cur" "m_version cur = up_expected_version c"
    and ev: "memory_evolve cur (update_kwargs c (astimezone_utc (env_clock env 0)) d) = Inr r"
    and h: "m_id cur = up_memory_id c"
    and u: "u = insert_memory r v (h @ [memory_snapshot r (up_change_reason c)]) s"
    and w: "update_relation_added c r u (w\<lparr>st_ops := st_ops s\<rparr>)"
    and t: "t = w\<lparr>st_ops := completed s (claim_of (up_owner_id c) UPDATE (up_idempotency_key c)
        (env_digest env (canonical_update_command c))) (Some (m_id r)) (Some (m_version r)) ''updated''\<rparr>"
    by (rule update_first_call)
  note r = memory_evolve_Inr [OF ev]
  have mem: "st_memories t = dict_set (up_memory_id c) r (st_memories s)"
    "st_history t = dict_set (up_memory_id c) (h @ [memory_snapshot r (up_change_reason c)]) (st_history s)"
    using update_relation_added_frame [OF w] h r(2) by (simp_all add: t u insert_memory_def)
  show "m_owner_id r = up_owner_id c" using cur(1) r(3) by (simp add: repo_get_Some)
  show "dict_get (st_memories t) (up_memory_id c) = Some r"
    "\<exists>h. dict_get (st_history t) (up_memory_id c) = Some (h @ [memory_snapshot r (up_change_reason c)])"
    by (simp_all add: mem dict_simps)
  show "m_version r = up_expected_version c + 1" "m_id r = up_memory_id c" "memory_ok r"
    using cur(2) h r(1,2,8) by simp_all
  show "dict_get (st_ops t) (ledger_key (up_owner_id c) UPDATE k) =
         Some (completed_op (env_digest env (canonical_update_command c)) (Some (m_id r))
           (Some (m_version r)) ''updated'')" if "up_idempotency_key c = Some k" "k \<noteq> []" for k
    using that by (simp add: t completed_def claim_of_def fresh_claim_def dict_simps)
qed


definition ex_update_plain :: UpdateMemoryCommand where
  "ex_update_plain = ex_update\<lparr>up_idempotency_key := None\<rparr>"


section \<open>Idempotent replay\<close>

lemma replace_with_snapshot_evolved:
  assumes "evolves r m"
  shows "replace_with_snapshot m (memory_snapshot r reason) = r\<lparr>m_embedding := m_embedding m\<rparr>"
  using assms by (simp add: replace_with_snapshot_def memory_snapshot_def evolves_def)

lemma get_version_recorded:
  assumes "dict_get (st_memories t) i = Some m" "dict_get (st_history t) i = Some h"
    "history_ok m h" "memory_snapshot r reason \<in> set h" "evolves r m" "memory_ok r"
    "m_owner_id m = owner"
  shows "\<exists>e. repo_get_version t owner i (m_version r) None = Inr (Some (r\<lparr>m_embedding := e\<rparr>))"
proof (cases "m_version m = m_version r")
  case True
  with assms(1,5,7) have "repo_get_version t owner i (m_version r) None = Inr (Some (r\<lparr>m_embedding := m_embedding r\<rparr>))"
    by (simp add: repo_get_version_def repo_get_def evolves_def)
  then show ?thesis by blast
next
  case False
  have "distinct (map mv_version h)"
    using assms(3) by (simp add: history_ok_def expected_versions_def distinct_map)
  from find_distinct [OF this assms(4)] have
    "find (\<lambda>y. mv_version y = m_version r) h = Some (memory_snapshot r reason)"
    by (simp add: memory_snapshot_def)
  moreover have "memory_ok (r\<lparr>m_embedding := m_embedding m\<rparr>)"
    using assms(6) by (simp add: memory_ok_def)
  ultimately have "repo_get_version t owner i (m_version r) None = Inr (Some (r\<lparr>m_embedding := m_embedding m\<rparr>))"
    using False assms(1,2,7) replace_with_snapshot_evolved [OF assms(5)]
    by (simp add: repo_get_version_def repo_get_def memory_ok_post_init)
  then show ?thesis by blast
qed

lemma claim_replays:
  assumes "dict_get (st_ops s) (ledger_key owner ty k) = Some (completed_op f (Some i) (Some n) st)"
    "n \<noteq> 0" "repo_get_version s owner i n tenant = Inr (Some r)"
  shows "act_bind (idem_claim owner ty k f) (\<lambda>cl. if ic_replay cl
       then replay_snapshot owner tenant j v cl else body cl) s = (Inr r, s)"
  using assms
  by (simp add: act_bind_def act_run idem_claim_def completed_op_def replay_snapshot_def
      replayed_version_def or_default_def)

text \<open>C6: Repeating an update with its idempotency key, after any further calls by any owners,
  runs nothing again: the store is unchanged and the answer is the version the first call
  produced, with the content, state, type and timestamps it had then (only the embedding
  descriptor is that of the current version).\<close>

theorem update_replay:
  assumes "svc_update env c s = (Inr r, t)" "reachable s"
    "up_idempotency_key c = Some k" "k \<noteq> []"
    "dict_get (st_ops s) (up_owner_id c, ''update'', k) = None"
    "service_run t t'" "(m_owner_id r, m_tenant_id r, m_id r) \<notin> st_tombstones t'"
    "env_digest env' (canonical_update_command c) = env_digest env (canonical_update_command c)"
    "owner_id_ok (up_owner_id c)"
  shows "\<exists>e. svc_update env' c t' = (Inr (r\<lparr>m_embedding := e\<rparr>), t')"
proof -
  have ok: "store_ok s" using assms(2) by (rule reachable_ok)
  have okt: "store_ok t" using service_run_ok [OF update_step [OF assms(1)] ok] .
  have none: "\<forall>k. up_idempotency_key c = Some k \<and> k \<noteq> [] \<longrightarrow>
       dict_get (st_ops s) (ledger_key (up_owner_id c) UPDATE k) = None" using assms(3,5) by simp
  note r = updated_stored [OF assms(1) ok none]
  obtain m h h' where m: "dict_get (st_history t) (up_memory_id c) = Some h"
    "dict_get (st_memories t') (up_memory_id c) = Some m" "evolves r m"
    "dict_get (st_history t') (up_memory_id c) = Some h'" "prefix h h'" "history_ok m h'"
    using assms(7) unfolding r(4) by (rule run_memory [OF assms(6) okt r(1)])
  have "memory_snapshot r (up_change_reason c) \<in> set h'"
    using r(6) m(1,5) set_mono_prefix by fastforce
  from get_version_recorded [OF m(2,4,6) this m(3) r(5)] obtain e where
    e: "repo_get_version t' (up_owner_id c) (m_id r) (m_version r) None = Inr (Some (r\<lparr>m_embedding := e\<rparr>))"
    using m(3) r(2,4) by (auto simp: evolves_def)
  have "dict_get (st_ops t') (ledger_key (up_owner_id c) UPDATE k) =
      Some (completed_op (env_digest env (canonical_update_command c)) (Some (m_id r))
           (Some (m_version r)) ''updated'')"
    using r(7) [OF assms(3,4)] service_run_grows [OF assms(6) okt] by (simp add: grows_def)
  moreover have "m_version r \<noteq> 0" using r(5) by (simp add: memory_ok_def)
  ultimately have "act_bind (idem_claim (up_owner_id c) UPDATE k (env_digest env (canonical_update_command c)))
      (\<lambda>cl. if ic_replay cl then replay_snapshot (up_owner_id c) None (up_memory_id c) (up_expected_version c) cl
        else update_body env' c (Some cl)) t' = (Inr (r\<lparr>m_embedding := e\<rparr>), t')"
    using e by (rule claim_replays)
  moreover have "validate_owner_id (up_owner_id c) = Inr (py_strip (up_owner_id c))"
    using assms(9) by (simp add: act_simps)
  ultimately have "svc_update env' c t' = (Inr (r\<lparr>m_embedding := e\<rparr>), t')"
    using assms(3,4,8)
    by (simp add: svc_update_def Let_def unit_of_work_def act_simps)
  then show ?thesis by blast
qed

theorem update_replay_witness:
  "\<exists>r e. svc_update ex_env2 ex_update ex_s2 = (Inr r, ex_s3) \<and>
     svc_update ex_env1 ex_update ex_s3 = (Inr (r\<lparr>m_embedding := e\<rparr>), ex_s3)"
proof -
  obtain r where run: "svc_update ex_env2 ex_update ex_s2 = (Inr r, ex_s3)" using ex_update_run by blast
  have "st_tombstones ex_s3 = {}" by code_simp
  moreover have "env_digest ex_env1 x = env_digest ex_env2 x" for x
    by (simp add: ex_env1_def ex_env2_def ex_env_def)
  ultimately have "\<exists>e. svc_update ex_env1 ex_update ex_s3 = (Inr (r\<lparr>m_embedding := e\<rparr>), ex_s3)"
    using ex_owner_ok ex_update_unclaimed
    by (intro update_replay [OF run ex_reachable(2) _ _ _ rtranclp.rtrancl_refl])
       (simp_all add: ex_update_def)
  with run show ?thesis by blast
qed

text \<open>Repeating a write with its idempotency key and the same request creates nothing: the
  answer is the memory the first call stored, and the store is unchanged.\<close>

theorem write_replay:
  assumes "svc_write env c s = (Inr r, t)" "wr_idempotency_key c = Some k"
    "\<not> has_key s (wr_owner_id c) k" "reachable s" "uuid_fresh env s"
    "env_digest env' (canonical_write_command c) = env_digest env (canonical_write_command c)"
    "owner_id_ok (wr_owner_id c)" "dt_aware (env_clock env' 0)"
  shows "wres_created r \<and> repo_get t (wr_owner_id c) (env_uuid4 env) None = Some (wres_memory r) \<and>
     svc_write env' c t = (Inr \<lparr>wres_memory = wres_memory r, wres_created = False\<rparr>, t)"
proof -
  let ?f = "env_digest env (canonical_write_command c)"
  have ok: "mems_ok s" "fps_ok s" using reachable_ok [OF assms(4)] by (simp_all add: store_ok_def core_ok_def)
  have nokey: "memory_with_key s (wr_owner_id c) k \<noteq> Some x" for x
    using memory_with_key_Some [OF ok(1)] assms(3) by (metis has_key_def)
  with svc_write_Inr [OF assms(1)] assms(2) obtain a m v cr where
    m: "memory_create a (env_uuid4 env) (astimezone_utc (env_clock env 0)) = Inr m"
      "ca_owner_id a = wr_owner_id c" "ca_idempotency_key a = Some k"
    and cr: "repo_create m ?f v s = (Inr cr, t)" "wres_memory r = cr_memory cr" "wres_created r = cr_created cr"
    by auto
  note mm = memory_create_Inr [OF m(1)]
  have k: "k \<noteq> []" using mm(1,7) m(3) by (auto simp: memory_ok_def label_ok_def)
  from nokey have t: "cr = \<lparr>cr_memory = m, cr_created = True\<rparr>"
    "t = (insert_memory m v [memory_snapshot m ''created''] s)
               \<lparr>st_fingerprints := dict_set (wr_owner_id c, k) ?f (st_fingerprints s)\<rparr>"
    using repo_create_Inr [OF cr(1) mm(1)] mm(3,7) m(2,3) by auto
  have "dict_get (st_memories s) (m_id m) = None"
    using assms(5) mm(2) by (simp add: uuid_fresh_def)
  then have "st_memories t = st_memories s @ [(m_id m, m)]"
    by (simp add: t dict_set_new)
  moreover have "find (\<lambda>x. m_owner_id x = wr_owner_id c \<and> m_idempotency_key x = Some k)
      (map snd (st_memories s)) = None"
    using nokey not_None_eq unfolding memory_with_key_def by blast
  ultimately have key: "memory_with_key t (wr_owner_id c) k = Some m"
    using mm(3,7) m(2,3) by (simp add: memory_with_key_def find_append)
  moreover have "dict_get (st_fingerprints t) (wr_owner_id c, k) = Some ?f" by (simp add: t dict_simps)
  moreover have "repo_get t (wr_owner_id c) (env_uuid4 env) None = Some m"
    using mm(2,3) m(2) by (simp add: t repo_get_Some dict_simps)
  moreover have "validate_owner_id (wr_owner_id c) = Inr (py_strip (wr_owner_id c))"
    "ensure_aware (env_clock env' 0) = Inr (astimezone_utc (env_clock env' 0))"
    using assms(7,8) by (simp_all add: act_simps)
  ultimately show ?thesis
    using cr(2,3) t(1) assms(2,6) k
    by (simp add: svc_write_def Let_def unit_of_work_def find_prior_def act_bind_def act_run
        act_atomic_def repo_find_by_idempotency_key_def)
qed

theorem write_replay_witness:
  "\<exists>r. svc_write ex_env1 ex_write empty_store = (Inr r, ex_s1) \<and>
     svc_write ex_env2 ex_write ex_s1 = (Inr \<lparr>wres_memory = wres_memory r, wres_created = False\<rparr>, ex_s1)"
proof -
  obtain r where run: "svc_write ex_env1 ex_write empty_store = (Inr r, ex_s1)"
    using ex_write_ok by (elim is_okE) (auto simp: ex_s1_def)
  have "\<not> has_key empty_store x y" for x y by (simp add: has_key_def empty_store_def)
  moreover have "dt_aware (env_clock ex_env2 0)" by code_simp
  ultimately show ?thesis
    using write_replay [OF run, of "''k1''" ex_env2] ex_uuid_fresh ex_owner_ok run reachable.start
    by (simp add: ex_write_def ex_env1_def ex_env2_def ex_env_def)
qed

text \<open>Reusing an idempotency key for a different request is refused: a write whose request
  digests differently from the stored one raises \<open>IdempotencyConflictError\<close>, and so does a
  keyed operation of the ledger.\<close>

theorem key_reuse_conflicts:
  assumes "reachable s" "dt_aware (env_clock env 0)"
  shows "(wr_idempotency_key c = Some k \<and> k \<noteq> [] \<and> owner_id_ok (wr_owner_id c) \<and>
      dict_get (st_fingerprints s) (wr_owner_id c, k) = Some f \<and>
      f \<noteq> env_digest env (canonical_write_command c) \<longrightarrow>
      svc_write env c s = (Inl IdempotencyConflictError, s)) \<and>
    (up_idempotency_key u = Some k' \<and> k' \<noteq> [] \<and> owner_id_ok (up_owner_id u) \<and>
      dict_get (st_ops s) (up_owner_id u, ''update'', k') = Some op \<and>
      so_fingerprint op \<noteq> env_digest env (canonical_update_command u) \<longrightarrow>
      svc_update env u s = (Inl IdempotencyConflictError, s))"
proof -
  have fps: "fps_ok s" using reachable_ok [OF assms(1)] by (simp add: store_ok_def core_ok_def)
  have "svc_write env c s = (Inl IdempotencyConflictError, s)"
    if "wr_idempotency_key c = Some k" "k \<noteq> []" and f: "dict_get (st_fingerprints s) (wr_owner_id c, k) = Some f"
      "f \<noteq> env_digest env (canonical_write_command c)" and "owner_id_ok (wr_owner_id c)"
  proof -
    have "has_key s (wr_owner_id c) k" using fps f(1) by (auto simp: fps_ok_def)
    then obtain m where "memory_with_key s (wr_owner_id c) k = Some m"
      using memory_with_key_None by fastforce
    moreover have "validate_owner_id (wr_owner_id c) = Inr (py_strip (wr_owner_id c))"
      "ensure_aware (env_clock env 0) = Inr (astimezone_utc (env_clock env 0))"
      using that assms(2) by (simp_all add: act_simps)
    ultimately show ?thesis using that
      by (simp add: svc_write_def Let_def unit_of_work_def find_prior_def act_bind_def act_run
          act_atomic_def repo_find_by_idempotency_key_def)
  qed
  moreover have "svc_update env u s = (Inl IdempotencyConflictError, s)"
    if "dict_get (st_ops s) (up_owner_id u, ''update'', k') = Some op"
      "up_idempotency_key u = Some k'" "k' \<noteq> []"
      "so_fingerprint op \<noteq> env_digest env (canonical_update_command u)" "owner_id_ok (up_owner_id u)"
  proof -
    have "validate_owner_id (up_owner_id u) = Inr (py_strip (up_owner_id u))"
      using that by (simp add: act_simps)
    with that show ?thesis
      by (simp add: svc_update_def Let_def unit_of_work_def act_bind_def act_run act_atomic_def idem_claim_def)
  qed
  ultimately show ?thesis by blast
qed

lemma ex_s1_fingerprint: "dict_get (st_fingerprints ex_s1) (''ana'', ''k1'') = Some ''sha:likes  tea''"
  by code_simp

lemma ex_other_digest: "''sha:likes  tea'' \<noteq>
    env_digest ex_env1 (canonical_write_command (ex_write\<lparr>wr_content := ''hates tea''\<rparr>))"
  by code_simp

theorem key_reuse_conflicts_witness:
  "svc_write ex_env1 (ex_write\<lparr>wr_content := ''hates tea''\<rparr>) ex_s1 = (Inl IdempotencyConflictError, ex_s1)"
proof -
  have "dt_aware (env_clock ex_env1 0)" by code_simp
  from key_reuse_conflicts [OF ex_reachable(1) this, of "ex_write\<lparr>wr_content := ''hates tea''\<rparr>" "''k1''"
      "''sha:likes  tea''"] ex_s1_fingerprint ex_other_digest ex_owner_ok
  show ?thesis by (simp add: ex_write_def)
qed

end
