(* ===== verification/Forget_Properties.thy ===== *)
theory Forget_Properties
  imports Service_Properties
begin

text \<open>
  Forgetting is complete and permanent, imports respect tombstones, and captures are gated by
  consent and stay candidates until they are confirmed.
\<close>

section \<open>Forget\<close>

lemma svc_forget_True:
  assumes "svc_forget env c s = (Inr r, t)" "fres_forgotten r"
  obtains m where "dict_get (st_memories s) (fg_memory_id c) = Some m" "m_owner_id m = fg_owner_id c"
    "st_memories t = dict_pop (fg_memory_id c) (st_memories s)"
    "st_vectors t = dict_pop (fg_memory_id c) (st_vectors s)"
    "st_history t = dict_pop (fg_memory_id c) (st_history s)"
    "st_fingerprints t = (case m_idempotency_key m of
        Some k \<Rightarrow> if k \<noteq> [] then dict_pop (fg_owner_id c, k) (st_fingerprints s) else st_fingerprints s
      | None \<Rightarrow> st_fingerprints s)"
    "st_relations t = filter (\<lambda>(key, r). rel_source_id r \<noteq> fg_memory_id c \<and>
        rel_target_id r \<noteq> fg_memory_id c) (st_relations s)"
    "st_tombstones t = insert (fg_owner_id c, m_tenant_id m, fg_memory_id c) (st_tombstones s)"
proof -
  from svc_forget_Inr [OF assms(1)] assms(2) obtain u where
    u: "repo_forget (fg_owner_id c) (fg_memory_id c) (fg_tenant_id c) s = (Inr True, u\<lparr>st_ops := st_ops s\<rparr>)"
    and t: "t = u\<lparr>st_ops := completed s (claim_of (fg_owner_id c) FORGET (fg_idempotency_key c)
         (env_digest env (canonical_forget_command c))) (Some (fg_memory_id c)) None (forget_status True)\<rparr>"
    by auto
  from u show thesis
    by (rule repo_forget_True) (rule that, simp_all add: t)
qed

text \<open>C7: A successful forget leaves no trace of the memory but its tombstone: the memory, its
  vector, its history, every relation touching it and its write fingerprint are gone, for
  every owner and tenant.\<close>

theorem forget_erases:
  assumes "svc_forget env c s = (Inr r, t)" "fres_forgotten r" "reachable s"
  shows "(\<forall>owner tenant. repo_get t owner (fg_memory_id c) tenant = None) \<and>
     dict_get (st_vectors t) (fg_memory_id c) = None \<and>
     dict_get (st_history t) (fg_memory_id c) = None \<and>
     (\<forall>rel\<in>set (dict_values (st_relations t)).
        rel_source_id rel \<noteq> fg_memory_id c \<and> rel_target_id rel \<noteq> fg_memory_id c) \<and>
     (\<exists>m. repo_get s (fg_owner_id c) (fg_memory_id c) None = Some m \<and>
        (fg_owner_id c, m_tenant_id m, fg_memory_id c) \<in> st_tombstones t \<and>
        (\<forall>k. m_idempotency_key m = Some k \<longrightarrow>
           dict_get (st_fingerprints t) (fg_owner_id c, k) = None))"
  using assms(1,2)
proof (rule svc_forget_True)
  fix m
  assume m: "dict_get (st_memories s) (fg_memory_id c) = Some m" "m_owner_id m = fg_owner_id c"
    and t: "st_memories t = dict_pop (fg_memory_id c) (st_memories s)"
    "st_vectors t = dict_pop (fg_memory_id c) (st_vectors s)"
    "st_history t = dict_pop (fg_memory_id c) (st_history s)"
    and fp: "st_fingerprints t = (case m_idempotency_key m of
        Some k \<Rightarrow> if k \<noteq> [] then dict_pop (fg_owner_id c, k) (st_fingerprints s) else st_fingerprints s
      | None \<Rightarrow> st_fingerprints s)"
    and rl: "st_relations t = filter (\<lambda>(key, r). rel_source_id r \<noteq> fg_memory_id c \<and>
        rel_target_id r \<noteq> fg_memory_id c) (st_relations s)"
    and tb: "st_tombstones t = insert (fg_owner_id c, m_tenant_id m, fg_memory_id c) (st_tombstones s)"
  have "memory_ok m" using core_okD(2) [OF _ m(1)] reachable_ok [OF assms(3)] by (simp add: store_ok_def)
  then have "k \<noteq> []" if "m_idempotency_key m = Some k" for k
    using that by (auto simp: memory_ok_def label_ok_def)
  then have key: "\<forall>k. m_idempotency_key m = Some k \<longrightarrow> dict_get (st_fingerprints t) (fg_owner_id c, k) = None"
    by (auto simp: fp dict_simps)
  have "repo_get s (fg_owner_id c) (fg_memory_id c) None = Some m" using m by (simp add: repo_get_Some)
  then show ?thesis using key
    by (auto simp: repo_get_def t rl tb dict_simps)
qed

lemma ex_forget_run: "\<exists>r. svc_forget ex_env2 ex_forget ex_s3 = (Inr r, ex_s4) \<and> fres_forgotten r"
proof -
  obtain r where r: "svc_forget ex_env2 ex_forget ex_s3 = (Inr r, ex_s4)"
    using ex_forget_ok by (elim is_okE) (auto simp: ex_s4_def)
  have "(case fst (svc_forget ex_env2 ex_forget ex_s3) of Inl _ \<Rightarrow> False | Inr r \<Rightarrow> fres_forgotten r)"
    by code_simp
  with r show ?thesis by simp
qed

theorem forget_erases_witness: "repo_get ex_s4 ''ana'' 1 None = None \<and> dict_get (st_history ex_s4) 1 = None"
proof -
  obtain r where "svc_forget ex_env2 ex_forget ex_s3 = (Inr r, ex_s4)" "fres_forgotten r"
    using ex_forget_run by blast
  from forget_erases [OF this ex_reachable(3)] show ?thesis by (simp add: ex_forget_def)
qed

text \<open>C8: A forgotten memory stays forgotten: whatever calls follow, imports included, no memory
  with that identifier, owner and tenant is stored again.\<close>

theorem forgotten_for_good:
  assumes "svc_forget env c s = (Inr r, t)" "fres_forgotten r" "reachable s" "service_run t t'"
    "repo_get s (fg_owner_id c) (fg_memory_id c) None = Some m"
    "repo_get t' (fg_owner_id c) (fg_memory_id c) None = Some m'"
  shows "m_tenant_id m' \<noteq> m_tenant_id m"
  using assms(1,2)
proof (rule svc_forget_True)
  fix n
  assume "dict_get (st_memories s) (fg_memory_id c) = Some n"
    and tb: "st_tombstones t = insert (fg_owner_id c, m_tenant_id n, fg_memory_id c) (st_tombstones s)"
  then have "n = m" using assms(5) by (simp add: repo_get_Some)
  have "reachable t" using assms(1,3) by (metis service_step.call_forget reachable.step)
  then have ok: "store_ok t" by (rule reachable_ok)
  have "store_dead (fg_owner_id c, m_tenant_id m, fg_memory_id c) t"
    using tb \<open>n = m\<close> by (simp add: store_dead_def)
  from service_versions.dead_for_good [OF assms(4) ok this] assms(6) show ?thesis
    by (auto simp: store_ver_def repo_get_Some)
qed

text \<open>A record of the forgotten memory under another tenant, which an import accepts.\<close>

definition ex_memory :: Memory where
  "ex_memory = \<lparr>m_id = 1, m_owner_id = ''ana'', m_content = ''likes tea'', m_memory_type = FACT,
     m_importance = 1/2, m_confidence = 1, m_state = ACTIVE, m_version = 1, m_created_at = ex_now,
     m_updated_at = ex_now, m_occurred_at = None, m_space = None, m_provenance = ex_provenance,
     m_embedding = Some \<lparr>ed_profile_id = ''hash'', ed_profile_version = ''1'', ed_dimension = 2,
        ed_metric = ''cosine''\<rparr>,
     m_idempotency_key = None, m_tenant_id = Some ''t1'', m_capture_consent = None\<rparr>"

definition ex_record :: "string option \<Rightarrow> MemoryImportRecord" where
  "ex_record tenant = \<lparr>xr_memory = ex_memory\<lparr>m_tenant_id := tenant\<rparr>,
     xr_history = [memory_snapshot ex_memory ''created''], xr_relations = [],
     xr_embedding = Some [1, 0], xr_write_fingerprint = None\<rparr>"

definition ex_s5 :: InMemoryStore where
  "ex_s5 = snd (svc_import_memories ex_env2 ''ana'' [ex_record (Some ''t2'')] ex_s4)"

lemma ex_memory_ok: "memory_ok (ex_memory\<lparr>m_tenant_id := Some t\<rparr>) \<longleftrightarrow> owner_id_ok t"
proof -
  have "memory_ok (ex_memory\<lparr>m_tenant_id := None\<rparr>)"
  proof -
    have "memory_post_init (ex_memory\<lparr>m_tenant_id := None\<rparr>) = Inr (ex_memory\<lparr>m_tenant_id := None\<rparr>)"
      by code_simp
    then show ?thesis by (simp add: memory_post_init_Inr)
  qed
  then show ?thesis by (auto simp: memory_ok_def)
qed

lemma ex_package_ok: "owner_id_ok t \<Longrightarrow> package_ok [ex_record (Some t)]"
  by (simp add: package_ok_def ex_record_def ex_memory_ok)

lemma ex_import_step: "service_run ex_s4 ex_s5"
proof -
  have "owner_id_ok ''t2''" by code_simp
  then have "service_step ''ana'' ex_s4 ex_s5"
    unfolding ex_s5_def using ex_package_ok by (metis service_step.call_import_memories prod.collapse)
  then show ?thesis by (intro r_into_rtranclp) (auto simp: some_step_def)
qed

theorem forgotten_for_good_witness:
  "\<exists>m m'. repo_get ex_s3 ''ana'' 1 None = Some m \<and> repo_get ex_s5 ''ana'' 1 None = Some m' \<and>
     m_tenant_id m' \<noteq> m_tenant_id m"
proof -
  obtain r where run: "svc_forget ex_env2 ex_forget ex_s3 = (Inr r, ex_s4)" "fres_forgotten r"
    using ex_forget_run by blast
  have "repo_get ex_s3 ''ana'' 1 None \<noteq> None" "repo_get ex_s5 ''ana'' 1 None \<noteq> None" by code_simp+
  then obtain m m' where mm: "repo_get ex_s3 ''ana'' 1 None = Some m" "repo_get ex_s5 ''ana'' 1 None = Some m'"
    by blast
  from forgotten_for_good [OF run ex_reachable(3) ex_import_step] mm show ?thesis
    by (simp add: ex_forget_def)
qed

lemma existing_records_Inr:
  assumes "existing_records owner rs s = Inr ex" "r \<in> set rs"
  shows "(repo_get s owner (m_id (xr_memory r)) None = None \<and>
            (owner, m_tenant_id (xr_memory r), m_id (xr_memory r)) \<notin> st_tombstones s) \<or>
         (\<exists>cur. admin_export_memory s owner (m_id (xr_memory r)) True = Inr (Some cur) \<and>
            import_records_equivalent r cur)"
  using assms
proof (induction rs arbitrary: ex)
  case (Cons x rs)
  then obtain current where current: "admin_export_memory s owner (m_id (xr_memory x)) True = Inr current"
    by (auto simp: act_simps)
  show ?case
  proof (cases current)
    case None
    then have "repo_get s owner (m_id (xr_memory x)) None = None"
      using current by (auto simp: admin_export_memory_def act_simps split: option.splits)
    with None Cons current show ?thesis
      by (auto simp: admin_is_tombstoned_def split: if_splits)
  next
    case (Some cur)
    with Cons current show ?thesis by (auto simp: act_simps split: if_splits)
  qed
qed simp

text \<open>A package that contains a tombstoned memory is never imported: the import of the whole
  package raises and changes nothing.\<close>

theorem import_respects_tombstones:
  assumes "reachable s" "rec \<in> set rs"
    "(owner, m_tenant_id (xr_memory rec), m_id (xr_memory rec)) \<in> st_tombstones s"
  shows "\<exists>e. svc_import_memories env owner rs s = (Inl e, s)"
proof (cases "svc_import_memories env owner rs s")
  case (Pair res t)
  show ?thesis
  proof (cases res)
    case (Inl e)
    with Pair service_error_rollback(9) show ?thesis by blast
  next
    case (Inr x)
    with Pair obtain ex where val: "record_validated owner rec"
      and ex: "existing_records owner rs s = Inr ex" using assms(2) by (auto elim: svc_import_Inr)
    from existing_records_Inr [OF ex assms(2)] assms(3) obtain cur where
      cur: "admin_export_memory s owner (m_id (xr_memory rec)) True = Inr (Some cur)"
        "import_records_equivalent rec cur" by blast
    from cur(1) have m: "repo_get s owner (m_id (xr_memory rec)) None = Some (xr_memory cur)"
      by (auto simp: admin_export_memory_def act_simps split: option.splits)
    have "memory_eq (xr_memory rec) (xr_memory cur)"
      using cur(2) by (auto simp: import_records_equivalent_def split: if_splits)
    then have "m_tenant_id (xr_memory cur) = m_tenant_id (xr_memory rec)"
      by (simp add: memory_eq_def memory_key_def)
    with m core_okD(3) [of s "m_id (xr_memory rec)" "xr_memory cur"] assms(3) reachable_ok [OF assms(1)]
    show ?thesis by (simp add: repo_get_Some store_ok_def)
  qed
qed

theorem import_respects_tombstones_witness:
  "\<exists>e. svc_import_memories ex_env2 ''ana'' [ex_record (Some ''t1'')] ex_s4 = (Inl e, ex_s4)"
proof -
  have "(''ana'', Some ''t1'', 1) \<in> st_tombstones ex_s4" by code_simp
  then show ?thesis
    by (intro import_respects_tombstones [OF ex_reachable(4), of "ex_record (Some ''t1'')"])
       (simp_all add: ex_record_def ex_memory_def)
qed

section \<open>Capture and the inbox\<close>

text \<open>A capture that creates a memory passed every consent check (the write scope, a live
  connection, an enabled policy, an explicit user reason under manual capture, automatic
  consent under automatic capture, a source client), and what it stores is a version 1
  candidate of the caller's owner and tenant that carries the consent.\<close>

theorem capture_consented_candidate:
  assumes "svc_capture env c s = (Inr r, t)" "cr_created r"
  shows "''memory:write'' \<in> cp_scopes c \<and> \<not> cp_connection_revoked c \<and>
     cp_capture_policy c \<in> {''manual'', ''assisted'', ''automatic''} \<and>
     (cp_capture_policy c = ''manual'' \<longrightarrow>
        cc_reason_code (cp_consent c) \<in> {USER_REQUESTED_MEMORY, USER_CONFIRMED_INBOX}) \<and>
     (cp_capture_policy c = ''automatic'' \<longrightarrow> cc_mode (cp_consent c) = AUTOMATIC) \<and>
     pv_source_client (cp_provenance c) \<notin> {None, Some []} \<and>
     repo_get t (cp_owner_id c) (env_uuid4 env) (Some (cp_tenant_id c)) = Some (cr_memory r) \<and>
     m_state (cr_memory r) = CANDIDATE \<and> m_version (cr_memory r) = 1 \<and>
     m_capture_consent (cr_memory r) = Some (cp_consent c)"
proof -
  from svc_capture_Inr [OF assms(1)] assms(2) obtain a m v where
    checks: "capture_checks c = Inr ()"
    and m: "memory_create a (env_uuid4 env) (astimezone_utc (env_clock env 0)) = Inr m"
      "ca_owner_id a = cp_owner_id c" "ca_initial_state a = CANDIDATE"
      "ca_tenant_id a = Some (cp_tenant_id c)" "ca_capture_consent a = Some (cp_consent c)"
    and cr: "repo_create m (env_digest env (canonical_capture_command c)) v s = (Inr r, t)" by auto
  note mm = memory_create_Inr [OF m(1)]
  from repo_create_Inr [OF cr mm(1)] assms(2) have r: "r = \<lparr>cr_memory = m, cr_created = True\<rparr>"
    and t: "st_memories t = dict_set (m_id m) m (st_memories s)"
    by (auto split: option.splits)
  have "consent_reason_value x \<in> {''user_requested_memory'', ''user_confirmed_inbox''} \<longleftrightarrow>
      x \<in> {USER_REQUESTED_MEMORY, USER_CONFIRMED_INBOX}" for x
    by (cases x) simp_all
  with checks have "''memory:write'' \<in> cp_scopes c \<and> \<not> cp_connection_revoked c \<and>
     cp_capture_policy c \<in> {''manual'', ''assisted'', ''automatic''} \<and>
     (cp_capture_policy c = ''manual'' \<longrightarrow>
        cc_reason_code (cp_consent c) \<in> {USER_REQUESTED_MEMORY, USER_CONFIRMED_INBOX}) \<and>
     (cp_capture_policy c = ''automatic'' \<longrightarrow> cc_mode (cp_consent c) = AUTOMATIC) \<and>
     pv_source_client (cp_provenance c) \<notin> {None, Some []}"
    by (auto simp: capture_checks_def act_simps validate_scope_def py_truthy_def split: option.splits)
  moreover have "repo_get t (cp_owner_id c) (env_uuid4 env) (Some (cp_tenant_id c)) = Some m"
    using mm(2,3,6) m(2,4) by (simp add: repo_get_Some t dict_simps)
  ultimately show ?thesis using r mm(4,5,12) m(3,5) by simp
qed

theorem capture_consented_candidate_witness:
  "\<exists>r. svc_capture ex_env2 ex_capture ex_s1 = (Inr r, ex_s2) \<and> m_state (cr_memory r) = CANDIDATE"
proof -
  obtain r where run: "svc_capture ex_env2 ex_capture ex_s1 = (Inr r, ex_s2)"
    using ex_capture_ok by (elim is_okE) (auto simp: ex_s2_def)
  have "(case fst (svc_capture ex_env2 ex_capture ex_s1) of Inl _ \<Rightarrow> False | Inr r \<Rightarrow> cr_created r)"
    by code_simp
  with run have "cr_created r" by simp
  from capture_consented_candidate [OF run this] run show ?thesis by blast
qed

lemma evolved_stored:
  assumes "store_ok s" "repo_get s owner i tenant = Some cur" "memory_evolve cur a = Inr m"
    "repo_update m n sn v s = (Inr x, w)" "st_memories u = st_memories w"
  shows "repo_get u owner i tenant = Some m"
proof -
  note ev = memory_evolve_Inr [OF assms(3)]
  have "m_id cur = i" using assms(1,2) core_okD(1) by (auto simp: repo_get_Some store_ok_def)
  moreover have "st_memories w = dict_set (m_id m) m (st_memories s)"
    using assms(4) by (rule repo_update_Inr) simp
  ultimately show ?thesis using assms(2,5) ev(2,3,5) by (simp add: repo_get_Some dict_simps)
qed

lemma confirm_first_call:
  assumes "store_ok s" "svc_confirm_candidate env cf s = (Inr r, t)"
    "dict_get (st_ops s) (ledger_key (cf_owner_id cf) CONFIRM (cf_idempotency_key cf)) = None"
  shows "\<exists>cur. repo_get s (cf_owner_id cf) (cf_memory_id cf) (Some (cf_tenant_id cf)) = Some cur \<and>
          m_state cur \<in> {CANDIDATE, STALE} \<and> m_version cur = cf_expected_version cf \<and>
          m_state r = CONFIRMED \<and> m_version r = cf_expected_version cf + 1 \<and>
          repo_get t (cf_owner_id cf) (cf_memory_id cf) (Some (cf_tenant_id cf)) = Some r"
proof -
  from svc_confirm_Inr [OF assms(2)] assms(3) obtain cur a v u where
    cur: "repo_get s (cf_owner_id cf) (cf_memory_id cf) (Some (cf_tenant_id cf)) = Some cur"
      "m_version cur = cf_expected_version cf" "m_state cur \<in> {CANDIDATE, STALE}"
    and a: "ev_state a = Some CONFIRMED" "memory_evolve cur a = Inr r"
    and up: "repo_update r (cf_expected_version cf) (memory_snapshot r (cf_actor_reason cf)) v s =
       (Inr r, u\<lparr>st_ops := st_ops s\<rparr>)" and t: "st_memories t = st_memories u"
    by (auto simp: replayed_def)
  have "m_state r = CONFIRMED" "m_version r = cf_expected_version cf + 1"
    using memory_evolve_Inr(8,10) [OF a(2)] a(1) cur(2) by (simp_all add: or_default_def)
  with evolved_stored [OF assms(1) cur(1) a(2) up] t cur show ?thesis by simp
qed

lemma pin_first_call:
  assumes "store_ok s" "svc_pin env pn s = (Inr r, t)"
    "dict_get (st_ops s) (ledger_key (pn_owner_id pn) PIN (pn_idempotency_key pn)) = None"
  shows "\<exists>cur. repo_get s (pn_owner_id pn) (pn_memory_id pn) (Some (pn_tenant_id pn)) = Some cur \<and>
          m_state cur \<in> {CONFIRMED, PINNED} \<and> m_state r = pin_target pn \<and>
          m_version r = m_version cur + (if m_state cur = m_state r then 0 else 1) \<and>
          repo_get t (pn_owner_id pn) (pn_memory_id pn) (Some (pn_tenant_id pn)) = Some r"
proof -
  from svc_pin_Inr [OF assms(2)] assms(3) have
    "pin_body env pn (fresh_claim (pn_owner_id pn) PIN (pn_idempotency_key pn)
       (env_digest env (canonical_pin_command pn)))
      (s\<lparr>st_ops := dict_set (ledger_key (pn_owner_id pn) PIN (pn_idempotency_key pn))
        (pending_op (env_digest env (canonical_pin_command pn))) (st_ops s)\<rparr>) = (Inr r, t)"
    by (auto simp: replayed_def)
  from pin_body_Inr [OF this] obtain cur u where
    cur: "repo_get s (pn_owner_id pn) (pn_memory_id pn) (Some (pn_tenant_id pn)) = Some cur"
      "m_state cur \<in> {CONFIRMED, PINNED}"
    and body: "if m_state cur = pin_target pn then r = cur \<and> u = s
      else \<exists>a v. ev_state a = Some (pin_target pn) \<and> memory_evolve cur a = Inr r \<and>
        repo_update r (m_version cur) (memory_snapshot r (memory_state_value (m_state r))) v s =
         (Inr r, u\<lparr>st_ops := st_ops s\<rparr>)"
    and t: "t = u\<lparr>st_ops := dict_set (ledger_key (pn_owner_id pn) PIN (pn_idempotency_key pn))
         (completed_op (env_digest env (canonical_pin_command pn)) (Some (m_id r)) (Some (m_version r))
            (memory_state_value (pin_target pn))) (st_ops s)\<rparr>"
    by blast
  show ?thesis
  proof (cases "m_state cur = pin_target pn")
    case True
    then have "r = cur" "u = s" using body by simp_all
    with True cur show ?thesis by (simp add: t)
  next
    case False
    then obtain a v where a: "ev_state a = Some (pin_target pn)" "memory_evolve cur a = Inr r"
      "repo_update r (m_version cur) (memory_snapshot r (memory_state_value (m_state r))) v s =
         (Inr r, u\<lparr>st_ops := st_ops s\<rparr>)" using body unfolding if_not_P [OF False] by blast
    have r: "m_state r = pin_target pn" "m_version r = m_version cur + 1"
      using memory_evolve_Inr(8,10) [OF a(2)] a(1) by (simp_all add: or_default_def)
    have "repo_get t (pn_owner_id pn) (pn_memory_id pn) (Some (pn_tenant_id pn)) = Some r"
      by (rule evolved_stored [OF assms(1) cur(1) a(2,3)]) (simp add: t)
    with r cur False show ?thesis by (intro exI [of _ cur]) (simp split del: if_split)
  qed
qed

lemma discard_first_call:
  assumes "svc_discard_candidate env dc s = (Inr d, t)"
    "dict_get (st_ops s) (ledger_key (dc_owner_id dc) DISCARD (dc_idempotency_key dc)) = None"
  shows "dres_forgotten d \<and>
    (\<exists>cur. repo_get s (dc_owner_id dc) (dc_memory_id dc) (Some (dc_tenant_id dc)) = Some cur \<and>
       m_state cur = CANDIDATE \<and>
       repo_get t (dc_owner_id dc) (dc_memory_id dc) (Some (dc_tenant_id dc)) = None)"
proof -
  from svc_discard_Inr [OF assms(1)] assms(2) obtain cur u where
    cur: "repo_get s (dc_owner_id dc) (dc_memory_id dc) (Some (dc_tenant_id dc)) = Some cur" "m_state cur = CANDIDATE"
    and fo: "repo_forget (dc_owner_id dc) (dc_memory_id dc) (Some (dc_tenant_id dc)) s =
       (Inr (dres_forgotten d), u\<lparr>st_ops := st_ops s\<rparr>)" and t: "st_memories t = st_memories u"
    by auto
  from repo_forget_Inr [OF fo] cur(1) have f: "dres_forgotten d" by simp
  with fo have "repo_forget (dc_owner_id dc) (dc_memory_id dc) (Some (dc_tenant_id dc)) s =
       (Inr True, u\<lparr>st_ops := st_ops s\<rparr>)" by simp
  then have "st_memories t = dict_pop (dc_memory_id dc) (st_memories s)"
    by (rule repo_forget_True) (simp add: t)
  with f cur show ?thesis by (simp add: repo_get_def dict_simps)
qed

text \<open>C9: Confirming takes a candidate (or stale) memory of the caller's tenant at the expected
  version to the next version in state \<open>CONFIRMED\<close>; pinning and unpinning only move a memory
  between \<open>CONFIRMED\<close> and \<open>PINNED\<close>, and write nothing when it is already there; discarding
  removes a memory only while it is a candidate.\<close>

theorem inbox_transitions:
  assumes "reachable s"
  shows "(svc_confirm_candidate env cf s = (Inr r, t) \<and>
       dict_get (st_ops s) (cf_owner_id cf, ''confirm'', cf_idempotency_key cf) = None \<longrightarrow>
       (\<exists>cur. repo_get s (cf_owner_id cf) (cf_memory_id cf) (Some (cf_tenant_id cf)) = Some cur \<and>
          m_state cur \<in> {CANDIDATE, STALE} \<and> m_version cur = cf_expected_version cf \<and>
          m_state r = CONFIRMED \<and> m_version r = cf_expected_version cf + 1 \<and>
          repo_get t (cf_owner_id cf) (cf_memory_id cf) (Some (cf_tenant_id cf)) = Some r)) \<and>
    (svc_pin env pn s = (Inr r', t') \<and>
       dict_get (st_ops s) (pn_owner_id pn, ''pin'', pn_idempotency_key pn) = None \<longrightarrow>
       (\<exists>cur. repo_get s (pn_owner_id pn) (pn_memory_id pn) (Some (pn_tenant_id pn)) = Some cur \<and>
          m_state cur \<in> {CONFIRMED, PINNED} \<and> m_state r' = (if pn_pinned pn then PINNED else CONFIRMED) \<and>
          m_version r' = m_version cur + (if m_state cur = m_state r' then 0 else 1) \<and>
          repo_get t' (pn_owner_id pn) (pn_memory_id pn) (Some (pn_tenant_id pn)) = Some r')) \<and>
    (svc_discard_candidate env dc s = (Inr d, t'') \<and>
       dict_get (st_ops s) (dc_owner_id dc, ''discard'', dc_idempotency_key dc) = None \<longrightarrow>
       dres_forgotten d \<and>
       (\<exists>cur. repo_get s (dc_owner_id dc) (dc_memory_id dc) (Some (dc_tenant_id dc)) = Some cur \<and>
          m_state cur = CANDIDATE \<and>
          repo_get t'' (dc_owner_id dc) (dc_memory_id dc) (Some (dc_tenant_id dc)) = None))"
  using confirm_first_call [OF reachable_ok [OF assms]] pin_first_call [OF reachable_ok [OF assms]]
    discard_first_call
  by (intro conjI impI; elim conjE) simp_all

definition ex_confirm :: ConfirmCandidateCommand where
  "ex_confirm = \<lparr>cf_tenant_id = ''t1'', cf_owner_id = ''ana'', cf_connection_id = ''con'',
     cf_memory_id = 2, cf_expected_version = 1, cf_idempotency_key = ''c1'', cf_content = None,
     cf_memory_type = None, cf_space = None, cf_actor_reason = ''user_confirmed'',
     cf_connection_revoked = False, cf_scopes = {''memory:write''}\<rparr>"

theorem inbox_transitions_witness:
  "\<exists>r t cur. svc_confirm_candidate ex_env2 ex_confirm ex_s2 = (Inr r, t) \<and>
     repo_get ex_s2 ''ana'' 2 (Some ''t1'') = Some cur \<and> m_state cur \<in> {CANDIDATE, STALE} \<and>
     m_state r = CONFIRMED \<and> m_version r = 2"
proof -
  have "is_ok (svc_confirm_candidate ex_env2 ex_confirm ex_s2)" by code_simp
  then obtain r t where run: "svc_confirm_candidate ex_env2 ex_confirm ex_s2 = (Inr r, t)"
    by (elim is_okE) blast
  have "dict_get (st_ops ex_s2) (''ana'', ''confirm'', ''c1'') = None" by code_simp
  with inbox_transitions [OF ex_reachable(2), of ex_env2 ex_confirm r t] run show ?thesis
    by (simp add: ex_confirm_def) blast
qed

end
