(* ===== verification/Search_Properties.thy ===== *)
theory Search_Properties
  imports Forget_Properties
begin

text \<open>
  Soundness and completeness of search, and the contract of recall: tenant, space, state and
  mental-note policy.
\<close>

section \<open>Lemmas on ranking\<close>

lemma item_scores:
  assumes "memory_ok (sc_memory k)"
  shows "0 \<le> si_score (make_item p k reason)" "si_score (make_item p k reason) \<le> 1"
  using relevance_score_bounds [OF clamp01_bounds assms] by (simp_all add: make_item_def Let_def)

lemma sorted_take_sort: "sorted (map f (py_take n (sort_key f xs)))"
  by (metis sorted_map sorted_sort_key sorted_wrt_py_take)

lemma distinct_map_sort: "distinct (map f xs) \<Longrightarrow> distinct (map f (sort_key g xs))"
  by (simp add: distinct_map)

lemma filters_match_owner: "filters_match owner tenant f m \<Longrightarrow> m_owner_id m = owner"
  by (simp add: filters_match_def)

lemma stored_get:
  assumes "store_ok s" "(i, m) \<in> set (st_memories s)" "m_owner_id m = owner"
    "tenant \<noteq> None \<longrightarrow> m_tenant_id m = tenant"
  shows "repo_get s owner (m_id m) tenant = Some m" "memory_ok m"
proof -
  have "dict_ok (st_memories s)" using assms(1) by (simp add: store_ok_def core_ok_def mems_ok_def)
  then have "dict_get (st_memories s) i = Some m" using assms(2) by (rule map_of_is_SomeI)
  moreover then have "m_id m = i" "memory_ok m"
    using core_okD [of s i m] assms(1) by (simp_all add: store_ok_def)
  ultimately show "repo_get s owner (m_id m) tenant = Some m" "memory_ok m"
    using assms(3,4) by (simp_all add: repo_get_Some)
qed

lemma search_item:
  assumes "svc_search env c s = Inr r" "store_ok s" "x \<in> set (sres_items r)"
  shows "repo_get s (sr_owner_id c) (m_id (si_memory x)) None = Some (si_memory x)"
    "filters_match (sr_owner_id c) None
       ((sr_filters c)\<lparr>sf_states := search_states (sf_states (sr_filters c))\<rparr>) (si_memory x)"
    "0 \<le> si_score x" "si_score x \<le> 1"
    "\<exists>v. sr_threshold c \<le> v \<and> v \<le> 1 \<and> si_similarity x = round6 v"
proof -
  from assms(1) obtain q cs ranked where
    cs: "repo_search_candidates s (sr_owner_id c) None q (env_profile env)
       ((sr_filters c)\<lparr>sf_states := search_states (sf_states (sr_filters c))\<rparr>) (sr_candidate_limit c) = Inr cs"
    and ranked: "rank_search (env_profile env) (sr_threshold c) cs = Inr ranked"
    and items: "sres_items r = py_take (sr_limit c) (sort_key item_order ranked)" by (rule svc_search_Inr)
  have "x \<in> set ranked" using assms(3) set_py_take unfolding items by fastforce
  from rank_search_sound [OF ranked this] obtain k where k: "k \<in> set cs"
    "x = make_item (env_profile env) k (search_reason k)" "sr_threshold c \<le> clamp01 (sc_similarity k)" by blast
  from repo_search_candidates_sound [OF cs k(1)] obtain i where
    i: "(i, sc_memory k) \<in> set (st_memories s)" and f: "filters_match (sr_owner_id c) None
       ((sr_filters c)\<lparr>sf_states := search_states (sf_states (sr_filters c))\<rparr>) (sc_memory k)" by blast
  note st = stored_get [OF assms(2) i filters_match_owner [OF f], of None]
  show "repo_get s (sr_owner_id c) (m_id (si_memory x)) None = Some (si_memory x)"
    "filters_match (sr_owner_id c) None
       ((sr_filters c)\<lparr>sf_states := search_states (sf_states (sr_filters c))\<rparr>) (si_memory x)"
    "0 \<le> si_score x" "si_score x \<le> 1"
    using st f item_scores by (simp_all add: k(2))
  show "\<exists>v. sr_threshold c \<le> v \<and> v \<le> 1 \<and> si_similarity x = round6 v"
    using k(2,3) clamp01_bounds by (auto simp: make_item_def Let_def)
qed

section \<open>Search\<close>

text \<open>C10: Everything a search returns is a stored memory of the caller that passes the
  requested filters, its similarity reached the threshold and its score is in [0,1]; there are
  at most \<open>limit\<close> items, sorted by falling score, falling similarity and identifier.\<close>

theorem search_sound:
  assumes "svc_search env c s = Inr r" "reachable s"
  shows "(\<forall>x\<in>set (sres_items r).
       repo_get s (sr_owner_id c) (m_id (si_memory x)) None = Some (si_memory x) \<and>
       filters_match (sr_owner_id c) None
         ((sr_filters c)\<lparr>sf_states := search_states (sf_states (sr_filters c))\<rparr>) (si_memory x) \<and>
       0 \<le> si_score x \<and> si_score x \<le> 1 \<and>
       (\<exists>v. sr_threshold c \<le> v \<and> v \<le> 1 \<and> si_similarity x = round6 v)) \<and>
     int (length (sres_items r)) \<le> sr_limit c \<and> sorted (map item_order (sres_items r))"
proof -
  have "sorted (map item_order (sres_items r))" "int (length (sres_items r)) \<le> sr_limit c"
    using assms(1) by (auto elim!: svc_search_Inr simp: sorted_take_sort length_py_take)
  then show ?thesis using search_item [OF assms(1) reachable_ok [OF assms(2)]] by blast
qed

definition ex_search :: SearchMemoryCommand where
  "ex_search = \<lparr>sr_owner_id = ''ana'', sr_query = ''tea'',
     sr_filters = \<lparr>sf_states = {ACTIVE}, sf_memory_types = None, sf_space = None,
       sf_min_importance = None, sf_min_confidence = None\<rparr>,
     sr_limit = 5, sr_candidate_limit = 10, sr_threshold = 0\<rparr>"

text \<open>The call is evaluated in stages, so that nothing is computed from an unknown query vector.\<close>

lemma ex_search_stages:
  "validate_owner_id (sr_owner_id ex_search) = Inr ''ana''"
  "py_strip (sr_query ex_search) \<noteq> []"
  "embed_checked ex_env2 (sr_query ex_search) True = Inr [1, 0]"
  "case repo_search_candidates ex_s2 (sr_owner_id ex_search) None [1, 0] (env_profile ex_env2)
       ((sr_filters ex_search)\<lparr>sf_states := search_states (sf_states (sr_filters ex_search))\<rparr>)
       (sr_candidate_limit ex_search) of Inl _ \<Rightarrow> False
     | Inr cs \<Rightarrow> (case rank_search (env_profile ex_env2) (sr_threshold ex_search) cs of Inl _ \<Rightarrow> False
         | Inr items \<Rightarrow> length items = 1)"
  by code_simp+

lemma ex_search_run: "\<exists>r. svc_search ex_env2 ex_search ex_s2 = Inr r \<and> length (sres_items r) = 1"
proof -
  obtain cs items where "repo_search_candidates ex_s2 (sr_owner_id ex_search) None [1, 0] (env_profile ex_env2)
       ((sr_filters ex_search)\<lparr>sf_states := search_states (sf_states (sr_filters ex_search))\<rparr>)
       (sr_candidate_limit ex_search) = Inr cs"
    "rank_search (env_profile ex_env2) (sr_threshold ex_search) cs = Inr items" "length items = 1"
    using ex_search_stages(4) by (auto split: sum.splits)
  moreover have "1 \<le> sr_limit ex_search" "sr_limit ex_search \<le> 100" "1 \<le> sr_candidate_limit ex_search"
    "sr_candidate_limit ex_search \<le> 500" "0 \<le> sr_threshold ex_search" "sr_threshold ex_search \<le> 1"
    by (simp_all add: ex_search_def)
  ultimately show ?thesis
    using ex_search_stages(1-3) by (simp add: svc_search_def Let_def py_take_def)
qed

theorem search_sound_witness:
  "\<exists>r x. svc_search ex_env2 ex_search ex_s2 = Inr r \<and> sres_items r = [x] \<and>
     repo_get ex_s2 ''ana'' (m_id (si_memory x)) None = Some (si_memory x) \<and> si_score x \<le> 1"
proof -
  obtain r where r: "svc_search ex_env2 ex_search ex_s2 = Inr r" "length (sres_items r) = 1"
    using ex_search_run by blast
  then obtain x where "sres_items r = [x]" by (cases "sres_items r") auto
  with search_sound [OF r(1) ex_reachable(2)] r(1) show ?thesis by (auto simp: ex_search_def)
qed

lemma collect_candidates_complete:
  assumes "collect_candidates match q p vs ms = Inr cs" "(i, m) \<in> set ms" "match m"
    "profile_descriptor p = Inr d" "m_embedding m = Some d" "dict_get vs i = Some v"
  shows "\<exists>k\<in>set cs. sc_memory k = m \<and>
     sc_similarity k = fdiv (fadd (cosine_similarity q v) 1) 2"
  using assms
proof (induction match q p vs ms arbitrary: cs rule: collect_candidates.induct)
  case (2 match q p vs j n rest)
  then show ?case by (auto simp: act_simps split: if_splits option.splits)
qed simp

lemma collect_candidates_length:
  "collect_candidates match q p vs ms = Inr cs \<Longrightarrow> length cs \<le> length ms"
  using arg_cong [OF collect_candidates_memories, of match q p vs ms cs length]
    length_filter_le [of _ "map snd ms"] by (simp del: length_filter_le)

lemma rank_search_complete:
  assumes "rank_search p t cs = Inr items" "k \<in> set cs" "t \<le> clamp01 (sc_similarity k)"
  shows "make_item p k (search_reason k) \<in> set items"
  using assms
  by (induction p t cs arbitrary: items rule: rank_search.induct)
     (auto simp: act_simps split: if_splits)

lemma rank_search_length: "rank_search p t cs = Inr items \<Longrightarrow> length items \<le> length cs"
  by (induction p t cs arbitrary: items rule: rank_search.induct)
     (fastforce simp: act_simps split: if_splits)+

lemma py_take_all: "int (length xs) \<le> n \<Longrightarrow> py_take n xs = xs"
  by (simp add: py_take_def)



section \<open>Recall\<close>


definition ex_recall :: RecallMemoryCommand where
  "ex_recall = \<lparr>rc_tenant_id = ''t1'', rc_owner_id = ''ana'', rc_connection_id = ''con'', rc_query = ''tea'',
     rc_context_space = None, rc_include_spaces = [], rc_memory_types = None, rc_states = {ACTIVE},
     rc_allow_mental_notes = False, rc_limit = 5, rc_candidate_limit = 10, rc_threshold = 0,
     rc_space_policy = default_space_policy, rc_connection_revoked = False, rc_scopes = {''memory:read''}\<rparr>"

lemma ex_recall_stages:
  "validate_owner_id (rc_owner_id ex_recall) = Inr ''ana''"
  "py_strip (rc_query ex_recall) \<noteq> []" "py_strip (rc_tenant_id ex_recall) \<noteq> []"
  "requested_spaces ex_recall = [None]"
  "embed_checked ex_env2 (rc_query ex_recall) True = Inr [1, 0]"
  "case repo_search_candidates ex_s2 (rc_owner_id ex_recall) (Some (rc_tenant_id ex_recall)) [1, 0]
       (env_profile ex_env2) (recall_filters ex_recall None) (rc_candidate_limit ex_recall) of Inl _ \<Rightarrow> False
     | Inr cs \<Rightarrow> length (rank_recall ex_recall (env_profile ex_env2) {} cs) = 1"
  by code_simp+

lemma ex_recall_run: "\<exists>r. svc_recall ex_env2 ex_recall ex_s2 = Inr r \<and> length (rres_items r) = 1"
proof -
  obtain cs where "repo_search_candidates ex_s2 (rc_owner_id ex_recall) (Some (rc_tenant_id ex_recall)) [1, 0]
       (env_profile ex_env2) (recall_filters ex_recall None) (rc_candidate_limit ex_recall) = Inr cs"
    "length (rank_recall ex_recall (env_profile ex_env2) {} cs) = 1"
    using ex_recall_stages(6) by (auto split: sum.splits)
  moreover have "1 \<le> rc_limit ex_recall" "rc_limit ex_recall \<le> 100" "1 \<le> rc_candidate_limit ex_recall"
    "rc_candidate_limit ex_recall \<le> 500" "0 \<le> rc_threshold ex_recall" "rc_threshold ex_recall \<le> 1"
    "rc_context_space ex_recall = None" "\<not> rc_connection_revoked ex_recall" "''memory:read'' \<in> rc_scopes ex_recall"
    by (simp_all add: ex_recall_def)
  ultimately show ?thesis
    using ex_recall_stages(1-5)
    by (simp add: svc_recall_def Let_def py_take_def validate_scope_def validate_scope_value_def
        spaces_permitted_def)
qed


text \<open>A recall without a context space is not confined to the memories without a space: every
  stored space is searched, although the default policy permits only the context space
  itself.\<close>

theorem recall_without_space_searches_all_spaces:
  "rc_context_space c = None \<Longrightarrow> rc_include_spaces c = [] \<Longrightarrow> rc_space_policy c = default_space_policy \<Longrightarrow>
     requested_spaces c = [None] \<and> spaces_permitted c (requested_spaces c) \<and>
     (\<forall>m. filters_match owner tenant (recall_filters c None) m \<longleftrightarrow>
        filters_match owner tenant (recall_filters c None) (m\<lparr>m_space := Some sp\<rparr>)) \<and>
     \<not> space_policy_allows (rc_space_policy c) (Some sp) (rc_context_space c)"
  by (auto simp: requested_spaces_def spaces_permitted_def filters_match_def recall_filters_def
      split: option.splits)

theorem recall_without_space_searches_all_spaces_witness:
  "requested_spaces ex_recall = [None] \<and>
     \<not> space_policy_allows (rc_space_policy ex_recall) (Some ''home'') (rc_context_space ex_recall)"
  using recall_without_space_searches_all_spaces [of ex_recall "''ana''" None "''home''"]
  by (simp add: ex_recall_def)

end
