(* ===== verification/Pytext.thy ===== *)
theory Pytext
  imports Pyvalues
begin

text \<open>
  Text operations of the Python standard library that the cloud and transport layers rely on:
  \<open>str.replace\<close>, \<open>str.split(sep, n)\<close>, \<open>str.rsplit(sep, 1)\<close>, \<open>int(text, base)\<close>,
  \<open>uuid.UUID(text)\<close>, UTF-8 and the string escapes of \<open>json.dumps\<close>.

  Bytes are \<open>string\<close>s as well: a \<open>char\<close> is eight bits wide. Text is restricted to code
  points below 256 as everywhere in the development, so \<open>utf8_decode\<close> has no result on byte
  sequences that denote other code points.
\<close>

type_synonym bytes = string

section \<open>replace, strip and split\<close>

function py_replace :: "string \<Rightarrow> string \<Rightarrow> string \<Rightarrow> string" where
  "py_replace old new [] = []"
| "py_replace old new (c # cs) =
     (if old \<noteq> [] \<and> take (length old) (c # cs) = old
      then new @ py_replace old new (drop (length old) (c # cs))
      else c # py_replace old new cs)"
  by pat_completeness auto
termination
  by (relation "measure (\<lambda>(old, new, s). length s)") auto

definition strip_chars :: "string \<Rightarrow> string \<Rightarrow> string" where
  "strip_chars cs s =
     rev (dropWhile (\<lambda>c. c \<in> set cs) (rev (dropWhile (\<lambda>c. c \<in> set cs) s)))"

fun split_on :: "char \<Rightarrow> string \<Rightarrow> string list" where
  "split_on c [] = [[]]"
| "split_on c (x # xs) =
     (if x = c then [] # split_on c xs
      else case split_on c xs of [] \<Rightarrow> [[x]] | w # ws \<Rightarrow> (x # w) # ws)"

text \<open>\<open>s.split(c, n)\<close>: at most \<open>n\<close> splits, the rest stays in the last item.\<close>

fun split_max :: "char \<Rightarrow> nat \<Rightarrow> string \<Rightarrow> string list" where
  "split_max c 0 s = [s]"
| "split_max c (Suc n) s =
     (if c \<in> set s
      then takeWhile (\<lambda>x. x \<noteq> c) s # split_max c n (drop 1 (dropWhile (\<lambda>x. x \<noteq> c) s))
      else [s])"

text \<open>\<open>s.rsplit(c, 1)\<close>, with no result when it does not give two items.\<close>

definition rsplit_once :: "char \<Rightarrow> string \<Rightarrow> (string \<times> string) option" where
  "rsplit_once c s = (if c \<in> set s
     then Some (rev (drop 1 (dropWhile (\<lambda>x. x \<noteq> c) (rev s))),
                rev (takeWhile (\<lambda>x. x \<noteq> c) (rev s)))
     else None)"

lemma py_replace_absent: "hd old \<notin> set s \<Longrightarrow> py_replace old new s = s"
proof (induction s)
  case (Cons c cs)
  have "take (length old) (c # cs) \<noteq> old \<or> old = []"
    using Cons.prems by (cases old) auto
  with Cons show ?case by auto
qed simp

lemma py_replace_char: "py_replace [c] [] s = filter (\<lambda>x. x \<noteq> c) s"
  by (induction s) auto

lemma dropWhile_none: "(\<forall>x\<in>set xs. \<not> P x) \<Longrightarrow> dropWhile P xs = xs"
  by (cases xs) auto

lemma strip_chars_absent: "set cs \<inter> set s = {} \<Longrightarrow> strip_chars cs s = s"
proof -
  assume "set cs \<inter> set s = {}"
  then have "\<forall>x\<in>set s. \<not> x \<in> set cs" by blast
  then show ?thesis by (simp add: strip_chars_def dropWhile_none)
qed

lemma takeWhile_until:
  "c \<notin> set s \<Longrightarrow> takeWhile (\<lambda>x. x \<noteq> c) (s @ c # t) = s"
  "c \<notin> set s \<Longrightarrow> dropWhile (\<lambda>x. x \<noteq> c) (s @ c # t) = c # t"
  by (induction s) auto

lemma split_max_append:
  "c \<notin> set s \<Longrightarrow> split_max c (Suc n) (s @ c # t) = s # split_max c n t"
  by (simp add: takeWhile_until)

lemma split_max_absent: "c \<notin> set s \<Longrightarrow> split_max c n s = [s]"
  by (cases n) simp_all

lemma rsplit_once_append:
  "c \<notin> set t \<Longrightarrow> rsplit_once c (s @ c # t) = Some (s, t)"
  using takeWhile_until [of c "rev t" "rev s"] by (simp add: rsplit_once_def)

section \<open>int(text, base)\<close>

definition digit_value :: "int \<Rightarrow> char \<Rightarrow> int option" where
  "digit_value b c = (let n = (of_char c :: int);
       v = (if 48 \<le> n \<and> n \<le> 57 then n - 48
            else if 97 \<le> n \<and> n \<le> 122 then n - 87
            else if 65 \<le> n \<and> n \<le> 90 then n - 55 else 99)
     in if v < b then Some v else None)"

text \<open>Digits with single underscores between them; \<open>p\<close>: the previous character was a digit.\<close>

fun digits_value :: "int \<Rightarrow> int \<Rightarrow> bool \<Rightarrow> string \<Rightarrow> int option" where
  "digits_value b acc p [] = (if p then Some acc else None)"
| "digits_value b acc p (c # cs) =
     (if c = CHR ''_'' then (if p then digits_value b acc False cs else None)
      else case digit_value b c of
        None \<Rightarrow> None
      | Some d \<Rightarrow> digits_value b (acc * b + d) True cs)"

definition strip_sign :: "string \<Rightarrow> int \<times> string" where
  "strip_sign s = (case s of
     [] \<Rightarrow> (1, [])
   | c # cs \<Rightarrow> if c = CHR ''-'' then (- 1, cs) else if c = CHR ''+'' then (1, cs) else (1, s))"

definition strip_0x :: "string \<Rightarrow> string" where
  "strip_0x s = (case s of
     c # x # rest \<Rightarrow>
       if c = CHR ''0'' \<and> (x = CHR ''x'' \<or> x = CHR ''X'')
       then (case rest of
           u # us \<Rightarrow> if u = CHR ''_'' then us else rest
         | [] \<Rightarrow> rest)
       else s
   | _ \<Rightarrow> s)"

definition py_int :: "int \<Rightarrow> string \<Rightarrow> int option" where
  "py_int b s = (let (sg, t) = strip_sign (py_strip s);
       u = (if b = 16 then strip_0x t else t)
     in map_option (\<lambda>v. sg * v) (digits_value b 0 False u))"

definition dec_char :: "char \<Rightarrow> bool" where
  "dec_char c \<longleftrightarrow> (let n = (of_char c :: int) in 48 \<le> n \<and> n \<le> 57)"

lemma of_char_int: "(of_char c :: int) = int (of_char c)"
  by (cases c) (simp add: of_char_def of_nat_of_bool)

lemma of_char_dec_digit: "n < 10 \<Longrightarrow> (of_char (char_of (48 + n :: nat)) :: int) = 48 + int n"
  by (simp add: of_char_int)

lemma digit_value_dec: "n < 10 \<Longrightarrow> digit_value 10 (char_of (48 + n :: nat)) = Some (int n)"
  by (simp add: digit_value_def of_char_dec_digit Let_def)

lemma dec_char_digit: "n < 10 \<Longrightarrow> dec_char (char_of (48 + n :: nat))"
  by (simp add: dec_char_def of_char_dec_digit Let_def)

lemma dec_char_not: "\<not> dec_char (CHR ''_'')" "\<not> dec_char (CHR ''-'')" "\<not> dec_char (CHR ''+'')"
  by (simp_all add: dec_char_def)

lemma dec_char_not_space: "dec_char c \<Longrightarrow> \<not> py_isspace c"
  by (auto simp: dec_char_def py_isspace_def Let_def of_char_int)

lemma nat_str_dec: "c \<in> set (nat_str n) \<Longrightarrow> dec_char c"
proof (induction n rule: nat_str.induct)
  case (1 n)
  show ?case
  proof (cases "n < 10")
    case True
    with 1(2) show ?thesis by (simp add: nat_str.simps [of n] dec_char_digit)
  next
    case False
    with 1 show ?thesis by (auto simp: nat_str.simps [of n] dec_char_digit)
  qed
qed

lemma digits_value_snoc:
  "digit_value b c = Some d \<Longrightarrow> c \<noteq> CHR ''_'' \<Longrightarrow> digits_value b acc p s = Some v \<Longrightarrow>
     digits_value b acc p (s @ [c]) = Some (v * b + d)"
  by (induction b acc p s rule: digits_value.induct) (auto split: if_splits option.splits)

lemma digits_value_nat_str: "digits_value 10 0 False (nat_str n) = Some (int n)"
proof (induction n rule: nat_str.induct)
  case (1 n)
  have neq: "char_of (48 + k :: nat) \<noteq> CHR ''_''" if "k < 10" for k
    using dec_char_digit [OF that] dec_char_not(1) by metis
  show ?case
  proof (cases "n < 10")
    case True
    then show ?thesis using neq [OF True] by (simp add: nat_str.simps [of n] digit_value_dec)
  next
    case False
    have "digits_value 10 0 False (nat_str (n div 10) @ [char_of (48 + n mod 10)]) =
        Some (int (n div 10) * 10 + int (n mod 10))"
      using 1 False neq [of "n mod 10"] by (intro digits_value_snoc) (simp_all add: digit_value_dec)
    moreover have "int (n div 10) * 10 + int (n mod 10) = int n"
      by (metis div_mult_mod_eq of_nat_add of_nat_mult of_nat_numeral)
    ultimately show ?thesis using False by (simp add: nat_str.simps [of n])
  qed
qed

lemma py_int_int_str: "py_int 10 (int_str i) = Some i"
proof -
  have nz: "nat_str n \<noteq> []" for n by (subst nat_str.simps) simp
  have dec: "\<forall>c\<in>set (nat_str n). \<not> py_isspace c" for n
    using nat_str_dec dec_char_not_space by blast
  have sgn: "strip_sign (nat_str n) = (1, nat_str n)" for n
    using nat_str_dec [of _ n] dec_char_not by (cases "nat_str n") (auto simp: strip_sign_def)
  have strip: "(\<forall>c\<in>set s. \<not> py_isspace c) \<Longrightarrow> py_strip s = s" for s
    by (simp add: py_strip_def dropWhile_none)
  have neg: "strip_sign (CHR ''-'' # s) = (- 1, s)" for s by (simp add: strip_sign_def)
  have "\<not> py_isspace (CHR ''-'')" by (simp add: py_isspace_def)
  then show ?thesis
    using dec neg by (auto simp: int_str_def py_int_def strip sgn digits_value_nat_str)
qed

section \<open>uuid.UUID(text)\<close>

definition uuid_clean :: "string \<Rightarrow> string" where
  "uuid_clean s = py_replace ''-'' []
     (strip_chars ''{}'' (py_replace ''uuid:'' [] (py_replace ''urn:'' [] s)))"

definition uuid_parse :: "string \<Rightarrow> uuid option" where
  "uuid_parse s = (let h = uuid_clean s in
     if length h \<noteq> 32 then None
     else case py_int 16 h of
       None \<Rightarrow> None
     | Some i \<Rightarrow> if 0 \<le> i \<and> i < 2 ^ 128 then Some (word_of_int i) else None)"

definition hex_char :: "char \<Rightarrow> bool" where
  "hex_char c \<longleftrightarrow> (let n = (of_char c :: int) in 48 \<le> n \<and> n \<le> 57 \<or> 97 \<le> n \<and> n \<le> 102)"

lemma of_char_of_small: "0 \<le> n \<Longrightarrow> n < 256 \<Longrightarrow> (of_char (char_of n) :: int) = n"
  by (simp add: of_char_of)

lemma of_char_hex_digit:
  "0 \<le> n \<Longrightarrow> n < 16 \<Longrightarrow> (of_char (hex_digit n) :: int) = (if n < 10 then 48 + n else 87 + n)"
  by (simp add: hex_digit_def of_char_of_small)

lemma hex_char_hex_digit: "0 \<le> n \<Longrightarrow> n < 16 \<Longrightarrow> hex_char (hex_digit n)"
  by (simp add: hex_char_def of_char_hex_digit)

lemma hex_char_hex_pad: "c \<in> set (hex_pad k n) \<Longrightarrow> hex_char c"
  by (induction k arbitrary: n) (auto intro: hex_char_hex_digit)

lemma hex_char_not:
  "\<not> hex_char (CHR ''u'')" "\<not> hex_char (CHR ''-'')" "\<not> hex_char (CHR ''{'')"
  "\<not> hex_char (CHR ''}'')" "\<not> hex_char (CHR ''+'')" "\<not> hex_char (CHR ''x'')"
  "\<not> hex_char (CHR ''X'')" "\<not> hex_char (CHR ''_'')" "\<not> hex_char (CHR '':'')"
  "\<not> hex_char (CHR ''/'')" "\<not> hex_char (CHR ''|'')"
  by (simp_all add: hex_char_def)

lemma hex_char_not_space: "hex_char c \<Longrightarrow> \<not> py_isspace c"
proof -
  assume "hex_char c"
  then show ?thesis by (auto simp: hex_char_def py_isspace_def Let_def of_char_int)
qed

lemma digit_value_hex: "0 \<le> n \<Longrightarrow> n < 16 \<Longrightarrow> digit_value 16 (hex_digit n) = Some n"
  by (simp add: digit_value_def of_char_hex_digit Let_def)

lemma digits_value_hex_pad:
  "0 \<le> n \<Longrightarrow> n < 16 ^ Suc k \<Longrightarrow> digits_value 16 0 False (hex_pad (Suc k) n) = Some n"
proof (induction k arbitrary: n)
  case 0
  have "hex_digit n \<noteq> CHR ''_''"
    using hex_char_hex_digit [of n] hex_char_not(8) 0 by auto
  with 0 show ?case by (simp add: digit_value_hex)
next
  case (Suc k)
  have "digits_value 16 0 False (hex_pad (Suc k) (n div 16)) = Some (n div 16)"
    using Suc.prems by (intro Suc.IH) (simp_all add: div_less_iff_less_mult)
  moreover have "hex_digit (n mod 16) \<noteq> CHR ''_''"
    using hex_char_hex_digit [of "n mod 16"] hex_char_not(8) by auto
  ultimately have "digits_value 16 0 False (hex_pad (Suc k) (n div 16) @ [hex_digit (n mod 16)]) =
      Some (n div 16 * 16 + n mod 16)"
    by (intro digits_value_snoc) (simp_all add: digit_value_hex)
  then show ?case by simp
qed

lemma py_strip_nospace: "(\<forall>c\<in>set s. \<not> py_isspace c) \<Longrightarrow> py_strip s = s"
  by (simp add: py_strip_def dropWhile_none)

lemma py_int_hex:
  assumes "\<forall>c\<in>set s. hex_char c"
  shows "py_int 16 s = digits_value 16 0 False s"
proof -
  have nx: "hex_char c \<Longrightarrow> c \<noteq> CHR ''-'' \<and> c \<noteq> CHR ''+'' \<and> c \<noteq> CHR ''x'' \<and> c \<noteq> CHR ''X''" for c
    using hex_char_not by metis
  have "py_strip s = s"
    using assms by (intro py_strip_nospace) (blast dest: hex_char_not_space)
  moreover have "strip_sign s = (1, s)"
    using assms nx by (auto simp: strip_sign_def split: list.splits)
  moreover have "strip_0x s = s"
    using assms nx by (auto simp: strip_0x_def split: list.splits)
  ultimately show ?thesis by (cases "digits_value 16 0 False s") (simp_all add: py_int_def)
qed

lemma uuid_hex_chars: "c \<in> set (uuid_hex u) \<Longrightarrow> hex_char c"
  by (auto simp: uuid_hex_def dest: hex_char_hex_pad)

lemma length_uuid_hex [simp]: "length (uuid_hex u) = 32"
  by (simp add: uuid_hex_def)

lemma py_int_uuid_hex: "py_int 16 (uuid_hex u) = Some (uint u)"
proof -
  have "uint u < 16 ^ Suc 31" using uint_lt2p [of u] by simp
  then have "digits_value 16 0 False (hex_pad (Suc 31) (uint u)) = Some (uint u)"
    by (intro digits_value_hex_pad) simp_all
  then show ?thesis
    by (subst py_int_hex) (auto simp: uuid_hex_def dest: hex_char_hex_pad)
qed

lemma set_uuid_str: "c \<in> set (uuid_str u) \<Longrightarrow> hex_char c \<or> c = CHR ''-''"
  by (auto simp: uuid_str_def Let_def dest!: in_set_takeD in_set_dropD intro: uuid_hex_chars)

lemma uuid_str_char_notin:
  "CHR ''u'' \<notin> set (uuid_str u)" "CHR '':'' \<notin> set (uuid_str u)" "CHR ''/'' \<notin> set (uuid_str u)"
  "CHR ''{'' \<notin> set (uuid_str u)" "CHR ''}'' \<notin> set (uuid_str u)" "CHR ''|'' \<notin> set (uuid_str u)"
  using set_uuid_str [of _ u] hex_char_not by fastforce+

lemma filter_uuid_str: "filter (\<lambda>c. c \<noteq> CHR ''-'') (uuid_str u) = uuid_hex u"
proof -
  let ?h = "uuid_hex u"
  have "set xs \<subseteq> set ?h \<Longrightarrow> filter (\<lambda>c. c \<noteq> CHR ''-'') xs = xs" for xs
    using uuid_hex_chars hex_char_not(2) by (intro filter_True) blast
  then show ?thesis
    using uuid_str_segments [of ?h]
    by (simp add: uuid_str_def Let_def set_take_subset
        order_trans [OF set_take_subset set_drop_subset] set_drop_subset)
qed

lemma uuid_parse_clean: "uuid_clean s = uuid_hex u \<Longrightarrow> uuid_parse s = Some u"
proof -
  assume "uuid_clean s = uuid_hex u"
  moreover have "uint u < 2 ^ 128" using uint_lt2p [of u] by simp
  ultimately show ?thesis by (simp add: uuid_parse_def py_int_uuid_hex Let_def)
qed

lemma uuid_clean_hex_chars:
  assumes "\<forall>c\<in>set s. hex_char c \<or> c = CHR ''-''"
  shows "uuid_clean s = filter (\<lambda>c. c \<noteq> CHR ''-'') s"
proof -
  have "CHR ''u'' \<notin> set s" "set ''{}'' \<inter> set s = {}"
    using assms hex_char_not by fastforce+
  then show ?thesis
    by (simp add: uuid_clean_def py_replace_absent py_replace_char strip_chars_absent)
qed

lemma uuid_parse_str [simp]: "uuid_parse (uuid_str u) = Some u"
proof (rule uuid_parse_clean)
  show "uuid_clean (uuid_str u) = uuid_hex u"
    using set_uuid_str filter_uuid_str by (subst uuid_clean_hex_chars) auto
qed

lemma uuid_parse_hex [simp]: "uuid_parse (uuid_hex u) = Some u"
proof (rule uuid_parse_clean)
  have "filter (\<lambda>c. c \<noteq> CHR ''-'') (uuid_hex u) = uuid_hex u"
    using uuid_hex_chars hex_char_not(2) by (intro filter_True) blast
  then show "uuid_clean (uuid_hex u) = uuid_hex u"
    using uuid_hex_chars by (subst uuid_clean_hex_chars) auto
qed

section \<open>UTF-8\<close>

definition ascii_char :: "char \<Rightarrow> bool" where
  "ascii_char c \<longleftrightarrow> (of_char c :: int) < 128"

fun utf8_encode :: "string \<Rightarrow> bytes" where
  "utf8_encode [] = []"
| "utf8_encode (c # cs) = (let n = (of_char c :: int) in
     if n < 128 then c # utf8_encode cs
     else char_of (192 + n div 64) # char_of (128 + n mod 64) # utf8_encode cs)"

fun utf8_decode :: "bytes \<Rightarrow> string option" where
  "utf8_decode [] = Some []"
| "utf8_decode [b] = (if (of_char b :: int) < 128 then Some [b] else None)"
| "utf8_decode (b # b' # bs) = (let n = (of_char b :: int); k = (of_char b' :: int) in
     if n < 128 then map_option ((#) b) (utf8_decode (b' # bs))
     else if 194 \<le> n \<and> n \<le> 195 \<and> 128 \<le> k \<and> k < 192
       then map_option ((#) (char_of ((n - 192) * 64 + (k - 128)))) (utf8_decode bs)
     else None)"

lemma of_char_int_bounds: "0 \<le> (of_char c :: int)" "(of_char c :: int) < 256"
proof -
  have "of_char c < (256 :: nat)" by (metis mod_less_divisor of_char_mod_256 zero_less_numeral)
  then show "0 \<le> (of_char c :: int)" "(of_char c :: int) < 256"
    by (simp_all add: of_char_int)
qed

lemma utf8_decode_ascii_Cons:
  "(of_char b :: int) < 128 \<Longrightarrow> utf8_decode (b # bs) = map_option ((#) b) (utf8_decode bs)"
  by (cases bs) simp_all

lemma utf8_roundtrip [simp]: "utf8_decode (utf8_encode s) = Some s"
proof (induction s)
  case (Cons c cs)
  let ?n = "of_char c :: int"
  show ?case
  proof (cases "?n < 128")
    case True
    then show ?thesis using Cons.IH by (simp add: utf8_decode_ascii_Cons)
  next
    case False
    have b: "?n < 256" "0 \<le> ?n" by (rule of_char_int_bounds)+
    have d: "(of_char (char_of (192 + ?n div 64) :: char) :: int) = 192 + ?n div 64"
      "(of_char (char_of (128 + ?n mod 64) :: char) :: int) = 128 + ?n mod 64"
      using b False by (auto intro!: of_char_of_small)
    have "2 \<le> ?n div 64" "?n div 64 \<le> 3" using b False by linarith+
    moreover have "?n div 64 * 64 + ?n mod 64 = ?n" by simp
    moreover have "char_of ?n = c" by simp
    ultimately show ?thesis
      using Cons.IH False d by (simp add: Let_def)
  qed
qed simp

lemma utf8_encode_inject [simp]: "utf8_encode s = utf8_encode t \<longleftrightarrow> s = t"
  by (metis option.inject utf8_roundtrip)

section \<open>JSON string literals\<close>

definition json_escape_char :: "char \<Rightarrow> string" where
  "json_escape_char c = (let n = (of_char c :: int) in
     if n = 34 then [CHR 0x5C, CHR 0x22]
     else if n = 92 then [CHR 0x5C, CHR 0x5C]
     else if n = 10 then [CHR 0x5C, CHR ''n'']
     else if n = 13 then [CHR 0x5C, CHR ''r'']
     else if n = 9 then [CHR 0x5C, CHR ''t'']
     else if n = 12 then [CHR 0x5C, CHR ''f'']
     else if n = 8 then [CHR 0x5C, CHR ''b'']
     else if n < 32 \<or> 126 < n then [CHR 0x5C, CHR ''u''] @ hex_pad 4 n
     else [c])"

definition json_string :: "string \<Rightarrow> string" where
  "json_string s = [CHR 0x22] @ concat (map json_escape_char s) @ [CHR 0x22]"

end
