(* ===== verification/Cloud_Security.thy ===== *)
theory Cloud_Security
  imports Pytext
begin

text \<open>
  The cloud security primitives of \<open>omp/cloud/security.py\<close>: the verified principal, the
  development key service, the tenant envelope encryptor and the signed worker envelope.

  The authenticated cipher is the third-party \<open>AESGCM\<close>; it is the record \<open>aead\<close> of an
  encryption and a decryption function, and what the code relies on is the predicate
  \<open>aead_ok\<close>: decryption under the same key, nonce and associated data inverts encryption, and
  a ciphertext is 16 bytes longer than its plaintext. Authenticity is the predicate
  \<open>aead_auth\<close> of a set of associated data: what was encrypted under one of them does not
  decrypt under another (no cipher with 16-byte tags has this for all associated data at once).
  \<open>hmac\<close> with SHA-256 is the argument
  \<open>mac\<close> (a hex digest of a key and a message); nothing is assumed of it. The bytes that
  \<open>os.urandom\<close> draws are arguments.
\<close>

datatype cloud_error =
    CloudPermissionError
  | KMSUnavailableError
  | TenantContextError
  | RecoveryUnavailableError
  | CloudValueError
  | CloudKeyError
  | CloudTypeError

type_synonym 'a cloud = "(cloud_error, 'a) res"

section \<open>Scopes and principals\<close>

datatype Scope = MEMORY_READ | MEMORY_WRITE | MEMORY_DELETE | MEMORY_EXPORT | CONNECTIONS_MANAGE

fun scope_value :: "Scope \<Rightarrow> string" where
  "scope_value MEMORY_READ = ''memory:read''"
| "scope_value MEMORY_WRITE = ''memory:write''"
| "scope_value MEMORY_DELETE = ''memory:delete''"
| "scope_value MEMORY_EXPORT = ''memory:export''"
| "scope_value CONNECTIONS_MANAGE = ''connections:manage''"

definition all_scopes :: "Scope list" where
  "all_scopes = [MEMORY_READ, MEMORY_WRITE, MEMORY_DELETE, MEMORY_EXPORT, CONNECTIONS_MANAGE]"

definition scope_of :: "string \<Rightarrow> Scope option" where
  "scope_of s = find (\<lambda>c. scope_value c = s) all_scopes"

record Principal =
  subject_id :: uuid
  p_tenant_id :: uuid
  membership_id :: uuid
  p_scopes :: "Scope list"
  credential_id :: uuid
  auth_method :: string
  p_expires_at :: datetime

definition principal_requires :: "Principal \<Rightarrow> Scope \<Rightarrow> datetime \<Rightarrow> unit cloud" where
  "principal_requires p scope now =
     (if dt_aware (p_expires_at p) \<noteq> dt_aware now then Inl CloudTypeError
      else res_guard (\<not> dt_instant (p_expires_at p) \<le> dt_instant now \<and> scope \<in> set (p_scopes p))
             CloudPermissionError)"

text \<open>The verified token of the MCP SDK: the claims are the string-valued ones the code reads.\<close>

record AccessToken =
  tok_subject :: "string option"
  tok_claims :: "(string, string) dict"
  tok_scopes :: "string list"
  tok_expires_at :: "int option"

definition epoch_us :: int where
  "epoch_us = 719162 * 86400000000"

definition fromtimestamp_utc :: "int \<Rightarrow> datetime" where
  "fromtimestamp_utc s = \<lparr>dt_local = epoch_us + s * 1000000, dt_offset = Some 0\<rparr>"

definition claim_uuid :: "(string, string) dict \<Rightarrow> string \<Rightarrow> uuid cloud" where
  "claim_uuid claims k = (case dict_get claims k of
     None \<Rightarrow> Inl CloudKeyError
   | Some v \<Rightarrow> (case uuid_parse v of None \<Rightarrow> Inl CloudValueError | Some u \<Rightarrow> Inr u))"

definition scope_member :: "string \<Rightarrow> Scope cloud" where
  "scope_member s = (case scope_of s of None \<Rightarrow> Inl CloudValueError | Some c \<Rightarrow> Inr c)"

definition principal_claims :: "AccessToken \<Rightarrow> Principal cloud" where
  "principal_claims t =
     res_bind (case uuid_parse (case tok_subject t of None \<Rightarrow> ''None'' | Some s \<Rightarrow> s) of
         None \<Rightarrow> Inl CloudValueError | Some u \<Rightarrow> Inr u) (\<lambda>sub.
     res_bind (claim_uuid (tok_claims t) ''tenant_id'') (\<lambda>ten.
     res_bind (claim_uuid (tok_claims t) ''membership_id'') (\<lambda>mem.
     res_bind (claim_uuid (tok_claims t) ''credential_id'') (\<lambda>cred.
     res_bind (res_map scope_member (tok_scopes t)) (\<lambda>scs.
     Inr \<lparr>subject_id = sub, p_tenant_id = ten, membership_id = mem, p_scopes = scs,
          credential_id = cred, auth_method = ''local-development'',
          p_expires_at = fromtimestamp_utc (case tok_expires_at t of None \<Rightarrow> 0 | Some s \<Rightarrow> s)\<rparr>)))))"

definition principal_from_access_token :: "AccessToken \<Rightarrow> Principal cloud" where
  "principal_from_access_token t = (case principal_claims t of
     Inl e \<Rightarrow> Inl CloudPermissionError
   | Inr p \<Rightarrow> Inr p)"

section \<open>The authenticated cipher\<close>

record aead =
  aead_encrypt :: "bytes \<Rightarrow> bytes \<Rightarrow> bytes \<Rightarrow> bytes \<Rightarrow> bytes"
  aead_decrypt :: "bytes \<Rightarrow> bytes \<Rightarrow> bytes \<Rightarrow> bytes \<Rightarrow> bytes option"

definition aead_ok :: "aead \<Rightarrow> bool" where
  "aead_ok c \<longleftrightarrow>
     (\<forall>k n p a. aead_decrypt c k n (aead_encrypt c k n p a) a = Some p) \<and>
     (\<forall>k n p a. length (aead_encrypt c k n p a) = length p + 16)"

definition aead_auth :: "aead \<Rightarrow> bytes set \<Rightarrow> bool" where
  "aead_auth c A \<longleftrightarrow> (\<forall>a\<in>A. \<forall>b\<in>A. a \<noteq> b \<longrightarrow>
     (\<forall>k n p. aead_decrypt c k n (aead_encrypt c k n p a) b = None))"

section \<open>Key services\<close>

text \<open>\<open>LocalDevelopmentKMS\<close> with its master key; \<open>HostedKMSUnavailable\<close> always raises.\<close>

datatype kms = LocalKMS bytes | HostedKMS string

definition local_kms_init :: "bytes \<Rightarrow> kms cloud" where
  "local_kms_init master = (if length master \<in> {16, 24, 32} then Inr (LocalKMS master) else Inl CloudValueError)"

definition kms_aad :: "uuid \<Rightarrow> int \<Rightarrow> bytes" where
  "kms_aad tenant version = utf8_encode (''umcp/dek/v1/'' @ uuid_str tenant @ ''/'' @ int_str version)"

definition local_wrap :: "aead \<Rightarrow> bytes \<Rightarrow> bytes \<Rightarrow> uuid \<Rightarrow> int \<Rightarrow> bytes \<Rightarrow> bytes cloud" where
  "local_wrap c master nonce tenant version dek =
     (if version < 1 \<or> length dek \<noteq> 32 then Inl KMSUnavailableError
      else Inr (nonce @ aead_encrypt c master nonce dek (kms_aad tenant version)))"

definition local_unwrap :: "aead \<Rightarrow> bytes \<Rightarrow> uuid \<Rightarrow> int \<Rightarrow> bytes \<Rightarrow> bytes cloud" where
  "local_unwrap c master tenant version wrapped =
     (if version < 1 \<or> length wrapped < 12 + 16 then Inl KMSUnavailableError
      else case aead_decrypt c master (take 12 wrapped) (drop 12 wrapped) (kms_aad tenant version) of
        None \<Rightarrow> Inl KMSUnavailableError
      | Some dek \<Rightarrow> if length dek \<noteq> 32 then Inl KMSUnavailableError else Inr dek)"

definition kms_wrap :: "aead \<Rightarrow> kms \<Rightarrow> bytes \<Rightarrow> uuid \<Rightarrow> int \<Rightarrow> bytes \<Rightarrow> bytes cloud" where
  "kms_wrap c k nonce tenant version dek = (case k of
     LocalKMS master \<Rightarrow> local_wrap c master nonce tenant version dek
   | HostedKMS reason \<Rightarrow> Inl KMSUnavailableError)"

definition kms_unwrap :: "aead \<Rightarrow> kms \<Rightarrow> uuid \<Rightarrow> int \<Rightarrow> bytes \<Rightarrow> bytes cloud" where
  "kms_unwrap c k tenant version wrapped = (case k of
     LocalKMS master \<Rightarrow> local_unwrap c master tenant version wrapped
   | HostedKMS reason \<Rightarrow> Inl KMSUnavailableError)"

section \<open>Envelope encryption\<close>

record EnvelopeCiphertext =
  key_version :: int
  wrapped_dek :: bytes
  nonce_bytes :: bytes
  ciphertext :: bytes

text \<open>One call of \<open>encrypt\<close> draws a data key, a nonce and the key service's nonce.\<close>

record entropy =
  e_dek :: bytes
  e_nonce :: bytes
  e_kms_nonce :: bytes

definition entropy_ok :: "entropy \<Rightarrow> bool" where
  "entropy_ok e \<longleftrightarrow> length (e_dek e) = 32 \<and> length (e_nonce e) = 12 \<and> length (e_kms_nonce e) = 12"

definition content_aad :: "uuid \<Rightarrow> uuid \<Rightarrow> string \<Rightarrow> int \<Rightarrow> bytes" where
  "content_aad tenant rid field version = utf8_encode
     (''umcp/content/v1/'' @ uuid_str tenant @ ''/'' @ uuid_str rid @ ''/'' @ field @ ''/'' @
      int_str version)"

definition encryptor_encrypt ::
  "aead \<Rightarrow> kms \<Rightarrow> entropy \<Rightarrow> uuid \<Rightarrow> uuid \<Rightarrow> string \<Rightarrow> string \<Rightarrow> int \<Rightarrow> EnvelopeCiphertext cloud" where
  "encryptor_encrypt c k e tenant rid field plaintext version =
     (if version < 1 \<or> field = [] \<or> CHR ''/'' \<in> set field then Inl CloudValueError
      else let ct = aead_encrypt c (e_dek e) (e_nonce e) (utf8_encode plaintext)
                      (content_aad tenant rid field version)
           in case kms_wrap c k (e_kms_nonce e) tenant version (e_dek e) of
                Inl err \<Rightarrow> Inl KMSUnavailableError
              | Inr w \<Rightarrow> Inr \<lparr>key_version = version, wrapped_dek = w, nonce_bytes = e_nonce e,
                             ciphertext = ct\<rparr>)"

definition encryptor_decrypt ::
  "aead \<Rightarrow> kms \<Rightarrow> uuid \<Rightarrow> uuid \<Rightarrow> string \<Rightarrow> EnvelopeCiphertext \<Rightarrow> string cloud" where
  "encryptor_decrypt c k tenant rid field v =
     (if key_version v < 1 \<or> length (nonce_bytes v) \<noteq> 12 \<or> length (ciphertext v) < 16
      then Inl CloudPermissionError
      else case kms_unwrap c k tenant (key_version v) (wrapped_dek v) of
        Inl err \<Rightarrow> Inl KMSUnavailableError
      | Inr dek \<Rightarrow>
          if length dek \<noteq> 32 then Inl KMSUnavailableError
          else case aead_decrypt c dek (nonce_bytes v) (ciphertext v)
                      (content_aad tenant rid field (key_version v)) of
            None \<Rightarrow> Inl CloudPermissionError
          | Some p \<Rightarrow> (case utf8_decode p of None \<Rightarrow> Inl CloudPermissionError | Some s \<Rightarrow> Inr s))"

definition encryptor_rewrap ::
  "aead \<Rightarrow> kms \<Rightarrow> entropy \<Rightarrow> uuid \<Rightarrow> uuid \<Rightarrow> string \<Rightarrow> EnvelopeCiphertext \<Rightarrow> int \<Rightarrow>
     EnvelopeCiphertext cloud" where
  "encryptor_rewrap c k e tenant rid field v version =
     (if version < 1 then Inl CloudValueError
      else res_bind (encryptor_decrypt c k tenant rid field v) (\<lambda>plain.
           encryptor_encrypt c k e tenant rid field plain version))"

section \<open>Worker envelopes\<close>

record WorkerEnvelope =
  job_id :: uuid
  w_tenant_id :: uuid
  principal_id :: uuid
  expires_at :: datetime
  w_nonce :: string
  signature :: string

type_synonym mac = "bytes \<Rightarrow> bytes \<Rightarrow> string"

definition signing_input :: "WorkerEnvelope \<Rightarrow> bytes" where
  "signing_input w = utf8_encode (py_join ''|''
     [''umcp.job.v1'', uuid_str (job_id w), uuid_str (w_tenant_id w), uuid_str (principal_id w),
      isoformat (expires_at w), w_nonce w])"

definition envelope_sign ::
  "mac \<Rightarrow> uuid \<Rightarrow> uuid \<Rightarrow> uuid \<Rightarrow> datetime \<Rightarrow> string \<Rightarrow> bytes \<Rightarrow> WorkerEnvelope" where
  "envelope_sign mac jid tenant prin expires nonce secret =
     (let unsigned = \<lparr>job_id = jid, w_tenant_id = tenant, principal_id = prin,
            expires_at = expires, w_nonce = nonce, signature = []\<rparr>
      in unsigned\<lparr>signature := mac secret (signing_input unsigned)\<rparr>)"

text \<open>\<open>hmac.compare_digest\<close> raises TypeError on text outside ASCII.\<close>

definition compare_digest :: "string \<Rightarrow> string \<Rightarrow> bool cloud" where
  "compare_digest a b =
     (if list_all ascii_char a \<and> list_all ascii_char b then Inr (a = b) else Inl CloudTypeError)"

definition envelope_verify :: "mac \<Rightarrow> bytes \<Rightarrow> datetime \<Rightarrow> WorkerEnvelope \<Rightarrow> unit cloud" where
  "envelope_verify mac secret now w =
     (if \<not> dt_aware (expires_at w) \<or> w_nonce w = [] \<or> length (w_nonce w) > 256 \<or>
         dt_instant (expires_at w) \<le> dt_instant now
      then Inl CloudPermissionError
      else res_bind (compare_digest (mac secret (signing_input w)) (signature w)) (\<lambda>same.
           res_guard same CloudPermissionError))"

section \<open>Facts\<close>

lemma scope_of_Some: "scope_of s = Some c \<longleftrightarrow> scope_value c = s"
  by (cases c) (auto simp: scope_of_def all_scopes_def split: if_splits)

lemma append_sep_inject:
  assumes "c \<notin> set s" "c \<notin> set t" "s @ c # x = t @ c # y"
  shows "s = t \<and> x = y"
  using assms takeWhile_until(1) [of c s x] takeWhile_until(1) [of c t y] by fastforce

lemma content_aad_inject:
  assumes "CHR ''/'' \<notin> set f" "CHR ''/'' \<notin> set f'"
    and eq: "content_aad t r f v = content_aad t' r' f' v'"
  shows "t = t' \<and> r = r' \<and> f = f'"
proof -
  have "uuid_str t @ CHR ''/'' # (uuid_str r @ CHR ''/'' # (f @ CHR ''/'' # int_str v)) =
        uuid_str t' @ CHR ''/'' # (uuid_str r' @ CHR ''/'' # (f' @ CHR ''/'' # int_str v'))"
    using eq by (simp add: content_aad_def)
  from append_sep_inject [OF uuid_str_char_notin(3) uuid_str_char_notin(3) this]
  have t: "t = t'" and
    "uuid_str r @ CHR ''/'' # (f @ CHR ''/'' # int_str v) =
     uuid_str r' @ CHR ''/'' # (f' @ CHR ''/'' # int_str v')"
    by simp_all
  from append_sep_inject [OF uuid_str_char_notin(3) uuid_str_char_notin(3) this(2)]
  have r: "r = r'" and "f @ CHR ''/'' # int_str v = f' @ CHR ''/'' # int_str v'"
    by simp_all
  from append_sep_inject [OF assms(1,2) this(2)] t r show ?thesis by simp
qed

lemma kms_aad_inject_tenant: "kms_aad t v = kms_aad t' v' \<Longrightarrow> t = t'"
  using append_sep_inject [OF uuid_str_char_notin(3) uuid_str_char_notin(3),
      of t "int_str v" t' "int_str v'"]
  by (simp add: kms_aad_def)

lemma aead_okD:
  assumes "aead_ok c"
  shows "aead_decrypt c k n (aead_encrypt c k n p a) a = Some p"
    and "length (aead_encrypt c k n p a) = length p + 16"
  using assms by (auto simp: aead_ok_def)

lemma aead_authD:
  "aead_auth c A \<Longrightarrow> a \<in> A \<Longrightarrow> b \<in> A \<Longrightarrow> a \<noteq> b \<Longrightarrow>
     aead_decrypt c k n (aead_encrypt c k n p a) b = None"
  by (auto simp: aead_auth_def)

text \<open>
  What the encryptor needs of a key service: a wrapped key unwraps for the same tenant and
  version, and for no other tenant the cipher separates from it (\<open>auth\<close>).
\<close>

locale key_service =
  fixes ok :: "'c \<Rightarrow> bool"
    and auth :: "'c \<Rightarrow> uuid \<Rightarrow> uuid \<Rightarrow> int \<Rightarrow> bool"
    and wrap :: "'c \<Rightarrow> 'k \<Rightarrow> bytes \<Rightarrow> uuid \<Rightarrow> int \<Rightarrow> bytes \<Rightarrow> bytes cloud"
    and unwrap :: "'c \<Rightarrow> 'k \<Rightarrow> uuid \<Rightarrow> int \<Rightarrow> bytes \<Rightarrow> bytes cloud"
  assumes unwrap_wrap:
    "ok c \<Longrightarrow> length nonce = 12 \<Longrightarrow> wrap c k nonce t v dek = Inr w \<Longrightarrow> unwrap c k t v w = Inr dek"
    and unwrap_other_tenant:
    "ok c \<Longrightarrow> length nonce = 12 \<Longrightarrow> wrap c k nonce t v dek = Inr w \<Longrightarrow> t' \<noteq> t \<Longrightarrow>
       auth c t t' v \<Longrightarrow> unwrap c k t' v w = Inl KMSUnavailableError"
    and wrap_dek: "wrap c k nonce t v dek = Inr w \<Longrightarrow> 1 \<le> v \<and> length dek = 32"
begin

lemma unwrap_tenants:
  assumes "ok c" "length nonce = 12" "wrap c k nonce t v dek = Inr w" "auth c t t' v"
  shows "unwrap c k t' v w = Inr d \<longleftrightarrow> t' = t \<and> d = dek"
  using unwrap_wrap [OF assms(1-3)] unwrap_other_tenant [OF assms(1-3) _ assms(4)]
  by (cases "t' = t") auto

end

lemma local_wrap_Inr:
  "local_wrap c m n t v dek = Inr w \<longleftrightarrow>
     1 \<le> v \<and> length dek = 32 \<and> w = n @ aead_encrypt c m n dek (kms_aad t v)"
  by (auto simp: local_wrap_def)

definition kms_auth :: "aead \<Rightarrow> uuid \<Rightarrow> uuid \<Rightarrow> int \<Rightarrow> bool" where
  "kms_auth c t t' v \<longleftrightarrow> aead_auth c {kms_aad t v, kms_aad t' v}"

interpretation local_kms: key_service aead_ok kms_auth local_wrap local_unwrap
proof
  fix c k nonce t v dek w
  assume ok: "aead_ok c" and n: "length (nonce :: bytes) = 12"
    and w: "local_wrap c k nonce t v dek = Inr w"
  show "local_unwrap c k t v w = Inr dek"
    using w n by (auto simp: local_unwrap_def local_wrap_Inr aead_okD [OF ok])
  fix t' assume "t' \<noteq> t" and auth: "kms_auth c t t' v"
  then have "kms_aad t v \<noteq> kms_aad t' v" by (auto dest: kms_aad_inject_tenant)
  then have "aead_decrypt c k nonce (aead_encrypt c k nonce dek (kms_aad t v)) (kms_aad t' v) = None"
    using aead_authD [OF auth [unfolded kms_auth_def]] by blast
  then show "local_unwrap c k t' v w = Inl KMSUnavailableError"
    using w n by (auto simp: local_unwrap_def local_wrap_Inr)
qed (auto simp: local_wrap_Inr)

interpretation any_kms: key_service aead_ok kms_auth kms_wrap kms_unwrap
proof
  fix c k nonce t v dek w
  assume ok: "aead_ok c" and n: "length (nonce :: bytes) = 12"
    and w: "kms_wrap c k nonce t v dek = Inr w"
  then obtain m where k: "k = LocalKMS m" and lw: "local_wrap c m nonce t v dek = Inr w"
    by (cases k) (simp_all add: kms_wrap_def)
  show "kms_unwrap c k t v w = Inr dek"
    using local_kms.unwrap_wrap [OF ok n lw] by (simp add: k kms_unwrap_def)
  fix t' assume "t' \<noteq> t" "kms_auth c t t' v"
  from local_kms.unwrap_other_tenant [OF ok n lw this]
  show "kms_unwrap c k t' v w = Inl KMSUnavailableError" by (simp add: k kms_unwrap_def)
qed (auto simp: kms_wrap_def local_wrap_Inr split: kms.splits)

lemma encryptor_encrypt_Inr:
  "encryptor_encrypt c k e t r f p v = Inr x \<longleftrightarrow>
     1 \<le> v \<and> f \<noteq> [] \<and> CHR ''/'' \<notin> set f \<and>
     (\<exists>w. kms_wrap c k (e_kms_nonce e) t v (e_dek e) = Inr w \<and>
       x = \<lparr>key_version = v, wrapped_dek = w, nonce_bytes = e_nonce e,
            ciphertext = aead_encrypt c (e_dek e) (e_nonce e) (utf8_encode p) (content_aad t r f v)\<rparr>)"
  by (auto simp: encryptor_encrypt_def Let_def split: sum.splits)

lemma encrypt_decrypt:
  assumes "aead_ok c" "entropy_ok e" "encryptor_encrypt c k e t r f p v = Inr x"
  shows "encryptor_decrypt c k t r f x = Inr p"
proof -
  from assms(3) obtain w where v: "1 \<le> v"
    and w: "kms_wrap c k (e_kms_nonce e) t v (e_dek e) = Inr w"
    and x: "x = \<lparr>key_version = v, wrapped_dek = w, nonce_bytes = e_nonce e,
            ciphertext = aead_encrypt c (e_dek e) (e_nonce e) (utf8_encode p) (content_aad t r f v)\<rparr>"
    by (auto simp: encryptor_encrypt_Inr)
  have "kms_unwrap c k t v w = Inr (e_dek e)"
    using any_kms.unwrap_wrap [OF assms(1) _ w] assms(2) by (simp add: entropy_ok_def)
  then show ?thesis
    using assms(2) v by (simp add: x encryptor_decrypt_def entropy_ok_def aead_okD [OF assms(1)])
qed

lemma decrypt_other_binding:
  assumes "aead_ok c" "entropy_ok e" "encryptor_encrypt c k e t r f p v = Inr x"
    and "CHR ''/'' \<notin> set f'" "(t', r', f') \<noteq> (t, r, f)"
    and auth: "aead_auth c {content_aad t r f v, content_aad t' r' f' v, kms_aad t v, kms_aad t' v}"
  shows "encryptor_decrypt c k t' r' f' x \<in> {Inl CloudPermissionError, Inl KMSUnavailableError}"
proof -
  from assms(3) obtain w where f: "CHR ''/'' \<notin> set f"
    and w: "kms_wrap c k (e_kms_nonce e) t v (e_dek e) = Inr w"
    and x: "x = \<lparr>key_version = v, wrapped_dek = w, nonce_bytes = e_nonce e,
            ciphertext = aead_encrypt c (e_dek e) (e_nonce e) (utf8_encode p) (content_aad t r f v)\<rparr>"
    by (auto simp: encryptor_encrypt_Inr)
  have "content_aad t r f v \<noteq> content_aad t' r' f' v"
    using content_aad_inject [OF f assms(4), of t r v t' r' v] assms(5) by auto
  then have fail: "aead_decrypt c (e_dek e) (e_nonce e)
      (aead_encrypt c (e_dek e) (e_nonce e) (utf8_encode p) (content_aad t r f v))
      (content_aad t' r' f' v) = None"
    using aead_authD [OF auth] by blast
  have "kms_auth c t t' v" using auth by (auto simp: kms_auth_def aead_auth_def)
  then have "kms_unwrap c k t' v w = Inr d \<Longrightarrow> d = e_dek e" for d
    using any_kms.unwrap_tenants [OF assms(1) _ w, of t' d] assms(2) by (simp add: entropy_ok_def)
  then show ?thesis
    by (auto simp: x encryptor_decrypt_def fail split: sum.splits)
qed

lemma rewrap_decrypt:
  assumes "aead_ok c" "entropy_ok e" "encryptor_rewrap c k e t r f x v = Inr y"
  shows "encryptor_decrypt c k t r f y = encryptor_decrypt c k t r f x \<and> key_version y = v"
proof -
  from assms(3) obtain p where p: "encryptor_decrypt c k t r f x = Inr p"
    and y: "encryptor_encrypt c k e t r f p v = Inr y"
    by (auto simp: encryptor_rewrap_def act_simps split: if_splits)
  from encrypt_decrypt [OF assms(1,2) y] p y show ?thesis
    by (auto simp: encryptor_encrypt_Inr)
qed

lemma signing_input_signature [simp]: "signing_input (w\<lparr>signature := s\<rparr>) = signing_input w"
  by (simp add: signing_input_def)

lemma envelope_verify_sign:
  assumes "list_all ascii_char (mac secret (signing_input (envelope_sign mac j t p x n secret)))"
  shows "envelope_verify mac secret now (envelope_sign mac j t p x n secret) = Inr () \<longleftrightarrow>
     dt_aware x \<and> n \<noteq> [] \<and> length n \<le> 256 \<and> dt_instant now < dt_instant x"
  using assms
  by (auto simp: envelope_verify_def envelope_sign_def Let_def compare_digest_def signing_input_def)

lemma envelope_verify_Inr:
  "envelope_verify mac secret now w = Inr () \<longleftrightarrow>
     dt_aware (expires_at w) \<and> w_nonce w \<noteq> [] \<and> length (w_nonce w) \<le> 256 \<and>
     dt_instant now < dt_instant (expires_at w) \<and>
     signature w = mac secret (signing_input w) \<and> list_all ascii_char (signature w)"
  by (auto simp: envelope_verify_def compare_digest_def)

lemma envelope_verify_later:
  "envelope_verify mac secret now w = Inr () \<Longrightarrow> dt_instant now' \<le> dt_instant now \<Longrightarrow>
     envelope_verify mac secret now' w = Inr ()"
  by (auto simp: envelope_verify_Inr)

end
