(* ===== verification/Cloud_Worker.thy ===== *)
theory Cloud_Worker
  imports Cloud_Security
begin

text \<open>
  The in-process worker of \<open>omp/cloud/worker.py\<close>: signed jobs with deduplication, nonce replay
  protection, bounded retries, a dead-letter state, and a signed snapshot that survives a restart.

  A handler is a function of the job and of the state of the component it works on (\<open>'x\<close>):
  it raises or returns a job state, and leaves a new component state either way.
  \<open>datetime.fromisoformat\<close> is the argument \<open>fromiso\<close>; the round trip relies on it inverting
  \<open>isoformat\<close> on the expiry times of the jobs at hand.
\<close>

section \<open>Jobs and the worker's tables\<close>

datatype JobState = PENDING | READY | STALE_JOB | FAILED | DEAD_LETTER

fun job_state_value :: "JobState \<Rightarrow> string" where
  "job_state_value PENDING = ''pending''"
| "job_state_value READY = ''ready''"
| "job_state_value STALE_JOB = ''stale''"
| "job_state_value FAILED = ''failed''"
| "job_state_value DEAD_LETTER = ''dead_letter''"

definition job_state_of :: "string \<Rightarrow> JobState option" where
  "job_state_of s = find (\<lambda>c. job_state_value c = s) [PENDING, READY, STALE_JOB, FAILED, DEAD_LETTER]"

record LocalJob =
  envelope :: WorkerEnvelope
  dedupe_key :: string
  payload_ref :: string
  job_state :: JobState
  attempts :: int
  job_error :: "string option"

record LocalTenantWorker =
  worker_secret :: bytes
  max_attempts :: int
  jobs :: "(uuid, LocalJob) dict"
  dedupe :: "(uuid \<times> string, uuid) dict"
  nonces :: "(uuid \<times> string, uuid) dict"

definition worker_init :: "bytes \<Rightarrow> int \<Rightarrow> LocalTenantWorker cloud" where
  "worker_init secret n =
     (if secret = [] \<or> n < 1 then Inl CloudValueError
      else Inr \<lparr>worker_secret = secret, max_attempts = n, jobs = [], dedupe = [], nonces = []\<rparr>)"

definition ref_char :: "char \<Rightarrow> bool" where
  "ref_char c \<longleftrightarrow> (let n = (of_char c :: int) in
     65 \<le> n \<and> n \<le> 90 \<or> 97 \<le> n \<and> n \<le> 122 \<or> 48 \<le> n \<and> n \<le> 57) \<or> c \<in> set ''_.:/-''"

definition safe_ref :: "string \<Rightarrow> string cloud" where
  "safe_ref v = (if v = [] \<or> length v > 256 \<or> \<not> list_all ref_char v
     then Inl CloudPermissionError else Inr v)"

section \<open>enqueue and run_one\<close>

definition new_job :: "WorkerEnvelope \<Rightarrow> string \<Rightarrow> string \<Rightarrow> LocalJob" where
  "new_job e dkey ref = \<lparr>envelope = e, dedupe_key = dkey, payload_ref = ref, job_state = PENDING,
     attempts = 0, job_error = None\<rparr>"

definition worker_enqueue ::
  "mac \<Rightarrow> datetime \<Rightarrow> WorkerEnvelope \<Rightarrow> string \<Rightarrow> string \<Rightarrow> LocalTenantWorker \<Rightarrow>
     (cloud_error, LocalJob) res \<times> LocalTenantWorker" where
  "worker_enqueue mac now e dkey0 ref0 =
     act_bind (act_getr (\<lambda>w. envelope_verify mac (worker_secret w) now e)) (\<lambda>_.
     act_bind (act_res (safe_ref dkey0)) (\<lambda>dkey.
     act_bind (act_res (safe_ref ref0)) (\<lambda>ref.
     act_bind (act_gets (\<lambda>w. dict_get (dedupe w) (w_tenant_id e, dkey))) (\<lambda>existing.
     case existing of
       Some jid \<Rightarrow> act_getr (\<lambda>w. case dict_get (jobs w) jid of
           None \<Rightarrow> Inl CloudKeyError | Some j \<Rightarrow> Inr j)
     | None \<Rightarrow>
         act_bind (act_gets (\<lambda>w. dict_get (nonces w) (w_tenant_id e, w_nonce e))) (\<lambda>seen.
         act_bind (act_guard (seen = None) CloudPermissionError) (\<lambda>_.
         act_bind (act_modify (\<lambda>w. w\<lparr>
             jobs := dict_set (job_id e) (new_job e dkey ref) (jobs w),
             dedupe := dict_set (w_tenant_id e, dkey) (job_id e) (dedupe w),
             nonces := dict_set (w_tenant_id e, w_nonce e) (job_id e) (nonces w)\<rparr>)) (\<lambda>_.
         act_return (new_job e dkey ref))))))))"

definition terminal :: "JobState \<Rightarrow> bool" where
  "terminal s \<longleftrightarrow> s \<in> {READY, STALE_JOB, DEAD_LETTER}"

definition failed_job :: "int \<Rightarrow> LocalJob \<Rightarrow> LocalJob" where
  "failed_job budget j = j\<lparr>
     job_state := (if attempts j \<ge> budget then DEAD_LETTER else FAILED),
     job_error := Some ''worker execution failed''\<rparr>"

text \<open>The body of the \<open>try\<close> statement: the job object after it, and what it raised if anything.\<close>

definition attempt_job ::
  "mac \<Rightarrow> bytes \<Rightarrow> datetime \<Rightarrow> (LocalJob \<Rightarrow> 'x \<Rightarrow> JobState cloud \<times> 'x) \<Rightarrow> LocalJob \<Rightarrow> 'x \<Rightarrow>
     (LocalJob \<times> bool) \<times> 'x" where
  "attempt_job mac secret now handler j x =
     (case envelope_verify mac secret now (envelope j) of
        Inl e \<Rightarrow> ((j, False), x)
      | Inr _ \<Rightarrow> let j1 = j\<lparr>attempts := attempts j + 1\<rparr>; (r, x1) = handler j1 x in
          (case r of
             Inl e \<Rightarrow> ((j1, False), x1)
           | Inr st \<Rightarrow>
               if st \<notin> {READY, STALE_JOB} then ((j1, False), x1)
               else ((j1\<lparr>job_state := st, job_error := None\<rparr>, True), x1)))"

definition run_job ::
  "mac \<Rightarrow> bytes \<Rightarrow> int \<Rightarrow> datetime \<Rightarrow> (LocalJob \<Rightarrow> 'x \<Rightarrow> JobState cloud \<times> 'x) \<Rightarrow> LocalJob \<Rightarrow> 'x \<Rightarrow>
     LocalJob \<times> 'x" where
  "run_job mac secret budget now handler j x =
     (if terminal (job_state j) then (j, x)
      else let ((j1, ok), x1) = attempt_job mac secret now handler j x
           in (if ok then j1 else failed_job budget j1, x1))"

definition worker_run_one ::
  "mac \<Rightarrow> datetime \<Rightarrow> (LocalJob \<Rightarrow> 'x \<Rightarrow> JobState cloud \<times> 'x) \<Rightarrow> uuid \<Rightarrow> LocalTenantWorker \<Rightarrow> 'x \<Rightarrow>
     (LocalJob cloud \<times> LocalTenantWorker) \<times> 'x" where
  "worker_run_one mac now handler jid w x = (case dict_get (jobs w) jid of
     None \<Rightarrow> ((Inl CloudKeyError, w), x)
   | Some j \<Rightarrow>
       let (j', x') = run_job mac (worker_secret w) (max_attempts w) now handler j x
       in ((Inr j', w\<lparr>jobs := dict_set jid j' (jobs w)\<rparr>), x'))"

definition worker_retryable :: "LocalTenantWorker \<Rightarrow> LocalJob list" where
  "worker_retryable w = filter (\<lambda>j. job_state j = FAILED) (dict_values (jobs w))"

definition worker_job :: "LocalTenantWorker \<Rightarrow> uuid \<Rightarrow> LocalJob cloud" where
  "worker_job w jid = (case dict_get (jobs w) jid of None \<Rightarrow> Inl CloudKeyError | Some j \<Rightarrow> Inr j)"

section \<open>Snapshots\<close>

text \<open>The values of a snapshot item are text and integers.\<close>

datatype snap_value = SStr string | SInt int

fun snap_str :: "snap_value \<Rightarrow> string" where
  "snap_str (SStr s) = s"
| "snap_str (SInt i) = int_str i"

fun snap_json :: "snap_value \<Rightarrow> string" where
  "snap_json (SStr s) = json_string s"
| "snap_json (SInt i) = int_str i"

type_synonym snap_item = "(string, snap_value) dict"

definition item_get :: "snap_item \<Rightarrow> string \<Rightarrow> snap_value cloud" where
  "item_get item k = (case dict_get item k of None \<Rightarrow> Inl CloudKeyError | Some v \<Rightarrow> Inr v)"

definition item_str :: "snap_item \<Rightarrow> string \<Rightarrow> string cloud" where
  "item_str item k = res_bind (item_get item k) (\<lambda>v. Inr (snap_str v))"

definition snapshot_keys :: "string list" where
  "snapshot_keys = [''job_id'', ''tenant_id'', ''principal_id'', ''expires_at'', ''nonce'',
     ''signature'', ''dedupe_key'', ''payload_ref'', ''state'', ''attempts'']"

definition json_dumps_sorted :: "(string \<times> snap_value) list \<Rightarrow> string" where
  "json_dumps_sorted kvs = ''{'' @ py_join '',''
     (map (\<lambda>(k, v). json_string k @ '':'' @ snap_json v) (sort_key fst kvs)) @ ''}''"

definition snapshot_input :: "snap_item \<Rightarrow> bytes cloud" where
  "snapshot_input item =
     res_bind (res_map (\<lambda>k. res_bind (item_get item k) (\<lambda>v. Inr (k, v))) snapshot_keys) (\<lambda>kvs.
     Inr (utf8_encode (json_dumps_sorted kvs)))"

definition job_item :: "LocalJob \<Rightarrow> snap_item" where
  "job_item j = (let e = envelope j in
    [(''job_id'', SStr (uuid_str (job_id e))),
     (''tenant_id'', SStr (uuid_str (w_tenant_id e))),
     (''principal_id'', SStr (uuid_str (principal_id e))),
     (''expires_at'', SStr (isoformat (expires_at e))),
     (''nonce'', SStr (w_nonce e)),
     (''signature'', SStr (signature e)),
     (''dedupe_key'', SStr (dedupe_key j)),
     (''payload_ref'', SStr (payload_ref j)),
     (''state'', SStr (job_state_value (job_state j))),
     (''attempts'', SInt (attempts j))])"

definition snapshot_job :: "mac \<Rightarrow> bytes \<Rightarrow> LocalJob \<Rightarrow> snap_item cloud" where
  "snapshot_job mac secret j =
     res_bind (snapshot_input (job_item j)) (\<lambda>input.
     Inr (dict_set ''snapshot_signature'' (SStr (mac secret input)) (job_item j)))"

definition worker_snapshot :: "mac \<Rightarrow> LocalTenantWorker \<Rightarrow> snap_item list cloud" where
  "worker_snapshot mac w = res_map (snapshot_job mac (worker_secret w)) (dict_values (jobs w))"

definition uuid_field :: "snap_item \<Rightarrow> string \<Rightarrow> uuid cloud" where
  "uuid_field item k = res_bind (item_str item k) (\<lambda>s.
     case uuid_parse s of None \<Rightarrow> Inl CloudValueError | Some u \<Rightarrow> Inr u)"

definition opt_or :: "'e \<Rightarrow> 'a option \<Rightarrow> ('e, 'a) res" where
  "opt_or e v = (case v of None \<Rightarrow> Inl e | Some a \<Rightarrow> Inr a)"

definition restore_envelope ::
  "mac \<Rightarrow> (string \<Rightarrow> datetime option) \<Rightarrow> bytes \<Rightarrow> datetime \<Rightarrow> snap_item \<Rightarrow> WorkerEnvelope cloud" where
  "restore_envelope mac fromiso secret now item =
     res_bind (item_str item ''snapshot_signature'') (\<lambda>given.
     res_bind (snapshot_input item) (\<lambda>input.
     res_bind (compare_digest given (mac secret input)) (\<lambda>same.
     res_bind (res_guard same CloudPermissionError) (\<lambda>_.
     res_bind (uuid_field item ''job_id'') (\<lambda>jid.
     res_bind (uuid_field item ''tenant_id'') (\<lambda>tid.
     res_bind (uuid_field item ''principal_id'') (\<lambda>pid.
     res_bind (res_bind (item_str item ''expires_at'') (\<lambda>s. opt_or CloudValueError (fromiso s))) (\<lambda>x.
     res_bind (item_str item ''nonce'') (\<lambda>n.
     res_bind (item_str item ''signature'') (\<lambda>s.
     let e = \<lparr>job_id = jid, w_tenant_id = tid, principal_id = pid, expires_at = x, w_nonce = n,
              signature = s\<rparr>
     in res_bind (envelope_verify mac secret now e) (\<lambda>_. Inr e)))))))))))"

definition restore_item ::
  "mac \<Rightarrow> (string \<Rightarrow> datetime option) \<Rightarrow> bytes \<Rightarrow> datetime \<Rightarrow> snap_item \<Rightarrow> LocalJob cloud" where
  "restore_item mac fromiso secret now item =
     res_bind (restore_envelope mac fromiso secret now item) (\<lambda>e.
     res_bind (res_bind (item_str item ''state'') (\<lambda>s. opt_or CloudValueError (job_state_of s))) (\<lambda>st.
     res_bind (res_bind (item_str item ''attempts'') (\<lambda>s. opt_or CloudValueError (py_int 10 s))) (\<lambda>n.
     res_bind (res_bind (item_str item ''dedupe_key'') safe_ref) (\<lambda>dkey.
     res_bind (res_bind (item_str item ''payload_ref'') safe_ref) (\<lambda>ref.
     Inr \<lparr>envelope = e, dedupe_key = dkey, payload_ref = ref, job_state = st, attempts = n,
          job_error = (if st = FAILED then Some ''worker execution failed'' else None)\<rparr>)))))"

definition add_restored :: "LocalJob \<Rightarrow> LocalTenantWorker \<Rightarrow> LocalTenantWorker cloud" where
  "add_restored j w = (let e = envelope j; jid = job_id e;
       key = (w_tenant_id e, dedupe_key j); nkey = (w_tenant_id e, w_nonce e)
     in if attempts j < 0 \<or> job_state j \<notin> {PENDING, FAILED} then Inr w
        else if dict_get (jobs w) jid \<noteq> None \<or> dict_get (dedupe w) key \<noteq> None \<or>
                dict_get (nonces w) nkey \<noteq> None
        then Inl CloudValueError
        else Inr (w\<lparr>jobs := dict_set jid j (jobs w), dedupe := dict_set key jid (dedupe w),
                    nonces := dict_set nkey jid (nonces w)\<rparr>))"

fun restore_items ::
  "mac \<Rightarrow> (string \<Rightarrow> datetime option) \<Rightarrow> datetime \<Rightarrow> snap_item list \<Rightarrow> LocalTenantWorker \<Rightarrow>
     LocalTenantWorker cloud" where
  "restore_items mac fromiso now [] w = Inr w"
| "restore_items mac fromiso now (item # items) w =
     res_bind (restore_item mac fromiso (worker_secret w) now item) (\<lambda>j.
     res_bind (add_restored j w) (restore_items mac fromiso now items))"

definition worker_restore ::
  "mac \<Rightarrow> (string \<Rightarrow> datetime option) \<Rightarrow> datetime \<Rightarrow> snap_item list \<Rightarrow> LocalTenantWorker \<Rightarrow>
     int cloud \<times> LocalTenantWorker" where
  "worker_restore mac fromiso now items w =
     (case restore_items mac fromiso now items (w\<lparr>jobs := [], dedupe := [], nonces := []\<rparr>) of
        Inl e \<Rightarrow> (Inl CloudPermissionError, w)
      | Inr w' \<Rightarrow> (Inr (int (length (jobs w'))), w'))"

section \<open>Re-embedding one memory\<close>

text \<open>
  \<open>reembed_memory\<close> over a \<open>ReembeddingStore\<close>: its \<open>get\<close> returns the version and content of
  the owner's record, its \<open>store_embedding\<close> whether the vector was kept. The embedding
  function is an argument.
\<close>

record ('x, 'v) ReembeddingStore =
  rs_get :: "string \<Rightarrow> string \<Rightarrow> 'x \<Rightarrow> (int \<times> string) option cloud"
  rs_store :: "string \<Rightarrow> string \<Rightarrow> int \<Rightarrow> 'v \<Rightarrow> 'x \<Rightarrow> bool cloud \<times> 'x"

definition payload_target :: "string \<Rightarrow> (string \<times> int) option" where
  "payload_target ref = (case rsplit_once (CHR '':'') ref of
     None \<Rightarrow> None
   | Some (mid, raw) \<Rightarrow> (case py_int 10 raw of
       None \<Rightarrow> None
     | Some v \<Rightarrow> if mid = [] \<or> v < 1 then None else Some (mid, v)))"

definition cloud_owner :: "uuid \<Rightarrow> uuid \<Rightarrow> string" where
  "cloud_owner tenant subject = ''cloud:'' @ uuid_str tenant @ '':'' @ uuid_str subject"

definition reembed_memory ::
  "('x, 'v) ReembeddingStore \<Rightarrow> (string \<Rightarrow> 'v cloud) \<Rightarrow> LocalJob \<Rightarrow> 'x \<Rightarrow> JobState cloud \<times> 'x" where
  "reembed_memory store emb j x = (case payload_target (payload_ref j) of
     None \<Rightarrow> (Inr STALE_JOB, x)
   | Some (mid, version) \<Rightarrow>
       let owner = cloud_owner (w_tenant_id (envelope j)) (principal_id (envelope j)) in
       (case rs_get store owner mid x of
          Inl e \<Rightarrow> (Inl e, x)
        | Inr None \<Rightarrow> (Inr STALE_JOB, x)
        | Inr (Some (v, content)) \<Rightarrow>
            if v \<noteq> version then (Inr STALE_JOB, x)
            else (case emb content of
                Inl e \<Rightarrow> (Inl e, x)
              | Inr vec \<Rightarrow> (case rs_store store owner mid version vec x of
                  (Inl e, x') \<Rightarrow> (Inl e, x')
                | (Inr kept, x') \<Rightarrow> (Inr (if kept then READY else STALE_JOB), x')))))"

end
