(* ===== verification/Worker_Properties.thy ===== *)
theory Worker_Properties
  imports Cloud_Worker
begin

text \<open>
  Correctness of the tenant worker: the invariant of its tables over every sequence of
  \<open>enqueue\<close> and \<open>run_one\<close> calls, at-most-once queueing, the retry budget, and the snapshot
  round trip.
\<close>

section \<open>The invariant\<close>

definition job_ok :: "int \<Rightarrow> LocalJob \<Rightarrow> bool" where
  "job_ok budget j \<longleftrightarrow>
     safe_ref (dedupe_key j) = Inr (dedupe_key j) \<and> safe_ref (payload_ref j) = Inr (payload_ref j) \<and>
     0 \<le> attempts j \<and> attempts j \<le> budget \<and>
     (job_state j = FAILED \<longrightarrow> attempts j < budget) \<and>
     (job_state j = DEAD_LETTER \<longrightarrow> attempts j = budget) \<and>
     (job_state j = PENDING \<longrightarrow> attempts j = 0) \<and>
     job_error j = (if job_state j \<in> {FAILED, DEAD_LETTER} then Some ''worker execution failed''
                    else None)"

definition worker_ok :: "LocalTenantWorker \<Rightarrow> bool" where
  "worker_ok w \<longleftrightarrow>
     1 \<le> max_attempts w \<and> dict_ok (jobs w) \<and> dict_ok (dedupe w) \<and> dict_ok (nonces w) \<and>
     (\<forall>jid j. dict_get (jobs w) jid = Some j \<longrightarrow>
        job_id (envelope j) = jid \<and> job_ok (max_attempts w) j \<and>
        dict_get (dedupe w) (w_tenant_id (envelope j), dedupe_key j) = Some jid \<and>
        dict_get (nonces w) (w_tenant_id (envelope j), w_nonce (envelope j)) = Some jid) \<and>
     (\<forall>k jid. dict_get (dedupe w) k = Some jid \<longrightarrow> dict_get (jobs w) jid \<noteq> None)"

lemma safe_ref_Inr: "safe_ref v = Inr u \<longleftrightarrow> u = v \<and> v \<noteq> [] \<and> length v \<le> 256 \<and> list_all ref_char v"
  by (auto simp: safe_ref_def)

lemma worker_init_ok: "worker_init secret n = Inr w \<Longrightarrow> worker_ok w"
  by (auto simp: worker_init_def worker_ok_def split: if_splits)

lemma job_ok_new: "safe_ref d = Inr d \<Longrightarrow> safe_ref r = Inr r \<Longrightarrow> 1 \<le> n \<Longrightarrow> job_ok n (new_job e d r)"
  by (simp add: job_ok_def new_job_def)

text \<open>What a successful \<open>enqueue\<close> does: return the queued job, or queue a new one.\<close>

lemma worker_enqueue_Inr:
  "worker_enqueue mac now e d r w = (Inr j, w') \<longleftrightarrow>
     envelope_verify mac (worker_secret w) now e = Inr () \<and> safe_ref d = Inr d \<and> safe_ref r = Inr r \<and>
     (case dict_get (dedupe w) (w_tenant_id e, d) of
        Some jid \<Rightarrow> dict_get (jobs w) jid = Some j \<and> w' = w
      | None \<Rightarrow> dict_get (nonces w) (w_tenant_id e, w_nonce e) = None \<and> j = new_job e d r \<and>
          w' = w\<lparr>jobs := dict_set (job_id e) (new_job e d r) (jobs w),
             dedupe := dict_set (w_tenant_id e, d) (job_id e) (dedupe w),
             nonces := dict_set (w_tenant_id e, w_nonce e) (job_id e) (nonces w)\<rparr>)"
  by (cases "dict_get (dedupe w) (w_tenant_id e, d)")
     (auto simp: worker_enqueue_def act_simps safe_ref_Inr split: option.splits)

lemma worker_enqueue_Inl: "worker_enqueue mac now e d r w = (Inl err, w') \<Longrightarrow> w' = w"
  by (auto simp: worker_enqueue_def act_bind_def act_run split: prod.splits sum.splits option.splits)

lemma worker_enqueue_ok:
  assumes "worker_ok w" "worker_enqueue mac now e d r w = (res, w')"
  shows "worker_ok w'"
proof (cases res)
  case (Inl err)
  with assms show ?thesis by (auto dest: worker_enqueue_Inl)
next
  case (Inr j)
  with assms(2) have enq: "worker_enqueue mac now e d r w = (Inr j, w')" by simp
  show ?thesis
  proof (cases "dict_get (dedupe w) (w_tenant_id e, d)")
    case (Some jid)
    with enq assms(1) show ?thesis by (simp add: worker_enqueue_Inr)
  next
    case None
    with enq have refs: "safe_ref d = Inr d" "safe_ref r = Inr r"
      and fresh: "dict_get (nonces w) (w_tenant_id e, w_nonce e) = None"
      and w': "w' = w\<lparr>jobs := dict_set (job_id e) (new_job e d r) (jobs w),
             dedupe := dict_set (w_tenant_id e, d) (job_id e) (dedupe w),
             nonces := dict_set (w_tenant_id e, w_nonce e) (job_id e) (nonces w)\<rparr>"
      by (simp_all add: worker_enqueue_Inr)
    have new: "job_ok (max_attempts w) (new_job e d r)" "envelope (new_job e d r) = e"
        "dedupe_key (new_job e d r) = d"
      using assms(1) refs by (simp_all add: job_ok_new worker_ok_def) (simp_all add: new_job_def)
    show ?thesis
      using assms(1) fresh None new
      by (auto simp: worker_ok_def w' update_conv' distinct_update) (metis option.distinct(1))+
  qed
qed

lemma envelope_attempts [simp]: "envelope (j\<lparr>attempts := n\<rparr>) = envelope j"
  by simp

lemma attempt_job_fields:
  assumes "attempt_job mac s now h j x = ((j', ok), x')"
  shows "envelope j' = envelope j \<and> dedupe_key j' = dedupe_key j \<and> payload_ref j' = payload_ref j \<and>
     (ok \<longrightarrow> attempts j' = attempts j + 1 \<and> job_state j' \<in> {READY, STALE_JOB} \<and> job_error j' = None) \<and>
     (\<not> ok \<longrightarrow> attempts j' \<in> {attempts j, attempts j + 1} \<and> job_state j' = job_state j)"
  using assms by (auto simp: attempt_job_def Let_def split: sum.splits if_splits prod.splits)

lemma run_job_frame:
  assumes "run_job mac s n now h j x = (j', x')"
  shows "envelope j' = envelope j \<and> dedupe_key j' = dedupe_key j \<and> payload_ref j' = payload_ref j"
  using assms
  by (auto simp: run_job_def failed_job_def Let_def split: if_splits prod.splits
      dest: attempt_job_fields)

lemma run_job_ok:
  assumes "job_ok n j" "1 \<le> n" "run_job mac s n now h j x = (j', x')"
  shows "job_ok n j'"
proof (cases "terminal (job_state j)")
  case True
  with assms show ?thesis by (simp add: run_job_def)
next
  case False
  obtain j1 ok x1 where a: "attempt_job mac s now h j x = ((j1, ok), x1)"
    by (metis prod.exhaust)
  have j': "j' = (if ok then j1 else failed_job n j1)"
    using assms(3) False a by (simp add: run_job_def)
  have lt: "attempts j < n"
    using assms(1,2) False by (cases "job_state j") (simp_all add: job_ok_def terminal_def)
  show ?thesis
    using attempt_job_fields [OF a] assms(1) lt
    by (cases ok) (auto simp: j' job_ok_def failed_job_def)
qed

lemma worker_run_one_ok:
  assumes "worker_ok w" "worker_run_one mac now h jid w x = ((res, w'), x')"
  shows "worker_ok w'"
proof (cases "dict_get (jobs w) jid")
  case None
  with assms show ?thesis by (simp add: worker_run_one_def)
next
  case (Some j)
  obtain j' where r: "run_job mac (worker_secret w) (max_attempts w) now h j x = (j', x')"
    and w': "w' = w\<lparr>jobs := dict_set jid j' (jobs w)\<rparr>"
    using assms(2) Some by (auto simp: worker_run_one_def split: prod.splits)
  from assms(1) Some have "job_ok (max_attempts w) j" "1 \<le> max_attempts w"
    by (auto simp: worker_ok_def)
  with r have "job_ok (max_attempts w) j'" by (blast intro: run_job_ok)
  with run_job_frame [OF r] assms(1) Some show ?thesis
    by (auto simp: worker_ok_def w' update_conv' distinct_update)
qed

text \<open>Runs of the worker next to the component its handlers work on.\<close>

inductive worker_step :: "mac \<Rightarrow> LocalTenantWorker \<times> 'x \<Rightarrow> LocalTenantWorker \<times> 'x \<Rightarrow> bool"
  for mac where
  step_enqueue: "worker_enqueue mac now e d r w = (res, w') \<Longrightarrow> worker_step mac (w, x) (w', x)"
| step_run_one: "worker_run_one mac now h jid w x = ((res', w'), x') \<Longrightarrow> worker_step mac (w, x) (w', x')"

inductive_cases worker_stepE [elim]: "worker_step mac (w, x) (w', x')"

lemma worker_step_ok: "worker_step mac p q \<Longrightarrow> worker_ok (fst p) \<Longrightarrow> worker_ok (fst q)"
  by (induction rule: worker_step.induct) (auto intro: worker_enqueue_ok worker_run_one_ok)

lemma worker_steps_ok: "(worker_step mac)\<^sup>*\<^sup>* p q \<Longrightarrow> worker_ok (fst p) \<Longrightarrow> worker_ok (fst q)"
  by (induction rule: rtranclp_induct) (auto intro: worker_step_ok)

section \<open>Retries\<close>

fun worker_runs ::
  "mac \<Rightarrow> (LocalJob \<Rightarrow> 'x \<Rightarrow> JobState cloud \<times> 'x) \<Rightarrow> uuid \<Rightarrow> datetime list \<Rightarrow>
     LocalTenantWorker \<Rightarrow> 'x \<Rightarrow> LocalTenantWorker \<times> 'x" where
  "worker_runs mac h jid [] w x = (w, x)"
| "worker_runs mac h jid (now # nows) w x =
     (let ((_, w'), x') = worker_run_one mac now h jid w x in worker_runs mac h jid nows w' x')"

definition always_fails :: "(LocalJob \<Rightarrow> 'x \<Rightarrow> JobState cloud \<times> 'x) \<Rightarrow> bool" where
  "always_fails h \<longleftrightarrow> (\<forall>j x. fst (h j x) \<notin> {Inr READY, Inr STALE_JOB})"

lemma run_job_failing:
  assumes "always_fails h" "\<not> terminal (job_state j)"
    and "envelope_verify mac s now (envelope j) = Inr ()"
  shows "fst (run_job mac s n now h j x) = j\<lparr>attempts := attempts j + 1,
     job_state := (if attempts j + 1 \<ge> n then DEAD_LETTER else FAILED),
     job_error := Some ''worker execution failed''\<rparr>"
proof -
  obtain r x1 where h: "h (j\<lparr>attempts := attempts j + 1\<rparr>) x = (r, x1)"
    by (metis prod.exhaust)
  from assms(1) h have "r \<notin> {Inr READY, Inr STALE_JOB}"
    by (metis always_fails_def fst_conv)
  then have "attempt_job mac s now h j x = ((j\<lparr>attempts := attempts j + 1\<rparr>, False), x1)"
    using h assms(3) by (auto simp: attempt_job_def Let_def split: sum.splits)
  then show ?thesis using assms(2) by (simp add: run_job_def failed_job_def)
qed

lemma worker_run_one_failing:
  assumes "always_fails h" "dict_get (jobs w) jid = Some j" "\<not> terminal (job_state j)"
    and "envelope_verify mac (worker_secret w) now (envelope j) = Inr ()"
    and "worker_run_one mac now h jid w x = ((res, w'), x')"
  shows "worker_secret w' = worker_secret w \<and> max_attempts w' = max_attempts w \<and>
     dict_get (jobs w') jid = Some (j\<lparr>attempts := attempts j + 1,
       job_state := (if attempts j + 1 \<ge> max_attempts w then DEAD_LETTER else FAILED),
       job_error := Some ''worker execution failed''\<rparr>)"
  using run_job_failing [OF assms(1,3,4), of "max_attempts w" x] assms(2,5)
  by (auto simp: worker_run_one_def update_conv' split: prod.splits)

lemma worker_runs_failing:
  assumes "always_fails h" "dict_get (jobs w) jid = Some j" "\<not> terminal (job_state j)"
    and "\<forall>now\<in>set nows. envelope_verify mac (worker_secret w) now (envelope j) = Inr ()"
    and "nows \<noteq> []" "attempts j + int (length nows) = max_attempts w"
  shows "\<exists>w' x' j'. worker_runs mac h jid nows w x = (w', x') \<and>
     dict_get (jobs w') jid = Some j' \<and> job_state j' = DEAD_LETTER \<and> attempts j' = max_attempts w"
  using assms
proof (induction nows arbitrary: w x j)
  case Nil
  then show ?case by simp
next
  case (Cons now nows)
  obtain res w1 x1 where r: "worker_run_one mac now h jid w x = ((res, w1), x1)"
    by (metis prod.exhaust)
  let ?j = "j\<lparr>attempts := attempts j + 1,
       job_state := (if attempts j + 1 \<ge> max_attempts w then DEAD_LETTER else FAILED),
       job_error := Some ''worker execution failed''\<rparr>"
  have w1: "worker_secret w1 = worker_secret w" "max_attempts w1 = max_attempts w"
      "dict_get (jobs w1) jid = Some ?j"
    using worker_run_one_failing [OF Cons.prems(1-3) _ r] Cons.prems(4) by simp_all
  show ?case
  proof (cases "nows = []")
    case True
    with w1 Cons.prems(6) r show ?thesis by (auto simp: Let_def)
  next
    case False
    then have "\<not> terminal (job_state ?j)" using Cons.prems(6) by (cases nows) (auto simp: terminal_def)
    from Cons.IH [OF Cons.prems(1) w1(3) this, of x1] False Cons.prems(4,6) w1(1,2) r
    show ?thesis by (auto simp: Let_def)
  qed
qed

section \<open>Snapshots\<close>

definition mac_ascii :: "mac \<Rightarrow> bool" where
  "mac_ascii mac \<longleftrightarrow> (\<forall>k m. list_all ascii_char (mac k m))"

lemma job_state_of_value [simp]: "job_state_of (job_state_value s) = Some s"
  by (cases s) (simp_all add: job_state_of_def)

lemma item_get_job_item:
  "item_get (job_item j) ''job_id'' = Inr (SStr (uuid_str (job_id (envelope j))))"
  "item_get (job_item j) ''tenant_id'' = Inr (SStr (uuid_str (w_tenant_id (envelope j))))"
  "item_get (job_item j) ''principal_id'' = Inr (SStr (uuid_str (principal_id (envelope j))))"
  "item_get (job_item j) ''expires_at'' = Inr (SStr (isoformat (expires_at (envelope j))))"
  "item_get (job_item j) ''nonce'' = Inr (SStr (w_nonce (envelope j)))"
  "item_get (job_item j) ''signature'' = Inr (SStr (signature (envelope j)))"
  "item_get (job_item j) ''dedupe_key'' = Inr (SStr (dedupe_key j))"
  "item_get (job_item j) ''payload_ref'' = Inr (SStr (payload_ref j))"
  "item_get (job_item j) ''state'' = Inr (SStr (job_state_value (job_state j)))"
  "item_get (job_item j) ''attempts'' = Inr (SInt (attempts j))"
  by (simp_all add: item_get_def job_item_def Let_def)

lemma item_get_signed:
  "k \<noteq> ''snapshot_signature'' \<Longrightarrow>
     item_get (dict_set ''snapshot_signature'' v item) k = item_get item k"
  "item_get (dict_set ''snapshot_signature'' v item) ''snapshot_signature'' = Inr v"
  by (simp_all add: item_get_def update_conv')

lemma snapshot_input_signed:
  "snapshot_input (dict_set ''snapshot_signature'' v item) = snapshot_input item"
  by (simp add: snapshot_input_def snapshot_keys_def item_get_signed)

lemma snapshot_job_Inr:
  obtains input where "snapshot_input (job_item j) = Inr input"
    and "snapshot_job mac s j =
      Inr (dict_set ''snapshot_signature'' (SStr (mac s input)) (job_item j))"
proof -
  have "\<exists>input. snapshot_input (job_item j) = Inr input"
    by (simp add: snapshot_input_def snapshot_keys_def item_get_job_item)
  then show thesis using that by (auto simp: snapshot_job_def)
qed

lemma compare_digest_same: "mac_ascii mac \<Longrightarrow> compare_digest (mac s m) (mac s m) = Inr True"
  by (simp add: compare_digest_def mac_ascii_def)

lemma restore_envelope_snapshot:
  assumes "mac_ascii mac" "snapshot_job mac s j = Inr item"
    and "fromiso (isoformat (expires_at (envelope j))) = Some (expires_at (envelope j))"
  shows "restore_envelope mac fromiso s now item =
     res_bind (envelope_verify mac s now (envelope j)) (\<lambda>_. Inr (envelope j))"
proof -
  obtain input where i: "snapshot_input (job_item j) = Inr input"
    and "snapshot_job mac s j =
      Inr (dict_set ''snapshot_signature'' (SStr (mac s input)) (job_item j))"
    by (rule snapshot_job_Inr)
  with assms(2) have item:
    "item = dict_set ''snapshot_signature'' (SStr (mac s input)) (job_item j)" by simp
  have eta: "\<lparr>job_id = job_id e, w_tenant_id = w_tenant_id e, principal_id = principal_id e,
      expires_at = expires_at e, w_nonce = w_nonce e, signature = signature e\<rparr> = e"
    for e :: WorkerEnvelope by simp
  show ?thesis
    using assms(3)
    by (simp add: restore_envelope_def item eta item_str_def uuid_field_def item_get_signed
        item_get_job_item snapshot_input_signed i compare_digest_same [OF assms(1)] opt_or_def Let_def)
qed

definition restored_job :: "LocalJob \<Rightarrow> LocalJob" where
  "restored_job j = j\<lparr>job_error :=
     (if job_state j = FAILED then Some ''worker execution failed'' else None)\<rparr>"

lemma restore_item_snapshot:
  assumes "mac_ascii mac" "snapshot_job mac s j = Inr item" "job_ok n j"
    and "fromiso (isoformat (expires_at (envelope j))) = Some (expires_at (envelope j))"
  shows "restore_item mac fromiso s now item =
     res_bind (envelope_verify mac s now (envelope j)) (\<lambda>_. Inr (restored_job j))"
proof -
  obtain input where
    "snapshot_job mac s j =
      Inr (dict_set ''snapshot_signature'' (SStr (mac s input)) (job_item j))"
    by (rule snapshot_job_Inr)
  with assms(2) have item:
    "item = dict_set ''snapshot_signature'' (SStr (mac s input)) (job_item j)" by simp
  have refs: "safe_ref (dedupe_key j) = Inr (dedupe_key j)"
      "safe_ref (payload_ref j) = Inr (payload_ref j)"
    using assms(3) by (simp_all add: job_ok_def)
  show ?thesis
    unfolding restore_item_def
      restore_envelope_snapshot [where fromiso = fromiso, OF assms(1,2,4)]
    by (cases "envelope_verify mac s now (envelope j)")
       (simp_all add: item item_str_def item_get_signed item_get_job_item refs py_int_int_str
         opt_or_def restored_job_def)
qed

definition live :: "LocalJob \<Rightarrow> bool" where
  "live j \<longleftrightarrow> \<not> terminal (job_state j)"

lemma live_iff: "live j \<longleftrightarrow> job_state j = PENDING \<or> job_state j = FAILED"
  by (cases "job_state j") (simp_all add: live_def terminal_def)

lemma restored_job_live: "job_ok n j \<Longrightarrow> live j \<Longrightarrow> restored_job j = j"
  by (auto simp: restored_job_def job_ok_def live_iff)

definition dedupe_entry :: "uuid \<times> LocalJob \<Rightarrow> (uuid \<times> string) \<times> uuid" where
  "dedupe_entry p = ((w_tenant_id (envelope (snd p)), dedupe_key (snd p)), fst p)"

definition nonce_entry :: "uuid \<times> LocalJob \<Rightarrow> (uuid \<times> string) \<times> uuid" where
  "nonce_entry p = ((w_tenant_id (envelope (snd p)), w_nonce (envelope (snd p))), fst p)"

definition add_live :: "(uuid \<times> LocalJob) list \<Rightarrow> LocalTenantWorker \<Rightarrow> LocalTenantWorker" where
  "add_live ps w = (let qs = filter (\<lambda>p. live (snd p)) ps in
     w\<lparr>jobs := jobs w @ qs, dedupe := dedupe w @ map dedupe_entry qs,
       nonces := nonces w @ map nonce_entry qs\<rparr>)"

lemma add_live_Nil [simp]: "add_live [] w = w"
  by (simp add: add_live_def)

lemma add_live_Cons: "add_live (p # ps) w = add_live ps (add_live [p] w)"
  by (simp add: add_live_def Let_def)

lemma map_of_None_D: "map_of xs k = None \<Longrightarrow> (k, v) \<notin> set xs"
  by (metis map_of_eq_None_iff fst_conv image_eqI)

lemma add_restored_live:
  assumes "job_ok n j" "job_id (envelope j) = jid"
    and "dict_get (jobs a) jid = None" "dict_get (dedupe a) (fst (dedupe_entry (jid, j))) = None"
      "dict_get (nonces a) (fst (nonce_entry (jid, j))) = None"
  shows "add_restored (restored_job j) a = Inr (add_live [(jid, j)] a)"
proof (cases "live j")
  case True
  with assms restored_job_live [OF assms(1) True] show ?thesis
    by (auto simp: add_restored_def add_live_def Let_def live_iff job_ok_def dedupe_entry_def
        nonce_entry_def dict_set_new)
next
  case False
  then show ?thesis
    by (auto simp: add_restored_def add_live_def Let_def live_iff restored_job_def)
qed

lemma worker_ok_job:
  assumes "worker_ok w" "dict_get (jobs w) jid = Some j"
  shows "job_id (envelope j) = jid" "job_ok (max_attempts w) j"
    and "dict_get (dedupe w) (w_tenant_id (envelope j), dedupe_key j) = Some jid"
    and "dict_get (nonces w) (w_tenant_id (envelope j), w_nonce (envelope j)) = Some jid"
  using assms by (auto simp: worker_ok_def)

lemma worker_ok_live_attempts:
  assumes "worker_ok w" "dict_get (jobs w) jid = Some j" "\<not> terminal (job_state j)"
  shows "attempts j < max_attempts w"
proof -
  have "1 \<le> max_attempts w" using assms(1) by (simp add: worker_ok_def)
  with worker_ok_job(2) [OF assms(1,2)] assms(3) show ?thesis
    by (cases "job_state j") (simp_all add: job_ok_def terminal_def)
qed

lemma worker_ok_mem: "worker_ok w \<Longrightarrow> (i, j) \<in> set (jobs w) \<longleftrightarrow> dict_get (jobs w) i = Some j"
  by (rule dict_get_mem) (simp add: worker_ok_def)

lemma worker_ok_entries:
  assumes "worker_ok w" "(i, j) \<in> set (jobs w)" "(i', j') \<in> set (jobs w)"
    and "fst (dedupe_entry (i, j)) = fst (dedupe_entry (i', j')) \<or>
         fst (nonce_entry (i, j)) = fst (nonce_entry (i', j'))"
  shows "i = i'"
proof -
  have g: "dict_get (jobs w) i = Some j" "dict_get (jobs w) i' = Some j'"
    using assms(2,3) by (simp_all add: worker_ok_mem [OF assms(1)])
  note e = worker_ok_job(3,4) [OF assms(1) g(1)] worker_ok_job(3,4) [OF assms(1) g(2)]
  from assms(4) have "Some i = Some i'"
  proof
    assume "fst (dedupe_entry (i, j)) = fst (dedupe_entry (i', j'))"
    then show ?thesis using e(1,3) by (simp add: dedupe_entry_def)
  next
    assume "fst (nonce_entry (i, j)) = fst (nonce_entry (i', j'))"
    then show ?thesis using e(2,4) by (simp add: nonce_entry_def)
  qed
  then show ?thesis by simp
qed

lemma notin_image_subset: "A \<subseteq> f ` B \<Longrightarrow> (\<And>q. q \<in> B \<Longrightarrow> f q \<noteq> x) \<Longrightarrow> x \<notin> A"
  by blast

lemma restore_items_snapshot:
  assumes "mac_ascii mac" "worker_ok w" "worker_secret a = worker_secret w"
    and "jobs w = prev @ ps" "a = add_live prev a0"
    and "jobs a0 = []" "dedupe a0 = []" "nonces a0 = []"
    and "res_map (snapshot_job mac (worker_secret w)) (map snd ps) = Inr items"
    and "\<forall>(i, j)\<in>set ps. envelope_verify mac (worker_secret w) now (envelope j) = Inr () \<and>
      fromiso (isoformat (expires_at (envelope j))) = Some (expires_at (envelope j))"
  shows "restore_items mac fromiso now items a = Inr (add_live ps a)"
  using assms
proof (induction ps arbitrary: prev a items)
  case Nil
  then show ?case by simp
next
  case (Cons p ps)
  obtain i j where p: "p = (i, j)" by (cases p)
  from Cons.prems(9) p obtain it its where it: "snapshot_job mac (worker_secret w) j = Inr it"
    and its: "res_map (snapshot_job mac (worker_secret w)) (map snd ps) = Inr its"
    and items: "items = it # its"
    by (auto simp: act_simps)
  have mem: "(i, j) \<in> set (jobs w)" using Cons.prems(4) p by simp
  have jok: "job_ok (max_attempts w) j" "job_id (envelope j) = i"
    using worker_ok_job [OF Cons.prems(2)] mem by (simp_all add: worker_ok_mem [OF Cons.prems(2)])
  have fresh: "i \<notin> fst ` set prev"
    using Cons.prems(2,4) p by (auto simp: worker_ok_def)
  have other: "fst (dedupe_entry q) \<noteq> fst (dedupe_entry (i, j)) \<and>
      fst (nonce_entry q) \<noteq> fst (nonce_entry (i, j)) \<and> fst q \<noteq> i" if "q \<in> set prev" for q
  proof -
    obtain i' j' where q: "q = (i', j')" by (cases q)
    with that Cons.prems(4) have "(i', j') \<in> set (jobs w)" by simp
    from worker_ok_entries [OF Cons.prems(2) this mem] fresh q that show ?thesis by force
  qed
  have keys: "fst ` set (jobs a) \<subseteq> fst ` set prev"
      "fst ` set (dedupe a) \<subseteq> (\<lambda>q. fst (dedupe_entry q)) ` set prev"
      "fst ` set (nonces a) \<subseteq> (\<lambda>q. fst (nonce_entry q)) ` set prev"
    unfolding Cons.prems(5) using Cons.prems(6-8) by (auto simp: add_live_def Let_def)
  have none: "dict_get (jobs a) i = None" "dict_get (dedupe a) (fst (dedupe_entry (i, j))) = None"
      "dict_get (nonces a) (fst (nonce_entry (i, j))) = None"
    unfolding map_of_eq_None_iff
    by (rule contra_subsetD [OF keys(1) fresh], rule notin_image_subset [OF keys(2)],
        use other in blast, rule notin_image_subset [OF keys(3)], use other in blast)
  have "restore_item mac fromiso (worker_secret a) now it = Inr (restored_job j)"
    using restore_item_snapshot [OF Cons.prems(1) it jok(1), of fromiso now] Cons.prems(3,10) p by simp
  moreover have "add_restored (restored_job j) a = Inr (add_live [p] a)"
    unfolding p by (rule add_restored_live [OF jok none])
  moreover have "restore_items mac fromiso now its (add_live [p] a) = Inr (add_live ps (add_live [p] a))"
  proof (rule Cons.IH [of "add_live [p] a" "prev @ [p]" its])
    show "add_live [p] a = add_live (prev @ [p]) a0"
      by (simp add: Cons.prems(5) add_live_def Let_def)
  qed (use Cons.prems its in \<open>simp_all add: add_live_def Let_def\<close>)
  ultimately show ?case by (simp add: items add_live_Cons [of p ps])
qed

lemma add_restored_secret: "add_restored j a = Inr a' \<Longrightarrow> worker_secret a' = worker_secret a"
  by (auto simp: add_restored_def Let_def split: if_splits)

lemma restore_items_expired:
  assumes "mac_ascii mac" "worker_secret a = s"
    and "res_map (snapshot_job mac s) js = Inr items" "\<forall>j\<in>set js. job_ok n j"
    and "\<forall>j\<in>set js. fromiso (isoformat (expires_at (envelope j))) = Some (expires_at (envelope j))"
    and "j \<in> set js" "envelope_verify mac s now (envelope j) \<noteq> Inr ()"
  shows "\<exists>e. restore_items mac fromiso now items a = Inl e"
  using assms
proof (induction js arbitrary: a items)
  case Nil
  then show ?case by simp
next
  case (Cons k js)
  from Cons.prems(3) obtain it its where it: "snapshot_job mac s k = Inr it"
    and its: "res_map (snapshot_job mac s) js = Inr its" and items: "items = it # its"
    by (auto simp: act_simps)
  have r: "restore_item mac fromiso s now it =
      res_bind (envelope_verify mac s now (envelope k)) (\<lambda>_. Inr (restored_job k))"
    using Cons.prems by (intro restore_item_snapshot [OF Cons.prems(1) it]) auto
  show ?case
  proof (cases "restore_items mac fromiso now items a")
    case (Inr b)
    then obtain a' where a': "add_restored (restored_job k) a = Inr a'"
      and rest: "restore_items mac fromiso now its a' = Inr b"
      and ok: "envelope_verify mac s now (envelope k) = Inr ()"
      using r Cons.prems(2) by (auto simp: items act_simps)
    from ok Cons.prems(6,7) have "j \<in> set js" by auto
    from Cons.IH [OF Cons.prems(1) _ its _ _ this Cons.prems(7)] add_restored_secret [OF a']
      Cons.prems(2,4,5) rest
    show ?thesis by fastforce
  qed simp
qed

section \<open>What later steps keep\<close>

lemma worker_step_keeps:
  "worker_step mac p q \<Longrightarrow> worker_secret (fst q) = worker_secret (fst p) \<and>
     max_attempts (fst q) = max_attempts (fst p) \<and>
     (dict_get (dedupe (fst p)) k = Some jid \<longrightarrow> dict_get (dedupe (fst q)) k = Some jid) \<and>
     (dict_get (nonces (fst p)) k' \<noteq> None \<longrightarrow> dict_get (nonces (fst q)) k' \<noteq> None)"
proof (induction rule: worker_step.induct)
  case (step_enqueue now e d r w res w' x)
  show ?case
  proof (cases res)
    case (Inl err)
    with step_enqueue show ?thesis by (auto dest: worker_enqueue_Inl)
  next
    case (Inr j)
    with step_enqueue show ?thesis
      by (auto simp: worker_enqueue_Inr update_conv' split: option.splits)
  qed
next
  case (step_run_one now h jid w x res w' x')
  then show ?case
    by (auto simp: worker_run_one_def Let_def split: option.splits prod.splits)
qed

lemma worker_steps_keep:
  "(worker_step mac)\<^sup>*\<^sup>* p q \<Longrightarrow> worker_secret (fst q) = worker_secret (fst p) \<and>
     max_attempts (fst q) = max_attempts (fst p) \<and>
     (dict_get (dedupe (fst p)) k = Some jid \<longrightarrow> dict_get (dedupe (fst q)) k = Some jid) \<and>
     (dict_get (nonces (fst p)) k' \<noteq> None \<longrightarrow> dict_get (nonces (fst q)) k' \<noteq> None)"
proof (induction rule: rtranclp_induct)
  case (step y z)
  from worker_step_keeps [OF step(2), of k jid k'] step(3) show ?case by auto
qed simp

lemma run_job_expired:
  assumes "envelope_verify mac s now (envelope j) \<noteq> Inr ()" "\<not> terminal (job_state j)"
  shows "run_job mac s n now h j x = (failed_job n j, x)"
  using assms by (auto simp: run_job_def attempt_job_def split: sum.splits)

lemma worker_runs_expired:
  assumes "worker_ok w" "dict_get (jobs w) jid = Some j" "\<not> terminal (job_state j)"
    and "\<forall>now\<in>set nows. envelope_verify mac (worker_secret w) now (envelope j) \<noteq> Inr ()"
    and "worker_runs mac h jid nows w x = (w', x')"
  shows "x' = x \<and> (\<exists>j'. dict_get (jobs w') jid = Some j' \<and> \<not> terminal (job_state j') \<and>
     attempts j' = attempts j)"
  using assms
proof (induction nows arbitrary: w j)
  case Nil
  then show ?case by simp
next
  case (Cons now nows)
  let ?w = "w\<lparr>jobs := dict_set jid (failed_job (max_attempts w) j) (jobs w)\<rparr>"
  have r: "worker_run_one mac now h jid w x = ((Inr (failed_job (max_attempts w) j), ?w), x)"
    using run_job_expired [OF _ Cons.prems(3), of mac "worker_secret w" now "max_attempts w" h x]
      Cons.prems(2,4) by (simp add: worker_run_one_def)
  have "attempts j < max_attempts w" by (rule worker_ok_live_attempts [OF Cons.prems(1-3)])
  then have f: "\<not> terminal (job_state (failed_job (max_attempts w) j))"
      "attempts (failed_job (max_attempts w) j) = attempts j"
      "envelope (failed_job (max_attempts w) j) = envelope j"
    by (simp_all add: failed_job_def terminal_def)
  have "dict_get (jobs ?w) jid = Some (failed_job (max_attempts w) j)"
    by (simp add: update_conv')
  from Cons.IH [OF worker_run_one_ok [OF Cons.prems(1) r] this f(1)] Cons.prems(4,5) f r
  show ?case by simp
qed

section \<open>A worker with two jobs, for the concrete instances\<close>

definition ex_mac :: mac where
  "ex_mac k m = (if k = ''key'' then ''00ff'' else ''aa'')"

definition ex_time :: "int \<Rightarrow> datetime" where
  "ex_time n = \<lparr>dt_local = 63000000000000000 + n, dt_offset = Some 0\<rparr>"

definition ex_job_envelope :: "uuid \<Rightarrow> uuid \<Rightarrow> string \<Rightarrow> WorkerEnvelope" where
  "ex_job_envelope jid tid n = envelope_sign ex_mac jid tid 7 (ex_time 100) n ''key''"

definition ex_worker0 :: LocalTenantWorker where
  "ex_worker0 = \<lparr>worker_secret = ''key'', max_attempts = 2, jobs = [], dedupe = [], nonces = []\<rparr>"

definition ex_worker1 :: LocalTenantWorker where
  "ex_worker1 = snd (worker_enqueue ex_mac (ex_time 0) (ex_job_envelope 1 5 ''n1'') ''d1'' ''mem_1:1'' ex_worker0)"

definition ex_handler :: "LocalJob \<Rightarrow> nat \<Rightarrow> JobState cloud \<times> nat" where
  "ex_handler j x = (Inl CloudValueError, x + 1)"

lemma ex_job_envelope_simps [simp]:
  "job_id (ex_job_envelope j t n) = j" "w_tenant_id (ex_job_envelope j t n) = t"
  "w_nonce (ex_job_envelope j t n) = n" "expires_at (ex_job_envelope j t n) = ex_time 100"
  by (simp_all add: ex_job_envelope_def envelope_sign_def Let_def)

lemma new_job_simps [simp]:
  "envelope (new_job e d r) = e" "dedupe_key (new_job e d r) = d" "payload_ref (new_job e d r) = r"
  "job_state (new_job e d r) = PENDING" "attempts (new_job e d r) = 0"
  by (simp_all add: new_job_def)

lemma ex_worker0_init: "worker_init ''key'' 2 = Inr ex_worker0"
  by (simp add: worker_init_def ex_worker0_def)

lemma ex_verify: "envelope_verify ex_mac ''key'' (ex_time 0) (ex_job_envelope j t ''n1'') = Inr ()"
  "envelope_verify ex_mac ''key'' (ex_time 0) (ex_job_envelope j t ''n2'') = Inr ()"
  by (simp_all add: envelope_verify_Inr ex_job_envelope_def envelope_sign_def Let_def ex_mac_def
      ex_time_def dt_aware_def dt_instant_def ascii_char_def)

lemma ex_worker1_eq: "worker_enqueue ex_mac (ex_time 0) (ex_job_envelope 1 5 ''n1'') ''d1'' ''mem_1:1'' ex_worker0 =
    (Inr (new_job (ex_job_envelope 1 5 ''n1'') ''d1'' ''mem_1:1''), ex_worker1)"
proof -
  obtain r where "worker_enqueue ex_mac (ex_time 0) (ex_job_envelope 1 5 ''n1'') ''d1'' ''mem_1:1'' ex_worker0 =
    (r, ex_worker1)" by (metis ex_worker1_def prod.collapse)
  moreover have "\<exists>w'. worker_enqueue ex_mac (ex_time 0) (ex_job_envelope 1 5 ''n1'') ''d1'' ''mem_1:1'' ex_worker0 =
    (Inr (new_job (ex_job_envelope 1 5 ''n1'') ''d1'' ''mem_1:1''), w')"
    by (simp add: worker_enqueue_Inr ex_worker0_def ex_verify safe_ref_Inr ref_char_def)
  ultimately show ?thesis by auto
qed

lemma ex_worker1_record:
  "ex_worker1 = ex_worker0\<lparr>jobs := [(1, new_job (ex_job_envelope 1 5 ''n1'') ''d1'' ''mem_1:1'')],
      dedupe := [((5, ''d1''), 1)], nonces := [((5, ''n1''), 1)]\<rparr>"
  using ex_worker1_eq by (simp add: worker_enqueue_Inr) (simp add: ex_worker0_def)

lemma ex_worker1_job:
  "worker_ok ex_worker1" "worker_secret ex_worker1 = ''key''" "max_attempts ex_worker1 = 2"
  "jobs ex_worker1 = [(1, new_job (ex_job_envelope 1 5 ''n1'') ''d1'' ''mem_1:1'')]"
  "dedupe ex_worker1 = [((5, ''d1''), 1)]" "nonces ex_worker1 = [((5, ''n1''), 1)]"
proof -
  show "worker_ok ex_worker1"
    by (rule worker_enqueue_ok [OF worker_init_ok [OF ex_worker0_init] ex_worker1_eq])
  show "worker_secret ex_worker1 = ''key''" "max_attempts ex_worker1 = 2"
    "jobs ex_worker1 = [(1, new_job (ex_job_envelope 1 5 ''n1'') ''d1'' ''mem_1:1'')]"
    "dedupe ex_worker1 = [((5, ''d1''), 1)]" "nonces ex_worker1 = [((5, ''n1''), 1)]"
    by (simp_all add: ex_worker1_record) (simp_all add: ex_worker0_def)
qed

section \<open>Properties\<close>



text \<open>C26: A queued job whose envelope stays valid and whose handler never succeeds is dead-lettered by
  exactly as many \<open>run_one\<close> calls as its retry budget has left, and not before: retries are bounded
  and the queue makes progress.\<close>

theorem dead_letter_after_budget:
  assumes "worker_ok w" "dict_get (jobs w) jid = Some j" "job_state j \<in> {PENDING, FAILED}"
    and "always_fails h"
    and "\<forall>now\<in>set nows. envelope_verify mac (worker_secret w) now (envelope j) = Inr ()"
    and "int (length nows) = max_attempts w - attempts j"
  shows "\<exists>w' x' j'. worker_runs mac h jid nows w x = (w', x') \<and>
     dict_get (jobs w') jid = Some j' \<and> job_state j' = DEAD_LETTER \<and> attempts j' = max_attempts w"
proof -
  have live: "\<not> terminal (job_state j)" using assms(3) by (auto simp: terminal_def)
  have "attempts j < max_attempts w" by (rule worker_ok_live_attempts [OF assms(1,2) live])
  then have "nows \<noteq> []" using assms(6) by auto
  from worker_runs_failing [OF assms(4,2) live assms(5) this] assms(6) show ?thesis by simp
qed

theorem dead_letter_after_budget_witness:
  "\<exists>w' x' j'. worker_runs ex_mac ex_handler 1 [ex_time 0, ex_time 0] ex_worker1 0 = (w', x') \<and>
     dict_get (jobs w') 1 = Some j' \<and> job_state j' = DEAD_LETTER \<and> attempts j' = 2"
  using dead_letter_after_budget [OF ex_worker1_job(1), of 1 _ ex_handler "[ex_time 0, ex_time 0]" ex_mac 0]
  by (simp add: ex_worker1_job ex_verify always_fails_def ex_handler_def)

text \<open>A job is queued at most once per tenant and deduplication key. After a successful
  \<open>enqueue\<close> and any later calls, enqueueing the same key for the same tenant returns the job
  with the same id and changes nothing, and a message that reuses the nonce of the first one
  under an unused key is rejected.\<close>

theorem enqueue_at_most_once:
  assumes "worker_ok w" "worker_enqueue mac now e d r w = (Inr j, w1)"
    and "(worker_step mac)\<^sup>*\<^sup>* (w1, x1) (w2, x2)"
    and "envelope_verify mac (worker_secret w) now' e' = Inr ()" "w_tenant_id e' = w_tenant_id e"
    and "safe_ref r' = Inr r'"
  shows "(\<exists>j'. worker_enqueue mac now' e' d r' w2 = (Inr j', w2) \<and>
           job_id (envelope j') = job_id (envelope j)) \<and>
    (w_nonce e' = w_nonce e \<and> dict_get (dedupe w) (w_tenant_id e, d) = None \<and> safe_ref d' = Inr d' \<and>
       dict_get (dedupe w2) (w_tenant_id e, d') = None \<longrightarrow>
     worker_enqueue mac now' e' d' r' w2 = (Inl CloudPermissionError, w2))"
proof -
  let ?jid = "job_id (envelope j)"
  have w1: "worker_ok w1" by (rule worker_enqueue_ok [OF assms(1,2)])
  have "dict_get (dedupe w1) (w_tenant_id e, d) = Some ?jid" and sec: "worker_secret w1 = worker_secret w"
    using assms(1,2)
    by (auto simp: worker_enqueue_Inr worker_ok_def update_conv' new_job_def split: option.splits)
  then have d2: "dict_get (dedupe w2) (w_tenant_id e, d) = Some ?jid" "worker_secret w2 = worker_secret w"
    using worker_steps_keep [OF assms(3)] by fastforce+
  have w2: "worker_ok w2" using worker_steps_ok [OF assms(3)] w1 by simp
  from w2 d2(1) obtain j' where j': "dict_get (jobs w2) ?jid = Some j'"
    by (fastforce simp: worker_ok_def)
  have "safe_ref d = Inr d" using assms(2) by (simp add: worker_enqueue_Inr)
  then have "worker_enqueue mac now' e' d r' w2 = (Inr j', w2)"
    using assms(4-6) d2 j' by (simp add: worker_enqueue_Inr)
  moreover have "job_id (envelope j') = ?jid" by (rule worker_ok_job(1) [OF w2 j'])
  moreover have "worker_enqueue mac now' e' d' r' w2 = (Inl CloudPermissionError, w2)"
    if "w_nonce e' = w_nonce e" "dict_get (dedupe w) (w_tenant_id e, d) = None" "safe_ref d' = Inr d'"
      "dict_get (dedupe w2) (w_tenant_id e, d') = None"
  proof -
    have "dict_get (nonces w1) (w_tenant_id e, w_nonce e) \<noteq> None"
      using assms(2) that(2) by (auto simp: worker_enqueue_Inr update_conv')
    then have "dict_get (nonces w2) (w_tenant_id e, w_nonce e) \<noteq> None"
      using worker_steps_keep [OF assms(3)] by fastforce
    then show ?thesis
      using assms(4-6) that d2(2)
      by (auto simp: worker_enqueue_def act_bind_def act_run split: option.splits)
  qed
  ultimately show ?thesis by blast
qed

theorem enqueue_at_most_once_witness:
  "\<exists>j'. worker_enqueue ex_mac (ex_time 0) (ex_job_envelope 3 5 ''n2'') ''d1'' ''mem_9:1'' ex_worker1 =
     (Inr j', ex_worker1) \<and> job_id (envelope j') = 1"
  using enqueue_at_most_once [OF worker_init_ok [OF ex_worker0_init] ex_worker1_eq rtranclp.rtrancl_refl,
      of "ex_time 0" "ex_job_envelope 3 5 ''n2''" "''mem_9:1''"]
  by (simp add: ex_worker0_def ex_verify safe_ref_Inr ref_char_def)

text \<open>A snapshot taken from a worker and restored into a new one with the same secret gives back
  exactly the jobs that are not terminal, with their state, attempts and error, in the same order,
  and their deduplication and nonce entries, provided every envelope in the snapshot is still
  valid.\<close>

theorem snapshot_restore_roundtrip:
  assumes "worker_ok w" "mac_ascii mac" "worker_snapshot mac w = Inr items"
    and "worker_secret w' = worker_secret w"
    and "\<forall>(i, j)\<in>set (jobs w). envelope_verify mac (worker_secret w) now (envelope j) = Inr () \<and>
      fromiso (isoformat (expires_at (envelope j))) = Some (expires_at (envelope j))"
  shows "worker_restore mac fromiso now items w' =
    (let qs = filter (\<lambda>(i, j). job_state j \<in> {PENDING, FAILED}) (jobs w) in
     (Inr (int (length qs)), w'\<lparr>jobs := qs,
        dedupe := map (\<lambda>(i, j). ((w_tenant_id (envelope j), dedupe_key j), i)) qs,
        nonces := map (\<lambda>(i, j). ((w_tenant_id (envelope j), w_nonce (envelope j)), i)) qs\<rparr>))"
proof -
  let ?a = "w'\<lparr>jobs := [], dedupe := [], nonces := []\<rparr>"
  have "restore_items mac fromiso now items ?a = Inr (add_live (jobs w) ?a)"
    using assms by (intro restore_items_snapshot [where w = w and prev = "[]" and ?a0.0 = ?a])
      (simp_all add: worker_snapshot_def)
  moreover have "filter (\<lambda>p. live (snd p)) (jobs w) =
      filter (\<lambda>(i, j). job_state j \<in> {PENDING, FAILED}) (jobs w)"
    by (rule filter_cong) (auto simp: live_iff)
  moreover have "dedupe_entry = (\<lambda>(i, j). ((w_tenant_id (envelope j), dedupe_key j), i))"
    "nonce_entry = (\<lambda>(i, j). ((w_tenant_id (envelope j), w_nonce (envelope j)), i))"
    by (auto simp: dedupe_entry_def nonce_entry_def)
  ultimately show ?thesis by (simp only: worker_restore_def add_live_def Let_def) simp
qed

theorem snapshot_restore_roundtrip_witness:
  "\<exists>items. worker_snapshot ex_mac ex_worker1 = Inr items \<and>
     worker_restore ex_mac (\<lambda>s. Some (ex_time 100)) (ex_time 0) items ex_worker0 = (Inr 1, ex_worker1)"
proof -
  let ?j = "new_job (ex_job_envelope 1 5 ''n1'') ''d1'' ''mem_1:1''"
  obtain item where item: "snapshot_job ex_mac ''key'' ?j = Inr item" by (metis snapshot_job_Inr)
  have s: "worker_snapshot ex_mac ex_worker1 = Inr [item]"
    by (simp add: worker_snapshot_def ex_worker1_job item)
  have m: "mac_ascii ex_mac" by (simp add: mac_ascii_def ex_mac_def ascii_char_def)
  have "worker_restore ex_mac (\<lambda>s. Some (ex_time 100)) (ex_time 0) [item] ex_worker0 = (Inr 1, ex_worker1)"
    using snapshot_restore_roundtrip [OF ex_worker1_job(1) m s, of ex_worker0 "ex_time 0" "\<lambda>s. Some (ex_time 100)"]
    by (simp add: ex_worker1_job ex_verify)
       (simp add: ex_worker1_record ex_worker0_def)
  with s show ?thesis by blast
qed

text \<open>\<open>restore\<close> verifies every envelope of the snapshot before it skips the terminal jobs, so one
  job whose envelope has expired, even a finished one, makes the restart lose the whole queue:
  the snapshot is rejected and the worker keeps what it had.\<close>

theorem expired_job_blocks_restore:
  assumes "worker_ok w" "mac_ascii mac" "worker_snapshot mac w = Inr items"
    and "worker_secret w' = worker_secret w"
    and "\<forall>(i, j)\<in>set (jobs w). fromiso (isoformat (expires_at (envelope j))) = Some (expires_at (envelope j))"
    and "dict_get (jobs w) jid = Some j" "dt_instant (expires_at (envelope j)) \<le> dt_instant now"
  shows "worker_restore mac fromiso now items w' = (Inl CloudPermissionError, w')"
proof -
  let ?a = "w'\<lparr>jobs := [], dedupe := [], nonces := []\<rparr>"
  have ok: "\<forall>j\<in>set (map snd (jobs w)). job_ok (max_attempts w) j"
    using worker_ok_job(2) [OF assms(1)] worker_ok_mem [OF assms(1)] by auto
  have iso: "\<forall>j\<in>set (map snd (jobs w)).
      fromiso (isoformat (expires_at (envelope j))) = Some (expires_at (envelope j))"
    using assms(5) by fastforce
  have "j \<in> set (map snd (jobs w))" using map_of_SomeD [OF assms(6)] by force
  moreover have "envelope_verify mac (worker_secret w) now (envelope j) \<noteq> Inr ()"
    using assms(7) by (simp add: envelope_verify_Inr)
  ultimately have "\<exists>e. restore_items mac fromiso now items ?a = Inl e"
    using assms(2-4) ok iso
    by (intro restore_items_expired [where s = "worker_secret w" and js = "map snd (jobs w)"])
       (simp_all add: worker_snapshot_def)
  then show ?thesis by (auto simp: worker_restore_def)
qed

theorem expired_job_blocks_restore_witness:
  "\<exists>items. worker_snapshot ex_mac ex_worker1 = Inr items \<and>
     worker_restore ex_mac (\<lambda>s. Some (ex_time 100)) (ex_time 200) items ex_worker0 =
       (Inl CloudPermissionError, ex_worker0)"
proof -
  let ?j = "new_job (ex_job_envelope 1 5 ''n1'') ''d1'' ''mem_1:1''"
  obtain item where item: "snapshot_job ex_mac ''key'' ?j = Inr item" by (metis snapshot_job_Inr)
  have s: "worker_snapshot ex_mac ex_worker1 = Inr [item]"
    by (simp add: worker_snapshot_def ex_worker1_job item)
  have m: "mac_ascii ex_mac" by (simp add: mac_ascii_def ex_mac_def ascii_char_def)
  have "worker_restore ex_mac (\<lambda>s. Some (ex_time 100)) (ex_time 200) [item] ex_worker0 =
      (Inl CloudPermissionError, ex_worker0)"
    by (rule expired_job_blocks_restore [OF ex_worker1_job(1) m s, of _ _ 1 ?j])
       (simp_all add: ex_worker1_job, simp_all add: ex_worker0_def ex_time_def dt_instant_def)
  with s show ?thesis by blast
qed

text \<open>A job whose envelope has expired is never dead-lettered. \<open>verify\<close> raises before the attempt
  is counted, so however often the job is retried its attempts stay as they are, the handler is
  not called, and the job remains retryable.\<close>

theorem expired_job_never_dead_lettered:
  assumes "worker_ok w" "dict_get (jobs w) jid = Some j" "job_state j \<in> {PENDING, FAILED}"
    and "\<forall>now\<in>set nows. dt_instant (expires_at (envelope j)) \<le> dt_instant now"
    and "worker_runs mac h jid nows w x = (w', x')"
  shows "x' = x \<and> (\<exists>j'. dict_get (jobs w') jid = Some j' \<and> job_state j' \<in> {PENDING, FAILED} \<and>
     attempts j' = attempts j)"
proof -
  have "\<not> terminal (job_state j)" using assms(3) by (auto simp: terminal_def)
  moreover have "\<forall>now\<in>set nows. envelope_verify mac (worker_secret w) now (envelope j) \<noteq> Inr ()"
    using assms(4) by (auto simp: envelope_verify_Inr)
  ultimately have "x' = x \<and> (\<exists>j'. dict_get (jobs w') jid = Some j' \<and> \<not> terminal (job_state j') \<and>
     attempts j' = attempts j)"
    by (rule worker_runs_expired [OF assms(1,2) _ _ assms(5)])
  then show ?thesis by (metis insert_iff live_def live_iff)
qed

theorem expired_job_never_dead_lettered_witness:
  "\<exists>w'. worker_runs ex_mac ex_handler 1 (replicate 5 (ex_time 200)) ex_worker1 0 = (w', 0) \<and>
     (\<exists>j'. dict_get (jobs w') 1 = Some j' \<and> job_state j' \<in> {PENDING, FAILED} \<and> attempts j' = 0)"
proof -
  let ?j = "new_job (ex_job_envelope 1 5 ''n1'') ''d1'' ''mem_1:1''"
  obtain w' x' where r: "worker_runs ex_mac ex_handler 1 (replicate 5 (ex_time 200)) ex_worker1 0 = (w', x')"
    by (metis prod.exhaust)
  have j: "dict_get (jobs ex_worker1) 1 = Some ?j" by (simp add: ex_worker1_job)
  show ?thesis
    using expired_job_never_dead_lettered [OF ex_worker1_job(1) j _ _ r] r
    by (simp add: ex_time_def dt_instant_def)
qed

text \<open>\<open>enqueue\<close> does not look whether the job id is already queued. A validly signed envelope
  that carries the id of another tenant's queued job, under a key and nonce unused in its own
  tenant, replaces that job, and the first tenant's deduplication key then returns the other
  tenant's job.\<close>

theorem enqueue_replaces_foreign_job:
  assumes "worker_ok w" "dict_get (jobs w) jid = Some j"
    and "worker_enqueue mac now e d r w = (Inr j', w')" "job_id e = jid"
    and "dict_get (dedupe w) (w_tenant_id e, d) = None"
  shows "dict_get (jobs w') jid = Some (new_job e d r) \<and>
     (envelope_verify mac (worker_secret w) now (envelope j) = Inr () \<longrightarrow>
      worker_enqueue mac now (envelope j) (dedupe_key j) (payload_ref j) w' = (Inr (new_job e d r), w'))"
proof -
  have w': "w' = w\<lparr>jobs := dict_set (job_id e) (new_job e d r) (jobs w),
             dedupe := dict_set (w_tenant_id e, d) (job_id e) (dedupe w),
             nonces := dict_set (w_tenant_id e, w_nonce e) (job_id e) (nonces w)\<rparr>"
    using assms(3,5) by (simp add: worker_enqueue_Inr)
  have dd: "dict_get (dedupe w) (w_tenant_id (envelope j), dedupe_key j) = Some jid"
    by (rule worker_ok_job(3) [OF assms(1,2)])
  have refs: "safe_ref (dedupe_key j) = Inr (dedupe_key j)" "safe_ref (payload_ref j) = Inr (payload_ref j)"
    using worker_ok_job(2) [OF assms(1,2)] by (simp_all add: job_ok_def)
  show ?thesis
    using assms(4,5) dd refs by (auto simp: w' update_conv' worker_enqueue_Inr)
qed

theorem enqueue_replaces_foreign_job_witness:
  "\<exists>w'. worker_enqueue ex_mac (ex_time 0) (ex_job_envelope 1 5 ''n1'') ''d1'' ''mem_1:1'' w' =
     (Inr (new_job (ex_job_envelope 1 6 ''n2'') ''d2'' ''mem_2:1''), w')"
proof -
  let ?j = "new_job (ex_job_envelope 1 5 ''n1'') ''d1'' ''mem_1:1''"
  obtain w' where w': "worker_enqueue ex_mac (ex_time 0) (ex_job_envelope 1 6 ''n2'') ''d2'' ''mem_2:1'' ex_worker1 =
      (Inr (new_job (ex_job_envelope 1 6 ''n2'') ''d2'' ''mem_2:1''), w')"
    by (simp add: worker_enqueue_Inr ex_worker1_job ex_verify safe_ref_Inr ref_char_def)
  have j: "dict_get (jobs ex_worker1) 1 = Some ?j" by (simp add: ex_worker1_job)
  have "worker_enqueue ex_mac (ex_time 0) (envelope ?j) (dedupe_key ?j) (payload_ref ?j) w' =
      (Inr (new_job (ex_job_envelope 1 6 ''n2'') ''d2'' ''mem_2:1''), w')"
    using enqueue_replaces_foreign_job [OF ex_worker1_job(1) j w']
    by (simp add: ex_worker1_job ex_verify)
  then show ?thesis by auto
qed

end
