(* ===== verification/Encrypted_Memory.thy ===== *)
theory Encrypted_Memory
  imports Cloud_Worker
begin

text \<open>
  The local cloud memory service of \<open>omp/cloud/encrypted_memory.py\<close>: records whose content and
  provenance are stored as envelope ciphertexts only, an idempotent write ledger, a deletion
  ledger of tombstones, version-bound vectors, backup, restore and key rotation.

  A stored record (a dict with fixed keys in the source) is the record \<open>StoredMemory\<close>; the view
  \<open>_read\<close> builds from it is \<open>CloudMemory\<close>. \<open>json.dumps(_, sort_keys=True)\<close>, \<open>json.loads\<close> and
  \<open>datetime.fromisoformat\<close> are fields of the environment, as are the clock, the identifier drawn by
  \<open>uuid4\<close> and the random bytes of the call. Operations are actions: a call that raises leaves the
  state it had reached.
\<close>

section \<open>State\<close>

record StoredMemory =
  sm_id :: string
  sm_owner_id :: string
  sm_type :: string
  sm_space :: "string option"
  sm_importance :: pyfloat
  sm_confidence :: pyfloat
  sm_state :: string
  sm_version :: int
  sm_created_at :: string
  sm_updated_at :: string
  sm_occurred_at :: "string option"
  content_ciphertext :: EnvelopeCiphertext
  provenance_ciphertext :: EnvelopeCiphertext

record CloudMemory =
  cm_id :: string
  cm_owner_id :: string
  cm_type :: string
  cm_space :: "string option"
  cm_importance :: pyfloat
  cm_confidence :: pyfloat
  cm_state :: string
  cm_version :: int
  cm_created_at :: string
  cm_updated_at :: string
  cm_occurred_at :: "string option"
  cm_content :: string
  cm_provenance :: json

record StoredEmbedding =
  se_owner_id :: string
  se_source_version :: int
  se_values :: "pyfloat list"

record EncryptedCloudMemoryService =
  cs_kms :: kms
  cs_key_version :: int
  records :: "(string, StoredMemory) dict"
  write_keys :: "(string \<times> string, string) dict"
  forget_keys :: "(string \<times> string) list"
  tombstones :: "(string \<times> string, string) dict"
  embeddings :: "(string, StoredEmbedding) dict"

record CloudEnv =
  ce_aead :: aead
  ce_dumps :: "json \<Rightarrow> string"
  ce_loads :: "string \<Rightarrow> json option"
  ce_fromiso :: "string \<Rightarrow> datetime option"
  ce_now :: datetime
  ce_uuid :: uuid
  ce_entropy :: "nat \<Rightarrow> entropy"

type_synonym 'a cact = "(EncryptedCloudMemoryService, cloud_error, 'a) act"

definition cloud_init :: "kms \<Rightarrow> int \<Rightarrow> EncryptedCloudMemoryService" where
  "cloud_init k v = \<lparr>cs_kms = k, cs_key_version = v, records = [], write_keys = [], forget_keys = [],
     tombstones = [], embeddings = []\<rparr>"

definition now_text :: "CloudEnv \<Rightarrow> string" where
  "now_text env = py_replace ''+00:00'' ''Z'' (isoformat (astimezone_utc (ce_now env)))"

section \<open>Owner binding and decryption\<close>

definition cloud_tenant :: "string \<Rightarrow> uuid cloud" where
  "cloud_tenant owner = (case split_max (CHR '':'') 2 owner of
     [pre, tenant, subject] \<Rightarrow>
       if pre \<noteq> ''cloud'' \<or> subject = [] then Inl CloudPermissionError
       else (case uuid_parse subject of
           None \<Rightarrow> Inl CloudPermissionError
         | Some _ \<Rightarrow> (case uuid_parse tenant of
             None \<Rightarrow> Inl CloudPermissionError
           | Some t \<Rightarrow> Inr t))
   | _ \<Rightarrow> Inl CloudPermissionError)"

definition record_uuid :: "string \<Rightarrow> uuid cloud" where
  "record_uuid mid = opt_or CloudValueError (uuid_parse (drop 4 mid))"

definition cloud_read :: "CloudEnv \<Rightarrow> kms \<Rightarrow> StoredMemory \<Rightarrow> CloudMemory cloud" where
  "cloud_read env k st =
     res_bind (cloud_tenant (sm_owner_id st)) (\<lambda>tenant.
     res_bind (record_uuid (sm_id st)) (\<lambda>rid.
     res_bind (encryptor_decrypt (ce_aead env) k tenant rid ''content'' (content_ciphertext st)) (\<lambda>content.
     res_bind (encryptor_decrypt (ce_aead env) k tenant rid ''provenance'' (provenance_ciphertext st)) (\<lambda>ptext.
     res_bind (opt_or CloudValueError (ce_loads env ptext)) (\<lambda>prov.
     Inr \<lparr>cm_id = sm_id st, cm_owner_id = sm_owner_id st, cm_type = sm_type st,
          cm_space = sm_space st, cm_importance = sm_importance st,
          cm_confidence = sm_confidence st, cm_state = sm_state st, cm_version = sm_version st,
          cm_created_at = sm_created_at st, cm_updated_at = sm_updated_at st,
          cm_occurred_at = sm_occurred_at st, cm_content = content, cm_provenance = prov\<rparr>)))))"

definition act_read :: "CloudEnv \<Rightarrow> StoredMemory \<Rightarrow> CloudMemory cact" where
  "act_read env st = act_getr (\<lambda>s. cloud_read env (cs_kms s) st)"

section \<open>write, search, get and list\<close>

record CloudWrite =
  cw_owner_id :: string
  cw_idempotency_key :: string
  cw_type :: string
  cw_space :: "string option"
  cw_importance :: "pyfloat option"
  cw_confidence :: "pyfloat option"
  cw_content :: string
  cw_provenance :: json

definition cloud_memory_id :: "uuid \<Rightarrow> string" where
  "cloud_memory_id u = ''mem_'' @ uuid_hex u"

definition pf_half :: pyfloat where
  "pf_half = 1/2"

definition cloud_encrypt_record ::
  "CloudEnv \<Rightarrow> uuid \<Rightarrow> CloudWrite \<Rightarrow> EncryptedCloudMemoryService \<Rightarrow> StoredMemory cloud" where
  "cloud_encrypt_record env tenant p s =
     (let mid = cloud_memory_id (ce_uuid env); now = now_text env; v = cs_key_version s in
     res_bind (record_uuid mid) (\<lambda>rid.
     res_bind (encryptor_encrypt (ce_aead env) (cs_kms s) (ce_entropy env 0) tenant rid ''content''
       (cw_content p) v) (\<lambda>c.
     res_bind (encryptor_encrypt (ce_aead env) (cs_kms s) (ce_entropy env 1) tenant rid ''provenance''
       (ce_dumps env (cw_provenance p)) v) (\<lambda>pr.
     Inr \<lparr>sm_id = mid, sm_owner_id = cw_owner_id p, sm_type = cw_type p, sm_space = cw_space p,
          sm_importance = (case cw_importance p of None \<Rightarrow> pf_half | Some x \<Rightarrow> x),
          sm_confidence = (case cw_confidence p of None \<Rightarrow> pf_half | Some x \<Rightarrow> x),
          sm_state = ''active'', sm_version = 1, sm_created_at = now, sm_updated_at = now,
          sm_occurred_at = None, content_ciphertext = c, provenance_ciphertext = pr\<rparr>))))"

definition cloud_write :: "CloudEnv \<Rightarrow> CloudWrite \<Rightarrow> (CloudMemory \<times> string) cact" where
  "cloud_write env p = (let owner = cw_owner_id p; key = cw_idempotency_key p in
     act_bind (act_res (cloud_tenant owner)) (\<lambda>tenant.
     act_bind (act_gets (\<lambda>s. dict_get (write_keys s) (owner, key))) (\<lambda>existing.
     if py_truthy existing then
       act_bind (act_getr (\<lambda>s. opt_or CloudKeyError (dict_get (records s) (the existing)))) (\<lambda>st.
       act_bind (act_read env st) (\<lambda>m. act_return (m, ''already_exists'')))
     else
       act_bind (act_getr (cloud_encrypt_record env tenant p)) (\<lambda>st.
       act_bind (act_modify (\<lambda>s. s\<lparr>records := dict_set (sm_id st) st (records s)\<rparr>)) (\<lambda>_.
       act_bind (act_modify (\<lambda>s. s\<lparr>write_keys := dict_set (owner, key) (sm_id st) (write_keys s)\<rparr>)) (\<lambda>_.
       act_bind (act_read env st) (\<lambda>m. act_return (m, ''created'')))))))) "

text \<open>
  \<open>str.casefold\<close> and the words that \<open>re.findall\<close> gives for the word-character class with the
  Latin-1 letter range, on code points below 256. The micro sign folds to a letter outside that
  range, which no other code point folds to; it stands for itself here.
\<close>

definition fold_char :: "char \<Rightarrow> string" where
  "fold_char c = (let n = (of_char c :: int) in
     if 65 \<le> n \<and> n \<le> 90 \<or> 192 \<le> n \<and> n \<le> 222 \<and> n \<noteq> 215 then [char_of (n + 32)]
     else if n = 223 then ''ss'' else [c])"

definition casefold :: "string \<Rightarrow> string" where
  "casefold s = concat (map fold_char s)"

definition word_char :: "char \<Rightarrow> bool" where
  "word_char c \<longleftrightarrow> (let n = (of_char c :: int) in
     48 \<le> n \<and> n \<le> 57 \<or> 65 \<le> n \<and> n \<le> 90 \<or> n = 95 \<or> 97 \<le> n \<and> n \<le> 122 \<or>
     n \<in> {170, 178, 179, 181, 185, 186, 188, 189, 190} \<or> 192 \<le> n)"

fun find_words :: "string \<Rightarrow> string \<Rightarrow> string list" where
  "find_words w [] = (if w = [] then [] else [w])"
| "find_words w (c # cs) =
     (if word_char c then find_words (w @ [c]) cs
      else if w = [] then find_words [] cs else w # find_words [] cs)"

definition search_terms :: "string \<Rightarrow> string list" where
  "search_terms s = find_words [] (casefold s)"

record CloudSearch =
  cq_owner_id :: string
  cq_query :: string
  cq_state :: "string option"
  cq_limit :: "int option"

fun cloud_matches ::
  "CloudEnv \<Rightarrow> kms \<Rightarrow> string \<Rightarrow> string \<Rightarrow> string list \<Rightarrow> StoredMemory list \<Rightarrow> CloudMemory list cloud" where
  "cloud_matches env k owner st terms [] = Inr []"
| "cloud_matches env k owner st terms (r # rs) =
     (if sm_owner_id r \<noteq> owner \<or> sm_state r \<noteq> st then cloud_matches env k owner st terms rs
      else res_bind (cloud_read env k r) (\<lambda>m.
           res_bind (cloud_matches env k owner st terms rs) (\<lambda>ms.
           Inr (if \<exists>t\<in>set terms. t \<in> set (search_terms (cm_content m)) then m # ms else ms))))"

definition cloud_search ::
  "CloudEnv \<Rightarrow> CloudSearch \<Rightarrow> EncryptedCloudMemoryService \<Rightarrow> CloudMemory list cloud" where
  "cloud_search env q s =
     res_bind (cloud_tenant (cq_owner_id q)) (\<lambda>_.
     res_bind (cloud_matches env (cs_kms s) (cq_owner_id q)
       (case cq_state q of None \<Rightarrow> ''active'' | Some st \<Rightarrow> st) (search_terms (cq_query q))
       (dict_values (records s))) (\<lambda>ms.
     Inr (py_take (case cq_limit q of None \<Rightarrow> 10 | Some n \<Rightarrow> n) ms)))"

definition cloud_get ::
  "CloudEnv \<Rightarrow> string \<Rightarrow> string \<Rightarrow> EncryptedCloudMemoryService \<Rightarrow> CloudMemory option cloud" where
  "cloud_get env owner mid s =
     res_bind (cloud_tenant owner) (\<lambda>_.
     case dict_get (records s) mid of
       None \<Rightarrow> Inr None
     | Some st \<Rightarrow> if sm_owner_id st \<noteq> owner then Inr None
                 else res_bind (cloud_read env (cs_kms s) st) (\<lambda>m. Inr (Some m)))"

definition cloud_list_records ::
  "CloudEnv \<Rightarrow> string \<Rightarrow> EncryptedCloudMemoryService \<Rightarrow> CloudMemory list cloud" where
  "cloud_list_records env owner s =
     res_bind (cloud_tenant owner) (\<lambda>_.
     res_map (cloud_read env (cs_kms s))
       (filter (\<lambda>st. sm_owner_id st = owner \<and> sm_state st = ''active'') (dict_values (records s))))"

section \<open>update\<close>

record CloudPatch =
  cp_content :: "string option"
  cp_type :: "string option"
  cp_space :: "string option"
  cp_importance :: "pyfloat option"
  cp_confidence :: "pyfloat option"
  cp_state :: "string option"

record CloudUpdate =
  cu_id :: string
  cu_owner_id :: string
  cu_expected_version :: int
  cu_patch :: CloudPatch

definition opt_set :: "('a \<Rightarrow> 's \<Rightarrow> 's) \<Rightarrow> 'a option \<Rightarrow> 's \<Rightarrow> 's" where
  "opt_set f v s = (case v of None \<Rightarrow> s | Some x \<Rightarrow> f x s)"

definition patch_meta :: "CloudEnv \<Rightarrow> CloudPatch \<Rightarrow> StoredMemory \<Rightarrow> StoredMemory" where
  "patch_meta env p st = (let
     st1 = opt_set (\<lambda>x r. r\<lparr>sm_type := x\<rparr>) (cp_type p) st;
     st2 = opt_set (\<lambda>x r. r\<lparr>sm_space := Some x\<rparr>) (cp_space p) st1;
     st3 = opt_set (\<lambda>x r. r\<lparr>sm_importance := x\<rparr>) (cp_importance p) st2;
     st4 = opt_set (\<lambda>x r. r\<lparr>sm_confidence := x\<rparr>) (cp_confidence p) st3;
     st5 = opt_set (\<lambda>x r. r\<lparr>sm_state := x\<rparr>) (cp_state p) st4
   in st5\<lparr>sm_version := sm_version st5 + 1, sm_updated_at := now_text env\<rparr>)"

definition patch_content ::
  "CloudEnv \<Rightarrow> uuid \<Rightarrow> uuid \<Rightarrow> CloudPatch \<Rightarrow> StoredMemory \<Rightarrow> EncryptedCloudMemoryService \<Rightarrow>
     StoredMemory cloud" where
  "patch_content env tenant rid p st s = (case cp_content p of
     None \<Rightarrow> Inr st
   | Some text \<Rightarrow>
       res_bind (encryptor_encrypt (ce_aead env) (cs_kms s) (ce_entropy env 0) tenant rid ''content''
         text (cs_key_version s)) (\<lambda>c. Inr (st\<lparr>content_ciphertext := c\<rparr>)))"

definition cloud_update :: "CloudEnv \<Rightarrow> CloudUpdate \<Rightarrow> (CloudMemory \<times> string) cact" where
  "cloud_update env u = (let mid = cu_id u in
     act_bind (act_gets (\<lambda>s. dict_get (records s) mid)) (\<lambda>found.
     case found of
       None \<Rightarrow> act_raise CloudKeyError
     | Some st \<Rightarrow>
         act_bind (act_guard (sm_owner_id st = cu_owner_id u) CloudKeyError) (\<lambda>_.
         act_bind (act_guard (sm_version st = cu_expected_version u) CloudValueError) (\<lambda>_.
         act_bind (act_res (record_uuid (sm_id st))) (\<lambda>rid.
         act_bind (act_res (cloud_tenant (sm_owner_id st))) (\<lambda>tenant.
         act_bind (act_getr (patch_content env tenant rid (cu_patch u) st)) (\<lambda>st1.
         let st2 = patch_meta env (cu_patch u) st1 in
         act_bind (act_modify (\<lambda>s. s\<lparr>records := dict_set mid st2 (records s),
             embeddings := dict_pop (sm_id st2) (embeddings s)\<rparr>)) (\<lambda>_.
         act_bind (act_read env st2) (\<lambda>m. act_return (m, ''updated''))))))))))"

section \<open>Vectors\<close>

definition cloud_store_embedding :: "string \<Rightarrow> string \<Rightarrow> int \<Rightarrow> pyfloat list \<Rightarrow> bool cact" where
  "cloud_store_embedding owner mid version vals =
     act_bind (act_res (cloud_tenant owner)) (\<lambda>_.
     act_bind (act_gets (\<lambda>s. dict_get (records s) mid)) (\<lambda>found.
     case found of
       None \<Rightarrow> act_return False
     | Some st \<Rightarrow>
         if sm_owner_id st \<noteq> owner \<or> sm_state st \<noteq> ''active'' \<or> sm_version st \<noteq> version
         then act_return False
         else act_bind (act_modify (\<lambda>s. s\<lparr>embeddings := dict_set mid
               \<lparr>se_owner_id = owner, se_source_version = version, se_values = vals\<rparr>
               (embeddings s)\<rparr>)) (\<lambda>_. act_return True)))"

definition cloud_embedding ::
  "string \<Rightarrow> string \<Rightarrow> EncryptedCloudMemoryService \<Rightarrow> StoredEmbedding option cloud" where
  "cloud_embedding owner mid s =
     res_bind (cloud_tenant owner) (\<lambda>_.
     case dict_get (embeddings s) mid of
       None \<Rightarrow> Inr None
     | Some e \<Rightarrow> Inr (if se_owner_id e \<noteq> owner then None else Some e))"

section \<open>Deletion\<close>

definition erase_record :: "string \<Rightarrow> string \<Rightarrow> string \<Rightarrow> EncryptedCloudMemoryService \<Rightarrow>
    EncryptedCloudMemoryService" where
  "erase_record owner mid ts s = s\<lparr>
     tombstones := dict_set (owner, mid) ts (tombstones s),
     records := dict_pop mid (records s),
     embeddings := dict_pop mid (embeddings s)\<rparr>"

definition cloud_forget :: "CloudEnv \<Rightarrow> string \<Rightarrow> string \<Rightarrow> EncryptedCloudMemoryService \<Rightarrow>
    string \<times> EncryptedCloudMemoryService" where
  "cloud_forget env owner mid s =
     (if (owner, mid) \<in> set (forget_keys s) then (''already_absent'', s)
      else let s1 = s\<lparr>forget_keys := (owner, mid) # forget_keys s\<rparr> in
        (case dict_get (records s1) mid of
           None \<Rightarrow> (''already_absent'', s1)
         | Some st \<Rightarrow> if sm_owner_id st \<noteq> owner then (''already_absent'', s1)
             else (''forgotten'', erase_record owner mid (now_text env) s1)))"

definition cloud_delete_owner :: "CloudEnv \<Rightarrow> string \<Rightarrow> int cact" where
  "cloud_delete_owner env owner =
     act_bind (act_res (cloud_tenant owner)) (\<lambda>_.
     act_bind (act_gets (\<lambda>s. map fst (filter (\<lambda>(mid, st). sm_owner_id st = owner) (records s)))) (\<lambda>mids.
     act_bind (act_modify (fold (\<lambda>mid s. erase_record owner mid (now_text env)
         (s\<lparr>forget_keys := List.insert (owner, mid) (forget_keys s)\<rparr>)) mids)) (\<lambda>_.
     act_bind (act_modify (\<lambda>s. s\<lparr>write_keys :=
         filter (\<lambda>((o', k), mid). o' \<noteq> owner) (write_keys s)\<rparr>)) (\<lambda>_.
     act_return (int (length mids))))))"

section \<open>Backup and restore\<close>

record CloudTombstone =
  ct_owner_id :: string
  ct_memory_id :: string
  ct_deleted_at :: string

record CloudBackup =
  cb_format :: "string option"
  cb_records :: "(string, StoredMemory) dict"
  cb_tombstones :: "CloudTombstone list"

definition cloud_tombstones :: "EncryptedCloudMemoryService \<Rightarrow> CloudTombstone list" where
  "cloud_tombstones s = map (\<lambda>((o', mid), ts). \<lparr>ct_owner_id = o', ct_memory_id = mid, ct_deleted_at = ts\<rparr>)
     (sort (tombstones s))"

definition cloud_backup :: "EncryptedCloudMemoryService \<Rightarrow> CloudBackup" where
  "cloud_backup s = \<lparr>cb_format = Some ''omp.cloud.backup.v1'', cb_records = records s,
     cb_tombstones = cloud_tombstones s\<rparr>"

definition restore_tombstone :: "CloudEnv \<Rightarrow> CloudTombstone \<Rightarrow> unit cact" where
  "restore_tombstone env t =
     act_bind (act_res (cloud_tenant (ct_owner_id t))) (\<lambda>_.
     act_bind (act_guard (ce_fromiso env (py_replace ''Z'' ''+00:00'' (ct_deleted_at t)) \<noteq> None)
       CloudValueError) (\<lambda>_.
     act_modify (\<lambda>s. s\<lparr>tombstones :=
       dict_set (ct_owner_id t, ct_memory_id t) (ct_deleted_at t) (tombstones s)\<rparr>)))"

definition check_backup_record :: "string \<times> StoredMemory \<Rightarrow> unit cloud" where
  "check_backup_record p =
     res_bind (cloud_tenant (sm_owner_id (snd p))) (\<lambda>_.
     res_guard (sm_id (snd p) = fst p) CloudValueError)"

definition drop_tombstoned ::
  "(string \<times> string, string) dict \<Rightarrow> (string, StoredMemory) dict \<Rightarrow> (string, StoredMemory) dict" where
  "drop_tombstoned tombs recs = fold (\<lambda>((o', mid), ts) rs. case dict_get rs mid of
       None \<Rightarrow> rs
     | Some st \<Rightarrow> if sm_owner_id st = o' then dict_pop mid rs else rs) tombs recs"

definition keep_embedding :: "(string, StoredMemory) dict \<Rightarrow> string \<times> StoredEmbedding \<Rightarrow> bool" where
  "keep_embedding recs p = (case dict_get recs (fst p) of
     None \<Rightarrow> False
   | Some st \<Rightarrow> se_owner_id (snd p) = sm_owner_id st \<and> se_source_version (snd p) = sm_version st)"

definition keep_write_key ::
  "(string, StoredMemory) dict \<Rightarrow> (string \<times> string) \<times> string \<Rightarrow> bool" where
  "keep_write_key recs p = (case dict_get recs (snd p) of
     None \<Rightarrow> False | Some st \<Rightarrow> sm_owner_id st = fst (fst p))"

definition install_records :: "(string, StoredMemory) dict \<Rightarrow> EncryptedCloudMemoryService \<Rightarrow>
    EncryptedCloudMemoryService" where
  "install_records recs s = s\<lparr>records := recs,
     embeddings := filter (keep_embedding recs) (embeddings s),
     write_keys := filter (keep_write_key recs) (write_keys s)\<rparr>"

definition cloud_restore :: "CloudEnv \<Rightarrow> CloudBackup \<Rightarrow> CloudTombstone list \<Rightarrow> int cact" where
  "cloud_restore env b ledger =
     act_bind (act_guard (case cb_format b of None \<Rightarrow> True | Some f \<Rightarrow> f = ''omp.cloud.backup.v1'')
       CloudValueError) (\<lambda>_.
     act_bind (act_gets cloud_tombstones) (\<lambda>own.
     act_bind (act_iter (restore_tombstone env) (own @ ledger)) (\<lambda>_.
     act_bind (act_res (res_map check_backup_record (cb_records b))) (\<lambda>_.
     act_bind (act_modify (\<lambda>s. install_records (drop_tombstoned (tombstones s) (cb_records b)) s)) (\<lambda>_.
     act_gets (\<lambda>s. int (length (records s))))))))"

section \<open>Key rotation\<close>

definition cloud_rotate :: "int \<Rightarrow> unit cact" where
  "cloud_rotate v =
     act_bind (act_getr (\<lambda>s. res_guard (\<not> (v < 1 \<or> v < cs_key_version s)) CloudValueError)) (\<lambda>_.
     act_modify (\<lambda>s. s\<lparr>cs_key_version := v\<rparr>))"

definition rewrap_field ::
  "CloudEnv \<Rightarrow> kms \<Rightarrow> entropy \<Rightarrow> uuid \<Rightarrow> uuid \<Rightarrow> string \<Rightarrow> int \<Rightarrow> EnvelopeCiphertext \<Rightarrow>
     (EnvelopeCiphertext \<times> int) cloud" where
  "rewrap_field env k e tenant rid field v current =
     (if key_version current = v then Inr (current, 0)
      else res_bind (encryptor_rewrap (ce_aead env) k e tenant rid field current v) (\<lambda>c. Inr (c, 1)))"

definition rewrap_record ::
  "CloudEnv \<Rightarrow> kms \<Rightarrow> int \<Rightarrow> nat \<Rightarrow> StoredMemory \<Rightarrow> (StoredMemory \<times> int) cloud" where
  "rewrap_record env k v i st =
     res_bind (cloud_tenant (sm_owner_id st)) (\<lambda>tenant.
     res_bind (record_uuid (sm_id st)) (\<lambda>rid.
     res_bind (rewrap_field env k (ce_entropy env (2 * i)) tenant rid ''content'' v
       (content_ciphertext st)) (\<lambda>(c, n).
     res_bind (rewrap_field env k (ce_entropy env (2 * i + 1)) tenant rid ''provenance'' v
       (provenance_ciphertext st)) (\<lambda>(p, m).
     Inr (st\<lparr>content_ciphertext := c, provenance_ciphertext := p\<rparr>, n + m)))))"

fun rewrap_records ::
  "CloudEnv \<Rightarrow> kms \<Rightarrow> int \<Rightarrow> nat \<Rightarrow> (string, StoredMemory) dict \<Rightarrow>
     ((string, StoredMemory) dict \<times> int) cloud" where
  "rewrap_records env k v i [] = Inr ([], 0)"
| "rewrap_records env k v i ((mid, st) # rest) =
     res_bind (rewrap_record env k v i st) (\<lambda>(st', n).
     res_bind (rewrap_records env k v (Suc i) rest) (\<lambda>(rest', m).
     Inr ((mid, st') # rest', n + m)))"

definition cloud_rewrap :: "CloudEnv \<Rightarrow> int \<Rightarrow> int cact" where
  "cloud_rewrap env v =
     act_bind (act_getr (\<lambda>s. res_guard (\<not> (v < 1 \<or> v < cs_key_version s)) CloudValueError)) (\<lambda>_.
     act_bind (act_getr (\<lambda>s. rewrap_records env (cs_kms s) v 0 (records s))) (\<lambda>(recs, n).
     act_bind (act_modify (\<lambda>s. s\<lparr>records := recs, cs_key_version := v\<rparr>)) (\<lambda>_.
     act_return n)))"

end
