(* ===== verification/Encrypted_Invariant.thy ===== *)
theory Encrypted_Invariant
  imports Encrypted_Memory Store_Interfaces
begin

text \<open>
  The invariant of the encrypted cloud store and its preservation by every operation, on the
  error paths as well. \<open>cloud_step\<close> is one call of any operation that changes state;
  \<open>cloud_online_step\<close> leaves out \<open>restore\<close>, which may bring back an older version.
\<close>

section \<open>The invariant\<close>

definition cloud_ok :: "EncryptedCloudMemoryService \<Rightarrow> bool" where
  "cloud_ok s \<longleftrightarrow>
     dict_ok (records s) \<and> dict_ok (embeddings s) \<and> dict_ok (tombstones s) \<and> dict_ok (write_keys s) \<and>
     (\<forall>mid st. dict_get (records s) mid = Some st \<longrightarrow>
        sm_id st = mid \<and> dict_get (tombstones s) (sm_owner_id st, mid) = None) \<and>
     (\<forall>mid e. dict_get (embeddings s) mid = Some e \<longrightarrow> (\<exists>st. dict_get (records s) mid = Some st \<and>
        se_owner_id e = sm_owner_id st \<and> se_source_version e = sm_version st)) \<and>
     (\<forall>owner key mid. dict_get (write_keys s) (owner, key) = Some mid \<longrightarrow> mid \<noteq> [] \<and>
        ((\<exists>st. dict_get (records s) mid = Some st \<and> sm_owner_id st = owner) \<or>
         dict_get (tombstones s) (owner, mid) \<noteq> None))"

lemma cloud_okD:
  assumes "cloud_ok s"
  shows "dict_ok (records s)" "dict_ok (embeddings s)" "dict_ok (tombstones s)" "dict_ok (write_keys s)"
    and "dict_get (records s) mid = Some st \<Longrightarrow> sm_id st = mid"
    and "dict_get (records s) mid = Some st \<Longrightarrow> dict_get (tombstones s) (sm_owner_id st, mid) = None"
    and "dict_get (embeddings s) mid = Some e \<Longrightarrow> \<exists>st. dict_get (records s) mid = Some st \<and>
        se_owner_id e = sm_owner_id st \<and> se_source_version e = sm_version st"
    and "dict_get (write_keys s) (owner, key) = Some mid \<Longrightarrow> mid \<noteq> []"
    and "dict_get (write_keys s) (owner, key) = Some mid \<Longrightarrow>
        (\<exists>st. dict_get (records s) mid = Some st \<and> sm_owner_id st = owner) \<or>
         dict_get (tombstones s) (owner, mid) \<noteq> None"
  using assms unfolding cloud_ok_def by blast+

lemma cloud_okI:
  assumes "dict_ok (records s)" "dict_ok (embeddings s)" "dict_ok (tombstones s)" "dict_ok (write_keys s)"
    and "\<And>mid st. dict_get (records s) mid = Some st \<Longrightarrow> sm_id st = mid"
    and "\<And>mid st. dict_get (records s) mid = Some st \<Longrightarrow> dict_get (tombstones s) (sm_owner_id st, mid) = None"
    and "\<And>mid e. dict_get (embeddings s) mid = Some e \<Longrightarrow> \<exists>st. dict_get (records s) mid = Some st \<and>
        se_owner_id e = sm_owner_id st \<and> se_source_version e = sm_version st"
    and "\<And>owner key mid. dict_get (write_keys s) (owner, key) = Some mid \<Longrightarrow> mid \<noteq> []"
    and "\<And>owner key mid. dict_get (write_keys s) (owner, key) = Some mid \<Longrightarrow>
        (\<exists>st. dict_get (records s) mid = Some st \<and> sm_owner_id st = owner) \<or>
         dict_get (tombstones s) (owner, mid) \<noteq> None"
  shows "cloud_ok s"
  using assms unfolding cloud_ok_def by blast

lemma cloud_init_ok: "cloud_ok (cloud_init k v)"
  by (simp add: cloud_ok_def cloud_init_def)

definition fresh_id :: "CloudEnv \<Rightarrow> EncryptedCloudMemoryService \<Rightarrow> bool" where
  "fresh_id env s \<longleftrightarrow> dict_get (records s) (cloud_memory_id (ce_uuid env)) = None \<and>
     (\<forall>owner. dict_get (tombstones s) (owner, cloud_memory_id (ce_uuid env)) = None)"

section \<open>What each operation leaves\<close>

lemma cloud_encrypt_record_Inr:
  "cloud_encrypt_record env tenant p s = Inr st \<Longrightarrow>
     sm_id st = cloud_memory_id (ce_uuid env) \<and> sm_owner_id st = cw_owner_id p \<and> sm_version st = 1"
  by (auto simp: cloud_encrypt_record_def Let_def act_simps)

lemma cloud_write_state:
  assumes "cloud_write env p s = (r, t)"
  shows "t = s \<or> (\<exists>tenant st. cloud_encrypt_record env tenant p s = Inr st \<and>
      t = s\<lparr>records := dict_set (sm_id st) st (records s),
            write_keys := dict_set (cw_owner_id p, cw_idempotency_key p) (sm_id st) (write_keys s)\<rparr>)"
  using assms
  by (auto simp: cloud_write_def Let_def act_bind_def act_run act_read_def
      split: prod.splits sum.splits if_splits)

lemma opt_set_keeps:
  "(\<And>x r. f (g x r) = f r) \<Longrightarrow> f (opt_set g v st) = f st"
  by (cases v) (simp_all add: opt_set_def)

lemma patch_meta_keeps:
  "sm_id (patch_meta env p st) = sm_id st"
  "sm_owner_id (patch_meta env p st) = sm_owner_id st"
  "sm_version (patch_meta env p st) = sm_version st + 1"
  "content_ciphertext (patch_meta env p st) = content_ciphertext st"
  "provenance_ciphertext (patch_meta env p st) = provenance_ciphertext st"
  by (simp_all add: patch_meta_def Let_def opt_set_keeps)

lemma patch_content_keeps:
  assumes "patch_content env tenant rid p st s = Inr st'"
  shows "sm_id st' = sm_id st" "sm_owner_id st' = sm_owner_id st" "sm_version st' = sm_version st"
    "provenance_ciphertext st' = provenance_ciphertext st"
  using assms by (auto simp: patch_content_def act_simps split: option.splits)

lemma cloud_update_state:
  assumes "cloud_update env u s = (r, t)"
  shows "t = s \<and> (\<exists>e. r = Inl e) \<or>
    (\<exists>st tenant rid st1. dict_get (records s) (cu_id u) = Some st \<and> sm_owner_id st = cu_owner_id u \<and>
      sm_version st = cu_expected_version u \<and> record_uuid (sm_id st) = Inr rid \<and>
      cloud_tenant (sm_owner_id st) = Inr tenant \<and>
      patch_content env tenant rid (cu_patch u) st s = Inr st1 \<and>
      t = s\<lparr>records := dict_set (cu_id u) (patch_meta env (cu_patch u) st1) (records s),
           embeddings := dict_pop (sm_id (patch_meta env (cu_patch u) st1)) (embeddings s)\<rparr>)"
  using assms
  by (auto simp: cloud_update_def Let_def act_bind_def act_run act_read_def res_guard_def
      split: prod.splits sum.splits if_splits option.splits)

lemma cloud_store_embedding_state:
  assumes "cloud_store_embedding owner mid v vals s = (r, t)"
  shows "t = s \<or> (\<exists>st. dict_get (records s) mid = Some st \<and> sm_owner_id st = owner \<and>
      sm_version st = v \<and> sm_state st = ''active'' \<and> r = Inr True \<and>
      t = s\<lparr>embeddings := dict_set mid \<lparr>se_owner_id = owner, se_source_version = v, se_values = vals\<rparr>
            (embeddings s)\<rparr>)"
  using assms
  by (auto simp: cloud_store_embedding_def act_bind_def act_run
      split: prod.splits sum.splits if_splits option.splits)

lemma cloud_forget_state:
  assumes "cloud_forget env owner mid s = (r, t)"
  shows "\<exists>fk. r = ''already_absent'' \<and> t = s\<lparr>forget_keys := fk\<rparr> \<or>
    (\<exists>st. r = ''forgotten'' \<and> dict_get (records s) mid = Some st \<and> sm_owner_id st = owner \<and>
      t = erase_record owner mid (now_text env) (s\<lparr>forget_keys := fk\<rparr>))"
proof (cases "(owner, mid) \<in> set (forget_keys s)")
  case True
  then have "r = ''already_absent'' \<and> t = s\<lparr>forget_keys := forget_keys s\<rparr>"
    using assms by (simp add: cloud_forget_def)
  then show ?thesis by blast
next
  case False
  then show ?thesis
    using assms
    by (intro exI [of _ "(owner, mid) # forget_keys s"])
       (auto simp: cloud_forget_def Let_def split: if_splits option.splits)
qed

section \<open>Preservation\<close>

lemma cloud_ok_forget_keys [simp]: "cloud_ok (s\<lparr>forget_keys := x\<rparr>) = cloud_ok s"
  by (simp add: cloud_ok_def)

lemma cloud_ok_key_version [simp]: "cloud_ok (s\<lparr>cs_key_version := x\<rparr>) = cloud_ok s"
  by (simp add: cloud_ok_def)

lemma cloud_write_ok:
  assumes "cloud_ok s" "fresh_id env s" "cloud_write env p s = (r, t)"
  shows "cloud_ok t"
proof (cases "t = s")
  case True
  then show ?thesis using assms(1) by simp
next
  case False
  with cloud_write_state [OF assms(3)] obtain tenant st
    where st: "cloud_encrypt_record env tenant p s = Inr st"
      and t: "t = s\<lparr>records := dict_set (sm_id st) st (records s),
            write_keys := dict_set (cw_owner_id p, cw_idempotency_key p) (sm_id st) (write_keys s)\<rparr>"
    by blast
  note id = cloud_encrypt_record_Inr [OF st]
  have fresh: "dict_get (records s) (sm_id st) = None" "\<And>owner. dict_get (tombstones s) (owner, sm_id st) = None"
    using assms(2) id by (simp_all add: fresh_id_def)
  have ne: "sm_id st \<noteq> []" using id by (simp add: cloud_memory_id_def)
  show ?thesis
  proof (rule cloud_okI)
    fix mid e
    assume "dict_get (embeddings t) mid = Some e"
    with cloud_okD(7) [OF assms(1)] fresh(1) show "\<exists>st. dict_get (records t) mid = Some st \<and>
        se_owner_id e = sm_owner_id st \<and> se_source_version e = sm_version st"
      by (fastforce simp: t update_conv')
  next
    fix owner key mid
    assume "dict_get (write_keys t) (owner, key) = Some mid"
    then show "mid \<noteq> []" "(\<exists>st. dict_get (records t) mid = Some st \<and> sm_owner_id st = owner) \<or>
         dict_get (tombstones t) (owner, mid) \<noteq> None"
      using cloud_okD(8,9) [OF assms(1), of owner key mid] ne id fresh
      by (auto simp: t update_conv' split: if_splits)
  qed (use cloud_okD(1-6) [OF assms(1)] fresh id in
      \<open>auto simp: t update_conv' distinct_update split: if_splits\<close>)
qed

lemma cloud_update_ok:
  assumes "cloud_ok s" "cloud_update env u s = (r, t)"
  shows "cloud_ok t"
proof (cases "t = s")
  case True
  then show ?thesis using assms(1) by simp
next
  case False
  with cloud_update_state [OF assms(2)] obtain st tenant rid st1
    where st: "dict_get (records s) (cu_id u) = Some st"
      and st1: "patch_content env tenant rid (cu_patch u) st s = Inr st1"
      and t0: "t = s\<lparr>records := dict_set (cu_id u) (patch_meta env (cu_patch u) st1) (records s),
           embeddings := dict_pop (sm_id (patch_meta env (cu_patch u) st1)) (embeddings s)\<rparr>"
    by blast
  define st' where "st' = patch_meta env (cu_patch u) st1"
  have st': "sm_id st' = sm_id st" "sm_owner_id st' = sm_owner_id st"
    using patch_content_keeps [OF st1] by (simp_all add: st'_def patch_meta_keeps)
  have t: "t = s\<lparr>records := dict_set (cu_id u) st' (records s),
            embeddings := dict_pop (sm_id st') (embeddings s)\<rparr>"
    by (simp add: t0 st'_def)
  have id: "sm_id st' = cu_id u" using cloud_okD(5) [OF assms(1) st] st' by simp
  show ?thesis
  proof (rule cloud_okI)
    fix mid e
    assume "dict_get (embeddings t) mid = Some e"
    with cloud_okD(7) [OF assms(1), of mid e] id show "\<exists>st. dict_get (records t) mid = Some st \<and>
        se_owner_id e = sm_owner_id st \<and> se_source_version e = sm_version st"
      by (auto simp: t update_conv' delete_conv' split: if_splits)
  next
    fix owner key mid
    assume "dict_get (write_keys t) (owner, key) = Some mid"
    then show "mid \<noteq> []" "(\<exists>st. dict_get (records t) mid = Some st \<and> sm_owner_id st = owner) \<or>
         dict_get (tombstones t) (owner, mid) \<noteq> None"
      using cloud_okD(8,9) [OF assms(1), of owner key mid] st st'
      by (auto simp: t update_conv' split: if_splits)
  qed (use cloud_okD(1-6) [OF assms(1)] st st' id in
      \<open>auto simp: t update_conv' distinct_update distinct_delete split: if_splits\<close>)
qed

lemma cloud_store_embedding_ok:
  assumes "cloud_ok s" "cloud_store_embedding owner mid v vals s = (r, t)"
  shows "cloud_ok t"
  using cloud_store_embedding_state [OF assms(2)]
proof
  assume "t = s"
  then show ?thesis using assms(1) by simp
next
  assume "\<exists>st. dict_get (records s) mid = Some st \<and> sm_owner_id st = owner \<and>
      sm_version st = v \<and> sm_state st = ''active'' \<and> r = Inr True \<and>
      t = s\<lparr>embeddings := dict_set mid \<lparr>se_owner_id = owner, se_source_version = v, se_values = vals\<rparr>
            (embeddings s)\<rparr>"
  then obtain st where st: "dict_get (records s) mid = Some st" "sm_owner_id st = owner" "sm_version st = v"
    and t: "t = s\<lparr>embeddings := dict_set mid \<lparr>se_owner_id = owner, se_source_version = v, se_values = vals\<rparr>
            (embeddings s)\<rparr>" by blast
  show ?thesis
  proof (rule cloud_okI)
    fix mid' e
    assume "dict_get (embeddings t) mid' = Some e"
    with cloud_okD(7) [OF assms(1), of mid' e] st
    show "\<exists>st. dict_get (records t) mid' = Some st \<and>
        se_owner_id e = sm_owner_id st \<and> se_source_version e = sm_version st"
      by (auto simp: t update_conv' split: if_splits)
  next
    fix o' key mid'
    assume "dict_get (write_keys t) (o', key) = Some mid'"
    with cloud_okD(8,9) [OF assms(1), of o' key mid']
    show "mid' \<noteq> []" "(\<exists>st. dict_get (records t) mid' = Some st \<and> sm_owner_id st = o') \<or>
         dict_get (tombstones t) (o', mid') \<noteq> None"
      by (simp_all add: t)
  qed (use cloud_okD(1-6) [OF assms(1)] in \<open>simp_all add: t distinct_update\<close>)
qed

lemma erase_record_ok:
  assumes "cloud_ok s" "dict_get (records s) mid = Some st" "sm_owner_id st = owner"
  shows "cloud_ok (erase_record owner mid ts s)"
proof (rule cloud_okI)
  fix mid' st'
  assume "dict_get (records (erase_record owner mid ts s)) mid' = Some st'"
  then have "mid' \<noteq> mid" "dict_get (records s) mid' = Some st'"
    by (auto simp: erase_record_def delete_conv' split: if_splits)
  with cloud_okD(5,6) [OF assms(1)]
  show "sm_id st' = mid'" "dict_get (tombstones (erase_record owner mid ts s)) (sm_owner_id st', mid') = None"
    by (auto simp: erase_record_def update_conv')
next
  fix mid' e
  assume "dict_get (embeddings (erase_record owner mid ts s)) mid' = Some e"
  with cloud_okD(7) [OF assms(1), of mid' e]
  show "\<exists>st. dict_get (records (erase_record owner mid ts s)) mid' = Some st \<and>
        se_owner_id e = sm_owner_id st \<and> se_source_version e = sm_version st"
    by (auto simp: erase_record_def delete_conv' split: if_splits)
next
  fix o' key mid'
  assume "dict_get (write_keys (erase_record owner mid ts s)) (o', key) = Some mid'"
  with cloud_okD(8,9) [OF assms(1), of o' key mid'] assms(2,3)
  show "mid' \<noteq> []" "(\<exists>st. dict_get (records (erase_record owner mid ts s)) mid' = Some st \<and> sm_owner_id st = o') \<or>
         dict_get (tombstones (erase_record owner mid ts s)) (o', mid') \<noteq> None"
    by (auto simp: erase_record_def delete_conv' update_conv')
qed (use cloud_okD(1-4) [OF assms(1)] in
    \<open>auto simp: erase_record_def distinct_update distinct_delete\<close>)

lemma cloud_forget_ok:
  assumes "cloud_ok s" "cloud_forget env owner mid s = (r, t)"
  shows "cloud_ok t"
proof -
  from cloud_forget_state [OF assms(2)] obtain fk where
    "t = s\<lparr>forget_keys := fk\<rparr> \<or> (\<exists>st. dict_get (records s) mid = Some st \<and> sm_owner_id st = owner \<and>
      t = erase_record owner mid (now_text env) (s\<lparr>forget_keys := fk\<rparr>))" by blast
  then show ?thesis
    using assms(1) erase_record_ok [of "s\<lparr>forget_keys := fk\<rparr>" mid _ owner] by fastforce
qed

lemma dict_get_filter_Some:
  assumes "dict_ok d" "dict_get (filter Q d) k = Some v"
  shows "dict_get d k = Some v \<and> Q (k, v)"
proof -
  have "(k, v) \<in> set d" "Q (k, v)" using map_of_SomeD [OF assms(2)] by simp_all
  then show ?thesis using map_of_is_SomeI [OF assms(1)] by simp
qed

lemma cloud_ok_filter_write_keys:
  assumes "cloud_ok s"
  shows "cloud_ok (s\<lparr>write_keys := filter Q (write_keys s)\<rparr>)"
proof (rule cloud_okI)
  fix owner key mid
  assume "dict_get (write_keys (s\<lparr>write_keys := filter Q (write_keys s)\<rparr>)) (owner, key) = Some mid"
  then have "dict_get (write_keys s) (owner, key) = Some mid"
    using dict_get_filter_Some [OF cloud_okD(4) [OF assms]] by simp
  with cloud_okD(8,9) [OF assms]
  show "mid \<noteq> []" "(\<exists>st. dict_get (records (s\<lparr>write_keys := filter Q (write_keys s)\<rparr>)) mid = Some st \<and>
        sm_owner_id st = owner) \<or>
      dict_get (tombstones (s\<lparr>write_keys := filter Q (write_keys s)\<rparr>)) (owner, mid) \<noteq> None"
    by simp_all
qed (use cloud_okD(1-7) [OF assms] in \<open>simp_all add: dict_ok_filter\<close>)

abbreviation erase_owned ::
  "CloudEnv \<Rightarrow> string \<Rightarrow> string \<Rightarrow> EncryptedCloudMemoryService \<Rightarrow> EncryptedCloudMemoryService" where
  "erase_owned env owner mid s \<equiv> erase_record owner mid (now_text env)
     (s\<lparr>forget_keys := List.insert (owner, mid) (forget_keys s)\<rparr>)"

lemma erase_owned_get:
  "dict_get (records (erase_owned env owner mid s)) mid' =
     (if mid' = mid then None else dict_get (records s) mid')"
  "dict_get (tombstones (erase_owned env owner mid s)) k =
     (if k = (owner, mid) then Some (now_text env) else dict_get (tombstones s) k)"
  by (simp_all add: erase_record_def delete_conv' update_conv')

lemma erase_all_ok:
  assumes "cloud_ok s" "distinct mids"
    and "\<forall>mid\<in>set mids. \<exists>st. dict_get (records s) mid = Some st \<and> sm_owner_id st = owner"
  shows "cloud_ok (fold (erase_owned env owner) mids s) \<and>
    (\<forall>mid. dict_get (records (fold (erase_owned env owner) mids s)) mid =
       (if mid \<in> set mids then None else dict_get (records s) mid)) \<and>
    (\<forall>k. dict_get (tombstones s) k \<noteq> None \<longrightarrow>
       dict_get (tombstones (fold (erase_owned env owner) mids s)) k \<noteq> None) \<and>
    (\<forall>mid\<in>set mids. dict_get (tombstones (fold (erase_owned env owner) mids s)) (owner, mid) \<noteq> None)"
  using assms
proof (induction mids arbitrary: s)
  case Nil
  then show ?case by simp
next
  case (Cons mid mids)
  let ?s = "erase_owned env owner mid s"
  from Cons.prems(3) obtain st where st: "dict_get (records s) mid = Some st" "sm_owner_id st = owner"
    by auto
  have ok: "cloud_ok ?s"
    using Cons.prems(1) st by (intro erase_record_ok) simp_all
  have rest: "\<forall>mid'\<in>set mids. \<exists>st. dict_get (records ?s) mid' = Some st \<and> sm_owner_id st = owner"
    using Cons.prems(2,3) by (auto simp: erase_owned_get)
  note IH = Cons.IH [OF ok _ rest]
  show ?case using IH Cons.prems(2) by (auto simp: erase_owned_get)
qed

lemma cloud_delete_owner_state:
  assumes "cloud_delete_owner env owner s = (r, t)"
  shows "t = s \<or> (\<exists>mids. mids = map fst (filter (\<lambda>(mid, st). sm_owner_id st = owner) (records s)) \<and>
     t = (fold (erase_owned env owner) mids s)\<lparr>write_keys :=
       filter (\<lambda>((o', k), mid). o' \<noteq> owner) (write_keys (fold (erase_owned env owner) mids s))\<rparr>)"
  using assms
  by (auto simp: cloud_delete_owner_def act_bind_def act_run split: prod.splits sum.splits)

lemma owned_ids:
  assumes "cloud_ok s" "mids = map fst (filter (\<lambda>(mid, st). sm_owner_id st = owner) (records s))"
  shows "distinct mids"
    "\<forall>mid\<in>set mids. \<exists>st. dict_get (records s) mid = Some st \<and> sm_owner_id st = owner"
  using dict_ok_filter [OF cloud_okD(1) [OF assms(1)]] dict_get_mem [OF cloud_okD(1) [OF assms(1)]]
  by (auto simp: assms(2))

lemma cloud_delete_owner_ok:
  assumes "cloud_ok s" "cloud_delete_owner env owner s = (r, t)"
  shows "cloud_ok t"
proof (cases "t = s")
  case True
  then show ?thesis using assms(1) by simp
next
  case False
  define mids where "mids = map fst (filter (\<lambda>(mid, st). sm_owner_id st = owner) (records s))"
  from False cloud_delete_owner_state [OF assms(2)] have
    t: "t = (fold (erase_owned env owner) mids s)\<lparr>write_keys :=
       filter (\<lambda>((o', k), mid). o' \<noteq> owner) (write_keys (fold (erase_owned env owner) mids s))\<rparr>"
    by (simp add: mids_def)
  show ?thesis
    unfolding t using erase_all_ok [OF assms(1) owned_ids [OF assms(1) mids_def]]
    by (blast intro: cloud_ok_filter_write_keys)
qed

section \<open>Restore\<close>

lemma drop_tombstoned_get:
  assumes "dict_ok recs"
  shows "dict_ok (drop_tombstoned tombs recs) \<and>
    dict_get (drop_tombstoned tombs recs) mid = (case dict_get recs mid of
       None \<Rightarrow> None
     | Some st \<Rightarrow> if dict_get tombs (sm_owner_id st, mid) = None then Some st else None)"
  using assms
proof (induction tombs arbitrary: recs)
  case Nil
  then show ?case by (simp add: drop_tombstoned_def split: option.splits)
next
  case (Cons p tombs)
  obtain o' m ts where p: "p = ((o', m), ts)" by (metis prod.exhaust)
  define recs1 where "recs1 = (case dict_get recs m of
       None \<Rightarrow> recs | Some st \<Rightarrow> if sm_owner_id st = o' then dict_pop m recs else recs)"
  have step: "drop_tombstoned (p # tombs) recs = drop_tombstoned tombs recs1"
    by (simp add: drop_tombstoned_def p recs1_def)
  have ok: "dict_ok recs1"
    using Cons.prems by (auto simp: recs1_def distinct_delete split: option.splits)
  have get: "dict_get recs1 mid = (case dict_get recs mid of
       None \<Rightarrow> None
     | Some st \<Rightarrow> if (sm_owner_id st, mid) = (o', m) then None else Some st)"
    by (auto simp: recs1_def delete_conv' split: option.splits)
  show ?case
    unfolding step using Cons.IH [OF ok] get by (auto simp: p split: option.splits)
qed

lemma restore_tombstone_Inr:
  "restore_tombstone env e s = (Inr u, t) \<Longrightarrow>
     t = s\<lparr>tombstones := dict_set (ct_owner_id e, ct_memory_id e) (ct_deleted_at e) (tombstones s)\<rparr>"
  by (auto simp: restore_tombstone_def act_simps)

lemma restore_tombstones_Inr:
  assumes "act_iter (restore_tombstone env) es s = (Inr u, t)" "dict_ok (tombstones s)"
  shows "\<exists>tb. t = s\<lparr>tombstones := tb\<rparr> \<and> dict_ok tb \<and>
    (\<forall>k. dict_get (tombstones s) k \<noteq> None \<longrightarrow> dict_get tb k \<noteq> None) \<and>
    (\<forall>e\<in>set es. dict_get tb (ct_owner_id e, ct_memory_id e) \<noteq> None)"
  using assms
proof (induction es arbitrary: s)
  case Nil
  then show ?case by (auto simp: act_simps intro: exI [of _ "tombstones s"])
next
  case (Cons e es)
  from Cons.prems(1) obtain u1 s1 where e: "restore_tombstone env e s = (Inr u1, s1)"
    and es: "act_iter (restore_tombstone env) es s1 = (Inr u, t)" by (auto simp: act_simps)
  have s1: "s1 = s\<lparr>tombstones := dict_set (ct_owner_id e, ct_memory_id e) (ct_deleted_at e) (tombstones s)\<rparr>"
    by (rule restore_tombstone_Inr [OF e])
  have "dict_ok (tombstones s1)" using Cons.prems(2) by (simp add: s1 distinct_update)
  from Cons.IH [OF es this] obtain tb where tb: "t = s1\<lparr>tombstones := tb\<rparr>" "dict_ok tb"
    "\<forall>k. dict_get (tombstones s1) k \<noteq> None \<longrightarrow> dict_get tb k \<noteq> None"
    "\<forall>e\<in>set es. dict_get tb (ct_owner_id e, ct_memory_id e) \<noteq> None" by blast
  have "\<forall>k. dict_get (tombstones s) k \<noteq> None \<longrightarrow> dict_get tb k \<noteq> None"
    "dict_get tb (ct_owner_id e, ct_memory_id e) \<noteq> None"
    using tb(3) by (auto simp: s1 update_conv')
  with tb show ?case by (intro exI [of _ tb]) (simp add: s1)
qed

lemma cloud_restore_Inr:
  assumes "cloud_restore env b ledger s = (Inr n, t)" "dict_ok (tombstones s)"
  shows "\<exists>tb. dict_ok tb \<and> (\<forall>k. dict_get (tombstones s) k \<noteq> None \<longrightarrow> dict_get tb k \<noteq> None) \<and>
    (\<forall>e\<in>set ledger. dict_get tb (ct_owner_id e, ct_memory_id e) \<noteq> None) \<and>
    (\<forall>(mid, st)\<in>set (cb_records b). sm_id st = mid) \<and>
    t = install_records (drop_tombstoned tb (cb_records b)) (s\<lparr>tombstones := tb\<rparr>) \<and>
    n = int (length (records t))"
proof -
  from assms(1) obtain u s1 us where it: "act_iter (restore_tombstone env) (cloud_tombstones s @ ledger) s = (Inr u, s1)"
    and chk: "res_map check_backup_record (cb_records b) = Inr us"
    and t: "t = install_records (drop_tombstoned (tombstones s1) (cb_records b)) s1"
      "n = int (length (records t))"
    by (auto simp: cloud_restore_def act_simps)
  from restore_tombstones_Inr [OF it assms(2)] obtain tb where tb: "s1 = s\<lparr>tombstones := tb\<rparr>" "dict_ok tb"
    "\<forall>k. dict_get (tombstones s) k \<noteq> None \<longrightarrow> dict_get tb k \<noteq> None"
    "\<forall>e\<in>set ledger. dict_get tb (ct_owner_id e, ct_memory_id e) \<noteq> None" by auto
  have "list_all2 (\<lambda>p y. check_backup_record p = Inr y) (cb_records b) us"
    using chk by (simp add: res_map_Inr)
  then have "\<forall>p\<in>set (cb_records b). sm_id (snd p) = fst p"
    by (induction rule: list_all2_induct) (auto simp: check_backup_record_def act_simps)
  with tb t show ?thesis by (intro exI [of _ tb]) auto
qed

lemma install_records_ok:
  assumes "cloud_ok s" "dict_ok recs" "dict_ok tb"
    and "\<And>mid st. dict_get recs mid = Some st \<Longrightarrow> sm_id st = mid \<and> dict_get tb (sm_owner_id st, mid) = None"
  shows "cloud_ok (install_records recs (s\<lparr>tombstones := tb\<rparr>))"
proof (rule cloud_okI)
  fix mid e
  assume "dict_get (embeddings (install_records recs (s\<lparr>tombstones := tb\<rparr>))) mid = Some e"
  from dict_get_filter_Some [OF cloud_okD(2) [OF assms(1)], of "keep_embedding recs"] this
  have "keep_embedding recs (mid, e)" by (simp add: install_records_def)
  then show "\<exists>st. dict_get (records (install_records recs (s\<lparr>tombstones := tb\<rparr>))) mid = Some st \<and>
      se_owner_id e = sm_owner_id st \<and> se_source_version e = sm_version st"
    by (auto simp: keep_embedding_def install_records_def split: option.splits)
next
  fix owner key mid
  assume "dict_get (write_keys (install_records recs (s\<lparr>tombstones := tb\<rparr>))) (owner, key) = Some mid"
  from dict_get_filter_Some [OF cloud_okD(4) [OF assms(1)], of "keep_write_key recs"] this
  have k: "dict_get (write_keys s) (owner, key) = Some mid" "keep_write_key recs ((owner, key), mid)"
    by (simp_all add: install_records_def)
  from cloud_okD(8) [OF assms(1) k(1)] show "mid \<noteq> []" .
  from k(2) show "(\<exists>st. dict_get (records (install_records recs (s\<lparr>tombstones := tb\<rparr>))) mid = Some st \<and>
        sm_owner_id st = owner) \<or>
      dict_get (tombstones (install_records recs (s\<lparr>tombstones := tb\<rparr>))) (owner, mid) \<noteq> None"
    by (auto simp: keep_write_key_def install_records_def split: option.splits)
qed (use assms cloud_okD(2,4) [OF assms(1)] in
    \<open>auto simp: install_records_def intro: dict_ok_filter\<close>)

lemma cloud_restore_ok:
  assumes "cloud_ok s" "dict_ok (cb_records b)" "cloud_restore env b ledger s = (Inr n, t)"
  shows "cloud_ok t"
proof -
  from cloud_restore_Inr [OF assms(3) cloud_okD(3) [OF assms(1)]] obtain tb where tb: "dict_ok tb"
    and ids: "\<forall>(mid, st)\<in>set (cb_records b). sm_id st = mid"
    and t: "t = install_records (drop_tombstoned tb (cb_records b)) (s\<lparr>tombstones := tb\<rparr>)" by blast
  have "sm_id st = mid \<and> dict_get tb (sm_owner_id st, mid) = None"
    if "dict_get (drop_tombstoned tb (cb_records b)) mid = Some st" for mid st
    using that drop_tombstoned_get [OF assms(2), of tb mid] ids
    by (auto split: option.splits if_splits dest!: map_of_SomeD)
  then show ?thesis
    unfolding t using drop_tombstoned_get [OF assms(2)] by (intro install_records_ok assms(1) tb) auto
qed

section \<open>Rewrap\<close>

definition same_meta :: "StoredMemory \<Rightarrow> StoredMemory \<Rightarrow> bool" where
  "same_meta st st' \<longleftrightarrow> st' = st\<lparr>content_ciphertext := content_ciphertext st',
     provenance_ciphertext := provenance_ciphertext st'\<rparr>"

lemma same_meta_refl [simp]: "same_meta st st"
  by (simp add: same_meta_def)

lemma same_meta_fields:
  assumes "same_meta st st'"
  shows "sm_id st' = sm_id st" "sm_owner_id st' = sm_owner_id st" "sm_version st' = sm_version st"
    "sm_state st' = sm_state st"
  by (subst assms [unfolded same_meta_def], simp)+

lemma rewrap_record_Inr:
  "rewrap_record env k v i st = Inr (st', n) \<Longrightarrow> same_meta st st'"
  by (auto simp: rewrap_record_def same_meta_def act_simps split: prod.splits)

lemma rewrap_records_Inr:
  "rewrap_records env k v i recs = Inr (recs', n) \<Longrightarrow>
     list_all2 (\<lambda>p q. fst q = fst p \<and> same_meta (snd p) (snd q)) recs recs'"
proof (induction env k v i recs arbitrary: recs' n rule: rewrap_records.induct)
  case (1 env k v i)
  then show ?case by simp
next
  case (2 env k v i mid st rest)
  from 2(2) obtain st' a rest' b where "rewrap_record env k v i st = Inr (st', a)"
    "rewrap_records env k v (Suc i) rest = Inr (rest', b)" "recs' = (mid, st') # rest'"
    by (auto simp: act_simps split: prod.splits)
  with 2(1) show ?case by (auto dest: rewrap_record_Inr)
qed

lemma list_all2_same_get:
  assumes "list_all2 (\<lambda>p q. fst q = fst p \<and> R (snd p) (snd q)) xs ys"
  shows "map fst ys = map fst xs" "rel_option R (dict_get xs k) (dict_get ys k)"
  using assms by (induction rule: list_all2_induct) auto

lemma cloud_rewrap_state:
  assumes "cloud_rewrap env v s = (r, t)"
  shows "(\<exists>e. r = Inl e \<and> t = s) \<or>
    (\<exists>recs n. r = Inr n \<and> rewrap_records env (cs_kms s) v 0 (records s) = Inr (recs, n) \<and>
      1 \<le> v \<and> cs_key_version s \<le> v \<and> t = s\<lparr>records := recs, cs_key_version := v\<rparr>)"
  using assms
  by (auto simp: cloud_rewrap_def act_bind_def act_run res_guard_def split: prod.splits sum.splits if_splits)

lemma cloud_rewrap_meta:
  assumes "cloud_rewrap env v s = (r, t)"
  shows "\<exists>recs kv. t = s\<lparr>records := recs, cs_key_version := kv\<rparr> \<and> map fst recs = map fst (records s) \<and>
    (\<forall>mid. rel_option same_meta (dict_get (records s) mid) (dict_get recs mid))"
proof -
  from cloud_rewrap_state [OF assms] consider "t = s"
    | recs n where "rewrap_records env (cs_kms s) v 0 (records s) = Inr (recs, n)"
        "t = s\<lparr>records := recs, cs_key_version := v\<rparr>" by blast
  then show ?thesis
  proof cases
    case 1
    have "rel_option same_meta x x" for x by (cases x) simp_all
    then show ?thesis
      by (intro exI [of _ "records s"] exI [of _ "cs_key_version s"]) (simp add: 1)
  next
    case 2
    with list_all2_same_get [OF rewrap_records_Inr [OF 2(1)]] show ?thesis by blast
  qed
qed

lemma cloud_rewrap_ok:
  assumes "cloud_ok s" "cloud_rewrap env v s = (r, t)"
  shows "cloud_ok t"
proof -
  from cloud_rewrap_meta [OF assms(2)] obtain recs kv where
    t: "t = s\<lparr>records := recs, cs_key_version := kv\<rparr>" and fst: "map fst recs = map fst (records s)"
    and rel: "\<And>mid. rel_option same_meta (dict_get (records s) mid) (dict_get recs mid)" by blast
  have bwd: "\<exists>st. dict_get (records s) mid = Some st \<and> same_meta st st'" if "dict_get recs mid = Some st'" for mid st'
    using rel [of mid] that by (auto simp: option_rel_Some2)
  have fwd: "\<exists>st'. dict_get recs mid = Some st' \<and> same_meta st st'" if "dict_get (records s) mid = Some st" for mid st
    using rel [of mid] that by (auto simp: option_rel_Some1)
  show ?thesis
  proof (rule cloud_okI)
    fix mid st'
    assume "dict_get (records t) mid = Some st'"
    then obtain st where st: "dict_get (records s) mid = Some st" "same_meta st st'"
      using bwd by (auto simp: t)
    from cloud_okD(5,6) [OF assms(1) st(1)] same_meta_fields [OF st(2)]
    show "sm_id st' = mid" "dict_get (tombstones t) (sm_owner_id st', mid) = None"
      by (simp_all add: t)
  next
    fix mid e
    assume "dict_get (embeddings t) mid = Some e"
    then have "dict_get (embeddings s) mid = Some e" by (simp add: t)
    from cloud_okD(7) [OF assms(1) this] obtain st where st: "dict_get (records s) mid = Some st"
      "se_owner_id e = sm_owner_id st" "se_source_version e = sm_version st" by blast
    from fwd [OF st(1)] obtain st' where st': "dict_get recs mid = Some st'" "same_meta st st'" by blast
    with st same_meta_fields(2,3) [OF st'(2)] show "\<exists>st. dict_get (records t) mid = Some st \<and>
        se_owner_id e = sm_owner_id st \<and> se_source_version e = sm_version st"
      by (simp add: t)
  next
    fix owner key mid
    assume "dict_get (write_keys t) (owner, key) = Some mid"
    then have k: "dict_get (write_keys s) (owner, key) = Some mid" by (simp add: t)
    from cloud_okD(8) [OF assms(1) k] show "mid \<noteq> []" .
    from cloud_okD(9) [OF assms(1) k] have "(\<exists>st. dict_get recs mid = Some st \<and> sm_owner_id st = owner) \<or>
         dict_get (tombstones s) (owner, mid) \<noteq> None"
      using fwd same_meta_fields(2) by metis
    then show "(\<exists>st. dict_get (records t) mid = Some st \<and> sm_owner_id st = owner) \<or>
         dict_get (tombstones t) (owner, mid) \<noteq> None"
      by (simp add: t)
  qed (use cloud_okD(1-4) [OF assms(1)] fst in \<open>simp_all add: t\<close>)
qed

lemma cloud_rotate_state:
  assumes "cloud_rotate v s = (r, t)"
  shows "t = s \<or> 1 \<le> v \<and> cs_key_version s \<le> v \<and> t = s\<lparr>cs_key_version := v\<rparr>"
  using assms by (auto simp: cloud_rotate_def act_bind_def act_run res_guard_def split: if_splits)

lemma cloud_rotate_ok:
  assumes "cloud_ok s" "cloud_rotate v s = (r, t)"
  shows "cloud_ok t"
  using cloud_rotate_state [OF assms(2)] assms(1) by auto

end
