(* ===== verification/Encrypted_Properties.thy ===== *)
theory Encrypted_Properties
  imports Encrypted_Invariant
begin

text \<open>
  Runs of the encrypted cloud store and its properties: the store's invariant in every reachable
  state, deletion that survives restores, versions that never go back while the service is online,
  the write/read round trip through the envelope encryption, key rotation, backup and restore, and
  the composition of the store with the re-embedding worker.
\<close>

section \<open>Steps\<close>

inductive cloud_online_step :: "EncryptedCloudMemoryService \<Rightarrow> EncryptedCloudMemoryService \<Rightarrow> bool" where
  on_write: "fresh_id env s \<Longrightarrow> cloud_write env p s = (r, t) \<Longrightarrow> cloud_online_step s t"
| on_update: "cloud_update env u s = (r, t) \<Longrightarrow> cloud_online_step s t"
| on_store_embedding: "cloud_store_embedding owner mid v vals s = (r', t) \<Longrightarrow> cloud_online_step s t"
| on_forget: "cloud_forget env owner mid s = (status, t) \<Longrightarrow> cloud_online_step s t"
| on_delete_owner: "cloud_delete_owner env owner s = (n, t) \<Longrightarrow> cloud_online_step s t"
| on_rotate: "cloud_rotate v s = (u', t) \<Longrightarrow> cloud_online_step s t"
| on_rewrap: "cloud_rewrap env v s = (n', t) \<Longrightarrow> cloud_online_step s t"

inductive cloud_step :: "EncryptedCloudMemoryService \<Rightarrow> EncryptedCloudMemoryService \<Rightarrow> bool" where
  st_online: "cloud_online_step s t \<Longrightarrow> cloud_step s t"
| st_restore: "dict_ok (cb_records b) \<Longrightarrow> cloud_restore env b ledger s = (Inr n, t) \<Longrightarrow> cloud_step s t"

definition cloud_ver :: "string \<times> string \<Rightarrow> EncryptedCloudMemoryService \<Rightarrow> int option" where
  "cloud_ver k s = (case dict_get (records s) (snd k) of
     None \<Rightarrow> None
   | Some st \<Rightarrow> if sm_owner_id st = fst k then Some (sm_version st) else None)"

definition cloud_dead :: "string \<times> string \<Rightarrow> EncryptedCloudMemoryService \<Rightarrow> bool" where
  "cloud_dead k s \<longleftrightarrow> dict_get (tombstones s) k \<noteq> None"

lemma cloud_ver_Some:
  "cloud_ver (owner, mid) s = Some n \<longleftrightarrow>
     (\<exists>st. dict_get (records s) mid = Some st \<and> sm_owner_id st = owner \<and> sm_version st = n)"
  by (auto simp: cloud_ver_def split: option.splits)

lemma cloud_online_step_ok: "cloud_online_step s t \<Longrightarrow> cloud_ok s \<Longrightarrow> cloud_ok t"
  by (induction rule: cloud_online_step.induct)
     (blast intro: cloud_write_ok cloud_update_ok cloud_store_embedding_ok cloud_forget_ok
       cloud_delete_owner_ok cloud_rotate_ok cloud_rewrap_ok)+

lemma cloud_step_ok: "cloud_step s t \<Longrightarrow> cloud_ok s \<Longrightarrow> cloud_ok t"
  by (induction rule: cloud_step.induct) (blast intro: cloud_online_step_ok cloud_restore_ok)+

definition keeps_ledger :: "EncryptedCloudMemoryService \<Rightarrow> EncryptedCloudMemoryService \<Rightarrow> bool" where
  "keeps_ledger s t \<longleftrightarrow> (\<forall>k. cloud_dead k s \<longrightarrow> cloud_dead k t) \<and>
     (\<forall>k n. cloud_ver k s = Some n \<longrightarrow> cloud_dead k t \<or> (\<exists>m\<ge>n. cloud_ver k t = Some m))"

lemma keeps_ledgerD:
  assumes "keeps_ledger s t"
  shows "cloud_dead k s \<Longrightarrow> cloud_dead k t"
    and "cloud_ver k s = Some n \<Longrightarrow> cloud_dead k t \<or> (\<exists>m\<ge>n. cloud_ver k t = Some m)"
  using assms unfolding keeps_ledger_def by blast+

lemma keeps_ledger_same:
  "tombstones t = tombstones s \<Longrightarrow> records t = records s \<Longrightarrow> keeps_ledger s t"
  by (auto simp: keeps_ledger_def cloud_dead_def cloud_ver_def)

lemma keeps_ledger_write:
  assumes "fresh_id env s" "cloud_write env p s = (r, t)"
  shows "keeps_ledger s t"
proof (cases "t = s")
  case False
  with cloud_write_state [OF assms(2)] obtain tenant st
    where st: "cloud_encrypt_record env tenant p s = Inr st"
      and t: "t = s\<lparr>records := dict_set (sm_id st) st (records s),
            write_keys := dict_set (cw_owner_id p, cw_idempotency_key p) (sm_id st) (write_keys s)\<rparr>"
    by blast
  have "dict_get (records s) (sm_id st) = None"
    using assms(1) cloud_encrypt_record_Inr [OF st] by (simp add: fresh_id_def)
  then show ?thesis
    by (auto simp: keeps_ledger_def cloud_dead_def cloud_ver_Some t update_conv')
qed (simp add: keeps_ledger_same)

lemma keeps_ledger_update:
  assumes "cloud_update env u s = (r, t)"
  shows "keeps_ledger s t"
proof (cases "t = s")
  case False
  with cloud_update_state [OF assms] obtain st tenant rid st1
    where st: "dict_get (records s) (cu_id u) = Some st"
      and st1: "patch_content env tenant rid (cu_patch u) st s = Inr st1"
      and t: "t = s\<lparr>records := dict_set (cu_id u) (patch_meta env (cu_patch u) st1) (records s),
           embeddings := dict_pop (sm_id (patch_meta env (cu_patch u) st1)) (embeddings s)\<rparr>"
    by blast
  show ?thesis
    using st patch_content_keeps [OF st1]
    by (auto simp: keeps_ledger_def cloud_dead_def cloud_ver_Some t update_conv' patch_meta_keeps)
qed (simp add: keeps_ledger_same)

lemma keeps_ledger_forget:
  assumes "cloud_forget env owner mid s = (r, t)"
  shows "keeps_ledger s t"
proof -
  from cloud_forget_state [OF assms] obtain fk where
    "t = s\<lparr>forget_keys := fk\<rparr> \<or> (\<exists>st. dict_get (records s) mid = Some st \<and> sm_owner_id st = owner \<and>
      t = erase_record owner mid (now_text env) (s\<lparr>forget_keys := fk\<rparr>))" by blast
  then show ?thesis
  proof
    assume "t = s\<lparr>forget_keys := fk\<rparr>"
    then show ?thesis by (simp add: keeps_ledger_same)
  next
    assume "\<exists>st. dict_get (records s) mid = Some st \<and> sm_owner_id st = owner \<and>
      t = erase_record owner mid (now_text env) (s\<lparr>forget_keys := fk\<rparr>)"
    then obtain st where st: "dict_get (records s) mid = Some st" "sm_owner_id st = owner"
      and t: "t = erase_record owner mid (now_text env) (s\<lparr>forget_keys := fk\<rparr>)" by blast
    have "cloud_dead k t \<or> cloud_ver k t = Some n" if "cloud_ver k s = Some n" for k n
      using that st by (cases k)
        (auto simp: t cloud_dead_def cloud_ver_Some erase_record_def update_conv' delete_conv')
    moreover have "cloud_dead k s \<Longrightarrow> cloud_dead k t" for k
      by (simp add: t cloud_dead_def erase_record_def update_conv')
    ultimately show ?thesis unfolding keeps_ledger_def by blast
  qed
qed

lemma keeps_ledger_delete_owner:
  assumes "cloud_ok s" "cloud_delete_owner env owner s = (r, t)"
  shows "keeps_ledger s t"
proof (cases "t = s")
  case False
  define mids where "mids = map fst (filter (\<lambda>(mid, st). sm_owner_id st = owner) (records s))"
  from False cloud_delete_owner_state [OF assms(2)] have
    t: "t = (fold (erase_owned env owner) mids s)\<lparr>write_keys :=
       filter (\<lambda>((o', k), mid). o' \<noteq> owner) (write_keys (fold (erase_owned env owner) mids s))\<rparr>"
    by (simp add: mids_def)
  note own = owned_ids [OF assms(1) mids_def]
  note fin = erase_all_ok [OF assms(1) own, of env]
  have "cloud_dead k t \<or> cloud_ver k t = Some n" if "cloud_ver k s = Some n" for k n
  proof -
    obtain o' mid where k: "k = (o', mid)" by (cases k)
    show ?thesis
    proof (cases "mid \<in> set mids")
      case True
      with own(2) that have "o' = owner" by (auto simp: cloud_ver_Some k)
      with fin True show ?thesis by (simp add: t cloud_dead_def k)
    next
      case False
      with fin that show ?thesis by (simp add: t cloud_ver_Some k)
    qed
  qed
  moreover have "cloud_dead k s \<Longrightarrow> cloud_dead k t" for k
    using fin unfolding cloud_dead_def by (simp add: t del: split_paired_All)
  ultimately show ?thesis unfolding keeps_ledger_def by blast
qed (simp add: keeps_ledger_same)

lemma keeps_ledger_rewrap:
  assumes "cloud_rewrap env v s = (r, t)"
  shows "keeps_ledger s t"
proof -
  from cloud_rewrap_meta [OF assms] obtain recs kv where
    t: "t = s\<lparr>records := recs, cs_key_version := kv\<rparr>"
    and rel: "\<And>mid. rel_option same_meta (dict_get (records s) mid) (dict_get recs mid)" by blast
  have "cloud_ver k t = cloud_ver k s" for k
    using rel [of "snd k"]
    by (cases "dict_get (records s) (snd k)"; cases "dict_get recs (snd k)")
       (auto simp: cloud_ver_def t dest: same_meta_fields)
  then show ?thesis by (simp add: keeps_ledger_def cloud_dead_def t)
qed

lemma cloud_online_step_keeps: "cloud_online_step s t \<Longrightarrow> cloud_ok s \<Longrightarrow> keeps_ledger s t"
proof (induction rule: cloud_online_step.induct)
  case (on_store_embedding owner mid v vals s r' t)
  from cloud_store_embedding_state [OF this(1)] show ?case by (auto intro: keeps_ledger_same)
next
  case (on_rotate v s u' t)
  from cloud_rotate_state [OF this(1)] show ?case by (auto intro: keeps_ledger_same)
qed (blast intro: keeps_ledger_write keeps_ledger_update keeps_ledger_forget keeps_ledger_delete_owner
    keeps_ledger_rewrap)+

lemma cloud_step_dead: "cloud_step s t \<Longrightarrow> cloud_ok s \<Longrightarrow> cloud_dead k s \<Longrightarrow> cloud_dead k t"
proof (induction rule: cloud_step.induct)
  case (st_online s t)
  from keeps_ledgerD(1) [OF cloud_online_step_keeps [OF st_online(1,2)] st_online(3)] show ?case .
next
  case (st_restore b env ledger s n t)
  from cloud_restore_Inr [OF st_restore(2) cloud_okD(3) [OF st_restore(3)]]
  obtain tb where tb: "\<forall>k. dict_get (tombstones s) k \<noteq> None \<longrightarrow> dict_get tb k \<noteq> None"
    and t: "t = install_records (drop_tombstoned tb (cb_records b)) (s\<lparr>tombstones := tb\<rparr>)" by blast
  have "tombstones t = tb" by (simp add: t install_records_def)
  with tb st_restore(4) show ?case unfolding cloud_dead_def by blast
qed

lemma cloud_dead_absent: "cloud_ok s \<Longrightarrow> cloud_dead k s \<Longrightarrow> cloud_ver k s = None"
proof -
  assume ok: "cloud_ok s" and dead: "cloud_dead k s"
  obtain o' mid where k: "k = (o', mid)" by (cases k)
  have "cloud_ver (o', mid) s \<noteq> Some n" for n
    using cloud_okD(6) [OF ok, of mid] dead by (auto simp: cloud_ver_Some cloud_dead_def k)
  then show ?thesis by (cases "cloud_ver k s") (simp_all add: k)
qed

interpretation cloud_ledger: deletion_ledger cloud_ok cloud_step "\<lambda>k s. cloud_ver k s \<noteq> None" cloud_dead
proof
  show "cloud_ok s \<Longrightarrow> cloud_step s t \<Longrightarrow> cloud_ok t" for s t by (rule cloud_step_ok)
  show "cloud_ok s \<Longrightarrow> cloud_step s t \<Longrightarrow> cloud_dead k s \<Longrightarrow> cloud_dead k t" for s t k
    by (rule cloud_step_dead)
  show "cloud_ok s \<Longrightarrow> cloud_dead k s \<Longrightarrow> \<not> cloud_ver k s \<noteq> None" for s k
    by (simp add: cloud_dead_absent)
qed

interpretation cloud_versions: versioned_store cloud_ok cloud_online_step cloud_ver cloud_dead
proof
  show "cloud_ok s \<Longrightarrow> cloud_online_step s t \<Longrightarrow> cloud_ok t" for s t by (rule cloud_online_step_ok)
  show "cloud_ok s \<Longrightarrow> cloud_online_step s t \<Longrightarrow> cloud_dead k s \<Longrightarrow> cloud_dead k t" for s t k
    by (rule keeps_ledgerD(1) [OF cloud_online_step_keeps])
  show "cloud_ok s \<Longrightarrow> cloud_dead k s \<Longrightarrow> \<not> cloud_ver k s \<noteq> None" for s k
    by (simp add: cloud_dead_absent)
  show "cloud_ok s \<Longrightarrow> cloud_online_step s t \<Longrightarrow> cloud_ver k s = Some n \<Longrightarrow>
      cloud_dead k t \<or> (\<exists>m\<ge>n. cloud_ver k t = Some m)" for s t k n
    by (rule keeps_ledgerD(2) [OF cloud_online_step_keeps])
qed

section \<open>Reading what was written\<close>

lemma record_uuid_memory_id [simp]: "record_uuid (cloud_memory_id u) = Inr u"
  by (simp add: record_uuid_def cloud_memory_id_def opt_or_def)

lemma local_encrypt:
  assumes "1 \<le> v" "f \<noteq> []" "CHR ''/'' \<notin> set f" "entropy_ok e"
  shows "\<exists>x. encryptor_encrypt c (LocalKMS m) e t r f p v = Inr x"
  using assms by (auto simp: encryptor_encrypt_Inr kms_wrap_def local_wrap_Inr entropy_ok_def)

definition env_ok :: "CloudEnv \<Rightarrow> bool" where
  "env_ok env \<longleftrightarrow> aead_ok (ce_aead env) \<and> (\<forall>i. entropy_ok (ce_entropy env i))"

definition written :: "CloudEnv \<Rightarrow> CloudWrite \<Rightarrow> CloudMemory" where
  "written env p = \<lparr>cm_id = cloud_memory_id (ce_uuid env), cm_owner_id = cw_owner_id p,
     cm_type = cw_type p, cm_space = cw_space p,
     cm_importance = (case cw_importance p of None \<Rightarrow> pf_half | Some x \<Rightarrow> x),
     cm_confidence = (case cw_confidence p of None \<Rightarrow> pf_half | Some x \<Rightarrow> x),
     cm_state = ''active'', cm_version = 1, cm_created_at = now_text env, cm_updated_at = now_text env,
     cm_occurred_at = None, cm_content = cw_content p, cm_provenance = cw_provenance p\<rparr>"

lemma encrypted_record_reads:
  assumes "env_ok env" "cloud_tenant (cw_owner_id p) = Inr tenant" "cs_kms s = LocalKMS m"
    and "1 \<le> cs_key_version s" "ce_loads env (ce_dumps env (cw_provenance p)) = Some (cw_provenance p)"
  shows "\<exists>st. cloud_encrypt_record env tenant p s = Inr st \<and> cloud_read env (LocalKMS m) st = Inr (written env p)"
proof -
  have a: "aead_ok (ce_aead env)" and e: "\<And>i. entropy_ok (ce_entropy env i)"
    using assms(1) by (simp_all add: env_ok_def)
  let ?enc = "\<lambda>i f text. encryptor_encrypt (ce_aead env) (LocalKMS m) (ce_entropy env i) tenant
      (ce_uuid env) f text (cs_key_version s)"
  obtain c where c: "?enc 0 ''content'' (cw_content p) = Inr c"
    using local_encrypt [OF assms(4), of "''content''"] e by fastforce
  obtain pr where pr: "?enc 1 ''provenance'' (ce_dumps env (cw_provenance p)) = Inr pr"
    using local_encrypt [OF assms(4), of "''provenance''"] e by fastforce
  from encrypt_decrypt [OF a e c] encrypt_decrypt [OF a e pr] c pr assms(2,3,5) show ?thesis
    by (auto simp: cloud_encrypt_record_def Let_def cloud_read_def written_def opt_or_def)
qed

lemma cloud_write_created:
  assumes "env_ok env" "cloud_tenant (cw_owner_id p) = Inr tenant" "cs_kms s = LocalKMS m"
    and "1 \<le> cs_key_version s" "ce_loads env (ce_dumps env (cw_provenance p)) = Some (cw_provenance p)"
    and "dict_get (write_keys s) (cw_owner_id p, cw_idempotency_key p) = None"
  shows "\<exists>st. cloud_read env (LocalKMS m) st = Inr (written env p) \<and>
     sm_id st = cloud_memory_id (ce_uuid env) \<and> sm_owner_id st = cw_owner_id p \<and>
     cloud_write env p s = (Inr (written env p, ''created''),
       s\<lparr>records := dict_set (sm_id st) st (records s),
         write_keys := dict_set (cw_owner_id p, cw_idempotency_key p) (sm_id st) (write_keys s)\<rparr>)"
proof -
  from encrypted_record_reads [OF assms(1-5)] obtain st where
    st: "cloud_encrypt_record env tenant p s = Inr st" "cloud_read env (LocalKMS m) st = Inr (written env p)" by blast
  with assms(2,3,6) cloud_encrypt_record_Inr [OF st(1)] show ?thesis
    by (intro exI [of _ st]) (simp add: cloud_write_def Let_def act_bind_def act_run act_read_def)
qed

section \<open>Rewrapping\<close>

lemma rewrap_field_decrypt:
  assumes "env_ok env" "entropy_ok e" "rewrap_field env k e t r f v x = Inr (y, n)"
  shows "encryptor_decrypt (ce_aead env) k t r f y = encryptor_decrypt (ce_aead env) k t r f x \<and>
     key_version y = v"
  using assms rewrap_decrypt [of "ce_aead env" e k t r f x v y]
  by (auto simp: rewrap_field_def env_ok_def act_simps split: if_splits)

lemma rewrap_record_reads:
  assumes "env_ok env" "rewrap_record env k v i st = Inr (st', n)"
  shows "cloud_read env k st' = cloud_read env k st \<and>
     key_version (content_ciphertext st') = v \<and> key_version (provenance_ciphertext st') = v"
proof -
  from assms(2) obtain tenant rid c a p b where
    t: "cloud_tenant (sm_owner_id st) = Inr tenant" "record_uuid (sm_id st) = Inr rid"
    and c: "rewrap_field env k (ce_entropy env (2 * i)) tenant rid ''content'' v (content_ciphertext st) = Inr (c, a)"
    and p: "rewrap_field env k (ce_entropy env (2 * i + 1)) tenant rid ''provenance'' v (provenance_ciphertext st) = Inr (p, b)"
    and st': "st' = st\<lparr>content_ciphertext := c, provenance_ciphertext := p\<rparr>"
    by (auto simp: rewrap_record_def act_simps split: prod.splits)
  have e: "entropy_ok (ce_entropy env j)" for j using assms(1) by (simp add: env_ok_def)
  from rewrap_field_decrypt [OF assms(1) e c] rewrap_field_decrypt [OF assms(1) e p] show ?thesis
    by (simp add: cloud_read_def st' t)
qed

lemma rewrap_records_reads:
  assumes "env_ok env" "rewrap_records env k v i recs = Inr (recs', n)"
  shows "list_all2 (\<lambda>p q. fst q = fst p \<and> (cloud_read env k (snd q) = cloud_read env k (snd p) \<and>
     key_version (content_ciphertext (snd q)) = v \<and> key_version (provenance_ciphertext (snd q)) = v)) recs recs'"
  using assms
proof (induction env k v i recs arbitrary: recs' n rule: rewrap_records.induct)
  case (1 env k v i)
  then show ?case by simp
next
  case (2 env k v i mid st rest)
  from 2(3) obtain st' a rest' b where st': "rewrap_record env k v i st = Inr (st', a)"
    and rest: "rewrap_records env k v (Suc i) rest = Inr (rest', b)" and recs': "recs' = (mid, st') # rest'"
    by (auto simp: act_simps split: prod.splits)
  from 2(1) [OF 2(2) rest] rewrap_record_reads [OF 2(2) st'] show ?case
    by (simp add: recs')
qed

section \<open>Restore into a new service\<close>

lemma restore_tombstones_all:
  assumes "\<forall>e\<in>set es. (\<exists>u. cloud_tenant (ct_owner_id e) = Inr u) \<and>
      ce_fromiso env (py_replace ''Z'' ''+00:00'' (ct_deleted_at e)) \<noteq> None"
  shows "\<exists>t. act_iter (restore_tombstone env) es s = (Inr (), t)"
  using assms
proof (induction es arbitrary: s)
  case Nil
  then show ?case by (simp add: act_run)
next
  case (Cons e es)
  from Cons.prems obtain u where "cloud_tenant (ct_owner_id e) = Inr u" by auto
  then have "\<exists>s1. restore_tombstone env e s = (Inr (), s1)"
    using Cons.prems by (simp add: restore_tombstone_def act_bind_def act_run)
  then obtain s1 where s1: "restore_tombstone env e s = (Inr (), s1)" by blast
  from Cons.IH [of s1] Cons.prems s1 show ?case by (auto simp: act_bind_def)
qed

lemma check_backup_records:
  assumes "\<forall>(mid, st)\<in>set recs. sm_id st = mid \<and> (\<exists>u. cloud_tenant (sm_owner_id st) = Inr u)"
  shows "\<exists>us. res_map check_backup_record recs = Inr us"
  using assms by (induction recs) (auto simp: check_backup_record_def)

lemma cloud_restore_succeeds:
  assumes "cb_format b \<in> {None, Some ''omp.cloud.backup.v1''}"
    and "\<forall>e\<in>set (cloud_tombstones s @ ledger). (\<exists>u. cloud_tenant (ct_owner_id e) = Inr u) \<and>
      ce_fromiso env (py_replace ''Z'' ''+00:00'' (ct_deleted_at e)) \<noteq> None"
    and "\<forall>(mid, st)\<in>set (cb_records b). sm_id st = mid \<and> (\<exists>u. cloud_tenant (sm_owner_id st) = Inr u)"
  shows "\<exists>n t. cloud_restore env b ledger s = (Inr n, t)"
proof -
  from restore_tombstones_all [OF assms(2), of s] obtain s1 where
    s1: "act_iter (restore_tombstone env) (cloud_tombstones s @ ledger) s = (Inr (), s1)" by blast
  from check_backup_records [OF assms(3)] obtain us where us: "res_map check_backup_record (cb_records b) = Inr us"
    by blast
  have "(case cb_format b of None \<Rightarrow> True | Some f \<Rightarrow> f = ''omp.cloud.backup.v1'')"
    using assms(1) by auto
  then show ?thesis by (simp add: cloud_restore_def act_bind_def act_run s1 us)
qed

lemma restore_tombstones_only:
  assumes "act_iter (restore_tombstone env) es s = (Inr u, t)"
  shows "dict_get (tombstones t) key \<noteq> None \<longleftrightarrow>
     dict_get (tombstones s) key \<noteq> None \<or> (\<exists>e\<in>set es. key = (ct_owner_id e, ct_memory_id e))"
  using assms
proof (induction es arbitrary: s)
  case Nil
  then show ?case by (simp add: act_simps)
next
  case (Cons e es)
  from Cons.prems obtain u1 s1 where e: "restore_tombstone env e s = (Inr u1, s1)"
    and es: "act_iter (restore_tombstone env) es s1 = (Inr u, t)" by (auto simp: act_simps)
  have "dict_get (tombstones s1) key \<noteq> None \<longleftrightarrow>
      dict_get (tombstones s) key \<noteq> None \<or> key = (ct_owner_id e, ct_memory_id e)"
    by (auto simp: restore_tombstone_Inr [OF e] update_conv')
  with Cons.IH [OF es] show ?case by auto
qed

lemma cloud_restore_only:
  assumes "cloud_restore env b ledger (cloud_init k v) = (Inr n, t)"
  shows "\<exists>tb. (\<forall>key. dict_get tb key \<noteq> None \<longleftrightarrow> (\<exists>e\<in>set ledger. key = (ct_owner_id e, ct_memory_id e))) \<and>
     t = install_records (drop_tombstoned tb (cb_records b)) ((cloud_init k v)\<lparr>tombstones := tb\<rparr>) \<and>
     n = int (length (records t))"
proof -
  have own: "cloud_tombstones (cloud_init k v) = []" by (simp add: cloud_tombstones_def cloud_init_def)
  from assms obtain u s1 where it: "act_iter (restore_tombstone env) ledger (cloud_init k v) = (Inr u, s1)"
    and t: "t = install_records (drop_tombstoned (tombstones s1) (cb_records b)) s1" "n = int (length (records t))"
    by (auto simp: cloud_restore_def act_simps own)
  have "dict_ok (tombstones (cloud_init k v))" by (simp add: cloud_init_def)
  from restore_tombstones_Inr [OF it this] obtain tb where s1: "s1 = (cloud_init k v)\<lparr>tombstones := tb\<rparr>" by blast
  have "dict_get tb key \<noteq> None \<longleftrightarrow> (\<exists>e\<in>set ledger. key = (ct_owner_id e, ct_memory_id e))" for key
    using restore_tombstones_only [OF it, of key] by (simp add: s1 cloud_init_def)
  with t s1 show ?thesis by (intro exI [of _ tb]) simp
qed

lemma cloud_tombstones_keys:
  "(\<exists>e\<in>set (cloud_tombstones s). key = (ct_owner_id e, ct_memory_id e)) \<longleftrightarrow>
     dict_get (tombstones s) key \<noteq> None"
proof -
  have "dict_get (tombstones s) key \<noteq> None \<longleftrightarrow> key \<in> fst ` set (tombstones s)"
    by (simp add: map_of_eq_None_iff)
  also have "\<dots> \<longleftrightarrow> (\<exists>e\<in>set (cloud_tombstones s). key = (ct_owner_id e, ct_memory_id e))"
    by (force simp: cloud_tombstones_def)
  finally show ?thesis by blast
qed

lemma drop_tombstoned_none:
  assumes "\<And>mid st. dict_get recs mid = Some st \<Longrightarrow> dict_get tb (sm_owner_id st, mid) = None"
  shows "drop_tombstoned tb recs = recs"
  using assms
proof (induction tb)
  case Nil
  show ?case by (simp add: drop_tombstoned_def)
next
  case (Cons p tb)
  obtain o' m ts where p: "p = ((o', m), ts)" by (metis prod.exhaust)
  have "sm_owner_id st \<noteq> o'" if "dict_get recs m = Some st" for st
    using Cons.prems [OF that] by (auto simp: p)
  moreover have "dict_get recs mid = Some st \<Longrightarrow> dict_get tb (sm_owner_id st, mid) = None" for mid st
    using Cons.prems [of mid st] by (auto simp: p split: if_splits)
  ultimately show ?case
    using Cons.IH by (auto simp: drop_tombstoned_def p split: option.splits)
qed

end
