(* ===== verification/Cloud_Recovery.thy ===== *)
theory Cloud_Recovery
  imports Encrypted_Properties
begin

text \<open>
  The recovery contract of \<open>omp/cloud/recovery.py\<close> over the encrypted store (the service that
  implements \<open>LocalSnapshotService\<close>) and the tenant context of \<open>omp/cloud/tenant.py\<close>.
  The readings of \<open>datetime.now\<close> and \<open>time.monotonic\<close> and the identifier of the backup are
  arguments.
\<close>

section \<open>Inventories and receipts\<close>

record RecoveryInventory =
  ri_backup_id :: string
  ri_captured_at :: datetime
  ri_migration_head :: string
  ri_encrypted_payloads :: bool
  ri_tombstones_included :: bool
  ri_source :: string

definition inventory_post_init :: "RecoveryInventory \<Rightarrow> RecoveryInventory cloud" where
  "inventory_post_init i =
     res_bind (res_guard (ri_backup_id i \<noteq> [] \<and> ri_migration_head i \<noteq> []) CloudValueError) (\<lambda>_.
     res_bind (res_guard (dt_aware (ri_captured_at i)) CloudValueError) (\<lambda>_.
     res_bind (res_guard (ri_encrypted_payloads i \<and> ri_tombstones_included i) CloudValueError) (\<lambda>_.
     Inr i)))"

record RecoveryReceipt =
  rr_backup_id :: string
  rr_target :: string
  rr_restored_records :: int
  rr_tombstones_replayed :: int
  rr_rpo_seconds :: pyfloat
  rr_rto_seconds :: pyfloat
  rr_observed_at :: datetime

definition receipt_post_init :: "RecoveryReceipt \<Rightarrow> RecoveryReceipt cloud" where
  "receipt_post_init r =
     res_bind (res_guard (rr_target r = ''isolated'') CloudValueError) (\<lambda>_.
     res_bind (res_guard (\<not> (rr_restored_records r < 0 \<or> rr_tombstones_replayed r < 0)) CloudValueError) (\<lambda>_.
     res_bind (res_guard (\<not> (rr_rpo_seconds r < 0 \<or> rr_rto_seconds r < 0)) CloudValueError) (\<lambda>_.
     Inr r)))"

text \<open>The hosted adapter is not configured: both of its operations raise.\<close>

definition hosted_inventory :: "RecoveryInventory list cloud" where
  "hosted_inventory = Inl RecoveryUnavailableError"

definition hosted_restore_isolated :: "string \<Rightarrow> RecoveryReceipt cloud" where
  "hosted_restore_isolated backup_id = Inl RecoveryUnavailableError"

section \<open>The local fixture\<close>

definition recovery_backup ::
  "string \<Rightarrow> datetime \<Rightarrow> uuid \<Rightarrow> EncryptedCloudMemoryService \<Rightarrow> (CloudBackup \<times> RecoveryInventory) cloud" where
  "recovery_backup migration_head captured_at u s =
     (let snapshot = cloud_backup s in
      res_bind (inventory_post_init \<lparr>ri_backup_id = uuid_str u, ri_captured_at = captured_at,
          ri_migration_head = migration_head, ri_encrypted_payloads = True,
          ri_tombstones_included = True, ri_source = ''local-fixture''\<rparr>) (\<lambda>inventory.
      Inr (snapshot, inventory)))"

definition seconds_between :: "datetime \<Rightarrow> datetime \<Rightarrow> pyfloat" where
  "seconds_between later earlier = fl (of_int (dt_instant later - dt_instant earlier) / 1000000)"

definition recovery_restore_isolated ::
  "CloudEnv \<Rightarrow> datetime \<Rightarrow> pyfloat \<Rightarrow> pyfloat \<Rightarrow> CloudBackup \<Rightarrow> RecoveryInventory \<Rightarrow>
     CloudTombstone list \<Rightarrow> RecoveryReceipt cact" where
  "recovery_restore_isolated env now started finished snapshot inventory extra =
     act_bind (act_guard (ri_source inventory = ''local-fixture'') RecoveryUnavailableError) (\<lambda>_.
     act_bind (act_guard (cb_format snapshot = Some ''omp.cloud.backup.v1'') CloudValueError) (\<lambda>_.
     let ledger = cb_tombstones snapshot @ extra in
     act_bind (cloud_restore env snapshot ledger) (\<lambda>restored.
     act_res (receipt_post_init \<lparr>rr_backup_id = ri_backup_id inventory, rr_target = ''isolated'',
       rr_restored_records = restored, rr_tombstones_replayed = int (length ledger),
       rr_rpo_seconds = max 0 (seconds_between now (ri_captured_at inventory)),
       rr_rto_seconds = max 0 (fl (finished - started)), rr_observed_at = now\<rparr>))))"

section \<open>Tenant context\<close>

text \<open>
  A block under \<open>tenant_scope\<close> is a function of the value of the context variable; the scope sets
  it, runs the block and resets it, also when the block raises. The database session's transaction-local
  setting \<open>app.tenant_id\<close> is an optional text.
\<close>

type_synonym tenant_ctx = "uuid option"
type_synonym 'a scoped = "(tenant_ctx, cloud_error, 'a) act"

definition tenant_scope :: "uuid \<Rightarrow> 'a scoped \<Rightarrow> 'a scoped" where
  "tenant_scope tenant body ctx = (fst (body (Some tenant)), ctx)"

definition verified_principal_scope :: "datetime \<Rightarrow> Principal \<Rightarrow> 'a scoped \<Rightarrow> 'a scoped" where
  "verified_principal_scope now p body = (case p_scopes p of
     [] \<Rightarrow> act_raise TenantContextError
   | sc # _ \<Rightarrow> (case principal_requires p sc now of
       Inl CloudPermissionError \<Rightarrow> act_raise TenantContextError
     | Inl e \<Rightarrow> act_raise e
     | Inr _ \<Rightarrow> tenant_scope (p_tenant_id p) body))"

definition current_tenant :: "uuid scoped" where
  "current_tenant = act_getr (\<lambda>ctx. opt_or TenantContextError ctx)"

definition set_tenant_context :: "uuid option \<Rightarrow> tenant_ctx \<Rightarrow> string option \<Rightarrow> unit cloud \<times> string option" where
  "set_tenant_context tenant ctx setting = (case tenant of
     None \<Rightarrow> (Inl TenantContextError, setting)
   | Some t \<Rightarrow> (case fst (current_tenant ctx) of
       Inl e \<Rightarrow> (Inl e, setting)
     | Inr c \<Rightarrow> if t \<noteq> c then (Inl TenantContextError, setting) else (Inr (), Some (uuid_str t))))"

definition require_tenant_context :: "string option \<Rightarrow> uuid cloud" where
  "require_tenant_context setting = (if \<not> py_truthy setting then Inl TenantContextError
     else opt_or TenantContextError (uuid_parse (the setting)))"

section \<open>Facts\<close>

lemma seconds_nonneg: "0 \<le> max 0 (x :: pyfloat)"
  by simp

lemma receipt_post_init_Inr:
  "receipt_post_init r = Inr r' \<longleftrightarrow> r' = r \<and> rr_target r = ''isolated'' \<and>
     0 \<le> rr_restored_records r \<and> 0 \<le> rr_tombstones_replayed r \<and>
     0 \<le> rr_rpo_seconds r \<and> 0 \<le> rr_rto_seconds r"
  by (auto simp: receipt_post_init_def act_simps not_less)

lemma recovery_restore_runs:
  assumes "ri_source i = ''local-fixture''" "cb_format b = Some ''omp.cloud.backup.v1''"
    and "cloud_restore env b (cb_tombstones b @ extra) s = (Inr n, t)" "0 \<le> n"
  shows "\<exists>r. recovery_restore_isolated env now st fin b i extra s = (Inr r, t) \<and>
     rr_restored_records r = n \<and> rr_target r = ''isolated'' \<and>
     rr_tombstones_replayed r = int (length (cb_tombstones b @ extra)) \<and>
     0 \<le> rr_rpo_seconds r \<and> 0 \<le> rr_rto_seconds r"
  using assms
  by (auto simp: recovery_restore_isolated_def Let_def act_bind_def act_run receipt_post_init_def)

text \<open>Leaving a scope gives back the binding that was current before, whatever the block did.\<close>

lemma tenant_scope_restores:
  "snd (tenant_scope t body ctx) = ctx" "fst (tenant_scope t current_tenant ctx) = Inr t"
  by (simp_all add: tenant_scope_def current_tenant_def act_run opt_or_def)

lemma verified_scope_Inr:
  assumes "verified_principal_scope now p body ctx = (Inr r, ctx')"
  shows "ctx' = ctx \<and> fst (body (Some (p_tenant_id p))) = Inr r \<and> p_scopes p \<noteq> [] \<and>
     dt_instant now < dt_instant (p_expires_at p)"
  using assms
  by (auto simp: verified_principal_scope_def tenant_scope_def act_run principal_requires_def
      split: list.splits sum.splits cloud_error.splits if_splits)

lemma tenant_context_roundtrip:
  assumes "set_tenant_context tenant ctx setting = (Inr (), setting')"
  shows "\<exists>t. tenant = Some t \<and> ctx = Some t \<and> require_tenant_context setting' = Inr t"
proof -
  from assms obtain t where t: "tenant = Some t" "ctx = Some t" "setting' = Some (uuid_str t)"
    by (auto simp: set_tenant_context_def current_tenant_def act_run opt_or_def
        split: option.splits sum.splits if_splits)
  moreover have "uuid_str t \<noteq> []"
    using uuid_parse_str [of t] by (auto simp: uuid_parse_def uuid_clean_def strip_chars_def)
  ultimately show ?thesis by (simp add: require_tenant_context_def opt_or_def)
qed

end
