(* ===== verification/Cloud_Properties.thy ===== *)
theory Cloud_Properties
  imports Cloud_Recovery
begin

text \<open>
  Properties of the envelope encryption and of the encrypted cloud store, each with a concrete
  instance. The cipher of the instances, \<open>ex_aead\<close>, appends a 16-byte tag that starts with a
  checksum of the associated data.
\<close>

section \<open>Concrete instances\<close>

definition ex_tag :: "bytes \<Rightarrow> bytes" where
  "ex_tag a = char_of (sum_list (map of_char a) :: int) # replicate 15 (CHR 0x00)"

definition ex_aead :: aead where
  "ex_aead = \<lparr>aead_encrypt = (\<lambda>k n p a. p @ ex_tag a),
     aead_decrypt = (\<lambda>k n c a. if drop (length c - 16) c = ex_tag a then Some (take (length c - 16) c) else None)\<rparr>"

definition ex_entropy :: entropy where
  "ex_entropy = \<lparr>e_dek = replicate 32 (CHR ''k''), e_nonce = replicate 12 (CHR ''n''),
     e_kms_nonce = replicate 12 (CHR ''m'')\<rparr>"

definition ex_cloud_env :: "uuid \<Rightarrow> CloudEnv" where
  "ex_cloud_env u = \<lparr>ce_aead = ex_aead, ce_dumps = (\<lambda>_. ''{}''), ce_loads = (\<lambda>_. Some (JObj [])),
     ce_fromiso = (\<lambda>_. Some \<lparr>dt_local = 0, dt_offset = Some 0\<rparr>),
     ce_now = \<lparr>dt_local = 63000000000000000, dt_offset = Some 0\<rparr>, ce_uuid = u, ce_entropy = (\<lambda>_. ex_entropy)\<rparr>"

definition ex_cloud_owner :: string where
  "ex_cloud_owner = cloud_owner 5 7"

definition ex_cloud_write :: "string \<Rightarrow> CloudWrite" where
  "ex_cloud_write key = \<lparr>cw_owner_id = ex_cloud_owner, cw_idempotency_key = key, cw_type = ''fact'',
     cw_space = None, cw_importance = None, cw_confidence = None, cw_content = ''hello world'',
     cw_provenance = JObj []\<rparr>"

definition ex_cloud0 :: EncryptedCloudMemoryService where
  "ex_cloud0 = cloud_init (LocalKMS (replicate 16 (CHR ''a''))) 1"

definition ex_mid :: string where
  "ex_mid = cloud_memory_id 9"

lemma ex_aead_ok: "aead_ok ex_aead"
  by (simp add: aead_ok_def ex_aead_def ex_tag_def)

lemma ex_entropy_ok: "entropy_ok ex_entropy"
  by (simp add: entropy_ok_def ex_entropy_def)

lemma ex_env_ok: "env_ok (ex_cloud_env u)"
  by (simp add: env_ok_def ex_cloud_env_def ex_aead_ok ex_entropy_ok)

lemma cloud_tenant_owner [simp]: "cloud_tenant (cloud_owner t u) = Inr t"
proof -
  have "uuid_str u \<noteq> []" using uuid_parse_str [of u] by (auto simp: uuid_parse_def uuid_clean_def strip_chars_def)
  moreover have "split_max (CHR '':'') 2 (cloud_owner t u) = [''cloud'', uuid_str t, uuid_str u]"
    using split_max_append [of "CHR '':''" "''cloud''" "Suc 0" "uuid_str t @ CHR '':'' # uuid_str u"]
      split_max_append [of "CHR '':''" "uuid_str t" 0 "uuid_str u"] uuid_str_char_notin(2)
    by (simp add: cloud_owner_def numeral_2_eq_2)
  ultimately show ?thesis by (simp add: cloud_tenant_def)
qed

lemma ex_cloud1:
  "\<exists>st t. cloud_write (ex_cloud_env 9) (ex_cloud_write ''w'') ex_cloud0 =
      (Inr (written (ex_cloud_env 9) (ex_cloud_write ''w''), ''created''), t) \<and>
    cloud_read (ex_cloud_env 9) (cs_kms ex_cloud0) st = Inr (written (ex_cloud_env 9) (ex_cloud_write ''w'')) \<and>
    sm_id st = ex_mid \<and> sm_owner_id st = ex_cloud_owner \<and>
    t = ex_cloud0\<lparr>records := [(ex_mid, st)], write_keys := [((ex_cloud_owner, ''w''), ex_mid)]\<rparr>"
proof -
  have "ce_loads (ex_cloud_env 9) (ce_dumps (ex_cloud_env 9) (cw_provenance (ex_cloud_write ''w''))) =
      Some (cw_provenance (ex_cloud_write ''w''))"
    by (simp add: ex_cloud_env_def ex_cloud_write_def)
  from cloud_write_created [OF ex_env_ok, of "ex_cloud_write ''w''" 5 ex_cloud0, OF _ _ _ this]
  show ?thesis
    by (auto simp: ex_cloud_write_def ex_cloud_owner_def ex_cloud0_def cloud_init_def ex_mid_def
        ex_cloud_env_def)
qed

section \<open>Envelope encryption\<close>

text \<open>What the tenant encryptor encrypts under the local key service decrypts to the same text for
  the same tenant, record and field, and re-encrypting it under any valid key version keeps the
  text and carries the new version. Nothing is assumed of the cipher but that it inverts itself.\<close>

theorem envelope_roundtrip:
  assumes "aead_ok c" "entropy_ok e" "entropy_ok e'" "1 \<le> v" "1 \<le> v'" "f \<noteq> []" "CHR ''/'' \<notin> set f"
  shows "\<exists>x y. encryptor_encrypt c (LocalKMS m) e t r f p v = Inr x \<and>
     encryptor_decrypt c (LocalKMS m) t r f x = Inr p \<and>
     encryptor_rewrap c (LocalKMS m) e' t r f x v' = Inr y \<and> key_version y = v' \<and>
     encryptor_decrypt c (LocalKMS m) t r f y = Inr p"
proof -
  from local_encrypt [OF assms(4,6,7,2)] obtain x where x: "encryptor_encrypt c (LocalKMS m) e t r f p v = Inr x"
    by blast
  note d = encrypt_decrypt [OF assms(1,2) x]
  from local_encrypt [OF assms(5,6,7,3)] obtain y where y: "encryptor_encrypt c (LocalKMS m) e' t r f p v' = Inr y"
    by blast
  have r: "encryptor_rewrap c (LocalKMS m) e' t r f x v' = Inr y"
    using d y assms(5) by (simp add: encryptor_rewrap_def)
  from rewrap_decrypt [OF assms(1,3) r] d x r show ?thesis by auto
qed

theorem envelope_roundtrip_witness:
  "\<exists>x y. encryptor_encrypt ex_aead (LocalKMS ''k'') ex_entropy 5 9 ''content'' ''hello'' 1 = Inr x \<and>
     encryptor_rewrap ex_aead (LocalKMS ''k'') ex_entropy 5 9 ''content'' x 2 = Inr y \<and>
     encryptor_decrypt ex_aead (LocalKMS ''k'') 5 9 ''content'' y = Inr ''hello''"
proof -
  from envelope_roundtrip [OF ex_aead_ok ex_entropy_ok ex_entropy_ok, of 1 2 "''content''" "''k''" 5 9 "''hello''"]
  show ?thesis by fastforce
qed

text \<open>C23: A ciphertext is bound to its tenant, record and field: presented for any other of them it is
  rejected, whatever the key service does, because the associated data of different bindings
  differ and the cipher authenticates them. A field name that contains a slash is never encrypted,
  which is what makes the associated data unambiguous.\<close>

theorem ciphertext_bound_to_record:
  assumes "aead_ok c" "entropy_ok e" "encryptor_encrypt c k e t r f p v = Inr x"
    and "CHR ''/'' \<notin> set f'" "(t', r', f') \<noteq> (t, r, f)"
    and "aead_auth c {content_aad t r f v, content_aad t' r' f' v, kms_aad t v, kms_aad t' v}"
  shows "encryptor_decrypt c k t' r' f' x \<in> {Inl CloudPermissionError, Inl KMSUnavailableError}"
  by (rule decrypt_other_binding [OF assms])

lemma ex_auth: "aead_auth ex_aead {content_aad 5 9 ''content'' 1, content_aad 5 8 ''content'' 1, kms_aad 5 1}"
proof -
  have t: "ex_tag (content_aad 5 9 ''content'' 1) \<noteq> ex_tag (content_aad 5 8 ''content'' 1)"
    "ex_tag (content_aad 5 9 ''content'' 1) \<noteq> ex_tag (kms_aad 5 1)"
    "ex_tag (content_aad 5 8 ''content'' 1) \<noteq> ex_tag (kms_aad 5 1)"
    by code_simp+
  have l: "length (ex_tag a) = 16" for a by (simp add: ex_tag_def)
  show ?thesis using t by (auto simp: aead_auth_def ex_aead_def l)
qed

theorem ciphertext_bound_to_record_witness:
  "\<exists>x. encryptor_encrypt ex_aead (LocalKMS ''k'') ex_entropy 5 9 ''content'' ''hello'' 1 = Inr x \<and>
     encryptor_decrypt ex_aead (LocalKMS ''k'') 5 8 ''content'' x \<in> {Inl CloudPermissionError, Inl KMSUnavailableError}"
proof -
  obtain x where x: "encryptor_encrypt ex_aead (LocalKMS ''k'') ex_entropy 5 9 ''content'' ''hello'' 1 = Inr x"
    using local_encrypt [OF _ _ _ ex_entropy_ok, of 1 "''content''"] by fastforce
  have "encryptor_decrypt ex_aead (LocalKMS ''k'') 5 8 ''content'' x \<in> {Inl CloudPermissionError, Inl KMSUnavailableError}"
    using ex_auth by (intro ciphertext_bound_to_record [OF ex_aead_ok ex_entropy_ok x]) (simp_all add: insert_commute)
  with x show ?thesis by blast
qed

section \<open>The store\<close>

lemma cloud_init_reachable_ok: "cloud_step\<^sup>*\<^sup>* (cloud_init k v) s \<Longrightarrow> cloud_ok s"
  by (rule cloud_ledger.inv_run [OF _ cloud_init_ok])

text \<open>In every state the cloud store reaches by any sequence of writes, updates, vector writes,
  deletions, rotations, rewraps (also failing ones) and successful restores, no record is stored
  under an id its owner has deleted, every vector belongs to a stored record, to its owner and to
  its current version, and every idempotency entry points to a record of its owner or to one
  that was deleted.\<close>

theorem cloud_store_invariant:
  assumes "cloud_step\<^sup>*\<^sup>* (cloud_init k v) s"
  shows "cloud_ok s"
  by (rule cloud_init_reachable_ok [OF assms])

lemma ex_fresh: "fresh_id (ex_cloud_env u) ex_cloud0"
  by (simp add: fresh_id_def ex_cloud0_def cloud_init_def)

theorem cloud_store_invariant_witness:
  "\<exists>s. cloud_step\<^sup>*\<^sup>* (cloud_init (LocalKMS (replicate 16 (CHR ''a''))) 1) s \<and> records s \<noteq> [] \<and> cloud_ok s"
proof -
  from ex_cloud1 obtain st t where w: "cloud_write (ex_cloud_env 9) (ex_cloud_write ''w'') ex_cloud0 =
      (Inr (written (ex_cloud_env 9) (ex_cloud_write ''w''), ''created''), t)" and "records t \<noteq> []" by auto
  have r: "cloud_step\<^sup>*\<^sup>* (cloud_init (LocalKMS (replicate 16 (CHR ''a''))) 1) t"
    using st_online [OF on_write [OF ex_fresh w]] by (simp add: ex_cloud0_def r_into_rtranclp)
  from cloud_store_invariant [OF r] r \<open>records t \<noteq> []\<close> show ?thesis by blast
qed

text \<open>A write with a new idempotency key succeeds and its record reads back: \<open>get\<close> for the same
  owner returns the content, provenance and metadata that were written, and for any other owner
  nothing.\<close>

theorem cloud_write_then_get:
  assumes "env_ok env" "cloud_tenant (cw_owner_id p) = Inr tenant" "cs_kms s = LocalKMS m"
    and "1 \<le> cs_key_version s" "ce_loads env (ce_dumps env (cw_provenance p)) = Some (cw_provenance p)"
    and "dict_get (write_keys s) (cw_owner_id p, cw_idempotency_key p) = None"
  shows "\<exists>t. cloud_write env p s = (Inr (written env p, ''created''), t) \<and>
     cloud_get env (cw_owner_id p) (cloud_memory_id (ce_uuid env)) t = Inr (Some (written env p)) \<and>
     (\<forall>owner u. owner \<noteq> cw_owner_id p \<and> cloud_tenant owner = Inr u \<longrightarrow>
        cloud_get env owner (cloud_memory_id (ce_uuid env)) t = Inr None)"
proof -
  from cloud_write_created [OF assms] obtain st where st: "cloud_read env (LocalKMS m) st = Inr (written env p)"
    "sm_id st = cloud_memory_id (ce_uuid env)" "sm_owner_id st = cw_owner_id p"
    and w: "cloud_write env p s = (Inr (written env p, ''created''),
       s\<lparr>records := dict_set (sm_id st) st (records s),
         write_keys := dict_set (cw_owner_id p, cw_idempotency_key p) (sm_id st) (write_keys s)\<rparr>)" by blast
  with assms(2,3) show ?thesis by (simp add: cloud_get_def update_conv')
qed

theorem cloud_write_then_get_witness:
  "\<exists>t. cloud_write (ex_cloud_env 9) (ex_cloud_write ''w'') ex_cloud0 =
        (Inr (written (ex_cloud_env 9) (ex_cloud_write ''w''), ''created''), t) \<and>
     cloud_get (ex_cloud_env 9) ex_cloud_owner ex_mid t = Inr (Some (written (ex_cloud_env 9) (ex_cloud_write ''w'')))"
  using cloud_write_then_get [OF ex_env_ok, of "ex_cloud_write ''w''" 5 ex_cloud0 "replicate 16 (CHR ''a'')" 9]
  by (auto simp: ex_cloud_write_def ex_cloud_owner_def ex_cloud0_def cloud_init_def ex_mid_def ex_cloud_env_def)

lemma cloud_read_ids: "cloud_read env k st = Inr m \<Longrightarrow> cm_id m = sm_id st \<and> cm_owner_id m = sm_owner_id st"
  by (auto simp: cloud_read_def act_simps)

lemma cloud_matches_mem:
  "cloud_matches env k owner st terms rs = Inr ms \<Longrightarrow> m \<in> set ms \<Longrightarrow>
     \<exists>r\<in>set rs. sm_owner_id r = owner \<and> cloud_read env k r = Inr m"
  by (induction env k owner st terms rs arbitrary: ms rule: cloud_matches.induct)
     (auto simp: act_simps split: if_splits)

lemma cloud_search_owned:
  assumes "cloud_ok s" "cloud_search env q s = Inr ms" "m \<in> set ms"
  shows "cm_owner_id m = cq_owner_id q \<and> cloud_ver (cq_owner_id q, cm_id m) s \<noteq> None"
proof -
  define st where "st = (case cq_state q of None \<Rightarrow> ''active'' | Some st \<Rightarrow> st)"
  have "\<exists>ms'. cloud_matches env (cs_kms s) (cq_owner_id q) st (search_terms (cq_query q))
      (dict_values (records s)) = Inr ms' \<and> set ms \<subseteq> set ms'"
    using assms(2) unfolding cloud_search_def st_def [symmetric]
    by (auto simp: res_bind_Inr dest: subsetD [OF set_py_take])
  then obtain ms' where ms': "cloud_matches env (cs_kms s) (cq_owner_id q) st (search_terms (cq_query q))
      (dict_values (records s)) = Inr ms'" and "set ms \<subseteq> set ms'" by blast
  then have "m \<in> set ms'" using assms(3) by blast
  from cloud_matches_mem [OF ms' this] obtain r where
    "r \<in> set (dict_values (records s))" "sm_owner_id r = cq_owner_id q" "cloud_read env (cs_kms s) r = Inr m"
    by blast
  moreover from this(1) obtain mid where "(mid, r) \<in> set (records s)" by auto
  then have "dict_get (records s) mid = Some r" using dict_get_mem [OF cloud_okD(1) [OF assms(1)]] by blast
  moreover from this have "sm_id r = mid" by (rule cloud_okD(5) [OF assms(1)])
  ultimately show ?thesis using cloud_read_ids by (auto simp: cloud_ver_def)
qed

lemma cloud_list_owned:
  assumes "cloud_ok s" "cloud_list_records env owner s = Inr ms" "m \<in> set ms"
  shows "cm_owner_id m = owner \<and> cloud_ver (owner, cm_id m) s \<noteq> None"
proof -
  from assms(2) have "list_all2 (\<lambda>r m. cloud_read env (cs_kms s) r = Inr m)
      (filter (\<lambda>st. sm_owner_id st = owner \<and> sm_state st = ''active'') (dict_values (records s))) ms"
    by (auto simp: cloud_list_records_def act_simps res_map_Inr)
  from list_all2_mem_right [OF this assms(3)] obtain r where
    "r \<in> set (dict_values (records s))" "sm_owner_id r = owner" "cloud_read env (cs_kms s) r = Inr m" by auto
  moreover from this(1) obtain mid where "(mid, r) \<in> set (records s)" by auto
  then have "dict_get (records s) mid = Some r" using dict_get_mem [OF cloud_okD(1) [OF assms(1)]] by blast
  moreover from this have "sm_id r = mid" by (rule cloud_okD(5) [OF assms(1)])
  ultimately show ?thesis using cloud_read_ids by (auto simp: cloud_ver_def)
qed

lemma cloud_absent_reads:
  assumes "cloud_ok s" "cloud_ver (owner, mid) s = None" "cloud_tenant owner = Inr u"
  shows "cloud_get env owner mid s = Inr None" "cloud_embedding owner mid s = Inr None"
proof -
  show "cloud_get env owner mid s = Inr None"
    using assms(2,3) by (auto simp: cloud_get_def cloud_ver_def split: option.splits if_splits)
  have "se_owner_id e \<noteq> owner" if "dict_get (embeddings s) mid = Some e" for e
    using cloud_okD(7) [OF assms(1) that] assms(2) by (auto simp: cloud_ver_def)
  then show "cloud_embedding owner mid s = Inr None"
    using assms(3) by (auto simp: cloud_embedding_def split: option.splits)
qed

text \<open>C14: Deletion is final. Once \<open>forget\<close> has answered \<open>forgotten\<close>, in every later state, after any
  sequence of calls and also after restores of backups that still hold the record, the owner's
  \<open>get\<close> and \<open>embedding\<close> answer nothing, and neither \<open>search\<close> nor \<open>list_records\<close> returns it.\<close>

theorem cloud_forgotten_for_good:
  assumes "cloud_ok s" "cloud_forget env owner mid s = (''forgotten'', t)" "cloud_step\<^sup>*\<^sup>* t t'"
    and "cloud_tenant owner = Inr u"
  shows "cloud_get env' owner mid t' = Inr None \<and> cloud_embedding owner mid t' = Inr None \<and>
     (\<forall>q ms. cloud_search env' q t' = Inr ms \<longrightarrow> (\<forall>m\<in>set ms. (cm_owner_id m, cm_id m) \<noteq> (owner, mid))) \<and>
     (\<forall>owner' ms. cloud_list_records env' owner' t' = Inr ms \<longrightarrow>
        (\<forall>m\<in>set ms. (cm_owner_id m, cm_id m) \<noteq> (owner, mid)))"
proof -
  have t: "cloud_ok t" by (rule cloud_forget_ok [OF assms(1,2)])
  have "cloud_dead (owner, mid) t"
    using cloud_forget_state [OF assms(2)] by (auto simp: cloud_dead_def erase_record_def update_conv')
  with cloud_ledger.dead_for_good [OF assms(3) t] have gone: "cloud_ver (owner, mid) t' = None" by blast
  have t': "cloud_ok t'" by (rule cloud_ledger.inv_run [OF assms(3) t])
  show ?thesis
    using cloud_absent_reads [OF t' gone assms(4)] cloud_search_owned [OF t'] cloud_list_owned [OF t'] gone
    by fastforce
qed

lemma ex_cloud_deleted:
  "\<exists>s t. cloud_ok s \<and> cloud_forget (ex_cloud_env 9) ex_cloud_owner ex_mid s = (''forgotten'', t) \<and>
     cloud_write (ex_cloud_env 9) (ex_cloud_write ''w'') ex_cloud0 =
        (Inr (written (ex_cloud_env 9) (ex_cloud_write ''w''), ''created''), s) \<and>
     dict_get (write_keys t) (ex_cloud_owner, ''w'') = Some ex_mid \<and> dict_get (records t) ex_mid = None"
proof -
  from ex_cloud1 obtain st s where w: "cloud_write (ex_cloud_env 9) (ex_cloud_write ''w'') ex_cloud0 =
      (Inr (written (ex_cloud_env 9) (ex_cloud_write ''w''), ''created''), s)"
    and st: "sm_id st = ex_mid" "sm_owner_id st = ex_cloud_owner"
    and s: "s = ex_cloud0\<lparr>records := [(ex_mid, st)], write_keys := [((ex_cloud_owner, ''w''), ex_mid)]\<rparr>" by blast
  have "cloud_ok s" using cloud_write_ok [OF _ ex_fresh w] cloud_init_ok by (simp add: ex_cloud0_def)
  moreover have "\<exists>t. cloud_forget (ex_cloud_env 9) ex_cloud_owner ex_mid s = (''forgotten'', t) \<and>
     dict_get (write_keys t) (ex_cloud_owner, ''w'') = Some ex_mid \<and> dict_get (records t) ex_mid = None"
    by (simp add: cloud_forget_def s st ex_cloud0_def cloud_init_def erase_record_def)
  ultimately show ?thesis using w by blast
qed

theorem cloud_forgotten_for_good_witness:
  "\<exists>s t. cloud_forget (ex_cloud_env 9) ex_cloud_owner ex_mid s = (''forgotten'', t) \<and>
     cloud_get (ex_cloud_env 9) ex_cloud_owner ex_mid t = Inr None"
proof -
  from ex_cloud_deleted obtain s t where "cloud_ok s"
    "cloud_forget (ex_cloud_env 9) ex_cloud_owner ex_mid s = (''forgotten'', t)" by blast
  with cloud_forgotten_for_good [OF this rtranclp.rtrancl_refl, of 5] show ?thesis
    by (auto simp: ex_cloud_owner_def)
qed

text \<open>No cloud update is lost. After a successful update of a record, whatever writes, updates,
  deletions and rotations follow while the service is online, a second update that still expects
  the old version is refused: with a version conflict, or as not found when the record has been
  deleted meanwhile. It changes nothing.\<close>

theorem cloud_no_lost_update:
  assumes "cloud_ok s" "cloud_update env u s = (Inr r, t)" "cloud_online_step\<^sup>*\<^sup>* t t'"
    and "cu_id u' = cu_id u" "cu_owner_id u' = cu_owner_id u"
    and "cu_expected_version u' = cu_expected_version u"
  shows "\<exists>e\<in>{CloudValueError, CloudKeyError}. cloud_update env' u' t' = (Inl e, t')"
proof -
  from cloud_update_state [OF assms(2)] obtain st tenant rid st1
    where st: "dict_get (records s) (cu_id u) = Some st" "sm_owner_id st = cu_owner_id u"
        "sm_version st = cu_expected_version u"
      and st1: "patch_content env tenant rid (cu_patch u) st s = Inr st1"
      and t: "t = s\<lparr>records := dict_set (cu_id u) (patch_meta env (cu_patch u) st1) (records s),
           embeddings := dict_pop (sm_id (patch_meta env (cu_patch u) st1)) (embeddings s)\<rparr>"
    by auto
  have ok: "cloud_ok t" by (rule cloud_update_ok [OF assms(1,2)])
  have v: "cloud_ver (cu_owner_id u, cu_id u) t = Some (cu_expected_version u + 1)"
    using st patch_content_keeps [OF st1] by (simp add: cloud_ver_Some t update_conv' patch_meta_keeps)
  have "cloud_ver (cu_owner_id u, cu_id u) t' \<noteq> Some (cu_expected_version u)"
    by (rule cloud_versions.stale_forever [OF assms(3) ok v]) simp
  then show ?thesis
    using assms(4-6)
    by (auto simp: cloud_update_def Let_def act_bind_def act_run cloud_ver_def res_guard_def
        split: option.splits if_splits)
qed

definition ex_cloud_update :: CloudUpdate where
  "ex_cloud_update = \<lparr>cu_id = ex_mid, cu_owner_id = ex_cloud_owner, cu_expected_version = 1,
     cu_patch = \<lparr>cp_content = None, cp_type = Some ''decision'', cp_space = None, cp_importance = None,
       cp_confidence = None, cp_state = None\<rparr>\<rparr>"

theorem cloud_no_lost_update_witness:
  "\<exists>s r t. cloud_update (ex_cloud_env 9) ex_cloud_update s = (Inr r, t) \<and>
     (\<exists>e\<in>{CloudValueError, CloudKeyError}. cloud_update (ex_cloud_env 9) ex_cloud_update t = (Inl e, t))"
proof -
  from ex_cloud1 obtain st s where w: "cloud_write (ex_cloud_env 9) (ex_cloud_write ''w'') ex_cloud0 =
      (Inr (written (ex_cloud_env 9) (ex_cloud_write ''w''), ''created''), s)"
    and rd: "cloud_read (ex_cloud_env 9) (cs_kms ex_cloud0) st = Inr (written (ex_cloud_env 9) (ex_cloud_write ''w''))"
    and st: "sm_id st = ex_mid" "sm_owner_id st = ex_cloud_owner"
    and s: "s = ex_cloud0\<lparr>records := [(ex_mid, st)], write_keys := [((ex_cloud_owner, ''w''), ex_mid)]\<rparr>" by blast
  have ok: "cloud_ok s" using cloud_write_ok [OF _ ex_fresh w] cloud_init_ok by (simp add: ex_cloud0_def)
  have ver: "sm_version st = 1"
    using rd by (auto simp: cloud_read_def act_simps written_def)
  have "\<exists>m. cloud_read (ex_cloud_env 9) (cs_kms ex_cloud0) (patch_meta (ex_cloud_env 9) (cu_patch ex_cloud_update) st) = Inr m"
    using rd by (auto simp: cloud_read_def act_simps patch_meta_keeps)
  then have "\<exists>r t. cloud_update (ex_cloud_env 9) ex_cloud_update s = (Inr r, t)"
    using st ver
    by (auto simp: cloud_update_def Let_def act_bind_def act_run ex_cloud_update_def s act_read_def
        patch_content_def ex_mid_def ex_cloud_owner_def)
  then obtain r t where u: "cloud_update (ex_cloud_env 9) ex_cloud_update s = (Inr r, t)" by blast
  from cloud_no_lost_update [OF ok u rtranclp.rtrancl_refl refl refl refl] u show ?thesis by blast
qed

text \<open>Key rotation is transparent and all-or-nothing. When \<open>rewrap\<close> returns, every record reads
  exactly as before and both its ciphertexts carry the new key version; when it raises, nothing
  has changed.\<close>

theorem cloud_rewrap_transparent:
  assumes "env_ok env" "cloud_rewrap env v s = (r, t)"
  shows "(case r of
      Inl e \<Rightarrow> t = s
    | Inr n \<Rightarrow> cs_key_version t = v \<and> map fst (records t) = map fst (records s) \<and>
        (\<forall>mid. rel_option (\<lambda>st st'. cloud_read env (cs_kms t) st' = cloud_read env (cs_kms s) st \<and>
            key_version (content_ciphertext st') = v \<and> key_version (provenance_ciphertext st') = v)
          (dict_get (records s) mid) (dict_get (records t) mid)))"
proof (cases r)
  case (Inl e)
  with cloud_rewrap_state [OF assms(2)] show ?thesis by auto
next
  case (Inr n)
  with cloud_rewrap_state [OF assms(2)] obtain recs where
    r: "rewrap_records env (cs_kms s) v 0 (records s) = Inr (recs, n)"
    and t: "t = s\<lparr>records := recs, cs_key_version := v\<rparr>" by blast
  from list_all2_same_get [OF rewrap_records_reads [OF assms(1) r]] Inr t show ?thesis by simp
qed

theorem cloud_rewrap_transparent_witness:
  "(case cloud_rewrap (ex_cloud_env 9) 2 ex_cloud0 of (r, t) \<Rightarrow> case r of
      Inl e \<Rightarrow> t = ex_cloud0
    | Inr n \<Rightarrow> cs_key_version t = 2 \<and> map fst (records t) = map fst (records ex_cloud0))"
proof -
  obtain r t where rt: "cloud_rewrap (ex_cloud_env 9) 2 ex_cloud0 = (r, t)" by (metis prod.exhaust)
  from cloud_rewrap_transparent [OF ex_env_ok rt] rt show ?thesis by (auto split: sum.splits)
qed

lemma cloud_backup_restores:
  assumes "cloud_ok s"
    and "\<forall>(mid, st)\<in>set (records s). \<exists>u. cloud_tenant (sm_owner_id st) = Inr u"
    and "\<forall>e\<in>set (cloud_tombstones s). (\<exists>u. cloud_tenant (ct_owner_id e) = Inr u) \<and>
      ce_fromiso env (py_replace ''Z'' ''+00:00'' (ct_deleted_at e)) \<noteq> None"
  shows "\<exists>t. cloud_restore env (cloud_backup s) (cloud_tombstones s) (cloud_init k v) =
       (Inr (int (length (records s))), t) \<and>
     records t = records s \<and>
     (\<forall>key. dict_get (tombstones t) key \<noteq> None \<longleftrightarrow> dict_get (tombstones s) key \<noteq> None)"
proof -
  let ?b = "cloud_backup s" and ?i = "cloud_init k v" and ?l = "cloud_tombstones s"
  have ids: "\<forall>(mid, st)\<in>set (cb_records ?b). sm_id st = mid \<and> (\<exists>u. cloud_tenant (sm_owner_id st) = Inr u)"
    using assms(2) cloud_okD(1,5) [OF assms(1)] by (fastforce simp: cloud_backup_def)
  have "\<exists>n t. cloud_restore env ?b ?l ?i = (Inr n, t)"
    using assms(3) ids by (intro cloud_restore_succeeds)
      (auto simp: cloud_backup_def cloud_tombstones_def cloud_init_def)
  then obtain n t where r: "cloud_restore env ?b ?l ?i = (Inr n, t)" by blast
  from cloud_restore_only [OF r] obtain tb where tb:
    "\<And>key. dict_get tb key \<noteq> None \<longleftrightarrow> (\<exists>e\<in>set ?l. key = (ct_owner_id e, ct_memory_id e))"
    and t: "t = install_records (drop_tombstoned tb (cb_records ?b)) (?i\<lparr>tombstones := tb\<rparr>)"
      "n = int (length (records t))" by blast
  have dead: "dict_get tb key \<noteq> None \<longleftrightarrow> dict_get (tombstones s) key \<noteq> None" for key
    unfolding tb by (rule cloud_tombstones_keys)
  have keep: "drop_tombstoned tb (records s) = records s"
    using cloud_okD(1,6) [OF assms(1)] dead by (intro drop_tombstoned_none) blast
  show ?thesis
    using r dead t by (simp add: install_records_def cloud_backup_def keep)
qed

text \<open>C24: Recovery loses nothing and revives nothing. The backup that the recovery fixture takes of a
  store, restored into a new isolated service, gives a receipt that counts every record; the new
  service holds exactly the same records and knows exactly the same deletions, provided the
  owners are valid cloud owners and the timestamps of the deletion ledger parse.\<close>

theorem recovery_restores_backup:
  assumes "cloud_ok s" "recovery_backup migration_head captured u s = Inr (snapshot, inventory)"
    and "\<forall>(mid, st)\<in>set (records s). \<exists>u. cloud_tenant (sm_owner_id st) = Inr u"
    and "\<forall>e\<in>set (cloud_tombstones s). (\<exists>u. cloud_tenant (ct_owner_id e) = Inr u) \<and>
      ce_fromiso env (py_replace ''Z'' ''+00:00'' (ct_deleted_at e)) \<noteq> None"
  shows "\<exists>r t. recovery_restore_isolated env now started finished snapshot inventory [] (cloud_init k v) =
       (Inr r, t) \<and> rr_restored_records r = int (length (records s)) \<and>
     rr_tombstones_replayed r = int (length (cloud_tombstones s)) \<and> records t = records s \<and>
     (\<forall>key. dict_get (tombstones t) key \<noteq> None \<longleftrightarrow> dict_get (tombstones s) key \<noteq> None)"
proof -
  have b: "snapshot = cloud_backup s" "ri_source inventory = ''local-fixture''"
    using assms(2) by (auto simp: recovery_backup_def Let_def act_simps inventory_post_init_def)
  from cloud_backup_restores [OF assms(1,3,4), of k v] obtain t where
    t: "cloud_restore env (cloud_backup s) (cloud_tombstones s) (cloud_init k v) = (Inr (int (length (records s))), t)"
      "records t = records s"
      "\<forall>key. dict_get (tombstones t) key \<noteq> None \<longleftrightarrow> dict_get (tombstones s) key \<noteq> None" by blast
  have "cb_format snapshot = Some ''omp.cloud.backup.v1''" "cb_tombstones snapshot = cloud_tombstones s"
    by (simp_all add: b cloud_backup_def)
  with t(1) have "cloud_restore env snapshot (cb_tombstones snapshot @ []) (cloud_init k v) =
      (Inr (int (length (records s))), t)" by (simp add: b(1))
  from recovery_restore_runs [OF b(2) \<open>cb_format snapshot = _\<close> this, of now started finished] t(2,3)
    \<open>cb_tombstones snapshot = _\<close>
  show ?thesis by (metis append_Nil2 of_nat_0_le_iff)
qed

theorem recovery_restores_backup_witness:
  "\<exists>s snapshot inventory r t. records s \<noteq> [] \<and>
     recovery_backup ''0007'' (ce_now (ex_cloud_env 9)) 3 s = Inr (snapshot, inventory) \<and>
     recovery_restore_isolated (ex_cloud_env 9) (ce_now (ex_cloud_env 9)) 1 2 snapshot inventory []
       (cloud_init (HostedKMS []) 1) = (Inr r, t) \<and> records t = records s"
proof -
  from ex_cloud1 obtain st s where w: "cloud_write (ex_cloud_env 9) (ex_cloud_write ''w'') ex_cloud0 =
      (Inr (written (ex_cloud_env 9) (ex_cloud_write ''w''), ''created''), s)"
    and st: "sm_id st = ex_mid" "sm_owner_id st = ex_cloud_owner"
    and s: "s = ex_cloud0\<lparr>records := [(ex_mid, st)], write_keys := [((ex_cloud_owner, ''w''), ex_mid)]\<rparr>" by blast
  have ok: "cloud_ok s" using cloud_write_ok [OF _ ex_fresh w] cloud_init_ok by (simp add: ex_cloud0_def)
  have "uuid_str 3 \<noteq> []" using uuid_parse_str [of 3] by (auto simp: uuid_parse_def uuid_clean_def strip_chars_def)
  then have "\<exists>i. recovery_backup ''0007'' (ce_now (ex_cloud_env 9)) 3 s = Inr (cloud_backup s, i)"
    by (simp add: recovery_backup_def Let_def inventory_post_init_def ex_cloud_env_def dt_aware_def)
  then obtain i where b: "recovery_backup ''0007'' (ce_now (ex_cloud_env 9)) 3 s = Inr (cloud_backup s, i)" by blast
  have own: "\<forall>(mid, st)\<in>set (records s). \<exists>u. cloud_tenant (sm_owner_id st) = Inr u"
    by (simp add: s st ex_cloud_owner_def)
  have tomb: "cloud_tombstones s = []" by (simp add: s ex_cloud0_def cloud_init_def cloud_tombstones_def)
  have "records s \<noteq> []" by (simp add: s)
  with recovery_restores_backup [OF ok b own, of "ex_cloud_env 9"] b tomb show ?thesis by fastforce
qed

section \<open>Composition with the worker and the tenant context\<close>

definition cloud_reembedding_store ::
  "CloudEnv \<Rightarrow> (EncryptedCloudMemoryService, pyfloat list) ReembeddingStore" where
  "cloud_reembedding_store env = \<lparr>
     rs_get = (\<lambda>owner mid s. res_bind (cloud_get env owner mid s) (\<lambda>found.
       Inr (map_option (\<lambda>m. (cm_version m, cm_content m)) found))),
     rs_store = cloud_store_embedding\<rparr>"

lemma cloud_get_cong:
  "records t = records s \<Longrightarrow> cs_kms t = cs_kms s \<Longrightarrow> cloud_get env owner mid t = cloud_get env owner mid s"
  by (simp only: cloud_get_def)

lemma cloud_store_embedding_Inr:
  "cloud_store_embedding owner mid v vals s = (Inr True, t) \<Longrightarrow>
     \<exists>st. dict_get (records s) mid = Some st \<and> sm_owner_id st = owner \<and> sm_version st = v \<and>
      t = s\<lparr>embeddings := dict_set mid \<lparr>se_owner_id = owner, se_source_version = v, se_values = vals\<rparr>
            (embeddings s)\<rparr>"
  by (auto simp: cloud_store_embedding_def act_simps split: option.splits if_splits)

lemma cloud_store_embedding_other:
  "cloud_store_embedding owner mid v vals s = (r, t) \<Longrightarrow> r \<noteq> Inr True \<Longrightarrow> t = s"
  using cloud_store_embedding_state by blast

text \<open>Re-embedding through the worker's handler never attaches a vector to the wrong text. When
  the handler answers \<open>ready\<close>, the vector it stored is the embedding of the content that the record
  of the job's own tenant and principal has at the version the job names, and that is still the
  record's version; on every other outcome (stale, or an error of the store or the embedding
  provider) the store is unchanged.\<close>

theorem reembedding_is_version_bound:
  assumes "cloud_ok s" "reembed_memory (cloud_reembedding_store env) emb j s = (r, t)"
  shows "cloud_ok t \<and> (r \<noteq> Inr READY \<longrightarrow> t = s) \<and>
    (r = Inr READY \<longrightarrow> (\<exists>mid v m vec.
       payload_target (payload_ref j) = Some (mid, v) \<and>
       cloud_get env (cloud_owner (w_tenant_id (envelope j)) (principal_id (envelope j))) mid t = Inr (Some m) \<and>
       cm_version m = v \<and> emb (cm_content m) = Inr vec \<and>
       cloud_embedding (cloud_owner (w_tenant_id (envelope j)) (principal_id (envelope j))) mid t =
         Inr (Some \<lparr>se_owner_id = cloud_owner (w_tenant_id (envelope j)) (principal_id (envelope j)),
                se_source_version = v, se_values = vec\<rparr>)))"
proof -
  define owner where "owner = cloud_owner (w_tenant_id (envelope j)) (principal_id (envelope j))"
  show ?thesis
  proof (cases "\<exists>mid v m vec k. payload_target (payload_ref j) = Some (mid, v) \<and>
      cloud_get env owner mid s = Inr (Some m) \<and> cm_version m = v \<and> emb (cm_content m) = Inr vec \<and>
      cloud_store_embedding owner mid v vec s = (k, t) \<and> r = map_sum id (\<lambda>b. if b then READY else STALE_JOB) k")
    case True
    then obtain mid v m vec k where p: "payload_target (payload_ref j) = Some (mid, v)"
      "cloud_get env owner mid s = Inr (Some m)" "cm_version m = v" "emb (cm_content m) = Inr vec"
      and k: "cloud_store_embedding owner mid v vec s = (k, t)"
        "r = map_sum id (\<lambda>b. if b then READY else STALE_JOB) k" by blast
    have ok: "cloud_ok t" by (rule cloud_store_embedding_ok [OF assms(1) k(1)])
    show ?thesis
    proof (cases "k = Inr True")
      case True
      then obtain st where t: "t = s\<lparr>embeddings := dict_set mid
          \<lparr>se_owner_id = owner, se_source_version = v, se_values = vec\<rparr> (embeddings s)\<rparr>"
        using cloud_store_embedding_Inr k(1) by blast
      have "cloud_get env owner mid t = Inr (Some m)"
        using p(2) cloud_get_cong [of t s env owner mid] by (simp add: t)
      moreover have "cloud_embedding owner mid t =
          Inr (Some \<lparr>se_owner_id = owner, se_source_version = v, se_values = vec\<rparr>)"
        by (simp add: cloud_embedding_def t update_conv' owner_def)
      ultimately show ?thesis using ok p k(2) True by (auto simp: owner_def)
    next
      case False
      then have "r \<noteq> Inr READY" using k(2) by (cases k) auto
      with ok cloud_store_embedding_other [OF k(1) False] show ?thesis by simp
    qed
  next
    case False
    have "r \<noteq> Inr READY \<and> t = s"
    proof (cases "payload_target (payload_ref j)")
      case None
      with assms(2) show ?thesis by (auto simp: reembed_memory_def)
    next
      case (Some p)
      obtain mid v where p: "p = (mid, v)" by (cases p)
      show ?thesis
      proof (cases "cloud_get env owner mid s")
        case (Inl e)
        with assms(2) Some p show ?thesis
          by (auto simp: reembed_memory_def owner_def cloud_reembedding_store_def Let_def)
      next
        case (Inr found)
        with assms(2) Some p False show ?thesis
          by (auto simp: reembed_memory_def owner_def cloud_reembedding_store_def Let_def
              split: option.splits if_splits sum.splits prod.splits)
      qed
    qed
    with assms(1) show ?thesis by simp
  qed
qed

definition ex_reembed_job :: LocalJob where
  "ex_reembed_job = \<lparr>envelope = \<lparr>job_id = 1, w_tenant_id = 5, principal_id = 7,
       expires_at = \<lparr>dt_local = 0, dt_offset = Some 0\<rparr>, w_nonce = ''n'', signature = []\<rparr>,
     dedupe_key = ''d'', payload_ref = ex_mid @ '':1'', job_state = PENDING, attempts = 0, job_error = None\<rparr>"

theorem reembedding_is_version_bound_witness:
  "\<exists>s t. reembed_memory (cloud_reembedding_store (ex_cloud_env 9)) (\<lambda>_. Inr [1]) ex_reembed_job s = (Inr READY, t) \<and>
     cloud_ok t \<and> cloud_embedding ex_cloud_owner ex_mid t =
       Inr (Some \<lparr>se_owner_id = ex_cloud_owner, se_source_version = 1, se_values = [1]\<rparr>)"
proof -
  from ex_cloud1 obtain st s where w: "cloud_write (ex_cloud_env 9) (ex_cloud_write ''w'') ex_cloud0 =
      (Inr (written (ex_cloud_env 9) (ex_cloud_write ''w''), ''created''), s)"
    and rd: "cloud_read (ex_cloud_env 9) (cs_kms ex_cloud0) st = Inr (written (ex_cloud_env 9) (ex_cloud_write ''w''))"
    and st: "sm_id st = ex_mid" "sm_owner_id st = ex_cloud_owner"
    and s: "s = ex_cloud0\<lparr>records := [(ex_mid, st)], write_keys := [((ex_cloud_owner, ''w''), ex_mid)]\<rparr>" by blast
  have ok: "cloud_ok s" using cloud_write_ok [OF _ ex_fresh w] cloud_init_ok by (simp add: ex_cloud0_def)
  have ver: "sm_version st = 1" "sm_state st = ''active''"
    using rd by (auto simp: cloud_read_def act_simps written_def)
  have "py_int 10 ''1'' = Some 1" by code_simp
  then have target: "payload_target (payload_ref ex_reembed_job) = Some (ex_mid, 1)"
    using rsplit_once_append [of "CHR '':''" "''1''" ex_mid]
    by (simp add: payload_target_def ex_reembed_job_def ex_mid_def cloud_memory_id_def)
  have own: "cloud_owner (w_tenant_id (envelope ex_reembed_job)) (principal_id (envelope ex_reembed_job)) = ex_cloud_owner"
    by (simp add: ex_reembed_job_def ex_cloud_owner_def)
  have ten: "cloud_tenant ex_cloud_owner = Inr 5" by (simp add: ex_cloud_owner_def)
  have get: "cloud_get (ex_cloud_env 9) ex_cloud_owner ex_mid s = Inr (Some (written (ex_cloud_env 9) (ex_cloud_write ''w'')))"
    using rd by (simp add: cloud_get_def ten s st)
  have "\<exists>t. cloud_store_embedding ex_cloud_owner ex_mid 1 [1] s = (Inr True, t)"
    by (simp add: cloud_store_embedding_def act_bind_def act_run ten s st ver)
  then obtain t where t: "cloud_store_embedding ex_cloud_owner ex_mid 1 [1] s = (Inr True, t)" by blast
  have run: "reembed_memory (cloud_reembedding_store (ex_cloud_env 9)) (\<lambda>_. Inr [1]) ex_reembed_job s = (Inr READY, t)"
    using t by (simp add: reembed_memory_def target own cloud_reembedding_store_def get written_def)
  from reembedding_is_version_bound [OF ok run] run target show ?thesis by (auto simp: own)
qed

text \<open>Tenancy comes only from the verified principal. Inside \<open>verified_principal_scope\<close> the database
  session can be bound to no tenant but the principal's, the principal has not expired, the session
  then reads back exactly that tenant, and when the scope is left the previous binding is current
  again.\<close>

theorem tenant_comes_from_principal:
  assumes "verified_principal_scope now p
      (\<lambda>ctx. (map_sum id (\<lambda>_. snd (set_tenant_context tenant ctx setting)) (fst (set_tenant_context tenant ctx setting)), ctx)) ctx =
      (Inr setting', ctx')"
  shows "tenant = Some (p_tenant_id p) \<and> require_tenant_context setting' = Inr (p_tenant_id p) \<and>
     dt_instant now < dt_instant (p_expires_at p) \<and> ctx' = ctx"
proof -
  note v = verified_scope_Inr [OF assms]
  from v have "set_tenant_context tenant (Some (p_tenant_id p)) setting = (Inr (), setting')"
    by (cases "set_tenant_context tenant (Some (p_tenant_id p)) setting"; cases "fst (set_tenant_context tenant (Some (p_tenant_id p)) setting)") auto
  from tenant_context_roundtrip [OF this] v show ?thesis by auto
qed

definition ex_principal :: Principal where
  "ex_principal = \<lparr>subject_id = 7, p_tenant_id = 5, membership_id = 1, p_scopes = [MEMORY_READ],
     credential_id = 2, auth_method = ''local-development'', p_expires_at = \<lparr>dt_local = 10, dt_offset = Some 0\<rparr>\<rparr>"

theorem tenant_comes_from_principal_witness:
  "\<exists>setting'. verified_principal_scope \<lparr>dt_local = 0, dt_offset = Some 0\<rparr> ex_principal
      (\<lambda>ctx. (map_sum id (\<lambda>_. snd (set_tenant_context (Some 5) ctx None)) (fst (set_tenant_context (Some 5) ctx None)), ctx)) None =
      (Inr setting', None) \<and> require_tenant_context setting' = Inr 5"
proof -
  have run: "verified_principal_scope \<lparr>dt_local = 0, dt_offset = Some 0\<rparr> ex_principal
      (\<lambda>ctx. (map_sum id (\<lambda>_. snd (set_tenant_context (Some 5) ctx None)) (fst (set_tenant_context (Some 5) ctx None)), ctx)) None =
      (Inr (Some (uuid_str 5)), None)"
    by (simp add: verified_principal_scope_def ex_principal_def principal_requires_def dt_aware_def
        dt_instant_def tenant_scope_def set_tenant_context_def current_tenant_def act_run opt_or_def)
  from tenant_comes_from_principal [OF run] run show ?thesis by (auto simp: ex_principal_def)
qed

section \<open>Where the store departs from its contract\<close>

text \<open>
  \<open>forget\<close> leaves the idempotency entry of the deleted record behind, so a retry of the original
  write does not answer \<open>already_exists\<close> or write again: it raises a \<open>KeyError\<close>, every time.
\<close>

theorem write_replay_after_forget_raises:
  assumes "dict_get (write_keys s) (cw_owner_id p, cw_idempotency_key p) = Some mid" "mid \<noteq> []"
    and "dict_get (records s) mid = None" "cloud_tenant (cw_owner_id p) = Inr u"
  shows "cloud_write env p s = (Inl CloudKeyError, s)"
  using assms by (simp add: cloud_write_def Let_def act_bind_def act_run opt_or_def)

theorem write_replay_after_forget_raises_witness:
  "\<exists>s t. cloud_forget (ex_cloud_env 9) ex_cloud_owner ex_mid s = (''forgotten'', t) \<and>
     cloud_write (ex_cloud_env 9) (ex_cloud_write ''w'') t = (Inl CloudKeyError, t)"
proof -
  from ex_cloud_deleted obtain s t where
    f: "cloud_forget (ex_cloud_env 9) ex_cloud_owner ex_mid s = (''forgotten'', t)"
    and t: "dict_get (write_keys t) (ex_cloud_owner, ''w'') = Some ex_mid" "dict_get (records t) ex_mid = None" by blast
  have "cloud_write (ex_cloud_env 9) (ex_cloud_write ''w'') t = (Inl CloudKeyError, t)"
    using t by (intro write_replay_after_forget_raises [where mid = ex_mid and u = 5])
      (simp_all add: ex_cloud_write_def ex_cloud_owner_def ex_mid_def cloud_memory_id_def)
  with f show ?thesis by blast
qed

text \<open>
  \<open>restore\<close> adds the entries of the supplied ledger to the service's own one by one before it has
  validated the rest. When it then raises, they stay: a record that was never deleted is still
  stored and readable, but marked as deleted, and the next successful restore will drop it.
\<close>

theorem failed_restore_keeps_ledger_entries:
  assumes "tombstones s = []" "cloud_tenant owner = Inr u" "ce_fromiso env (py_replace ''Z'' ''+00:00'' ts) \<noteq> None"
    and "cb_format b = None" "res_map check_backup_record (cb_records b) = Inl e"
  shows "cloud_restore env b [\<lparr>ct_owner_id = owner, ct_memory_id = mid, ct_deleted_at = ts\<rparr>] s =
     (Inl e, s\<lparr>tombstones := [((owner, mid), ts)]\<rparr>)"
  using assms
  by (simp add: cloud_restore_def act_bind_def act_run cloud_tombstones_def restore_tombstone_def)

end
