(* ===== verification/Cloud_Refinement.thy ===== *)
theory Cloud_Refinement
  imports Cloud_Properties
begin

text \<open>
  The encrypted cloud store refines a store without encryption: a partial function from
  identifiers to plain memories, with the idempotency entries and the deletions that were asked
  for. Every call of the service on a readable state changes the plain store that the state stands
  for exactly as the specification \<open>plain_call\<close> says.
\<close>

section \<open>The specification\<close>

record PlainStore =
  ps_mems :: "string \<Rightarrow> CloudMemory option"
  ps_keys :: "string \<times> string \<Rightarrow> string option"
  ps_forgot :: "(string \<times> string) set"

datatype CloudCall =
    CallWrite CloudWrite
  | CallUpdate CloudUpdate
  | CallStoreEmbedding string string int "pyfloat list"
  | CallForget string string
  | CallDeleteOwner string
  | CallRotate int
  | CallRewrap int

definition plain_empty :: PlainStore where
  "plain_empty = \<lparr>ps_mems = Map.empty, ps_keys = Map.empty, ps_forgot = {}\<rparr>"

definition owned :: "string \<Rightarrow> PlainStore \<Rightarrow> string \<Rightarrow> bool" where
  "owned owner P i = (case ps_mems P i of None \<Rightarrow> False | Some m \<Rightarrow> cm_owner_id m = owner)"

definition patched :: "CloudEnv \<Rightarrow> CloudPatch \<Rightarrow> CloudMemory \<Rightarrow> CloudMemory" where
  "patched env p m = (let
     m0 = opt_set (\<lambda>x r. r\<lparr>cm_content := x\<rparr>) (cp_content p) m;
     m1 = opt_set (\<lambda>x r. r\<lparr>cm_type := x\<rparr>) (cp_type p) m0;
     m2 = opt_set (\<lambda>x r. r\<lparr>cm_space := Some x\<rparr>) (cp_space p) m1;
     m3 = opt_set (\<lambda>x r. r\<lparr>cm_importance := x\<rparr>) (cp_importance p) m2;
     m4 = opt_set (\<lambda>x r. r\<lparr>cm_confidence := x\<rparr>) (cp_confidence p) m3;
     m5 = opt_set (\<lambda>x r. r\<lparr>cm_state := x\<rparr>) (cp_state p) m4
   in m5\<lparr>cm_version := cm_version m5 + 1, cm_updated_at := now_text env\<rparr>)"

fun plain_call :: "CloudEnv \<Rightarrow> CloudCall \<Rightarrow> PlainStore \<Rightarrow> PlainStore" where
  "plain_call env (CallWrite p) P =
     (if (\<exists>e. cloud_tenant (cw_owner_id p) = Inl e) \<or> ps_keys P (cw_owner_id p, cw_idempotency_key p) \<noteq> None
      then P
      else P\<lparr>ps_mems := (ps_mems P)(cloud_memory_id (ce_uuid env) \<mapsto> written env p),
             ps_keys := (ps_keys P)((cw_owner_id p, cw_idempotency_key p) \<mapsto> cloud_memory_id (ce_uuid env))\<rparr>)"
| "plain_call env (CallUpdate u) P = (case ps_mems P (cu_id u) of
     None \<Rightarrow> P
   | Some m \<Rightarrow> if cm_owner_id m = cu_owner_id u \<and> cm_version m = cu_expected_version u
       then P\<lparr>ps_mems := (ps_mems P)(cu_id u \<mapsto> patched env (cu_patch u) m)\<rparr> else P)"
| "plain_call env (CallForget owner i) P =
     (if (owner, i) \<in> ps_forgot P then P
      else P\<lparr>ps_forgot := insert (owner, i) (ps_forgot P),
             ps_mems := (if owned owner P i then (ps_mems P)(i := None) else ps_mems P)\<rparr>)"
| "plain_call env (CallDeleteOwner owner) P =
     (if (\<exists>e. cloud_tenant owner = Inl e) then P
      else P\<lparr>ps_mems := (\<lambda>i. if owned owner P i then None else ps_mems P i),
             ps_keys := (\<lambda>k. if fst k = owner then None else ps_keys P k),
             ps_forgot := ps_forgot P \<union> {(owner, i) | i. owned owner P i}\<rparr>)"
| "plain_call env _ P = P"

section \<open>The implementation\<close>

fun cloud_call :: "CloudEnv \<Rightarrow> CloudCall \<Rightarrow> EncryptedCloudMemoryService \<Rightarrow> EncryptedCloudMemoryService" where
  "cloud_call env (CallWrite p) s = snd (cloud_write env p s)"
| "cloud_call env (CallUpdate u) s = snd (cloud_update env u s)"
| "cloud_call env (CallStoreEmbedding owner i v vals) s = snd (cloud_store_embedding owner i v vals s)"
| "cloud_call env (CallForget owner i) s = snd (cloud_forget env owner i s)"
| "cloud_call env (CallDeleteOwner owner) s = snd (cloud_delete_owner env owner s)"
| "cloud_call env (CallRotate v) s = snd (cloud_rotate v s)"
| "cloud_call env (CallRewrap v) s = snd (cloud_rewrap env v s)"

definition plain_of :: "CloudEnv \<Rightarrow> EncryptedCloudMemoryService \<Rightarrow> PlainStore" where
  "plain_of c s = \<lparr>
     ps_mems = (\<lambda>i. case dict_get (records s) i of
         None \<Rightarrow> None
       | Some st \<Rightarrow> (case cloud_read c (cs_kms s) st of Inl e \<Rightarrow> None | Inr m \<Rightarrow> Some m)),
     ps_keys = dict_get (write_keys s),
     ps_forgot = set (forget_keys s)\<rparr>"

text \<open>
  The environments of all calls share the cipher and the JSON reader. A write draws an identifier
  that was never used, and its provenance is a JSON value that reads back as it was written.
\<close>

definition codec :: "CloudEnv \<Rightarrow> CloudEnv \<Rightarrow> bool" where
  "codec c env \<longleftrightarrow> env_ok env \<and> ce_aead env = ce_aead c \<and> ce_loads env = ce_loads c"

fun call_ok :: "CloudEnv \<Rightarrow> CloudEnv \<Rightarrow> CloudCall \<Rightarrow> EncryptedCloudMemoryService \<Rightarrow> bool" where
  "call_ok c env (CallWrite p) s \<longleftrightarrow> codec c env \<and> fresh_id env s \<and>
     ce_loads env (ce_dumps env (cw_provenance p)) = Some (cw_provenance p)"
| "call_ok c env _ s \<longleftrightarrow> codec c env"

fun calls_ok :: "CloudEnv \<Rightarrow> (CloudEnv \<times> CloudCall) list \<Rightarrow> EncryptedCloudMemoryService \<Rightarrow> bool" where
  "calls_ok c [] s \<longleftrightarrow> True"
| "calls_ok c ((env, call) # cs) s \<longleftrightarrow> call_ok c env call s \<and> calls_ok c cs (cloud_call env call s)"

definition readable :: "CloudEnv \<Rightarrow> EncryptedCloudMemoryService \<Rightarrow> bool" where
  "readable c s \<longleftrightarrow> cloud_ok s \<and> (\<exists>k. cs_kms s = LocalKMS k) \<and> 1 \<le> cs_key_version s \<and>
     (\<forall>i st. dict_get (records s) i = Some st \<longrightarrow> (\<exists>m. cloud_read c (cs_kms s) st = Inr m))"

lemma readableD:
  assumes "readable c s"
  shows "cloud_ok s" "\<exists>k. cs_kms s = LocalKMS k" "1 \<le> cs_key_version s"
    and "dict_get (records s) i = Some st \<Longrightarrow> \<exists>m. cloud_read c (cs_kms s) st = Inr m"
  using assms by (auto simp: readable_def)

lemma codec_read: "codec c env \<Longrightarrow> cloud_read env = cloud_read c"
  by (intro ext) (simp add: codec_def cloud_read_def)

lemma cloud_read_owner: "cloud_read c k st = Inr m \<Longrightarrow>
    cm_owner_id m = sm_owner_id st \<and> cm_version m = sm_version st"
  by (auto simp: cloud_read_def act_simps)

lemma plain_mems_Some:
  assumes "readable c s"
  shows "ps_mems (plain_of c s) i = Some m \<longleftrightarrow>
     (\<exists>st. dict_get (records s) i = Some st \<and> cloud_read c (cs_kms s) st = Inr m)"
  using readableD(4) [OF assms] by (auto simp: plain_of_def split: option.splits sum.splits)

lemma owned_plain:
  assumes "readable c s"
  shows "owned owner (plain_of c s) i \<longleftrightarrow>
     (\<exists>st. dict_get (records s) i = Some st \<and> sm_owner_id st = owner)"
  using readableD(4) [OF assms] cloud_read_owner
  by (fastforce simp: owned_def plain_of_def split: option.splits sum.splits)

section \<open>Simulation, call by call\<close>

definition simulates :: "CloudEnv \<Rightarrow> CloudEnv \<Rightarrow> CloudCall \<Rightarrow> EncryptedCloudMemoryService \<Rightarrow> bool" where
  "simulates c env call s \<longleftrightarrow> readable c (cloud_call env call s) \<and>
     plain_of c (cloud_call env call s) = plain_call env call (plain_of c s)"

lemma simulates_write:
  assumes "readable c s" "call_ok c env (CallWrite p) s"
  shows "simulates c env (CallWrite p) s"
proof -
  obtain r t where w: "cloud_write env p s = (r, t)" by (metis prod.exhaust)
  have ok: "cloud_ok t" using cloud_write_ok [OF readableD(1) [OF assms(1)] _ w] assms(2) by simp
  show ?thesis
  proof (cases "(\<exists>e. cloud_tenant (cw_owner_id p) = Inl e) \<or>
      dict_get (write_keys s) (cw_owner_id p, cw_idempotency_key p) \<noteq> None")
    case True
    moreover have "t = s"
    proof (cases "cloud_tenant (cw_owner_id p)")
      case (Inl e)
      with w show ?thesis by (auto simp: cloud_write_def Let_def act_bind_def act_run)
    next
      case (Inr u)
      with True obtain i where "dict_get (write_keys s) (cw_owner_id p, cw_idempotency_key p) = Some i" by auto
      moreover from this have "i \<noteq> []" by (rule cloud_okD(8) [OF readableD(1) [OF assms(1)]])
      ultimately show ?thesis using w Inr
        by (auto simp: cloud_write_def Let_def act_bind_def act_run act_read_def split: prod.splits sum.splits)
    qed
    ultimately show ?thesis using assms(1) w by (simp add: simulates_def plain_of_def)
  next
    case False
    then obtain u where u: "cloud_tenant (cw_owner_id p) = Inr u"
      by (cases "cloud_tenant (cw_owner_id p)") auto
    obtain k where k: "cs_kms s = LocalKMS k" using readableD(2) [OF assms(1)] by blast
    have c: "codec c env" "ce_loads env (ce_dumps env (cw_provenance p)) = Some (cw_provenance p)"
      using assms(2) by simp_all
    then have "env_ok env" by (simp add: codec_def)
    from cloud_write_created [OF this u k readableD(3) [OF assms(1)] c(2)] False obtain st where
      st: "cloud_read c (LocalKMS k) st = Inr (written env p)" "sm_id st = cloud_memory_id (ce_uuid env)"
      and t: "t = s\<lparr>records := dict_set (sm_id st) st (records s),
         write_keys := dict_set (cw_owner_id p, cw_idempotency_key p) (sm_id st) (write_keys s)\<rparr>"
      using w codec_read [OF c(1)] by auto
    have "readable c t"
      using ok readableD(3,4) [OF assms(1)] k st(1) by (simp add: readable_def t update_conv')
    moreover have "plain_of c t = plain_call env (CallWrite p) (plain_of c s)"
      using False u st k by (auto simp: plain_of_def t update_conv' fun_eq_iff cong: option.case_cong)
    ultimately show ?thesis using w by (simp add: simulates_def)
  qed
qed

text \<open>Patching the stored record is patching what it reads as.\<close>

definition cloud_view :: "string \<Rightarrow> json \<Rightarrow> StoredMemory \<Rightarrow> CloudMemory" where
  "cloud_view content prov st = \<lparr>cm_id = sm_id st, cm_owner_id = sm_owner_id st, cm_type = sm_type st,
     cm_space = sm_space st, cm_importance = sm_importance st, cm_confidence = sm_confidence st,
     cm_state = sm_state st, cm_version = sm_version st, cm_created_at = sm_created_at st,
     cm_updated_at = sm_updated_at st, cm_occurred_at = sm_occurred_at st, cm_content = content,
     cm_provenance = prov\<rparr>"

lemma opt_or_Inr: "opt_or e v = Inr x \<longleftrightarrow> v = Some x"
  by (cases v) (simp_all add: opt_or_def)

lemma cloud_read_view:
  "cloud_read c k st = Inr m \<longleftrightarrow> (\<exists>tenant rid content ptext prov.
     cloud_tenant (sm_owner_id st) = Inr tenant \<and> record_uuid (sm_id st) = Inr rid \<and>
     encryptor_decrypt (ce_aead c) k tenant rid ''content'' (content_ciphertext st) = Inr content \<and>
     encryptor_decrypt (ce_aead c) k tenant rid ''provenance'' (provenance_ciphertext st) = Inr ptext \<and>
     ce_loads c ptext = Some prov \<and> m = cloud_view content prov st)"
  by (auto simp: cloud_read_def cloud_view_def act_simps opt_or_Inr)

lemma opt_set_comm: "(\<And>x r. h (f x r) = g x (h r)) \<Longrightarrow> h (opt_set f v st) = opt_set g v (h st)"
  by (cases v) (simp_all add: opt_set_def)

lemma patch_meta_view:
  "cloud_view content prov (patch_meta env p st) =
     patched env (p\<lparr>cp_content := None\<rparr>) (cloud_view content prov st)"
proof -
  note comm = opt_set_comm [where h = "cloud_view content prov"]
  have f: "cloud_view content prov (st'\<lparr>sm_version := sm_version st' + 1, sm_updated_at := now_text env\<rparr>) =
      (cloud_view content prov st')\<lparr>cm_version := cm_version (cloud_view content prov st') + 1,
         cm_updated_at := now_text env\<rparr>" for st'
    by (simp add: cloud_view_def)
  have "cloud_view content prov (opt_set (\<lambda>x r. r\<lparr>sm_type := x\<rparr>) v st') =
      opt_set (\<lambda>x r. r\<lparr>cm_type := x\<rparr>) v (cloud_view content prov st')"
    "cloud_view content prov (opt_set (\<lambda>x r. r\<lparr>sm_space := Some x\<rparr>) v st') =
      opt_set (\<lambda>x r. r\<lparr>cm_space := Some x\<rparr>) v (cloud_view content prov st')"
    "cloud_view content prov (opt_set (\<lambda>x r. r\<lparr>sm_importance := x\<rparr>) w st') =
      opt_set (\<lambda>x r. r\<lparr>cm_importance := x\<rparr>) w (cloud_view content prov st')"
    "cloud_view content prov (opt_set (\<lambda>x r. r\<lparr>sm_confidence := x\<rparr>) w st') =
      opt_set (\<lambda>x r. r\<lparr>cm_confidence := x\<rparr>) w (cloud_view content prov st')"
    "cloud_view content prov (opt_set (\<lambda>x r. r\<lparr>sm_state := x\<rparr>) v st') =
      opt_set (\<lambda>x r. r\<lparr>cm_state := x\<rparr>) v (cloud_view content prov st')" for v w st'
    by (rule comm, simp add: cloud_view_def)+
  then show ?thesis by (simp add: patch_meta_def patched_def Let_def f) (simp add: opt_set_def)
qed

lemma update_reads:
  assumes "codec c env" "cloud_read c (cs_kms s) st = Inr m" "cs_kms s = LocalKMS k" "1 \<le> cs_key_version s"
  shows "\<exists>tenant rid st1. cloud_tenant (sm_owner_id st) = Inr tenant \<and> record_uuid (sm_id st) = Inr rid \<and>
     patch_content env tenant rid p st s = Inr st1 \<and>
     cloud_read c (cs_kms s) (patch_meta env p st1) = Inr (patched env p m)"
proof -
  from assms(2) obtain tenant rid content ptext prov where
    t: "cloud_tenant (sm_owner_id st) = Inr tenant" "record_uuid (sm_id st) = Inr rid"
    and d: "encryptor_decrypt (ce_aead c) (cs_kms s) tenant rid ''content'' (content_ciphertext st) = Inr content"
      "encryptor_decrypt (ce_aead c) (cs_kms s) tenant rid ''provenance'' (provenance_ciphertext st) = Inr ptext"
      "ce_loads c ptext = Some prov"
    and m: "m = cloud_view content prov st" by (auto simp: cloud_read_view)
  have env: "aead_ok (ce_aead env)" "entropy_ok (ce_entropy env 0)" "ce_aead env = ce_aead c"
    using assms(1) by (auto simp: codec_def env_ok_def)
  show ?thesis
  proof (cases "cp_content p")
    case None
    then have "patched env (p\<lparr>cp_content := None\<rparr>) x = patched env p x" for x
      by (simp add: patched_def)
    then show ?thesis
      using t d None by (simp add: patch_content_def cloud_read_view patch_meta_keeps patch_meta_view m)
  next
    case (Some body)
    from local_encrypt [OF assms(4) _ _ env(2), of "''content''"] obtain x where
      x: "encryptor_encrypt (ce_aead env) (cs_kms s) (ce_entropy env 0) tenant rid ''content'' body
        (cs_key_version s) = Inr x" using assms(3) by fastforce
    from encrypt_decrypt [OF env(1,2) x] have dx:
      "encryptor_decrypt (ce_aead c) (cs_kms s) tenant rid ''content'' x = Inr body" by (simp add: env(3))
    have "patched env (p\<lparr>cp_content := None\<rparr>) (cloud_view body prov st) = patched env p m"
      using Some by (simp add: patched_def opt_set_def [of _ "Some body"] opt_set_def [of _ "None"] m cloud_view_def)
    moreover have "cloud_view body prov (patch_meta env p (st\<lparr>content_ciphertext := x\<rparr>)) =
        patched env (p\<lparr>cp_content := None\<rparr>) (cloud_view body prov st)"
      by (simp add: patch_meta_view) (simp add: cloud_view_def)
    ultimately show ?thesis
      using t d x dx Some by (simp add: patch_content_def cloud_read_view patch_meta_keeps)
  qed
qed

lemma simulates_update:
  assumes "readable c s" "codec c env"
  shows "simulates c env (CallUpdate u) s"
proof -
  obtain r t where w: "cloud_update env u s = (r, t)" by (metis prod.exhaust)
  have ok: "cloud_ok t" by (rule cloud_update_ok [OF readableD(1) [OF assms(1)] w])
  show ?thesis
  proof (cases "\<exists>st. dict_get (records s) (cu_id u) = Some st \<and> sm_owner_id st = cu_owner_id u \<and>
      sm_version st = cu_expected_version u")
    case True
    then obtain st where st: "dict_get (records s) (cu_id u) = Some st" "sm_owner_id st = cu_owner_id u"
      "sm_version st = cu_expected_version u" by blast
    obtain m where m: "cloud_read c (cs_kms s) st = Inr m" using readableD(4) [OF assms(1) st(1)] by blast
    obtain k where k: "cs_kms s = LocalKMS k" using readableD(2) [OF assms(1)] by blast
    from update_reads [OF assms(2) m k readableD(3) [OF assms(1)], of "cu_patch u"] obtain tenant rid st1 where
      st1: "cloud_tenant (sm_owner_id st) = Inr tenant" "record_uuid (sm_id st) = Inr rid"
        "patch_content env tenant rid (cu_patch u) st s = Inr st1"
      and rd: "cloud_read c (cs_kms s) (patch_meta env (cu_patch u) st1) = Inr (patched env (cu_patch u) m)" by blast
    have t: "t = s\<lparr>records := dict_set (cu_id u) (patch_meta env (cu_patch u) st1) (records s),
           embeddings := dict_pop (sm_id (patch_meta env (cu_patch u) st1)) (embeddings s)\<rparr>"
      using w st st1 by (auto simp: cloud_update_def Let_def act_bind_def act_run act_read_def split: sum.splits)
    have "readable c t"
      using ok readableD(3,4) [OF assms(1)] k rd by (simp add: readable_def t update_conv')
    moreover have "plain_of c t = plain_call env (CallUpdate u) (plain_of c s)"
      using st m rd cloud_read_owner [OF m] by (auto simp: plain_of_def t update_conv' fun_eq_iff cong: option.case_cong)
    ultimately show ?thesis using w by (simp add: simulates_def)
  next
    case False
    then have "t = s"
      using w by (auto simp: cloud_update_def Let_def act_bind_def act_run res_guard_def
          split: option.splits if_splits)
    moreover have "plain_call env (CallUpdate u) (plain_of c s) = plain_of c s"
      using False by (auto simp: plain_mems_Some [OF assms(1)] dest: cloud_read_owner split: option.splits)
    ultimately show ?thesis using assms(1) w by (simp add: simulates_def)
  qed
qed

lemma simulates_forget:
  assumes "readable c s"
  shows "simulates c env (CallForget owner i) s"
proof -
  obtain r t where w: "cloud_forget env owner i s = (r, t)" by (metis prod.exhaust)
  have ok: "cloud_ok t" by (rule cloud_forget_ok [OF readableD(1) [OF assms] w])
  have "readable c t \<and> plain_of c t = plain_call env (CallForget owner i) (plain_of c s)"
  proof (cases "(owner, i) \<in> set (forget_keys s)")
    case True
    with w assms show ?thesis by (simp add: cloud_forget_def plain_of_def)
  next
    case False
    show ?thesis
    proof (cases "owned owner (plain_of c s) i")
      case True
      then obtain st where "dict_get (records s) i = Some st" "sm_owner_id st = owner"
        by (auto simp: owned_plain [OF assms])
      with w False have t: "t = erase_record owner i (now_text env) (s\<lparr>forget_keys := (owner, i) # forget_keys s\<rparr>)"
        by (simp add: cloud_forget_def)
      have "readable c t"
        using ok readableD(2-4) [OF assms] by (simp add: readable_def t erase_record_def delete_conv')
      with False True show ?thesis
        by (auto simp: plain_of_def t erase_record_def delete_conv' fun_eq_iff cong: option.case_cong)
    next
      case no: False
      with w False have t: "t = s\<lparr>forget_keys := (owner, i) # forget_keys s\<rparr>"
        by (auto simp: cloud_forget_def Let_def owned_plain [OF assms] split: option.splits if_splits)
      have "readable c t" using ok readableD(2-4) [OF assms] by (simp add: readable_def t)
      with False no show ?thesis by (auto simp: plain_of_def t cong: option.case_cong)
    qed
  qed
  with w show ?thesis by (simp add: simulates_def)
qed

lemma erase_all_frame:
  "set (forget_keys (fold (erase_owned env owner) mids s)) = set (forget_keys s) \<union> {(owner, i) | i. i \<in> set mids}"
  "write_keys (fold (erase_owned env owner) mids s) = write_keys s"
  "cs_kms (fold (erase_owned env owner) mids s) = cs_kms s"
  "cs_key_version (fold (erase_owned env owner) mids s) = cs_key_version s"
  by (induction mids arbitrary: s) (auto simp: erase_record_def)

lemma dict_get_filter_key:
  "dict_get (filter (\<lambda>(k, v). P k) d) k = (if P k then dict_get d k else None)"
  by (induction d) auto

lemma simulates_delete_owner:
  assumes "readable c s"
  shows "simulates c env (CallDeleteOwner owner) s"
proof -
  obtain r t where w: "cloud_delete_owner env owner s = (r, t)" by (metis prod.exhaust)
  have ok: "cloud_ok t" by (rule cloud_delete_owner_ok [OF readableD(1) [OF assms] w])
  show ?thesis
  proof (cases "cloud_tenant owner")
    case (Inl e)
    with w have "t = s" by (auto simp: cloud_delete_owner_def act_bind_def act_run)
    with Inl w assms show ?thesis by (auto simp: simulates_def)
  next
    case (Inr u)
    define mids where "mids = map fst (filter (\<lambda>(mid, st). sm_owner_id st = owner) (records s))"
    let ?f = "fold (erase_owned env owner) mids s"
    from w Inr have t: "t = ?f\<lparr>write_keys := filter (\<lambda>((o', k), mid). o' \<noteq> owner) (write_keys s)\<rparr>"
      using erase_all_frame(2) [where env = env and owner = owner and mids = mids and s = s]
      by (auto simp: cloud_delete_owner_def act_bind_def act_run mids_def)
    have ids: "i \<in> set mids \<longleftrightarrow> owned owner (plain_of c s) i" for i
    proof
      assume "i \<in> set mids"
      with owned_ids(2) [OF readableD(1) [OF assms] mids_def] show "owned owner (plain_of c s) i"
        by (simp add: owned_plain [OF assms])
    next
      assume "owned owner (plain_of c s) i"
      then obtain st where "dict_get (records s) i = Some st" "sm_owner_id st = owner"
        by (auto simp: owned_plain [OF assms])
      then show "i \<in> set mids" by (force simp: mids_def dest: map_of_SomeD)
    qed
    note own = owned_ids [OF readableD(1) [OF assms] mids_def]
    have rec: "dict_get (records t) i = (if owned owner (plain_of c s) i then None else dict_get (records s) i)" for i
      using erase_all_ok [OF readableD(1) [OF assms] own, of env] by (simp add: t ids)
    have keys: "dict_get (write_keys t) k = (if fst k = owner then None else dict_get (write_keys s) k)" for k
    proof -
      have "(\<lambda>((o', k :: string), mid :: string). o' \<noteq> owner) = (\<lambda>(k, v). fst k \<noteq> owner)" by auto
      then show ?thesis
        using dict_get_filter_key [of "\<lambda>k. fst k \<noteq> owner" "write_keys s" k] by (simp add: t)
    qed
    have rest: "cs_kms t = cs_kms s" "cs_key_version t = cs_key_version s"
      "set (forget_keys t) = set (forget_keys s) \<union> {(owner, i) | i. owned owner (plain_of c s) i}"
      by (simp_all add: t erase_all_frame ids)
    have "readable c t"
      using ok readableD(2-4) [OF assms] rest by (auto simp: readable_def rec split: if_splits)
    moreover have "ps_mems (plain_of c t) = (\<lambda>i. if owned owner (plain_of c s) i then None else ps_mems (plain_of c s) i)"
      "ps_keys (plain_of c t) = (\<lambda>k. if fst k = owner then None else ps_keys (plain_of c s) k)"
      by (simp_all add: fun_eq_iff plain_of_def [of c t] rec keys) (simp_all add: plain_of_def rest cong: option.case_cong)
    moreover have "ps_forgot (plain_of c t) = ps_forgot (plain_of c s) \<union> {(owner, i) | i. owned owner (plain_of c s) i}"
      by (simp add: plain_of_def [of c t] rest) (simp add: plain_of_def)
    ultimately have "readable c t" "plain_of c t = plain_call env (CallDeleteOwner owner) (plain_of c s)"
      using Inr by simp_all
    with w show ?thesis by (simp add: simulates_def)
  qed
qed

lemma plain_of_cong:
  assumes "\<And>i. rel_option (\<lambda>st st'. cloud_read c (cs_kms t) st' = cloud_read c (cs_kms s) st)
      (dict_get (records s) i) (dict_get (records t) i)"
    and "write_keys t = write_keys s" "forget_keys t = forget_keys s"
  shows "plain_of c t = plain_of c s"
proof -
  have "ps_mems (plain_of c t) i = ps_mems (plain_of c s) i" for i
    using assms(1) [of i] by (auto simp: plain_of_def option_rel_Some1 option_rel_Some2 split: option.splits)
  then have "ps_mems (plain_of c t) = ps_mems (plain_of c s)" by blast
  with assms(2,3) show ?thesis by (simp add: plain_of_def)
qed

lemma simulates_keys:
  assumes "readable c s" "codec c env"
  shows "simulates c env (CallRotate v) s" "simulates c env (CallRewrap v) s"
    "simulates c env (CallStoreEmbedding owner i n vals) s"
proof -
  obtain r t where w: "cloud_rotate v s = (r, t)" by (metis prod.exhaust)
  have "t = s \<or> 1 \<le> v \<and> t = s\<lparr>cs_key_version := v\<rparr>"
    using w by (auto simp: cloud_rotate_def act_bind_def act_run res_guard_def split: if_splits)
  then show "simulates c env (CallRotate v) s"
    using assms(1) w by (auto simp: simulates_def readable_def plain_of_def cong: option.case_cong)
next
  obtain r t where w: "cloud_rewrap env v s = (r, t)" by (metis prod.exhaust)
  have ok: "cloud_ok t" by (rule cloud_rewrap_ok [OF readableD(1) [OF assms(1)] w])
  have "readable c t \<and> plain_of c t = plain_of c s"
  proof (cases "t = s")
    case False
    with cloud_rewrap_state [OF w] obtain recs n where
      rw: "rewrap_records env (cs_kms s) v 0 (records s) = Inr (recs, n)" "1 \<le> v"
      and t: "t = s\<lparr>records := recs, cs_key_version := v\<rparr>" by blast
    have "env_ok env" using assms(2) by (simp add: codec_def)
    note same = list_all2_same_get(2) [OF rewrap_records_reads [OF this rw(1)]]
    have "rel_option (\<lambda>st st'. cloud_read env (cs_kms s) st' = cloud_read env (cs_kms s) st \<and>
        key_version (content_ciphertext st') = v \<and> key_version (provenance_ciphertext st') = v)
        (dict_get (records s) i) (dict_get (records t) i)" for i
      using same [of i] by (simp add: t)
    then have rel: "rel_option (\<lambda>st st'. cloud_read c (cs_kms s) st' = cloud_read c (cs_kms s) st)
        (dict_get (records s) i) (dict_get (records t) i)" for i
      by (rule option.rel_mono_strong) (simp_all add: t codec_read [OF assms(2)])
    have "\<exists>m. cloud_read c (cs_kms s) st' = Inr m" if "dict_get (records t) i = Some st'" for i st'
      using rel [of i] that readableD(4) [OF assms(1)] by (auto simp: option_rel_Some2)
    then have "readable c t" using ok readableD(2) [OF assms(1)] rw(2) by (auto simp: readable_def t)
    moreover have "plain_of c t = plain_of c s" using rel by (intro plain_of_cong) (simp_all add: t)
    ultimately show ?thesis by blast
  qed (use assms(1) in simp)
  with w show "simulates c env (CallRewrap v) s" by (simp add: simulates_def)
next
  obtain r t where w: "cloud_store_embedding owner i n vals s = (r, t)" by (metis prod.exhaust)
  have ok: "cloud_ok t" by (rule cloud_store_embedding_ok [OF readableD(1) [OF assms(1)] w])
  from cloud_store_embedding_state [OF w] obtain e where t: "t = s\<lparr>embeddings := e\<rparr>"
    by (metis EncryptedCloudMemoryService.surjective EncryptedCloudMemoryService.update_convs(7))
  from ok readableD [OF assms(1)] w show "simulates c env (CallStoreEmbedding owner i n vals) s"
    by (auto simp: simulates_def readable_def plain_of_def t cong: option.case_cong)
qed

lemma simulates_call: "readable c s \<Longrightarrow> call_ok c env call s \<Longrightarrow> simulates c env call s"
  by (cases call) (auto intro: simulates_write simulates_update simulates_forget simulates_delete_owner simulates_keys)

lemma simulates_calls:
  assumes "readable c s" "calls_ok c cs s"
  shows "readable c (fold (\<lambda>(env, call). cloud_call env call) cs s) \<and>
     plain_of c (fold (\<lambda>(env, call). cloud_call env call) cs s) =
       fold (\<lambda>(env, call). plain_call env call) cs (plain_of c s)"
  using assms
proof (induction cs arbitrary: s)
  case (Cons p cs)
  obtain env call where p: "p = (env, call)" by (cases p)
  have "simulates c env call s" "calls_ok c cs (cloud_call env call s)"
    using Cons.prems simulates_call by (auto simp: p)
  with Cons.IH [of "cloud_call env call s"] show ?case by (simp add: p simulates_def)
qed simp

lemma plain_of_init: "plain_of c (cloud_init k v) = plain_empty"
  by (simp add: plain_of_def cloud_init_def plain_empty_def)

lemma readable_init: "1 \<le> v \<Longrightarrow> readable c (cloud_init (LocalKMS k) v)"
  using cloud_init_ok [of "LocalKMS k" v] by (simp add: readable_def cloud_init_def)

lemma cloud_get_plain:
  assumes "readable c s" "cloud_tenant owner = Inr u"
  shows "cloud_get c owner i s =
    Inr (if owned owner (plain_of c s) i then ps_mems (plain_of c s) i else None)"
proof (cases "dict_get (records s) i")
  case (Some st)
  obtain m where m: "cloud_read c (cs_kms s) st = Inr m" using readableD(4) [OF assms(1) Some] by blast
  then have "ps_mems (plain_of c s) i = Some m" using Some by (simp add: plain_mems_Some [OF assms(1)])
  with Some m assms(2) show ?thesis by (simp add: cloud_get_def owned_plain [OF assms(1)])
qed (use assms in \<open>simp add: cloud_get_def owned_plain [OF assms(1)]\<close>)

section \<open>Refinement\<close>

text \<open>C13: The encrypted cloud store refines a plain one. After any sequence of writes, updates, vector
  writes, deletions, key rotations and rewraps, failing calls included, on a service that starts
  empty, the store stands for exactly the plain memories, idempotency entries and deletions that
  the same calls leave in a store without encryption, and \<open>get\<close> answers from that plain store: the
  owner gets the memory, anybody else gets nothing.\<close>

theorem cloud_refines_plain:
  assumes "1 \<le> v" "calls_ok c cs (cloud_init (LocalKMS k) v)"
    and "s = fold (\<lambda>(env, call). cloud_call env call) cs (cloud_init (LocalKMS k) v)"
    and "P = fold (\<lambda>(env, call). plain_call env call) cs plain_empty"
  shows "plain_of c s = P \<and>
    (\<forall>owner u i. cloud_tenant owner = Inr u \<longrightarrow>
       cloud_get c owner i s = Inr (if owned owner P i then ps_mems P i else None))"
  using simulates_calls [OF readable_init [OF assms(1)] assms(2)] cloud_get_plain
  by (auto simp: assms(3,4) plain_of_init)

theorem cloud_refines_plain_witness:
  "cloud_get (ex_cloud_env 9) ex_cloud_owner ex_mid
     (cloud_call (ex_cloud_env 9) (CallRotate 2) (cloud_call (ex_cloud_env 9) (CallWrite (ex_cloud_write ''w''))
        (cloud_init (LocalKMS ''k'') 1))) = Inr (Some (written (ex_cloud_env 9) (ex_cloud_write ''w'')))"
proof -
  let ?cs = "[(ex_cloud_env 9, CallWrite (ex_cloud_write ''w'')), (ex_cloud_env 9, CallRotate 2)]"
  have ok: "calls_ok (ex_cloud_env 9) ?cs (cloud_init (LocalKMS ''k'') 1)"
    using ex_env_ok [of 9] by (simp add: codec_def fresh_id_def cloud_init_def ex_cloud_env_def ex_cloud_write_def)
  from cloud_refines_plain [OF _ ok refl refl] have
    "cloud_get (ex_cloud_env 9) ex_cloud_owner ex_mid (fold (\<lambda>(env, call). cloud_call env call) ?cs (cloud_init (LocalKMS ''k'') 1)) =
      (let P = fold (\<lambda>(env, call). plain_call env call) ?cs plain_empty
       in Inr (if owned ex_cloud_owner P ex_mid then ps_mems P ex_mid else None))"
    by (simp add: Let_def ex_cloud_owner_def)
  then show ?thesis
    by (simp add: owned_def plain_empty_def ex_mid_def ex_cloud_env_def ex_cloud_write_def ex_cloud_owner_def written_def)
qed

end
