(* ===== verification/Mcp_Adapter.thy ===== *)
theory Mcp_Adapter
  imports Domain_Types
begin

text \<open>
  The protocol boundary of \<open>omp/adapters/mcp\<close>: the public error codes and the opaque mapping of
  service errors (\<open>errors.py\<close>), the two rate limiters and the control flow of \<open>call_tool\<close>
  (\<open>adapter.py\<close>).

  The request models are pydantic classes: parsing is an argument of \<open>call_tool\<close> that raises or
  returns a request. The application service behind the adapter is an argument too, a function of the
  tool, the request and the service's state.
\<close>

section \<open>Public errors\<close>

datatype PublicErrorCode =
    PE_VALIDATION | PE_NOT_FOUND | PE_VERSION_CONFLICT | PE_FORBIDDEN | PE_RATE_LIMITED
  | PE_DEPENDENCY_UNAVAILABLE | PE_INTERNAL

fun public_code_value :: "PublicErrorCode \<Rightarrow> string" where
  "public_code_value PE_VALIDATION = ''validation_error''"
| "public_code_value PE_NOT_FOUND = ''not_found''"
| "public_code_value PE_VERSION_CONFLICT = ''version_conflict''"
| "public_code_value PE_FORBIDDEN = ''forbidden''"
| "public_code_value PE_RATE_LIMITED = ''rate_limited''"
| "public_code_value PE_DEPENDENCY_UNAVAILABLE = ''dependency_unavailable''"
| "public_code_value PE_INTERNAL = ''internal_error''"

record PublicError =
  pe_code :: PublicErrorCode
  pe_message :: string
  pe_retryable :: bool

text \<open>
  What may be raised: a public error, one of the four exception classes of \<open>errors.py\<close>, a
  \<open>TimeoutError\<close> or \<open>ConnectionError\<close>, the pydantic \<open>ValidationError\<close>, or an exception of any
  other class, with its class name, the \<open>code\<close> attribute if it has one, and its text.
\<close>

datatype exn =
    PublicExn PublicError
  | AdapterNotFound
  | AdapterVersionConflict
  | AdapterForbidden
  | AdapterRateLimited
  | TimeoutExn
  | ConnectionExn
  | PydanticValidation
  | OtherExn string "string option" string

fun exn_class :: "exn \<Rightarrow> string" where
  "exn_class (PublicExn e) = ''PublicError''"
| "exn_class AdapterNotFound = ''NotFoundError''"
| "exn_class AdapterVersionConflict = ''VersionConflictError''"
| "exn_class AdapterForbidden = ''ForbiddenError''"
| "exn_class AdapterRateLimited = ''RateLimitedError''"
| "exn_class TimeoutExn = ''TimeoutError''"
| "exn_class ConnectionExn = ''ConnectionError''"
| "exn_class PydanticValidation = ''ValidationError''"
| "exn_class (OtherExn c k t) = c"

fun exn_code :: "exn \<Rightarrow> string option" where
  "exn_code (OtherExn c k t) = k"
| "exn_code _ = None"

definition public :: "PublicErrorCode \<Rightarrow> string \<Rightarrow> bool \<Rightarrow> PublicError" where
  "public c msg retry = \<lparr>pe_code = c, pe_message = msg, pe_retryable = retry\<rparr>"

definition map_service_error :: "exn \<Rightarrow> PublicError" where
  "map_service_error e = (case e of PublicExn p \<Rightarrow> p | _ \<Rightarrow>
     let c = exn_class e; k = exn_code e in
     if k = Some ''validation_error'' \<or>
        c \<in> {''ValidationError'', ''InvalidStateTransitionError'', ''IdempotencyConflictError''}
     then public PE_VALIDATION ''invalid memory operation'' False
     else if k \<in> {Some ''owner_access_denied'', Some ''forbidden''} \<or> c \<in> {''OwnerAccessError'', ''Forbidden''}
     then public PE_FORBIDDEN ''operation not permitted'' False
     else if e = AdapterNotFound \<or> c \<in> {''MemoryNotFound'', ''NotFound'', ''NotFoundError''}
     then public PE_NOT_FOUND ''memory not found'' False
     else if k = Some ''version_conflict'' \<or> e = AdapterVersionConflict \<or>
        c \<in> {''VersionConflict'', ''VersionConflictError'', ''OptimisticConcurrencyError''}
     then public PE_VERSION_CONFLICT ''memory version conflict'' False
     else if e = AdapterForbidden \<or> c \<in> {''Forbidden'', ''OwnerMismatch''}
     then public PE_FORBIDDEN ''operation not permitted'' False
     else if e = AdapterRateLimited
     then public PE_RATE_LIMITED ''rate limit exceeded'' True
     else if e = TimeoutExn \<or> e = ConnectionExn \<or> c \<in> {''DependencyUnavailable'', ''ServiceUnavailable''}
     then public PE_DEPENDENCY_UNAVAILABLE ''dependency unavailable'' True
     else public PE_INTERNAL ''internal error'' False)"

text \<open>The class name of a domain error, as \<open>error.__class__.__name__\<close> reads it.\<close>

fun error_class :: "error \<Rightarrow> string" where
  "error_class ValidationError = ''ValidationError''"
| "error_class NotFoundError = ''NotFoundError''"
| "error_class OwnerAccessError = ''OwnerAccessError''"
| "error_class InvalidStateTransitionError = ''InvalidStateTransitionError''"
| "error_class VersionConflictError = ''VersionConflictError''"
| "error_class IdempotencyConflictError = ''IdempotencyConflictError''"
| "error_class IdempotencyInProgressError = ''IdempotencyInProgressError''"
| "error_class ImportConflictError = ''ImportConflictError''"
| "error_class EmbeddingProfileMismatchError = ''EmbeddingProfileMismatchError''"
| "error_class RelationConflictError = ''RelationConflictError''"
| "error_class StorageError = ''StorageError''"
| "error_class ConsentRequiredError = ''ConsentRequiredError''"
| "error_class CaptureDisabledError = ''CaptureDisabledError''"
| "error_class ConnectionRevokedError = ''ConnectionRevokedError''"
| "error_class ScopeDeniedError = ''ScopeDeniedError''"
| "error_class SpaceForbiddenError = ''SpaceForbiddenError''"
| "error_class RestoreBlockedByTombstoneError = ''RestoreBlockedByTombstoneError''"
| "error_class PyValueError = ''ValueError''"
| "error_class PyKeyError = ''KeyError''"
| "error_class PyTypeError = ''TypeError''"
| "error_class PyRuntimeError = ''RuntimeError''"
| "error_class PyPermissionError = ''PermissionError''"

definition exn_of_error :: "error \<Rightarrow> string \<Rightarrow> exn" where
  "exn_of_error e text = OtherExn (error_class e) (error_code e) text"

section \<open>Rate limiters\<close>

record FixedRateLimiter =
  fx_maximum :: "int option"
  fx_calls :: int

definition fixed_allow :: "FixedRateLimiter \<Rightarrow> bool \<times> FixedRateLimiter" where
  "fixed_allow l = (case fx_maximum l of
     None \<Rightarrow> (True, l)
   | Some n \<Rightarrow> let l' = l\<lparr>fx_calls := fx_calls l + 1\<rparr> in (fx_calls l' \<le> n, l'))"

record TenantWindowRateLimiter =
  tw_maximum :: int
  tw_window_seconds :: pyfloat
  tw_calls :: "(string \<times> string, pyfloat list) dict"

definition window_init :: "int \<Rightarrow> pyfloat \<Rightarrow> TenantWindowRateLimiter result" where
  "window_init n w = (if n < 1 \<or> w \<le> 0 then Inl PyValueError
     else Inr \<lparr>tw_maximum = n, tw_window_seconds = w, tw_calls = []\<rparr>)"

text \<open>The deque of a key after \<open>setdefault\<close>, and the loop that pops the calls outside the window.\<close>

definition window_calls :: "TenantWindowRateLimiter \<Rightarrow> string \<times> string \<Rightarrow> pyfloat list" where
  "window_calls l k = (case dict_get (tw_calls l) k of None \<Rightarrow> [] | Some cs \<Rightarrow> cs)"

fun pop_expired :: "pyfloat \<Rightarrow> pyfloat list \<Rightarrow> pyfloat list" where
  "pop_expired limit [] = []"
| "pop_expired limit (c # cs) = (if c \<le> limit then pop_expired limit cs else c # cs)"

definition window_allow ::
  "TenantWindowRateLimiter \<Rightarrow> string \<Rightarrow> string option \<Rightarrow> pyfloat \<Rightarrow> bool \<times> TenantWindowRateLimiter" where
  "window_allow l tool tenant_key now = (case tenant_key of
     None \<Rightarrow> (True, l)
   | Some tk \<Rightarrow>
       let calls = pop_expired (fl (now - tw_window_seconds l)) (window_calls l (tk, tool)) in
       if int (length calls) \<ge> tw_maximum l
       then (False, l\<lparr>tw_calls := dict_set (tk, tool) calls (tw_calls l)\<rparr>)
       else (True, l\<lparr>tw_calls := dict_set (tk, tool) (calls @ [now]) (tw_calls l)\<rparr>))"

section \<open>call_tool\<close>

definition TOOLS :: "string list" where
  "TOOLS = [''memory.write'', ''memory.search'', ''memory.update'', ''memory.forget'']"

datatype reply =
    SuccessEnvelope string json
  | ErrorEnvelope string PublicErrorCode string bool

definition error_reply :: "string \<Rightarrow> PublicError \<Rightarrow> reply" where
  "error_reply rid e = ErrorEnvelope rid (pe_code e) (pe_message e) (pe_retryable e)"

text \<open>The \<open>except\<close> clauses around the dispatch; cancellation is not a reply and is left out.\<close>

definition reply_of_exn :: "string \<Rightarrow> exn \<Rightarrow> reply" where
  "reply_of_exn rid e = (case e of
     PydanticValidation \<Rightarrow> error_reply rid (public PE_VALIDATION ''invalid request'' False)
   | PublicExn p \<Rightarrow> error_reply rid p
   | TimeoutExn \<Rightarrow> error_reply rid (public PE_DEPENDENCY_UNAVAILABLE ''dependency unavailable'' True)
   | _ \<Rightarrow> error_reply rid (map_service_error e))"

definition call_tool ::
  "bool \<Rightarrow> ('l \<Rightarrow> string \<Rightarrow> string option \<Rightarrow> bool \<times> 'l) \<Rightarrow> (string \<Rightarrow> json \<Rightarrow> (exn, 'r) res) \<Rightarrow>
     (string \<Rightarrow> 'r \<Rightarrow> 's \<Rightarrow> (exn, json) res \<times> 's) \<Rightarrow> string \<Rightarrow> string \<Rightarrow> json \<Rightarrow> uuid option \<Rightarrow>
     'l \<Rightarrow> 's \<Rightarrow> reply \<times> 'l \<times> 's" where
  "call_tool local_mode allow parse dispatch rid name args tenant l s =
     (if name \<notin> set TOOLS then (error_reply rid (public PE_VALIDATION ''unknown tool'' False), l, s)
      else let (granted, l') = allow l name (map_option uuid_str tenant) in
        if \<not> granted then (error_reply rid (public PE_RATE_LIMITED ''rate limit exceeded'' True), l', s)
        else (case parse name args of
            Inl e \<Rightarrow> (reply_of_exn rid e, l', s)
          | Inr request \<Rightarrow>
              if \<not> local_mode
              then (reply_of_exn rid (PublicExn (public PE_FORBIDDEN ''local owner payload is not accepted'' False)), l', s)
              else (case dispatch name request s of
                  (Inl e, s') \<Rightarrow> (reply_of_exn rid e, l', s')
                | (Inr data, s') \<Rightarrow> (SuccessEnvelope rid data, l', s'))))"

section \<open>Search results\<close>

text \<open>
  \<open>_search_item\<close> on an item that is a mapping or an object, with the type of its validated record.
  \<open>si_profile_version\<close> is \<open>None\<close> when the item has no such entry and \<open>Some None\<close> when the entry is null.
\<close>

record SearchItemIn =
  si_type :: string
  si_score :: pyfloat
  si_reason :: "string option"
  si_profile_version :: "string option option"

record SearchResultOut =
  sr_score :: pyfloat
  sr_reason_retrieved :: string
  sr_profile_version :: string

definition mcp_reason :: "string \<Rightarrow> pyfloat \<Rightarrow> string" where
  "mcp_reason memory_type score =
     (if fl (7/10) \<le> score then ''Strong'' else if fl (35/100) \<le> score then ''Moderate'' else ''Weak'') @
     '' baseline relevance match for a '' @ memory_type @ '' memory; above the configured threshold.''"

definition mcp_search_item :: "string option \<Rightarrow> SearchItemIn \<Rightarrow> SearchResultOut" where
  "mcp_search_item profile_version item =
     (let bounded = max 0 (min 1 (si_score item));
          version = (case si_profile_version item of None \<Rightarrow> profile_version | Some v \<Rightarrow> v)
      in \<lparr>sr_score = bounded,
          sr_reason_retrieved = (if py_truthy (si_reason item) then the (si_reason item)
            else mcp_reason (si_type item) bounded),
          sr_profile_version = (if py_truthy version then the version else ''unknown'')\<rparr>)"

end
