(* ===== verification/Identity.thy ===== *)
theory Identity
  imports Cloud_Security
begin

text \<open>
  The hosted authentication boundary (\<open>omp/server/hosted_auth.py\<close>) and the synthetic authorization
  code flow (\<open>omp/server/identity_contracts.py\<close>).

  The credential verifier is an injected port: an argument that raises or returns the verified
  claims, if any. SHA-256 is an argument; the base64url text of its digest is written out.
\<close>

section \<open>Text helpers of the standard library\<close>

definition lower_char :: "char \<Rightarrow> char" where
  "lower_char c = (let n = (of_char c :: int) in
     if 65 \<le> n \<and> n \<le> 90 \<or> 192 \<le> n \<and> n \<le> 222 \<and> n \<noteq> 215 then char_of (n + 32) else c)"

definition py_lower :: "string \<Rightarrow> string" where
  "py_lower s = map lower_char s"

definition b64url_digit :: "int \<Rightarrow> char" where
  "b64url_digit n = (if n < 26 then char_of (65 + n) else if n < 52 then char_of (97 + (n - 26))
     else if n < 62 then char_of (48 + (n - 52)) else if n = 62 then CHR ''-'' else CHR ''_'')"

text \<open>\<open>base64.urlsafe_b64encode\<close> with the padding stripped.\<close>

fun b64url :: "bytes \<Rightarrow> string" where
  "b64url [] = []"
| "b64url [a] = (let x = (of_char a :: int) in [b64url_digit (x div 4), b64url_digit (x mod 4 * 16)])"
| "b64url [a, b] = (let x = (of_char a :: int); y = (of_char b :: int) in
     [b64url_digit (x div 4), b64url_digit (x mod 4 * 16 + y div 16), b64url_digit (y mod 16 * 4)])"
| "b64url (a # b # c # rest) = (let x = (of_char a :: int); y = (of_char b :: int); z = (of_char c :: int) in
     b64url_digit (x div 4) # b64url_digit (x mod 4 * 16 + y div 16) #
     b64url_digit (y mod 16 * 4 + z div 64) # b64url_digit (z mod 64) # b64url rest)"

section \<open>Hosted authentication\<close>

datatype hosted_error = HostedAuthenticationError string int | HostedValueError

record VerifiedCredential =
  vc_subject_id :: uuid
  vc_tenant_id :: uuid
  vc_membership_id :: uuid
  vc_credential_id :: uuid
  vc_scopes :: "string list"
  vc_auth_method :: string
  vc_issuer :: string
  vc_audience :: string
  vc_issued_at :: datetime
  vc_expires_at :: datetime
  vc_not_before :: "datetime option"
  vc_consent_id :: "uuid option"

record HostedPrincipal =
  hp_subject_id :: uuid
  hp_tenant_id :: uuid
  hp_membership_id :: uuid
  hp_scopes :: "string list"
  hp_auth_method :: string
  hp_credential_id :: uuid
  hp_issued_at :: datetime
  hp_expires_at :: datetime
  hp_consent_id :: "uuid option"
  hp_request_id :: string

record HostedAuthenticator =
  ha_verifier :: "string \<Rightarrow> (unit, VerifiedCredential option) res"
  ha_issuer :: string
  ha_audience :: string
  ha_clock :: datetime
  ha_request_id :: string

definition authenticator_init :: "HostedAuthenticator \<Rightarrow> (hosted_error, HostedAuthenticator) res" where
  "authenticator_init a = (if ha_issuer a = [] \<or> ha_audience a = [] then Inl HostedValueError else Inr a)"

definition aware_utc :: "datetime \<Rightarrow> (hosted_error, datetime) res" where
  "aware_utc d = (if \<not> dt_aware d then Inl HostedValueError else Inr (astimezone_utc d))"

definition bearer_credential :: "string option \<Rightarrow> (hosted_error, string) res" where
  "bearer_credential authorization = (case authorization of
     None \<Rightarrow> Inl (HostedAuthenticationError ''missing_credential'' 401)
   | Some a \<Rightarrow>
       let scheme = takeWhile (\<lambda>c. c \<noteq> CHR '' '') a;
           credential = drop 1 (dropWhile (\<lambda>c. c \<noteq> CHR '' '') a)
       in if py_lower scheme \<noteq> ''bearer'' \<or> CHR '' '' \<notin> set a \<or> credential = [] \<or>
             py_strip credential \<noteq> credential
          then Inl (HostedAuthenticationError ''invalid_credential'' 401)
          else Inr credential)"

definition invalid_credential :: hosted_error where
  "invalid_credential = HostedAuthenticationError ''invalid_credential'' 401"

definition as_invalid :: "(hosted_error, 'a) res \<Rightarrow> (hosted_error, 'a) res" where
  "as_invalid r = (case r of Inl e \<Rightarrow> Inl invalid_credential | Inr a \<Rightarrow> Inr a)"

definition optional_utc :: "datetime option \<Rightarrow> (hosted_error, datetime option) res" where
  "optional_utc d = (case d of None \<Rightarrow> Inr None | Some x \<Rightarrow> res_bind (aware_utc x) (\<lambda>y. Inr (Some y)))"

definition principal_from_verified ::
  "HostedAuthenticator \<Rightarrow> VerifiedCredential \<Rightarrow> string \<Rightarrow> (hosted_error, HostedPrincipal) res" where
  "principal_from_verified a v required_scope =
     res_bind (aware_utc (ha_clock a)) (\<lambda>now.
     res_bind (as_invalid (aware_utc (vc_issued_at v))) (\<lambda>issued.
     res_bind (as_invalid (aware_utc (vc_expires_at v))) (\<lambda>expires.
     res_bind (as_invalid (optional_utc (vc_not_before v))) (\<lambda>nbf.
     res_bind (res_guard (\<not> (vc_issuer v \<noteq> ha_issuer a \<or> vc_audience v \<noteq> ha_audience a \<or>
         dt_instant expires \<le> dt_instant now \<or> dt_instant now < dt_instant issued \<or>
         dt_instant expires \<le> dt_instant issued \<or>
         (case nbf of None \<Rightarrow> False | Some n \<Rightarrow> dt_instant now < dt_instant n))) invalid_credential) (\<lambda>_.
     res_bind (res_guard (vc_auth_method v \<in> {''oidc'', ''pat''} \<and> list_all (\<lambda>s. s \<noteq> []) (vc_scopes v))
       invalid_credential) (\<lambda>_.
     res_bind (res_guard (required_scope \<in> set (vc_scopes v))
       (HostedAuthenticationError ''insufficient_scope'' 403)) (\<lambda>_.
     Inr \<lparr>hp_subject_id = vc_subject_id v, hp_tenant_id = vc_tenant_id v,
          hp_membership_id = vc_membership_id v, hp_scopes = vc_scopes v,
          hp_auth_method = vc_auth_method v, hp_credential_id = vc_credential_id v,
          hp_issued_at = issued, hp_expires_at = expires, hp_consent_id = vc_consent_id v,
          hp_request_id = ha_request_id a\<rparr>)))))))"

definition authenticate ::
  "HostedAuthenticator \<Rightarrow> string option \<Rightarrow> string \<Rightarrow> (hosted_error, HostedPrincipal) res" where
  "authenticate a authorization required_scope =
     res_bind (bearer_credential authorization) (\<lambda>credential.
     case ha_verifier a credential of
       Inl _ \<Rightarrow> Inl invalid_credential
     | Inr None \<Rightarrow> Inl invalid_credential
     | Inr (Some v) \<Rightarrow> principal_from_verified a v required_scope)"

section \<open>The authorization code flow\<close>

datatype identity_error = IdentityContractError string | IdentityValueError | IdentityTypeError | IdentityKeyError

record AuthorizationRequest =
  ar_client_id :: string
  ar_redirect_uri :: string
  ar_scope :: "string set"
  ar_state :: string
  ar_code_challenge :: string
  ar_code_challenge_method :: string

record ConsentRecord =
  cr_consent_id :: uuid
  cr_subject_id :: uuid
  cr_client_id :: string
  cr_scopes :: "string set"
  cr_policy_version :: string
  cr_version :: int
  cr_granted_at :: datetime
  cr_connection_id :: uuid

record RevocationEvent =
  re_credential_id :: uuid
  re_connection_id :: uuid
  re_revoked_at :: datetime
  re_reason :: string

record SyntheticIdentityFlow =
  allowed_redirect_uris :: "string set"
  flow_now :: datetime
  codes :: "(string, AuthorizationRequest \<times> string) dict"
  consents :: "(uuid, ConsentRecord) dict"
  revoked_credentials :: "uuid set"
  revoked_connections :: "uuid set"

definition flow_init :: "string set \<Rightarrow> datetime \<Rightarrow> SyntheticIdentityFlow" where
  "flow_init uris now = \<lparr>allowed_redirect_uris = uris, flow_now = now, codes = [], consents = [],
     revoked_credentials = {}, revoked_connections = {}\<rparr>"

type_synonym 'a flow = "(SyntheticIdentityFlow, identity_error, 'a) act"

text \<open>\<open>token\<close> is the text drawn by \<open>secrets.token_hex(8)\<close>.\<close>

definition flow_authorize :: "string \<Rightarrow> AuthorizationRequest \<Rightarrow> ConsentRecord \<Rightarrow> string flow" where
  "flow_authorize token request consent =
     act_bind (act_getr (\<lambda>s. res_guard (ar_redirect_uri request \<in> allowed_redirect_uris s)
       (IdentityContractError ''invalid_redirect_uri''))) (\<lambda>_.
     act_bind (act_guard (ar_code_challenge_method request = ''S256'' \<and> ar_code_challenge request \<noteq> [])
       (IdentityContractError ''pkce_required'')) (\<lambda>_.
     act_bind (act_guard (ar_scope request = cr_scopes consent \<and> ar_client_id request = cr_client_id consent)
       (IdentityContractError ''consent_mismatch'')) (\<lambda>_.
     act_bind (act_modify (\<lambda>s. s\<lparr>consents := dict_set (cr_consent_id consent) consent (consents s)\<rparr>)) (\<lambda>_.
     let code = ''synthetic-code-'' @ token in
     act_bind (act_modify (\<lambda>s. s\<lparr>codes := dict_set code (request, uuid_str (cr_consent_id consent)) (codes s)\<rparr>)) (\<lambda>_.
     act_return code)))))"

definition s256_challenge :: "(bytes \<Rightarrow> bytes) \<Rightarrow> string \<Rightarrow> (identity_error, string) res" where
  "s256_challenge sha verifier =
     (if list_all ascii_char verifier then Inr (b64url (sha verifier)) else Inl IdentityValueError)"

definition check_challenge :: "string \<Rightarrow> string \<Rightarrow> (identity_error, unit) res" where
  "check_challenge expected challenge =
     (if \<not> list_all ascii_char challenge then Inl IdentityTypeError
      else res_guard (expected = challenge) (IdentityContractError ''pkce_verification_failed''))"

definition flow_redeem_code :: "(bytes \<Rightarrow> bytes) \<Rightarrow> string \<Rightarrow> string \<Rightarrow> ConsentRecord flow" where
  "flow_redeem_code sha code verifier =
     act_bind (act_gets (\<lambda>s. dict_get (codes s) code)) (\<lambda>entry.
     act_bind (act_modify (\<lambda>s. s\<lparr>codes := dict_pop code (codes s)\<rparr>)) (\<lambda>_.
     case entry of
       None \<Rightarrow> act_raise (IdentityContractError ''invalid_or_reused_code'')
     | Some (request, consent_id) \<Rightarrow>
         act_bind (act_res (s256_challenge sha verifier)) (\<lambda>expected.
         act_bind (act_res (check_challenge expected (ar_code_challenge request))) (\<lambda>_.
         case uuid_parse consent_id of
           None \<Rightarrow> act_raise IdentityValueError
         | Some cid \<Rightarrow> act_getr (\<lambda>s. case dict_get (consents s) cid of
             None \<Rightarrow> Inl IdentityKeyError | Some c \<Rightarrow> Inr c)))))"

definition flow_revoke :: "uuid \<Rightarrow> uuid \<Rightarrow> string \<Rightarrow> RevocationEvent flow" where
  "flow_revoke credential connection reason =
     act_bind (act_modify (\<lambda>s. s\<lparr>revoked_credentials := insert credential (revoked_credentials s)\<rparr>)) (\<lambda>_.
     act_bind (act_modify (\<lambda>s. s\<lparr>revoked_connections := insert connection (revoked_connections s)\<rparr>)) (\<lambda>_.
     act_gets (\<lambda>s. \<lparr>re_credential_id = credential, re_connection_id = connection,
       re_revoked_at = flow_now s, re_reason = reason\<rparr>)))"

definition flow_is_revoked :: "uuid \<Rightarrow> uuid \<Rightarrow> SyntheticIdentityFlow \<Rightarrow> bool" where
  "flow_is_revoked credential connection s \<longleftrightarrow>
     credential \<in> revoked_credentials s \<or> connection \<in> revoked_connections s"

text \<open>\<open>new_id\<close> and \<open>now\<close> are what \<open>uuid4()\<close> and the clock return.\<close>

definition flow_consent ::
  "uuid \<Rightarrow> datetime \<Rightarrow> uuid \<Rightarrow> string \<Rightarrow> string set \<Rightarrow> uuid \<Rightarrow> ConsentRecord" where
  "flow_consent new_id now subject client scopes connection =
     \<lparr>cr_consent_id = new_id, cr_subject_id = subject, cr_client_id = client, cr_scopes = scopes,
      cr_policy_version = ''synthetic-policy-v1'', cr_version = 1, cr_granted_at = now,
      cr_connection_id = connection\<rparr>"

end
