(* ===== verification/Identity_Properties.thy ===== *)
theory Identity_Properties
  imports Identity
begin

text \<open>
  The hosted boundary accepts exactly the credentials it should, and an authorization code is
  redeemed at most once, by the holder of the code verifier, for the consent it was issued for.
\<close>

section \<open>Authentication\<close>

definition credential_acceptable :: "HostedAuthenticator \<Rightarrow> VerifiedCredential \<Rightarrow> bool" where
  "credential_acceptable a v \<longleftrightarrow>
     vc_issuer v = ha_issuer a \<and> vc_audience v = ha_audience a \<and>
     dt_aware (vc_issued_at v) \<and> dt_aware (vc_expires_at v) \<and>
     (case vc_not_before v of None \<Rightarrow> True
      | Some n \<Rightarrow> dt_aware n \<and> dt_instant n \<le> dt_instant (ha_clock a)) \<and>
     dt_instant (vc_issued_at v) \<le> dt_instant (ha_clock a) \<and>
     dt_instant (ha_clock a) < dt_instant (vc_expires_at v) \<and>
     vc_auth_method v \<in> {''oidc'', ''pat''} \<and> [] \<notin> set (vc_scopes v)"

lemma aware_utc_Inr: "aware_utc d = Inr u \<longleftrightarrow> dt_aware d \<and> u = astimezone_utc d"
  by (auto simp: aware_utc_def)

lemma as_invalid_Inr: "as_invalid r = Inr a \<longleftrightarrow> r = Inr a"
  by (cases r) (simp_all add: as_invalid_def)

lemma optional_utc_Inr:
  "optional_utc d = Inr u \<longleftrightarrow> (\<forall>x. d = Some x \<longrightarrow> dt_aware x) \<and> u = map_option astimezone_utc d"
  by (cases d) (auto simp: optional_utc_def act_simps aware_utc_Inr)

definition hosted_principal :: "HostedAuthenticator \<Rightarrow> VerifiedCredential \<Rightarrow> HostedPrincipal" where
  "hosted_principal a v = \<lparr>hp_subject_id = vc_subject_id v, hp_tenant_id = vc_tenant_id v,
          hp_membership_id = vc_membership_id v, hp_scopes = vc_scopes v,
          hp_auth_method = vc_auth_method v, hp_credential_id = vc_credential_id v,
          hp_issued_at = astimezone_utc (vc_issued_at v), hp_expires_at = astimezone_utc (vc_expires_at v),
          hp_consent_id = vc_consent_id v, hp_request_id = ha_request_id a\<rparr>"

lemma principal_from_verified_Inr:
  assumes "dt_aware (ha_clock a)"
  shows "principal_from_verified a v sc = Inr p \<longleftrightarrow>
     credential_acceptable a v \<and> sc \<in> set (vc_scopes v) \<and> p = hosted_principal a v"
  using assms
  by (cases "vc_not_before v")
     (auto simp: principal_from_verified_def act_simps aware_utc_Inr as_invalid_Inr optional_utc_Inr
       credential_acceptable_def hosted_principal_def list_all_iff)


definition ex_credential :: VerifiedCredential where
  "ex_credential = \<lparr>vc_subject_id = 1, vc_tenant_id = 2, vc_membership_id = 3, vc_credential_id = 4,
     vc_scopes = [''memory:read''], vc_auth_method = ''oidc'', vc_issuer = ''iss'', vc_audience = ''aud'',
     vc_issued_at = \<lparr>dt_local = 0, dt_offset = Some 0\<rparr>, vc_expires_at = \<lparr>dt_local = 100, dt_offset = Some 0\<rparr>,
     vc_not_before = None, vc_consent_id = None\<rparr>"

definition ex_authenticator :: HostedAuthenticator where
  "ex_authenticator = \<lparr>ha_verifier = (\<lambda>c. if c = ''tok'' then Inr (Some ex_credential) else Inr None),
     ha_issuer = ''iss'', ha_audience = ''aud'', ha_clock = \<lparr>dt_local = 50, dt_offset = Some 0\<rparr>,
     ha_request_id = ''req_1''\<rparr>"


section \<open>Authorization codes\<close>

text \<open>
  Steps of the flow in which the code \<open>c\<close> is not drawn again and a consent identifier always
  stands for the same consent, as \<open>secrets.token_hex\<close> and \<open>uuid4\<close> are used for.
\<close>

inductive flow_step :: "(bytes \<Rightarrow> bytes) \<Rightarrow> string \<Rightarrow> SyntheticIdentityFlow \<Rightarrow> SyntheticIdentityFlow \<Rightarrow> bool"
  for sha c where
  fs_authorize: "flow_authorize token request consent s = (r, t) \<Longrightarrow> ''synthetic-code-'' @ token \<noteq> c \<Longrightarrow>
     dict_get (consents s) (cr_consent_id consent) \<in> {None, Some consent} \<Longrightarrow> flow_step sha c s t"
| fs_redeem: "flow_redeem_code sha code verifier s = (r', t) \<Longrightarrow> flow_step sha c s t"
| fs_revoke: "flow_revoke credential connection reason s = (r'', t) \<Longrightarrow> flow_step sha c s t"

definition authorized :: "SyntheticIdentityFlow \<Rightarrow> AuthorizationRequest \<Rightarrow> ConsentRecord \<Rightarrow> bool" where
  "authorized s request consent \<longleftrightarrow> ar_redirect_uri request \<in> allowed_redirect_uris s \<and>
     ar_code_challenge_method request = ''S256'' \<and> ar_code_challenge request \<noteq> [] \<and>
     ar_scope request = cr_scopes consent \<and> ar_client_id request = cr_client_id consent"

lemma flow_authorize_Inr:
  "flow_authorize token request consent s = (Inr code, t) \<longleftrightarrow>
     authorized s request consent \<and> code = ''synthetic-code-'' @ token \<and>
     t = s\<lparr>consents := dict_set (cr_consent_id consent) consent (consents s),
           codes := dict_set code (request, uuid_str (cr_consent_id consent)) (codes s)\<rparr>"
  by (auto simp: flow_authorize_def act_simps Let_def authorized_def)

lemma flow_authorize_Inl: "flow_authorize token request consent s = (Inl e, t) \<Longrightarrow> t = s"
  by (auto simp: flow_authorize_def act_bind_def act_run Let_def split: prod.splits sum.splits)

lemma flow_redeem_state: "flow_redeem_code sha code verifier s = (r, t) \<Longrightarrow> t = s\<lparr>codes := dict_pop code (codes s)\<rparr>"
  by (auto simp: flow_redeem_code_def act_bind_def act_run split: prod.splits sum.splits option.splits)

lemma flow_redeem_Inr:
  "flow_redeem_code sha code verifier s = (Inr c, t) \<Longrightarrow>
     \<exists>request cid. dict_get (codes s) code = Some (request, cid) \<and> list_all ascii_char verifier \<and>
       ar_code_challenge request = b64url (sha verifier) \<and>
       (\<exists>u. uuid_parse cid = Some u \<and> dict_get (consents s) u = Some c)"
  by (auto simp: flow_redeem_code_def act_simps s256_challenge_def check_challenge_def
      split: option.splits if_splits)

lemma flow_revoke_state:
  "flow_revoke credential connection reason s = (r, t) \<Longrightarrow>
     t = s\<lparr>revoked_credentials := insert credential (revoked_credentials s),
           revoked_connections := insert connection (revoked_connections s)\<rparr>"
  by (auto simp: flow_revoke_def act_bind_def act_run)

text \<open>A code stays spent, and an unspent code keeps its request and consent.\<close>

lemma flow_step_spent: "flow_step sha c s t \<Longrightarrow> dict_get (codes s) c = None \<Longrightarrow> dict_get (codes t) c = None"
proof (induction rule: flow_step.induct)
  case (fs_authorize token request consent s r t)
  then show ?case
    by (cases r) (auto simp: flow_authorize_Inr update_conv' dest: flow_authorize_Inl)
qed (auto simp: delete_conv' dest!: flow_redeem_state flow_revoke_state)

definition code_bound :: "SyntheticIdentityFlow \<Rightarrow> string \<Rightarrow> AuthorizationRequest \<Rightarrow> ConsentRecord \<Rightarrow> bool" where
  "code_bound s c request consent \<longleftrightarrow>
     (\<forall>e. dict_get (codes s) c = Some e \<longrightarrow> e = (request, uuid_str (cr_consent_id consent))) \<and>
     dict_get (consents s) (cr_consent_id consent) = Some consent"

lemma flow_step_bound: "flow_step sha c s t \<Longrightarrow> code_bound s c request consent \<Longrightarrow> code_bound t c request consent"
proof (induction rule: flow_step.induct)
  case (fs_authorize token request' consent' s r t)
  then show ?case
    by (cases r) (auto simp: code_bound_def flow_authorize_Inr update_conv' dest: flow_authorize_Inl)
qed (auto simp: code_bound_def delete_conv' dest!: flow_redeem_state flow_revoke_state split: if_splits)

lemma flow_steps_spent: "(flow_step sha c)\<^sup>*\<^sup>* s t \<Longrightarrow> dict_get (codes s) c = None \<Longrightarrow> dict_get (codes t) c = None"
  by (induction rule: rtranclp_induct) (auto intro: flow_step_spent)

lemma flow_steps_bound:
  "(flow_step sha c)\<^sup>*\<^sup>* s t \<Longrightarrow> code_bound s c request consent \<Longrightarrow> code_bound t c request consent"
  by (induction rule: rtranclp_induct) (auto intro: flow_step_bound)

text \<open>An authorization code can be redeemed at most once and only for what was consented. After
  \<open>authorize\<close> has issued a code and any other calls have happened, redeeming it successfully needs the
  verifier whose S256 challenge the request carried, and returns the very consent that was given, with
  the client and scopes of the request; and after one attempt to redeem it, successful or not, every
  later attempt is refused.\<close>

theorem code_redeemed_once:
  assumes "flow_authorize token request consent s = (Inr code, t)" "(flow_step sha code)\<^sup>*\<^sup>* t u"
    and "flow_redeem_code sha code verifier u = (r, u')" "(flow_step sha code)\<^sup>*\<^sup>* u' v"
  shows "(\<forall>c. r = Inr c \<longrightarrow> c = consent \<and> ar_code_challenge request = b64url (sha verifier) \<and>
      cr_scopes c = ar_scope request \<and> cr_client_id c = ar_client_id request \<and>
      ar_redirect_uri request \<in> allowed_redirect_uris s) \<and>
    fst (flow_redeem_code sha code verifier' v) = Inl (IdentityContractError ''invalid_or_reused_code'')"
proof -
  have auth: "authorized s request consent" and t: "code_bound t code request consent"
    using assms(1) by (auto simp: flow_authorize_Inr code_bound_def update_conv')
  from flow_steps_bound [OF assms(2) t] have u: "code_bound u code request consent" .
  have "c = consent \<and> ar_code_challenge request = b64url (sha verifier)" if "r = Inr c" for c
    using flow_redeem_Inr [OF assms(3) [unfolded that]] u by (auto simp: code_bound_def)
  moreover have "dict_get (codes u') code = None"
    using flow_redeem_state [OF assms(3)] by (simp add: delete_conv')
  from flow_steps_spent [OF assms(4) this]
  have "fst (flow_redeem_code sha code verifier' v) = Inl (IdentityContractError ''invalid_or_reused_code'')"
    by (simp add: flow_redeem_code_def act_bind_def act_run)
  ultimately show ?thesis using auth by (auto simp: authorized_def)
qed

definition ex_flow :: SyntheticIdentityFlow where
  "ex_flow = \<lparr>allowed_redirect_uris = {''https://app''}, flow_now = \<lparr>dt_local = 0, dt_offset = Some 0\<rparr>,
     codes = [], consents = [], revoked_credentials = {}, revoked_connections = {}\<rparr>"

definition ex_sha :: "bytes \<Rightarrow> bytes" where
  "ex_sha b = take 3 (b @ ''xyz'')"

definition ex_request :: AuthorizationRequest where
  "ex_request = \<lparr>ar_client_id = ''cli'', ar_redirect_uri = ''https://app'', ar_scope = {''memory:read''},
     ar_state = ''s'', ar_code_challenge = b64url (ex_sha ''verifier''), ar_code_challenge_method = ''S256''\<rparr>"

definition ex_consent :: ConsentRecord where
  "ex_consent = \<lparr>cr_consent_id = 11, cr_subject_id = 12, cr_client_id = ''cli'', cr_scopes = {''memory:read''},
     cr_policy_version = ''synthetic-policy-v1'', cr_version = 1,
     cr_granted_at = \<lparr>dt_local = 0, dt_offset = Some 0\<rparr>, cr_connection_id = 13\<rparr>"

theorem code_redeemed_once_witness:
  "\<exists>code t r u'. flow_authorize ''00'' ex_request ex_consent ex_flow = (Inr code, t) \<and>
     flow_redeem_code ex_sha code ''verifier'' t = (r, u') \<and>
     fst (flow_redeem_code ex_sha code ''verifier'' u') = Inl (IdentityContractError ''invalid_or_reused_code'')"
proof -
  have "b64url (ex_sha ''verifier'') \<noteq> []" by code_simp
  then have "\<exists>t. flow_authorize ''00'' ex_request ex_consent ex_flow = (Inr (''synthetic-code-'' @ ''00''), t)"
    by (simp add: flow_authorize_Inr authorized_def ex_request_def ex_consent_def ex_flow_def)
  then obtain t where t: "flow_authorize ''00'' ex_request ex_consent ex_flow = (Inr (''synthetic-code-'' @ ''00''), t)" by blast
  obtain r u' where r: "flow_redeem_code ex_sha (''synthetic-code-'' @ ''00'') ''verifier'' t = (r, u')" by (metis prod.exhaust)
  from code_redeemed_once [OF t rtranclp.rtrancl_refl r rtranclp.rtrancl_refl, of "''verifier''"] t r
  show ?thesis by blast
qed

end
