(* ===== verification/Reembedding.thy ===== *)
theory Reembedding
  imports App_Models Encrypted_Memory
begin

text \<open>
  The resumable re-embedding job of \<open>omp/application/reembedding.py\<close> over the repository methods it
  calls (\<open>omp/adapters/postgres/repository.py\<close>: \<open>list_for_reembedding\<close>, \<open>upsert_embedding_profile\<close>,
  \<open>semantic_coverage\<close> and \<open>cutover_embedding_profile\<close>).

  The two tables are lists of rows; a query is the filter, order and limit it states. A unit of work
  commits when its block ends and rolls back when it raises. The embedding provider is an
  argument: a profile and a function that raises or returns a vector. The \<open>while\<close> loop of the job
  runs on fuel, and the properties show how much is enough.
\<close>

section \<open>Tables\<close>

record MemoryRow =
  mr_id :: uuid
  mr_owner_id :: string
  mr_tenant_id :: "uuid option"
  mr_version :: int
  mr_content :: string
  mr_embedding_dimension :: int
  mr_profile_id :: string
  mr_profile_version :: string
  mr_metric :: string

record SemanticRow =
  sx_source_version :: int
  sx_tenant_id :: "uuid option"
  sx_dimension :: int
  sx_metric :: string
  sx_vector :: "pyfloat list"

text \<open>
  \<open>mr_content\<close> is the content as \<open>_memory_from_row\<close> returns it. The upsert keeps the tenant of a row
  it conflicts with. The semantic table is keyed by memory, profile and profile version, its conflict target.
\<close>

record SemanticTables =
  mem_rows :: "MemoryRow list"
  sem_rows :: "(uuid \<times> string \<times> string, SemanticRow) dict"

datatype reembed_error = RE_ValidationError | RE_ValueError | RE_TenantContextError | RE_RuntimeError

type_synonym 'a ract = "(SemanticTables, reembed_error, 'a) act"

section \<open>Repository\<close>

definition owner_tenant :: "string \<Rightarrow> (reembed_error, uuid) res" where
  "owner_tenant owner = (case cloud_tenant owner of Inl e \<Rightarrow> Inl RE_TenantContextError | Inr t \<Rightarrow> Inr t)"

definition assert_owner_tenant :: "uuid option \<Rightarrow> string \<Rightarrow> (reembed_error, uuid option) res" where
  "assert_owner_tenant ctx owner = (case ctx of
     None \<Rightarrow> Inr None
   | Some t \<Rightarrow> res_bind (owner_tenant owner) (\<lambda>u.
       res_bind (res_guard (u = t) RE_TenantContextError) (\<lambda>_. Inr (Some t))))"

definition semantic_eligible :: "uuid option \<Rightarrow> string \<Rightarrow> MemoryRow \<Rightarrow> bool" where
  "semantic_eligible bound owner r \<longleftrightarrow> mr_owner_id r = owner \<and> mr_embedding_dimension r = 64 \<and>
     (bound \<noteq> None \<longrightarrow> mr_tenant_id r = bound)"

definition list_for_reembedding :: "uuid option \<Rightarrow> string \<Rightarrow> uuid option \<Rightarrow> int \<Rightarrow> MemoryRow list ract" where
  "list_for_reembedding ctx owner after limit =
     act_bind (act_res (assert_owner_tenant ctx owner)) (\<lambda>bound.
     act_gets (\<lambda>s. take (nat limit) (sort_key mr_id (filter
       (\<lambda>r. semantic_eligible bound owner r \<and> (case after of None \<Rightarrow> True | Some c \<Rightarrow> c < mr_id r)) (mem_rows s)))))"

definition upsert_embedding_profile ::
  "uuid option \<Rightarrow> uuid \<Rightarrow> int \<Rightarrow> EmbeddingProfile \<Rightarrow> pyfloat list \<Rightarrow> bool ract" where
  "upsert_embedding_profile ctx mid version profile vec =
     act_bind (act_guard (ep_dimension profile = 384) RE_ValueError) (\<lambda>_.
     act_bind (act_gets (\<lambda>s. find (\<lambda>r. mr_id r = mid \<and> mr_version r = version \<and>
         (ctx \<noteq> None \<longrightarrow> mr_tenant_id r = ctx)) (mem_rows s))) (\<lambda>current.
     case current of
       None \<Rightarrow> act_return False
     | Some _ \<Rightarrow>
         act_bind (act_modify (\<lambda>s. let key = (mid, ep_id profile, ep_version profile) in
           s\<lparr>sem_rows := dict_set key
             \<lparr>sx_source_version = version,
              sx_tenant_id = (case dict_get (sem_rows s) key of None \<Rightarrow> ctx | Some old \<Rightarrow> sx_tenant_id old),
              sx_dimension = ep_dimension profile, sx_metric = ep_metric profile, sx_vector = vec\<rparr> (sem_rows s)\<rparr>)) (\<lambda>_.
         act_return True)))"

definition semantic_covered :: "EmbeddingProfile \<Rightarrow> SemanticTables \<Rightarrow> MemoryRow \<Rightarrow> bool" where
  "semantic_covered profile s r = (case dict_get (sem_rows s) (mr_id r, ep_id profile, ep_version profile) of
     None \<Rightarrow> False | Some x \<Rightarrow> sx_source_version x = mr_version r)"

definition semantic_coverage :: "uuid option \<Rightarrow> string \<Rightarrow> EmbeddingProfile \<Rightarrow> (int \<times> int) ract" where
  "semantic_coverage ctx owner profile =
     act_bind (act_res (assert_owner_tenant ctx owner)) (\<lambda>bound.
     act_gets (\<lambda>s. let rows = filter (semantic_eligible bound owner) (mem_rows s) in
       (int (length rows), int (length (filter (semantic_covered profile s) rows)))))"

definition cutover_embedding_profile :: "uuid option \<Rightarrow> string \<Rightarrow> EmbeddingProfile \<Rightarrow> int ract" where
  "cutover_embedding_profile ctx owner profile =
     act_bind (act_res (assert_owner_tenant ctx owner)) (\<lambda>bound.
     act_bind (semantic_coverage ctx owner profile) (\<lambda>(eligible, covered).
     act_bind (act_guard (eligible = covered) RE_RuntimeError) (\<lambda>_.
     act_bind (act_gets (\<lambda>s. int (length (filter (semantic_eligible bound owner) (mem_rows s))))) (\<lambda>n.
     act_bind (act_modify (\<lambda>s. s\<lparr>mem_rows := map (\<lambda>r. if semantic_eligible bound owner r
         then r\<lparr>mr_profile_id := ep_id profile, mr_profile_version := ep_version profile,
                mr_embedding_dimension := ep_dimension profile, mr_metric := ep_metric profile\<rparr>
         else r) (mem_rows s)\<rparr>)) (\<lambda>_.
     act_return n)))))"

section \<open>The job\<close>

record EmbeddingProviderPort =
  pv_profile :: EmbeddingProfile
  pv_embed :: "string \<Rightarrow> (unit, pyfloat list) res"

record ReembedCounts =
  rc_eligible :: int
  rc_completed :: int
  rc_stale :: int
  rc_failed :: int

text \<open>One candidate: embed, check the dimension, upsert; any exception counts as a failure.\<close>

definition reembed_one ::
  "EmbeddingProviderPort \<Rightarrow> uuid option \<Rightarrow> MemoryRow \<Rightarrow> ReembedCounts \<times> SemanticTables \<Rightarrow>
     ReembedCounts \<times> SemanticTables" where
  "reembed_one p ctx r cs = (let (c, s) = cs in
     case pv_embed p (mr_content r) of
       Inl _ \<Rightarrow> (c\<lparr>rc_failed := rc_failed c + 1\<rparr>, s)
     | Inr vec \<Rightarrow>
         if int (length vec) \<noteq> ep_dimension (pv_profile p) then (c\<lparr>rc_failed := rc_failed c + 1\<rparr>, s)
         else (case upsert_embedding_profile ctx (mr_id r) (mr_version r) (pv_profile p) vec s of
             (Inl e, s') \<Rightarrow> (c\<lparr>rc_failed := rc_failed c + 1\<rparr>, s')
           | (Inr kept, s') \<Rightarrow>
               (if kept then c\<lparr>rc_completed := rc_completed c + 1\<rparr> else c\<lparr>rc_stale := rc_stale c + 1\<rparr>, s')))"

definition reembed_batch ::
  "EmbeddingProviderPort \<Rightarrow> uuid option \<Rightarrow> bool \<Rightarrow> MemoryRow list \<Rightarrow> ReembedCounts \<times> SemanticTables \<Rightarrow>
     ReembedCounts \<times> SemanticTables" where
  "reembed_batch p ctx dry_run candidates cs =
     (let (c, s) = cs; c1 = c\<lparr>rc_eligible := rc_eligible c + int (length candidates)\<rparr>
      in if dry_run then (c1, s) else fold (reembed_one p ctx) candidates (c1, s))"

fun reembed_loop ::
  "nat \<Rightarrow> EmbeddingProviderPort \<Rightarrow> uuid option \<Rightarrow> string \<Rightarrow> int \<Rightarrow> bool \<Rightarrow> uuid option \<Rightarrow>
     ReembedCounts \<times> SemanticTables \<Rightarrow>
     ((reembed_error, ReembedCounts \<times> uuid option) res \<times> SemanticTables) option" where
  "reembed_loop 0 p ctx owner batch dry cursor cs = None"
| "reembed_loop (Suc fuel) p ctx owner batch dry cursor cs =
     (case list_for_reembedding ctx owner cursor batch (snd cs) of
        (Inl e, s) \<Rightarrow> Some (Inl e, s)
      | (Inr candidates, s) \<Rightarrow>
          if candidates = [] then Some (Inr (fst cs, cursor), s)
          else let cs1 = reembed_batch p ctx dry candidates (fst cs, s);
                   cursor1 = Some (mr_id (last candidates))
               in if int (length candidates) < batch then Some (Inr (fst cs1, cursor1), snd cs1)
                  else reembed_loop fuel p ctx owner batch dry cursor1 cs1)"

record ReembeddingReport =
  rp_owner_id :: string
  rp_profile_id :: string
  rp_profile_version :: string
  rp_dry_run :: bool
  rp_cutover :: bool
  rp_eligible :: int
  rp_completed :: int
  rp_stale :: int
  rp_failed :: int
  rp_last_memory_id :: "uuid option"
  rp_activated :: int

definition reembed_finish ::
  "EmbeddingProviderPort \<Rightarrow> uuid option \<Rightarrow> string \<Rightarrow> bool \<Rightarrow> bool \<Rightarrow> ReembedCounts \<Rightarrow> uuid option \<Rightarrow>
     ReembeddingReport ract" where
  "reembed_finish p ctx owner dry cutover c cursor =
     act_bind (if cutover \<and> \<not> dry then act_atomic (cutover_embedding_profile ctx owner (pv_profile p))
               else act_return 0) (\<lambda>activated.
     act_bind (act_atomic (semantic_coverage ctx owner (pv_profile p))) (\<lambda>(total, covered).
     act_return \<lparr>rp_owner_id = owner, rp_profile_id = ep_id (pv_profile p),
       rp_profile_version = ep_version (pv_profile p), rp_dry_run = dry, rp_cutover = cutover,
       rp_eligible = (if dry then total else rc_eligible c), rp_completed = rc_completed c,
       rp_stale = rc_stale c, rp_failed = rc_failed c, rp_last_memory_id = cursor,
       rp_activated = activated\<rparr>))"

definition reembed_run ::
  "nat \<Rightarrow> EmbeddingProviderPort \<Rightarrow> uuid option \<Rightarrow> string \<Rightarrow> int \<Rightarrow> uuid option \<Rightarrow> bool \<Rightarrow> bool \<Rightarrow>
     SemanticTables \<Rightarrow> ((reembed_error, ReembeddingReport) res \<times> SemanticTables) option" where
  "reembed_run fuel p ctx owner batch resume dry cutover s =
     (case validate_owner_id owner of
        Inl e \<Rightarrow> Some (Inl RE_ValidationError, s)
      | Inr _ \<Rightarrow>
          if \<not> (1 \<le> batch \<and> batch \<le> 1000) then Some (Inl RE_ValueError, s)
          else if ep_dimension (pv_profile p) \<noteq> 384 then Some (Inl RE_ValueError, s)
          else (case reembed_loop fuel p ctx owner batch dry resume
                  (\<lparr>rc_eligible = 0, rc_completed = 0, rc_stale = 0, rc_failed = 0\<rparr>, s) of
              None \<Rightarrow> None
            | Some (Inl e, t) \<Rightarrow> Some (Inl e, t)
            | Some (Inr (c, cursor), t) \<Rightarrow> Some (reembed_finish p ctx owner dry cutover c cursor t)))"

end
