(* ===== verification/Reembedding_Properties.thy ===== *)
theory Reembedding_Properties
  imports Reembedding
begin

text \<open>
  The batched, cursor-driven loop of the re-embedding job ends and does exactly what one pass over the
  eligible memories in identifier order would do, whatever the batch size; its counters add up; and a
  full run with cutover leaves every memory of the owner on the new profile with a vector of its
  current version.
\<close>

section \<open>Pages\<close>

definition after_cursor :: "uuid option \<Rightarrow> MemoryRow \<Rightarrow> bool" where
  "after_cursor cursor r = (case cursor of None \<Rightarrow> True | Some c \<Rightarrow> c < mr_id r)"

definition eligible_rows :: "uuid option \<Rightarrow> string \<Rightarrow> uuid option \<Rightarrow> SemanticTables \<Rightarrow> MemoryRow list" where
  "eligible_rows ctx owner cursor s =
     sort_key mr_id (filter (\<lambda>r. semantic_eligible ctx owner r \<and> after_cursor cursor r) (mem_rows s))"

definition tenant_bound :: "uuid option \<Rightarrow> string \<Rightarrow> bool" where
  "tenant_bound ctx owner \<longleftrightarrow> (case ctx of None \<Rightarrow> True | Some t \<Rightarrow> cloud_tenant owner = Inr t)"

definition rows_ok :: "SemanticTables \<Rightarrow> bool" where
  "rows_ok s \<longleftrightarrow> distinct (map mr_id (mem_rows s))"

lemma assert_owner_tenant_bound: "tenant_bound ctx owner \<Longrightarrow> assert_owner_tenant ctx owner = Inr ctx"
  by (auto simp: tenant_bound_def assert_owner_tenant_def owner_tenant_def split: option.splits)

lemma list_for_reembedding_page:
  "tenant_bound ctx owner \<Longrightarrow>
     list_for_reembedding ctx owner cursor n s = (Inr (take (nat n) (eligible_rows ctx owner cursor s)), s)"
  by (simp add: list_for_reembedding_def act_bind_def act_run assert_owner_tenant_bound eligible_rows_def
      after_cursor_def)

lemma sort_key_filter: "filter P (sort_key f xs) = sort_key f (filter P xs)"
  by (rule filter_sort)

lemma eligible_rows_sorted:
  assumes "rows_ok s"
  shows "sorted_wrt (<) (map mr_id (eligible_rows ctx owner cursor s))"
proof -
  let ?f = "filter (\<lambda>r. semantic_eligible ctx owner r \<and> after_cursor cursor r) (mem_rows s)"
  have "distinct (map mr_id ?f)" using assms by (simp add: rows_ok_def distinct_map_filter)
  then have "distinct (map mr_id (eligible_rows ctx owner cursor s))"
    by (simp add: eligible_rows_def distinct_map)
  moreover have "sorted (map mr_id (eligible_rows ctx owner cursor s))"
    by (simp add: eligible_rows_def)
  ultimately show ?thesis by (simp add: strict_sorted_iff)
qed

lemma le_last: "sorted (map f xs) \<Longrightarrow> x \<in> set xs \<Longrightarrow> f x \<le> f (last xs)"
  by (induction xs) auto

lemma filter_after_prefix:
  fixes f :: "'a \<Rightarrow> 'b :: linorder"
  assumes "sorted_wrt (<) (map f (xs @ ys))" "xs \<noteq> []"
  shows "filter (\<lambda>r. f (last xs) < f r) (xs @ ys) = ys"
proof -
  have "sorted (map f xs)" using assms(1) by (simp add: strict_sorted_iff sorted_append)
  then have "\<forall>x\<in>set xs. f x \<le> f (last xs)" using le_last [of f xs] by blast
  then have "filter (\<lambda>r. f (last xs) < f r) xs = []" by (auto simp: filter_empty_conv not_less)
  moreover have "filter (\<lambda>r. f (last xs) < f r) ys = ys"
    using assms by (intro filter_True) (auto simp: sorted_wrt_append)
  ultimately show ?thesis by simp
qed

lemma eligible_rows_next:
  assumes "rows_ok s" "eligible_rows ctx owner cursor s = xs @ ys" "xs \<noteq> []"
  shows "eligible_rows ctx owner (Some (mr_id (last xs))) s = ys"
proof -
  have "last xs \<in> set (eligible_rows ctx owner cursor s)" using assms(2,3) by simp
  then have "after_cursor cursor (last xs)" by (simp add: eligible_rows_def)
  then have imp: "after_cursor (Some (mr_id (last xs))) r \<longleftrightarrow>
      after_cursor cursor r \<and> mr_id (last xs) < mr_id r" for r
    by (cases cursor) (auto simp: after_cursor_def)
  have "eligible_rows ctx owner (Some (mr_id (last xs))) s =
      filter (\<lambda>r. mr_id (last xs) < mr_id r) (eligible_rows ctx owner cursor s)"
    by (simp add: eligible_rows_def sort_key_filter imp conj_commute conj_left_commute)
  also have "\<dots> = ys"
    using filter_after_prefix [of mr_id xs ys] eligible_rows_sorted [OF assms(1), of ctx owner cursor] assms(2,3)
    by simp
  finally show ?thesis .
qed

section \<open>One pass\<close>

lemma upsert_mem_rows: "mem_rows (snd (upsert_embedding_profile ctx mid v prof vec s)) = mem_rows s"
  by (auto simp: upsert_embedding_profile_def act_bind_def act_run res_guard_def Let_def split: option.splits)

lemma reembed_one_mem_rows [simp]: "mem_rows (snd (reembed_one p ctx r cs)) = mem_rows (snd cs)"
  using upsert_mem_rows [of ctx "mr_id r" "mr_version r" "pv_profile p" _ "snd cs"]
  by (auto simp: reembed_one_def Let_def split: sum.splits prod.splits) (metis snd_conv)+

lemma reembed_pass_mem_rows [simp]: "mem_rows (snd (fold (reembed_one p ctx) rs cs)) = mem_rows (snd cs)"
  by (induction rs arbitrary: cs) simp_all

definition reembed_pass ::
  "EmbeddingProviderPort \<Rightarrow> uuid option \<Rightarrow> bool \<Rightarrow> MemoryRow list \<Rightarrow> ReembedCounts \<times> SemanticTables \<Rightarrow>
     ReembedCounts \<times> SemanticTables" where
  "reembed_pass p ctx dry rows cs = (let (c, s) = (if dry then cs else fold (reembed_one p ctx) rows cs)
     in (c\<lparr>rc_eligible := rc_eligible c + int (length rows)\<rparr>, s))"

lemma reembed_one_eligible:
  "reembed_one p ctx r (c\<lparr>rc_eligible := n\<rparr>, s) =
     (let (c', s') = reembed_one p ctx r (c, s) in (c'\<lparr>rc_eligible := n\<rparr>, s'))"
  "rc_eligible (fst (reembed_one p ctx r (c, s))) = rc_eligible c"
  by (auto simp: reembed_one_def split: sum.splits prod.splits)

lemma fold_reembed_eligible:
  "fold (reembed_one p ctx) rs (c\<lparr>rc_eligible := n\<rparr>, s) =
     (let (c', s') = fold (reembed_one p ctx) rs (c, s) in (c'\<lparr>rc_eligible := n\<rparr>, s'))"
  "rc_eligible (fst (fold (reembed_one p ctx) rs (c, s))) = rc_eligible c"
proof (induction rs arbitrary: c s)
  case (Cons r rs)
  {
    case 1
    obtain c1 s1 where r: "reembed_one p ctx r (c, s) = (c1, s1)" by (metis prod.exhaust)
    show ?case using Cons.IH(1) [of c1 s1] by (simp add: reembed_one_eligible(1) r)
  next
    case 2
    obtain c1 s1 where r: "reembed_one p ctx r (c, s) = (c1, s1)" by (metis prod.exhaust)
    show ?case using Cons.IH(2) [of c1 s1] reembed_one_eligible(2) [of p ctx r c s] by (simp add: r)
  }
qed simp_all

lemma reembed_batch_pass: "reembed_batch p ctx dry rows cs = reembed_pass p ctx dry rows cs"
proof -
  obtain c s where cs: "cs = (c, s)" by (cases cs)
  show ?thesis
    using fold_reembed_eligible(2) [of p ctx rows c s]
    by (auto simp: reembed_batch_def reembed_pass_def cs fold_reembed_eligible(1) Let_def split: prod.splits)
qed

lemma reembed_pass_append:
  "reembed_pass p ctx dry (xs @ ys) cs = reembed_pass p ctx dry ys (reembed_pass p ctx dry xs cs)"
proof -
  obtain c s where cs: "cs = (c, s)" by (cases cs)
  obtain c1 s1 where x: "fold (reembed_one p ctx) xs (c, s) = (c1, s1)" by (metis prod.exhaust)
  obtain c2 s2 where y: "fold (reembed_one p ctx) ys (c1, s1) = (c2, s2)" by (metis prod.exhaust)
  have e: "rc_eligible c1 = rc_eligible c" "rc_eligible c2 = rc_eligible c1"
    using fold_reembed_eligible(2) [of p ctx xs c s] fold_reembed_eligible(2) [of p ctx ys c1 s1] x y by simp_all
  show ?thesis
    by (auto simp: reembed_pass_def cs x y e fold_reembed_eligible(1) Let_def)
qed

lemma reembed_pass_mem [simp]: "mem_rows (snd (reembed_pass p ctx dry rows cs)) = mem_rows (snd cs)"
proof -
  obtain c s where f: "fold (reembed_one p ctx) rows cs = (c, s)" by (metis prod.exhaust)
  obtain c0 s0 where cs: "cs = (c0, s0)" by (cases cs)
  from reembed_pass_mem_rows [of p ctx rows cs] show ?thesis
    by (simp add: reembed_pass_def f) (simp add: cs)
qed

lemma eligible_rows_cong: "mem_rows t = mem_rows s \<Longrightarrow> eligible_rows ctx owner cursor t = eligible_rows ctx owner cursor s"
  by (simp add: eligible_rows_def)

definition last_id :: "uuid option \<Rightarrow> MemoryRow list \<Rightarrow> uuid option" where
  "last_id cursor rows = (if rows = [] then cursor else Some (mr_id (last rows)))"

lemma reembed_loop_pass:
  assumes "rows_ok (snd cs)" "tenant_bound ctx owner" "1 \<le> batch"
    and "length (eligible_rows ctx owner cursor (snd cs)) < fuel"
  shows "reembed_loop fuel p ctx owner batch dry cursor cs =
    (let rows = eligible_rows ctx owner cursor (snd cs); (c, s) = reembed_pass p ctx dry rows cs
     in Some (Inr (c, last_id cursor rows), s))"
  using assms
proof (induction fuel arbitrary: cursor cs)
  case 0
  then show ?case by simp
next
  case (Suc fuel)
  obtain c s where cs: "cs = (c, s)" by (cases cs)
  define rows where "rows = eligible_rows ctx owner cursor s"
  define xs where "xs = take (nat batch) rows"
  define ys where "ys = drop (nat batch) rows"
  have split: "rows = xs @ ys" by (simp add: xs_def ys_def)
  have page: "list_for_reembedding ctx owner cursor batch s = (Inr xs, s)"
    using list_for_reembedding_page [OF Suc.prems(2)] by (simp add: xs_def rows_def)
  show ?case
  proof (cases "xs = []")
    case True
    then have "rows = []" using Suc.prems(3) by (simp add: xs_def)
    with page True show ?thesis
      by (simp add: cs rows_def [symmetric] reembed_pass_def last_id_def)
  next
    case False
    obtain c1 s1 where b: "reembed_pass p ctx dry xs (c, s) = (c1, s1)" by (metis prod.exhaust)
    have m: "mem_rows s1 = mem_rows s" using reembed_pass_mem [of p ctx dry xs "(c, s)"] b by simp
    have nxt: "eligible_rows ctx owner (Some (mr_id (last xs))) s1 = ys"
      using eligible_rows_next [of s ctx owner cursor xs ys] Suc.prems(1) False split m
      by (simp add: cs rows_def eligible_rows_cong [OF m])
    have pass: "reembed_pass p ctx dry rows (c, s) = reembed_pass p ctx dry ys (c1, s1)"
      by (simp add: split reembed_pass_append b)
    have lid: "last_id cursor rows = last_id (Some (mr_id (last xs))) ys"
      using False by (simp add: last_id_def split)
    show ?thesis
    proof (cases "int (length xs) < batch")
      case True
      then have "ys = []" by (auto simp: xs_def ys_def)
      with page False b True pass lid show ?thesis
        by (simp add: cs rows_def [symmetric] reembed_batch_pass reembed_pass_def last_id_def Let_def)
    next
      case full: False
      have "length ys < fuel"
        using Suc.prems(4) False split by (cases xs) (simp_all add: cs rows_def [symmetric])
      then have "reembed_loop fuel p ctx owner batch dry (Some (mr_id (last xs))) (c1, s1) =
          (let (c', s') = reembed_pass p ctx dry ys (c1, s1)
           in Some (Inr (c', last_id (Some (mr_id (last xs))) ys), s'))"
        using Suc.IH [of "(c1, s1)" "Some (mr_id (last xs))"] Suc.prems(1-3) m nxt
        by (simp add: cs rows_ok_def)
      with page False b full pass lid show ?thesis
        by (simp add: cs rows_def [symmetric] reembed_batch_pass Let_def)
    qed
  qed
qed

section \<open>Counters\<close>

definition settled :: "ReembedCounts \<Rightarrow> int" where
  "settled c = rc_completed c + rc_stale c + rc_failed c"

lemma reembed_one_settled: "settled (fst (reembed_one p ctx r cs)) = settled (fst cs) + 1"
  by (auto simp: reembed_one_def settled_def Let_def split: sum.splits prod.splits)

lemma reembed_pass_settled: "settled (fst (fold (reembed_one p ctx) rs cs)) = settled (fst cs) + int (length rs)"
  by (induction rs arbitrary: cs) (simp_all add: reembed_one_settled)

section \<open>A provider that always answers\<close>

definition provider_ok :: "EmbeddingProviderPort \<Rightarrow> bool" where
  "provider_ok p \<longleftrightarrow> ep_dimension (pv_profile p) = 384 \<and>
     (\<forall>text. \<exists>vec. pv_embed p text = Inr vec \<and> length vec = 384)"

abbreviation sem_key :: "EmbeddingProviderPort \<Rightarrow> MemoryRow \<Rightarrow> uuid \<times> string \<times> string" where
  "sem_key p r \<equiv> (mr_id r, ep_id (pv_profile p), ep_version (pv_profile p))"

definition embedded :: "EmbeddingProviderPort \<Rightarrow> SemanticTables \<Rightarrow> MemoryRow \<Rightarrow> bool" where
  "embedded p s r \<longleftrightarrow> (\<exists>x. dict_get (sem_rows s) (sem_key p r) = Some x \<and>
     sx_source_version x = mr_version r \<and> pv_embed p (mr_content r) = Inr (sx_vector x))"

lemma reembed_one_good:
  assumes "provider_ok p" "r \<in> set (mem_rows s)" "semantic_eligible ctx owner r"
  shows "\<exists>x. reembed_one p ctx r (c, s) = (c\<lparr>rc_completed := rc_completed c + 1\<rparr>,
      s\<lparr>sem_rows := dict_set (sem_key p r) x (sem_rows s)\<rparr>) \<and>
     sx_source_version x = mr_version r \<and> pv_embed p (mr_content r) = Inr (sx_vector x)"
proof -
  from assms(1) obtain vec where vec: "pv_embed p (mr_content r) = Inr vec" "length vec = 384"
    and dim: "ep_dimension (pv_profile p) = 384" by (auto simp: provider_ok_def)
  have "find (\<lambda>r'. mr_id r' = mr_id r \<and> mr_version r' = mr_version r \<and> (ctx \<noteq> None \<longrightarrow> mr_tenant_id r' = ctx)) (mem_rows s) \<noteq> None"
    using assms(2,3) by (auto simp: find_None_iff semantic_eligible_def)
  then show ?thesis
    using vec dim
    by (auto simp: reembed_one_def upsert_embedding_profile_def act_bind_def act_run Let_def
        intro!: exI [of _ "\<lparr>sx_source_version = _, sx_tenant_id = _, sx_dimension = _, sx_metric = _, sx_vector = vec\<rparr>"])
qed

lemma reembed_pass_good:
  assumes "provider_ok p" "set rs \<subseteq> set (mem_rows s)" "\<forall>r\<in>set rs. semantic_eligible ctx owner r" "distinct (map mr_id rs)"
  shows "\<exists>t. fold (reembed_one p ctx) rs (c, s) = (c\<lparr>rc_completed := rc_completed c + int (length rs)\<rparr>, t) \<and>
     mem_rows t = mem_rows s \<and> (\<forall>r\<in>set rs. embedded p t r) \<and>
     (\<forall>k. fst k \<notin> mr_id ` set rs \<longrightarrow> dict_get (sem_rows t) k = dict_get (sem_rows s) k)"
  using assms(2-4)
proof (induction rs arbitrary: c s)
  case Nil
  then show ?case by simp
next
  case (Cons r rs)
  from reembed_one_good [OF assms(1), of r s ctx owner c] Cons.prems obtain x where
    one: "reembed_one p ctx r (c, s) = (c\<lparr>rc_completed := rc_completed c + 1\<rparr>,
      s\<lparr>sem_rows := dict_set (sem_key p r) x (sem_rows s)\<rparr>)"
    and x: "sx_source_version x = mr_version r" "pv_embed p (mr_content r) = Inr (sx_vector x)" by auto
  let ?s = "s\<lparr>sem_rows := dict_set (sem_key p r) x (sem_rows s)\<rparr>"
  from Cons.IH [of ?s "c\<lparr>rc_completed := rc_completed c + 1\<rparr>"] Cons.prems obtain t where
    t: "fold (reembed_one p ctx) rs (c\<lparr>rc_completed := rc_completed c + 1\<rparr>, ?s) =
        (c\<lparr>rc_completed := rc_completed c + 1 + int (length rs)\<rparr>, t)" "mem_rows t = mem_rows s"
      "\<forall>r\<in>set rs. embedded p t r"
      "\<forall>k. fst k \<notin> mr_id ` set rs \<longrightarrow> dict_get (sem_rows t) k = dict_get (sem_rows ?s) k" by auto
  have new: "mr_id r \<notin> mr_id ` set rs" using Cons.prems(3) by simp
  have "dict_get (sem_rows t) (sem_key p r) = dict_get (sem_rows ?s) (sem_key p r)"
    using t(4) new by (metis fst_conv)
  then have "embedded p t r" using x by (simp add: embedded_def update_conv')
  moreover have "\<forall>k. fst k \<notin> mr_id ` set (r # rs) \<longrightarrow> dict_get (sem_rows t) k = dict_get (sem_rows s) k"
  proof (intro allI impI)
    fix k :: "uuid \<times> string \<times> string"
    assume k: "fst k \<notin> mr_id ` set (r # rs)"
    then have "fst k \<notin> mr_id ` set rs" by simp
    then have "dict_get (sem_rows t) k = dict_get (sem_rows ?s) k" using t(4) by blast
    also have "\<dots> = dict_get (sem_rows s) k" using k by (auto simp: update_conv')
    finally show "dict_get (sem_rows t) k = dict_get (sem_rows s) k" .
  qed
  ultimately show ?case using t one by (intro exI [of _ t]) (auto simp: algebra_simps)
qed

lemma eligible_rows_all:
  "set (eligible_rows ctx owner None s) = {r \<in> set (mem_rows s). semantic_eligible ctx owner r}"
  by (auto simp: eligible_rows_def after_cursor_def)

lemma length_eligible_rows:
  "length (eligible_rows ctx owner None s) = length (filter (semantic_eligible ctx owner) (mem_rows s))"
  by (simp add: eligible_rows_def after_cursor_def)

definition no_counts :: ReembedCounts where
  "no_counts = \<lparr>rc_eligible = 0, rc_completed = 0, rc_stale = 0, rc_failed = 0\<rparr>"

lemma reembed_run_pass:
  assumes "rows_ok s" "tenant_bound ctx owner" "owner_id_ok owner" "1 \<le> batch" "batch \<le> 1000"
    and "ep_dimension (pv_profile p) = 384" "length (eligible_rows ctx owner resume s) < fuel"
  shows "reembed_run fuel p ctx owner batch resume dry cutover s =
    (let rows = eligible_rows ctx owner resume s; (c, t) = reembed_pass p ctx dry rows (no_counts, s)
     in Some (reembed_finish p ctx owner dry cutover c (last_id resume rows) t))"
proof -
  have "validate_owner_id owner = Inr (py_strip owner)" using assms(3) by (simp add: validate_Inr)
  moreover have "reembed_loop fuel p ctx owner batch dry resume (no_counts, s) =
      (let rows = eligible_rows ctx owner resume s; (c, s) = reembed_pass p ctx dry rows (no_counts, s)
       in Some (Inr (c, last_id resume rows), s))"
    using reembed_loop_pass [of "(no_counts, s)" ctx owner batch resume fuel p dry] assms(1,2,4,7) by simp
  ultimately show ?thesis
    using assms(4-6) by (simp add: reembed_run_def no_counts_def Let_def split: prod.splits)
qed

lemma reembed_finish_cutover:
  assumes "rows_ok s" "tenant_bound ctx owner"
    and "\<forall>r\<in>set (mem_rows s). semantic_eligible ctx owner r \<longrightarrow> embedded p s r"
  shows "\<exists>r t. reembed_finish p ctx owner False True c cursor s = (Inr r, t) \<and>
     rp_activated r = int (length (filter (semantic_eligible ctx owner) (mem_rows s))) \<and>
     rp_eligible r = rc_eligible c \<and> rp_completed r = rc_completed c \<and> rp_stale r = rc_stale c \<and>
     rp_failed r = rc_failed c \<and> sem_rows t = sem_rows s \<and>
     mem_rows t = map (\<lambda>r. if semantic_eligible ctx owner r
         then r\<lparr>mr_profile_id := ep_id (pv_profile p), mr_profile_version := ep_version (pv_profile p),
                mr_embedding_dimension := ep_dimension (pv_profile p), mr_metric := ep_metric (pv_profile p)\<rparr>
         else r) (mem_rows s)"
proof -
  have "filter (semantic_covered (pv_profile p) s) (filter (semantic_eligible ctx owner) (mem_rows s)) =
      filter (semantic_eligible ctx owner) (mem_rows s)"
    using assms(3) by (intro filter_True) (auto simp: semantic_covered_def embedded_def)
  then show ?thesis
    by (simp add: reembed_finish_def cutover_embedding_profile_def semantic_coverage_def act_bind_def act_run
        act_atomic_def assert_owner_tenant_bound [OF assms(2)] Let_def)
qed

section \<open>Properties\<close>

text \<open>C29: The job ends, and batching does not matter. Given more steps than there are eligible memories
  after the resume point, the cursor-driven loop over batches of any permitted size returns, and does
  exactly what a single pass over those memories in identifier order does: each is embedded and
  upserted once, none is skipped and none is processed twice, and the cursor ends at the last one.\<close>

theorem reembedding_is_one_pass:
  assumes "rows_ok s" "tenant_bound ctx owner" "owner_id_ok owner" "1 \<le> batch" "batch \<le> 1000"
    and "ep_dimension (pv_profile p) = 384" "length (eligible_rows ctx owner resume s) < fuel"
  shows "reembed_run fuel p ctx owner batch resume dry cutover s =
    (let rows = eligible_rows ctx owner resume s; (c, t) = reembed_pass p ctx dry rows (no_counts, s)
     in Some (reembed_finish p ctx owner dry cutover c (last_id resume rows) t))"
  by (rule reembed_run_pass [OF assms])

definition ex_provider :: EmbeddingProviderPort where
  "ex_provider = \<lparr>pv_profile = \<lparr>ep_id = ''sem'', ep_version = ''1'', ep_dimension = 384, ep_metric = ''cosine''\<rparr>,
     pv_embed = (\<lambda>_. Inr (replicate 384 1))\<rparr>"

definition ex_row :: "uuid \<Rightarrow> MemoryRow" where
  "ex_row u = \<lparr>mr_id = u, mr_owner_id = ''o'', mr_tenant_id = None, mr_version = 2, mr_content = ''c'',
     mr_embedding_dimension = 64, mr_profile_id = ''hash'', mr_profile_version = ''1'', mr_metric = ''cosine''\<rparr>"

definition ex_tables :: SemanticTables where
  "ex_tables = \<lparr>mem_rows = [ex_row 3, ex_row 1, ex_row 2], sem_rows = []\<rparr>"

lemma ex_tables_ok: "rows_ok ex_tables" "tenant_bound None ''o''" "owner_id_ok ''o''"
  "length (eligible_rows None ''o'' resume ex_tables) < 4" "ep_dimension (pv_profile ex_provider) = 384"
  "provider_ok ex_provider"
proof -
  show "rows_ok ex_tables" "tenant_bound None ''o''" "ep_dimension (pv_profile ex_provider) = 384"
    by (simp_all add: rows_ok_def ex_tables_def ex_row_def tenant_bound_def ex_provider_def)
  show "owner_id_ok ''o''" by code_simp
  have "length (eligible_rows None ''o'' resume ex_tables) \<le> length (mem_rows ex_tables)"
    by (simp add: eligible_rows_def)
  then show "length (eligible_rows None ''o'' resume ex_tables) < 4" by (simp add: ex_tables_def)
  show "provider_ok ex_provider" by (simp add: provider_ok_def ex_provider_def)
qed

theorem reembedding_is_one_pass_witness:
  "reembed_run 4 ex_provider None ''o'' 2 None False False ex_tables =
     (let rows = eligible_rows None ''o'' None ex_tables; (c, t) = reembed_pass ex_provider None False rows (no_counts, ex_tables)
      in Some (reembed_finish ex_provider None ''o'' False False c (last_id None rows) t))"
  by (rule reembedding_is_one_pass [OF ex_tables_ok(1-3) _ _ ex_tables_ok(5,4)]) simp_all

text \<open>The report adds up. In a run that returns a report and is not a dry run, every memory the
  loop read is counted exactly once, as completed, stale or failed.\<close>

theorem reembedding_report_adds_up:
  assumes "rows_ok s" "tenant_bound ctx owner" "owner_id_ok owner" "1 \<le> batch" "batch \<le> 1000"
    and "ep_dimension (pv_profile p) = 384" "length (eligible_rows ctx owner resume s) < fuel"
    and "reembed_run fuel p ctx owner batch resume False cutover s = Some (Inr r, t)"
  shows "rp_completed r + rp_stale r + rp_failed r = rp_eligible r \<and>
     rp_eligible r = int (length (eligible_rows ctx owner resume s))"
proof -
  let ?rows = "eligible_rows ctx owner resume s"
  obtain c s1 where f: "fold (reembed_one p ctx) ?rows (no_counts, s) = (c, s1)" by (metis prod.exhaust)
  have cnt: "settled c = int (length ?rows)" "rc_eligible c = 0"
    using reembed_pass_settled [of p ctx ?rows "(no_counts, s)"] fold_reembed_eligible(2) [of p ctx ?rows no_counts s] f
    by (simp_all add: settled_def no_counts_def)
  have "reembed_finish p ctx owner False cutover (c\<lparr>rc_eligible := int (length ?rows)\<rparr>) (last_id resume ?rows) s1 = (Inr r, t)"
    using assms(8) reembed_run_pass [OF assms(1-7), of False cutover] f cnt(2)
    by (simp add: reembed_pass_def Let_def)
  then show ?thesis using cnt by (auto simp: reembed_finish_def act_simps settled_def split: prod.splits)
qed

theorem reembedding_report_adds_up_witness:
  "\<exists>r t. reembed_run 4 ex_provider None ''o'' 2 None False False ex_tables = Some (Inr r, t) \<and>
     rp_completed r + rp_stale r + rp_failed r = rp_eligible r \<and> rp_eligible r = 3"
proof -
  obtain c s1 where f: "reembed_pass ex_provider None False (eligible_rows None ''o'' None ex_tables) (no_counts, ex_tables) = (c, s1)"
    by (metis prod.exhaust)
  have run0: "reembed_run 4 ex_provider None ''o'' 2 None False False ex_tables =
     Some (reembed_finish ex_provider None ''o'' False False c (last_id None (eligible_rows None ''o'' None ex_tables)) s1)"
    using reembed_run_pass [OF ex_tables_ok(1-3) _ _ ex_tables_ok(5,4), where batch = 2 and dry = False and cutover = False] f by simp
  have "\<exists>r t. reembed_finish ex_provider None ''o'' False False c cur s1 = (Inr r, t)" for cur
    by (simp add: reembed_finish_def semantic_coverage_def act_bind_def act_run act_atomic_def
        assert_owner_tenant_def Let_def)
  then obtain r t where run: "reembed_run 4 ex_provider None ''o'' 2 None False False ex_tables = Some (Inr r, t)"
    using run0 by metis
  have "length (eligible_rows None ''o'' None ex_tables) = 3"
    by (simp add: length_eligible_rows ex_tables_def ex_row_def semantic_eligible_def)
  with reembedding_report_adds_up [OF ex_tables_ok(1-3) _ _ ex_tables_ok(5,4) run] run show ?thesis by simp
qed

text \<open>A complete run with cutover re-embeds everything. When the provider answers for every text, a
  run from the start returns a report in which every eligible memory of the owner is completed and
  activated; afterwards each of them is on the new profile and has a vector that is the provider's
  embedding of its content at its current version, and the rows of everyone else are unchanged.\<close>

theorem reembedding_cutover_complete:
  assumes "rows_ok s" "tenant_bound ctx owner" "owner_id_ok owner" "1 \<le> batch" "batch \<le> 1000"
    and "provider_ok p" "length (eligible_rows ctx owner None s) < fuel"
  shows "\<exists>r t. reembed_run fuel p ctx owner batch None False True s = Some (Inr r, t) \<and>
     rp_completed r = rp_eligible r \<and> rp_activated r = rp_eligible r \<and> rp_stale r = 0 \<and> rp_failed r = 0 \<and>
     rp_eligible r = int (length (filter (semantic_eligible ctx owner) (mem_rows s))) \<and>
     (\<forall>row\<in>set (mem_rows s). semantic_eligible ctx owner row \<longrightarrow> embedded p t row) \<and>
     mem_rows t = map (\<lambda>r. if semantic_eligible ctx owner r
         then r\<lparr>mr_profile_id := ep_id (pv_profile p), mr_profile_version := ep_version (pv_profile p),
                mr_embedding_dimension := ep_dimension (pv_profile p), mr_metric := ep_metric (pv_profile p)\<rparr>
         else r) (mem_rows s)"
proof -
  let ?rows = "eligible_rows ctx owner None s"
  have dim: "ep_dimension (pv_profile p) = 384" using assms(6) by (simp add: provider_ok_def)
  have dist: "distinct (map mr_id ?rows)" using eligible_rows_sorted [OF assms(1)] strict_sorted_iff by blast
  have sub: "set ?rows \<subseteq> set (mem_rows s)" "\<forall>r\<in>set ?rows. semantic_eligible ctx owner r"
    by (simp_all add: eligible_rows_all)
  from reembed_pass_good [OF assms(6) sub dist, of no_counts]
  obtain s1 where s1: "fold (reembed_one p ctx) ?rows (no_counts, s) =
      (no_counts\<lparr>rc_completed := rc_completed no_counts + int (length ?rows)\<rparr>, s1)"
    "mem_rows s1 = mem_rows s" "\<forall>r\<in>set ?rows. embedded p s1 r" by blast
  have emb: "\<forall>r\<in>set (mem_rows s1). semantic_eligible ctx owner r \<longrightarrow> embedded p s1 r"
    using s1(2,3) eligible_rows_all [of ctx owner s] by auto
  have ok1: "rows_ok s1" using assms(1) s1(2) by (simp add: rows_ok_def)
  let ?c = "no_counts\<lparr>rc_completed := rc_completed no_counts + int (length ?rows), rc_eligible := int (length ?rows)\<rparr>"
  from reembed_finish_cutover [OF ok1 assms(2) emb, of ?c "last_id None ?rows"] obtain r t where
    fin: "reembed_finish p ctx owner False True ?c (last_id None ?rows) s1 = (Inr r, t)"
    and r: "rp_activated r = int (length (filter (semantic_eligible ctx owner) (mem_rows s)))"
      "rp_eligible r = rc_eligible ?c" "rp_completed r = rc_completed ?c" "rp_stale r = rc_stale ?c"
      "rp_failed r = rc_failed ?c" "sem_rows t = sem_rows s1"
      "mem_rows t = map (\<lambda>r. if semantic_eligible ctx owner r
         then r\<lparr>mr_profile_id := ep_id (pv_profile p), mr_profile_version := ep_version (pv_profile p),
                mr_embedding_dimension := ep_dimension (pv_profile p), mr_metric := ep_metric (pv_profile p)\<rparr>
         else r) (mem_rows s)"
    unfolding s1(2) by blast
  have "reembed_run fuel p ctx owner batch None False True s = Some (Inr r, t)"
    using reembed_run_pass [OF assms(1-5) dim assms(7), of False True] s1(1) fin
    by (simp add: reembed_pass_def no_counts_def Let_def)
  moreover have "embedded p t row" if "row \<in> set (mem_rows s)" "semantic_eligible ctx owner row" for row
    using emb that s1(2) r(6) by (simp add: embedded_def)
  ultimately show ?thesis
    using r(1-5,7) by (auto simp: length_eligible_rows no_counts_def)
qed

theorem reembedding_cutover_complete_witness:
  "\<exists>r t. reembed_run 4 ex_provider None ''o'' 2 None False True ex_tables = Some (Inr r, t) \<and>
     rp_completed r = 3 \<and> rp_activated r = 3 \<and> rp_failed r = 0"
proof -
  have "length (filter (semantic_eligible None ''o'') (mem_rows ex_tables)) = 3"
    by (simp add: ex_tables_def ex_row_def semantic_eligible_def)
  with reembedding_cutover_complete [OF ex_tables_ok(1-3) _ _ ex_tables_ok(6,4), of 2] show ?thesis by auto
qed

end
