(* ===== verification/Cloud_Admin.thy ===== *)
theory Cloud_Admin
  imports Encrypted_Memory Mcp_Adapter
begin

text \<open>
  The local administrative API of \<open>omp/cloud/admin.py\<close>: the mailbox sign-in with its magic links,
  sessions, CSRF tokens and rate limit, the agent credentials and their verifier, and the HTTP
  handlers with their guards.

  The session state is the record \<open>LocalMailboxAuth\<close>; the dictionaries with fixed keys that it
  stores are records. SHA-256 (a hex digest), \<open>uuid5\<close> and \<open>datetime.fromisoformat\<close> are fields of the
  environment, as are both clocks (the injected one and \<open>datetime.now\<close>) and the texts
  \<open>secrets.token_urlsafe\<close> draws in the call. The request models are pydantic classes; the bounds
  their fields declare are written out as a guard that answers 422. A handler raises an
  \<open>HTTPException\<close> with a status; \<open>PermissionError\<close> is turned into 403 by the registered handler.
  The memory service behind the API is an argument, a function of the tool, the payload, the
  tenant bound by \<open>tenant_scope\<close> and the service's state.
\<close>

section \<open>State\<close>

record MagicLink =
  ml_digest :: string
  ml_principal :: Principal
  ml_expires_at :: datetime
  ml_used :: bool

record Connection =
  co_id :: string
  co_name :: string
  co_scopes :: "string list"
  co_tenant_id :: string
  co_status :: string
  co_last_used_at :: "string option"

record AgentCredential =
  ac_id :: string
  ac_name :: string
  ac_tenant_id :: string
  ac_scopes :: "string list"
  ac_token_digest :: string
  ac_subject_id :: string
  ac_membership_id :: string
  ac_credential_id :: string
  ac_expires_at :: string
  ac_revoked :: bool

record Receipt =
  op_id :: string
  op_kind :: string
  op_status :: string
  op_tenant_id :: string
  op_created_at :: string

record LocalMailboxAuth =
  la_secure_cookies :: bool
  la_limit :: int
  la_window :: int
  la_outbox :: "string list"
  la_links :: "(string, MagicLink) dict"
  la_sessions :: "(string, Principal) dict"
  la_csrf :: "(string, string) dict"
  la_connections :: "(string, Connection) dict"
  la_agent_credentials :: "(string, AgentCredential) dict"
  la_agent_token_index :: "(string, string) dict"
  la_operations :: "(string, Receipt) dict"
  la_attempts :: "(string, datetime list) dict"
  la_deleted_tenants :: "string set"

record AdminEnv =
  ad_sha :: "bytes \<Rightarrow> string"
  ad_uuid5 :: "string \<Rightarrow> uuid"
  ad_fromiso :: "string \<Rightarrow> datetime option"
  ad_clock :: datetime
  ad_now :: datetime
  ad_token :: "nat \<Rightarrow> string"
  ad_uuid4 :: uuid

datatype http_error = HTTPException int | HTTPServerError

type_synonym 'a aact = "(LocalMailboxAuth, http_error, 'a) act"

section \<open>The mailbox\<close>

text \<open>The window is in microseconds.\<close>

definition mailbox_init :: "bool \<Rightarrow> int \<Rightarrow> int \<Rightarrow> (error, LocalMailboxAuth) res" where
  "mailbox_init secure limit window = (if limit < 1 \<or> window \<le> 0 then Inl PyValueError
     else Inr \<lparr>la_secure_cookies = secure, la_limit = limit, la_window = window, la_outbox = [],
       la_links = [], la_sessions = [], la_csrf = [], la_connections = [], la_agent_credentials = [],
       la_agent_token_index = [], la_operations = [], la_attempts = [], la_deleted_tenants = {}\<rparr>)"

definition sha_hex :: "AdminEnv \<Rightarrow> string \<Rightarrow> string" where
  "sha_hex env s = ad_sha env (utf8_encode s)"

definition principal_for_digest :: "AdminEnv \<Rightarrow> string \<Rightarrow> datetime \<Rightarrow> Principal" where
  "principal_for_digest env digest expires =
     (let identifier = (\<lambda>kind. ad_uuid5 env (''umcp.local.magic-link/'' @ kind @ ''/'' @ digest))
      in \<lparr>subject_id = identifier ''subject'', p_tenant_id = identifier ''tenant'',
          membership_id = identifier ''membership'', p_scopes = all_scopes,
          credential_id = identifier ''credential'', auth_method = ''local-magic-link'',
          p_expires_at = expires\<rparr>)"

definition email_digest :: "AdminEnv \<Rightarrow> string \<Rightarrow> string" where
  "email_digest env email = sha_hex env (casefold (py_strip email))"

definition recent_attempts :: "AdminEnv \<Rightarrow> string \<Rightarrow> LocalMailboxAuth \<Rightarrow> datetime list" where
  "recent_attempts env digest s =
     filter (\<lambda>item. dt_instant (dt_plus (ad_clock env) (- la_window s)) < dt_instant item)
       (case dict_get (la_attempts s) digest of None \<Rightarrow> [] | Some ds \<Rightarrow> ds)"

definition mailbox_request :: "AdminEnv \<Rightarrow> string \<Rightarrow> LocalMailboxAuth \<Rightarrow> bool \<times> LocalMailboxAuth" where
  "mailbox_request env email s =
     (let now = ad_clock env; digest = email_digest env email; allowed = recent_attempts env digest s in
      if int (length allowed) \<ge> la_limit s
      then (False, s\<lparr>la_attempts := dict_set digest allowed (la_attempts s)\<rparr>)
      else let prin = principal_for_digest env digest (dt_plus now 3600000000);
               raw = ad_token env 0; link = sha_hex env raw
           in (True, s\<lparr>la_attempts := dict_set digest (allowed @ [now]) (la_attempts s),
                 la_links := dict_set link \<lparr>ml_digest = link, ml_principal = prin,
                   ml_expires_at = dt_plus now 600000000, ml_used = False\<rparr> (la_links s),
                 la_outbox := la_outbox s @ [raw]\<rparr>))"

definition mailbox_consume ::
  "AdminEnv \<Rightarrow> string \<Rightarrow> LocalMailboxAuth \<Rightarrow> (string \<times> string) option \<times> LocalMailboxAuth" where
  "mailbox_consume env raw s = (case dict_get (la_links s) (sha_hex env raw) of
     None \<Rightarrow> (None, s)
   | Some link \<Rightarrow>
       if ml_used link \<or> dt_instant (ml_expires_at link) \<le> dt_instant (ad_clock env) then (None, s)
       else let session = ad_token env 0; csrf = ad_token env 1; digest = sha_hex env session
            in (Some (session, csrf),
                s\<lparr>la_links := dict_set (sha_hex env raw) (link\<lparr>ml_used := True\<rparr>) (la_links s),
                  la_sessions := dict_set digest (ml_principal link) (la_sessions s),
                  la_csrf := dict_set digest csrf (la_csrf s)\<rparr>))"

definition mailbox_session :: "AdminEnv \<Rightarrow> string option \<Rightarrow> LocalMailboxAuth \<Rightarrow> Principal option" where
  "mailbox_session env raw s =
     (if \<not> py_truthy raw then None
      else case dict_get (la_sessions s) (sha_hex env (the raw)) of
        None \<Rightarrow> None
      | Some p \<Rightarrow> if uuid_str (p_tenant_id p) \<in> la_deleted_tenants s then None else Some p)"

definition mailbox_csrf :: "AdminEnv \<Rightarrow> string option \<Rightarrow> LocalMailboxAuth \<Rightarrow> string option" where
  "mailbox_csrf env raw s =
     (if \<not> py_truthy raw then None else dict_get (la_csrf s) (sha_hex env (the raw)))"

definition mailbox_logout :: "AdminEnv \<Rightarrow> string option \<Rightarrow> LocalMailboxAuth \<Rightarrow> LocalMailboxAuth" where
  "mailbox_logout env raw s =
     (if \<not> py_truthy raw then s
      else let digest = sha_hex env (the raw)
           in s\<lparr>la_sessions := dict_pop digest (la_sessions s), la_csrf := dict_pop digest (la_csrf s)\<rparr>)"

definition revoke_credential :: "string \<Rightarrow> AgentCredential \<Rightarrow> AgentCredential" where
  "revoke_credential tenant c = (if ac_tenant_id c = tenant then c\<lparr>ac_revoked := True\<rparr> else c)"

definition mailbox_delete_tenant :: "Principal \<Rightarrow> LocalMailboxAuth \<Rightarrow> LocalMailboxAuth" where
  "mailbox_delete_tenant p s =
     (let tenant = uuid_str (p_tenant_id p);
          digests = map ac_token_digest (filter (\<lambda>c. ac_tenant_id c = tenant) (dict_values (la_agent_credentials s)));
          sessions = map fst (filter (\<lambda>(d, v). uuid_str (p_tenant_id v) = tenant) (la_sessions s))
      in s\<lparr>la_deleted_tenants := insert tenant (la_deleted_tenants s),
           la_connections := map (\<lambda>(k, c). (k, if co_tenant_id c = tenant then c\<lparr>co_status := ''revoked''\<rparr> else c))
             (la_connections s),
           la_agent_credentials := map (\<lambda>(k, c). (k, revoke_credential tenant c)) (la_agent_credentials s),
           la_agent_token_index := fold dict_pop digests (la_agent_token_index s),
           la_sessions := fold dict_pop sessions (la_sessions s),
           la_csrf := fold dict_pop sessions (la_csrf s)\<rparr>)"

text \<open>
  The identifiers a call makes of the texts it draws: the first and second are those of a link,
  session, connection, credential or access token, the third is that of a receipt.
\<close>

definition connection_key :: "AdminEnv \<Rightarrow> string" where
  "connection_key env = ''conn_'' @ ad_token env 0"

definition credential_key :: "AdminEnv \<Rightarrow> string" where
  "credential_key env = ''cred_'' @ ad_token env 1"

definition access_token :: "AdminEnv \<Rightarrow> string" where
  "access_token env = ''umcp_pat_'' @ ad_token env 0"

definition receipt_key :: "AdminEnv \<Rightarrow> string" where
  "receipt_key env = ''op_'' @ ad_token env 2"

definition make_receipt :: "AdminEnv \<Rightarrow> string \<Rightarrow> Principal \<Rightarrow> string \<Rightarrow> Receipt" where
  "make_receipt env kind p status = \<lparr>op_id = receipt_key env, op_kind = kind, op_status = status,
     op_tenant_id = uuid_str (p_tenant_id p),
     op_created_at = py_replace ''+00:00'' ''Z'' (isoformat (astimezone_utc (ad_now env)))\<rparr>"

definition store_receipt :: "Receipt \<Rightarrow> LocalMailboxAuth \<Rightarrow> LocalMailboxAuth" where
  "store_receipt r s = s\<lparr>la_operations := dict_set (op_id r) r (la_operations s)\<rparr>"

definition mailbox_receipt :: "AdminEnv \<Rightarrow> string \<Rightarrow> Principal \<Rightarrow> string \<Rightarrow> Receipt aact" where
  "mailbox_receipt env kind p status =
     (let r = make_receipt env kind p status
      in act_bind (act_modify (store_receipt r)) (\<lambda>_. act_return r))"

section \<open>The agent credential verifier\<close>

record AgentAccessToken =
  at_token :: string
  at_client_id :: string
  at_resource :: string
  at_access :: AccessToken

text \<open>\<open>int(d.timestamp())\<close>: the quotient is a float, and \<open>int\<close> truncates.\<close>

definition timestamp_int :: "datetime \<Rightarrow> int" where
  "timestamp_int d = (let f = fl (of_int (dt_instant d - epoch_us) / 1000000) in
     if f < 0 then \<lceil>f\<rceil> else \<lfloor>f\<rfloor>)"

definition verify_token ::
  "AdminEnv \<Rightarrow> string \<Rightarrow> string \<Rightarrow> string \<Rightarrow> LocalMailboxAuth \<Rightarrow> AgentAccessToken option" where
  "verify_token env issuer audience token s =
     (let digest = sha_hex env token in
      case dict_get (la_agent_token_index s) digest of
        None \<Rightarrow> None
      | Some cid \<Rightarrow> (case dict_get (la_agent_credentials s) cid of
          None \<Rightarrow> None
        | Some c \<Rightarrow>
            if ac_token_digest c \<noteq> digest then None
            else (case ad_fromiso env (ac_expires_at c) of
                None \<Rightarrow> None
              | Some expires \<Rightarrow> (case res_map scope_member (ac_scopes c) of
                  Inl e \<Rightarrow> None
                | Inr scopes \<Rightarrow>
                    if ac_revoked c \<or> dt_aware expires \<noteq> dt_aware (ad_clock env) \<or>
                       dt_instant expires \<le> dt_instant (ad_clock env) then None
                    else Some \<lparr>at_token = token, at_client_id = ''local-agent:'' @ cid, at_resource = audience,
                      at_access = \<lparr>tok_subject = Some (ac_subject_id c),
                        tok_claims = [(''iss'', issuer), (''tenant_id'', ac_tenant_id c),
                          (''membership_id'', ac_membership_id c), (''credential_id'', ac_credential_id c)],
                        tok_scopes = map scope_value scopes, tok_expires_at = Some (timestamp_int expires)\<rparr>\<rparr>))))"

section \<open>Guards of the handlers\<close>

record Request =
  rq_session :: "string option"
  rq_csrf_header :: "string option"

definition admin_principal :: "AdminEnv \<Rightarrow> Request \<Rightarrow> LocalMailboxAuth \<Rightarrow> (http_error, Principal) res" where
  "admin_principal env rq s = (case mailbox_session env (rq_session rq) s of
     None \<Rightarrow> Inl (HTTPException 401) | Some p \<Rightarrow> Inr p)"

definition or_empty :: "string option \<Rightarrow> string" where
  "or_empty v = (case v of None \<Rightarrow> [] | Some x \<Rightarrow> x)"

definition require_csrf :: "AdminEnv \<Rightarrow> Request \<Rightarrow> LocalMailboxAuth \<Rightarrow> (http_error, Principal) res" where
  "require_csrf env rq s =
     res_bind (admin_principal env rq s) (\<lambda>p.
     case compare_digest (or_empty (rq_csrf_header rq)) (or_empty (mailbox_csrf env (rq_session rq) s)) of
       Inl e \<Rightarrow> Inl HTTPServerError
     | Inr same \<Rightarrow> res_bind (res_guard same (HTTPException 403)) (\<lambda>_. Inr p))"

definition requires_scope :: "AdminEnv \<Rightarrow> Principal \<Rightarrow> Scope \<Rightarrow> (http_error, unit) res" where
  "requires_scope env p scope = (case principal_requires p scope (ad_now env) of
     Inl CloudPermissionError \<Rightarrow> Inl (HTTPException 403)
   | Inl e \<Rightarrow> Inl HTTPServerError
   | Inr u \<Rightarrow> Inr u)"

definition admin_owner :: "Principal \<Rightarrow> string" where
  "admin_owner p = cloud_owner (p_tenant_id p) (subject_id p)"

definition guarded_read :: "AdminEnv \<Rightarrow> Request \<Rightarrow> Scope \<Rightarrow> Principal aact" where
  "guarded_read env rq scope =
     act_bind (act_getr (admin_principal env rq)) (\<lambda>p.
     act_bind (act_res (requires_scope env p scope)) (\<lambda>_. act_return p))"

definition guarded_change :: "AdminEnv \<Rightarrow> Request \<Rightarrow> Scope \<Rightarrow> Principal aact" where
  "guarded_change env rq scope =
     act_bind (act_getr (require_csrf env rq)) (\<lambda>p.
     act_bind (act_res (requires_scope env p scope)) (\<lambda>_. act_return p))"

section \<open>Handlers of the session\<close>

definition ep_magic_link :: "AdminEnv \<Rightarrow> string \<Rightarrow> string \<Rightarrow> unit aact" where
  "ep_magic_link env email redirect =
     act_bind (act_guard (3 \<le> length email \<and> length email \<le> 320) (HTTPException 422)) (\<lambda>_.
     act_bind (act_guard (redirect \<in> {''/'', ''/dashboard'', ''/memories''}) (HTTPException 400)) (\<lambda>_.
     act_modify (\<lambda>s. snd (mailbox_request env email s))))"

definition ep_callback :: "AdminEnv \<Rightarrow> string \<Rightarrow> (string \<times> string) aact" where
  "ep_callback env token s = (case mailbox_consume env token s of
     (None, t) \<Rightarrow> (Inl (HTTPException 400), t)
   | (Some issued, t) \<Rightarrow> (Inr issued, t))"

definition ep_session :: "AdminEnv \<Rightarrow> Request \<Rightarrow> (string \<times> string \<times> string list) aact" where
  "ep_session env rq =
     act_bind (act_getr (admin_principal env rq)) (\<lambda>p.
     act_return (uuid_str (subject_id p), uuid_str (p_tenant_id p), sort (map scope_value (p_scopes p))))"

definition ep_logout :: "AdminEnv \<Rightarrow> Request \<Rightarrow> unit aact" where
  "ep_logout env rq =
     act_bind (act_getr (require_csrf env rq)) (\<lambda>_.
     act_modify (mailbox_logout env (rq_session rq)))"

section \<open>Handlers of connections and credentials\<close>

definition ep_list_connections :: "AdminEnv \<Rightarrow> Request \<Rightarrow> Connection list aact" where
  "ep_list_connections env rq =
     act_bind (guarded_read env rq CONNECTIONS_MANAGE) (\<lambda>p.
     act_gets (\<lambda>s. filter (\<lambda>c. co_tenant_id c = uuid_str (p_tenant_id p)) (dict_values (la_connections s))))"

definition new_connection :: "AdminEnv \<Rightarrow> Principal \<Rightarrow> string \<Rightarrow> Scope list \<Rightarrow> Connection" where
  "new_connection env p name scopes = \<lparr>co_id = connection_key env, co_name = name,
     co_scopes = sort (remdups (map scope_value scopes)), co_tenant_id = uuid_str (p_tenant_id p),
     co_status = ''active'', co_last_used_at = None\<rparr>"

definition ep_create_connection ::
  "AdminEnv \<Rightarrow> Request \<Rightarrow> string \<Rightarrow> Scope list \<Rightarrow> (Connection \<times> Receipt) aact" where
  "ep_create_connection env rq name scopes =
     act_bind (act_guard (1 \<le> length name \<and> length name \<le> 128 \<and> scopes \<noteq> []) (HTTPException 422)) (\<lambda>_.
     act_bind (guarded_change env rq CONNECTIONS_MANAGE) (\<lambda>p.
     let c = new_connection env p name scopes in
     act_bind (act_modify (\<lambda>s. s\<lparr>la_connections := dict_set (connection_key env) c (la_connections s)\<rparr>)) (\<lambda>_.
     act_bind (mailbox_receipt env ''connection.created'' p ''done'') (\<lambda>r. act_return (c, r)))))"

definition ep_revoke_connection :: "AdminEnv \<Rightarrow> Request \<Rightarrow> string \<Rightarrow> (Connection \<times> Receipt) aact" where
  "ep_revoke_connection env rq cid =
     act_bind (guarded_change env rq CONNECTIONS_MANAGE) (\<lambda>p.
     act_bind (act_gets (\<lambda>s. dict_get (la_connections s) cid)) (\<lambda>found.
     case found of
       None \<Rightarrow> act_raise (HTTPException 404)
     | Some c \<Rightarrow>
         act_bind (act_guard (co_tenant_id c = uuid_str (p_tenant_id p)) (HTTPException 404)) (\<lambda>_.
         let c' = c\<lparr>co_status := ''revoked''\<rparr> in
         act_bind (act_modify (\<lambda>s. s\<lparr>la_connections := dict_set cid c' (la_connections s)\<rparr>)) (\<lambda>_.
         act_bind (mailbox_receipt env ''connection.revoked'' p ''done'') (\<lambda>r. act_return (c', r))))))"

definition new_credential :: "AdminEnv \<Rightarrow> Principal \<Rightarrow> string \<Rightarrow> Scope list \<Rightarrow> int \<Rightarrow> AgentCredential" where
  "new_credential env p name scopes seconds = \<lparr>ac_id = credential_key env, ac_name = name,
     ac_tenant_id = uuid_str (p_tenant_id p), ac_scopes = sort (remdups (map scope_value scopes)),
     ac_token_digest = sha_hex env (access_token env), ac_subject_id = uuid_str (subject_id p),
     ac_membership_id = uuid_str (membership_id p), ac_credential_id = uuid_str (ad_uuid4 env),
     ac_expires_at = py_replace ''+00:00'' ''Z''
       (isoformat (dt_plus (astimezone_utc (ad_now env)) (seconds * 1000000))),
     ac_revoked = False\<rparr>"

definition store_credential :: "AdminEnv \<Rightarrow> AgentCredential \<Rightarrow> LocalMailboxAuth \<Rightarrow> LocalMailboxAuth" where
  "store_credential env c s = s\<lparr>
     la_agent_credentials := dict_set (credential_key env) c (la_agent_credentials s),
     la_agent_token_index := dict_set (ac_token_digest c) (credential_key env) (la_agent_token_index s)\<rparr>"

text \<open>
  The replies leave out the keys that start with an underscore: the digest and the three internal
  identifiers. \<open>public_credential\<close> is what is left.
\<close>

definition public_credential :: "AgentCredential \<Rightarrow> (string \<times> json) list" where
  "public_credential c = [(''id'', JStr (ac_id c)), (''name'', JStr (ac_name c)),
     (''tenant_id'', JStr (ac_tenant_id c)), (''scopes'', JList (map JStr (ac_scopes c))),
     (''expires_at'', JStr (ac_expires_at c)), (''revoked'', JBool (ac_revoked c))]"

definition ep_create_agent_credential ::
  "AdminEnv \<Rightarrow> Request \<Rightarrow> string \<Rightarrow> Scope list \<Rightarrow> int \<Rightarrow> ((string \<times> json) list \<times> string) aact" where
  "ep_create_agent_credential env rq name scopes seconds =
     act_bind (act_guard (1 \<le> length name \<and> length name \<le> 128 \<and> scopes \<noteq> [] \<and> 60 \<le> seconds \<and> seconds \<le> 86400)
       (HTTPException 422)) (\<lambda>_.
     act_bind (guarded_change env rq CONNECTIONS_MANAGE) (\<lambda>p.
     let c = new_credential env p name scopes seconds in
     act_bind (act_modify (store_credential env c)) (\<lambda>_.
     act_return (public_credential c, access_token env))))"

definition ep_list_agent_credentials :: "AdminEnv \<Rightarrow> Request \<Rightarrow> (string \<times> json) list list aact" where
  "ep_list_agent_credentials env rq =
     act_bind (guarded_read env rq CONNECTIONS_MANAGE) (\<lambda>p.
     act_gets (\<lambda>s. map public_credential
       (filter (\<lambda>c. ac_tenant_id c = uuid_str (p_tenant_id p)) (dict_values (la_agent_credentials s)))))"

definition ep_revoke_agent_credential :: "AdminEnv \<Rightarrow> Request \<Rightarrow> string \<Rightarrow> Receipt aact" where
  "ep_revoke_agent_credential env rq cid =
     act_bind (guarded_change env rq CONNECTIONS_MANAGE) (\<lambda>p.
     act_bind (act_gets (\<lambda>s. dict_get (la_agent_credentials s) cid)) (\<lambda>found.
     case found of
       None \<Rightarrow> act_raise (HTTPException 404)
     | Some c \<Rightarrow>
         act_bind (act_guard (ac_tenant_id c = uuid_str (p_tenant_id p)) (HTTPException 404)) (\<lambda>_.
         act_bind (act_modify (\<lambda>s. s\<lparr>la_agent_credentials :=
           dict_set cid (c\<lparr>ac_revoked := True\<rparr>) (la_agent_credentials s)\<rparr>)) (\<lambda>_.
         mailbox_receipt env ''agent_credential.revoked'' p ''done''))))"

section \<open>Handlers of operations\<close>

definition ep_request_export :: "AdminEnv \<Rightarrow> Request \<Rightarrow> Receipt aact" where
  "ep_request_export env rq =
     act_bind (guarded_change env rq MEMORY_EXPORT) (\<lambda>p.
     mailbox_receipt env ''tenant.export'' p ''accepted'')"

definition ep_operation_status :: "AdminEnv \<Rightarrow> Request \<Rightarrow> string \<Rightarrow> Receipt aact" where
  "ep_operation_status env rq oid =
     act_bind (act_getr (admin_principal env rq)) (\<lambda>p.
     act_getr (\<lambda>s. case dict_get (la_operations s) oid of
       None \<Rightarrow> Inl (HTTPException 404)
     | Some r \<Rightarrow> if op_tenant_id r \<noteq> uuid_str (p_tenant_id p) then Inl (HTTPException 404) else Inr r))"

text \<open>
  The deletion acts on the session state and on the memory service; \<open>delete_owner\<close> is the service's
  method of that name, if it has one. What it raises is not caught.
\<close>

definition ep_account_deletion ::
  "AdminEnv \<Rightarrow> Request \<Rightarrow> (string \<Rightarrow> ('s, http_error, int) act) option \<Rightarrow>
     (LocalMailboxAuth \<times> 's, http_error, Receipt \<times> int option) act" where
  "ep_account_deletion env rq delete_owner st = (let (s, sv) = st in
     case require_csrf env rq s of
       Inl e \<Rightarrow> (Inl e, st)
     | Inr p \<Rightarrow> (case delete_owner of
         None \<Rightarrow> (case mailbox_receipt env ''account.deletion'' p ''accepted'' s of
             (Inl e, s') \<Rightarrow> (Inl e, (s', sv)) | (Inr r, s') \<Rightarrow> (Inr (r, None), (s', sv)))
       | Some del \<Rightarrow> (case del (admin_owner p) sv of
             (Inl e, sv') \<Rightarrow> (Inl e, (s, sv'))
           | (Inr n, sv') \<Rightarrow>
               (case mailbox_receipt env ''account.deletion'' p ''done'' (mailbox_delete_tenant p s) of
                  (Inl e, s') \<Rightarrow> (Inl e, (s', sv')) | (Inr r, s') \<Rightarrow> (Inr (r, Some n), (s', sv'))))))"

section \<open>Handlers of memories\<close>

fun redact_owner :: "json \<Rightarrow> json" where
  "redact_owner (JObj kvs) =
     JObj (filter (\<lambda>(k, v). k \<noteq> ''owner_id'') (map (\<lambda>(k, v). (k, redact_owner v)) kvs))"
| "redact_owner (JList vs) = JList (map redact_owner vs)"
| "redact_owner v = v"

type_synonym 's tool = "string \<Rightarrow> json \<Rightarrow> uuid \<Rightarrow> 's \<Rightarrow> reply \<times> 's"

definition error_status :: "PublicErrorCode \<Rightarrow> int" where
  "error_status c = (if c = PE_NOT_FOUND then 404 else if c = PE_VERSION_CONFLICT then 409 else 400)"

definition admin_call ::
  "'s tool option \<Rightarrow> Principal \<Rightarrow> string \<Rightarrow> (string \<times> json) list \<Rightarrow> ('s, http_error, json) act" where
  "admin_call runtime p name payload sv = (case runtime of
     None \<Rightarrow> (Inl (HTTPException 503), sv)
   | Some tool \<Rightarrow> (case tool name (JObj (dict_set ''owner_id'' (JStr (admin_owner p)) payload)) (p_tenant_id p) sv of
       (ErrorEnvelope rid c msg b, sv') \<Rightarrow> (Inl (HTTPException (error_status c)), sv')
     | (SuccessEnvelope rid data, sv') \<Rightarrow> (Inr (redact_owner data), sv')))"

definition admin_page :: "int \<Rightarrow> int \<Rightarrow> 'a list \<Rightarrow> 'a list \<times> int option" where
  "admin_page limit cursor xs =
     (let page_size = min (max limit 1) 50; page = take (nat page_size) (drop (nat cursor) xs);
          next = cursor + int (length page)
      in (page, if next < int (length xs) then Some next else None))"

definition json_field :: "string \<Rightarrow> json \<Rightarrow> json option" where
  "json_field k v = (case v of JObj kvs \<Rightarrow> map_of kvs k | _ \<Rightarrow> None)"

definition response_memories :: "json \<Rightarrow> (http_error, json list) res" where
  "response_memories v = (case json_field ''memories'' v of Some (JList vs) \<Rightarrow> Inr vs | _ \<Rightarrow> Inl (HTTPException 500))"

definition ep_list_memories ::
  "AdminEnv \<Rightarrow> Request \<Rightarrow> LocalMailboxAuth \<Rightarrow> 's tool option \<Rightarrow> (string \<Rightarrow> 's \<Rightarrow> (http_error, json list) res) option \<Rightarrow>
     string \<Rightarrow> int \<Rightarrow> int \<Rightarrow> ('s, http_error, json list \<times> int option) act" where
  "ep_list_memories env rq s runtime lister query limit cursor =
     act_bind (act_res (fst (guarded_read env rq MEMORY_READ s))) (\<lambda>p.
     act_bind (act_guard (0 \<le> cursor) (HTTPException 400)) (\<lambda>_.
     act_bind (case (query, lister) of
         ([], Some list) \<Rightarrow> act_bind (act_getr (list (admin_owner p))) (\<lambda>items.
           act_return (map (\<lambda>item. JObj [(''memory'', item)]) items))
       | _ \<Rightarrow> act_bind (admin_call runtime p ''memory.search'' [(''query'', JStr query), (''limit'', JInt 50)]) (\<lambda>data.
           act_res (response_memories data))) (\<lambda>memories.
     act_return (admin_page limit cursor memories))))"

record MemoryWriteRequest =
  mw_content :: string
  mw_type :: string
  mw_provenance :: "(string \<times> json) list"
  mw_idempotency_key :: string
  mw_importance :: pyfloat
  mw_confidence :: pyfloat

definition memory_write_request_ok :: "MemoryWriteRequest \<Rightarrow> bool" where
  "memory_write_request_ok w \<longleftrightarrow> 1 \<le> length (mw_content w) \<and> length (mw_content w) \<le> 16384 \<and>
     1 \<le> length (mw_idempotency_key w) \<and> length (mw_idempotency_key w) \<le> 128 \<and>
     0 \<le> mw_importance w \<and> mw_importance w \<le> 1 \<and> 0 \<le> mw_confidence w \<and> mw_confidence w \<le> 1"

definition ep_create_memory ::
  "AdminEnv \<Rightarrow> Request \<Rightarrow> LocalMailboxAuth \<Rightarrow> 's tool option \<Rightarrow> MemoryWriteRequest \<Rightarrow> ('s, http_error, json) act" where
  "ep_create_memory env rq s runtime w =
     act_bind (act_guard (memory_write_request_ok w) (HTTPException 422)) (\<lambda>_.
     act_bind (act_res (fst (guarded_change env rq MEMORY_WRITE s))) (\<lambda>p.
     admin_call runtime p ''memory.write''
       [(''content'', JStr (mw_content w)), (''type'', JStr (mw_type w)), (''provenance'', JObj (mw_provenance w)),
        (''idempotency_key'', JStr (mw_idempotency_key w)), (''importance'', JFloat (mw_importance w)),
        (''confidence'', JFloat (mw_confidence w))]))"

fun find_memory :: "string \<Rightarrow> json list \<Rightarrow> json option" where
  "find_memory mid [] = None"
| "find_memory mid (item # items) = (case json_field ''memory'' item of
     Some (JObj kvs) \<Rightarrow> if map_of kvs ''id'' = Some (JStr mid) then Some (JObj kvs) else find_memory mid items
   | _ \<Rightarrow> find_memory mid items)"

definition ep_get_memory ::
  "AdminEnv \<Rightarrow> Request \<Rightarrow> LocalMailboxAuth \<Rightarrow> 's tool option \<Rightarrow> (string \<Rightarrow> 's \<Rightarrow> (http_error, json list) res) option \<Rightarrow>
     (string \<Rightarrow> string \<Rightarrow> 's \<Rightarrow> (http_error, json) res) option \<Rightarrow> string \<Rightarrow> ('s, http_error, json) act" where
  "ep_get_memory env rq s runtime lister getter mid =
     act_bind (act_res (fst (guarded_read env rq MEMORY_READ s))) (\<lambda>p.
     case getter of
       Some get \<Rightarrow> act_bind (act_getr (get (admin_owner p) mid)) (\<lambda>m.
         case m of JObj kvs \<Rightarrow> act_return (redact_owner m) | _ \<Rightarrow> act_raise (HTTPException 404))
     | None \<Rightarrow> act_bind (ep_list_memories env rq s runtime lister ''memory'' 50 0) (\<lambda>(items, next).
         case find_memory mid items of None \<Rightarrow> act_raise (HTTPException 404) | Some m \<Rightarrow> act_return m))"

record MemoryUpdateRequest =
  mu_expected_version :: int
  mu_patch :: "(string \<times> json) list"
  mu_idempotency_key :: string

definition ep_update_memory ::
  "AdminEnv \<Rightarrow> Request \<Rightarrow> LocalMailboxAuth \<Rightarrow> 's tool option \<Rightarrow> string \<Rightarrow> MemoryUpdateRequest \<Rightarrow> ('s, http_error, json) act" where
  "ep_update_memory env rq s runtime mid u =
     act_bind (act_guard (1 \<le> mu_expected_version u \<and> 1 \<le> length (mu_idempotency_key u) \<and>
       length (mu_idempotency_key u) \<le> 128) (HTTPException 422)) (\<lambda>_.
     act_bind (act_res (fst (guarded_change env rq MEMORY_WRITE s))) (\<lambda>p.
     admin_call runtime p ''memory.update''
       [(''id'', JStr mid), (''expected_version'', JInt (mu_expected_version u)), (''patch'', JObj (mu_patch u)),
        (''idempotency_key'', JStr (mu_idempotency_key u))]))"

definition ep_forget_memory ::
  "AdminEnv \<Rightarrow> Request \<Rightarrow> LocalMailboxAuth \<Rightarrow> 's tool option \<Rightarrow> string \<Rightarrow> string \<Rightarrow> ('s, http_error, json) act" where
  "ep_forget_memory env rq s runtime mid key =
     act_bind (act_res (fst (guarded_change env rq MEMORY_DELETE s))) (\<lambda>p.
     admin_call runtime p ''memory.forget'' [(''id'', JStr mid), (''idempotency_key'', JStr key)])"

end
