(* ===== verification/Admin_Properties.thy ===== *)
theory Admin_Properties
  imports Cloud_Admin Store_Interfaces
begin

text \<open>
  Correctness of the administrative API: an invariant of the session state, the guard in front of
  every change, single use of magic links, isolation of tenants, the finality of an account
  deletion, the path from a created agent credential to the principal it authenticates, and paging.
\<close>

section \<open>Calls and steps\<close>

text \<open>\<open>CallDelete\<close> carries the outcome of the memory service's \<open>delete_owner\<close>, if it has that method.\<close>

datatype AdminCall =
    CallMagicLink string string
  | CallCallback string
  | CallLogout
  | CallCreateConnection string "Scope list"
  | CallRevokeConnection string
  | CallCreateCredential string "Scope list" int
  | CallRevokeCredential string
  | CallExport
  | CallDelete "(http_error, int) res option"

definition forget_result :: "'a aact \<Rightarrow> unit aact" where
  "forget_result m s = (case m s of (Inl e, t) \<Rightarrow> (Inl e, t) | (Inr a, t) \<Rightarrow> (Inr (), t))"

fun admin_run :: "AdminEnv \<Rightarrow> Request \<Rightarrow> AdminCall \<Rightarrow> unit aact" where
  "admin_run env rq (CallMagicLink email redirect) = ep_magic_link env email redirect"
| "admin_run env rq (CallCallback token) = forget_result (ep_callback env token)"
| "admin_run env rq CallLogout = ep_logout env rq"
| "admin_run env rq (CallCreateConnection name scopes) = forget_result (ep_create_connection env rq name scopes)"
| "admin_run env rq (CallRevokeConnection cid) = forget_result (ep_revoke_connection env rq cid)"
| "admin_run env rq (CallCreateCredential name scopes n) = forget_result (ep_create_agent_credential env rq name scopes n)"
| "admin_run env rq (CallRevokeCredential cid) = forget_result (ep_revoke_agent_credential env rq cid)"
| "admin_run env rq CallExport = forget_result (ep_request_export env rq)"
| "admin_run env rq (CallDelete d) =
     (\<lambda>s. case ep_account_deletion env rq (map_option (\<lambda>x owner sv. (x, sv)) d) (s, ()) of
        (Inl e, (t, u)) \<Rightarrow> (Inl e, t) | (Inr a, (t, u)) \<Rightarrow> (Inr (), t))"

text \<open>The texts a call draws were never drawn before, and are not empty.\<close>

definition fresh_tokens :: "AdminEnv \<Rightarrow> LocalMailboxAuth \<Rightarrow> bool" where
  "fresh_tokens env s \<longleftrightarrow>
     ad_token env 0 \<noteq> [] \<and> ad_token env 1 \<noteq> [] \<and> list_all ascii_char (ad_token env 1) \<and>
     dict_get (la_links s) (sha_hex env (ad_token env 0)) = None \<and>
     dict_get (la_sessions s) (sha_hex env (ad_token env 0)) = None \<and>
     dict_get (la_connections s) (connection_key env) = None \<and>
     dict_get (la_agent_credentials s) (credential_key env) = None \<and>
     dict_get (la_agent_token_index s) (sha_hex env (access_token env)) = None \<and>
     dict_get (la_operations s) (receipt_key env) = None"

inductive admin_step :: "(bytes \<Rightarrow> string) \<Rightarrow> LocalMailboxAuth \<Rightarrow> LocalMailboxAuth \<Rightarrow> bool" for sha where
  admin_call: "ad_sha env = sha \<Longrightarrow> fresh_tokens env s \<Longrightarrow> admin_run env rq call s = (r, t) \<Longrightarrow> admin_step sha s t"

section \<open>What a call changes\<close>

lemma mailbox_receipt_run [simp]:
  "mailbox_receipt env kind p status s = (Inr (make_receipt env kind p status), store_receipt (make_receipt env kind p status) s)"
  by (simp add: mailbox_receipt_def Let_def act_bind_def act_run)

lemma store_receipt_frame [simp]:
  "la_links (store_receipt r s) = la_links s" "la_sessions (store_receipt r s) = la_sessions s"
  "la_csrf (store_receipt r s) = la_csrf s" "la_connections (store_receipt r s) = la_connections s"
  "la_agent_credentials (store_receipt r s) = la_agent_credentials s"
  "la_agent_token_index (store_receipt r s) = la_agent_token_index s"
  "la_deleted_tenants (store_receipt r s) = la_deleted_tenants s"
  "la_operations (store_receipt r s) = dict_set (op_id r) r (la_operations s)"
  by (simp_all add: store_receipt_def)

text \<open>What a call does when it does anything: the effects, each under its guard.\<close>

inductive admin_effect :: "AdminEnv \<Rightarrow> Request \<Rightarrow> LocalMailboxAuth \<Rightarrow> LocalMailboxAuth \<Rightarrow> bool" for env rq s where
  ef_none: "admin_effect env rq s s"
| ef_request: "admin_effect env rq s (snd (mailbox_request env email s))"
| ef_consume: "admin_effect env rq s (snd (mailbox_consume env raw s))"
| ef_logout: "require_csrf env rq s = Inr p \<Longrightarrow> admin_effect env rq s (mailbox_logout env (rq_session rq) s)"
| ef_connect: "require_csrf env rq s = Inr p \<Longrightarrow> requires_scope env p CONNECTIONS_MANAGE = Inr () \<Longrightarrow>
    admin_effect env rq s (store_receipt (make_receipt env kind p status)
      (s\<lparr>la_connections := dict_set (connection_key env) (new_connection env p name scopes) (la_connections s)\<rparr>))"
| ef_disconnect: "require_csrf env rq s = Inr p \<Longrightarrow> requires_scope env p CONNECTIONS_MANAGE = Inr () \<Longrightarrow>
    dict_get (la_connections s) cid = Some c \<Longrightarrow> co_tenant_id c = uuid_str (p_tenant_id p) \<Longrightarrow>
    admin_effect env rq s (store_receipt (make_receipt env kind p status)
      (s\<lparr>la_connections := dict_set cid (c\<lparr>co_status := ''revoked''\<rparr>) (la_connections s)\<rparr>))"
| ef_credential: "require_csrf env rq s = Inr p \<Longrightarrow> requires_scope env p CONNECTIONS_MANAGE = Inr () \<Longrightarrow>
    admin_effect env rq s (store_credential env (new_credential env p name scopes n) s)"
| ef_revoke: "require_csrf env rq s = Inr p \<Longrightarrow> requires_scope env p CONNECTIONS_MANAGE = Inr () \<Longrightarrow>
    dict_get (la_agent_credentials s) cid = Some a \<Longrightarrow> ac_tenant_id a = uuid_str (p_tenant_id p) \<Longrightarrow>
    admin_effect env rq s (store_receipt (make_receipt env kind p status)
      (s\<lparr>la_agent_credentials := dict_set cid (a\<lparr>ac_revoked := True\<rparr>) (la_agent_credentials s)\<rparr>))"
| ef_receipt: "require_csrf env rq s = Inr p \<Longrightarrow> admin_effect env rq s (store_receipt (make_receipt env kind p status) s)"
| ef_delete: "require_csrf env rq s = Inr p \<Longrightarrow>
    admin_effect env rq s (store_receipt (make_receipt env kind p status) (mailbox_delete_tenant p s))"

lemma guarded_change_run:
  "guarded_change env rq scope s = (case require_csrf env rq s of
     Inl e \<Rightarrow> (Inl e, s)
   | Inr p \<Rightarrow> (case requires_scope env p scope of Inl e \<Rightarrow> (Inl e, s) | Inr u \<Rightarrow> (Inr p, s)))"
  by (auto simp: guarded_change_def act_bind_def act_run split: sum.splits)

lemma forget_result_snd: "forget_result m s = (r, t) \<longleftrightarrow> t = snd (m s) \<and> r = map_sum id (\<lambda>_. ()) (fst (m s))"
  by (auto simp: forget_result_def split: prod.splits sum.splits)

lemma admin_run_effect:
  assumes "admin_run env rq call s = (r, t)"
  shows "admin_effect env rq s t"
proof (cases call)
  case (CallMagicLink email redirect)
  with assms show ?thesis
    by (auto simp: ep_magic_link_def act_bind_def act_run res_guard_def intro: admin_effect.intros split: if_splits)
next
  case (CallCallback token)
  then have "t = snd (mailbox_consume env token s)"
    using assms by (auto simp: forget_result_snd ep_callback_def split: prod.splits option.splits)
  then show ?thesis by (auto intro: admin_effect.intros)
next
  case CallLogout
  with assms show ?thesis
    by (auto simp: ep_logout_def act_bind_def act_run intro: admin_effect.intros split: sum.splits)
next
  case (CallCreateConnection name scopes)
  with assms show ?thesis
    by (auto simp: forget_result_snd ep_create_connection_def act_bind_def act_run res_guard_def guarded_change_run
        Let_def
        intro: admin_effect.intros split: sum.splits prod.splits if_splits)
next
  case (CallRevokeConnection cid)
  with assms show ?thesis
    by (auto simp: forget_result_snd ep_revoke_connection_def act_bind_def act_run res_guard_def guarded_change_run
        Let_def intro: admin_effect.intros split: sum.splits prod.splits if_splits option.splits)
next
  case (CallCreateCredential name scopes n)
  with assms show ?thesis
    by (auto simp: forget_result_snd ep_create_agent_credential_def act_bind_def act_run res_guard_def guarded_change_run
        Let_def intro: admin_effect.intros split: sum.splits prod.splits if_splits)
next
  case (CallRevokeCredential cid)
  with assms show ?thesis
    by (auto simp: forget_result_snd ep_revoke_agent_credential_def act_bind_def act_run res_guard_def guarded_change_run
        Let_def intro: admin_effect.intros split: sum.splits prod.splits if_splits option.splits)
next
  case CallExport
  with assms show ?thesis
    by (auto simp: forget_result_snd ep_request_export_def act_bind_def act_run guarded_change_run
        intro: admin_effect.intros split: sum.splits prod.splits)
next
  case (CallDelete d)
  with assms show ?thesis
    by (auto simp: ep_account_deletion_def intro: admin_effect.intros split: sum.splits prod.splits option.splits)
qed

section \<open>The invariant\<close>

definition admin_ok :: "LocalMailboxAuth \<Rightarrow> bool" where
  "admin_ok s \<longleftrightarrow> dict_ok (la_sessions s) \<and>
     (\<forall>d. dict_get (la_sessions s) d = None \<longleftrightarrow> dict_get (la_csrf s) d = None) \<and>
     (\<forall>d tok. dict_get (la_csrf s) d = Some tok \<longrightarrow> tok \<noteq> [] \<and> list_all ascii_char tok) \<and>
     (\<forall>g cid. dict_get (la_agent_token_index s) g = Some cid \<longrightarrow>
        (\<exists>c. dict_get (la_agent_credentials s) cid = Some c \<and> ac_token_digest c = g)) \<and>
     (\<forall>cid c. dict_get (la_agent_credentials s) cid = Some c \<longrightarrow> ac_tenant_id c \<in> la_deleted_tenants s \<longrightarrow> ac_revoked c) \<and>
     (\<forall>cid c. dict_get (la_connections s) cid = Some c \<longrightarrow> co_tenant_id c \<in> la_deleted_tenants s \<longrightarrow>
        co_status c = ''revoked'')"

lemma admin_okD:
  assumes "admin_ok s"
  shows "dict_ok (la_sessions s)"
    and "dict_get (la_sessions s) d = None \<longleftrightarrow> dict_get (la_csrf s) d = None"
    and "dict_get (la_csrf s) d = Some tok \<Longrightarrow> tok \<noteq> [] \<and> list_all ascii_char tok"
    and "dict_get (la_agent_token_index s) g = Some cid \<Longrightarrow>
        \<exists>c. dict_get (la_agent_credentials s) cid = Some c \<and> ac_token_digest c = g"
    and "dict_get (la_agent_credentials s) cid = Some a \<Longrightarrow> ac_tenant_id a \<in> la_deleted_tenants s \<Longrightarrow> ac_revoked a"
    and "dict_get (la_connections s) cid = Some c \<Longrightarrow> co_tenant_id c \<in> la_deleted_tenants s \<Longrightarrow> co_status c = ''revoked''"
  using assms unfolding admin_ok_def by blast+

lemma mailbox_init_ok: "mailbox_init secure limit window = Inr s \<Longrightarrow> admin_ok s"
  by (auto simp: mailbox_init_def admin_ok_def split: if_splits)

lemma require_csrf_Inr:
  "require_csrf env rq s = Inr p \<longleftrightarrow> mailbox_session env (rq_session rq) s = Some p \<and>
     compare_digest (or_empty (rq_csrf_header rq)) (or_empty (mailbox_csrf env (rq_session rq) s)) = Inr True"
  by (auto simp: require_csrf_def admin_principal_def act_simps split: option.splits sum.splits)

lemma mailbox_session_Some:
  "mailbox_session env raw s = Some p \<longleftrightarrow> (\<exists>x. raw = Some x \<and> x \<noteq> [] \<and>
     dict_get (la_sessions s) (sha_hex env x) = Some p \<and> uuid_str (p_tenant_id p) \<notin> la_deleted_tenants s)"
  by (cases raw) (auto simp: mailbox_session_def split: option.splits)

lemma dict_get_fold_pop: "dict_get (fold dict_pop ks d) k = (if k \<in> set ks then None else dict_get d k)"
  by (induction ks arbitrary: d) (auto simp: delete_conv')

lemma dict_ok_fold_pop: "dict_ok d \<Longrightarrow> dict_ok (fold dict_pop ks d)"
  by (induction ks arbitrary: d) auto

lemma dict_get_map_value: "dict_get (map (\<lambda>(k, v). (k, f v)) d) k = map_option f (dict_get d k)"
  by (induction d) auto

lemma admin_ok_request:
  assumes "admin_ok s"
  shows "admin_ok (snd (mailbox_request env email s))"
  using assms by (simp add: mailbox_request_def admin_ok_def Let_def)

lemma admin_ok_consume:
  assumes "admin_ok s" "fresh_tokens env s"
  shows "admin_ok (snd (mailbox_consume env raw s))"
proof (cases "snd (mailbox_consume env raw s) = s")
  case False
  then obtain link where t: "snd (mailbox_consume env raw s) =
      s\<lparr>la_links := dict_set (sha_hex env raw) (link\<lparr>ml_used := True\<rparr>) (la_links s),
        la_sessions := dict_set (sha_hex env (ad_token env 0)) (ml_principal link) (la_sessions s),
        la_csrf := dict_set (sha_hex env (ad_token env 0)) (ad_token env 1) (la_csrf s)\<rparr>"
    by (auto simp: mailbox_consume_def Let_def split: option.splits if_splits)
  from assms show ?thesis
    unfolding t admin_ok_def fresh_tokens_def by (auto simp: update_conv' intro: dict_ok_set)
qed (use assms in simp)

lemma admin_ok_logout:
  assumes "admin_ok s"
  shows "admin_ok (mailbox_logout env raw s)"
  using assms unfolding admin_ok_def mailbox_logout_def Let_def
  by (auto simp: delete_conv' intro: dict_ok_pop split: if_splits)

lemma admin_ok_receipt [simp]: "admin_ok (store_receipt r s) = admin_ok s"
  by (simp add: admin_ok_def)

lemma admin_ok_connection:
  assumes "admin_ok s" "co_tenant_id c \<in> la_deleted_tenants s \<longrightarrow> co_status c = ''revoked''"
  shows "admin_ok (s\<lparr>la_connections := dict_set cid c (la_connections s)\<rparr>)"
  using assms unfolding admin_ok_def by (auto simp: update_conv')

lemma admin_ok_new_credential:
  assumes "admin_ok s" "fresh_tokens env s" "uuid_str (p_tenant_id p) \<notin> la_deleted_tenants s"
  shows "admin_ok (store_credential env (new_credential env p name scopes n) s)"
proof -
  have old: "dict_get (la_agent_token_index s) g \<noteq> Some (credential_key env)" for g
    using admin_okD(4) [OF assms(1), of g "credential_key env"] assms(2) by (auto simp: fresh_tokens_def)
  from assms show ?thesis
    unfolding admin_ok_def store_credential_def
    by (auto simp: update_conv' new_credential_def old)
qed

lemma admin_ok_revoke:
  assumes "admin_ok s" "dict_get (la_agent_credentials s) cid = Some a"
  shows "admin_ok (s\<lparr>la_agent_credentials := dict_set cid (a\<lparr>ac_revoked := True\<rparr>) (la_agent_credentials s)\<rparr>)"
proof -
  have "\<exists>c. (if cid' = cid then Some (a\<lparr>ac_revoked := True\<rparr>) else dict_get (la_agent_credentials s) cid') = Some c \<and>
      ac_token_digest c = g" if "dict_get (la_agent_token_index s) g = Some cid'" for g cid'
    using admin_okD(4) [OF assms(1) that] assms(2) by auto
  with assms(1) show ?thesis unfolding admin_ok_def by (auto simp: update_conv')
qed

lemma delete_tenant_simps:
  fixes p s
  defines "t \<equiv> mailbox_delete_tenant p s" and "T \<equiv> uuid_str (p_tenant_id p)"
  shows "la_deleted_tenants t = insert T (la_deleted_tenants s)"
    and "dict_get (la_connections t) cid = map_option (\<lambda>c. if co_tenant_id c = T then c\<lparr>co_status := ''revoked''\<rparr> else c)
      (dict_get (la_connections s) cid)"
    and "dict_get (la_agent_credentials t) cid = map_option (revoke_credential T) (dict_get (la_agent_credentials s) cid)"
    and "dict_get (la_agent_token_index t) g = (if \<exists>c\<in>set (dict_values (la_agent_credentials s)).
        ac_tenant_id c = T \<and> ac_token_digest c = g then None else dict_get (la_agent_token_index s) g)"
    and "la_links t = la_links s" "la_operations t = la_operations s"
  by (auto simp: assms mailbox_delete_tenant_def Let_def dict_get_fold_pop dict_get_map_value)

lemma admin_ok_delete:
  assumes "admin_ok s"
  shows "admin_ok (mailbox_delete_tenant p s)"
proof -
  let ?t = "mailbox_delete_tenant p s"
  define ks where "ks = map fst (filter (\<lambda>(d, v). uuid_str (p_tenant_id v) = uuid_str (p_tenant_id p)) (la_sessions s))"
  have sess: "la_sessions ?t = fold dict_pop ks (la_sessions s)" "la_csrf ?t = fold dict_pop ks (la_csrf s)"
    by (simp_all add: mailbox_delete_tenant_def Let_def ks_def)
  have "dict_ok (la_sessions ?t)" by (simp add: sess dict_ok_fold_pop admin_okD(1) [OF assms])
  moreover have "dict_get (la_sessions ?t) d = None \<longleftrightarrow> dict_get (la_csrf ?t) d = None" for d
    by (simp add: sess dict_get_fold_pop admin_okD(2) [OF assms])
  moreover have "tok \<noteq> [] \<and> list_all ascii_char tok" if "dict_get (la_csrf ?t) d = Some tok" for d tok
    using that admin_okD(3) [OF assms, of d tok] by (simp add: sess dict_get_fold_pop split: if_splits)
  moreover have "\<exists>c. dict_get (la_agent_credentials ?t) cid = Some c \<and> ac_token_digest c = g"
    if "dict_get (la_agent_token_index ?t) g = Some cid" for g cid
  proof -
    have "dict_get (la_agent_token_index s) g = Some cid"
      using that unfolding delete_tenant_simps by (meson option.distinct(1))
    from admin_okD(4) [OF assms this] obtain c where
      "dict_get (la_agent_credentials s) cid = Some c" "ac_token_digest c = g" by blast
    then show ?thesis by (simp add: delete_tenant_simps revoke_credential_def)
  qed
  moreover have "ac_revoked a" if "dict_get (la_agent_credentials ?t) cid = Some a"
    "ac_tenant_id a \<in> la_deleted_tenants ?t" for cid a
  proof -
    from that(1) obtain c where "dict_get (la_agent_credentials s) cid = Some c"
      "a = revoke_credential (uuid_str (p_tenant_id p)) c" by (auto simp: delete_tenant_simps)
    with that(2) admin_okD(5) [OF assms] show ?thesis
      by (cases "ac_tenant_id c = uuid_str (p_tenant_id p)") (simp_all add: delete_tenant_simps revoke_credential_def)
  qed
  moreover have "co_status c = ''revoked''" if "dict_get (la_connections ?t) cid = Some c"
    "co_tenant_id c \<in> la_deleted_tenants ?t" for cid c
  proof -
    from that(1) obtain d where "dict_get (la_connections s) cid = Some d"
      "c = (if co_tenant_id d = uuid_str (p_tenant_id p) then d\<lparr>co_status := ''revoked''\<rparr> else d)"
      by (auto simp: delete_tenant_simps)
    with that(2) admin_okD(6) [OF assms] show ?thesis
      by (cases "co_tenant_id d = uuid_str (p_tenant_id p)") (simp_all add: delete_tenant_simps)
  qed
  ultimately show ?thesis unfolding admin_ok_def by blast
qed

lemma admin_effect_ok:
  assumes "admin_effect env rq s t" "fresh_tokens env s" "admin_ok s"
  shows "admin_ok t"
  using assms(1)
proof cases
  case (ef_connect p kind status name scopes)
  then have "uuid_str (p_tenant_id p) \<notin> la_deleted_tenants s" by (auto simp: require_csrf_Inr mailbox_session_Some)
  then show ?thesis unfolding ef_connect(1) using assms(3)
    by (auto simp: new_connection_def intro: admin_ok_connection)
next
  case (ef_credential p name scopes n)
  then have "uuid_str (p_tenant_id p) \<notin> la_deleted_tenants s" by (auto simp: require_csrf_Inr mailbox_session_Some)
  then show ?thesis unfolding ef_credential(1) by (rule admin_ok_new_credential [OF assms(3,2)])
next
  case (ef_consume raw)
  then show ?thesis using admin_ok_consume assms by simp
qed (use assms in \<open>auto intro: admin_ok_request admin_ok_logout admin_ok_connection admin_ok_revoke admin_ok_delete\<close>)

lemma admin_step_ok: "admin_step sha s t \<Longrightarrow> admin_ok s \<Longrightarrow> admin_ok t"
  by (induction rule: admin_step.induct) (blast intro: admin_effect_ok admin_run_effect)

section \<open>Access of a deleted tenant\<close>

text \<open>A tenant has access through a session, through an agent credential or through a connection.\<close>

definition has_access :: "string \<Rightarrow> LocalMailboxAuth \<Rightarrow> bool" where
  "has_access T s \<longleftrightarrow>
     (\<exists>env raw p. mailbox_session env raw s = Some p \<and> uuid_str (p_tenant_id p) = T) \<or>
     (\<exists>cid c. dict_get (la_agent_credentials s) cid = Some c \<and> ac_tenant_id c = T \<and> \<not> ac_revoked c) \<or>
     (\<exists>cid c. dict_get (la_connections s) cid = Some c \<and> co_tenant_id c = T \<and> co_status c \<noteq> ''revoked'')"

definition tenant_deleted :: "string \<Rightarrow> LocalMailboxAuth \<Rightarrow> bool" where
  "tenant_deleted T s \<longleftrightarrow> T \<in> la_deleted_tenants s"

lemma tenant_deleted_absent: "admin_ok s \<Longrightarrow> tenant_deleted T s \<Longrightarrow> \<not> has_access T s"
  using admin_okD(5,6) by (fastforce simp: has_access_def tenant_deleted_def mailbox_session_Some)

lemma admin_effect_deleted: "admin_effect env rq s t \<Longrightarrow> tenant_deleted T s \<Longrightarrow> tenant_deleted T t"
  by (induction rule: admin_effect.induct)
     (auto simp: tenant_deleted_def mailbox_request_def mailbox_consume_def mailbox_logout_def
       store_credential_def delete_tenant_simps Let_def split: option.splits if_splits)

lemma admin_step_deleted: "admin_step sha s t \<Longrightarrow> tenant_deleted T s \<Longrightarrow> tenant_deleted T t"
  by (induction rule: admin_step.induct) (blast intro: admin_effect_deleted admin_run_effect)

interpretation admin_ledger: deletion_ledger admin_ok "admin_step sha" has_access tenant_deleted for sha
proof
  show "admin_ok s \<Longrightarrow> admin_step sha s t \<Longrightarrow> admin_ok t" for s t by (rule admin_step_ok)
  show "admin_step sha s t \<Longrightarrow> tenant_deleted T s \<Longrightarrow> tenant_deleted T t" for s t T by (rule admin_step_deleted)
  show "admin_ok s \<Longrightarrow> tenant_deleted T s \<Longrightarrow> \<not> has_access T s" for s T by (rule tenant_deleted_absent)
qed

lemma verify_token_Some:
  "verify_token env issuer audience token s = Some a \<longleftrightarrow>
     (\<exists>cid c expires scopes. dict_get (la_agent_token_index s) (sha_hex env token) = Some cid \<and>
        dict_get (la_agent_credentials s) cid = Some c \<and> ac_token_digest c = sha_hex env token \<and>
        ad_fromiso env (ac_expires_at c) = Some expires \<and> res_map scope_member (ac_scopes c) = Inr scopes \<and>
        \<not> ac_revoked c \<and> dt_aware expires = dt_aware (ad_clock env) \<and>
        dt_instant (ad_clock env) < dt_instant expires \<and>
        a = \<lparr>at_token = token, at_client_id = ''local-agent:'' @ cid, at_resource = audience,
          at_access = \<lparr>tok_subject = Some (ac_subject_id c),
            tok_claims = [(''iss'', issuer), (''tenant_id'', ac_tenant_id c),
              (''membership_id'', ac_membership_id c), (''credential_id'', ac_credential_id c)],
            tok_scopes = map scope_value scopes, tok_expires_at = Some (timestamp_int expires)\<rparr>\<rparr>)"
  by (auto simp: verify_token_def Let_def not_le split: option.splits sum.splits if_splits)

lemma account_deletion_state:
  assumes "ep_account_deletion env rq (Some del) (s, sv) = (Inr x, (t, sv'))"
  shows "\<exists>p n. require_csrf env rq s = Inr p \<and> del (admin_owner p) sv = (Inr n, sv') \<and>
     t = store_receipt (make_receipt env ''account.deletion'' p ''done'') (mailbox_delete_tenant p s)"
  using assms by (auto simp: ep_account_deletion_def split: sum.splits prod.splits)

lemma deletion_revokes:
  assumes "admin_ok s" "ep_account_deletion env rq (Some del) (s, sv) = (Inr x, (t, sv'))"
    and "require_csrf env rq s = Inr p"
  shows "admin_ok t \<and> tenant_deleted (uuid_str (p_tenant_id p)) t"
  using account_deletion_state [OF assms(2)] assms(3) admin_ok_delete [OF assms(1), of p]
  by (auto simp: tenant_deleted_def delete_tenant_simps)

text \<open>C33: An account deletion is final. Once the deletion handler has answered for a principal, the
  memory service has deleted what it held for that principal's owner, and in every later state,
  after any calls by anybody (sign-ins with links that were already in the mailbox included), no
  session of that tenant is recognised, its connections are revoked, and no agent token verifies
  to that tenant.\<close>

theorem account_deletion_final:
  assumes "mailbox_init secure limit window = Inr s0" "(admin_step sha)\<^sup>*\<^sup>* s0 s"
    and "ep_account_deletion env rq (Some del) (s, sv) = (Inr x, (t, sv'))" "require_csrf env rq s = Inr p"
    and "(admin_step sha)\<^sup>*\<^sup>* t u"
  shows "(\<exists>n. del (cloud_owner (p_tenant_id p) (subject_id p)) sv = (Inr n, sv')) \<and>
     \<not> has_access (uuid_str (p_tenant_id p)) u \<and>
     (\<forall>env' issuer audience token a. verify_token env' issuer audience token u = Some a \<longrightarrow>
        dict_get (tok_claims (at_access a)) ''tenant_id'' \<noteq> Some (uuid_str (p_tenant_id p)))"
proof -
  have ok: "admin_ok s" by (rule admin_ledger.inv_run [OF assms(2) mailbox_init_ok [OF assms(1)]])
  from deletion_revokes [OF ok assms(3,4)] have
    gone: "\<not> has_access (uuid_str (p_tenant_id p)) u" using admin_ledger.dead_for_good [OF assms(5)] by blast
  have "\<exists>n. del (admin_owner p) sv = (Inr n, sv')"
    using account_deletion_state [OF assms(3)] assms(4) by auto
  with gone show ?thesis by (auto simp: admin_owner_def verify_token_Some has_access_def)
qed

section \<open>Magic links\<close>

definition link_spent :: "string \<Rightarrow> LocalMailboxAuth \<Rightarrow> bool" where
  "link_spent g s \<longleftrightarrow> (\<exists>l. dict_get (la_links s) g = Some l \<and> ml_used l)"

lemma admin_effect_spent:
  assumes "admin_effect env rq s t" "fresh_tokens env s" "link_spent g s"
  shows "link_spent g t"
  using assms(1)
proof cases
  case (ef_request email)
  then show ?thesis using assms(2,3)
    by (auto simp: mailbox_request_def Let_def link_spent_def fresh_tokens_def update_conv')
next
  case (ef_consume raw)
  then show ?thesis using assms(3)
    by (auto simp: mailbox_consume_def Let_def link_spent_def update_conv' split: option.splits)
qed (use assms(3) in \<open>auto simp: link_spent_def mailbox_logout_def store_credential_def delete_tenant_simps Let_def\<close>)

lemma admin_steps_spent: "(admin_step sha)\<^sup>*\<^sup>* s t \<Longrightarrow> link_spent g s \<Longrightarrow> link_spent g t"
proof (induction rule: rtranclp_induct)
  case (step t u)
  from step(2) obtain env rq call r where "fresh_tokens env t" "admin_run env rq call t = (r, u)"
    by (auto elim: admin_step.cases)
  with admin_effect_spent [OF admin_run_effect] step show ?case by blast
qed

text \<open>A magic link signs in at most once. When \<open>consume\<close> has accepted the token of a link, the session
  it returns is recognised with the link's principal as long as that tenant is not deleted, and in
  every later state, whatever calls follow, the same token is refused and changes nothing.\<close>

theorem magic_link_single_use:
  assumes "mailbox_consume env raw s = (Some (session, csrf), t)" "session \<noteq> []"
    and "(admin_step (ad_sha env))\<^sup>*\<^sup>* t u" "ad_sha env' = ad_sha env"
  shows "(\<exists>l. dict_get (la_links s) (sha_hex env raw) = Some l \<and> \<not> ml_used l \<and>
       dt_instant (ad_clock env) < dt_instant (ml_expires_at l) \<and>
       (uuid_str (p_tenant_id (ml_principal l)) \<notin> la_deleted_tenants s \<longrightarrow>
          mailbox_session env' (Some session) t = Some (ml_principal l))) \<and>
     mailbox_consume env' raw u = (None, u)"
proof -
  from assms(1) obtain l where l: "dict_get (la_links s) (sha_hex env raw) = Some l" "\<not> ml_used l"
    "dt_instant (ad_clock env) < dt_instant (ml_expires_at l)"
    and sess: "dict_get (la_sessions t) (sha_hex env session) = Some (ml_principal l)"
    and del: "la_deleted_tenants t = la_deleted_tenants s" and spent: "link_spent (sha_hex env raw) t"
    by (auto simp: mailbox_consume_def Let_def link_spent_def update_conv' split: option.splits if_splits)
  have sha: "sha_hex env' x = sha_hex env x" for x using assms(4) by (simp add: sha_hex_def)
  from admin_steps_spent [OF assms(3) spent] have "mailbox_consume env' raw u = (None, u)"
    by (auto simp: mailbox_consume_def link_spent_def sha)
  with l sess del assms(2) show ?thesis by (auto simp: mailbox_session_Some sha)
qed

section \<open>The guard in front of every change\<close>

lemma compare_digest_True: "compare_digest a b = Inr True \<longleftrightarrow> a = b \<and> list_all ascii_char a"
  by (auto simp: compare_digest_def)

lemma require_csrf_ok:
  assumes "admin_ok s" "require_csrf env rq s = Inr p"
  shows "\<exists>raw tok. rq_session rq = Some raw \<and> raw \<noteq> [] \<and> dict_get (la_sessions s) (sha_hex env raw) = Some p \<and>
     uuid_str (p_tenant_id p) \<notin> la_deleted_tenants s \<and>
     dict_get (la_csrf s) (sha_hex env raw) = Some tok \<and> tok \<noteq> [] \<and> rq_csrf_header rq = Some tok"
proof -
  from assms(2) obtain raw where raw: "rq_session rq = Some raw" "raw \<noteq> []"
    "dict_get (la_sessions s) (sha_hex env raw) = Some p" "uuid_str (p_tenant_id p) \<notin> la_deleted_tenants s"
    by (auto simp: require_csrf_Inr mailbox_session_Some)
  then obtain tok where tok: "dict_get (la_csrf s) (sha_hex env raw) = Some tok"
    using admin_okD(2) [OF assms(1), of "sha_hex env raw"] by auto
  moreover have "tok \<noteq> []" using admin_okD(3) [OF assms(1) tok] by blast
  moreover have "or_empty (rq_csrf_header rq) = tok"
    using assms(2) raw(1,2) tok by (auto simp: require_csrf_Inr mailbox_csrf_def compare_digest_True or_empty_def)
  ultimately show ?thesis using raw by (auto simp: or_empty_def split: option.splits)
qed

text \<open>The scope a call needs; signing in, signing out and deleting the account need none.\<close>

fun needed_scope :: "AdminCall \<Rightarrow> Scope option" where
  "needed_scope (CallMagicLink email redirect) = None"
| "needed_scope (CallCallback token) = None"
| "needed_scope CallLogout = None"
| "needed_scope (CallDelete d) = None"
| "needed_scope CallExport = Some MEMORY_EXPORT"
| "needed_scope _ = Some CONNECTIONS_MANAGE"

fun signs_in :: "AdminCall \<Rightarrow> bool" where
  "signs_in (CallMagicLink email redirect) = True"
| "signs_in (CallCallback token) = True"
| "signs_in _ = False"

lemma requires_scope_Inr:
  "requires_scope env p sc = Inr u \<longleftrightarrow> dt_aware (p_expires_at p) = dt_aware (ad_now env) \<and>
     dt_instant (ad_now env) < dt_instant (p_expires_at p) \<and> sc \<in> set (p_scopes p)"
  by (auto simp: requires_scope_def principal_requires_def res_guard_def not_le split: sum.splits cloud_error.splits)

lemma admin_run_guard:
  assumes "admin_run env rq call s = (r, t)" "\<not> signs_in call" "t \<noteq> s"
  shows "\<exists>p. require_csrf env rq s = Inr p \<and> (\<forall>sc. needed_scope call = Some sc \<longrightarrow> requires_scope env p sc = Inr ())"
  using assms
proof (cases call)
  case (CallRevokeConnection cid)
  with assms show ?thesis
    by (auto simp: forget_result_snd ep_revoke_connection_def act_bind_def act_run guarded_change_run
        split: sum.splits prod.splits)
next
  case (CallRevokeCredential cid)
  with assms show ?thesis
    by (auto simp: forget_result_snd ep_revoke_agent_credential_def act_bind_def act_run guarded_change_run
        split: sum.splits prod.splits)
qed (auto simp: forget_result_snd ep_logout_def ep_create_connection_def ep_create_agent_credential_def
    ep_request_export_def ep_account_deletion_def act_bind_def act_run res_guard_def guarded_change_run
    split: sum.splits prod.splits if_splits option.splits)


section \<open>Isolation of tenants\<close>

definition owned_by :: "('v \<Rightarrow> string) \<Rightarrow> string \<Rightarrow> (string, 'v) dict \<Rightarrow> string \<Rightarrow> 'v option" where
  "owned_by tenant T d k = (case dict_get d k of None \<Rightarrow> None | Some v \<Rightarrow> if tenant v = T then Some v else None)"

definition tenant_view where
  "tenant_view T s = (owned_by co_tenant_id T (la_connections s), owned_by ac_tenant_id T (la_agent_credentials s),
     owned_by op_tenant_id T (la_operations s))"

lemma owned_by_set:
  assumes "tenant v \<noteq> T" "owned_by tenant T d k = None"
  shows "owned_by tenant T (dict_set k v d) = owned_by tenant T d"
  using assms by (auto simp: owned_by_def update_conv' fun_eq_iff)

lemma tenant_view_receipt:
  assumes "dict_get (la_operations s) (receipt_key env) = None" "uuid_str (p_tenant_id p) \<noteq> T"
  shows "tenant_view T (store_receipt (make_receipt env kind p status) s) = tenant_view T s"
proof -
  have "owned_by op_tenant_id T (la_operations s) (receipt_key env) = None" by (simp add: owned_by_def assms(1))
  with owned_by_set [of op_tenant_id "make_receipt env kind p status" T "la_operations s" "receipt_key env"] assms(2)
  show ?thesis by (simp add: tenant_view_def make_receipt_def)
qed

lemma admin_effect_isolated:
  assumes "admin_effect env rq s t" "fresh_tokens env s"
    and "\<And>p. mailbox_session env (rq_session rq) s = Some p \<Longrightarrow> uuid_str (p_tenant_id p) \<noteq> T"
  shows "tenant_view T t = tenant_view T s"
  using assms(1)
proof cases
  case (ef_request email)
  then show ?thesis by (simp add: mailbox_request_def Let_def tenant_view_def)
next
  case (ef_consume raw)
  then show ?thesis by (auto simp: mailbox_consume_def Let_def tenant_view_def split: option.splits)
next
  case (ef_logout p)
  then show ?thesis by (simp add: mailbox_logout_def Let_def tenant_view_def)
next
  case (ef_connect p kind status name scopes)
  then have p: "uuid_str (p_tenant_id p) \<noteq> T" using assms(3) by (auto simp: require_csrf_Inr)
  have new: "dict_get (la_operations s) (receipt_key env) = None" "dict_get (la_connections s) (connection_key env) = None"
    using assms(2) by (simp_all add: fresh_tokens_def)
  show ?thesis unfolding ef_connect(1) using p new
    by (subst tenant_view_receipt) (simp_all add: tenant_view_def owned_by_set new_connection_def owned_by_def [of _ _ _ "connection_key env"])
next
  case (ef_disconnect p cid c kind status)
  then have p: "uuid_str (p_tenant_id p) \<noteq> T" using assms(3) by (auto simp: require_csrf_Inr)
  have new: "dict_get (la_operations s) (receipt_key env) = None" using assms(2) by (simp add: fresh_tokens_def)
  show ?thesis unfolding ef_disconnect(1) using p new ef_disconnect(4,5)
    by (subst tenant_view_receipt) (simp_all add: tenant_view_def owned_by_set owned_by_def [of _ _ _ cid])
next
  case (ef_credential p name scopes n)
  then have p: "uuid_str (p_tenant_id p) \<noteq> T" using assms(3) by (auto simp: require_csrf_Inr)
  have "dict_get (la_agent_credentials s) (credential_key env) = None" using assms(2) by (simp add: fresh_tokens_def)
  with p show ?thesis unfolding ef_credential(1)
    by (simp add: tenant_view_def store_credential_def owned_by_set new_credential_def owned_by_def [of _ _ _ "credential_key env"])
next
  case (ef_revoke p cid a kind status)
  then have p: "uuid_str (p_tenant_id p) \<noteq> T" using assms(3) by (auto simp: require_csrf_Inr)
  have new: "dict_get (la_operations s) (receipt_key env) = None" using assms(2) by (simp add: fresh_tokens_def)
  show ?thesis unfolding ef_revoke(1) using p new ef_revoke(4,5)
    by (subst tenant_view_receipt) (simp_all add: tenant_view_def owned_by_set owned_by_def [of _ _ _ cid])
next
  case (ef_receipt p kind status)
  then show ?thesis using assms(2,3) by (auto simp: require_csrf_Inr fresh_tokens_def intro: tenant_view_receipt)
next
  case (ef_delete p kind status)
  then have p: "uuid_str (p_tenant_id p) \<noteq> T" using assms(3) by (auto simp: require_csrf_Inr)
  have new: "dict_get (la_operations s) (receipt_key env) = None" using assms(2) by (simp add: fresh_tokens_def)
  have "tenant_view T (mailbox_delete_tenant p s) = tenant_view T s"
    using p by (auto simp: tenant_view_def owned_by_def delete_tenant_simps revoke_credential_def fun_eq_iff
        split: option.splits)
  with p new show ?thesis unfolding ef_delete(1) by (subst tenant_view_receipt) (simp_all add: delete_tenant_simps)
qed simp


section \<open>From a created credential to its principal\<close>

lemma scope_member_value [simp]: "scope_member (scope_value c) = Inr c"
proof -
  have "scope_of (scope_value c) = Some c" by (simp add: scope_of_Some)
  then show ?thesis by (simp add: scope_member_def)
qed

lemma res_map_scopes: "res_map scope_member (map scope_value cs) = Inr cs"
  by (induction cs) simp_all

lemma sorted_scopes: "\<exists>cs. sort (remdups (map scope_value scopes)) = map scope_value cs \<and> set cs = set scopes"
proof -
  define f where "f v = (SOME c. c \<in> set scopes \<and> scope_value c = v)" for v
  define vs where "vs = sort (remdups (map scope_value scopes))"
  have f: "f v \<in> set scopes \<and> scope_value (f v) = v" if "v \<in> set vs" for v
    using that unfolding f_def vs_def by (intro someI_ex [of "\<lambda>c. c \<in> set scopes \<and> scope_value c = v"]) auto
  have inj: "c = f (scope_value c)" if "c \<in> set scopes" for c
  proof -
    have "scope_value (f (scope_value c)) = scope_value c" using f [of "scope_value c"] that by (simp add: vs_def)
    then show ?thesis by (metis scope_member_value sum.inject(2))
  qed
  have "vs = map scope_value (map f vs)" using f by (simp add: map_idI)
  moreover have "set (map f vs) = set scopes" using f inj by (fastforce simp: vs_def image_iff)
  ultimately show ?thesis unfolding vs_def by blast
qed

lemma create_credential_Inr:
  assumes "ep_create_agent_credential env rq name scopes n s = (Inr (pub, raw), t)"
  shows "\<exists>p c. require_csrf env rq s = Inr p \<and> requires_scope env p CONNECTIONS_MANAGE = Inr () \<and>
     c = new_credential env p name scopes n \<and> pub = public_credential c \<and> raw = access_token env \<and>
     t = store_credential env c s"
  using assms by (auto simp: ep_create_agent_credential_def Let_def act_simps guarded_change_run split: sum.splits)

text \<open>C36: An agent credential authenticates exactly its creator's identity. The token that the creation
  handler returns verifies, while it has not expired, to an access token from which the principal of
  the agent is built with the creator's subject, tenant and membership, the credential's own fresh
  identifier and exactly the scopes that were asked for. \<open>fromisoformat\<close> is assumed to read back the
  expiry that was written.\<close>

theorem agent_credential_authenticates:
  assumes "ep_create_agent_credential env rq name scopes n s = (Inr (pub, raw), t)" "require_csrf env rq s = Inr p"
    and "ad_sha env' = ad_sha env" "map_of pub ''expires_at'' = Some (JStr written)" "ad_fromiso env' written = Some expires"
    and "dt_aware expires" "dt_aware (ad_clock env')" "dt_instant (ad_clock env') < dt_instant expires"
  shows "\<exists>a q. verify_token env' issuer audience raw t = Some a \<and>
     principal_from_access_token (at_access a) = Inr q \<and> subject_id q = subject_id p \<and>
     p_tenant_id q = p_tenant_id p \<and> membership_id q = membership_id p \<and> credential_id q = ad_uuid4 env \<and>
     set (p_scopes q) = set scopes"
proof -
  from create_credential_Inr [OF assms(1)] assms(2) obtain c where
    c: "c = new_credential env p name scopes n" "raw = access_token env" "t = store_credential env c s"
      "pub = public_credential c" by auto
  have exp: "ad_fromiso env' (ac_expires_at c) = Some expires" using assms(4,5) by (simp add: c(4) public_credential_def)
  obtain cs where cs: "sort (remdups (map scope_value scopes)) = map scope_value cs" "set cs = set scopes"
    using sorted_scopes by blast
  have sha: "sha_hex env' x = sha_hex env x" for x using assms(3) by (simp add: sha_hex_def)
  have dig: "ac_token_digest c = sha_hex env raw" "\<not> ac_revoked c" "ac_scopes c = map scope_value cs"
    "ac_subject_id c = uuid_str (subject_id p)" "ac_tenant_id c = uuid_str (p_tenant_id p)"
    "ac_membership_id c = uuid_str (membership_id p)" "ac_credential_id c = uuid_str (ad_uuid4 env)"
    by (simp_all add: c new_credential_def cs(1))
  have get: "dict_get (la_agent_token_index t) (sha_hex env raw) = Some (credential_key env)"
    "dict_get (la_agent_credentials t) (credential_key env) = Some c"
    by (simp_all add: c(3) store_credential_def update_conv' dig(1))
  show ?thesis
    using exp assms(6-8)
    by (simp add: verify_token_def sha get dig res_map_scopes principal_from_access_token_def principal_claims_def
        claim_uuid_def cs(2))
qed

section \<open>Paging\<close>

text \<open>What a client collects that follows \<open>next_cursor\<close> until there is none.\<close>

fun all_pages :: "nat \<Rightarrow> int \<Rightarrow> int \<Rightarrow> 'a list \<Rightarrow> 'a list option" where
  "all_pages 0 limit cursor xs = None"
| "all_pages (Suc fuel) limit cursor xs = (case admin_page limit cursor xs of
     (page, None) \<Rightarrow> Some page
   | (page, Some cursor') \<Rightarrow> map_option ((@) page) (all_pages fuel limit cursor' xs))"

lemma all_pages_drop:
  assumes "length (drop (nat cursor) xs) < fuel" "0 \<le> cursor" "cursor \<le> int (length xs)"
  shows "all_pages fuel limit cursor xs = Some (drop (nat cursor) xs)"
  using assms
proof (induction fuel arbitrary: cursor)
  case (Suc fuel)
  define k where "k = nat (min (max limit 1) 50)"
  define page where "page = take k (drop (nat cursor) xs)"
  have "1 \<le> k" by (auto simp: k_def)
  have pg: "admin_page limit cursor xs = (page, if cursor + int (length page) < int (length xs)
      then Some (cursor + int (length page)) else None)"
    unfolding admin_page_def Let_def page_def k_def by simp
  show ?case
  proof (cases "cursor + int (length page) < int (length xs)")
    case True
    then have len: "length page = k" "0 < k" using Suc.prems \<open>1 \<le> k\<close> by (auto simp: page_def)
    let ?c = "cursor + int (length page)"
    have c: "nat ?c = k + nat cursor" using Suc.prems len by simp
    have "all_pages fuel limit ?c xs = Some (drop (nat ?c) xs)"
      using Suc.prems True len by (intro Suc.IH) (auto simp: c)
    moreover have "page @ drop (k + nat cursor) xs = drop (nat cursor) xs"
      using append_take_drop_id [of k "drop (nat cursor) xs"] by (simp add: page_def add.commute)
    then have "page @ drop (nat ?c) xs = drop (nat cursor) xs" by (simp only: c)
    ultimately show ?thesis using True by (simp add: pg)
  next
    case False
    then have "page = drop (nat cursor) xs" using Suc.prems by (auto simp: page_def)
    with False show ?thesis by (simp add: pg)
  qed
qed simp


section \<open>Concrete runs\<close>

definition ex_hash :: "bytes \<Rightarrow> string" where
  "ex_hash b = ''h'' @ b"

definition ex_admin_env :: "nat \<Rightarrow> AdminEnv" where
  "ex_admin_env n = \<lparr>ad_sha = ex_hash, ad_uuid5 = (\<lambda>x. of_nat (length x)),
     ad_fromiso = (\<lambda>_. Some \<lparr>dt_local = 63000001000000000, dt_offset = Some 0\<rparr>),
     ad_clock = \<lparr>dt_local = 63000000000000000, dt_offset = Some 0\<rparr>,
     ad_now = \<lparr>dt_local = 63000000000000000, dt_offset = Some 0\<rparr>,
     ad_token = (\<lambda>i. ''t'' @ nat_str n @ ''-'' @ nat_str i), ad_uuid4 = of_nat n\<rparr>"

definition ex_auth0 :: LocalMailboxAuth where
  "ex_auth0 = \<lparr>la_secure_cookies = False, la_limit = 5, la_window = 900000000, la_outbox = [],
     la_links = [], la_sessions = [], la_csrf = [], la_connections = [], la_agent_credentials = [],
     la_agent_token_index = [], la_operations = [], la_attempts = [], la_deleted_tenants = {}\<rparr>"

definition ex_auth1 :: LocalMailboxAuth where
  "ex_auth1 = snd (mailbox_request (ex_admin_env 1) ''ana@example.org'' ex_auth0)"

definition ex_auth2 :: LocalMailboxAuth where
  "ex_auth2 = snd (mailbox_consume (ex_admin_env 2) ''t1-0'' ex_auth1)"

definition ex_admin_request :: Request where
  "ex_admin_request = \<lparr>rq_session = Some ''t2-0'', rq_csrf_header = Some ''t2-1''\<rparr>"

definition ex_admin_principal :: Principal where
  "ex_admin_principal = principal_for_digest (ex_admin_env 1) (email_digest (ex_admin_env 1) ''ana@example.org'')
     \<lparr>dt_local = 63000003600000000, dt_offset = Some 0\<rparr>"

lemma ex_auth_init: "mailbox_init False 5 900000000 = Inr ex_auth0"
  by (simp add: mailbox_init_def ex_auth0_def)

lemma ex_auth_fresh: "fresh_tokens (ex_admin_env 1) ex_auth0" "fresh_tokens (ex_admin_env 2) ex_auth1"
    "fresh_tokens (ex_admin_env 3) ex_auth2"
  by code_simp+

lemma ex_auth_consumed:
  "mailbox_consume (ex_admin_env 2) ''t1-0'' ex_auth1 = (Some (''t2-0'', ''t2-1''), ex_auth2)"
proof -
  have "fst (mailbox_consume (ex_admin_env 2) ''t1-0'' ex_auth1) = Some (''t2-0'', ''t2-1'')" by code_simp
  then show ?thesis unfolding ex_auth2_def by (metis prod.collapse)
qed

lemma ex_auth_reachable: "(admin_step ex_hash)\<^sup>*\<^sup>* ex_auth0 ex_auth2"
proof -
  have sha: "ad_sha (ex_admin_env n) = ex_hash" for n by (simp add: ex_admin_env_def)
  have "admin_run (ex_admin_env 1) rq (CallMagicLink ''ana@example.org'' ''/'') ex_auth0 = (Inr (), ex_auth1)" for rq
    by (simp add: ep_magic_link_def act_bind_def act_run ex_auth1_def)
  then have "admin_step ex_hash ex_auth0 ex_auth1"
    using admin_step.intros [OF sha ex_auth_fresh(1)] by blast
  moreover have "admin_run (ex_admin_env 2) rq (CallCallback ''t1-0'') ex_auth1 = (Inr (), ex_auth2)" for rq
    by (simp add: forget_result_def ep_callback_def ex_auth_consumed)
  then have "admin_step ex_hash ex_auth1 ex_auth2"
    using admin_step.intros [OF sha ex_auth_fresh(2)] by blast
  ultimately show ?thesis by (meson converse_rtranclp_into_rtranclp rtranclp.rtrancl_refl)
qed

lemma ex_auth_csrf: "require_csrf (ex_admin_env 3) ex_admin_request ex_auth2 = Inr ex_admin_principal"
  by code_simp

theorem account_deletion_final_witness:
  "\<exists>x t. ep_account_deletion (ex_admin_env 3) ex_admin_request (Some (\<lambda>owner sv. (Inr 4, sv))) (ex_auth2, ()) =
       (Inr x, (t, ())) \<and> \<not> has_access (uuid_str (p_tenant_id ex_admin_principal)) t"
proof -
  have "\<exists>x t. ep_account_deletion (ex_admin_env 3) ex_admin_request (Some (\<lambda>owner sv. (Inr 4, sv))) (ex_auth2, ()) =
      (Inr x, (t, ()))" by (simp add: ep_account_deletion_def ex_auth_csrf)
  then obtain x t where run: "ep_account_deletion (ex_admin_env 3) ex_admin_request
      (Some (\<lambda>owner sv. (Inr 4, sv))) (ex_auth2, ()) = (Inr x, (t, ()))" by blast
  from account_deletion_final [OF ex_auth_init ex_auth_reachable run ex_auth_csrf rtranclp.rtrancl_refl] run
  show ?thesis by blast
qed

theorem magic_link_single_use_witness:
  "mailbox_consume (ex_admin_env 3) ''t1-0'' ex_auth2 = (None, ex_auth2) \<and>
     (\<exists>p. mailbox_session (ex_admin_env 3) (Some ''t2-0'') ex_auth2 = Some p)"
proof -
  have d: "la_deleted_tenants ex_auth1 = {}" by code_simp
  from magic_link_single_use [OF ex_auth_consumed _ rtranclp.rtrancl_refl, of "ex_admin_env 3"] d
  show ?thesis by (auto simp: ex_admin_env_def)
qed



theorem agent_credential_authenticates_witness:
  "\<exists>pub raw t a q. ep_create_agent_credential (ex_admin_env 3) ex_admin_request ''bot'' [MEMORY_READ] 600 ex_auth2 = (Inr (pub, raw), t) \<and>
     verify_token (ex_admin_env 4) ''iss'' ''aud'' raw t = Some a \<and> principal_from_access_token (at_access a) = Inr q \<and>
     p_tenant_id q = p_tenant_id ex_admin_principal \<and> set (p_scopes q) = {MEMORY_READ}"
proof -
  have "requires_scope (ex_admin_env 3) ex_admin_principal CONNECTIONS_MANAGE = Inr ()" by code_simp
  then have "\<exists>pub raw t. ep_create_agent_credential (ex_admin_env 3) ex_admin_request ''bot'' [MEMORY_READ] 600 ex_auth2 = (Inr (pub, raw), t)"
    by (simp add: ep_create_agent_credential_def act_bind_def act_run guarded_change_run ex_auth_csrf Let_def)
  then obtain pub raw t where run:
    "ep_create_agent_credential (ex_admin_env 3) ex_admin_request ''bot'' [MEMORY_READ] 600 ex_auth2 = (Inr (pub, raw), t)" by blast
  from create_credential_Inr [OF run] obtain c where "pub = public_credential c" by auto
  then have pub: "map_of pub ''expires_at'' = Some (JStr (ac_expires_at c))" by (simp add: public_credential_def)
  have "\<exists>a q. verify_token (ex_admin_env 4) ''iss'' ''aud'' raw t = Some a \<and>
      principal_from_access_token (at_access a) = Inr q \<and> subject_id q = subject_id ex_admin_principal \<and>
      p_tenant_id q = p_tenant_id ex_admin_principal \<and> membership_id q = membership_id ex_admin_principal \<and>
      credential_id q = ad_uuid4 (ex_admin_env 3) \<and> set (p_scopes q) = set [MEMORY_READ]"
    by (rule agent_credential_authenticates [OF run ex_auth_csrf _ pub,
          where expires = "\<lparr>dt_local = 63000001000000000, dt_offset = Some 0\<rparr>"])
       (simp_all add: ex_admin_env_def dt_aware_def dt_instant_def)
  with run show ?thesis by auto
qed

section \<open>Where the API departs from its own rules\<close>

text \<open>
  Every other handler that needs a session checks the principal's expiry through \<open>requires\<close>; the
  account deletion does not, so an hour after sign-in, when nothing else works any more, the cookie
  still deletes the account.
\<close>

theorem expired_session_deletes_account:
  assumes "require_csrf env rq s = Inr p" "dt_instant (p_expires_at p) \<le> dt_instant (ad_now env)"
    and "del (admin_owner p) sv = (Inr n, sv')"
  shows "(\<forall>scope. \<exists>e. requires_scope env p scope = Inl e) \<and>
     (\<exists>x t. ep_account_deletion env rq (Some del) (s, sv) = (Inr x, (t, sv')) \<and>
        tenant_deleted (uuid_str (p_tenant_id p)) t)"
proof -
  have "\<exists>e. requires_scope env p scope = Inl e" for scope
    using requires_scope_Inr [of env p scope "()"] assms(2) by (cases "requires_scope env p scope") auto
  with assms(1,3) show ?thesis
    by (auto simp: ep_account_deletion_def tenant_deleted_def delete_tenant_simps)
qed

text \<open>
  The owner identifier is removed from every memory the API returns, except when the list is asked
  for without a query and the service can list its records.
\<close>

theorem listed_memories_keep_owner:
  assumes "guarded_read env rq MEMORY_READ s = (Inr p, s)" "lister (admin_owner p) sv = Inr items" "0 \<le> cursor"
  shows "ep_list_memories env rq s runtime (Some lister) [] limit cursor sv =
     (Inr (admin_page limit cursor (map (\<lambda>item. JObj [(''memory'', item)]) items)), sv)"
  using assms by (simp add: ep_list_memories_def act_bind_def act_run)

lemma redact_owner_fields: "json_field ''owner_id'' (redact_owner v) = None"
  by (cases v) (auto simp: json_field_def map_of_eq_None_iff)

end
