(* ===== verification/Serialization.thy ===== *)
theory Serialization
  imports Memory_Aggregate Pytext
begin

text \<open>
  The two text forms of a memory: \<open>memory_to_dict\<close> and \<open>memory_from_dict\<close> of
  \<open>omp/domain/serialization.py\<close>, and the codecs of \<open>omp/server/admin.py\<close> for the records of an
  export package. A payload is a JSON object; reading converts its values with \<open>str\<close>, \<open>int\<close> and
  \<open>float\<close> as the builtins do, also on values of another type.

  The conversions of the standard library that the model does not define are fields of
  \<open>CodecEnv\<close>: \<open>repr\<close> of floats, lists and dictionaries, \<open>float\<close> of a text, and
  \<open>datetime.fromisoformat\<close>. \<open>reads_back\<close> states what the round trips rely on: the text
  \<open>isoformat\<close> writes for a timestamp is read as that timestamp.
\<close>

record CodecEnv =
  co_repr :: "json \<Rightarrow> string"
  co_float :: "string \<Rightarrow> pyfloat option"
  co_fromiso :: "string \<Rightarrow> datetime option"

type_synonym payload = "(string \<times> json) list"

definition or_raise :: "error \<Rightarrow> 'a option \<Rightarrow> 'a result" where
  "or_raise e v = (case v of None \<Rightarrow> Inl e | Some x \<Rightarrow> Inr x)"

lemma or_raise_simps [simp]:
  "or_raise e (Some x) = Inr x"
  "or_raise e None = Inl e"
  by (simp_all add: or_raise_def)

section \<open>Builtin conversions of JSON values\<close>

fun py_str :: "CodecEnv \<Rightarrow> json \<Rightarrow> string" where
  "py_str env JNull = ''None''"
| "py_str env (JBool b) = (if b then ''True'' else ''False'')"
| "py_str env (JInt i) = int_str i"
| "py_str env (JStr s) = s"
| "py_str env v = co_repr env v"

fun py_int_of :: "json \<Rightarrow> int result" where
  "py_int_of (JInt i) = Inr i"
| "py_int_of (JBool b) = Inr (if b then 1 else 0)"
| "py_int_of (JFloat f) = Inr (if f < 0 then \<lceil>f\<rceil> else \<lfloor>f\<rfloor>)"
| "py_int_of (JStr s) = or_raise PyValueError (py_int 10 s)"
| "py_int_of v = Inl PyTypeError"

fun py_float_of :: "CodecEnv \<Rightarrow> json \<Rightarrow> pyfloat result" where
  "py_float_of env (JFloat f) = Inr f"
| "py_float_of env (JInt i) = Inr (fl (of_int i))"
| "py_float_of env (JBool b) = Inr (if b then 1 else 0)"
| "py_float_of env (JStr s) = or_raise PyValueError (co_float env s)"
| "py_float_of env v = Inl PyTypeError"

fun json_truthy :: "json \<Rightarrow> bool" where
  "json_truthy JNull = False"
| "json_truthy (JBool b) = b"
| "json_truthy (JInt i) = (i \<noteq> 0)"
| "json_truthy (JFloat f) = (f \<noteq> 0)"
| "json_truthy (JStr s) = (s \<noteq> [])"
| "json_truthy (JList vs) = (vs \<noteq> [])"
| "json_truthy (JObj kvs) = (kvs \<noteq> [])"

text \<open>Iterating over a value: a text yields its characters and an object its keys.\<close>

fun json_iter :: "json \<Rightarrow> json list result" where
  "json_iter (JList vs) = Inr vs"
| "json_iter (JStr s) = Inr (map (\<lambda>c. JStr [c]) s)"
| "json_iter (JObj kvs) = Inr (map (\<lambda>(k, v). JStr k) kvs)"
| "json_iter v = Inl PyTypeError"

text \<open>\<open>payload[key]\<close> and \<open>payload.get(key)\<close>.\<close>

definition item_of :: "payload \<Rightarrow> string \<Rightarrow> json result" where
  "item_of d k = or_raise PyKeyError (map_of d k)"

definition get_of :: "payload \<Rightarrow> string \<Rightarrow> json" where
  "get_of d k = (case map_of d k of None \<Rightarrow> JNull | Some v \<Rightarrow> v)"

definition str_item :: "CodecEnv \<Rightarrow> payload \<Rightarrow> string \<Rightarrow> string result" where
  "str_item env d k = res_bind (item_of d k) (\<lambda>v. Inr (py_str env v))"

definition time_item :: "CodecEnv \<Rightarrow> payload \<Rightarrow> string \<Rightarrow> datetime result" where
  "time_item env d k = res_bind (str_item env d k) (\<lambda>s. or_raise PyValueError (co_fromiso env s))"

text \<open>\<open>str(d[k]) if d.get(k) is not None else None\<close>, and the same with the truth of the value.\<close>

definition str_unless_none :: "CodecEnv \<Rightarrow> payload \<Rightarrow> string \<Rightarrow> string option" where
  "str_unless_none env d k = (if get_of d k \<noteq> JNull then Some (py_str env (get_of d k)) else None)"

definition str_if_true :: "CodecEnv \<Rightarrow> payload \<Rightarrow> string \<Rightarrow> string option" where
  "str_if_true env d k = (if json_truthy (get_of d k) then Some (py_str env (get_of d k)) else None)"

definition source_type_of :: "string \<Rightarrow> SourceType result" where
  "source_type_of = enum_of source_type_value [USER, AGENT, CONVERSATION, IMPORT, SYSTEM, UNKNOWN]"

definition consent_mode_of :: "string \<Rightarrow> ConsentMode result" where
  "consent_mode_of = enum_of consent_mode_value [MANUAL, ASSISTED, AUTOMATIC, LEGACY_UNVERIFIED]"

definition consent_reason_of :: "string \<Rightarrow> ConsentReason result" where
  "consent_reason_of = enum_of consent_reason_value
     [USER_REQUESTED_MEMORY, USER_CONFIRMED_INBOX, CONNECTION_POLICY_AUTOMATIC, IMPORT_AUTHORIZED]"

lemma enum_of_value [simp]:
  "source_type_of (source_type_value t) = Inr t"
  "consent_mode_of (consent_mode_value m) = Inr m"
  "consent_reason_of (consent_reason_value r) = Inr r"
  by (cases t, simp_all add: source_type_of_def) (cases m, simp_all add: consent_mode_of_def,
      cases r, simp_all add: consent_reason_of_def)

lemma item_of_Cons [simp]:
  "item_of ((k, v) # d) k' = (if k' = k then Inr v else item_of d k')"
  "item_of [] k' = Inl PyKeyError"
  by (simp_all add: item_of_def)

lemma get_of_Cons [simp]:
  "get_of ((k, v) # d) k' = (if k' = k then v else get_of d k')"
  "get_of [] k' = JNull"
  by (simp_all add: get_of_def)

section \<open>memory_to_dict\<close>

definition SCHEMA_VERSION :: int where "SCHEMA_VERSION = 1"

definition provenance_to_dict :: "Provenance \<Rightarrow> payload" where
  "provenance_to_dict p =
     [(''source_type'', JStr (source_type_value (pv_source_type p))),
      (''source_id'', json_opt JStr (pv_source_id p)),
      (''source_model'', json_opt JStr (pv_source_model p)),
      (''source_client'', json_opt JStr (pv_source_client p)),
      (''source_connection_id'', json_opt JStr (pv_source_connection_id p)),
      (''conversation_id'', json_opt JStr (pv_conversation_id p)),
      (''message_id'', json_opt JStr (pv_message_id p)),
      (''captured_at'', JStr (isoformat (pv_captured_at p))),
      (''evidence'', JList (map JStr (pv_evidence p)))]"

definition consent_to_dict :: "CaptureConsent \<Rightarrow> payload" where
  "consent_to_dict c =
     [(''mode'', JStr (consent_mode_value (cc_mode c))),
      (''consent_id'', JStr (cc_consent_id c)),
      (''reason_code'', JStr (consent_reason_value (cc_reason_code c))),
      (''policy_version'', JStr (cc_policy_version c)),
      (''granted_at'', JStr (isoformat (cc_granted_at c)))]"

definition embedding_to_dict :: "EmbeddingDescriptor \<Rightarrow> payload" where
  "embedding_to_dict e =
     [(''profile_id'', JStr (ed_profile_id e)),
      (''profile_version'', JStr (ed_profile_version e)),
      (''dimension'', JInt (ed_dimension e)),
      (''metric'', JStr (ed_metric e))]"

definition memory_to_dict :: "Memory \<Rightarrow> payload" where
  "memory_to_dict m =
     [(''schema_version'', JInt SCHEMA_VERSION),
      (''id'', JStr (uuid_str (m_id m))),
      (''owner_id'', JStr (m_owner_id m)),
      (''content'', JStr (m_content m)),
      (''type'', JStr (memory_type_value (m_memory_type m))),
      (''importance'', JFloat (m_importance m)),
      (''confidence'', JFloat (m_confidence m)),
      (''state'', JStr (memory_state_value (m_state m))),
      (''version'', JInt (m_version m)),
      (''created_at'', JStr (isoformat (m_created_at m))),
      (''updated_at'', JStr (isoformat (m_updated_at m))),
      (''occurred_at'', json_opt (\<lambda>d. JStr (isoformat d)) (m_occurred_at m)),
      (''space'', json_opt JStr (m_space m)),
      (''provenance'', JObj (provenance_to_dict (m_provenance m))),
      (''capture_consent'', json_opt (\<lambda>c. JObj (consent_to_dict c)) (m_capture_consent m)),
      (''tenant_id'', json_opt JStr (m_tenant_id m)),
      (''embedding'', json_opt (\<lambda>e. JObj (embedding_to_dict e)) (m_embedding m)),
      (''idempotency_key'', json_opt JStr (m_idempotency_key m))]"

section \<open>memory_from_dict\<close>

definition embedding_from_dict :: "CodecEnv \<Rightarrow> payload \<Rightarrow> EmbeddingDescriptor result" where
  "embedding_from_dict env d =
     res_bind (str_item env d ''profile_id'') (\<lambda>profile_id.
     res_bind (str_item env d ''profile_version'') (\<lambda>profile_version.
     res_bind (res_bind (item_of d ''dimension'') py_int_of) (\<lambda>dimension.
     res_bind (str_item env d ''metric'') (\<lambda>metric.
     embedding_descriptor_post_init
       \<lparr>ed_profile_id = profile_id, ed_profile_version = profile_version,
        ed_dimension = dimension, ed_metric = metric\<rparr>))))"

definition provenance_from_dict :: "CodecEnv \<Rightarrow> payload \<Rightarrow> Provenance result" where
  "provenance_from_dict env d =
     res_bind (res_bind (str_item env d ''source_type'') source_type_of) (\<lambda>source_type.
     res_bind (time_item env d ''captured_at'') (\<lambda>captured_at.
     res_bind (case map_of d ''evidence'' of None \<Rightarrow> Inr [] | Some v \<Rightarrow> json_iter v) (\<lambda>evidence.
     provenance_post_init
       \<lparr>pv_source_type = source_type, pv_captured_at = captured_at,
        pv_source_id = str_unless_none env d ''source_id'',
        pv_source_model = str_unless_none env d ''source_model'',
        pv_evidence = map (py_str env) evidence,
        pv_source_client = str_if_true env d ''source_client'',
        pv_source_connection_id = str_if_true env d ''source_connection_id'',
        pv_conversation_id = str_if_true env d ''conversation_id'',
        pv_message_id = str_if_true env d ''message_id''\<rparr>)))"

definition consent_from_dict :: "CodecEnv \<Rightarrow> payload \<Rightarrow> CaptureConsent result" where
  "consent_from_dict env d =
     res_bind (res_bind (str_item env d ''mode'') consent_mode_of) (\<lambda>mode.
     res_bind (str_item env d ''consent_id'') (\<lambda>consent_id.
     res_bind (res_bind (str_item env d ''reason_code'') consent_reason_of) (\<lambda>reason_code.
     res_bind (str_item env d ''policy_version'') (\<lambda>policy_version.
     res_bind (time_item env d ''granted_at'') (\<lambda>granted_at.
     capture_consent_post_init
       \<lparr>cc_mode = mode, cc_consent_id = consent_id, cc_reason_code = reason_code,
        cc_policy_version = policy_version, cc_granted_at = granted_at\<rparr>)))))"

text \<open>A nested object is decoded when the value is one, and is \<open>None\<close> otherwise.\<close>

definition nested :: "(payload \<Rightarrow> 'a result) \<Rightarrow> json \<Rightarrow> 'a option result" where
  "nested f v = (case v of JObj d \<Rightarrow> res_bind (f d) (\<lambda>x. Inr (Some x)) | _ \<Rightarrow> Inr None)"

text \<open>The body of the \<open>try\<close>, in the order of the source.\<close>

definition memory_of_payload :: "CodecEnv \<Rightarrow> payload \<Rightarrow> Memory result" where
  "memory_of_payload env d =
     res_bind (item_of d ''provenance'') (\<lambda>prov.
     res_bind (case prov of JObj pd \<Rightarrow> Inr pd | _ \<Rightarrow> Inl PyTypeError) (\<lambda>pd.
     res_bind (nested (embedding_from_dict env) (get_of d ''embedding'')) (\<lambda>emb.
     res_bind (res_bind (str_item env d ''id'') (\<lambda>s. or_raise PyValueError (uuid_parse s))) (\<lambda>mid.
     res_bind (str_item env d ''owner_id'') (\<lambda>owner.
     res_bind (str_item env d ''content'') (\<lambda>content.
     res_bind (res_bind (str_item env d ''type'') memory_type_of) (\<lambda>mtype.
     res_bind (res_bind (item_of d ''importance'') (py_float_of env)) (\<lambda>importance.
     res_bind (res_bind (item_of d ''confidence'') (py_float_of env)) (\<lambda>confidence.
     res_bind (res_bind (str_item env d ''state'') memory_state_of) (\<lambda>state.
     res_bind (res_bind (item_of d ''version'') py_int_of) (\<lambda>version.
     res_bind (time_item env d ''created_at'') (\<lambda>created_at.
     res_bind (time_item env d ''updated_at'') (\<lambda>updated_at.
     res_bind (if json_truthy (get_of d ''occurred_at'')
               then res_bind (time_item env d ''occurred_at'') (\<lambda>t. Inr (Some t)) else Inr None) (\<lambda>occurred_at.
     res_bind (provenance_from_dict env pd) (\<lambda>provenance.
     res_bind (nested (consent_from_dict env) (get_of d ''capture_consent'')) (\<lambda>consent.
     memory_post_init
       \<lparr>m_id = mid, m_owner_id = owner, m_content = content, m_memory_type = mtype,
        m_importance = importance, m_confidence = confidence, m_state = state, m_version = version,
        m_created_at = created_at, m_updated_at = updated_at, m_occurred_at = occurred_at,
        m_space = str_unless_none env d ''space'', m_provenance = provenance, m_embedding = emb,
        m_idempotency_key = str_unless_none env d ''idempotency_key'',
        m_tenant_id = str_unless_none env d ''tenant_id'', m_capture_consent = consent\<rparr>))))))))))))))))"

text \<open>\<open>1 == 1.0 == True\<close> in Python, so these three pass the version test.\<close>

definition schema_version_ok :: "json \<Rightarrow> bool" where
  "schema_version_ok v = (case v of JInt i \<Rightarrow> i = SCHEMA_VERSION | JFloat f \<Rightarrow> f = of_int SCHEMA_VERSION
     | JBool b \<Rightarrow> (if b then 1 else 0) = SCHEMA_VERSION | _ \<Rightarrow> False)"

definition memory_from_dict :: "CodecEnv \<Rightarrow> payload \<Rightarrow> Memory result" where
  "memory_from_dict env d =
     (if \<not> schema_version_ok (get_of d ''schema_version'') then Inl ValidationError
      else case memory_of_payload env d of
        Inl e \<Rightarrow> Inl (if e \<in> {PyKeyError, PyTypeError, PyValueError} then ValidationError else e)
      | Inr m \<Rightarrow> Inr m)"

end
