(* ===== verification/Export_Codec.thy ===== *)
theory Export_Codec
  imports Serialization App_Models
begin

text \<open>
  The codecs of \<open>omp/server/admin.py\<close> between the records of the application service and the
  records of an export package. A package is read through the schemas of \<open>omp/sdk/export.py\<close>, which
  give every optional field a value; a text that the schema allows only as a string or \<open>null\<close> raises
  here when it is anything else.
\<close>

definition timestamp_text :: "datetime \<Rightarrow> string" where
  "timestamp_text d = py_replace ''+00:00'' ''Z'' (isoformat d)"

section \<open>Writing\<close>

definition provenance_payload :: "Provenance \<Rightarrow> payload" where
  "provenance_payload p =
     [(''source_type'', JStr (source_type_value (pv_source_type p))),
      (''captured_at'', JStr (timestamp_text (pv_captured_at p))),
      (''source_id'', json_opt JStr (pv_source_id p)),
      (''source_model'', json_opt JStr (pv_source_model p)),
      (''evidence'', JList (map JStr (pv_evidence p)))]"

definition joined_evidence :: "Provenance \<Rightarrow> json" where
  "joined_evidence p = (if pv_evidence p \<noteq> [] then JStr (py_join '' '' (pv_evidence p)) else JNull)"

definition memory_payload :: "Memory \<Rightarrow> payload" where
  "memory_payload m =
     [(''id'', JStr (uuid_str (m_id m))),
      (''owner_id'', JStr (m_owner_id m)),
      (''content'', JStr (m_content m)),
      (''type'', JStr (memory_type_value (m_memory_type m))),
      (''space'', json_opt JStr (m_space m)),
      (''importance'', JFloat (m_importance m)),
      (''confidence'', JFloat (m_confidence m)),
      (''state'', JStr (memory_state_value (m_state m))),
      (''version'', JInt (m_version m)),
      (''created_at'', JStr (timestamp_text (m_created_at m))),
      (''updated_at'', JStr (timestamp_text (m_updated_at m))),
      (''occurred_at'', json_opt (\<lambda>d. JStr (timestamp_text d)) (m_occurred_at m)),
      (''provenance'', JObj (AList.update ''evidence'' (joined_evidence (m_provenance m))
         (provenance_payload (m_provenance m)))),
      (''provenance_evidence'', JList (map JStr (pv_evidence (m_provenance m)))),
      (''idempotency_key'', json_opt JStr (m_idempotency_key m)),
      (''embedding_profile'', json_opt (\<lambda>e. JObj (embedding_to_dict e)) (m_embedding m))]"

definition version_payload :: "MemoryVersion \<Rightarrow> payload" where
  "version_payload v =
     [(''memory_id'', JStr (uuid_str (mv_memory_id v))),
      (''version'', JInt (mv_version v)),
      (''content'', JStr (mv_content v)),
      (''type'', JStr (memory_type_value (mv_memory_type v))),
      (''state'', JStr (memory_state_value (mv_state v))),
      (''importance'', JFloat (mv_importance v)),
      (''confidence'', JFloat (mv_confidence v)),
      (''space'', json_opt JStr (mv_space v)),
      (''occurred_at'', json_opt (\<lambda>d. JStr (timestamp_text d)) (mv_occurred_at v)),
      (''provenance'', JObj (provenance_payload (mv_provenance v))),
      (''changed_at'', JStr (timestamp_text (mv_changed_at v))),
      (''change_reason'', JStr (mv_change_reason v))]"

definition relation_payload :: "Relation \<Rightarrow> payload" where
  "relation_payload r =
     [(''source_id'', JStr (uuid_str (rel_source_id r))),
      (''target_id'', JStr (uuid_str (rel_target_id r))),
      (''type'', JStr (relation_type_value (rel_type r))),
      (''owner_id'', JStr (rel_owner_id r)),
      (''created_at'', JStr (timestamp_text (rel_created_at r)))]"

definition export_record_payload :: "MemoryExportRecord \<Rightarrow> bool \<Rightarrow> payload" where
  "export_record_payload r include_embeddings =
     memory_payload (xr_memory r) @
     [(''history'', JList (map (\<lambda>v. JObj (version_payload v)) (xr_history r))),
      (''relations'', JList (map (\<lambda>x. JObj (relation_payload x)) (xr_relations r)))] @
     (case xr_write_fingerprint r of None \<Rightarrow> [] | Some f \<Rightarrow> [(''write_fingerprint'', JStr f)]) @
     (case xr_embedding r of
        Some v \<Rightarrow> if include_embeddings then [(''embedding_values'', JList (map JFloat v))] else []
      | None \<Rightarrow> [])"

section \<open>Reading\<close>

fun opt_text :: "json \<Rightarrow> string option result" where
  "opt_text JNull = Inr None"
| "opt_text (JStr s) = Inr (Some s)"
| "opt_text v = Inl PyTypeError"

definition parse_time :: "CodecEnv \<Rightarrow> string option \<Rightarrow> datetime option result" where
  "parse_time env v =
     (if py_truthy v
      then res_bind (or_raise PyValueError (co_fromiso env (py_replace ''Z'' ''+00:00'' (the v)))) (\<lambda>t. Inr (Some t))
      else Inr None)"

definition required_time :: "CodecEnv \<Rightarrow> string \<Rightarrow> datetime result" where
  "required_time env s = res_bind (parse_time env (Some s)) (or_raise PyValueError)"

definition evidence_items :: "json option \<Rightarrow> json list result" where
  "evidence_items v = (case v of
     None \<Rightarrow> Inr [] | Some (JStr s) \<Rightarrow> Inr [JStr s] | Some (JList vs) \<Rightarrow> Inr vs | Some _ \<Rightarrow> Inl PyValueError)"

definition provenance_from_payload :: "CodecEnv \<Rightarrow> payload \<Rightarrow> Provenance result" where
  "provenance_from_payload env d =
     res_bind (evidence_items (map_of d ''evidence'')) (\<lambda>evidence.
     res_bind (str_item env d ''source_type'') (\<lambda>st.
     res_bind (source_type_of (if st = ''other'' then ''unknown'' else st)) (\<lambda>source_type.
     res_bind (res_bind (str_item env d ''captured_at'') (required_time env)) (\<lambda>captured_at.
     res_bind (opt_text (get_of d ''source_id'')) (\<lambda>source_id.
     res_bind (opt_text (get_of d ''source_model'')) (\<lambda>source_model.
     provenance_post_init
       \<lparr>pv_source_type = source_type, pv_captured_at = captured_at, pv_source_id = source_id,
        pv_source_model = source_model, pv_evidence = map (py_str env) evidence,
        pv_source_client = None, pv_source_connection_id = None, pv_conversation_id = None,
        pv_message_id = None\<rparr>))))))"

definition as_object :: "json \<Rightarrow> payload result" where
  "as_object v = (case v of JObj d \<Rightarrow> Inr d | _ \<Rightarrow> Inl PyTypeError)"

definition memory_from_payload :: "CodecEnv \<Rightarrow> payload \<Rightarrow> Memory result" where
  "memory_from_payload env d =
     res_bind (nested (embedding_from_dict env) (get_of d ''embedding_profile'')) (\<lambda>emb.
     res_bind (res_bind (item_of d ''provenance'') as_object) (\<lambda>pd0.
     let pd = (if get_of d ''provenance_evidence'' \<noteq> JNull
       then AList.update ''evidence'' (get_of d ''provenance_evidence'') pd0 else pd0) in
     res_bind (res_bind (str_item env d ''id'') (\<lambda>s. or_raise PyValueError (uuid_parse s))) (\<lambda>mid.
     res_bind (str_item env d ''owner_id'') (\<lambda>owner.
     res_bind (str_item env d ''content'') (\<lambda>content.
     res_bind (res_bind (str_item env d ''type'') memory_type_of) (\<lambda>mtype.
     res_bind (res_bind (item_of d ''importance'') (py_float_of env)) (\<lambda>importance.
     res_bind (res_bind (item_of d ''confidence'') (py_float_of env)) (\<lambda>confidence.
     res_bind (res_bind (str_item env d ''state'') memory_state_of) (\<lambda>state.
     res_bind (res_bind (item_of d ''version'') py_int_of) (\<lambda>version.
     res_bind (res_bind (str_item env d ''created_at'') (required_time env)) (\<lambda>created_at.
     res_bind (res_bind (str_item env d ''updated_at'') (required_time env)) (\<lambda>updated_at.
     res_bind (res_bind (opt_text (get_of d ''occurred_at'')) (parse_time env)) (\<lambda>occurred_at.
     res_bind (opt_text (get_of d ''space'')) (\<lambda>space.
     res_bind (provenance_from_payload env pd) (\<lambda>provenance.
     res_bind (opt_text (get_of d ''idempotency_key'')) (\<lambda>key.
     memory_post_init
       \<lparr>m_id = mid, m_owner_id = owner, m_content = content, m_memory_type = mtype,
        m_importance = importance, m_confidence = confidence, m_state = state, m_version = version,
        m_created_at = created_at, m_updated_at = updated_at, m_occurred_at = occurred_at,
        m_space = space, m_provenance = provenance, m_embedding = emb,
        m_idempotency_key = key, m_tenant_id = None, m_capture_consent = None\<rparr>))))))))))))))))"

definition version_from_payload :: "CodecEnv \<Rightarrow> payload \<Rightarrow> MemoryVersion result" where
  "version_from_payload env d =
     res_bind (res_bind (str_item env d ''memory_id'') (\<lambda>s. or_raise PyValueError (uuid_parse s))) (\<lambda>mid.
     res_bind (res_bind (item_of d ''version'') py_int_of) (\<lambda>version.
     res_bind (str_item env d ''content'') (\<lambda>content.
     res_bind (res_bind (str_item env d ''type'') memory_type_of) (\<lambda>mtype.
     res_bind (res_bind (str_item env d ''state'') memory_state_of) (\<lambda>state.
     res_bind (res_bind (item_of d ''importance'') (py_float_of env)) (\<lambda>importance.
     res_bind (res_bind (item_of d ''confidence'') (py_float_of env)) (\<lambda>confidence.
     res_bind (opt_text (get_of d ''space'')) (\<lambda>space.
     res_bind (res_bind (opt_text (get_of d ''occurred_at'')) (parse_time env)) (\<lambda>occurred_at.
     res_bind (res_bind (res_bind (item_of d ''provenance'') as_object) (provenance_from_payload env)) (\<lambda>provenance.
     res_bind (res_bind (str_item env d ''changed_at'') (required_time env)) (\<lambda>changed_at.
     res_bind (str_item env d ''change_reason'') (\<lambda>change_reason.
     Inr \<lparr>mv_memory_id = mid, mv_version = version, mv_content = content, mv_memory_type = mtype,
       mv_state = state, mv_importance = importance, mv_confidence = confidence, mv_space = space,
       mv_occurred_at = occurred_at, mv_provenance = provenance, mv_changed_at = changed_at,
       mv_change_reason = change_reason, mv_capture_consent = None\<rparr>))))))))))))"

definition relation_from_payload :: "CodecEnv \<Rightarrow> payload \<Rightarrow> Relation result" where
  "relation_from_payload env d =
     res_bind (res_bind (str_item env d ''source_id'') (\<lambda>s. or_raise PyValueError (uuid_parse s))) (\<lambda>source_id.
     res_bind (res_bind (str_item env d ''target_id'') (\<lambda>s. or_raise PyValueError (uuid_parse s))) (\<lambda>target_id.
     res_bind (res_bind (str_item env d ''type'') relation_type_of) (\<lambda>rtype.
     res_bind (str_item env d ''owner_id'') (\<lambda>owner.
     res_bind (res_bind (str_item env d ''created_at'') (required_time env)) (\<lambda>created_at.
     relation_post_init
       \<lparr>rel_source_id = source_id, rel_target_id = target_id, rel_type = rtype,
        rel_owner_id = owner, rel_created_at = created_at\<rparr>)))))"

text \<open>Fields of the validated record: a list that is absent is empty, an absent value is \<open>None\<close>.\<close>

definition list_field :: "payload \<Rightarrow> string \<Rightarrow> json list result" where
  "list_field d k = (case map_of d k of None \<Rightarrow> Inr [] | Some (JList vs) \<Rightarrow> Inr vs | Some _ \<Rightarrow> Inl PyTypeError)"

definition vector_field :: "CodecEnv \<Rightarrow> json \<Rightarrow> pyfloat list option result" where
  "vector_field env v = (case v of JNull \<Rightarrow> Inr None
     | JList vs \<Rightarrow> res_bind (res_map (py_float_of env) vs) (\<lambda>xs. Inr (Some xs)) | _ \<Rightarrow> Inl PyTypeError)"

definition import_record :: "CodecEnv \<Rightarrow> payload \<Rightarrow> MemoryImportRecord result" where
  "import_record env d =
     res_bind (memory_from_payload env d) (\<lambda>memory.
     res_bind (res_bind (list_field d ''history'')
       (res_map (\<lambda>v. res_bind (as_object v) (version_from_payload env)))) (\<lambda>history.
     res_bind (res_bind (list_field d ''relations'')
       (res_map (\<lambda>v. res_bind (as_object v) (relation_from_payload env)))) (\<lambda>relations.
     res_bind (vector_field env (get_of d ''embedding_values'')) (\<lambda>vector.
     res_bind (opt_text (get_of d ''write_fingerprint'')) (\<lambda>fingerprint.
     Inr \<lparr>xr_memory = memory, xr_history = history, xr_relations = relations,
       xr_embedding = vector, xr_write_fingerprint = fingerprint\<rparr>)))))"

end
