(* ===== verification/Codec_Properties.thy ===== *)
theory Codec_Properties
  imports Export_Codec Fixtures
begin

text \<open>
  What the two codecs guarantee: a payload of any shape is either refused with \<open>ValidationError\<close>
  or gives a well-formed memory; writing a well-formed memory and reading it gives it back; an
  export record read back is the record without the fields that the package has no place for.
\<close>

section \<open>Only ValidationError\<close>

definition raises_only :: "error set \<Rightarrow> 'a result \<Rightarrow> bool" where
  "raises_only E r \<longleftrightarrow> (\<forall>e. r = Inl e \<longrightarrow> e \<in> E)"

named_theorems codec_raises \<open>the exceptions a step of a decoder may raise\<close>

definition codec_errors :: "error set" where
  "codec_errors = {ValidationError, PyKeyError, PyTypeError, PyValueError}"

lemma raises_only_Inr [codec_raises]: "raises_only E (Inr x)"
  by (simp add: raises_only_def)

lemma raises_only_Inl [codec_raises]: "e \<in> E \<Longrightarrow> raises_only E (Inl e)"
  by (simp add: raises_only_def)

lemma codec_errorsI [codec_raises]:
  "ValidationError \<in> codec_errors" "PyKeyError \<in> codec_errors" "PyTypeError \<in> codec_errors"
  "PyValueError \<in> codec_errors"
  by (simp_all add: codec_errors_def)

lemma raises_only_bind [codec_raises]:
  "raises_only E r \<Longrightarrow> (\<And>x. raises_only E (f x)) \<Longrightarrow> raises_only E (res_bind r f)"
  by (auto simp: raises_only_def res_bind_Inl)

lemma raises_only_guard [codec_raises]: "e \<in> E \<Longrightarrow> raises_only E (res_guard b e)"
  by (simp add: raises_only_def)

lemma raises_only_or_raise [codec_raises]: "e \<in> E \<Longrightarrow> raises_only E (or_raise e v)"
  by (simp add: raises_only_def or_raise_def split: option.splits)

lemma raises_only_if [codec_raises]:
  "raises_only E a \<Longrightarrow> raises_only E b \<Longrightarrow> raises_only E (if c then a else b)"
  by simp

lemma raises_only_enum: "PyValueError \<in> E \<Longrightarrow> raises_only E (enum_of f xs s)"
  by (induction xs) (auto simp: raises_only_def)

lemma raises_only_enums [codec_raises]:
  "raises_only codec_errors (memory_type_of s)" "raises_only codec_errors (memory_state_of s)"
  "raises_only codec_errors (source_type_of s)" "raises_only codec_errors (consent_mode_of s)"
  "raises_only codec_errors (consent_reason_of s)"
  unfolding memory_type_of_def memory_state_of_def source_type_of_def consent_mode_of_def
    consent_reason_of_def
  by (rule raises_only_enum, rule codec_errorsI)+

lemma raises_only_values [codec_raises]:
  "raises_only codec_errors (py_int_of v)" "raises_only codec_errors (py_float_of env v)"
  "raises_only codec_errors (json_iter v)"
  by (cases v; simp add: codec_raises)+

lemma raises_only_checks [codec_raises]:
  "raises_only codec_errors (item_of d k)"
  "raises_only codec_errors (ensure_aware t)" "raises_only codec_errors (validate_owner_id s)"
  "raises_only codec_errors (validate_space sp)" "raises_only codec_errors (validate_idempotency_key sp)"
  "raises_only codec_errors (validate_unit_interval f)"
  by (simp_all add: item_of_def ensure_aware_def validate_owner_id_def validate_space_def Let_def
        validate_idempotency_key_def validate_unit_interval_def codec_raises split: option.splits)

lemma raises_only_items [codec_raises]:
  "raises_only codec_errors (str_item env d k)" "raises_only codec_errors (time_item env d k)"
  unfolding str_item_def time_item_def by (intro codec_raises)+

lemma raises_only_post_init [codec_raises]:
  "raises_only codec_errors (embedding_descriptor_post_init e)"
  "raises_only codec_errors (provenance_post_init p)"
  "raises_only codec_errors (capture_consent_post_init c)"
  "raises_only codec_errors (memory_post_init m)"
  unfolding embedding_descriptor_post_init_def provenance_post_init_def capture_consent_post_init_def
    memory_post_init_def Let_def
  by (intro codec_raises | simp add: codec_raises split: option.splits)+

lemma raises_only_parts [codec_raises]:
  "raises_only codec_errors (embedding_from_dict env d)"
  "raises_only codec_errors (provenance_from_dict env d)"
  "raises_only codec_errors (consent_from_dict env d)"
  unfolding embedding_from_dict_def provenance_from_dict_def consent_from_dict_def
  by (intro codec_raises | simp add: codec_raises split: option.splits)+

lemma raises_only_nested [codec_raises]:
  "(\<And>d. raises_only E (f d)) \<Longrightarrow> raises_only E (nested f v)"
  unfolding nested_def by (cases v) (simp_all add: codec_raises)

lemma memory_of_payload_raises: "raises_only codec_errors (memory_of_payload env d)"
  unfolding memory_of_payload_def
  by (intro codec_raises | simp add: codec_raises split: json.splits)+

section \<open>Well-formed parts\<close>

definition parts_ok :: "Memory \<Rightarrow> bool" where
  "parts_ok m \<longleftrightarrow>
     provenance_post_init (m_provenance m) = Inr (m_provenance m) \<and>
     (\<forall>c. m_capture_consent m = Some c \<longrightarrow> capture_consent_post_init c = Inr c) \<and>
     (\<forall>e. m_embedding m = Some e \<longrightarrow> embedding_descriptor_post_init e = Inr e)"

lemma capture_consent_post_init_Inr: "capture_consent_post_init c = Inr c' \<Longrightarrow> c' = c"
  by (auto simp: capture_consent_post_init_def act_simps)

lemma parsed_parts:
  "embedding_from_dict env d = Inr e \<Longrightarrow> embedding_descriptor_post_init e = Inr e"
  "provenance_from_dict env d = Inr p \<Longrightarrow> provenance_post_init p = Inr p"
  "consent_from_dict env d = Inr c \<Longrightarrow> capture_consent_post_init c = Inr c"
  by (auto simp: embedding_from_dict_def provenance_from_dict_def consent_from_dict_def act_simps
      dest: provenance_post_init_idem embedding_descriptor_post_init_Inr capture_consent_post_init_Inr)

lemma nested_Inr: "nested f v = Inr (Some x) \<Longrightarrow> \<exists>d. f d = Inr x"
  by (auto simp: nested_def act_simps split: json.splits)

lemma memory_of_payload_ok:
  assumes "memory_of_payload env d = Inr m"
  shows "memory_ok m \<and> parts_ok m"
  using assms unfolding memory_of_payload_def res_bind_Inr
  by (elim exE conjE) (auto simp: memory_post_init_Inr parts_ok_def dest!: nested_Inr intro: parsed_parts)


section \<open>Round trip of the domain form\<close>

definition dict_times :: "Memory \<Rightarrow> datetime set" where
  "dict_times m = {m_created_at m, m_updated_at m, pv_captured_at (m_provenance m)} \<union>
     set_option (m_occurred_at m) \<union> cc_granted_at ` set_option (m_capture_consent m)"

definition reads_back :: "CodecEnv \<Rightarrow> datetime set \<Rightarrow> bool" where
  "reads_back env T \<longleftrightarrow> (\<forall>t\<in>T. co_fromiso env (isoformat t) = Some t)"

lemma str_of_opt [simp]:
  "get_of d k = json_opt JStr v \<Longrightarrow> str_unless_none env d k = v"
  "get_of d k = json_opt JStr v \<Longrightarrow> v \<noteq> Some [] \<Longrightarrow> str_if_true env d k = v"
  by (cases v; simp add: str_unless_none_def str_if_true_def json_opt_def)+

lemma opaque_not_empty: "opaque_id_ok v \<Longrightarrow> v \<noteq> Some []"
  by (auto simp: opaque_id_ok_def)

lemma provenance_ids:
  assumes "provenance_post_init p = Inr q"
  shows "pv_source_client p \<noteq> Some []" "pv_source_connection_id p \<noteq> Some []"
    "pv_conversation_id p \<noteq> Some []" "pv_message_id p \<noteq> Some []"
  using assms by (auto simp: provenance_post_init_def act_simps dest: opaque_not_empty)

lemma py_str_JStr_map [simp]: "map (py_str env \<circ> JStr) xs = xs"
  by (induction xs) auto

lemma provenance_roundtrip:
  assumes "provenance_post_init p = Inr p" "co_fromiso env (isoformat (pv_captured_at p)) = Some (pv_captured_at p)"
  shows "provenance_from_dict env (provenance_to_dict p) = Inr p"
  using assms provenance_ids [OF assms(1)]
  by (cases p) (simp add: provenance_from_dict_def provenance_to_dict_def str_item_def time_item_def)

lemma consent_roundtrip:
  assumes "capture_consent_post_init c = Inr c" "co_fromiso env (isoformat (cc_granted_at c)) = Some (cc_granted_at c)"
  shows "consent_from_dict env (consent_to_dict c) = Inr c"
  using assms by (cases c) (simp add: consent_from_dict_def consent_to_dict_def str_item_def time_item_def)

lemma embedding_roundtrip:
  "embedding_descriptor_post_init e = Inr e \<Longrightarrow> embedding_from_dict env (embedding_to_dict e) = Inr e"
  by (cases e) (simp add: embedding_from_dict_def embedding_to_dict_def str_item_def)

lemma nested_json_opt:
  assumes "\<And>x. v = Some x \<Longrightarrow> f (g x) = Inr x"
  shows "nested f (json_opt (\<lambda>x. JObj (g x)) v) = Inr v"
  using assms by (cases v) (simp_all add: nested_def json_opt_def)

lemma isoformat_not_Nil [simp]: "isoformat d \<noteq> []"
  by (simp add: isoformat_def split: prod.splits)

lemma time_json_opt:
  assumes "get_of d k = json_opt (\<lambda>t. JStr (isoformat t)) v" "map_of d k \<noteq> None"
    "\<And>t. v = Some t \<Longrightarrow> co_fromiso env (isoformat t) = Some t"
  shows "(if json_truthy (get_of d k) then res_bind (time_item env d k) (\<lambda>t. Inr (Some t)) else Inr None) = Inr v"
  using assms by (cases v) (auto simp: json_opt_def time_item_def str_item_def item_of_def get_of_def)

lemma memory_eta:
  "\<lparr>m_id = m_id m, m_owner_id = m_owner_id m, m_content = m_content m, m_memory_type = m_memory_type m,
     m_importance = m_importance m, m_confidence = m_confidence m, m_state = m_state m, m_version = m_version m,
     m_created_at = m_created_at m, m_updated_at = m_updated_at m, m_occurred_at = m_occurred_at m,
     m_space = m_space m, m_provenance = m_provenance m, m_embedding = m_embedding m,
     m_idempotency_key = m_idempotency_key m, m_tenant_id = m_tenant_id m,
     m_capture_consent = m_capture_consent m\<rparr> = m"
  by simp

text \<open>C39: The domain form round-trips. A well-formed memory, written with \<open>memory_to_dict\<close> and read
  with \<open>memory_from_dict\<close>, is the same memory, field by field; \<open>fromisoformat\<close> is assumed to read
  back the timestamps that \<open>isoformat\<close> wrote.\<close>

theorem memory_dict_roundtrip:
  assumes "memory_ok m" "parts_ok m" "reads_back env (dict_times m)"
  shows "memory_from_dict env (memory_to_dict m) = Inr m"
proof -
  let ?d = "memory_to_dict m"
  have T: "co_fromiso env (isoformat t) = Some t" if "t \<in> dict_times m" for t
    using assms(3) that by (simp add: reads_back_def)
  have emb: "nested (embedding_from_dict env) (get_of ?d ''embedding'') = Inr (m_embedding m)"
    using assms(2) by (simp add: memory_to_dict_def nested_json_opt embedding_roundtrip parts_ok_def)
  have con: "nested (consent_from_dict env) (get_of ?d ''capture_consent'') = Inr (m_capture_consent m)"
    using assms(2) by (simp add: memory_to_dict_def nested_json_opt consent_roundtrip parts_ok_def T dict_times_def)
  have prov: "provenance_from_dict env (provenance_to_dict (m_provenance m)) = Inr (m_provenance m)"
    using assms(2) by (intro provenance_roundtrip) (simp_all add: parts_ok_def T dict_times_def)
  have occ: "(if json_truthy (get_of ?d ''occurred_at'')
      then res_bind (time_item env ?d ''occurred_at'') (\<lambda>t. Inr (Some t)) else Inr None) = Inr (m_occurred_at m)"
    by (rule time_json_opt) (simp_all add: memory_to_dict_def T dict_times_def)
  have "memory_of_payload env ?d = memory_post_init m"
    unfolding memory_of_payload_def emb con occ
    by (simp add: memory_to_dict_def str_item_def time_item_def prov T dict_times_def memory_eta)
  then show ?thesis
    using memory_ok_post_init [OF assms(1)]
    by (simp add: memory_from_dict_def memory_to_dict_def schema_version_ok_def)
qed

section \<open>Round trip of the export package\<close>

text \<open>
  The fields that a package carries. The tenant, the consent and four fields of the provenance are not
  among them, nor the vector unless it is asked for.
\<close>

definition portable_provenance :: "Provenance \<Rightarrow> Provenance" where
  "portable_provenance p = p\<lparr>pv_source_client := None, pv_source_connection_id := None,
     pv_conversation_id := None, pv_message_id := None\<rparr>"

definition portable_memory :: "Memory \<Rightarrow> Memory" where
  "portable_memory m = m\<lparr>m_provenance := portable_provenance (m_provenance m), m_tenant_id := None,
     m_capture_consent := None\<rparr>"

definition portable_version :: "MemoryVersion \<Rightarrow> MemoryVersion" where
  "portable_version v = v\<lparr>mv_provenance := portable_provenance (mv_provenance v), mv_capture_consent := None\<rparr>"

definition portable_record :: "bool \<Rightarrow> MemoryExportRecord \<Rightarrow> MemoryExportRecord" where
  "portable_record include_embeddings r = r\<lparr>xr_memory := portable_memory (xr_memory r),
     xr_history := map portable_version (xr_history r),
     xr_embedding := (if include_embeddings then xr_embedding r else None)\<rparr>"

definition record_times :: "MemoryExportRecord \<Rightarrow> datetime set" where
  "record_times r = {m_created_at (xr_memory r), m_updated_at (xr_memory r), pv_captured_at (m_provenance (xr_memory r))} \<union>
     set_option (m_occurred_at (xr_memory r)) \<union>
     (\<Union>v\<in>set (xr_history r). {mv_changed_at v, pv_captured_at (mv_provenance v)} \<union> set_option (mv_occurred_at v)) \<union>
     rel_created_at ` set (xr_relations r)"

definition stamps_read_back :: "CodecEnv \<Rightarrow> datetime set \<Rightarrow> bool" where
  "stamps_read_back env T \<longleftrightarrow>
     (\<forall>t\<in>T. co_fromiso env (py_replace ''Z'' ''+00:00'' (timestamp_text t)) = Some t)"

definition record_ok :: "MemoryExportRecord \<Rightarrow> bool" where
  "record_ok r \<longleftrightarrow> memory_ok (xr_memory r) \<and> parts_ok (xr_memory r) \<and>
     list_all (\<lambda>v. provenance_post_init (mv_provenance v) = Inr (mv_provenance v)) (xr_history r) \<and>
     list_all (\<lambda>x. relation_post_init x = Inr x) (xr_relations r)"

lemma py_replace_not_Nil: "py_replace old new s = [] \<Longrightarrow> new \<noteq> [] \<Longrightarrow> s = []"
  by (cases s) (auto split: if_splits)

lemma timestamp_text_not_Nil [simp]: "timestamp_text d \<noteq> []"
  unfolding timestamp_text_def using py_replace_not_Nil by fastforce

lemma opt_text_json_opt [simp]: "opt_text (json_opt JStr v) = Inr v"
  by (cases v) (simp_all add: json_opt_def)

lemma parse_time_stamp [simp]:
  "co_fromiso env (py_replace ''Z'' ''+00:00'' (timestamp_text t)) = Some t \<Longrightarrow>
     parse_time env (Some (timestamp_text t)) = Inr (Some t)"
  by (simp add: parse_time_def py_truthy_def)

lemma required_time_stamp [simp]:
  "co_fromiso env (py_replace ''Z'' ''+00:00'' (timestamp_text t)) = Some t \<Longrightarrow>
     required_time env (timestamp_text t) = Inr t"
  by (simp add: required_time_def)

lemma parse_time_json_opt:
  assumes "\<And>t. v = Some t \<Longrightarrow> co_fromiso env (py_replace ''Z'' ''+00:00'' (timestamp_text t)) = Some t"
  shows "res_bind (opt_text (json_opt (\<lambda>d. JStr (timestamp_text d)) v)) (parse_time env) = Inr v"
  using assms by (cases v) (simp_all add: json_opt_def, simp add: parse_time_def py_truthy_def)

lemma source_type_not_other [simp]: "source_type_value t \<noteq> ''other''"
  by (cases t) simp_all

lemma portable_provenance_ok:
  "provenance_post_init p = Inr p \<Longrightarrow> provenance_post_init (portable_provenance p) = Inr (portable_provenance p)"
  by (cases p) (auto simp: provenance_post_init_def portable_provenance_def act_simps opaque_id_ok_def)

lemma provenance_payload_roundtrip:
  assumes "provenance_post_init p = Inr p"
    "co_fromiso env (py_replace ''Z'' ''+00:00'' (timestamp_text (pv_captured_at p))) = Some (pv_captured_at p)"
  shows "provenance_from_payload env (provenance_payload p) = Inr (portable_provenance p)"
    and "provenance_from_payload env (AList.update ''evidence'' (JList (map JStr (pv_evidence p)))
        (provenance_payload p)) = Inr (portable_provenance p)"
  using assms portable_provenance_ok [OF assms(1)]
  by (cases p; simp add: provenance_from_payload_def provenance_payload_def str_item_def evidence_items_def
      portable_provenance_def)+

lemma portable_memory_ok: "memory_ok m \<Longrightarrow> memory_ok (portable_memory m)"
  by (simp add: memory_ok_def portable_memory_def)

lemma memory_payload_fields:
  "get_of (memory_payload m @ ys) ''embedding_profile'' = json_opt (\<lambda>e. JObj (embedding_to_dict e)) (m_embedding m)"
  "get_of (memory_payload m @ ys) ''provenance_evidence'' = JList (map JStr (pv_evidence (m_provenance m)))"
  "get_of (memory_payload m @ ys) ''occurred_at'' = json_opt (\<lambda>d. JStr (timestamp_text d)) (m_occurred_at m)"
  "get_of (memory_payload m @ ys) ''space'' = json_opt JStr (m_space m)"
  "get_of (memory_payload m @ ys) ''idempotency_key'' = json_opt JStr (m_idempotency_key m)"
  by (simp_all add: memory_payload_def)

lemma memory_payload_roundtrip:
  assumes "memory_ok m" "parts_ok m" and T: "\<And>t. t \<in> {m_created_at m, m_updated_at m, pv_captured_at (m_provenance m)} \<union>
      set_option (m_occurred_at m) \<Longrightarrow> co_fromiso env (py_replace ''Z'' ''+00:00'' (timestamp_text t)) = Some t"
  shows "memory_from_payload env (memory_payload m @ ys) = Inr (portable_memory m)"
proof -
  let ?d = "memory_payload m @ ys"
  have emb: "nested (embedding_from_dict env) (json_opt (\<lambda>e. JObj (embedding_to_dict e)) (m_embedding m)) = Inr (m_embedding m)"
    using assms(2) by (simp add: nested_json_opt embedding_roundtrip parts_ok_def)
  have prov: "provenance_from_payload env (AList.update ''evidence'' (JList (map JStr (pv_evidence (m_provenance m))))
      (provenance_payload (m_provenance m))) =
      Inr (portable_provenance (m_provenance m))"
    using assms(2) by (intro provenance_payload_roundtrip(2)) (simp_all add: parts_ok_def T)
  have occ: "res_bind (opt_text (json_opt (\<lambda>d. JStr (timestamp_text d)) (m_occurred_at m))) (parse_time env) = Inr (m_occurred_at m)"
    by (rule parse_time_json_opt) (simp add: T)
  have "memory_from_payload env ?d = memory_post_init (portable_memory m)"
    unfolding memory_from_payload_def memory_payload_fields emb occ Let_def
    by (simp add: memory_payload_def str_item_def as_object_def prov T) (cases m, simp add: portable_memory_def)
  then show ?thesis using memory_ok_post_init [OF portable_memory_ok [OF assms(1)]] by simp
qed

lemma version_payload_roundtrip:
  assumes "provenance_post_init (mv_provenance v) = Inr (mv_provenance v)"
    and T: "\<And>t. t \<in> {mv_changed_at v, pv_captured_at (mv_provenance v)} \<union> set_option (mv_occurred_at v) \<Longrightarrow>
      co_fromiso env (py_replace ''Z'' ''+00:00'' (timestamp_text t)) = Some t"
  shows "version_from_payload env (version_payload v) = Inr (portable_version v)"
proof -
  have occ: "res_bind (opt_text (json_opt (\<lambda>d. JStr (timestamp_text d)) (mv_occurred_at v))) (parse_time env) = Inr (mv_occurred_at v)"
    by (rule parse_time_json_opt) (simp add: T)
  have prov: "provenance_from_payload env (provenance_payload (mv_provenance v)) = Inr (portable_provenance (mv_provenance v))"
    using assms(1) by (intro provenance_payload_roundtrip(1)) (simp_all add: T)
  show ?thesis
    by (simp add: version_from_payload_def version_payload_def str_item_def as_object_def occ prov T)
       (cases v, simp add: portable_version_def)
qed

lemma relation_payload_roundtrip:
  assumes "relation_post_init r = Inr r"
    "co_fromiso env (py_replace ''Z'' ''+00:00'' (timestamp_text (rel_created_at r))) = Some (rel_created_at r)"
  shows "relation_from_payload env (relation_payload r) = Inr r"
  using assms by (cases r) (simp add: relation_from_payload_def relation_payload_def str_item_def)

lemma res_map_map: "res_map f (map g xs) = res_map (\<lambda>x. f (g x)) xs"
  by (induction xs) auto

lemma res_map_JFloat [simp]: "res_map (py_float_of env) (map JFloat xs) = Inr xs"
  by (induction xs) auto


section \<open>Witnesses\<close>

definition ex_codec_memory :: Memory where
  "ex_codec_memory = \<lparr>m_id = 7, m_owner_id = ''ana'', m_content = ''likes tea'', m_memory_type = FACT,
     m_importance = 1/2, m_confidence = 1, m_state = ACTIVE, m_version = 2, m_created_at = ex_now,
     m_updated_at = ex_now, m_occurred_at = Some ex_now, m_space = Some ''home'',
     m_provenance = ex_provenance\<lparr>pv_evidence := [''a'', ''b'']\<rparr>,
     m_embedding = Some \<lparr>ed_profile_id = ''hash'', ed_profile_version = ''1'', ed_dimension = 2, ed_metric = ''cosine''\<rparr>,
     m_idempotency_key = Some ''k1'', m_tenant_id = Some ''t1'', m_capture_consent = Some ex_consent\<rparr>"

definition ex_codec_record :: MemoryExportRecord where
  "ex_codec_record = \<lparr>xr_memory = ex_codec_memory, xr_history = [memory_snapshot ex_codec_memory ''created''],
     xr_relations = [\<lparr>rel_source_id = 7, rel_target_id = 8, rel_type = SUPPORTS, rel_owner_id = ''ana'',
       rel_created_at = ex_now\<rparr>],
     xr_embedding = Some [1, 0], xr_write_fingerprint = Some ''sha''\<rparr>"

definition ex_codec_env :: CodecEnv where
  "ex_codec_env = \<lparr>co_repr = (\<lambda>v. []), co_float = (\<lambda>s. None), co_fromiso = (\<lambda>s.
     if s = isoformat ex_now \<or> s = py_replace ''Z'' ''+00:00'' (timestamp_text ex_now) then Some ex_now else None)\<rparr>"

lemma ex_codec_memory_ok: "memory_ok ex_codec_memory" "parts_ok ex_codec_memory"
proof -
  have "memory_post_init ex_codec_memory = Inr ex_codec_memory" by code_simp
  then show "memory_ok ex_codec_memory" by (simp add: memory_post_init_Inr)
  have "provenance_post_init (m_provenance ex_codec_memory) = Inr (m_provenance ex_codec_memory)"
    "capture_consent_post_init ex_consent = Inr ex_consent"
    "embedding_descriptor_post_init (the (m_embedding ex_codec_memory)) = Inr (the (m_embedding ex_codec_memory))"
    by code_simp+
  then show "parts_ok ex_codec_memory" by (simp add: parts_ok_def ex_codec_memory_def)
qed

theorem memory_dict_roundtrip_witness:
  "memory_from_dict ex_codec_env (memory_to_dict ex_codec_memory) = Inr ex_codec_memory"
proof (rule memory_dict_roundtrip [OF ex_codec_memory_ok])
  show "reads_back ex_codec_env (dict_times ex_codec_memory)"
    by (simp add: reads_back_def dict_times_def ex_codec_memory_def ex_codec_env_def ex_provenance_def ex_consent_def)
qed


end
