(* ===== verification/M1_Http.thy ===== *)
theory M1_Http
  imports Service_Search Serialization Cloud_Admin
begin

text \<open>
  The M1 transport of \<open>omp/adapters/mcp/http.py\<close> over the application service and its in-memory
  store: the token registry, the eight tools as \<open>_invoke\<close> dispatches them, and the two local control
  endpoints.

  The principals are objects that the registry's two dictionaries share, and revocation mutates one of
  them; so they live in a list, and the dictionaries hold their positions. The text of a reply is the
  rendering of a JSON document, which is what is modelled. \<open>datetime.fromisoformat\<close> is an argument,
  the field \<open>co_fromiso\<close> of the environment of the codecs. The bounds that the tool signatures and the
  pydantic models declare are written out; a value of another type than the annotated one never gets
  here. FastMCP authenticates with \<open>verify_token\<close> before it calls a tool.
\<close>

section \<open>Principals and the token registry\<close>

record M1Principal =
  mp_name :: string
  mp_tenant_id :: string
  mp_owner_id :: string
  mp_connection_id :: string
  mp_client_id :: string
  mp_scopes :: "string list"
  mp_allowed_spaces :: "string list"
  mp_revoked :: bool

record M1LocalAuth =
  ma_objects :: "M1Principal list"
  ma_tokens :: "(string, nat) dict"
  ma_connections :: "(string \<times> string, nat) dict"

definition m1_register :: "string \<Rightarrow> nat \<Rightarrow> M1LocalAuth \<Rightarrow> M1LocalAuth result" where
  "m1_register token a auth =
     (if py_strip token = [] then Inl PyValueError
      else let p = ma_objects auth ! a
           in Inr (auth\<lparr>ma_tokens := dict_set token a (ma_tokens auth),
                ma_connections := dict_set (mp_tenant_id p, mp_connection_id p) a (ma_connections auth)\<rparr>))"

fun m1_register_all :: "(string \<times> nat) list \<Rightarrow> M1LocalAuth \<Rightarrow> M1LocalAuth result" where
  "m1_register_all [] auth = Inr auth"
| "m1_register_all ((token, a) # rest) auth = res_bind (m1_register token a auth) (m1_register_all rest)"

definition m1_auth_init :: "M1Principal list \<Rightarrow> (string \<times> nat) list \<Rightarrow> M1LocalAuth result" where
  "m1_auth_init objects values =
     m1_register_all values \<lparr>ma_objects = objects, ma_tokens = [], ma_connections = []\<rparr>"

definition M1_ALLOWED_SCOPES :: "string list" where
  "M1_ALLOWED_SCOPES = [''memory:read'', ''memory:write'', ''memory:delete'']"

definition m1_default :: "string \<Rightarrow> string \<Rightarrow> string \<Rightarrow> string \<Rightarrow> M1Principal" where
  "m1_default name tenant user connection = \<lparr>mp_name = name, mp_tenant_id = tenant,
     mp_owner_id = ''m1:'' @ tenant @ '':'' @ user, mp_connection_id = connection, mp_client_id = name,
     mp_scopes = M1_ALLOWED_SCOPES, mp_allowed_spaces = [''MBA'', ''Work''], mp_revoked = False\<rparr>"

text \<open>\<open>getenv\<close> is \<open>os.getenv\<close> with a fallback.\<close>

definition m1_defaults :: "(string \<Rightarrow> string \<Rightarrow> string) \<Rightarrow> M1LocalAuth result" where
  "m1_defaults getenv = m1_auth_init
     [m1_default ''chatgpt-sim'' ''tenant-a'' ''user-a'' ''conn-chatgpt-sim'',
      m1_default ''claude-sim'' ''tenant-a'' ''user-a'' ''conn-claude-sim'',
      m1_default ''chatgpt-sim-b'' ''tenant-b'' ''user-b'' ''conn-chatgpt-sim-b'']
     [(py_strip (getenv ''M1_TOKEN_CHATGPT_SIM'' ''m1-fixture-chatgpt-sim''), 0),
      (py_strip (getenv ''M1_TOKEN_CLAUDE_SIM'' ''m1-fixture-claude-sim''), 1),
      (py_strip (getenv ''M1_TOKEN_CHATGPT_SIM_B'' ''m1-fixture-chatgpt-sim-b''), 2)]"

definition m1_principal :: "M1LocalAuth \<Rightarrow> string \<Rightarrow> M1Principal option" where
  "m1_principal auth token = map_option (nth (ma_objects auth)) (dict_get (ma_tokens auth) token)"

definition m1_verify_token :: "datetime \<Rightarrow> M1LocalAuth \<Rightarrow> string \<Rightarrow> AgentAccessToken option" where
  "m1_verify_token now auth token = (case m1_principal auth token of
     None \<Rightarrow> None
   | Some p \<Rightarrow> Some \<lparr>at_token = token, at_client_id = mp_client_id p,
       at_resource = ''https://m1.local.invalid/mcp'',
       at_access = \<lparr>tok_subject = Some (mp_owner_id p),
         tok_claims = [(''tenant_id'', mp_tenant_id p), (''connection_id'', mp_connection_id p),
           (''client_id'', mp_client_id p)],
         tok_scopes = sort (remdups (mp_scopes p)),
         tok_expires_at = Some (timestamp_int now + 3600)\<rparr>\<rparr>)"

text \<open>\<open>str.partition\<close> at the first space.\<close>

definition m1_principal_from_request :: "M1LocalAuth \<Rightarrow> string option \<Rightarrow> M1Principal option" where
  "m1_principal_from_request auth header =
     (let value = or_empty header; scheme = takeWhile (\<lambda>c. c \<noteq> CHR '' '') value;
          token = drop (Suc (length scheme)) value
      in if casefold scheme \<noteq> ''bearer'' \<or> token = [] then None else m1_principal auth token)"

definition m1_revoke :: "M1Principal \<Rightarrow> string \<Rightarrow> string \<Rightarrow> M1LocalAuth \<Rightarrow> M1LocalAuth result" where
  "m1_revoke actor connection_id client auth =
     (case dict_get (ma_connections auth) (mp_tenant_id actor, connection_id) of
        None \<Rightarrow> Inl PyPermissionError
      | Some a \<Rightarrow>
          if mp_client_id (ma_objects auth ! a) \<noteq> client then Inl PyPermissionError
          else Inr (auth\<lparr>ma_objects := (ma_objects auth)[a := (ma_objects auth ! a)\<lparr>mp_revoked := True\<rparr>]\<rparr>))"

section \<open>Request models\<close>

record M1Provenance =
  q_source_type :: string
  q_source_client :: string
  q_source_connection_id :: "string option"
  q_conversation_id :: "string option"
  q_message_id :: "string option"
  q_source_model :: "string option"
  q_captured_at :: string
  q_evidence :: "string list"

record M1Consent =
  q_mode :: string
  q_consent_id :: string
  q_reason_code :: string
  q_policy_version :: string
  q_granted_at :: string

record M1Patch =
  q_content :: "string option"
  q_type :: "string option"
  q_space :: "string option"
  q_importance :: "pyfloat option"
  q_confidence :: "pyfloat option"
  q_state :: "string option"
  q_provenance :: "M1Provenance option"

definition text_between :: "nat \<Rightarrow> nat \<Rightarrow> string \<Rightarrow> bool" where
  "text_between lo hi s \<longleftrightarrow> lo \<le> length s \<and> length s \<le> hi"

definition opt_between :: "nat \<Rightarrow> nat \<Rightarrow> string option \<Rightarrow> bool" where
  "opt_between lo hi v = (case v of None \<Rightarrow> True | Some s \<Rightarrow> text_between lo hi s)"

definition unit_opt :: "pyfloat option \<Rightarrow> bool" where
  "unit_opt v = (case v of None \<Rightarrow> True | Some f \<Rightarrow> 0 \<le> f \<and> f \<le> 1)"

definition normalize_timestamp :: "CodecEnv \<Rightarrow> string \<Rightarrow> string result" where
  "normalize_timestamp cod s =
     res_bind (or_raise PyValueError (co_fromiso cod (py_replace ''Z'' ''+00:00'' s))) (\<lambda>parsed.
     res_bind (res_guard (dt_aware parsed) PyValueError) (\<lambda>_.
     Inr (py_replace ''+00:00'' ''Z'' (isoformat (astimezone_utc parsed)))))"

text \<open>The models strip every text before they check its length.\<close>

definition m1_provenance_model :: "CodecEnv \<Rightarrow> M1Provenance \<Rightarrow> M1Provenance result" where
  "m1_provenance_model cod v =
     (let w = \<lparr>q_source_type = py_strip (q_source_type v), q_source_client = py_strip (q_source_client v),
        q_source_connection_id = map_option py_strip (q_source_connection_id v),
        q_conversation_id = map_option py_strip (q_conversation_id v),
        q_message_id = map_option py_strip (q_message_id v),
        q_source_model = map_option py_strip (q_source_model v),
        q_captured_at = py_strip (q_captured_at v), q_evidence = map py_strip (q_evidence v)\<rparr> in
      res_bind (res_guard (text_between 1 32 (q_source_type w) \<and> text_between 1 128 (q_source_client w) \<and>
        opt_between 0 256 (q_source_connection_id w) \<and> opt_between 0 256 (q_conversation_id w) \<and>
        opt_between 0 256 (q_message_id w) \<and> opt_between 0 128 (q_source_model w) \<and>
        text_between 1 80 (q_captured_at w) \<and> length (q_evidence w) \<le> 8) PyValueError) (\<lambda>_.
      res_bind (normalize_timestamp cod (q_captured_at w)) (\<lambda>t. Inr (w\<lparr>q_captured_at := t\<rparr>))))"

definition m1_consent_model :: "CodecEnv \<Rightarrow> M1Consent \<Rightarrow> M1Consent result" where
  "m1_consent_model cod v =
     (let w = \<lparr>q_mode = py_strip (q_mode v), q_consent_id = py_strip (q_consent_id v),
        q_reason_code = py_strip (q_reason_code v), q_policy_version = py_strip (q_policy_version v),
        q_granted_at = py_strip (q_granted_at v)\<rparr> in
      res_bind (res_guard (text_between 1 32 (q_mode w) \<and> text_between 1 256 (q_consent_id w) \<and>
        text_between 1 64 (q_reason_code w) \<and> text_between 1 128 (q_policy_version w) \<and>
        text_between 1 80 (q_granted_at w)) PyValueError) (\<lambda>_.
      res_bind (normalize_timestamp cod (q_granted_at w)) (\<lambda>t. Inr (w\<lparr>q_granted_at := t\<rparr>))))"

definition patch_has_change :: "M1Patch \<Rightarrow> bool" where
  "patch_has_change w \<longleftrightarrow> q_content w \<noteq> None \<or> q_type w \<noteq> None \<or> q_space w \<noteq> None \<or>
     q_importance w \<noteq> None \<or> q_confidence w \<noteq> None \<or> q_state w \<noteq> None \<or> q_provenance w \<noteq> None"

definition m1_patch_model :: "CodecEnv \<Rightarrow> M1Patch \<Rightarrow> M1Patch result" where
  "m1_patch_model cod v =
     (let w = v\<lparr>q_content := map_option py_strip (q_content v), q_type := map_option py_strip (q_type v),
        q_space := map_option py_strip (q_space v), q_state := map_option py_strip (q_state v)\<rparr> in
      res_bind (res_guard (opt_between 1 16384 (q_content w) \<and> opt_between 1 32 (q_type w) \<and>
        opt_between 1 128 (q_space w) \<and> unit_opt (q_importance w) \<and> unit_opt (q_confidence w) \<and>
        opt_between 1 32 (q_state w)) PyValueError) (\<lambda>_.
      res_bind (case q_provenance w of None \<Rightarrow> Inr None
         | Some p \<Rightarrow> res_bind (m1_provenance_model cod p) (\<lambda>p'. Inr (Some p'))) (\<lambda>prov.
      res_bind (res_guard (patch_has_change w) PyValueError) (\<lambda>_.
      Inr (w\<lparr>q_provenance := prov\<rparr>)))))"

section \<open>From the models to the domain\<close>

definition m1_provenance :: "CodecEnv \<Rightarrow> M1Provenance \<Rightarrow> Provenance result" where
  "m1_provenance cod v =
     res_bind (source_type_of (q_source_type v)) (\<lambda>source_type.
     res_bind (or_raise PyValueError (co_fromiso cod (py_replace ''Z'' ''+00:00'' (q_captured_at v)))) (\<lambda>captured_at.
     provenance_post_init
       \<lparr>pv_source_type = source_type, pv_captured_at = captured_at, pv_source_id = None,
        pv_source_model = q_source_model v, pv_evidence = q_evidence v,
        pv_source_client = Some (q_source_client v), pv_source_connection_id = q_source_connection_id v,
        pv_conversation_id = q_conversation_id v, pv_message_id = q_message_id v\<rparr>))"

definition m1_consent :: "CodecEnv \<Rightarrow> M1Consent \<Rightarrow> CaptureConsent result" where
  "m1_consent cod v =
     res_bind (consent_mode_of (q_mode v)) (\<lambda>mode.
     res_bind (consent_reason_of (q_reason_code v)) (\<lambda>reason_code.
     res_bind (or_raise PyValueError (co_fromiso cod (py_replace ''Z'' ''+00:00'' (q_granted_at v)))) (\<lambda>granted_at.
     capture_consent_post_init
       \<lparr>cc_mode = mode, cc_consent_id = q_consent_id v, cc_reason_code = reason_code,
        cc_policy_version = q_policy_version v, cc_granted_at = granted_at\<rparr>)))"

definition utc_text :: "datetime \<Rightarrow> string" where
  "utc_text d = py_replace ''+00:00'' ''Z'' (isoformat (astimezone_utc d))"

definition m1_memory :: "Memory \<Rightarrow> payload" where
  "m1_memory m = (let p = m_provenance m in
     [(''id'', JStr (uuid_str (m_id m))), (''content'', JStr (m_content m)),
      (''type'', JStr (memory_type_value (m_memory_type m))), (''space'', json_opt JStr (m_space m)),
      (''importance'', JFloat (m_importance m)), (''confidence'', JFloat (m_confidence m)),
      (''state'', JStr (memory_state_value (m_state m))), (''version'', JInt (m_version m)),
      (''created_at'', JStr (utc_text (m_created_at m))), (''updated_at'', JStr (utc_text (m_updated_at m))),
      (''occurred_at'', json_opt (\<lambda>d. JStr (utc_text d)) (m_occurred_at m)),
      (''provenance'', JObj
        [(''source_type'', JStr (source_type_value (pv_source_type p))),
         (''source_client'', json_opt JStr (pv_source_client p)),
         (''source_connection_id'', json_opt JStr (pv_source_connection_id p)),
         (''conversation_id'', json_opt JStr (pv_conversation_id p)),
         (''message_id'', json_opt JStr (pv_message_id p)),
         (''source_model'', json_opt JStr (pv_source_model p)),
         (''captured_at'', JStr (utc_text (pv_captured_at p))),
         (''evidence'', JList (map JStr (pv_evidence p)))])] @
     (case m_capture_consent m of None \<Rightarrow> [] | Some c \<Rightarrow> [(''capture_consent'', JObj
        [(''mode'', JStr (consent_mode_value (cc_mode c))), (''consent_id'', JStr (cc_consent_id c)),
         (''reason_code'', JStr (consent_reason_value (cc_reason_code c))),
         (''policy_version'', JStr (cc_policy_version c)),
         (''granted_at'', JStr (utc_text (cc_granted_at c)))])]))"

section \<open>Replies\<close>

datatype m1_error = M1BoundaryError string | M1Raised error

definition m1_safe_codes :: "string list" where
  "m1_safe_codes = [''validation_error'', ''not_found'', ''version_conflict'', ''invalid_state_transition'',
     ''idempotency_conflict'', ''idempotency_in_progress'', ''consent_required'', ''capture_disabled'',
     ''connection_revoked'', ''scope_denied'', ''space_forbidden'', ''restore_blocked_by_tombstone'',
     ''relation_conflict'', ''storage_error'']"

definition m1_safe_code :: "m1_error \<Rightarrow> string" where
  "m1_safe_code e = (case e of
     M1BoundaryError code \<Rightarrow> code
   | M1Raised err \<Rightarrow> (case error_code err of
       Some code \<Rightarrow> if code \<in> set m1_safe_codes then code else ''storage_error''
     | None \<Rightarrow> if err \<in> {PyValueError, PyTypeError, PyKeyError} then ''validation_error'' else ''storage_error''))"

definition m1_ok :: "string \<Rightarrow> payload \<Rightarrow> payload" where
  "m1_ok request_id data = [(''protocol_version'', JStr ''omp.mcp.m1''), (''request_id'', JStr request_id),
     (''ok'', JBool True), (''data'', JObj data)]"

definition m1_error_reply :: "string \<Rightarrow> string \<Rightarrow> payload" where
  "m1_error_reply request_id code = [(''protocol_version'', JStr ''omp.mcp.m1''), (''request_id'', JStr request_id),
     (''ok'', JBool False), (''error'', JObj
       [(''code'', JStr code), (''message'', JStr ''memory operation could not be completed''),
        (''retryable'', JBool (code \<in> {''idempotency_in_progress'', ''storage_error''}))])]"

section \<open>The control state and the tools\<close>

record M1LocalControl =
  mk_store :: InMemoryStore
  mk_auth :: M1LocalAuth
  mk_tombstones :: "(string \<times> string \<times> string) set"

type_synonym 'a m1_act = "(M1LocalControl, m1_error, 'a) act"

definition m1_is_tombstoned :: "M1LocalControl \<Rightarrow> M1Principal \<Rightarrow> string \<Rightarrow> bool" where
  "m1_is_tombstoned k p memory_id =
     (if (mp_tenant_id p, mp_owner_id p, memory_id) \<in> mk_tombstones k then True
      else case uuid_parse memory_id of
        None \<Rightarrow> False
      | Some target \<Rightarrow> admin_is_tombstoned (mk_store k) (mp_owner_id p) target (Some (mp_tenant_id p)))"

datatype m1_call =
    M1Capture string string "string option" M1Provenance M1Consent string
  | M1InboxList "string option" int "string option"
  | M1InboxConfirm string int string "M1Patch option"
  | M1InboxDiscard string int string "string option"
  | M1Pin string int bool string
  | M1Recall string "string option" "string list option" "string list option" "string list option" bool int pyfloat
  | M1Update string int M1Patch string
  | M1Forget string string "string option"

text \<open>The bounds of the tool signatures, and the models of the nested arguments.\<close>

fun m1_validate :: "CodecEnv \<Rightarrow> m1_call \<Rightarrow> m1_call result" where
  "m1_validate cod (M1Capture content ty space prov consent key) =
     res_bind (res_guard (text_between 1 16384 content \<and> text_between 1 32 ty \<and> opt_between 1 128 space \<and>
       text_between 1 128 key) PyValueError) (\<lambda>_.
     res_bind (m1_provenance_model cod prov) (\<lambda>prov'.
     res_bind (m1_consent_model cod consent) (\<lambda>consent'.
     Inr (M1Capture content ty space prov' consent' key))))"
| "m1_validate cod (M1InboxList space limit cursor) =
     res_bind (res_guard (opt_between 1 128 space \<and> 1 \<le> limit \<and> limit \<le> 50 \<and> opt_between 0 128 cursor) PyValueError) (\<lambda>_.
     Inr (M1InboxList space limit cursor))"
| "m1_validate cod (M1InboxConfirm mid expected key patch) =
     res_bind (res_guard (text_between 1 128 mid \<and> 1 \<le> expected \<and> text_between 1 128 key) PyValueError) (\<lambda>_.
     res_bind (case patch of None \<Rightarrow> Inr None
       | Some v \<Rightarrow> res_bind (m1_patch_model cod v) (\<lambda>v'. Inr (Some v'))) (\<lambda>patch'.
     Inr (M1InboxConfirm mid expected key patch')))"
| "m1_validate cod (M1InboxDiscard mid expected key reason) =
     res_bind (res_guard (text_between 1 128 mid \<and> 1 \<le> expected \<and> text_between 1 128 key \<and>
       opt_between 0 64 reason) PyValueError) (\<lambda>_. Inr (M1InboxDiscard mid expected key reason))"
| "m1_validate cod (M1Pin mid expected pinned key) =
     res_bind (res_guard (text_between 1 128 mid \<and> 1 \<le> expected \<and> text_between 1 128 key) PyValueError) (\<lambda>_.
     Inr (M1Pin mid expected pinned key))"
| "m1_validate cod (M1Recall query space spaces types states notes limit threshold) =
     res_bind (res_guard (text_between 1 4096 query \<and> opt_between 1 128 space \<and> 1 \<le> limit \<and> limit \<le> 50 \<and>
       0 \<le> threshold \<and> threshold \<le> 1) PyValueError) (\<lambda>_.
     Inr (M1Recall query space spaces types states notes limit threshold))"
| "m1_validate cod (M1Update mid expected patch key) =
     res_bind (res_guard (text_between 1 128 mid \<and> 1 \<le> expected \<and> text_between 1 128 key) PyValueError) (\<lambda>_.
     res_bind (m1_patch_model cod patch) (\<lambda>patch'. Inr (M1Update mid expected patch' key)))"
| "m1_validate cod (M1Forget mid key reason) =
     res_bind (res_guard (text_between 1 128 mid \<and> text_between 1 128 key \<and> opt_between 0 64 reason) PyValueError) (\<lambda>_.
     Inr (M1Forget mid key reason))"

fun m1_required_scope :: "m1_call \<Rightarrow> string" where
  "m1_required_scope (M1Forget _ _ _) = ''memory:delete''"
| "m1_required_scope (M1InboxDiscard _ _ _ _) = ''memory:delete''"
| "m1_required_scope (M1Recall _ _ _ _ _ _ _ _) = ''memory:read''"
| "m1_required_scope (M1InboxList _ _ _) = ''memory:read''"
| "m1_required_scope _ = ''memory:write''"

text \<open>Calling the application service on the store of the control state.\<close>

definition m1_service :: "'a store_act \<Rightarrow> 'a m1_act" where
  "m1_service f k = (case f (mk_store k) of
     (Inl e, s) \<Rightarrow> (Inl (M1Raised e), k\<lparr>mk_store := s\<rparr>)
   | (Inr a, s) \<Rightarrow> (Inr a, k\<lparr>mk_store := s\<rparr>))"

definition m1_query :: "(InMemoryStore \<Rightarrow> 'a result) \<Rightarrow> 'a m1_act" where
  "m1_query f k = (map_sum M1Raised id (f (mk_store k)), k)"

definition m1_res :: "'a result \<Rightarrow> 'a m1_act" where
  "m1_res r = act_res (map_sum M1Raised id r)"

definition m1_uuid :: "string \<Rightarrow> uuid result" where
  "m1_uuid s = or_raise PyValueError (uuid_parse s)"

definition opt_enum :: "(string \<Rightarrow> 'a result) \<Rightarrow> string option \<Rightarrow> 'a option result" where
  "opt_enum f v = (if py_truthy v then res_bind (f (the v)) (\<lambda>x. Inr (Some x)) else Inr None)"

definition default_reason :: "string option \<Rightarrow> string" where
  "default_reason v = (if py_truthy v then the v else ''user_requested_memory'')"

definition m1_mark :: "M1Principal \<Rightarrow> uuid \<Rightarrow> bool \<Rightarrow> unit m1_act" where
  "m1_mark p memory_id forgotten = act_when forgotten (act_modify (\<lambda>k. k\<lparr>mk_tombstones :=
     insert (mp_tenant_id p, mp_owner_id p, uuid_str memory_id) (mk_tombstones k)\<rparr>))"

definition forgotten_status :: "bool \<Rightarrow> payload" where
  "forgotten_status forgotten = [(''status'', JStr (if forgotten then ''forgotten'' else ''already_absent''))]"

definition m1_item :: "SearchMemoryItem \<Rightarrow> json" where
  "m1_item x = JObj (m1_memory (SearchMemoryItem.si_memory x) @
     [(''score'', JFloat (SearchMemoryItem.si_score x)), (''reason_retrieved'', JStr (SearchMemoryItem.si_reason_retrieved x)),
      (''profile_id'', JStr (SearchMemoryItem.si_profile_id x)), (''profile_version'', JStr (SearchMemoryItem.si_profile_version x))])"

definition m1_capture_guard :: "M1Principal \<Rightarrow> M1Provenance \<Rightarrow> string option \<Rightarrow> unit m1_act" where
  "m1_capture_guard p prov space =
     act_bind (act_guard (q_source_client prov = mp_client_id p) (M1BoundaryError ''validation_error'')) (\<lambda>_.
     act_bind (act_guard (q_source_connection_id prov = None \<or>
       q_source_connection_id prov = Some (mp_connection_id p)) (M1BoundaryError ''validation_error'')) (\<lambda>_.
     act_guard (case space of None \<Rightarrow> True | Some sp \<Rightarrow> sp \<in> set (mp_allowed_spaces p))
       (M1BoundaryError ''space_forbidden'')))"

definition m1_recall_command ::
  "M1Principal \<Rightarrow> string \<Rightarrow> string option \<Rightarrow> string list \<Rightarrow> MemoryType list \<Rightarrow> MemoryState list \<Rightarrow> bool \<Rightarrow> int \<Rightarrow>
     pyfloat \<Rightarrow> RecallMemoryCommand" where
  "m1_recall_command p query space spaces types states notes limit threshold =
     \<lparr>rc_tenant_id = mp_tenant_id p, rc_owner_id = mp_owner_id p, rc_connection_id = mp_connection_id p,
      rc_query = query, rc_context_space = space, rc_include_spaces = spaces,
      rc_memory_types = (if types = [] then None else Some (set types)),
      rc_states = (if states = [] then {CONFIRMED, PINNED} else set states),
      rc_allow_mental_notes = notes, rc_limit = limit, rc_candidate_limit = 50, rc_threshold = threshold,
      rc_space_policy = \<lparr>sp_default_recall = (if spaces \<noteq> [] then ''explicit_allowlist'' else ''same_space_only''),
        sp_allowed_spaces = set (mp_allowed_spaces p), sp_allow_global = False,
        sp_allow_mental_notes_cross_space = False\<rparr>,
      rc_connection_revoked = mp_revoked p, rc_scopes = set (mp_scopes p)\<rparr>"

fun m1_dispatch :: "ServiceEnv \<Rightarrow> CodecEnv \<Rightarrow> M1Principal \<Rightarrow> m1_call \<Rightarrow> payload m1_act" where
  "m1_dispatch env cod p (M1Capture content ty space prov consent key) =
     act_bind (m1_capture_guard p prov space) (\<lambda>_.
     act_bind (m1_res (memory_type_of ty)) (\<lambda>mtype.
     act_bind (m1_res (m1_provenance cod prov)) (\<lambda>provenance.
     act_bind (m1_res (m1_consent cod consent)) (\<lambda>cons.
     act_bind (m1_service (svc_capture env
       \<lparr>cp_tenant_id = mp_tenant_id p, cp_owner_id = mp_owner_id p, cp_connection_id = mp_connection_id p,
        cp_content = content, cp_memory_type = mtype, cp_space = space, cp_provenance = provenance,
        cp_consent = cons, cp_idempotency_key = key, cp_importance = 1/2, cp_confidence = 1/2,
        cp_capture_policy = ''assisted'', cp_connection_revoked = mp_revoked p,
        cp_scopes = set (mp_scopes p)\<rparr>)) (\<lambda>r.
     act_return [(''memory'', JObj (m1_memory (cr_memory r))),
       (''status'', JStr (if cr_created r then ''created'' else ''already_exists''))])))))"
| "m1_dispatch env cod p (M1InboxList space limit cursor) =
     act_bind (m1_query (svc_list_inbox
       \<lparr>li_tenant_id = mp_tenant_id p, li_owner_id = mp_owner_id p, li_connection_id = mp_connection_id p,
        li_space = space, li_limit = limit, li_cursor = cursor, li_connection_revoked = False,
        li_scopes = set (mp_scopes p)\<rparr>)) (\<lambda>r.
     act_return [(''candidates'', JList (map (\<lambda>m. JObj (m1_memory m)) (ir_candidates r))),
       (''count'', JInt (int (length (ir_candidates r)))), (''next_cursor'', json_opt JStr (ir_next_cursor r))])"
| "m1_dispatch env cod p (M1InboxConfirm mid expected key patch) =
     act_bind (m1_res (m1_uuid mid)) (\<lambda>i.
     act_bind (m1_res (opt_enum memory_type_of (Option.bind patch q_type))) (\<lambda>mtype.
     act_bind (m1_service (svc_confirm_candidate env
       \<lparr>cf_tenant_id = mp_tenant_id p, cf_owner_id = mp_owner_id p, cf_connection_id = mp_connection_id p,
        cf_memory_id = i, cf_expected_version = expected, cf_idempotency_key = key,
        cf_content = Option.bind patch q_content, cf_memory_type = mtype, cf_space = Option.bind patch q_space,
        cf_actor_reason = ''user_confirmed_inbox'', cf_connection_revoked = mp_revoked p,
        cf_scopes = set (mp_scopes p)\<rparr>)) (\<lambda>m.
     act_return [(''memory'', JObj (m1_memory m)), (''status'', JStr ''confirmed'')])))"
| "m1_dispatch env cod p (M1InboxDiscard mid expected key reason) =
     act_bind (m1_res (m1_uuid mid)) (\<lambda>i.
     act_bind (m1_service (svc_discard_candidate env
       \<lparr>dc_tenant_id = mp_tenant_id p, dc_owner_id = mp_owner_id p, dc_connection_id = mp_connection_id p,
        dc_memory_id = i, dc_expected_version = expected, dc_idempotency_key = key,
        dc_reason_code = default_reason reason, dc_connection_revoked = mp_revoked p,
        dc_scopes = set (mp_scopes p)\<rparr>)) (\<lambda>r.
     act_bind (m1_mark p (dres_memory_id r) (dres_forgotten r)) (\<lambda>_.
     act_return (forgotten_status (dres_forgotten r)))))"
| "m1_dispatch env cod p (M1Pin mid expected pinned key) =
     act_bind (m1_res (m1_uuid mid)) (\<lambda>i.
     act_bind (m1_service (svc_pin env
       \<lparr>pn_tenant_id = mp_tenant_id p, pn_owner_id = mp_owner_id p, pn_connection_id = mp_connection_id p,
        pn_memory_id = i, pn_expected_version = expected, pn_pinned = pinned, pn_idempotency_key = key,
        pn_connection_revoked = mp_revoked p, pn_scopes = set (mp_scopes p)\<rparr>)) (\<lambda>m.
     act_return [(''memory'', JObj (m1_memory m)), (''status'', JStr (memory_state_value (m_state m)))]))"
| "m1_dispatch env cod p (M1Recall query space spaces types states notes limit threshold) =
     act_bind (m1_res (res_map memory_type_of (or_default types []))) (\<lambda>mtypes.
     act_bind (m1_res (res_map memory_state_of (or_default states []))) (\<lambda>mstates.
     act_bind (m1_query (svc_recall env
       (m1_recall_command p query space (or_default spaces []) mtypes mstates notes limit threshold))) (\<lambda>r.
     act_return [(''memories'', JList (map m1_item (rres_items r))), (''count'', JInt (int (rres_count r)))])))"
| "m1_dispatch env cod p (M1Update mid expected patch key) =
     act_bind (m1_res (m1_uuid mid)) (\<lambda>i.
     act_bind (m1_res (opt_enum memory_type_of (q_type patch))) (\<lambda>mtype.
     act_bind (m1_res (opt_enum memory_state_of (q_state patch))) (\<lambda>state.
     act_bind (m1_res (case q_provenance patch of None \<Rightarrow> Inr None
       | Some v \<Rightarrow> res_bind (m1_provenance cod v) (\<lambda>pv. Inr (Some pv)))) (\<lambda>prov.
     act_bind (m1_service (svc_update env
       \<lparr>up_owner_id = mp_owner_id p, up_memory_id = i, up_expected_version = expected,
        up_content = q_content patch, up_memory_type = mtype, up_importance = q_importance patch,
        up_confidence = q_confidence patch, up_state = state, up_occurred_at = None,
        up_space = q_space patch, up_provenance = prov, up_supersedes_memory_id = None,
        up_contradicts_memory_id = None, up_change_reason = ''updated'', up_idempotency_key = Some key\<rparr>)) (\<lambda>m.
     act_return [(''memory'', JObj (m1_memory m)), (''status'', JStr ''updated'')])))))"
| "m1_dispatch env cod p (M1Forget mid key reason) =
     act_bind (m1_res (m1_uuid mid)) (\<lambda>i.
     act_bind (m1_service (svc_forget env
       \<lparr>fg_owner_id = mp_owner_id p, fg_memory_id = i, fg_idempotency_key = Some key,
        fg_reason_code = default_reason reason, fg_tenant_id = Some (mp_tenant_id p)\<rparr>)) (\<lambda>r.
     act_bind (m1_mark p (fres_memory_id r) (fres_forgotten r)) (\<lambda>_.
     act_return (forgotten_status (fres_forgotten r)))))"

definition m1_guarded :: "ServiceEnv \<Rightarrow> CodecEnv \<Rightarrow> M1Principal \<Rightarrow> m1_call \<Rightarrow> payload m1_act" where
  "m1_guarded env cod p call =
     act_bind (act_guard (\<not> mp_revoked p) (M1BoundaryError ''connection_revoked'')) (\<lambda>_.
     act_bind (act_guard (m1_required_scope call \<in> set (mp_scopes p)) (M1BoundaryError ''scope_denied'')) (\<lambda>_.
     m1_dispatch env cod p call))"

definition m1_invoke ::
  "ServiceEnv \<Rightarrow> CodecEnv \<Rightarrow> string \<Rightarrow> M1Principal \<Rightarrow> m1_call \<Rightarrow> M1LocalControl \<Rightarrow> payload \<times> M1LocalControl" where
  "m1_invoke env cod request_id p call k = (case m1_guarded env cod p call k of
     (Inl e, k') \<Rightarrow> (m1_error_reply request_id (m1_safe_code e), k')
   | (Inr data, k') \<Rightarrow> (m1_ok request_id data, k'))"

text \<open>
  A tool call as FastMCP makes it: the token is verified, the names that the signature does not declare
  (\<open>extra\<close>) are refused, the arguments are validated, and the tool looks its principal up. \<open>None\<close> is
  the refusal of the request by the authentication layer.
\<close>

definition m1_tool_call ::
  "ServiceEnv \<Rightarrow> CodecEnv \<Rightarrow> string \<Rightarrow> string \<Rightarrow> string list \<Rightarrow> m1_call \<Rightarrow> M1LocalControl \<Rightarrow>
     payload option \<times> M1LocalControl" where
  "m1_tool_call env cod request_id token extra call k = (case m1_principal (mk_auth k) token of
     None \<Rightarrow> (None, k)
   | Some p \<Rightarrow>
       if extra \<noteq> [] then (Some (m1_error_reply request_id ''validation_error''), k)
       else (case m1_validate cod call of
           Inl e \<Rightarrow> (Some (m1_error_reply request_id ''validation_error''), k)
         | Inr call' \<Rightarrow> map_prod Some id (m1_invoke env cod request_id p call' k)))"

section \<open>The local control endpoints\<close>

text \<open>A status and the state; the body of the revocation request has been read as its two fields.\<close>

definition m1_revoke_endpoint ::
  "string option \<Rightarrow> (string \<times> string) option \<Rightarrow> M1LocalControl \<Rightarrow> int \<times> M1LocalControl" where
  "m1_revoke_endpoint header body k = (case m1_principal_from_request (mk_auth k) header of
     None \<Rightarrow> (401, k)
   | Some actor \<Rightarrow> (case body of
       None \<Rightarrow> (403, k)
     | Some (connection_id, client) \<Rightarrow>
         let c = py_strip connection_id; cl = py_strip client in
         if text_between 1 256 c \<and> text_between 1 128 cl
         then (case m1_revoke actor c cl (mk_auth k) of
             Inl e \<Rightarrow> (403, k) | Inr auth \<Rightarrow> (200, k\<lparr>mk_auth := auth\<rparr>))
         else (403, k)))"

record M1RestoreRequest =
  mr_format :: string
  mr_exported_at :: string
  mr_memories :: "payload list"

text \<open>The answer is a status code and the reported status; nothing is ever restored.\<close>

definition m1_restore_endpoint ::
  "string option \<Rightarrow> M1RestoreRequest option \<Rightarrow> M1LocalControl \<Rightarrow> int \<times> string" where
  "m1_restore_endpoint header body k = (case m1_principal_from_request (mk_auth k) header of
     None \<Rightarrow> (401, ''authorization denied'')
   | Some p \<Rightarrow> (case body of
       None \<Rightarrow> (400, ''validation_error'')
     | Some r \<Rightarrow>
         if text_between 1 80 (py_strip (mr_exported_at r)) \<and> py_strip (mr_format r) = ''omp.export.v0'' \<and>
            length (mr_memories r) = 1
         then (case get_of (hd (mr_memories r)) ''id'' of
             JStr memory_id \<Rightarrow> if m1_is_tombstoned k p memory_id then (200, ''restore_blocked_by_tombstone'')
               else (400, ''validation_error'')
           | _ \<Rightarrow> (400, ''validation_error''))
         else (400, ''validation_error'')))"

end
