(* ===== verification/M1_Properties.thy ===== *)
theory M1_Properties
  imports M1_Http Forget_Properties Search_Properties
begin

text \<open>
  The transport as a transition system: tool calls made with any token and revocation requests. A call
  acts on the store as one step of the application service for the owner of its token, so that what
  holds of the service holds of the transport; revocation is permanent for the revoked object.
\<close>

section \<open>What a call does\<close>

text \<open>A call leaves the registry alone, takes at most one service step for its owner, and marks
  tombstones of its own tenant and owner only; when it fails it changes nothing.\<close>

definition m1_frame :: "ServiceEnv \<Rightarrow> M1Principal \<Rightarrow> M1LocalControl \<Rightarrow> M1LocalControl \<Rightarrow> bool" where
  "m1_frame env p k k' \<longleftrightarrow> mk_auth k' = mk_auth k \<and>
     (uuid_fresh env (mk_store k) \<longrightarrow> mk_store k' = mk_store k \<or> service_step (mp_owner_id p) (mk_store k) (mk_store k')) \<and>
     mk_tombstones k \<subseteq> mk_tombstones k'"

lemma m1_frame_refl [simp]: "m1_frame env p k k"
  by (simp add: m1_frame_def)

lemma m1_service_run:
  "m1_service f k = (map_sum M1Raised id (fst (f (mk_store k))), k\<lparr>mk_store := snd (f (mk_store k))\<rparr>)"
  by (simp add: m1_service_def split: prod.splits sum.splits)

lemma m1_res_run [simp]: "m1_res r k = (map_sum M1Raised id r, k)"
  by (simp add: m1_res_def act_run)

lemma m1_query_run [simp]: "m1_query f k = (map_sum M1Raised id (f (mk_store k)), k)"
  by (simp add: m1_query_def)

lemma m1_capture_guard_run: "snd (m1_capture_guard p prov space k) = k"
  by (simp add: m1_capture_guard_def act_bind_def act_run res_guard_def)

lemma m1_mark_run [simp]:
  "m1_mark p i b k = (Inr (), if b then k\<lparr>mk_tombstones := insert (mp_tenant_id p, mp_owner_id p, uuid_str i)
     (mk_tombstones k)\<rparr> else k)"
  by (simp add: m1_mark_def act_when_def act_run)

definition m1_outcome :: "ServiceEnv \<Rightarrow> M1Principal \<Rightarrow> M1LocalControl \<Rightarrow> (m1_error, 'a) res \<times> M1LocalControl \<Rightarrow> bool" where
  "m1_outcome env p k out \<longleftrightarrow> m1_frame env p k (snd out) \<and> (\<forall>e. fst out = Inl e \<longrightarrow> snd out = k)"

lemma m1_outcome_pure_bind:
  assumes "m1_outcome env p k (f k)" "snd (f k) = k" "\<And>a. fst (f k) = Inr a \<Longrightarrow> m1_outcome env p k (g a k)"
  shows "m1_outcome env p k (act_bind f g k)"
  using assms by (cases "f k") (auto simp: act_bind_def m1_outcome_def split: sum.splits)

lemma m1_outcome_service_bind:
  assumes "\<And>r t. f (mk_store k) = (r, t) \<Longrightarrow> uuid_fresh env (mk_store k) \<Longrightarrow> service_step (mp_owner_id p) (mk_store k) t"
    and "\<And>e t. f (mk_store k) = (Inl e, t) \<Longrightarrow> t = mk_store k"
    and "\<And>a k1. \<exists>b k2. g a k1 = (Inr b, k2) \<and> mk_auth k2 = mk_auth k1 \<and> mk_store k2 = mk_store k1 \<and>
      mk_tombstones k1 \<subseteq> mk_tombstones k2"
  shows "m1_outcome env p k (act_bind (m1_service f) g k)"
proof (cases "f (mk_store k)")
  case (Pair r t)
  show ?thesis
  proof (cases r)
    case (Inl e)
    then show ?thesis
      using Pair assms(2) [of e t] by (simp add: act_bind_def m1_service_run m1_outcome_def)
  next
    case (Inr a)
    obtain b k2 where "g a (k\<lparr>mk_store := t\<rparr>) = (Inr b, k2)" "mk_auth k2 = mk_auth k" "mk_store k2 = t"
      "mk_tombstones k \<subseteq> mk_tombstones k2" using assms(3) [of a "k\<lparr>mk_store := t\<rparr>"] by auto
    then show ?thesis
      using Pair Inr assms(1) [of r t] by (simp add: act_bind_def m1_service_run m1_outcome_def m1_frame_def)
  qed
qed

lemma m1_outcome_res [simp]: "m1_outcome env p k (map_sum M1Raised id r, k)"
  by (simp add: m1_outcome_def)

lemma m1_outcome_return [simp]: "m1_outcome env p k (act_return x k)"
  by (simp add: m1_outcome_def act_run)

lemma m1_outcome_capture_guard: "m1_outcome env p k (m1_capture_guard p prov space k)"
  by (simp add: m1_outcome_def m1_capture_guard_run)

lemmas m1_outcome_intros = m1_outcome_pure_bind m1_outcome_service_bind m1_outcome_capture_guard

lemma m1_dispatch_outcome: "m1_outcome env p k (m1_dispatch env cod p call k)"
proof (cases call)
  case (M1Capture content ty space prov consent key)
  show ?thesis unfolding M1Capture m1_dispatch.simps
    by (intro m1_outcome_intros)
       (auto simp: m1_capture_guard_run act_run dest: service_error_rollback service_step.call_capture)
next
  case (M1InboxList space limit cursor)
  show ?thesis unfolding M1InboxList m1_dispatch.simps by (intro m1_outcome_pure_bind) simp_all
next
  case (M1InboxConfirm mid expected key patch)
  show ?thesis unfolding M1InboxConfirm m1_dispatch.simps
    by (intro m1_outcome_intros) (auto simp: act_run dest: service_error_rollback service_step.call_confirm)
next
  case (M1InboxDiscard mid expected key reason)
  show ?thesis unfolding M1InboxDiscard m1_dispatch.simps
    by (intro m1_outcome_intros)
       (auto simp: act_run act_bind_def dest: service_error_rollback service_step.call_discard)
next
  case (M1Pin mid expected pinned key)
  show ?thesis unfolding M1Pin m1_dispatch.simps
    by (intro m1_outcome_intros) (auto simp: act_run dest: service_error_rollback service_step.call_pin)
next
  case (M1Recall query space spaces types states allow limit threshold)
  show ?thesis unfolding M1Recall m1_dispatch.simps by (intro m1_outcome_pure_bind) simp_all
next
  case (M1Update mid expected patch key)
  show ?thesis unfolding M1Update m1_dispatch.simps
    by (intro m1_outcome_intros) (auto simp: act_run dest: service_error_rollback service_step.call_update)
next
  case (M1Forget mid key reason)
  show ?thesis unfolding M1Forget m1_dispatch.simps
    by (intro m1_outcome_intros)
       (auto simp: act_run act_bind_def dest: service_error_rollback service_step.call_forget)
qed

lemma m1_invoke_outcome:
  assumes "m1_invoke env cod rid p call k = (reply, k')"
  shows "m1_frame env p k k' \<and> (map_of reply ''ok'' = Some (JBool False) \<longrightarrow> k' = k)"
proof -
  have "m1_outcome env p k (m1_guarded env cod p call k)"
    using m1_dispatch_outcome [of env p k cod call]
    by (auto simp: m1_guarded_def act_bind_def act_run res_guard_def m1_outcome_def)
  with assms show ?thesis
    by (auto simp: m1_invoke_def m1_outcome_def m1_ok_def split: prod.splits sum.splits)
qed

lemma m1_tool_call_outcome:
  assumes "m1_tool_call env cod rid token extra call k = (reply, k')"
  shows "k' = k \<or> (\<exists>p. m1_principal (mk_auth k) token = Some p \<and> \<not> mp_revoked p \<and> m1_frame env p k k')"
proof -
  have "k' = k \<or> \<not> mp_revoked p" if "m1_invoke env cod rid p call' k = (r, k')" for p call' r
    using that by (auto simp: m1_invoke_def m1_guarded_def act_bind_def act_run res_guard_def split: prod.splits if_splits)
  with assms show ?thesis
    by (auto simp: m1_tool_call_def map_prod_def dest: m1_invoke_outcome split: option.splits sum.splits if_splits prod.splits)
qed

section \<open>Runs\<close>

inductive m1_step :: "M1LocalControl \<Rightarrow> M1LocalControl \<Rightarrow> bool" where
  tool: "m1_tool_call env cod rid token extra call k = (reply, k') \<Longrightarrow> uuid_fresh env (mk_store k) \<Longrightarrow> m1_step k k'"
| revoke: "m1_revoke_endpoint header body k = (status, k') \<Longrightarrow> m1_step k k'"

inductive_cases m1_stepE: "m1_step k k'"

definition m1_start :: "M1LocalControl \<Rightarrow> bool" where
  "m1_start k \<longleftrightarrow> mk_store k = empty_store \<and> mk_tombstones k = {} \<and>
     (\<exists>objects values. m1_auth_init objects values = Inr (mk_auth k) \<and> (\<forall>(token, a)\<in>set values. a < length objects))"

definition m1_reachable :: "M1LocalControl \<Rightarrow> bool" where
  "m1_reachable k \<longleftrightarrow> (\<exists>k0. m1_start k0 \<and> m1_step\<^sup>*\<^sup>* k0 k)"

text \<open>The registry: the dictionaries refer to existing objects, and a step changes nothing of them but
  sets revoked flags.\<close>

definition auth_ok :: "M1LocalAuth \<Rightarrow> bool" where
  "auth_ok auth \<longleftrightarrow> (\<forall>t a. dict_get (ma_tokens auth) t = Some a \<longrightarrow> a < length (ma_objects auth)) \<and>
     (\<forall>c a. dict_get (ma_connections auth) c = Some a \<longrightarrow> a < length (ma_objects auth))"

definition auth_le :: "M1LocalAuth \<Rightarrow> M1LocalAuth \<Rightarrow> bool" where
  "auth_le a b \<longleftrightarrow> ma_tokens b = ma_tokens a \<and> ma_connections b = ma_connections a \<and>
     length (ma_objects b) = length (ma_objects a) \<and>
     (\<forall>i<length (ma_objects a). ma_objects b ! i = ma_objects a ! i \<or> ma_objects b ! i = (ma_objects a ! i)\<lparr>mp_revoked := True\<rparr>)"

lemma auth_le_refl [simp]: "auth_le a a"
  by (simp add: auth_le_def)

lemma auth_le_trans: "auth_le a b \<Longrightarrow> auth_le b c \<Longrightarrow> auth_le a c"
  unfolding auth_le_def
proof (elim conjE, intro conjI allI impI)
  fix i
  assume "i < length (ma_objects a)" "length (ma_objects b) = length (ma_objects a)"
    and ab: "\<forall>i<length (ma_objects a). ma_objects b ! i = ma_objects a ! i \<or> ma_objects b ! i = (ma_objects a ! i)\<lparr>mp_revoked := True\<rparr>"
    and bc: "\<forall>i<length (ma_objects b). ma_objects c ! i = ma_objects b ! i \<or> ma_objects c ! i = (ma_objects b ! i)\<lparr>mp_revoked := True\<rparr>"
  then have "ma_objects b ! i = ma_objects a ! i \<or> ma_objects b ! i = (ma_objects a ! i)\<lparr>mp_revoked := True\<rparr>"
    "ma_objects c ! i = ma_objects b ! i \<or> ma_objects c ! i = (ma_objects b ! i)\<lparr>mp_revoked := True\<rparr>" by simp_all
  then show "ma_objects c ! i = ma_objects a ! i \<or> ma_objects c ! i = (ma_objects a ! i)\<lparr>mp_revoked := True\<rparr>"
    by (elim disjE) simp_all
qed simp_all

lemma auth_le_ok: "auth_le a b \<Longrightarrow> auth_ok a \<Longrightarrow> auth_ok b"
  by (auto simp: auth_le_def auth_ok_def)

lemma auth_ok_register_all:
  "m1_register_all values auth = Inr auth' \<Longrightarrow> \<forall>(t, a)\<in>set values. a < length (ma_objects auth) \<Longrightarrow> auth_ok auth \<Longrightarrow>
     auth_ok auth' \<and> ma_objects auth' = ma_objects auth"
proof (induction "values" arbitrary: auth)
  case (Cons v vs)
  obtain t a where v: "v = (t, a)" by (cases v)
  from Cons.prems(1) obtain auth1 where 1: "m1_register t a auth = Inr auth1" "m1_register_all vs auth1 = Inr auth'"
    by (auto simp: v act_simps)
  have "auth_ok auth1 \<and> ma_objects auth1 = ma_objects auth"
    using 1(1) Cons.prems(2,3) by (auto simp: m1_register_def auth_ok_def v dict_simps Let_def split: if_splits)
  with Cons.IH [OF 1(2)] Cons.prems(2) show ?case by auto
qed simp

lemma nth_list_update_if: "xs[a := v] ! i = (if i = a \<and> i < length xs then v else xs ! i)"
  by (cases "a < length xs") (auto simp: nth_list_update list_update_beyond)

lemma m1_revoke_le: "m1_revoke actor c cl auth = Inr auth' \<Longrightarrow> auth_le auth auth'"
  unfolding m1_revoke_def
  by (auto simp: auth_le_def nth_list_update_if split: option.splits if_splits)

lemma m1_step_frame:
  assumes "m1_step k k'"
  shows "auth_le (mk_auth k) (mk_auth k') \<and> mk_tombstones k \<subseteq> mk_tombstones k' \<and>
     (mk_store k' = mk_store k \<or> some_step (mk_store k) (mk_store k'))"
  using assms
proof cases
  case (tool env cod rid token extra call reply)
  from m1_tool_call_outcome [OF tool(1)] tool(2) show ?thesis
    by (auto simp: m1_frame_def some_step_def)
next
  case (revoke header body status)
  then show ?thesis
    by (auto simp: m1_revoke_endpoint_def Let_def split: option.splits if_splits sum.splits) (rule m1_revoke_le)
qed

lemma m1_steps_frame:
  assumes "m1_step\<^sup>*\<^sup>* k k'"
  shows "auth_le (mk_auth k) (mk_auth k') \<and> mk_tombstones k \<subseteq> mk_tombstones k' \<and> service_run (mk_store k) (mk_store k')"
  using assms
proof (induction rule: rtranclp_induct)
  case (step y z)
  from m1_step_frame [OF step.hyps(2)] step.IH show ?case
    by (metis auth_le_trans order_trans rtranclp.rtrancl_into_rtrancl)
qed simp

lemma m1_reachable_ok:
  assumes "m1_reachable k"
  shows "reachable (mk_store k)" "auth_ok (mk_auth k)"
proof -
  from assms obtain k0 where k0: "m1_start k0" "m1_step\<^sup>*\<^sup>* k0 k" by (auto simp: m1_reachable_def)
  have "auth_ok (mk_auth k0)"
    using k0(1) by (auto simp: m1_start_def m1_auth_init_def auth_ok_def dest!: auth_ok_register_all)
  with k0 m1_steps_frame [OF k0(2)] show "reachable (mk_store k)" "auth_ok (mk_auth k)"
    by (auto simp: m1_start_def reachable_iff_run intro: auth_le_ok)
qed

section \<open>Revocation\<close>

lemma m1_revoke_endpoint_200:
  assumes "m1_revoke_endpoint header (Some (conn, client)) k = (200, k')"
  obtains actor a where "m1_principal_from_request (mk_auth k) header = Some actor"
    "dict_get (ma_connections (mk_auth k)) (mp_tenant_id actor, py_strip conn) = Some a"
    "mk_auth k' = (mk_auth k)\<lparr>ma_objects := (ma_objects (mk_auth k))[a := (ma_objects (mk_auth k) ! a)\<lparr>mp_revoked := True\<rparr>]\<rparr>"
  using assms by (auto simp: m1_revoke_endpoint_def m1_revoke_def Let_def split: option.splits if_splits sum.splits)

lemma m1_revoked_refused:
  assumes "m1_principal (mk_auth k) token = Some p" "mp_revoked p"
  shows "\<exists>code\<in>{''connection_revoked'', ''validation_error''}.
     m1_tool_call env cod rid token extra call k = (Some (m1_error_reply rid code), k)"
  using assms
  by (auto simp: m1_tool_call_def m1_invoke_def m1_guarded_def act_bind_def act_run m1_safe_code_def split: sum.splits)

text \<open>C32: Revocation is permanent. When a revocation request has been answered with 200 for a connection
  of the actor's tenant, then in every later state every call made with a token of the principal that
  the registry holds for the connection is refused with \<open>connection_revoked\<close> (or, when its arguments
  are malformed, with \<open>validation_error\<close>) and changes nothing; no later call or request undoes it.\<close>

theorem m1_revocation_permanent:
  assumes "m1_reachable k" "m1_revoke_endpoint header (Some (conn, client)) k = (200, k')"
    and "m1_principal_from_request (mk_auth k) header = Some actor"
    and "dict_get (ma_connections (mk_auth k)) (mp_tenant_id actor, py_strip conn) = Some a"
    and "dict_get (ma_tokens (mk_auth k)) token = Some a" "m1_step\<^sup>*\<^sup>* k' k''"
  shows "\<exists>code\<in>{''connection_revoked'', ''validation_error''}.
     m1_tool_call env cod rid token extra call k'' = (Some (m1_error_reply rid code), k'')"
proof -
  have a: "a < length (ma_objects (mk_auth k))"
    using m1_reachable_ok(2) [OF assms(1)] assms(5) by (auto simp: auth_ok_def)
  have k': "mk_auth k' = (mk_auth k)\<lparr>ma_objects := (ma_objects (mk_auth k))[a := (ma_objects (mk_auth k) ! a)\<lparr>mp_revoked := True\<rparr>]\<rparr>"
    using assms(2) by (rule m1_revoke_endpoint_200) (use assms(3,4) in auto)
  from m1_steps_frame [OF assms(6)] have le: "auth_le (mk_auth k') (mk_auth k'')" by simp
  have "m1_principal (mk_auth k'') token = Some (ma_objects (mk_auth k'') ! a)"
    using le assms(5) by (simp add: auth_le_def m1_principal_def k')
  moreover have "mp_revoked (ma_objects (mk_auth k'') ! a)"
    using le a by (auto simp: auth_le_def k')
  ultimately show ?thesis by (rule m1_revoked_refused)
qed

section \<open>Isolation\<close>

text \<open>C30: A token acts for its owner only. Whatever tool is called with whatever arguments in a
  reachable state, everything that any other owner has in the store (memories, vectors, histories,
  fingerprints, relations, recorded operations and tombstones) is the same afterwards, and a call
  whose reply is an error has changed nothing at all.\<close>

theorem m1_owner_isolation:
  assumes "m1_reachable k" "uuid_fresh env (mk_store k)" "m1_principal (mk_auth k) token = Some p"
    and "m1_tool_call env cod rid token extra call k = (Some reply, k')"
  shows "(\<forall>other. other \<noteq> mp_owner_id p \<longrightarrow> owner_view other (mk_store k') = owner_view other (mk_store k)) \<and>
     (map_of reply ''ok'' = Some (JBool False) \<longrightarrow> k' = k)"
proof -
  have ok: "store_ok (mk_store k)" using m1_reachable_ok(1) [OF assms(1)] by (rule reachable_ok)
  have "mk_store k' = mk_store k \<or> service_step (mp_owner_id p) (mk_store k) (mk_store k')"
    using m1_tool_call_outcome [OF assms(4)] assms(2,3) by (auto simp: m1_frame_def)
  moreover have "map_of reply ''ok'' = Some (JBool False) \<longrightarrow> k' = k"
    using assms(3,4)
    by (auto simp: m1_tool_call_def map_prod_def dest: m1_invoke_outcome split: if_splits sum.splits prod.splits)
  ultimately show ?thesis using service_step_isolation ok by metis
qed

section \<open>Recall\<close>

lemma map_prod_Some [simp]: "map_prod Some id x = (Some a, b) \<longleftrightarrow> x = (a, b)"
  by (cases x) simp

lemma m1_tool_call_ok:
  assumes "m1_tool_call env cod rid token extra call k = (Some reply, k')" "map_of reply ''ok'' = Some (JBool True)"
    "m1_principal (mk_auth k) token = Some p"
  obtains call' data where "m1_validate cod call = Inr call'" "\<not> mp_revoked p" "m1_required_scope call' \<in> set (mp_scopes p)"
    "m1_dispatch env cod p call' k = (Inr data, k')" "reply = m1_ok rid data"
proof -
  have "\<exists>call'. m1_validate cod call = Inr call' \<and> m1_invoke env cod rid p call' k = (reply, k')"
    using assms by (auto simp: m1_tool_call_def m1_error_reply_def split: if_splits sum.splits)
  then obtain call' where call': "m1_validate cod call = Inr call'" "m1_invoke env cod rid p call' k = (reply, k')" by blast
  from call'(2) assms(2) obtain data where data: "m1_guarded env cod p call' k = (Inr data, k')" "reply = m1_ok rid data"
    by (auto simp: m1_invoke_def m1_error_reply_def split: prod.splits sum.splits)
  from data(1) have "\<not> mp_revoked p" "m1_required_scope call' \<in> set (mp_scopes p)" "m1_dispatch env cod p call' k = (Inr data, k')"
    by (auto simp: m1_guarded_def act_bind_def act_run res_guard_def split: if_splits)
  with call'(1) data(2) show thesis by (intro that)
qed

lemma m1_recall_Inr:
  assumes "m1_dispatch env cod p (M1Recall query space spaces types states allow limit threshold) k = (Inr data, k')"
  obtains c r where "svc_recall env c (mk_store k) = Inr r" "rc_owner_id c = mp_owner_id p" "rc_tenant_id c = mp_tenant_id p"
    "rc_context_space c = space" "sp_allowed_spaces (rc_space_policy c) = set (mp_allowed_spaces p)"
    "\<not> sp_allow_global (rc_space_policy c)" "rc_allow_mental_notes c = allow" "k' = k"
    "data = [(''memories'', JList (map m1_item (rres_items r))), (''count'', JInt (int (rres_count r)))]"
proof -
  from assms obtain mt where mt: "res_map memory_type_of (or_default types []) = Inr mt"
    by (cases "res_map memory_type_of (or_default types [])") (simp_all add: act_bind_def)
  from assms mt obtain ms where ms: "res_map memory_state_of (or_default states []) = Inr ms"
    by (cases "res_map memory_state_of (or_default states [])") (simp_all add: act_bind_def)
  let ?c = "m1_recall_command p query space (or_default spaces []) mt ms allow limit threshold"
  from assms mt ms obtain r where "svc_recall env ?c (mk_store k) = Inr r"
    by (cases "svc_recall env ?c (mk_store k)") (simp_all add: act_bind_def)
  with that [of ?c r] assms mt ms show thesis by (simp add: act_bind_def act_run m1_recall_command_def)
qed

text \<open>A recall discloses only what its token may see. A successful recall changes nothing, and its
  reply lists exactly memories that are stored for the owner and the tenant of the token; mental notes
  are among them only if the call asked for them; and when the call names a context space, each of them
  is in that space or in one that the token is allowed.\<close>

theorem m1_recall_confined:
  assumes "m1_reachable k" "m1_principal (mk_auth k) token = Some p"
    and "m1_tool_call env cod rid token extra (M1Recall query space spaces types states allow limit threshold) k = (Some reply, k')"
    and "map_of reply ''ok'' = Some (JBool True)"
  shows "k' = k \<and> (\<exists>items. reply = m1_ok rid [(''memories'', JList (map m1_item items)), (''count'', JInt (int (length items)))] \<and>
     (\<forall>x\<in>set items. let m = SearchMemoryItem.si_memory x in
        repo_get (mk_store k) (mp_owner_id p) (m_id m) (Some (mp_tenant_id p)) = Some m \<and>
        (m_memory_type m = MENTAL_NOTE \<longrightarrow> allow) \<and>
        (space \<noteq> None \<longrightarrow> m_space m = space \<or> m_space m \<in> Some ` set (mp_allowed_spaces p))))"
proof -
  have ok: "store_ok (mk_store k)" using m1_reachable_ok(1) [OF assms(1)] by (rule reachable_ok)
  from assms(3,4,2) obtain call' data where d: "m1_validate cod (M1Recall query space spaces types states allow limit threshold) = Inr call'"
    "m1_dispatch env cod p call' k = (Inr data, k')" "reply = m1_ok rid data" by (rule m1_tool_call_ok)
  from d(1) have "call' = M1Recall query space spaces types states allow limit threshold" by (auto simp: act_simps)
  with d(2) have "m1_dispatch env cod p (M1Recall query space spaces types states allow limit threshold) k = (Inr data, k')" by simp
  then obtain c r where r: "svc_recall env c (mk_store k) = Inr r" and c: "rc_owner_id c = mp_owner_id p" "rc_tenant_id c = mp_tenant_id p"
    "rc_context_space c = space" "sp_allowed_spaces (rc_space_policy c) = set (mp_allowed_spaces p)"
    "\<not> sp_allow_global (rc_space_policy c)" "rc_allow_mental_notes c = allow" "k' = k"
    and data: "data = [(''memories'', JList (map m1_item (rres_items r))), (''count'', JInt (int (rres_count r)))]"
    by (rule m1_recall_Inr)
  have count: "rres_count r = length (rres_items r)" using r by (rule svc_recall_Inr)
  have "repo_get (mk_store k) (mp_owner_id p) (m_id m) (Some (mp_tenant_id p)) = Some m \<and>
      (m_memory_type m = MENTAL_NOTE \<longrightarrow> allow) \<and> (space \<noteq> None \<longrightarrow> m_space m = space \<or> m_space m \<in> Some ` set (mp_allowed_spaces p))"
    if x: "x \<in> set (rres_items r)" "m = SearchMemoryItem.si_memory x" for x m
  proof -
    obtain i sp where i: "(i, m) \<in> set (st_memories (mk_store k))" "sp \<in> set (requested_spaces c)"
      and f: "filters_match (mp_owner_id p) (Some (mp_tenant_id p)) (recall_filters c sp) m"
      and perm: "spaces_permitted c (requested_spaces c)" and note_ok: "m_memory_type m = MENTAL_NOTE \<longrightarrow> allow"
      using r x(1) by (rule recall_item_origin) (use x(2) c in auto)
    have "m_space m = space \<or> m_space m \<in> Some ` set (mp_allowed_spaces p)" if ctx: "space \<noteq> None"
    proof -
      have "sp \<noteq> None" using i(2) ctx c(3) by (auto simp: requested_spaces_def Let_def split: if_splits)
      then have "m_space m = sp" using f by (auto simp: filters_match_def recall_filters_def)
      moreover have "sp = space \<or> space_policy_allows (rc_space_policy c) sp space"
        using perm i(2) c(3) by (auto simp: spaces_permitted_def list_all_iff)
      ultimately show ?thesis using c(4,5) by (auto simp: space_policy_allows_def split: if_splits option.splits)
    qed
    then show ?thesis
      using stored_get [OF ok i(1), of "mp_owner_id p" "Some (mp_tenant_id p)"] f note_ok by (simp add: filters_match_def)
  qed
  then show ?thesis using d(3) data count c(7) by (auto simp: Let_def)
qed

section \<open>Forgetting\<close>

lemma m1_forget_ok:
  assumes "m1_tool_call env cod rid token extra (M1Forget mid key reason) k = (Some reply, k')"
    "reply = m1_ok rid (forgotten_status True)" "m1_principal (mk_auth k) token = Some p"
  obtains c r t i where "uuid_parse mid = Some i" "svc_forget env c (mk_store k) = (Inr r, t)" "fres_forgotten r"
    "fg_owner_id c = mp_owner_id p" "fg_memory_id c = i" "fg_tenant_id c = Some (mp_tenant_id p)" "mk_store k' = t"
proof -
  have "map_of reply ''ok'' = Some (JBool True)" by (simp add: assms(2) m1_ok_def)
  from assms(1) this assms(3) obtain call' data where d: "m1_validate cod (M1Forget mid key reason) = Inr call'"
    "m1_dispatch env cod p call' k = (Inr data, k')" "reply = m1_ok rid data" by (rule m1_tool_call_ok)
  from d(1) have "call' = M1Forget mid key reason" by (auto simp: act_simps)
  moreover have "data = forgotten_status True" using d(3) assms(2) by (simp add: m1_ok_def)
  ultimately have run: "m1_dispatch env cod p (M1Forget mid key reason) k = (Inr (forgotten_status True), k')" using d(2) by simp
  then obtain i where i: "uuid_parse mid = Some i" by (auto simp: act_bind_def m1_uuid_def or_raise_def split: option.splits)
  let ?c = "\<lparr>fg_owner_id = mp_owner_id p, fg_memory_id = i, fg_idempotency_key = Some key,
        fg_reason_code = default_reason reason, fg_tenant_id = Some (mp_tenant_id p)\<rparr>"
  obtain x t where f: "svc_forget env ?c (mk_store k) = (x, t)" by (cases "svc_forget env ?c (mk_store k)")
  from run i f obtain r where "x = Inr r" "fres_forgotten r" "mk_store k' = t"
    by (cases x) (auto simp: act_bind_def act_run m1_service_run m1_uuid_def forgotten_status_def split: if_splits)
  with that [of i ?c r t] i f show thesis by simp
qed

text \<open>C31: What is forgotten stays forgotten and cannot be restored. When a forget has been answered with
  \<open>forgotten\<close>, then in every later state no memory with that identifier can be read for the owner and the
  tenant of the token, and a well-formed restore request of any token of the same owner and tenant for
  that identifier, in whatever spelling, is answered with \<open>restore_blocked_by_tombstone\<close>.\<close>

theorem m1_forget_blocks_restore:
  assumes "m1_reachable k" "uuid_fresh env (mk_store k)" "m1_principal (mk_auth k) token = Some p"
    and "m1_tool_call env cod rid token extra (M1Forget mid key reason) k = (Some (m1_ok rid (forgotten_status True)), k')"
    and "uuid_parse mid = Some i" "m1_step\<^sup>*\<^sup>* k' k''"
  shows "repo_get (mk_store k'') (mp_owner_id p) i (Some (mp_tenant_id p)) = None \<and>
     (\<forall>header q stamp memory spelling.
        m1_principal_from_request (mk_auth k'') header = Some q \<longrightarrow> mp_owner_id q = mp_owner_id p \<longrightarrow>
        mp_tenant_id q = mp_tenant_id p \<longrightarrow> get_of memory ''id'' = JStr spelling \<longrightarrow> uuid_parse spelling = Some i \<longrightarrow>
        text_between 1 80 (py_strip stamp) \<longrightarrow>
        m1_restore_endpoint header (Some \<lparr>mr_format = ''omp.export.v0'', mr_exported_at = stamp, mr_memories = [memory]\<rparr>) k''
          = (200, ''restore_blocked_by_tombstone''))"
proof -
  from assms(4) refl assms(3) obtain c r t where c: "svc_forget env c (mk_store k) = (Inr r, t)" "fres_forgotten r"
    "fg_owner_id c = mp_owner_id p" "fg_memory_id c = i" "fg_tenant_id c = Some (mp_tenant_id p)" "mk_store k' = t"
    by (rule m1_forget_ok) (use assms(5) in auto)
  from svc_forget_Inr [OF c(1)] c(2) obtain u where
    u: "repo_forget (mp_owner_id p) i (Some (mp_tenant_id p)) (mk_store k) = (Inr True, u\<lparr>st_ops := st_ops (mk_store k)\<rparr>)"
    and t: "st_tombstones t = st_tombstones u" by (auto simp: c(3-5))
  from u have dead: "(mp_owner_id p, Some (mp_tenant_id p), i) \<in> st_tombstones t"
    by (rule repo_forget_True) (auto simp: t)
  have "reachable (mk_store k')" using m1_reachable_ok(1) [OF assms(1)] c(1,6) by (metis service_step.call_forget reachable.step)
  then have ok: "store_ok (mk_store k')" by (rule reachable_ok)
  have run: "service_run (mk_store k') (mk_store k'')" using m1_steps_frame [OF assms(6)] by simp
  have "store_dead (mp_owner_id p, Some (mp_tenant_id p), i) (mk_store k')" using dead c(6) by (simp add: store_dead_def)
  from service_versions.dead_for_good [OF run ok this]
  have "repo_get (mk_store k'') (mp_owner_id p) i (Some (mp_tenant_id p)) = None"
    by (cases "repo_get (mk_store k'') (mp_owner_id p) i (Some (mp_tenant_id p))") (auto simp: store_ver_def repo_get_Some)
  moreover have "(mp_owner_id p, Some (mp_tenant_id p), i) \<in> st_tombstones (mk_store k'')"
    using service_run_grows [OF run ok] dead c(6) by (auto simp: grows_def)
  moreover have "py_strip ''omp.export.v0'' = ''omp.export.v0''" by code_simp
  ultimately show ?thesis by (auto simp: m1_restore_endpoint_def m1_is_tombstoned_def admin_is_tombstoned_def)
qed

section \<open>Witnesses\<close>

definition ex_m1_codec :: CodecEnv where
  "ex_m1_codec = \<lparr>co_repr = (\<lambda>v. []), co_float = (\<lambda>s. None),
     co_fromiso = (\<lambda>s. if s = isoformat ex_now then Some ex_now else None)\<rparr>"

definition ex_m1_objects :: "M1Principal list" where
  "ex_m1_objects = [m1_default ''gpt'' ''ta'' ''ua'' ''c1'', m1_default ''claude'' ''ta'' ''ua'' ''c2'',
     m1_default ''other'' ''tb'' ''ub'' ''c3'']"

definition ex_m1_tokens :: "(string \<times> nat) list" where
  "ex_m1_tokens = [(''tok1'', 0), (''tok2'', 1), (''tok3'', 2)]"

definition ex_m1_auth :: M1LocalAuth where
  "ex_m1_auth = \<lparr>ma_objects = ex_m1_objects, ma_tokens = ex_m1_tokens,
     ma_connections = [((''ta'', ''c1''), 0), ((''ta'', ''c2''), 1), ((''tb'', ''c3''), 2)]\<rparr>"

definition ex_m1_k0 :: M1LocalControl where
  "ex_m1_k0 = \<lparr>mk_store = empty_store, mk_auth = ex_m1_auth, mk_tombstones = {}\<rparr>"

definition ex_m1_capture :: m1_call where
  "ex_m1_capture = M1Capture ''likes tea'' ''fact'' (Some ''Work'')
     \<lparr>q_source_type = ''user'', q_source_client = ''gpt'', q_source_connection_id = None, q_conversation_id = None,
      q_message_id = None, q_source_model = None, q_captured_at = isoformat ex_now, q_evidence = []\<rparr>
     \<lparr>q_mode = ''manual'', q_consent_id = ''c'', q_reason_code = ''user_requested_memory'', q_policy_version = ''v1'',
      q_granted_at = isoformat ex_now\<rparr> ''k1''"

lemma ex_m1_start: "m1_reachable ex_m1_k0"
proof -
  have "m1_auth_init ex_m1_objects ex_m1_tokens = Inr ex_m1_auth" by code_simp
  then have "m1_start ex_m1_k0"
    unfolding m1_start_def ex_m1_k0_def
    by (auto simp: ex_m1_tokens_def ex_m1_objects_def intro!: exI [of _ ex_m1_objects] exI [of _ ex_m1_tokens])
  then show ?thesis by (auto simp: m1_reachable_def)
qed

text \<open>The capture is answered with success, stores a memory and draws an identifier that is not used again;
  the forget that follows is answered with \<open>forgotten\<close>.\<close>

definition ex_m1_forget :: "M1LocalControl \<Rightarrow> payload option \<times> M1LocalControl" where
  "ex_m1_forget k = m1_tool_call ex_env2 ex_m1_codec ''r3'' ''tok1'' [] (M1Forget (uuid_str 1) ''f1'' None) k"

definition ex_m1_recall :: "M1LocalControl \<Rightarrow> payload option \<times> M1LocalControl" where
  "ex_m1_recall k = m1_tool_call ex_env2 ex_m1_codec ''r4'' ''tok2'' []
     (M1Recall ''tea'' (Some ''Work'') None None None False 5 0) k"

definition ex_m1_recalled :: "payload option \<Rightarrow> bool" where
  "ex_m1_recalled r = (case r of None \<Rightarrow> False | Some reply \<Rightarrow> map_of reply ''ok'' = Some (JBool True) \<and>
     (case map_of reply ''data'' of Some (JObj d) \<Rightarrow> map_of d ''count'' = Some (JInt 0) | _ \<Rightarrow> False))"

lemma ex_m1_journey: "(case m1_tool_call ex_env1 ex_m1_codec ''r1'' ''tok1'' [] ex_m1_capture ex_m1_k0 of
    (Some reply, k) \<Rightarrow> map_of reply ''ok'' = Some (JBool True) \<and>
      Option.is_none (dict_get (st_memories (mk_store k)) (env_uuid4 ex_env2)) \<and>
      (\<forall>x\<in>st_tombstones (mk_store k). False) \<and>
      \<not> Option.is_none (repo_get (mk_store k) ''m1:ta:ua'' 1 (Some ''ta'')) \<and>
      ex_m1_recalled (fst (ex_m1_recall k)) \<and>
      fst (ex_m1_forget k) = Some (m1_ok ''r3'' (forgotten_status True)) | _ \<Rightarrow> False)"
  by code_simp

definition ex_m1_k1 :: M1LocalControl where
  "ex_m1_k1 = snd (m1_tool_call ex_env1 ex_m1_codec ''r1'' ''tok1'' [] ex_m1_capture ex_m1_k0)"

definition ex_m1_k3 :: M1LocalControl where
  "ex_m1_k3 = snd (ex_m1_forget ex_m1_k1)"

lemma ex_m1_run:
  "\<exists>reply. m1_tool_call ex_env1 ex_m1_codec ''r1'' ''tok1'' [] ex_m1_capture ex_m1_k0 = (Some reply, ex_m1_k1)"
  "repo_get (mk_store ex_m1_k1) ''m1:ta:ua'' 1 (Some ''ta'') \<noteq> None"
  "uuid_fresh ex_env2 (mk_store ex_m1_k1)"
  "ex_m1_forget ex_m1_k1 = (Some (m1_ok ''r3'' (forgotten_status True)), ex_m1_k3)"
  using ex_m1_journey unfolding ex_m1_k3_def ex_m1_k1_def
  by (auto simp: uuid_fresh_def Option.is_none_def prod_eq_iff split: prod.splits option.splits)

lemma ex_m1_fresh: "uuid_fresh ex_env1 (mk_store ex_m1_k0)"
  by (simp add: uuid_fresh_def ex_m1_k0_def empty_store_def)

lemma ex_m1_reachable: "m1_reachable ex_m1_k1"
  using ex_m1_start ex_m1_run(1) ex_m1_fresh unfolding m1_reachable_def
  by (metis m1_step.tool rtranclp.rtrancl_into_rtrancl)

lemma m1_tool_call_auth: "m1_tool_call env cod rid token extra call k = (reply, k') \<Longrightarrow> mk_auth k' = mk_auth k"
  using m1_tool_call_outcome by (fastforce simp: m1_frame_def)

lemma ex_m1_auth_k: "mk_auth ex_m1_k0 = ex_m1_auth" "mk_auth ex_m1_k1 = ex_m1_auth" "mk_auth ex_m1_k3 = ex_m1_auth"
  using ex_m1_run(1) ex_m1_run(4) [unfolded ex_m1_forget_def] m1_tool_call_auth by (auto simp: ex_m1_k0_def dest!: m1_tool_call_auth)

definition ex_m1_principal :: M1Principal where "ex_m1_principal = m1_default ''gpt'' ''ta'' ''ua'' ''c1''"
definition ex_m1_actor :: M1Principal where "ex_m1_actor = m1_default ''claude'' ''ta'' ''ua'' ''c2''"

lemma ex_m1_principals: "m1_principal ex_m1_auth ''tok1'' = Some ex_m1_principal"
  "m1_principal_from_request ex_m1_auth (Some ''Bearer tok2'') = Some ex_m1_actor"
  "mp_owner_id ex_m1_principal = ''m1:ta:ua''" "mp_tenant_id ex_m1_principal = ''ta''"
  "mp_owner_id ex_m1_actor = ''m1:ta:ua''" "mp_tenant_id ex_m1_actor = ''ta''"
  by code_simp+

theorem m1_owner_isolation_witness:
  "repo_get (mk_store ex_m1_k1) ''m1:ta:ua'' 1 (Some ''ta'') \<noteq> None \<and>
     owner_view ''m1:tb:ub'' (mk_store ex_m1_k1) = owner_view ''m1:tb:ub'' (mk_store ex_m1_k0)"
proof -
  obtain reply where run: "m1_tool_call ex_env1 ex_m1_codec ''r1'' ''tok1'' [] ex_m1_capture ex_m1_k0 = (Some reply, ex_m1_k1)"
    using ex_m1_run(1) by blast
  have "m1_principal (mk_auth ex_m1_k0) ''tok1'' = Some ex_m1_principal" by (simp add: ex_m1_auth_k ex_m1_principals)
  from m1_owner_isolation [OF ex_m1_start ex_m1_fresh this run] ex_m1_run(2) show ?thesis
    by (simp add: ex_m1_principals)
qed

definition ex_m1_k2 :: M1LocalControl where
  "ex_m1_k2 = snd (m1_revoke_endpoint (Some ''Bearer tok2'') (Some (''c1'', ''gpt'')) ex_m1_k0)"

theorem m1_revocation_permanent_witness:
  "m1_tool_call ex_env1 ex_m1_codec ''r1'' ''tok1'' [] ex_m1_capture ex_m1_k2 =
     (Some (m1_error_reply ''r1'' ''connection_revoked''), ex_m1_k2)"
proof -
  have "fst (m1_revoke_endpoint (Some ''Bearer tok2'') (Some (''c1'', ''gpt'')) ex_m1_k0) = 200" by code_simp
  then have run: "m1_revoke_endpoint (Some ''Bearer tok2'') (Some (''c1'', ''gpt'')) ex_m1_k0 = (200, ex_m1_k2)"
    by (metis ex_m1_k2_def prod.collapse)
  have actor: "m1_principal_from_request (mk_auth ex_m1_k0) (Some ''Bearer tok2'') = Some ex_m1_actor"
    by (simp add: ex_m1_auth_k ex_m1_principals)
  have strip: "py_strip ''c1'' = ''c1''" by code_simp
  have conn: "dict_get (ma_connections (mk_auth ex_m1_k0)) (mp_tenant_id ex_m1_actor, py_strip ''c1'') = Some 0"
    "dict_get (ma_tokens (mk_auth ex_m1_k0)) ''tok1'' = Some 0"
    by (simp_all add: ex_m1_auth_k ex_m1_principals ex_m1_auth_def ex_m1_tokens_def strip)
  have "\<exists>code\<in>{''connection_revoked'', ''validation_error''}.
     m1_tool_call ex_env1 ex_m1_codec ''r1'' ''tok1'' [] ex_m1_capture ex_m1_k2 = (Some (m1_error_reply ''r1'' code), ex_m1_k2)"
    by (rule m1_revocation_permanent [OF ex_m1_start run actor conn rtranclp.rtrancl_refl])
  moreover have "fst (m1_tool_call ex_env1 ex_m1_codec ''r1'' ''tok1'' [] ex_m1_capture ex_m1_k2) \<noteq>
      Some (m1_error_reply ''r1'' ''validation_error'')" by code_simp
  ultimately show ?thesis by auto
qed

theorem m1_forget_blocks_restore_witness:
  "repo_get (mk_store ex_m1_k1) ''m1:ta:ua'' 1 (Some ''ta'') \<noteq> None \<and>
   repo_get (mk_store ex_m1_k3) ''m1:ta:ua'' 1 (Some ''ta'') = None \<and>
   m1_restore_endpoint (Some ''Bearer tok2'') (Some \<lparr>mr_format = ''omp.export.v0'', mr_exported_at = ''now'',
     mr_memories = [[(''id'', JStr (uuid_hex 1))]]\<rparr>) ex_m1_k3 = (200, ''restore_blocked_by_tombstone'')"
proof -
  have p: "m1_principal (mk_auth ex_m1_k1) ''tok1'' = Some ex_m1_principal" by (simp add: ex_m1_auth_k ex_m1_principals)
  note blocked = m1_forget_blocks_restore [OF ex_m1_reachable ex_m1_run(3) p ex_m1_run(4) [unfolded ex_m1_forget_def]
    uuid_parse_str rtranclp.rtrancl_refl]
  have q: "m1_principal_from_request (mk_auth ex_m1_k3) (Some ''Bearer tok2'') = Some ex_m1_actor"
    by (simp add: ex_m1_auth_k ex_m1_principals)
  have "text_between 1 80 (py_strip ''now'')" by code_simp
  with conjunct2 [OF blocked, rule_format, OF q _ _ _ uuid_parse_hex, of "[(''id'', JStr (uuid_hex 1))]" "''now''"]
    conjunct1 [OF blocked] ex_m1_run(2) show ?thesis by (simp add: ex_m1_principals)
qed

theorem m1_recall_confined_witness:
  "\<exists>reply items. ex_m1_recall ex_m1_k1 = (Some reply, ex_m1_k1) \<and>
     reply = m1_ok ''r4'' [(''memories'', JList (map m1_item items)), (''count'', JInt (int (length items)))]"
proof -
  have "ex_m1_recalled (fst (ex_m1_recall ex_m1_k1))"
    using ex_m1_journey unfolding ex_m1_k1_def by (auto split: prod.splits option.splits)
  then obtain reply k where r: "ex_m1_recall ex_m1_k1 = (Some reply, k)" "map_of reply ''ok'' = Some (JBool True)"
    by (cases "ex_m1_recall ex_m1_k1") (auto simp: ex_m1_recalled_def split: option.splits)
  have p: "m1_principal (mk_auth ex_m1_k1) ''tok2'' = Some ex_m1_actor"
    unfolding ex_m1_auth_k by code_simp
  from m1_recall_confined [OF ex_m1_reachable p r(1) [unfolded ex_m1_recall_def] r(2)] r(1) show ?thesis by auto
qed

text \<open>
  A revocation reaches one principal object. When two tokens are registered with two objects for the same
  tenant and connection, the registry keeps only the later object under the connection, the request is
  answered with 200, and the earlier token keeps its access.
\<close>

theorem m1_revocation_misses_earlier_token:
  "\<exists>auth auth' p q. m1_auth_init [m1_default ''gpt'' ''ta'' ''ua'' ''c1'', m1_default ''gpt'' ''ta'' ''ua'' ''c1'']
       [(''old'', 0), (''new'', 1)] = Inr auth \<and>
     m1_revoke (m1_default ''gpt'' ''ta'' ''ua'' ''c1'') ''c1'' ''gpt'' auth = Inr auth' \<and>
     m1_principal auth' ''new'' = Some q \<and> mp_revoked q \<and>
     m1_principal auth' ''old'' = Some p \<and> \<not> mp_revoked p \<and> mp_connection_id p = ''c1''"
proof -
  let ?p = "m1_default ''gpt'' ''ta'' ''ua'' ''c1''"
  let ?auth = "\<lparr>ma_objects = [?p, ?p], ma_tokens = [(''old'', 0), (''new'', 1)], ma_connections = [((''ta'', ''c1''), 1)]\<rparr>"
  have 1: "m1_auth_init [?p, ?p] [(''old'', 0), (''new'', 1)] = Inr ?auth" by code_simp
  have 2: "m1_revoke ?p ''c1'' ''gpt'' ?auth = Inr (?auth\<lparr>ma_objects := [?p, ?p\<lparr>mp_revoked := True\<rparr>]\<rparr>)"
    by (simp add: m1_revoke_def m1_default_def)
  show ?thesis
    by (intro exI conjI, rule 1, rule 2) (simp_all add: m1_principal_def m1_default_def, simp_all)
qed

end
