(* ===== verification/Cloud_Tokens.thy ===== *)
theory Cloud_Tokens
  imports Cloud_Admin Identity Serialization
begin

text \<open>
  The texts of \<open>omp/cloud/security.py\<close>: the compact tokens of \<open>LocalDevelopmentTokenVerifier\<close> and the
  stored form of an \<open>EnvelopeCiphertext\<close>.

  HMAC-SHA256 and SHA-256 (a hex digest), \<open>json.dumps\<close> with sorted keys, \<open>json.loads\<close> and
  \<open>base64.urlsafe_b64decode\<close> are fields of \<open>TokenEnv\<close>, as is the clock. \<open>json.loads\<close> of bytes that are not
  a document, and base64 text that does not decode, are \<open>None\<close>: both raise a \<open>ValueError\<close>. The numbers
  of a document are finite, and \<open>datetime\<close> represents the expiry of a token. The payload
  of a token is signed, so a payload of another shape comes from a holder of the secret; it is modelled all
  the same, with the two exceptions that the verifier does not catch.
\<close>

record TokenEnv =
  te_mac :: "bytes \<Rightarrow> bytes \<Rightarrow> bytes"
  te_sha :: "bytes \<Rightarrow> string"
  te_dumps :: "json \<Rightarrow> string"
  te_loads :: "bytes \<Rightarrow> json option"
  te_unb64 :: "string \<Rightarrow> bytes option"
  te_codec :: CodecEnv
  te_now :: datetime

definition b64_padding :: "string \<Rightarrow> string" where
  "b64_padding s = replicate (nat ((- int (length s)) mod 4)) (CHR ''='')"

text \<open>\<open>base64.urlsafe_b64encode\<close>, with its padding.\<close>

definition b64_text :: "bytes \<Rightarrow> string" where
  "b64_text b = b64url b @ b64_padding (b64url b)"

definition unb64 :: "TokenEnv \<Rightarrow> string \<Rightarrow> bytes option" where
  "unb64 te s = te_unb64 te (s @ b64_padding s)"

section \<open>Tokens\<close>

record LocalDevelopmentTokenVerifier =
  tv_secret :: bytes
  tv_issuer :: string
  tv_audience :: string
  tv_revoked :: "string set"

record IssueArgs =
  is_subject :: uuid
  is_tenant_id :: uuid
  is_membership_id :: uuid
  is_credential_id :: uuid
  is_scopes :: "Scope list"
  is_expires_at :: datetime
  is_client_id :: string

definition token_payload :: "LocalDevelopmentTokenVerifier \<Rightarrow> IssueArgs \<Rightarrow> json" where
  "token_payload v a = JObj
     [(''aud'', JStr (tv_audience v)), (''cid'', JStr (is_client_id a)),
      (''credential_id'', JStr (uuid_str (is_credential_id a))),
      (''exp'', JInt (timestamp_int (is_expires_at a))), (''iss'', JStr (tv_issuer v)),
      (''membership_id'', JStr (uuid_str (is_membership_id a))),
      (''scope'', JList (map JStr (sort (remdups (map scope_value (is_scopes a)))))),
      (''sub'', JStr (uuid_str (is_subject a))), (''tenant_id'', JStr (uuid_str (is_tenant_id a)))]"

definition token_signature :: "TokenEnv \<Rightarrow> LocalDevelopmentTokenVerifier \<Rightarrow> string \<Rightarrow> string" where
  "token_signature te v encoded = b64url (te_mac te (tv_secret v) (utf8_encode encoded))"

definition token_text :: "string \<Rightarrow> string \<Rightarrow> string" where
  "token_text encoded sig = ''v1.'' @ encoded @ ''.'' @ sig"

definition token_issue :: "TokenEnv \<Rightarrow> LocalDevelopmentTokenVerifier \<Rightarrow> IssueArgs \<Rightarrow> string" where
  "token_issue te v a =
     (let encoded = b64url (utf8_encode (te_dumps te (token_payload v a)))
      in token_text encoded (token_signature te v encoded))"

definition token_revoke :: "TokenEnv \<Rightarrow> string \<Rightarrow> LocalDevelopmentTokenVerifier \<Rightarrow> LocalDevelopmentTokenVerifier" where
  "token_revoke te token v = v\<lparr>tv_revoked := insert (te_sha te (utf8_encode token)) (tv_revoked v)\<rparr>"

text \<open>
  Leaving the verifier: \<open>TokenNone\<close> returns \<open>None\<close>, also for the three exceptions it catches;
  \<open>TokenRaise\<close> is an exception that reaches the caller, the \<open>AttributeError\<close> of \<open>UUID\<close> on a number, a
  list or an object, or the \<open>KeyError\<close> of a payload without \<open>cid\<close>.
\<close>

datatype token_exception = TokenAttributeError | TokenKeyError
datatype token_exit = TokenNone | TokenRaise token_exception

definition none_unless :: "bool \<Rightarrow> (token_exit, unit) res" where
  "none_unless b = res_guard b TokenNone"

definition or_none :: "'a option \<Rightarrow> (token_exit, 'a) res" where
  "or_none v = (case v of None \<Rightarrow> Inl TokenNone | Some x \<Rightarrow> Inr x)"

definition as_none :: "('e, 'a) res \<Rightarrow> (token_exit, 'a) res" where
  "as_none r = (case r of Inl e \<Rightarrow> Inl TokenNone | Inr x \<Rightarrow> Inr x)"

text \<open>\<open>UUID(value)\<close>, which keeps the text it accepted.\<close>

fun checked_uuid :: "json \<Rightarrow> (token_exit, string) res" where
  "checked_uuid (JStr s) = (if uuid_parse s = None then Inl TokenNone else Inr s)"
| "checked_uuid JNull = Inl TokenNone"
| "checked_uuid v = Inl (TokenRaise TokenAttributeError)"

fun checked_scope :: "json \<Rightarrow> (token_exit, string) res" where
  "checked_scope (JStr s) = (if scope_of s = None then Inl TokenNone else Inr s)"
| "checked_scope v = Inl TokenNone"

definition token_field :: "payload \<Rightarrow> string \<Rightarrow> (token_exit, json) res" where
  "token_field d k = as_none (item_of d k)"

definition token_claims ::
  "TokenEnv \<Rightarrow> LocalDevelopmentTokenVerifier \<Rightarrow> string \<Rightarrow> payload \<Rightarrow> (token_exit, AgentAccessToken) res" where
  "token_claims te v token d =
     res_bind (token_field d ''iss'') (\<lambda>iss.
     res_bind (none_unless (iss = JStr (tv_issuer v))) (\<lambda>_.
     res_bind (token_field d ''aud'') (\<lambda>aud.
     res_bind (none_unless (aud = JStr (tv_audience v))) (\<lambda>_.
     res_bind (res_bind (token_field d ''exp'') (\<lambda>x. as_none (py_int_of x))) (\<lambda>expires.
     res_bind (none_unless (\<not> expires \<le> timestamp_int (te_now te))) (\<lambda>_.
     res_bind (res_bind (token_field d ''sub'') checked_uuid) (\<lambda>sub.
     res_bind (res_bind (token_field d ''tenant_id'') checked_uuid) (\<lambda>tenant.
     res_bind (res_bind (token_field d ''membership_id'') checked_uuid) (\<lambda>membership.
     res_bind (res_bind (token_field d ''credential_id'') checked_uuid) (\<lambda>credential.
     res_bind (res_bind (token_field d ''scope'') (\<lambda>x. as_none (json_iter x))) (\<lambda>items.
     res_bind (res_map checked_scope items) (\<lambda>scopes.
     res_bind (case map_of d ''cid'' of None \<Rightarrow> Inl (TokenRaise TokenKeyError) | Some x \<Rightarrow> Inr (py_str (te_codec te) x)) (\<lambda>cid.
     Inr \<lparr>at_token = token, at_client_id = cid, at_resource = tv_audience v,
       at_access = \<lparr>tok_subject = Some sub,
         tok_claims = [(''iss'', tv_issuer v), (''tenant_id'', tenant), (''membership_id'', membership),
           (''credential_id'', credential)],
         tok_scopes = scopes, tok_expires_at = Some expires\<rparr>\<rparr>)))))))))))))"

definition token_body :: "TokenEnv \<Rightarrow> LocalDevelopmentTokenVerifier \<Rightarrow> string \<Rightarrow> (token_exit, AgentAccessToken) res" where
  "token_body te v token =
     (case split_on (CHR ''.'') token of
        [version, encoded, sig] \<Rightarrow>
          res_bind (or_none (Option.bind (unb64 te encoded) (te_loads te))) (\<lambda>value.
          res_bind (none_unless (version = ''v1'')) (\<lambda>_.
          res_bind (as_none (compare_digest sig (token_signature te v encoded))) (\<lambda>same.
          res_bind (none_unless same) (\<lambda>_.
          case value of JObj d \<Rightarrow> token_claims te v token d | _ \<Rightarrow> Inl TokenNone))))
      | _ \<Rightarrow> Inl TokenNone)"

definition token_verify ::
  "TokenEnv \<Rightarrow> LocalDevelopmentTokenVerifier \<Rightarrow> string \<Rightarrow> (token_exception, AgentAccessToken option) res" where
  "token_verify te v token =
     (if te_sha te (utf8_encode token) \<in> tv_revoked v then Inr None
      else case token_body te v token of
        Inl TokenNone \<Rightarrow> Inr None
      | Inl (TokenRaise e) \<Rightarrow> Inl e
      | Inr a \<Rightarrow> Inr (Some a))"

section \<open>The stored form of a ciphertext\<close>

definition envelope_payload :: "EnvelopeCiphertext \<Rightarrow> json" where
  "envelope_payload e = JObj [(''c'', JStr (b64_text (ciphertext e))), (''k'', JInt (key_version e)),
     (''n'', JStr (b64_text (nonce_bytes e))), (''v'', JInt 1), (''w'', JStr (b64_text (wrapped_dek e)))]"

definition envelope_encode :: "TokenEnv \<Rightarrow> EnvelopeCiphertext \<Rightarrow> string" where
  "envelope_encode te e = te_dumps te (envelope_payload e)"

text \<open>\<open>value == 1\<close> holds of \<open>True\<close> and \<open>1.0\<close> too.\<close>

fun equals_one :: "json \<Rightarrow> bool" where
  "equals_one (JInt i) = (i = 1)"
| "equals_one (JBool b) = b"
| "equals_one (JFloat f) = (f = 1)"
| "equals_one v = False"

text \<open>\<open>isinstance(value, int)\<close> holds of a boolean too.\<close>

fun int_instance :: "json \<Rightarrow> int option" where
  "int_instance (JInt i) = Some i"
| "int_instance (JBool b) = Some (if b then 1 else 0)"
| "int_instance v = None"

definition envelope_bytes :: "TokenEnv \<Rightarrow> payload \<Rightarrow> string \<Rightarrow> bytes cloud" where
  "envelope_bytes te d k = (case map_of d k of None \<Rightarrow> Inl CloudPermissionError
     | Some x \<Rightarrow> (case te_unb64 te (py_str (te_codec te) x) of None \<Rightarrow> Inl CloudPermissionError | Some b \<Rightarrow> Inr b))"

definition envelope_lengths :: "EnvelopeCiphertext \<Rightarrow> bool" where
  "envelope_lengths e \<longleftrightarrow> 12 + 16 \<le> length (wrapped_dek e) \<and> length (nonce_bytes e) = 12 \<and> 16 \<le> length (ciphertext e)"

definition envelope_decode :: "TokenEnv \<Rightarrow> string \<Rightarrow> EnvelopeCiphertext cloud" where
  "envelope_decode te s = (case te_loads te (utf8_encode s) of
     Some (JObj d) \<Rightarrow>
       if \<not> equals_one (get_of d ''v'') then Inl CloudPermissionError
       else (case int_instance (get_of d ''k'') of
           None \<Rightarrow> Inl CloudPermissionError
         | Some k \<Rightarrow>
             if k < 1 then Inl CloudPermissionError
             else res_bind (envelope_bytes te d ''w'') (\<lambda>w.
                  res_bind (envelope_bytes te d ''n'') (\<lambda>n.
                  res_bind (envelope_bytes te d ''c'') (\<lambda>c.
                  let e = \<lparr>key_version = k, wrapped_dek = w, nonce_bytes = n, ciphertext = c\<rparr> in
                  res_bind (res_guard (envelope_lengths e) CloudPermissionError) (\<lambda>_. Inr e)))))
   | _ \<Rightarrow> Inl CloudPermissionError)"

end
