(* ===== verification/Token_Properties.thy ===== *)
theory Token_Properties
  imports Cloud_Tokens Admin_Properties Cloud_Properties Fixtures
begin

text \<open>
  Tokens and stored ciphertexts: what the verifier accepts carries the signature of its secret, a revoked
  token is refused, an issued token gives its identity back, and the stored form of a ciphertext is read
  back and never read out of its bounds.
\<close>

section \<open>The alphabet of base64\<close>

lemma b64url_digit_char:
  "0 \<le> n \<Longrightarrow> b64url_digit n \<noteq> CHR ''.'' \<and> ascii_char (b64url_digit n)"
  by (auto simp: b64url_digit_def char_of_eq_iff take_bit_eq_mod ascii_char_def)

lemma of_char_nonneg [simp]: "0 \<le> (of_char c :: int)"
  by (simp add: of_char_def)

lemma b64url_chars: "\<forall>x\<in>set (b64url b). x \<noteq> CHR ''.'' \<and> ascii_char x"
  by (induction b rule: b64url.induct) (simp_all add: Let_def b64url_digit_char pos_imp_zdiv_nonneg_iff)

lemma b64url_ascii: "list_all ascii_char (b64url b)"
  using b64url_chars by (auto simp: list_all_iff)

lemma b64url_no_dot: "CHR ''.'' \<notin> set (b64url b)"
  using b64url_chars by blast

lemma split_on_absent: "c \<notin> set s \<Longrightarrow> split_on c s = [s]"
  by (induction s) auto

lemma split_on_append: "c \<notin> set s \<Longrightarrow> split_on c (s @ c # t) = s # split_on c t"
  by (induction s) auto

lemma split_on_token: "CHR ''.'' \<notin> set e \<Longrightarrow> CHR ''.'' \<notin> set g \<Longrightarrow> split_on (CHR ''.'') (token_text e g) = [''v1'', e, g]"
  using split_on_append [of "CHR ''.''" "''v1''" "e @ ''.'' @ g"] split_on_append [of "CHR ''.''" e g]
  by (simp add: token_text_def split_on_absent)

lemma split_on_three:
  assumes "split_on c s = [a, b, d]"
  shows "s = a @ c # b @ c # d"
proof -
  have join: "s = concat (map (\<lambda>w. w @ [c]) (butlast (split_on c s))) @ last (split_on c s) \<and> split_on c s \<noteq> []" for s
    by (induction s) (auto split: list.splits)
  from join [of s] assms show ?thesis by simp
qed

section \<open>Verification\<close>

lemma as_none_Inr [act_simps]: "as_none r = Inr x \<longleftrightarrow> r = Inr x"
  by (simp add: as_none_def split: sum.splits)

lemma none_unless_Inr [act_simps]: "none_unless b = Inr u \<longleftrightarrow> b"
  by (simp add: none_unless_def)

lemma token_verify_Some:
  assumes "token_verify te v token = Inr (Some t)"
  obtains encoded d where "te_sha te (utf8_encode token) \<notin> tv_revoked v"
    "token = token_text encoded (token_signature te v encoded)" "token_claims te v token d = Inr t"
proof -
  from assms have rev: "te_sha te (utf8_encode token) \<notin> tv_revoked v" and body: "token_body te v token = Inr t"
    by (auto simp: token_verify_def split: if_splits sum.splits token_exit.splits)
  from body obtain version encoded sig where parts: "split_on (CHR ''.'') token = [version, encoded, sig]"
    by (auto simp: token_body_def split: list.splits)
  from body obtain val where val: "compare_digest sig (token_signature te v encoded) = Inr True" "version = ''v1''"
    "(case val of JObj d \<Rightarrow> token_claims te v token d | _ \<Rightarrow> Inl TokenNone) = Inr t"
    unfolding token_body_def parts list.case res_bind_Inr none_unless_Inr as_none_Inr by (elim exE conjE) auto
  from val obtain d where d: "version = ''v1''" "compare_digest sig (token_signature te v encoded) = Inr True"
    "token_claims te v token d = Inr t"
    by (cases val) auto
  from d(2) have "sig = token_signature te v encoded" by (simp add: compare_digest_True)
  with split_on_three [OF parts] d(1) have "token = token_text encoded (token_signature te v encoded)"
    by (simp add: token_text_def)
  with rev d(3) that show thesis by blast
qed

lemma checked_uuid_Inr: "checked_uuid x = Inr s \<Longrightarrow> \<exists>u. uuid_parse s = Some u"
  by (cases x) (auto split: if_splits)

lemma checked_scopes_Inr: "res_map checked_scope xs = Inr ss \<Longrightarrow> \<exists>cs. res_map scope_member ss = Inr cs"
proof (induction xs arbitrary: ss)
  case (Cons x xs)
  then obtain s ss' where s: "checked_scope x = Inr s" "res_map checked_scope xs = Inr ss'" "ss = s # ss'"
    by (auto simp: act_simps)
  from s(1) obtain c where "scope_of s = Some c" by (cases x) (auto split: if_splits)
  then show ?case using Cons.IH [OF s(2)] s(3) by (auto simp: scope_member_def)
qed simp

lemma token_claims_Inr:
  assumes "token_claims te v token d = Inr t"
  shows "at_token t = token \<and> at_resource t = tv_audience v \<and>
    (\<exists>x. tok_expires_at (at_access t) = Some x \<and> timestamp_int (te_now te) < x) \<and>
    (\<exists>q. principal_from_access_token (at_access t) = Inr q)"
  using assms unfolding token_claims_def res_bind_Inr none_unless_Inr
  by (elim exE conjE)
     (auto simp: principal_from_access_token_def principal_claims_def claim_uuid_def not_le
       dest!: checked_uuid_Inr checked_scopes_Inr)

text \<open>C21: Only signed tokens are accepted. A token that the verifier accepts is, character for character,
  an encoded payload with the signature that the verifier's secret gives it; it has not been revoked and
  has not expired, the access token is for the verifier's audience, and a principal can be built from
  it. Once the token is revoked it is refused.\<close>

theorem token_accepted_is_signed:
  assumes "token_verify te v token = Inr (Some t)"
  shows "(\<exists>encoded. token = token_text encoded (token_signature te v encoded)) \<and>
     te_sha te (utf8_encode token) \<notin> tv_revoked v \<and> at_token t = token \<and> at_resource t = tv_audience v \<and>
     (\<exists>x. tok_expires_at (at_access t) = Some x \<and> timestamp_int (te_now te) < x) \<and>
     (\<exists>q. principal_from_access_token (at_access t) = Inr q) \<and>
     token_verify te (token_revoke te token v) token = Inr None"
proof -
  from assms obtain encoded d where "te_sha te (utf8_encode token) \<notin> tv_revoked v"
    "token = token_text encoded (token_signature te v encoded)" "token_claims te v token d = Inr t"
    by (rule token_verify_Some)
  moreover have "token_verify te (token_revoke te token v) token = Inr None"
    by (simp add: token_verify_def token_revoke_def)
  ultimately show ?thesis using token_claims_Inr [of te v token d t] by auto
qed


section \<open>Round trips\<close>

lemma compare_digest_b64url [simp]: "compare_digest (b64url x) (b64url x) = Inr True"
  by (simp add: compare_digest_def b64url_ascii)

lemma res_map_checked_scopes: "res_map checked_scope (map JStr (map scope_value cs)) = Inr (map scope_value cs)"
proof (induction cs)
  case (Cons c cs)
  have "scope_of (scope_value c) \<noteq> None" using scope_member_value [of c] by (auto simp: scope_member_def split: option.splits)
  then show ?case using Cons by simp
qed simp

lemma token_body_issue:
  assumes "unb64 te (b64url raw) = Some raw" "te_loads te raw = Some (JObj d)"
  shows "token_body te v (token_text (b64url raw) (token_signature te v (b64url raw)))
     = token_claims te v (token_text (b64url raw) (token_signature te v (b64url raw))) d"
proof -
  have "split_on (CHR ''.'') (token_text (b64url raw) (token_signature te v (b64url raw)))
      = [''v1'', b64url raw, token_signature te v (b64url raw)]"
    by (rule split_on_token) (simp_all add: b64url_no_dot token_signature_def)
  then show ?thesis
    using assms by (simp add: token_body_def token_signature_def or_none_def none_unless_def as_none_def)
qed

text \<open>An issued token gives its identity back. While it is neither revoked nor expired, the token that
  the verifier issues is accepted by it, for the client and the audience it was issued for, and the
  principal built from it has the subject, tenant, membership, credential and scopes of the call.
  \<open>json.loads\<close> and \<open>urlsafe_b64decode\<close> are assumed to read back what \<open>dumps\<close> and the encoder wrote.\<close>

theorem token_issue_roundtrip:
  assumes "te_loads te (utf8_encode (te_dumps te (token_payload v a))) = Some (token_payload v a)"
    and "unb64 te (b64url (utf8_encode (te_dumps te (token_payload v a)))) = Some (utf8_encode (te_dumps te (token_payload v a)))"
    and "te_sha te (utf8_encode (token_issue te v a)) \<notin> tv_revoked v"
    and "timestamp_int (te_now te) < timestamp_int (is_expires_at a)"
  shows "\<exists>t q. token_verify te v (token_issue te v a) = Inr (Some t) \<and> at_client_id t = is_client_id a \<and>
     at_resource t = tv_audience v \<and> principal_from_access_token (at_access t) = Inr q \<and>
     subject_id q = is_subject a \<and> p_tenant_id q = is_tenant_id a \<and> membership_id q = is_membership_id a \<and>
     credential_id q = is_credential_id a \<and> set (p_scopes q) = set (is_scopes a)"
proof -
  obtain cs where cs: "sort (remdups (map scope_value (is_scopes a))) = map scope_value cs" "set cs = set (is_scopes a)"
    using sorted_scopes by blast
  have body: "token_body te v (token_issue te v a)
      = token_claims te v (token_issue te v a) (case token_payload v a of JObj d \<Rightarrow> d)"
    using token_body_issue [of te "utf8_encode (te_dumps te (token_payload v a))"] assms(1,2)
    by (simp add: token_issue_def Let_def token_payload_def)
  have claims: "token_claims te v token (case token_payload v a of JObj d \<Rightarrow> d) = Inr
     \<lparr>at_token = token, at_client_id = is_client_id a, at_resource = tv_audience v,
      at_access = \<lparr>tok_subject = Some (uuid_str (is_subject a)),
        tok_claims = [(''iss'', tv_issuer v), (''tenant_id'', uuid_str (is_tenant_id a)),
          (''membership_id'', uuid_str (is_membership_id a)), (''credential_id'', uuid_str (is_credential_id a))],
        tok_scopes = map scope_value cs, tok_expires_at = Some (timestamp_int (is_expires_at a))\<rparr>\<rparr>" for token
    using assms(4) res_map_checked_scopes [of cs]
    by (simp add: token_payload_def token_claims_def token_field_def as_none_def item_of_def none_unless_def cs(1))
  show ?thesis
    using assms(3) cs(2)
    by (simp add: token_verify_def body claims res_map_scopes principal_from_access_token_def
        principal_claims_def claim_uuid_def)
qed

section \<open>Stored ciphertexts\<close>

lemma envelope_decode_ok:
  assumes "envelope_decode te s = Inr e"
  shows "1 \<le> key_version e \<and> envelope_lengths e"
  using assms by (auto simp: envelope_decode_def Let_def act_simps split: option.splits json.splits if_splits)

lemma envelope_text:
  assumes "te_loads te (utf8_encode (te_dumps te (envelope_payload e))) = Some (envelope_payload e)"
    and "te_unb64 te (b64_text (wrapped_dek e)) = Some (wrapped_dek e)"
      "te_unb64 te (b64_text (nonce_bytes e)) = Some (nonce_bytes e)"
      "te_unb64 te (b64_text (ciphertext e)) = Some (ciphertext e)"
    and "1 \<le> key_version e" "envelope_lengths e"
  shows "envelope_decode te (envelope_encode te e) = Inr e"
  using assms
  by (cases e) (simp add: envelope_decode_def envelope_encode_def envelope_payload_def envelope_bytes_def get_of_def Let_def)

lemma length_b64url: "length (b64url b) = (4 * length b + 2) div 3"
  by (induction b rule: b64url.induct) (simp_all add: Let_def)

lemma length_b64_text: "length (b64_text b) = (4 * length b + 2) div 3 + nat ((- int ((4 * length b + 2) div 3)) mod 4)"
  by (simp add: b64_text_def b64_padding_def length_b64url)

lemma encrypt_lengths:
  assumes "aead_ok c" "entropy_ok en" "encryptor_encrypt c k en tenant rid field plain version = Inr x"
  shows "1 \<le> key_version x \<and> envelope_lengths x"
  using assms
  by (auto simp: encryptor_encrypt_def kms_wrap_def local_wrap_def Let_def envelope_lengths_def aead_ok_def entropy_ok_def
      split: if_splits kms.splits sum.splits)

text \<open>C22: Content survives its storage. What the encryptor makes of a text under a working cipher, written
  in its stored form, read again and decrypted for the same tenant, record and field, is the text.\<close>

theorem stored_content_roundtrip:
  assumes "aead_ok c" "entropy_ok en" "encryptor_encrypt c k en tenant rid field plain version = Inr x"
    and "te_loads te (utf8_encode (te_dumps te (envelope_payload x))) = Some (envelope_payload x)"
    and "te_unb64 te (b64_text (wrapped_dek x)) = Some (wrapped_dek x)"
      "te_unb64 te (b64_text (nonce_bytes x)) = Some (nonce_bytes x)"
      "te_unb64 te (b64_text (ciphertext x)) = Some (ciphertext x)"
  shows "\<exists>y. envelope_decode te (envelope_encode te x) = Inr y \<and>
     encryptor_decrypt c k tenant rid field y = Inr plain"
  using envelope_text [OF assms(4-7)] encrypt_lengths [OF assms(1-3)] encrypt_decrypt [OF assms(1-3)] by auto

section \<open>Witnesses\<close>

definition ex_verifier :: LocalDevelopmentTokenVerifier where
  "ex_verifier = \<lparr>tv_secret = ''secret'', tv_issuer = ''iss'', tv_audience = ''aud'', tv_revoked = {}\<rparr>"

definition ex_issue :: IssueArgs where
  "ex_issue = \<lparr>is_subject = 5, is_tenant_id = 7, is_membership_id = 8, is_credential_id = 9,
     is_scopes = [MEMORY_WRITE, MEMORY_READ], is_expires_at = ex_now\<lparr>dt_local := dt_local ex_now + 3600000000\<rparr>,
     is_client_id = ''client''\<rparr>"

definition ex_sealed :: EnvelopeCiphertext where
  "ex_sealed = (case encryptor_encrypt ex_aead (LocalKMS (replicate 16 (CHR ''a''))) ex_entropy 5 7 ''content'' ''hello'' 1 of
     Inr x \<Rightarrow> x)"

definition ex_token_env :: "json \<Rightarrow> TokenEnv" where
  "ex_token_env j = \<lparr>te_mac = (\<lambda>k m. rev m @ k), te_sha = (\<lambda>b. b), te_dumps = (\<lambda>j. ''{}''), te_loads = (\<lambda>b. Some j),
     te_unb64 = (\<lambda>s. Some (if length s = 80 then wrapped_dek ex_sealed else if length s = 16 then nonce_bytes ex_sealed
        else if length s = 28 then ciphertext ex_sealed else ''{}'')),
     te_codec = \<lparr>co_repr = (\<lambda>v. []), co_float = (\<lambda>s. None), co_fromiso = (\<lambda>s. None)\<rparr>, te_now = ex_now\<rparr>"

definition ex_token :: string where
  "ex_token = token_issue (ex_token_env (token_payload ex_verifier ex_issue)) ex_verifier ex_issue"

lemma ex_token_verifies:
  "\<not> Option.is_none (case token_verify (ex_token_env (token_payload ex_verifier ex_issue)) ex_verifier ex_token of
     Inr t \<Rightarrow> t | Inl _ \<Rightarrow> None)"
  by code_simp

theorem token_accepted_is_signed_witness:
  "\<exists>t. token_verify (ex_token_env (token_payload ex_verifier ex_issue)) ex_verifier ex_token = Inr (Some t) \<and>
     at_token t = ex_token \<and>
     token_verify (ex_token_env (token_payload ex_verifier ex_issue))
       (token_revoke (ex_token_env (token_payload ex_verifier ex_issue)) ex_token ex_verifier) ex_token = Inr None"
proof -
  from ex_token_verifies obtain t where
    t: "token_verify (ex_token_env (token_payload ex_verifier ex_issue)) ex_verifier ex_token = Inr (Some t)"
    by (auto split: sum.splits simp: Option.is_none_def)
  from token_accepted_is_signed [OF t] t show ?thesis by blast
qed

lemma ex_issue_reads:
  "unb64 (ex_token_env j) (b64url (utf8_encode ''{}'')) = Some (utf8_encode ''{}'')"
  "timestamp_int ex_now < timestamp_int (is_expires_at ex_issue)"
  by code_simp+

theorem token_issue_roundtrip_witness:
  "\<exists>t q. token_verify (ex_token_env (token_payload ex_verifier ex_issue)) ex_verifier
        (token_issue (ex_token_env (token_payload ex_verifier ex_issue)) ex_verifier ex_issue) = Inr (Some t) \<and>
     principal_from_access_token (at_access t) = Inr q \<and> subject_id q = 5 \<and> p_tenant_id q = 7 \<and>
     set (p_scopes q) = {MEMORY_READ, MEMORY_WRITE}"
  using token_issue_roundtrip [of "ex_token_env (token_payload ex_verifier ex_issue)" ex_verifier ex_issue] ex_issue_reads
  by (auto simp: ex_token_env_def ex_verifier_def ex_issue_def)

lemma ex_sealed_encrypts:
  "encryptor_encrypt ex_aead (LocalKMS (replicate 16 (CHR ''a''))) ex_entropy 5 7 ''content'' ''hello'' 1 = Inr ex_sealed"
  by code_simp

lemma ex_sealed_lengths:
  "length (b64_text (wrapped_dek ex_sealed)) = 80" "length (b64_text (nonce_bytes ex_sealed)) = 16"
  "length (b64_text (ciphertext ex_sealed)) = 28"
  by (simp_all add: length_b64_text ex_sealed_def encryptor_encrypt_def kms_wrap_def local_wrap_def ex_entropy_def ex_aead_def ex_tag_def)

lemma ex_sealed_reads:
  "te_unb64 (ex_token_env j) (b64_text (wrapped_dek ex_sealed)) = Some (wrapped_dek ex_sealed)"
  "te_unb64 (ex_token_env j) (b64_text (nonce_bytes ex_sealed)) = Some (nonce_bytes ex_sealed)"
  "te_unb64 (ex_token_env j) (b64_text (ciphertext ex_sealed)) = Some (ciphertext ex_sealed)"
  by (simp_all add: ex_token_env_def ex_sealed_lengths)

theorem stored_content_roundtrip_witness:
  "\<exists>y. envelope_decode (ex_token_env (envelope_payload ex_sealed))
        (envelope_encode (ex_token_env (envelope_payload ex_sealed)) ex_sealed) = Inr y \<and>
     encryptor_decrypt ex_aead (LocalKMS (replicate 16 (CHR ''a''))) 5 7 ''content'' y = Inr ''hello''"
proof -
  have "entropy_ok ex_entropy" by code_simp
  moreover have "te_loads (ex_token_env (envelope_payload ex_sealed)) b = Some (envelope_payload ex_sealed)" for b
    by (simp add: ex_token_env_def)
  ultimately show ?thesis
    by (intro stored_content_roundtrip [OF ex_aead_ok _ ex_sealed_encrypts _ ex_sealed_reads]) auto
qed

end
