(* ===== verification/Postgres_Rows.thy ===== *)
theory Postgres_Rows
  imports Cloud_Tokens App_Models
begin

text \<open>
  The rows of \<open>omp/adapters/postgres/repository.py\<close> and the constraints of
  \<open>omp/adapters/postgres/schema.py\<close>: what a memory, a version and a vector are as values of columns, and how
  a row is read again.

  A session is the community mode of its unit of work and the tenant bound to the request. The texts of an
  encrypted row use \<open>TokenEnv\<close>; the encryptor is a key service or absent; \<open>pe_draw\<close> gives the random
  bytes of one encryption, named by table, record, version and field. \<open>pe_float4\<close> is the rounding of a
  vector column to single precision, \<open>pe_similarity\<close> the operator \<open>1 - (a <=> b)\<close> of the vector
  extension and \<open>pe_dumps\<close> is \<open>json.dumps\<close> with its default separators.

  A \<open>timestamptz\<close> column keeps the instant, and the driver returns it in UTC. A JSON column is an object
  that is only looked up by key; \<open>None\<close> is its null. A text column rejects the character zero and a
  text above its length, an \<open>Integer\<close> column a number outside 32 bits: these are \<open>PgDataError\<close>.
\<close>

section \<open>Sessions, errors and environment\<close>

record PgSession =
  ps_community :: bool
  ps_tenant :: "uuid option"

datatype pg_error =
    PgDomain error
  | PgTenantContextError
  | PgCloud cloud_error
  | PgAttributeError
  | PgIntegrityError
  | PgDataError
  | PgPolicyError

type_synonym 'a pg_result = "(pg_error, 'a) res"

record PgEnv =
  pe_text :: TokenEnv
  pe_dumps :: "json \<Rightarrow> string"
  pe_aead :: aead
  pe_encryptor :: "kms option"
  pe_draw :: "string \<Rightarrow> uuid \<Rightarrow> int \<Rightarrow> string \<Rightarrow> entropy"
  pe_uuid4 :: "nat \<Rightarrow> uuid"
  pe_float4 :: "pyfloat \<Rightarrow> pyfloat"
  pe_similarity :: "pyfloat list \<Rightarrow> pyfloat list \<Rightarrow> pyfloat"

definition as_domain :: "'a result \<Rightarrow> 'a pg_result" where
  "as_domain r = (case r of Inl e \<Rightarrow> Inl (PgDomain e) | Inr x \<Rightarrow> Inr x)"

definition as_cloud :: "'a cloud \<Rightarrow> 'a pg_result" where
  "as_cloud r = (case r of Inl e \<Rightarrow> Inl (PgCloud e) | Inr x \<Rightarrow> Inr x)"

text \<open>The row level security policy, which has the same condition for reading and for writing.\<close>

definition policy :: "PgSession \<Rightarrow> uuid option \<Rightarrow> bool" where
  "policy ses t \<longleftrightarrow> (ps_community ses \<and> t = None) \<or> (\<not> ps_community ses \<and> t \<noteq> None \<and> t = ps_tenant ses)"

text \<open>A table without community rows.\<close>

definition tenant_policy :: "PgSession \<Rightarrow> uuid \<Rightarrow> bool" where
  "tenant_policy ses t \<longleftrightarrow> \<not> ps_community ses \<and> ps_tenant ses = Some t"

section \<open>Columns\<close>

definition no_nul :: "string \<Rightarrow> bool" where
  "no_nul s \<longleftrightarrow> CHR 0x00 \<notin> set s"

definition varchar :: "nat \<Rightarrow> string \<Rightarrow> bool" where
  "varchar n s \<longleftrightarrow> no_nul s \<and> length s \<le> n"

definition opt_holds :: "('a \<Rightarrow> bool) \<Rightarrow> 'a option \<Rightarrow> bool" where
  "opt_holds P v = (case v of None \<Rightarrow> True | Some x \<Rightarrow> P x)"

definition int4 :: "int \<Rightarrow> bool" where
  "int4 n \<longleftrightarrow> - (2 ^ 31) \<le> n \<and> n < 2 ^ 31"

fun json_no_nul :: "json \<Rightarrow> bool" where
  "json_no_nul (JStr s) = no_nul s"
| "json_no_nul (JList vs) = list_all json_no_nul vs"
| "json_no_nul (JObj kvs) = list_all (\<lambda>kv. no_nul (fst kv) \<and> json_no_nul (snd kv)) kvs"
| "json_no_nul v = True"

text \<open>\<open>length(trim(value)) > 0\<close>, where \<open>trim\<close> removes spaces.\<close>

definition trim_nonempty :: "string \<Rightarrow> bool" where
  "trim_nonempty s \<longleftrightarrow> list_ex (\<lambda>c. c \<noteq> CHR '' '') s"

definition check_memory_types :: "string list" where
  "check_memory_types = [''fact'', ''preference'', ''decision'', ''insight'', ''hypothesis'', ''lesson'', ''goal'',
     ''project_context'', ''concept'', ''relationship'', ''open_question'', ''mental_note'']"

definition check_states :: "string list" where
  "check_states = [''active'', ''candidate'', ''confirmed'', ''pinned'', ''stale'', ''superseded'', ''contradicted'',
     ''archived'']"

record MemoriesRow =
  r_id :: uuid
  r_owner_id :: string
  r_tenant_id :: "uuid option"
  r_space :: "string option"
  r_memory_type :: string
  r_content :: "string option"
  r_content_ciphertext :: "string option"
  r_importance :: pyfloat
  r_confidence :: pyfloat
  r_state :: string
  r_version :: int
  r_created_at :: datetime
  r_updated_at :: datetime
  r_occurred_at :: "datetime option"
  r_provenance :: "json option"
  r_provenance_ciphertext :: "string option"
  r_capture_consent :: "json option"
  r_profile_id :: string
  r_profile_version :: string
  r_dimension :: int
  r_metric :: string
  r_idempotency_key :: "string option"
  r_fingerprint :: "string option"

definition memories_fits :: "MemoriesRow \<Rightarrow> bool" where
  "memories_fits r \<longleftrightarrow> varchar 256 (r_owner_id r) \<and> opt_holds (varchar 256) (r_space r) \<and>
     varchar 64 (r_memory_type r) \<and> opt_holds no_nul (r_content r) \<and> opt_holds no_nul (r_content_ciphertext r) \<and>
     varchar 32 (r_state r) \<and> int4 (r_version r) \<and> opt_holds json_no_nul (r_provenance r) \<and>
     opt_holds no_nul (r_provenance_ciphertext r) \<and> opt_holds json_no_nul (r_capture_consent r) \<and>
     varchar 128 (r_profile_id r) \<and> varchar 128 (r_profile_version r) \<and> int4 (r_dimension r) \<and>
     varchar 32 (r_metric r) \<and> opt_holds (varchar 256) (r_idempotency_key r) \<and> opt_holds (varchar 64) (r_fingerprint r)"

definition content_check :: "string option \<Rightarrow> string option \<Rightarrow> bool" where
  "content_check content sealed \<longleftrightarrow> (case content of None \<Rightarrow> False | Some s \<Rightarrow> trim_nonempty s) \<or> sealed \<noteq> None"

definition memories_check :: "MemoriesRow \<Rightarrow> bool" where
  "memories_check r \<longleftrightarrow> 0 \<le> r_importance r \<and> r_importance r \<le> 1 \<and> 0 \<le> r_confidence r \<and> r_confidence r \<le> 1 \<and>
     r_memory_type r \<in> set check_memory_types \<and> r_state r \<in> set check_states \<and> 1 \<le> r_version r \<and>
     content_check (r_content r) (r_content_ciphertext r) \<and> trim_nonempty (r_owner_id r)"

record VersionRow =
  v_memory_id :: uuid
  v_version :: int
  v_tenant_id :: "uuid option"
  v_memory_type :: string
  v_content :: "string option"
  v_content_ciphertext :: "string option"
  v_importance :: pyfloat
  v_confidence :: pyfloat
  v_state :: string
  v_space :: "string option"
  v_occurred_at :: "datetime option"
  v_provenance :: "json option"
  v_provenance_ciphertext :: "string option"
  v_capture_consent :: "json option"
  v_changed_at :: datetime
  v_change_reason :: string

definition versions_fits :: "VersionRow \<Rightarrow> bool" where
  "versions_fits v \<longleftrightarrow> int4 (v_version v) \<and> varchar 64 (v_memory_type v) \<and> opt_holds no_nul (v_content v) \<and>
     opt_holds no_nul (v_content_ciphertext v) \<and> varchar 32 (v_state v) \<and> opt_holds (varchar 256) (v_space v) \<and>
     opt_holds json_no_nul (v_provenance v) \<and> opt_holds no_nul (v_provenance_ciphertext v) \<and>
     opt_holds json_no_nul (v_capture_consent v) \<and> varchar 256 (v_change_reason v)"

definition versions_check :: "VersionRow \<Rightarrow> bool" where
  "versions_check v \<longleftrightarrow> 1 \<le> v_version v \<and> v_memory_type v \<in> set check_memory_types \<and> v_state v \<in> set check_states \<and>
     content_check (v_content v) (v_content_ciphertext v)"

text \<open>A row of \<open>memory_embeddings\<close>, which has no source version, or of \<open>memory_embeddings_semantic\<close>.\<close>

record EmbeddingRow =
  x_memory_id :: uuid
  x_tenant_id :: "uuid option"
  x_profile_id :: string
  x_profile_version :: string
  x_source_version :: "int option"
  x_dimension :: int
  x_metric :: string
  x_vector :: "pyfloat list"

definition embeddings_fits :: "nat \<Rightarrow> EmbeddingRow \<Rightarrow> bool" where
  "embeddings_fits n x \<longleftrightarrow> varchar 128 (x_profile_id x) \<and> varchar 128 (x_profile_version x) \<and> int4 (x_dimension x) \<and>
     opt_holds int4 (x_source_version x) \<and> varchar 32 (x_metric x) \<and> length (x_vector x) = n"

record RelationRow =
  q_owner_id :: string
  q_tenant_id :: "uuid option"
  q_source_id :: uuid
  q_target_id :: uuid
  q_relation_type :: string
  q_created_at :: datetime

record OperationRow =
  o_owner_id :: string
  o_tenant_id :: "uuid option"
  o_operation_type :: string
  o_idempotency_key :: string
  o_fingerprint :: string
  o_status :: string
  o_memory_id :: "uuid option"
  o_result_version :: "int option"
  o_result_status :: "string option"
  o_claimed_at :: datetime
  o_completed_at :: "datetime option"

definition operations_fits :: "OperationRow \<Rightarrow> bool" where
  "operations_fits p \<longleftrightarrow> varchar 256 (o_owner_id p) \<and> varchar 32 (o_operation_type p) \<and> varchar 256 (o_idempotency_key p) \<and>
     varchar 64 (o_fingerprint p) \<and> varchar 32 (o_status p) \<and> opt_holds int4 (o_result_version p) \<and>
     opt_holds (varchar 32) (o_result_status p)"

definition operations_check :: "OperationRow \<Rightarrow> bool" where
  "operations_check p \<longleftrightarrow> o_operation_type p \<in> {''update'', ''forget'', ''confirm'', ''pin'', ''discard''} \<and>
     o_status p \<in> {''in_progress'', ''completed''} \<and> trim_nonempty (o_idempotency_key p) \<and> length (o_fingerprint p) = 64"

record TombstoneRow =
  t_owner_id :: string
  t_tenant_id :: "uuid option"
  t_memory_id :: uuid
  t_deleted_at :: datetime
  t_reason :: string

record DeletionRow =
  d_id :: uuid
  d_tenant_id :: uuid
  d_memory_id :: "uuid option"
  d_subject_id :: "uuid option"
  d_deleted_at :: datetime
  d_reason :: string

record AuditRow =
  a_id :: uuid
  a_tenant_id :: uuid
  a_principal_id :: "uuid option"
  a_action :: string
  a_receipt_id :: uuid
  a_created_at :: datetime
  a_metadata :: json

section \<open>JSON columns\<close>

definition pg_provenance_to_json :: "Provenance \<Rightarrow> json" where
  "pg_provenance_to_json p = JObj
     [(''source_type'', JStr (source_type_value (pv_source_type p))),
      (''source_id'', json_opt JStr (pv_source_id p)),
      (''source_model'', json_opt JStr (pv_source_model p)),
      (''source_client'', json_opt JStr (pv_source_client p)),
      (''source_connection_id'', json_opt JStr (pv_source_connection_id p)),
      (''conversation_id'', json_opt JStr (pv_conversation_id p)),
      (''message_id'', json_opt JStr (pv_message_id p)),
      (''captured_at'', JStr (isoformat (pv_captured_at p))),
      (''evidence'', JList (map JStr (pv_evidence p)))]"

fun evidence_of :: "CodecEnv \<Rightarrow> json option \<Rightarrow> string list" where
  "evidence_of env (Some (JList vs)) = map (py_str env) vs"
| "evidence_of env v = []"

text \<open>A value that is not an object has no \<open>get\<close>.\<close>

definition pg_provenance_from_json :: "CodecEnv \<Rightarrow> json \<Rightarrow> Provenance pg_result" where
  "pg_provenance_from_json env v = (case v of
     JObj d \<Rightarrow> as_domain (
       res_bind (res_bind (str_item env d ''source_type'') source_type_of) (\<lambda>source_type.
       res_bind (time_item env d ''captured_at'') (\<lambda>captured_at.
       provenance_post_init
         \<lparr>pv_source_type = source_type, pv_captured_at = captured_at,
          pv_source_id = str_if_true env d ''source_id'',
          pv_source_model = str_if_true env d ''source_model'',
          pv_evidence = evidence_of env (map_of d ''evidence''),
          pv_source_client = str_if_true env d ''source_client'',
          pv_source_connection_id = str_if_true env d ''source_connection_id'',
          pv_conversation_id = str_if_true env d ''conversation_id'',
          pv_message_id = str_if_true env d ''message_id''\<rparr>)))
   | _ \<Rightarrow> Inl PgAttributeError)"

definition pg_consent_to_json :: "CaptureConsent option \<Rightarrow> json option" where
  "pg_consent_to_json consent = (case consent of None \<Rightarrow> None | Some c \<Rightarrow> Some (JObj
     [(''mode'', JStr (consent_mode_value (cc_mode c))),
      (''consent_id'', JStr (cc_consent_id c)),
      (''reason_code'', JStr (consent_reason_value (cc_reason_code c))),
      (''policy_version'', JStr (cc_policy_version c)),
      (''granted_at'', JStr (isoformat (cc_granted_at c)))]))"

definition pg_consent_from_json :: "CodecEnv \<Rightarrow> json option \<Rightarrow> CaptureConsent option pg_result" where
  "pg_consent_from_json env v = (case v of
     None \<Rightarrow> Inr None
   | Some j \<Rightarrow>
       if \<not> json_truthy j then Inr None
       else (case j of JObj d \<Rightarrow> as_domain (res_bind (consent_from_dict env d) (\<lambda>c. Inr (Some c)))
                     | _ \<Rightarrow> Inl (PgDomain PyTypeError)))"

section \<open>Writing rows\<close>

definition pg_owner_tenant :: "string \<Rightarrow> uuid pg_result" where
  "pg_owner_tenant owner = (case cloud_tenant owner of Inl e \<Rightarrow> Inl PgTenantContextError | Inr t \<Rightarrow> Inr t)"

definition pg_assert_owner :: "PgSession \<Rightarrow> string \<Rightarrow> uuid option pg_result" where
  "pg_assert_owner ses owner = (case ps_tenant ses of
     None \<Rightarrow> Inr None
   | Some t \<Rightarrow> res_bind (pg_owner_tenant owner) (\<lambda>u.
       if u \<noteq> t then Inl PgTenantContextError else Inr (Some t)))"

text \<open>The four columns of \<open>_cloud_fields\<close>: content and provenance, in plain or encrypted.\<close>

record CloudFields =
  cf_plain :: "string option"
  cf_sealed :: "string option"
  cf_provenance :: "json option"
  cf_provenance_sealed :: "string option"

definition seal_field ::
  "PgEnv \<Rightarrow> kms \<Rightarrow> uuid \<Rightarrow> string \<Rightarrow> uuid \<Rightarrow> int \<Rightarrow> string \<Rightarrow> string \<Rightarrow> int \<Rightarrow> string pg_result" where
  "seal_field env k tenant table rid version field plaintext key =
     as_cloud (res_bind (encryptor_encrypt (pe_aead env) k (pe_draw env table rid version field) tenant rid field plaintext key)
       (\<lambda>e. Inr (envelope_encode (pe_text env) e)))"

definition cloud_fields ::
  "PgEnv \<Rightarrow> PgSession \<Rightarrow> string \<Rightarrow> uuid \<Rightarrow> int \<Rightarrow> string \<Rightarrow> Provenance \<Rightarrow> int \<Rightarrow> CloudFields pg_result" where
  "cloud_fields env ses table rid version content provenance key = (case ps_tenant ses of
     None \<Rightarrow> Inr \<lparr>cf_plain = Some content, cf_sealed = None,
               cf_provenance = Some (pg_provenance_to_json provenance), cf_provenance_sealed = None\<rparr>
   | Some t \<Rightarrow> (case pe_encryptor env of
       None \<Rightarrow> Inl PgTenantContextError
     | Some k \<Rightarrow>
         res_bind (seal_field env k t table rid version ''content'' content key) (\<lambda>c.
         res_bind (seal_field env k t table rid version ''provenance''
                     (pe_dumps env (pg_provenance_to_json provenance)) key) (\<lambda>p.
         Inr \<lparr>cf_plain = None, cf_sealed = Some c, cf_provenance = None, cf_provenance_sealed = Some p\<rparr>))))"

definition set_cloud_fields :: "CloudFields \<Rightarrow> MemoriesRow \<Rightarrow> MemoriesRow" where
  "set_cloud_fields f r = r\<lparr>r_content := cf_plain f, r_content_ciphertext := cf_sealed f,
     r_provenance := cf_provenance f, r_provenance_ciphertext := cf_provenance_sealed f\<rparr>"

definition set_version_fields :: "CloudFields \<Rightarrow> VersionRow \<Rightarrow> VersionRow" where
  "set_version_fields f v = v\<lparr>v_content := cf_plain f, v_content_ciphertext := cf_sealed f,
     v_provenance := cf_provenance f, v_provenance_ciphertext := cf_provenance_sealed f\<rparr>"

definition memory_values :: "PgEnv \<Rightarrow> PgSession \<Rightarrow> Memory \<Rightarrow> string option \<Rightarrow> MemoriesRow pg_result" where
  "memory_values env ses m fingerprint = (case m_embedding m of
     None \<Rightarrow> Inl (PgDomain PyValueError)
   | Some e \<Rightarrow>
       res_bind (pg_assert_owner ses (m_owner_id m)) (\<lambda>_.
       res_bind (cloud_fields env ses ''memories'' (m_id m) (m_version m) (m_content m) (m_provenance m) 1) (\<lambda>f.
       Inr (set_cloud_fields f
         \<lparr>r_id = m_id m, r_owner_id = m_owner_id m, r_tenant_id = ps_tenant ses, r_space = m_space m,
          r_memory_type = memory_type_value (m_memory_type m), r_content = None, r_content_ciphertext = None,
          r_importance = m_importance m, r_confidence = m_confidence m,
          r_state = memory_state_value (m_state m), r_version = m_version m,
          r_created_at = astimezone_utc (m_created_at m), r_updated_at = astimezone_utc (m_updated_at m),
          r_occurred_at = map_option astimezone_utc (m_occurred_at m), r_provenance = None,
          r_provenance_ciphertext = None, r_capture_consent = pg_consent_to_json (m_capture_consent m),
          r_profile_id = ed_profile_id e, r_profile_version = ed_profile_version e, r_dimension = ed_dimension e,
          r_metric = ed_metric e, r_idempotency_key = m_idempotency_key m, r_fingerprint = fingerprint\<rparr>))))"

definition version_values :: "PgEnv \<Rightarrow> PgSession \<Rightarrow> MemoryVersion \<Rightarrow> VersionRow pg_result" where
  "version_values env ses v =
     res_bind (cloud_fields env ses ''memory_versions'' (mv_memory_id v) (mv_version v) (mv_content v) (mv_provenance v) 1) (\<lambda>f.
     Inr (set_version_fields f
       \<lparr>v_memory_id = mv_memory_id v, v_version = mv_version v, v_tenant_id = ps_tenant ses,
        v_memory_type = memory_type_value (mv_memory_type v), v_content = None, v_content_ciphertext = None,
        v_importance = mv_importance v, v_confidence = mv_confidence v, v_state = memory_state_value (mv_state v),
        v_space = mv_space v, v_occurred_at = map_option astimezone_utc (mv_occurred_at v), v_provenance = None,
        v_provenance_ciphertext = None, v_capture_consent = pg_consent_to_json (mv_capture_consent v),
        v_changed_at = astimezone_utc (mv_changed_at v), v_change_reason = mv_change_reason v\<rparr>))"

definition embedding_values :: "PgEnv \<Rightarrow> PgSession \<Rightarrow> Memory \<Rightarrow> pyfloat list \<Rightarrow> EmbeddingRow pg_result" where
  "embedding_values env ses m vec = (case m_embedding m of
     None \<Rightarrow> Inl (PgDomain PyValueError)
   | Some e \<Rightarrow> Inr
       \<lparr>x_memory_id = m_id m, x_tenant_id = ps_tenant ses, x_profile_id = ed_profile_id e,
        x_profile_version = ed_profile_version e,
        x_source_version = (if ed_dimension e = 384 then Some (m_version m) else None),
        x_dimension = ed_dimension e, x_metric = ed_metric e, x_vector = map (pe_float4 env) vec\<rparr>)"

section \<open>Reading rows\<close>

text \<open>\<open>_memory_from_row_values\<close>, once content and provenance are in plain.\<close>

definition memory_from_row_values :: "CodecEnv \<Rightarrow> MemoriesRow \<Rightarrow> string option \<Rightarrow> json \<Rightarrow> Memory pg_result" where
  "memory_from_row_values env r content provenance =
     res_bind (as_domain (memory_type_of (r_memory_type r))) (\<lambda>memory_type.
     res_bind (as_domain (memory_state_of (r_state r))) (\<lambda>state.
     res_bind (pg_provenance_from_json env provenance) (\<lambda>prov.
     res_bind (as_domain (embedding_descriptor_post_init
       \<lparr>ed_profile_id = r_profile_id r, ed_profile_version = r_profile_version r, ed_dimension = r_dimension r,
        ed_metric = r_metric r\<rparr>)) (\<lambda>embedding.
     res_bind (pg_consent_from_json env (r_capture_consent r)) (\<lambda>consent.
     case content of
       None \<Rightarrow> Inl PgAttributeError
     | Some text0 \<Rightarrow> as_domain (memory_post_init
         \<lparr>m_id = r_id r, m_owner_id = r_owner_id r, m_content = text0, m_memory_type = memory_type,
          m_importance = r_importance r, m_confidence = r_confidence r, m_state = state, m_version = r_version r,
          m_created_at = r_created_at r, m_updated_at = r_updated_at r, m_occurred_at = r_occurred_at r,
          m_space = r_space r, m_provenance = prov, m_embedding = Some embedding,
          m_idempotency_key = r_idempotency_key r, m_tenant_id = map_option uuid_str (r_tenant_id r),
          m_capture_consent = consent\<rparr>))))))"

definition open_field ::
  "PgEnv \<Rightarrow> kms \<Rightarrow> uuid \<Rightarrow> uuid \<Rightarrow> string \<Rightarrow> string option \<Rightarrow> string pg_result" where
  "open_field env k tenant rid field stored = (case stored of
     None \<Rightarrow> Inl (PgCloud CloudPermissionError)
   | Some s \<Rightarrow> as_cloud (res_bind (envelope_decode (pe_text env) s) (\<lambda>e.
       encryptor_decrypt (pe_aead env) k tenant rid field e)))"

text \<open>The plain content and provenance of a row of \<open>memories\<close> or \<open>memory_versions\<close>.\<close>

definition open_row ::
  "PgEnv \<Rightarrow> PgSession \<Rightarrow> uuid option \<Rightarrow> uuid \<Rightarrow> CloudFields \<Rightarrow> (string option \<times> json) pg_result" where
  "open_row env ses tenant rid f =
     (if ps_tenant ses \<noteq> None \<and> tenant \<noteq> ps_tenant ses then Inl PgTenantContextError
      else if cf_sealed f = None
      then Inr (cf_plain f, case cf_provenance f of None \<Rightarrow> JNull | Some j \<Rightarrow> j)
      else case (pe_encryptor env, tenant) of
        (Some k, Some t) \<Rightarrow>
          res_bind (open_field env k t rid ''content'' (cf_sealed f)) (\<lambda>content.
          res_bind (open_field env k t rid ''provenance'' (cf_provenance_sealed f)) (\<lambda>prov.
          case te_loads (pe_text env) (utf8_encode prov) of
            None \<Rightarrow> Inl (PgDomain PyValueError)
          | Some j \<Rightarrow> Inr (Some content, j)))
      | _ \<Rightarrow> Inl PgTenantContextError)"

definition row_fields :: "MemoriesRow \<Rightarrow> CloudFields" where
  "row_fields r = \<lparr>cf_plain = r_content r, cf_sealed = r_content_ciphertext r, cf_provenance = r_provenance r,
     cf_provenance_sealed = r_provenance_ciphertext r\<rparr>"

definition version_fields :: "VersionRow \<Rightarrow> CloudFields" where
  "version_fields v = \<lparr>cf_plain = v_content v, cf_sealed = v_content_ciphertext v, cf_provenance = v_provenance v,
     cf_provenance_sealed = v_provenance_ciphertext v\<rparr>"

definition memory_from_row :: "PgEnv \<Rightarrow> PgSession \<Rightarrow> MemoriesRow \<Rightarrow> Memory pg_result" where
  "memory_from_row env ses r =
     res_bind (open_row env ses (r_tenant_id r) (r_id r) (row_fields r)) (\<lambda>(content, provenance).
     memory_from_row_values (te_codec (pe_text env)) r content provenance)"

text \<open>\<open>MemoryVersion\<close> checks nothing of itself.\<close>

definition version_from_row :: "PgEnv \<Rightarrow> PgSession \<Rightarrow> VersionRow \<Rightarrow> MemoryVersion pg_result" where
  "version_from_row env ses v =
     res_bind (open_row env ses (v_tenant_id v) (v_memory_id v) (version_fields v)) (\<lambda>(content, provenance).
     res_bind (as_domain (memory_type_of (v_memory_type v))) (\<lambda>memory_type.
     res_bind (as_domain (memory_state_of (v_state v))) (\<lambda>state.
     res_bind (pg_provenance_from_json (te_codec (pe_text env)) provenance) (\<lambda>prov.
     res_bind (pg_consent_from_json (te_codec (pe_text env)) (v_capture_consent v)) (\<lambda>consent.
     case content of
       None \<Rightarrow> Inl PgAttributeError
     | Some text0 \<Rightarrow> Inr
         \<lparr>mv_memory_id = v_memory_id v, mv_version = v_version v, mv_content = text0, mv_memory_type = memory_type,
          mv_state = state, mv_importance = v_importance v, mv_confidence = v_confidence v, mv_space = v_space v,
          mv_occurred_at = v_occurred_at v, mv_provenance = prov, mv_changed_at = v_changed_at v,
          mv_change_reason = v_change_reason v, mv_capture_consent = consent\<rparr>)))))"

definition relation_from_row :: "RelationRow \<Rightarrow> Relation pg_result" where
  "relation_from_row q =
     res_bind (as_domain (relation_type_of (q_relation_type q))) (\<lambda>relation_type.
     as_domain (relation_post_init
       \<lparr>rel_source_id = q_source_id q, rel_target_id = q_target_id q, rel_type = relation_type,
        rel_owner_id = q_owner_id q, rel_created_at = q_created_at q\<rparr>))"

end
