(* ===== verification/Postgres_Store.thy ===== *)
theory Postgres_Store
  imports Postgres_Rows Memory_Store
begin

text \<open>
  The repositories and the unit of work of \<open>omp/adapters/postgres/repository.py\<close> over the tables of
  \<open>schema.py\<close>.

  A table is the list of its rows. A statement reads the rows that the row level security policy shows to
  the session, and writes rows that satisfy the policy, the column types, the check constraints, the unique
  constraints and the foreign keys, which look at all rows; a violated constraint is
  \<open>PgIntegrityError\<close>. A search is the exact order of its \<open>ORDER BY\<close>, as a scan without the approximate index
  of the semantic table returns it. The deletion of a memory cascades to the rows that refer to it. A unit of work is
  one transaction: its statements run on the state it started with and are undone when it raises.
\<close>

section \<open>Tables\<close>

record PgTables =
  tb_tenants :: "uuid set"
  tb_memories :: "MemoriesRow list"
  tb_versions :: "VersionRow list"
  tb_embeddings :: "EmbeddingRow list"
  tb_semantic :: "EmbeddingRow list"
  tb_relations :: "RelationRow list"
  tb_operations :: "OperationRow list"
  tb_tombstones :: "TombstoneRow list"
  tb_deletions :: "DeletionRow list"
  tb_audit :: "AuditRow list"

type_synonym 'a pg_act = "(PgTables, pg_error, 'a) act"
type_synonym 'a pg_read = "PgTables \<Rightarrow> 'a pg_result"

definition seen_memories :: "PgSession \<Rightarrow> PgTables \<Rightarrow> MemoriesRow list" where
  "seen_memories ses tb = filter (\<lambda>r. policy ses (r_tenant_id r)) (tb_memories tb)"

definition seen_versions :: "PgSession \<Rightarrow> PgTables \<Rightarrow> VersionRow list" where
  "seen_versions ses tb = filter (\<lambda>v. policy ses (v_tenant_id v)) (tb_versions tb)"

definition tenant_known :: "PgTables \<Rightarrow> uuid option \<Rightarrow> bool" where
  "tenant_known tb t = opt_holds (\<lambda>u. u \<in> tb_tenants tb) t"

text \<open>The condition on the tenant that a query adds when a tenant is bound.\<close>

definition bound_to :: "uuid option \<Rightarrow> uuid option \<Rightarrow> bool" where
  "bound_to bound t \<longleftrightarrow> bound = None \<or> t = bound"

section \<open>Statements\<close>

text \<open>Types, policy and checks of a new row, in the order in which the database tests them.\<close>

definition row_allowed :: "bool \<Rightarrow> bool \<Rightarrow> bool \<Rightarrow> unit pg_act" where
  "row_allowed fits pol checks =
     act_bind (act_guard fits PgDataError) (\<lambda>_.
     act_bind (act_guard pol PgPolicyError) (\<lambda>_.
     act_guard checks PgIntegrityError))"

datatype conflict_target = NoTarget | OnId | OnKey

definition same_id :: "MemoriesRow \<Rightarrow> MemoriesRow \<Rightarrow> bool" where
  "same_id r x \<longleftrightarrow> r_id x = r_id r"

definition same_key :: "MemoriesRow \<Rightarrow> MemoriesRow \<Rightarrow> bool" where
  "same_key r x \<longleftrightarrow> r_idempotency_key r \<noteq> None \<and> r_owner_id x = r_owner_id r \<and>
     r_idempotency_key x = r_idempotency_key r"

fun conflicts_on :: "conflict_target \<Rightarrow> MemoriesRow \<Rightarrow> MemoriesRow \<Rightarrow> bool" where
  "conflicts_on NoTarget r x = False"
| "conflicts_on OnId r x = same_id r x"
| "conflicts_on OnKey r x = same_key r x"

text \<open>\<open>INSERT INTO memories ... ON CONFLICT (target) DO NOTHING RETURNING\<close>: whether a row was inserted.\<close>

definition insert_memories :: "PgSession \<Rightarrow> conflict_target \<Rightarrow> MemoriesRow \<Rightarrow> bool pg_act" where
  "insert_memories ses target r =
     act_bind (row_allowed (memories_fits r) (policy ses (r_tenant_id r)) (memories_check r)) (\<lambda>_ tb.
     if list_ex (conflicts_on target r) (tb_memories tb) then (Inr False, tb)
     else if list_ex (\<lambda>x. same_id r x \<or> same_key r x) (tb_memories tb) \<or> \<not> tenant_known tb (r_tenant_id r)
     then (Inl PgIntegrityError, tb)
     else (Inr True, tb\<lparr>tb_memories := tb_memories tb @ [r]\<rparr>))"

text \<open>A version refers to its memory, and with a tenant to the memory of that tenant.\<close>

definition refers_to_memory :: "PgTables \<Rightarrow> uuid \<Rightarrow> uuid option \<Rightarrow> bool" where
  "refers_to_memory tb mid t \<longleftrightarrow> list_ex (\<lambda>r. r_id r = mid \<and> (t = None \<or> r_tenant_id r = t)) (tb_memories tb)"

definition insert_version :: "PgSession \<Rightarrow> VersionRow \<Rightarrow> unit pg_act" where
  "insert_version ses v =
     act_bind (row_allowed (versions_fits v) (policy ses (v_tenant_id v)) (versions_check v)) (\<lambda>_ tb.
     if list_ex (\<lambda>w. v_memory_id w = v_memory_id v \<and> v_version w = v_version v) (tb_versions tb) \<or>
        \<not> refers_to_memory tb (v_memory_id v) (v_tenant_id v)
     then (Inl PgIntegrityError, tb)
     else (Inr (), tb\<lparr>tb_versions := tb_versions tb @ [v]\<rparr>))"

text \<open>\<open>_embedding_table\<close>: the table for a dimension, by its key columns.\<close>

datatype vector_table = HashTable | SemanticTable

definition embedding_table :: "int \<Rightarrow> vector_table pg_result" where
  "embedding_table dimension =
     (if dimension = 64 then Inr HashTable else if dimension = 384 then Inr SemanticTable
      else Inl (PgDomain PyValueError))"

definition memory_dimension :: "Memory \<Rightarrow> int" where
  "memory_dimension m = (case m_embedding m of None \<Rightarrow> 0 | Some e \<Rightarrow> ed_dimension e)"

fun table_rows :: "vector_table \<Rightarrow> PgTables \<Rightarrow> EmbeddingRow list" where
  "table_rows HashTable tb = tb_embeddings tb"
| "table_rows SemanticTable tb = tb_semantic tb"

fun set_table_rows :: "vector_table \<Rightarrow> EmbeddingRow list \<Rightarrow> PgTables \<Rightarrow> PgTables" where
  "set_table_rows HashTable rows tb = tb\<lparr>tb_embeddings := rows\<rparr>"
| "set_table_rows SemanticTable rows tb = tb\<lparr>tb_semantic := rows\<rparr>"

fun vector_length :: "vector_table \<Rightarrow> nat" where
  "vector_length HashTable = 64"
| "vector_length SemanticTable = 384"

fun embedding_key :: "vector_table \<Rightarrow> EmbeddingRow \<Rightarrow> uuid \<times> string \<times> string" where
  "embedding_key HashTable x = (x_memory_id x, [], [])"
| "embedding_key SemanticTable x = (x_memory_id x, x_profile_id x, x_profile_version x)"

fun embedding_check :: "vector_table \<Rightarrow> EmbeddingRow \<Rightarrow> bool" where
  "embedding_check HashTable x = True"
| "embedding_check SemanticTable x = (x_dimension x = 384 \<and> x_source_version x \<noteq> None)"

definition insert_embedding :: "PgSession \<Rightarrow> vector_table \<Rightarrow> EmbeddingRow \<Rightarrow> unit pg_act" where
  "insert_embedding ses t x =
     act_bind (row_allowed (embeddings_fits (vector_length t) x) (policy ses (x_tenant_id x)) (embedding_check t x)) (\<lambda>_ tb.
     if list_ex (\<lambda>y. embedding_key t y = embedding_key t x) (table_rows t tb) \<or>
        \<not> refers_to_memory tb (x_memory_id x) (x_tenant_id x)
     then (Inl PgIntegrityError, tb)
     else (Inr (), set_table_rows t (table_rows t tb @ [x]) tb))"

text \<open>
  \<open>UPDATE table SET ... WHERE memory_id = ...\<close>, on every row of the memory that the session sees; no row
  is no error.
\<close>

definition update_embedding :: "PgSession \<Rightarrow> vector_table \<Rightarrow> EmbeddingRow \<Rightarrow> unit pg_act" where
  "update_embedding ses t x tb =
     (let hit = (\<lambda>y. x_memory_id y = x_memory_id x \<and> policy ses (x_tenant_id y));
          rows = map (\<lambda>y. if hit y then x else y) (table_rows t tb)
      in if \<not> list_ex hit (table_rows t tb) then (Inr (), tb)
         else act_bind (row_allowed (embeddings_fits (vector_length t) x) (policy ses (x_tenant_id x)) (embedding_check t x)) (\<lambda>_ tb.
           if \<not> distinct (map (embedding_key t) rows) \<or> \<not> refers_to_memory tb (x_memory_id x) (x_tenant_id x)
           then (Inl PgIntegrityError, tb)
           else (Inr (), set_table_rows t rows tb)) tb)"

section \<open>Reading memories\<close>

definition pg_get :: "PgEnv \<Rightarrow> PgSession \<Rightarrow> string \<Rightarrow> uuid \<Rightarrow> Memory option pg_read" where
  "pg_get env ses owner mid tb =
     res_bind (pg_assert_owner ses owner) (\<lambda>bound.
     case find (\<lambda>r. r_owner_id r = owner \<and> r_id r = mid \<and> bound_to bound (r_tenant_id r)) (seen_memories ses tb) of
       None \<Rightarrow> Inr None
     | Some r \<Rightarrow> res_bind (memory_from_row env ses r) (\<lambda>m. Inr (Some m)))"

definition pg_get_version :: "PgEnv \<Rightarrow> PgSession \<Rightarrow> string \<Rightarrow> uuid \<Rightarrow> int \<Rightarrow> Memory option pg_read" where
  "pg_get_version env ses owner mid version tb =
     res_bind (pg_get env ses owner mid tb) (\<lambda>found.
     case found of
       None \<Rightarrow> Inr None
     | Some current \<Rightarrow>
         if m_version current = version then Inr (Some current)
         else if \<not> list_ex (\<lambda>r. r_owner_id r = owner \<and> r_id r = mid) (seen_memories ses tb) then Inr None
         else (case find (\<lambda>v. v_memory_id v = mid \<and> v_version v = version) (seen_versions ses tb) of
             None \<Rightarrow> Inr None
           | Some row \<Rightarrow> res_bind (version_from_row env ses row) (\<lambda>snapshot.
               res_bind (as_domain (memory_post_init (replace_with_snapshot current snapshot))) (\<lambda>m. Inr (Some m)))))"

definition key_rows :: "PgSession \<Rightarrow> uuid option \<Rightarrow> string \<Rightarrow> string \<Rightarrow> PgTables \<Rightarrow> MemoriesRow option" where
  "key_rows ses bound owner key tb = find (\<lambda>r. r_owner_id r = owner \<and> r_idempotency_key r = Some key \<and>
     bound_to bound (r_tenant_id r)) (seen_memories ses tb)"

text \<open>The stored memory with its fingerprint, which a row may lack.\<close>

definition pg_find_by_idempotency_key ::
  "PgEnv \<Rightarrow> PgSession \<Rightarrow> string \<Rightarrow> string \<Rightarrow> (Memory \<times> string option) option pg_read" where
  "pg_find_by_idempotency_key env ses owner key tb =
     res_bind (pg_assert_owner ses owner) (\<lambda>bound.
     case key_rows ses bound owner key tb of
       None \<Rightarrow> Inr None
     | Some r \<Rightarrow> res_bind (memory_from_row env ses r) (\<lambda>m. Inr (Some (m, r_fingerprint r))))"

section \<open>Audit\<close>

text \<open>The principal is the subject of an owner text of the bound tenant, and absent for any other text.\<close>

definition audit_principal :: "uuid \<Rightarrow> string \<Rightarrow> uuid option" where
  "audit_principal tenant owner = (case split_max (CHR '':'') 2 owner of
     [pre, t, subject] \<Rightarrow> if pre = ''cloud'' \<and> uuid_parse t = Some tenant then uuid_parse subject else None
   | _ \<Rightarrow> None)"

definition pg_audit :: "PgEnv \<Rightarrow> PgSession \<Rightarrow> string \<Rightarrow> string \<Rightarrow> uuid \<Rightarrow> unit pg_act" where
  "pg_audit env ses action owner mid = (case ps_tenant ses of
     None \<Rightarrow> act_return ()
   | Some tenant \<Rightarrow>
       act_bind (row_allowed True (tenant_policy ses tenant) True) (\<lambda>_ tb.
       if list_ex (\<lambda>a. a_id a = pe_uuid4 env 0) (tb_audit tb) \<or> tenant \<notin> tb_tenants tb
       then (Inl PgIntegrityError, tb)
       else (Inr (), tb\<lparr>tb_audit := tb_audit tb @
         [\<lparr>a_id = pe_uuid4 env 0, a_tenant_id = tenant, a_principal_id = audit_principal tenant owner,
           a_action = action, a_receipt_id = pe_uuid4 env 1, a_created_at = te_now (pe_text env),
           a_metadata = JObj [(''memory_id'', JStr (uuid_str mid))]\<rparr>]\<rparr>)))"

section \<open>Writing memories\<close>

text \<open>An \<open>IntegrityError\<close> caught and raised again as a domain error.\<close>

definition integrity_as :: "error \<Rightarrow> 'a pg_act \<Rightarrow> 'a pg_act" where
  "integrity_as e m tb = (case m tb of
     (Inl PgIntegrityError, tb') \<Rightarrow> (Inl (PgDomain e), tb')
   | r \<Rightarrow> r)"

definition pg_create :: "PgEnv \<Rightarrow> PgSession \<Rightarrow> Memory \<Rightarrow> string \<Rightarrow> pyfloat list \<Rightarrow> CreateMemoryResult pg_act" where
  "pg_create env ses m fingerprint vec =
     act_bind (act_res (pg_assert_owner ses (m_owner_id m))) (\<lambda>_.
     act_bind (act_res (memory_values env ses m (Some fingerprint))) (\<lambda>r.
     act_bind (integrity_as IdempotencyConflictError
       (insert_memories ses (if py_truthy (m_idempotency_key m) then OnKey else NoTarget) r)) (\<lambda>inserted.
     if \<not> inserted then
       act_bind (act_getr (pg_find_by_idempotency_key env ses (m_owner_id m)
         (case m_idempotency_key m of None \<Rightarrow> [] | Some k \<Rightarrow> k))) (\<lambda>prior.
       case prior of
         None \<Rightarrow> act_raise (PgDomain IdempotencyConflictError)
       | Some (pm, fp) \<Rightarrow>
           if fp \<noteq> Some fingerprint then act_raise (PgDomain IdempotencyConflictError)
           else act_return \<lparr>cr_memory = pm, cr_created = False\<rparr>)
     else
       act_bind (act_res (embedding_table (memory_dimension m))) (\<lambda>t.
       act_bind (act_res (embedding_values env ses m vec)) (\<lambda>x.
       act_bind (insert_embedding ses t x) (\<lambda>_.
       act_bind (act_res (version_values env ses (memory_snapshot m ''created''))) (\<lambda>v.
       act_bind (insert_version ses v) (\<lambda>_.
       act_bind (pg_audit env ses ''memory.write'' (m_owner_id m) (m_id m)) (\<lambda>_.
       act_return \<lparr>cr_memory = m, cr_created = True\<rparr>)))))))))"

text \<open>\<open>UPDATE memories\<close> keeps the immutable columns and touches at most the row of the identifier.\<close>

definition keep_immutable :: "MemoriesRow \<Rightarrow> MemoriesRow \<Rightarrow> MemoriesRow" where
  "keep_immutable old new = new\<lparr>r_id := r_id old, r_owner_id := r_owner_id old, r_created_at := r_created_at old,
     r_idempotency_key := r_idempotency_key old, r_fingerprint := r_fingerprint old\<rparr>"

definition update_hits :: "PgSession \<Rightarrow> Memory \<Rightarrow> int \<Rightarrow> MemoriesRow \<Rightarrow> bool" where
  "update_hits ses m expected_version r \<longleftrightarrow> policy ses (r_tenant_id r) \<and> r_id r = m_id m \<and>
     r_owner_id r = m_owner_id m \<and> r_version r = expected_version"

definition update_memories :: "PgSession \<Rightarrow> Memory \<Rightarrow> int \<Rightarrow> MemoriesRow \<Rightarrow> bool pg_act" where
  "update_memories ses m expected_version new tb = (case find (update_hits ses m expected_version) (tb_memories tb) of
     None \<Rightarrow> (Inr False, tb)
   | Some old \<Rightarrow>
       act_bind (row_allowed (memories_fits (keep_immutable old new)) (policy ses (r_tenant_id new))
         (memories_check (keep_immutable old new))) (\<lambda>_ tb.
       if \<not> tenant_known tb (r_tenant_id new) then (Inl PgIntegrityError, tb)
       else (Inr True, tb\<lparr>tb_memories := map (\<lambda>r. if update_hits ses m expected_version r then keep_immutable r new else r)
               (tb_memories tb)\<rparr>)) tb)"

definition pg_update ::
  "PgEnv \<Rightarrow> PgSession \<Rightarrow> Memory \<Rightarrow> int \<Rightarrow> MemoryVersion \<Rightarrow> pyfloat list \<Rightarrow> Memory pg_act" where
  "pg_update env ses m expected_version snapshot vec =
     act_bind (act_res (pg_assert_owner ses (m_owner_id m))) (\<lambda>_.
     act_bind (act_res (memory_values env ses m None)) (\<lambda>new.
     act_bind (update_memories ses m expected_version new) (\<lambda>updated.
     if \<not> updated then
       act_bind (act_getr (pg_get env ses (m_owner_id m) (m_id m))) (\<lambda>current.
       act_raise (PgDomain (if current = None then NotFoundError else VersionConflictError)))
     else
       act_bind (act_res (version_values env ses snapshot)) (\<lambda>v.
       act_bind (insert_version ses v) (\<lambda>_.
       act_bind (act_res (embedding_table (memory_dimension m))) (\<lambda>t.
       act_bind (act_res (embedding_values env ses m vec)) (\<lambda>x.
       act_bind (update_embedding ses t x) (\<lambda>_.
       act_bind (pg_audit env ses ''memory.update'' (m_owner_id m) (m_id m)) (\<lambda>_.
       act_return m)))))))))"

section \<open>Searching and listing\<close>

definition row_matches :: "SearchFilters \<Rightarrow> MemoriesRow \<Rightarrow> bool" where
  "row_matches filters r \<longleftrightarrow> r_state r \<in> memory_state_value ` sf_states filters \<and>
     (case sf_memory_types filters of None \<Rightarrow> True | Some ts \<Rightarrow> ts = {} \<or> r_memory_type r \<in> memory_type_value ` ts) \<and>
     (sf_space filters = None \<or> r_space r = sf_space filters) \<and>
     (case sf_min_importance filters of None \<Rightarrow> True | Some x \<Rightarrow> x \<le> r_importance r) \<and>
     (case sf_min_confidence filters of None \<Rightarrow> True | Some x \<Rightarrow> x \<le> r_confidence r)"

definition vector_matches :: "EmbeddingProfile \<Rightarrow> MemoriesRow \<Rightarrow> EmbeddingRow \<Rightarrow> bool" where
  "vector_matches profile r x \<longleftrightarrow> x_memory_id x = r_id r \<and> x_profile_id x = ep_id profile \<and>
     x_profile_version x = ep_version profile \<and> (ep_dimension profile = 384 \<longrightarrow> x_source_version x = Some (r_version r)) \<and>
     x_dimension x = ep_dimension profile"

definition search_rows ::
  "PgEnv \<Rightarrow> PgSession \<Rightarrow> uuid option \<Rightarrow> vector_table \<Rightarrow> string \<Rightarrow> pyfloat list \<Rightarrow> EmbeddingProfile \<Rightarrow> SearchFilters \<Rightarrow>
     PgTables \<Rightarrow> (MemoriesRow \<times> pyfloat) list" where
  "search_rows env ses bound t owner query profile filters tb =
     concat (map (\<lambda>r. map (\<lambda>x. (r, pe_similarity env (x_vector x) (map (pe_float4 env) query)))
         (filter (\<lambda>x. policy ses (x_tenant_id x) \<and> vector_matches profile r x) (table_rows t tb)))
       (filter (\<lambda>r. r_owner_id r = owner \<and> bound_to bound (r_tenant_id r) \<and> row_matches filters r) (seen_memories ses tb)))"

definition pg_search_candidates ::
  "PgEnv \<Rightarrow> PgSession \<Rightarrow> string \<Rightarrow> pyfloat list \<Rightarrow> EmbeddingProfile \<Rightarrow> SearchFilters \<Rightarrow> int \<Rightarrow>
     MemorySearchCandidate list pg_read" where
  "pg_search_candidates env ses owner query profile filters limit tb =
     res_bind (pg_assert_owner ses owner) (\<lambda>bound.
     res_bind (embedding_table (ep_dimension profile)) (\<lambda>t.
     res_bind (res_guard (0 \<le> limit \<and> length query = vector_length t) PgDataError) (\<lambda>_.
     res_map (\<lambda>(r, similarity). res_bind (memory_from_row env ses r) (\<lambda>m.
         Inr \<lparr>sc_memory = m, sc_similarity = similarity, sc_profile = profile\<rparr>))
       (take (nat limit) (sort_key (\<lambda>(r, similarity). (- similarity, r_id r))
         (search_rows env ses bound t owner query profile filters tb))))))"

definition pg_list_candidates :: "PgEnv \<Rightarrow> PgSession \<Rightarrow> string \<Rightarrow> string option \<Rightarrow> int \<Rightarrow> Memory list pg_read" where
  "pg_list_candidates env ses owner space limit tb =
     res_bind (pg_assert_owner ses owner) (\<lambda>bound.
     res_bind (res_guard (0 \<le> limit) PgDataError) (\<lambda>_.
     res_map (memory_from_row env ses)
       (take (nat limit) (sort_key (\<lambda>r. (dt_instant (r_created_at r), r_id r))
         (filter (\<lambda>r. r_owner_id r = owner \<and> r_state r = memory_state_value CANDIDATE \<and>
            bound_to bound (r_tenant_id r) \<and> (space = None \<or> r_space r = space)) (seen_memories ses tb))))))"

section \<open>Forgetting\<close>

text \<open>\<open>ON DELETE CASCADE\<close>: the rows that refer to a deleted memory.\<close>

definition cascade_delete :: "MemoriesRow \<Rightarrow> PgTables \<Rightarrow> PgTables" where
  "cascade_delete r tb = tb
     \<lparr>tb_memories := filter (\<lambda>x. r_id x \<noteq> r_id r) (tb_memories tb),
      tb_versions := filter (\<lambda>v. v_memory_id v \<noteq> r_id r) (tb_versions tb),
      tb_embeddings := filter (\<lambda>x. x_memory_id x \<noteq> r_id r) (tb_embeddings tb),
      tb_semantic := filter (\<lambda>x. x_memory_id x \<noteq> r_id r) (tb_semantic tb),
      tb_relations := filter (\<lambda>q. \<not> (q_owner_id q = r_owner_id r \<and> (q_source_id q = r_id r \<or> q_target_id q = r_id r)))
        (tb_relations tb)\<rparr>"

definition insert_tombstone :: "PgSession \<Rightarrow> TombstoneRow \<Rightarrow> unit pg_act" where
  "insert_tombstone ses t =
     act_bind (row_allowed (varchar 256 (t_owner_id t)) (policy ses (t_tenant_id t)) (trim_nonempty (t_owner_id t))) (\<lambda>_ tb.
     if list_ex (\<lambda>x. t_owner_id x = t_owner_id t \<and> t_memory_id x = t_memory_id t) (tb_tombstones tb) then (Inr (), tb)
     else if \<not> tenant_known tb (t_tenant_id t) then (Inl PgIntegrityError, tb)
     else (Inr (), tb\<lparr>tb_tombstones := tb_tombstones tb @ [t]\<rparr>))"

definition insert_deletion :: "PgSession \<Rightarrow> DeletionRow \<Rightarrow> unit pg_act" where
  "insert_deletion ses d =
     act_bind (row_allowed True (tenant_policy ses (d_tenant_id d)) True) (\<lambda>_ tb.
     if list_ex (\<lambda>x. d_id x = d_id d) (tb_deletions tb) \<or> d_tenant_id d \<notin> tb_tenants tb then (Inl PgIntegrityError, tb)
     else (Inr (), tb\<lparr>tb_deletions := tb_deletions tb @ [d]\<rparr>))"

definition pg_forget :: "PgEnv \<Rightarrow> PgSession \<Rightarrow> string \<Rightarrow> uuid \<Rightarrow> bool pg_act" where
  "pg_forget env ses owner mid =
     act_bind (act_res (pg_assert_owner ses owner)) (\<lambda>bound.
     act_bind (act_gets (\<lambda>tb. find (\<lambda>r. r_owner_id r = owner \<and> r_id r = mid \<and> bound_to bound (r_tenant_id r))
       (seen_memories ses tb))) (\<lambda>found.
     case found of
       None \<Rightarrow> act_return False
     | Some r \<Rightarrow>
         act_bind (act_modify (cascade_delete r)) (\<lambda>_.
         act_bind (insert_tombstone ses
           \<lparr>t_owner_id = owner, t_tenant_id = ps_tenant ses, t_memory_id = mid,
            t_deleted_at = te_now (pe_text env), t_reason = ''memory.forget''\<rparr>) (\<lambda>_.
         case ps_tenant ses of
           None \<Rightarrow> act_return True
         | Some tenant \<Rightarrow>
             act_bind (insert_deletion ses
               \<lparr>d_id = pe_uuid4 env 2, d_tenant_id = tenant, d_memory_id = Some mid, d_subject_id = None,
                d_deleted_at = te_now (pe_text env), d_reason = ''memory.forget''\<rparr>) (\<lambda>_.
             act_bind (pg_audit env ses ''memory.forget'' owner mid) (\<lambda>_.
             act_return True))))))"

section \<open>Relations and history\<close>

definition relation_values :: "PgSession \<Rightarrow> Relation \<Rightarrow> RelationRow" where
  "relation_values ses r = \<lparr>q_owner_id = rel_owner_id r, q_tenant_id = ps_tenant ses, q_source_id = rel_source_id r,
     q_target_id = rel_target_id r, q_relation_type = relation_type_value (rel_type r),
     q_created_at = astimezone_utc (rel_created_at r)\<rparr>"

definition same_edge :: "RelationRow \<Rightarrow> RelationRow \<Rightarrow> bool" where
  "same_edge q x \<longleftrightarrow> q_owner_id x = q_owner_id q \<and> q_source_id x = q_source_id q \<and> q_target_id x = q_target_id q \<and>
     q_relation_type x = q_relation_type q"

definition endpoint_known :: "PgTables \<Rightarrow> RelationRow \<Rightarrow> uuid \<Rightarrow> bool" where
  "endpoint_known tb q mid \<longleftrightarrow> list_ex (\<lambda>r. r_owner_id r = q_owner_id q \<and> r_id r = mid \<and>
     (q_tenant_id q = None \<or> r_tenant_id r = q_tenant_id q)) (tb_memories tb)"

text \<open>The flag selects \<open>ON CONFLICT DO NOTHING\<close> on the edge.\<close>

definition insert_relation :: "PgSession \<Rightarrow> bool \<Rightarrow> RelationRow \<Rightarrow> unit pg_act" where
  "insert_relation ses ignore q =
     act_bind (row_allowed (varchar 256 (q_owner_id q)) (policy ses (q_tenant_id q)) (q_source_id q \<noteq> q_target_id q)) (\<lambda>_ tb.
     if list_ex (same_edge q) (tb_relations tb) then (if ignore then (Inr (), tb) else (Inl PgIntegrityError, tb))
     else if \<not> endpoint_known tb q (q_source_id q) \<or> \<not> endpoint_known tb q (q_target_id q)
     then (Inl PgIntegrityError, tb)
     else (Inr (), tb\<lparr>tb_relations := tb_relations tb @ [q]\<rparr>))"

definition pg_add_relation :: "PgEnv \<Rightarrow> PgSession \<Rightarrow> Relation \<Rightarrow> Relation pg_act" where
  "pg_add_relation env ses relation =
     act_bind (act_res (pg_assert_owner ses (rel_owner_id relation))) (\<lambda>_.
     act_bind (act_getr (pg_get env ses (rel_owner_id relation) (rel_source_id relation))) (\<lambda>source.
     act_bind (act_getr (pg_get env ses (rel_owner_id relation) (rel_target_id relation))) (\<lambda>target.
     act_bind (act_guard (source \<noteq> None \<and> target \<noteq> None) (PgDomain NotFoundError)) (\<lambda>_.
     act_bind (integrity_as RelationConflictError (insert_relation ses False (relation_values ses relation))) (\<lambda>_.
     act_return relation)))))"

definition pg_list_relations :: "PgSession \<Rightarrow> string \<Rightarrow> uuid \<Rightarrow> Relation list pg_read" where
  "pg_list_relations ses owner mid tb =
     res_bind (pg_assert_owner ses owner) (\<lambda>bound.
     res_map relation_from_row (filter (\<lambda>q. policy ses (q_tenant_id q) \<and> q_owner_id q = owner \<and>
       (q_source_id q = mid \<or> q_target_id q = mid) \<and> bound_to bound (q_tenant_id q)) (tb_relations tb)))"

definition pg_history :: "PgEnv \<Rightarrow> PgSession \<Rightarrow> string \<Rightarrow> uuid \<Rightarrow> MemoryVersion list pg_read" where
  "pg_history env ses owner mid tb =
     res_bind (pg_assert_owner ses owner) (\<lambda>bound.
     res_bind (pg_get env ses owner mid tb) (\<lambda>current.
     res_bind (res_guard (current \<noteq> None) (PgDomain NotFoundError)) (\<lambda>_.
     res_map (version_from_row env ses)
       (sort_key v_version (filter (\<lambda>v. v_memory_id v = mid \<and> bound_to bound (v_tenant_id v) \<and>
          list_ex (\<lambda>r. r_owner_id r = owner \<and> r_id r = v_memory_id v) (seen_memories ses tb)) (seen_versions ses tb))))))"

section \<open>Key rotation\<close>

definition rewrap_memory :: "PgEnv \<Rightarrow> PgSession \<Rightarrow> int \<Rightarrow> MemoriesRow \<Rightarrow> MemoriesRow pg_result" where
  "rewrap_memory env ses key r =
     (if ps_tenant ses = r_tenant_id r \<and> policy ses (r_tenant_id r) \<and> r_content_ciphertext r \<noteq> None
      then res_bind (memory_from_row env ses r) (\<lambda>m.
           res_bind (cloud_fields env ses ''memories'' (m_id m) (m_version m) (m_content m) (m_provenance m) key) (\<lambda>f.
           if memories_fits (set_cloud_fields f r) then Inr (set_cloud_fields f r) else Inl PgDataError))
      else Inr r)"

definition rewrap_version :: "PgEnv \<Rightarrow> PgSession \<Rightarrow> int \<Rightarrow> VersionRow \<Rightarrow> VersionRow pg_result" where
  "rewrap_version env ses key v =
     (if ps_tenant ses = v_tenant_id v \<and> policy ses (v_tenant_id v) \<and> v_content_ciphertext v \<noteq> None
      then res_bind (version_from_row env ses v) (\<lambda>mv.
           res_bind (cloud_fields env ses ''memory_versions'' (mv_memory_id mv) (mv_version mv) (mv_content mv) (mv_provenance mv) key) (\<lambda>f.
           if versions_fits (set_version_fields f v) then Inr (set_version_fields f v) else Inl PgDataError))
      else Inr v)"

text \<open>
  \<open>rewrap_envelopes\<close>: every encrypted row of the bound tenant is read and written again under the new key
  version. The keys of the two tables are unique, so each update touches the row it was read from.
\<close>

definition pg_rewrap_envelopes :: "PgEnv \<Rightarrow> PgSession \<Rightarrow> int \<Rightarrow> nat pg_act" where
  "pg_rewrap_envelopes env ses key =
     act_bind (act_guard (ps_tenant ses \<noteq> None) PgTenantContextError) (\<lambda>_.
     act_bind (act_guard (pe_encryptor env \<noteq> None) PgTenantContextError) (\<lambda>_.
     act_bind (act_guard (\<not> key < 1) (PgDomain PyValueError)) (\<lambda>_.
     act_bind (act_getr (\<lambda>tb. res_map (rewrap_memory env ses key) (tb_memories tb))) (\<lambda>rows.
     act_bind (act_gets (\<lambda>tb. length (filter (\<lambda>r. r_tenant_id r = ps_tenant ses \<and> r_content_ciphertext r \<noteq> None)
       (seen_memories ses tb)))) (\<lambda>migrated.
     act_bind (act_modify (\<lambda>tb. tb\<lparr>tb_memories := rows\<rparr>)) (\<lambda>_.
     act_bind (act_getr (\<lambda>tb. res_map (rewrap_version env ses key) (tb_versions tb))) (\<lambda>versions.
     act_bind (act_modify (\<lambda>tb. tb\<lparr>tb_versions := versions\<rparr>)) (\<lambda>_.
     act_return migrated))))))))"

section \<open>Idempotency operations\<close>

definition same_operation :: "string \<Rightarrow> string \<Rightarrow> string \<Rightarrow> OperationRow \<Rightarrow> bool" where
  "same_operation owner optype key p \<longleftrightarrow> o_owner_id p = owner \<and> o_operation_type p = optype \<and> o_idempotency_key p = key"

definition select_operation :: "PgSession \<Rightarrow> string \<Rightarrow> string \<Rightarrow> string \<Rightarrow> PgTables \<Rightarrow> OperationRow option" where
  "select_operation ses owner optype key tb =
     find (\<lambda>p. policy ses (o_tenant_id p) \<and> same_operation owner optype key p) (tb_operations tb)"

definition insert_operation :: "PgSession \<Rightarrow> OperationRow \<Rightarrow> bool pg_act" where
  "insert_operation ses p =
     act_bind (row_allowed (operations_fits p) (policy ses (o_tenant_id p)) (operations_check p)) (\<lambda>_ tb.
     if list_ex (same_operation (o_owner_id p) (o_operation_type p) (o_idempotency_key p)) (tb_operations tb)
     then (Inr False, tb)
     else if \<not> tenant_known tb (o_tenant_id p) then (Inl PgIntegrityError, tb)
     else (Inr True, tb\<lparr>tb_operations := tb_operations tb @ [p]\<rparr>))"

text \<open>The claim of an operation that a row records: a replay of a completed one, or an error.\<close>

definition claim_of_row :: "IdempotencyClaim \<Rightarrow> OperationRow option \<Rightarrow> IdempotencyClaim pg_result" where
  "claim_of_row claim row = (case row of
     None \<Rightarrow> Inl (PgDomain IdempotencyConflictError)
   | Some p \<Rightarrow>
       if o_fingerprint p \<noteq> ic_fingerprint claim then Inl (PgDomain IdempotencyConflictError)
       else if o_status p \<noteq> ''completed'' then Inl (PgDomain IdempotencyInProgressError)
       else Inr (claim\<lparr>ic_replay := True, ic_memory_id := o_memory_id p, ic_result_version := o_result_version p,
                   ic_result_status := o_result_status p\<rparr>))"

definition pg_claim ::
  "PgEnv \<Rightarrow> PgSession \<Rightarrow> string \<Rightarrow> IdempotencyOperationType \<Rightarrow> string \<Rightarrow> string \<Rightarrow> IdempotencyClaim pg_act" where
  "pg_claim env ses owner optype key fingerprint =
     (let claim = \<lparr>ic_owner_id = owner, ic_operation_type = optype, ic_idempotency_key = key,
            ic_fingerprint = fingerprint, ic_replay = False, ic_memory_id = None, ic_result_version = None,
            ic_result_status = None\<rparr>;
          select = act_gets (select_operation ses owner (operation_type_value optype) key)
      in act_bind select (\<lambda>row.
         case row of
           Some p \<Rightarrow> act_res (claim_of_row claim row)
         | None \<Rightarrow>
             act_bind (insert_operation ses
               \<lparr>o_owner_id = owner, o_tenant_id = ps_tenant ses, o_operation_type = operation_type_value optype,
                o_idempotency_key = key, o_fingerprint = fingerprint, o_status = ''in_progress'', o_memory_id = None,
                o_result_version = None, o_result_status = None, o_claimed_at = te_now (pe_text env),
                o_completed_at = None\<rparr>) (\<lambda>inserted.
             if inserted then act_return claim
             else act_bind select (\<lambda>row. act_res (claim_of_row claim row)))))"

definition completable :: "PgSession \<Rightarrow> IdempotencyClaim \<Rightarrow> OperationRow \<Rightarrow> bool" where
  "completable ses claim p \<longleftrightarrow> policy ses (o_tenant_id p) \<and>
     same_operation (ic_owner_id claim) (operation_type_value (ic_operation_type claim)) (ic_idempotency_key claim) p \<and>
     o_fingerprint p = ic_fingerprint claim \<and> o_status p = ''in_progress''"

definition pg_complete ::
  "PgEnv \<Rightarrow> PgSession \<Rightarrow> IdempotencyClaim \<Rightarrow> uuid option \<Rightarrow> int option \<Rightarrow> string \<Rightarrow> unit pg_act" where
  "pg_complete env ses claim mid result_version result_status tb =
     (let new = (\<lambda>p. p\<lparr>o_status := ''completed'', o_memory_id := mid, o_result_version := result_version,
            o_result_status := Some result_status, o_completed_at := Some (te_now (pe_text env))\<rparr>)
      in case find (completable ses claim) (tb_operations tb) of
           None \<Rightarrow> (Inl (PgDomain IdempotencyConflictError), tb)
         | Some p \<Rightarrow>
             if \<not> operations_fits (new p) then (Inl PgDataError, tb)
             else (Inr (), tb\<lparr>tb_operations := map (\<lambda>p. if completable ses claim p then new p else p) (tb_operations tb)\<rparr>))"

section \<open>Administrative repository\<close>

definition pg_is_tombstoned :: "PgSession \<Rightarrow> string \<Rightarrow> uuid \<Rightarrow> bool pg_read" where
  "pg_is_tombstoned ses owner mid tb =
     res_bind (pg_assert_owner ses owner) (\<lambda>bound.
     Inr (list_ex (\<lambda>t. policy ses (t_tenant_id t) \<and> t_owner_id t = owner \<and> t_memory_id t = mid \<and>
       bound_to bound (t_tenant_id t)) (tb_tombstones tb)))"

definition exported_vector :: "PgSession \<Rightarrow> bool \<Rightarrow> Memory \<Rightarrow> pyfloat list option pg_read" where
  "exported_vector ses include_embeddings m tb =
     (if \<not> include_embeddings then Inr None
      else case m_embedding m of
        None \<Rightarrow> Inl (PgDomain PyValueError)
      | Some e \<Rightarrow> res_bind (embedding_table (ed_dimension e)) (\<lambda>t.
          Inr (map_option x_vector (find (\<lambda>x. policy ses (x_tenant_id x) \<and> x_memory_id x = m_id m) (table_rows t tb)))))"

definition pg_export_memory :: "PgEnv \<Rightarrow> PgSession \<Rightarrow> string \<Rightarrow> uuid \<Rightarrow> bool \<Rightarrow> MemoryExportRecord option pg_read" where
  "pg_export_memory env ses owner mid include_embeddings tb =
     res_bind (pg_assert_owner ses owner) (\<lambda>bound.
     case find (\<lambda>r. r_owner_id r = owner \<and> r_id r = mid \<and> bound_to bound (r_tenant_id r)) (seen_memories ses tb) of
       None \<Rightarrow> Inr None
     | Some r \<Rightarrow>
         res_bind (memory_from_row env ses r) (\<lambda>m.
         res_bind (exported_vector ses include_embeddings m tb) (\<lambda>vec.
         res_bind (pg_history env ses owner mid tb) (\<lambda>history.
         res_bind (pg_list_relations ses owner mid tb) (\<lambda>relations.
         Inr (Some \<lparr>xr_memory = m, xr_history = history, xr_relations = relations, xr_embedding = vec,
           xr_write_fingerprint = r_fingerprint r\<rparr>))))))"

definition pg_export_memories :: "PgEnv \<Rightarrow> PgSession \<Rightarrow> string \<Rightarrow> bool \<Rightarrow> MemoryExportRecord list pg_read" where
  "pg_export_memories env ses owner include_embeddings tb =
     res_bind (pg_assert_owner ses owner) (\<lambda>bound.
     res_bind (res_map (\<lambda>r. pg_export_memory env ses owner (r_id r) include_embeddings tb)
       (sort_key r_id (filter (\<lambda>r. r_owner_id r = owner \<and> bound_to bound (r_tenant_id r)) (seen_memories ses tb)))) (\<lambda>records.
     Inr (List.map_filter id records)))"

text \<open>
  The vector and the history of a new memory. An insert of no rows at all is rejected by the columns that
  must not be null, so an empty history is an integrity error too.
\<close>

definition import_parts :: "PgEnv \<Rightarrow> PgSession \<Rightarrow> MemoryImportRecord \<Rightarrow> pyfloat list \<Rightarrow> unit pg_act" where
  "import_parts env ses record vec =
     act_bind (act_res (embedding_table (memory_dimension (xr_memory record)))) (\<lambda>t.
     act_bind (act_res (embedding_values env ses (xr_memory record) vec)) (\<lambda>x.
     act_bind (insert_embedding ses t x) (\<lambda>_.
     act_bind (act_res (res_map (version_values env ses) (xr_history record))) (\<lambda>versions.
     act_bind (act_guard (versions \<noteq> []) PgIntegrityError) (\<lambda>_.
     act_iter (insert_version ses) versions)))))"

definition pg_import_one :: "PgEnv \<Rightarrow> PgSession \<Rightarrow> MemoryImportRecord \<Rightarrow> bool pg_act" where
  "pg_import_one env ses record =
     (let m = xr_memory record in
     act_bind (act_res (pg_assert_owner ses (m_owner_id m))) (\<lambda>_.
     act_bind (act_getr (pg_is_tombstoned ses (m_owner_id m) (m_id m))) (\<lambda>dead.
     act_bind (act_guard (\<not> dead) (PgDomain RestoreBlockedByTombstoneError)) (\<lambda>_.
     act_bind (act_res (memory_values env ses m (xr_write_fingerprint record))) (\<lambda>r.
     act_bind (integrity_as ImportConflictError (insert_memories ses OnId r)) (\<lambda>inserted.
     if \<not> inserted then
       act_bind (act_getr (pg_get env ses (m_owner_id m) (m_id m))) (\<lambda>current.
       act_bind (act_guard (case current of None \<Rightarrow> False | Some c \<Rightarrow> memory_eq c m) (PgDomain ImportConflictError)) (\<lambda>_.
       act_return False))
     else (case xr_embedding record of
         None \<Rightarrow> act_raise (PgDomain ImportConflictError)
       | Some vec \<Rightarrow>
           act_bind (integrity_as ImportConflictError (import_parts env ses record vec)) (\<lambda>_.
           act_return True))))))))"

fun pg_import_records :: "PgEnv \<Rightarrow> PgSession \<Rightarrow> MemoryImportRecord list \<Rightarrow> nat \<Rightarrow> nat \<Rightarrow> ImportResult pg_act" where
  "pg_import_records env ses [] imported replayed = act_return \<lparr>im_imported = imported, im_replayed = replayed\<rparr>"
| "pg_import_records env ses (record # rest) imported replayed =
     act_bind (pg_import_one env ses record) (\<lambda>new.
     if new then pg_import_records env ses rest (imported + 1) replayed
     else pg_import_records env ses rest imported (replayed + 1))"

text \<open>The second loop skips an edge that an earlier record of the import has named.\<close>

fun new_edges :: "rel_key set \<Rightarrow> Relation list \<Rightarrow> Relation list" where
  "new_edges seen [] = []"
| "new_edges seen (r # rs) =
     (if relation_key r \<in> seen then new_edges seen rs else r # new_edges (insert (relation_key r) seen) rs)"

definition pg_import_memories :: "PgEnv \<Rightarrow> PgSession \<Rightarrow> MemoryImportRecord list \<Rightarrow> ImportResult pg_act" where
  "pg_import_memories env ses items =
     act_bind (pg_import_records env ses items 0 0) (\<lambda>result.
     act_bind (act_iter (\<lambda>r. insert_relation ses True (relation_values ses r))
       (new_edges {} (concat (map xr_relations items)))) (\<lambda>_.
     act_return result))"

section \<open>Unit of work\<close>

text \<open>
  Outside community mode the transaction sets the tenant of the policy from the request and refuses to
  start without one. An exception in the body rolls every statement back.
\<close>

definition pg_unit_of_work :: "PgSession \<Rightarrow> 'a pg_act \<Rightarrow> 'a pg_act" where
  "pg_unit_of_work ses body =
     act_bind (act_guard (ps_community ses \<or> ps_tenant ses \<noteq> None) PgTenantContextError) (\<lambda>_. act_atomic body)"

end
