(* ===== verification/Postgres_Invariant.thy ===== *)
theory Postgres_Invariant
  imports Postgres_Store Store_Interfaces
begin

text \<open>
  The invariant of the tables: identifiers are unique, every row that refers to a memory refers to a stored
  one of its tenant, the owner of a row determines its tenant, and no memory with a tombstone is stored.
  Every statement keeps it, leaves the rows of other tenants as they are and keeps the tombstones.
\<close>

section \<open>The invariant\<close>

definition bound_owner :: "bool \<Rightarrow> string \<Rightarrow> uuid option \<Rightarrow> bool" where
  "bound_owner c owner t \<longleftrightarrow> (if c then t = None else \<exists>u. t = Some u \<and> pg_owner_tenant owner = Inr u)"

definition stored_for :: "PgTables \<Rightarrow> uuid \<Rightarrow> uuid option \<Rightarrow> bool" where
  "stored_for tb mid t \<longleftrightarrow> (\<exists>r\<in>set (tb_memories tb). r_id r = mid \<and> r_tenant_id r = t)"

definition row_owned :: "PgTables \<Rightarrow> string \<Rightarrow> uuid \<Rightarrow> uuid option \<Rightarrow> bool" where
  "row_owned tb owner mid t \<longleftrightarrow> (\<exists>r\<in>set (tb_memories tb). r_owner_id r = owner \<and> r_id r = mid \<and> r_tenant_id r = t)"

definition memories_ok :: "bool \<Rightarrow> PgTables \<Rightarrow> bool" where
  "memories_ok c tb \<longleftrightarrow> distinct (map r_id (tb_memories tb)) \<and>
     (\<forall>r\<in>set (tb_memories tb). bound_owner c (r_owner_id r) (r_tenant_id r) \<and> memories_fits r \<and> memories_check r)"

definition keys_ok :: "PgTables \<Rightarrow> bool" where
  "keys_ok tb \<longleftrightarrow> (\<forall>r\<in>set (tb_memories tb). \<forall>x\<in>set (tb_memories tb). same_key r x \<longrightarrow> r_id x = r_id r)"

definition references_ok :: "PgTables \<Rightarrow> bool" where
  "references_ok tb \<longleftrightarrow>
     (\<forall>v\<in>set (tb_versions tb). stored_for tb (v_memory_id v) (v_tenant_id v)) \<and>
     (\<forall>x\<in>set (tb_embeddings tb). stored_for tb (x_memory_id x) (x_tenant_id x)) \<and>
     (\<forall>x\<in>set (tb_semantic tb). stored_for tb (x_memory_id x) (x_tenant_id x)) \<and>
     (\<forall>q\<in>set (tb_relations tb). row_owned tb (q_owner_id q) (q_source_id q) (q_tenant_id q) \<and>
        row_owned tb (q_owner_id q) (q_target_id q) (q_tenant_id q))"

definition tombstoned :: "PgTables \<Rightarrow> string \<Rightarrow> uuid \<Rightarrow> bool" where
  "tombstoned tb owner mid \<longleftrightarrow> (\<exists>t\<in>set (tb_tombstones tb). t_owner_id t = owner \<and> t_memory_id t = mid)"

definition ledger_ok :: "bool \<Rightarrow> PgTables \<Rightarrow> bool" where
  "ledger_ok c tb \<longleftrightarrow> (\<forall>t\<in>set (tb_tombstones tb). bound_owner c (t_owner_id t) (t_tenant_id t)) \<and>
     (\<forall>r\<in>set (tb_memories tb). \<not> tombstoned tb (r_owner_id r) (r_id r))"

definition tables_ok :: "bool \<Rightarrow> PgTables \<Rightarrow> bool" where
  "tables_ok c tb \<longleftrightarrow> memories_ok c tb \<and> keys_ok tb \<and> references_ok tb \<and> ledger_ok c tb"

definition empty_tables :: "uuid set \<Rightarrow> PgTables" where
  "empty_tables tenants = \<lparr>tb_tenants = tenants, tb_memories = [], tb_versions = [], tb_embeddings = [], tb_semantic = [],
     tb_relations = [], tb_operations = [], tb_tombstones = [], tb_deletions = [], tb_audit = []\<rparr>"

lemma tables_ok_empty: "tables_ok c (empty_tables tenants)"
  by (simp add: tables_ok_def memories_ok_def keys_ok_def references_ok_def ledger_ok_def empty_tables_def)

text \<open>The rows that the policy does not show to a session.\<close>

definition foreign_rows where
  "foreign_rows ses tb =
     (filter (\<lambda>r. \<not> policy ses (r_tenant_id r)) (tb_memories tb), filter (\<lambda>v. \<not> policy ses (v_tenant_id v)) (tb_versions tb),
      filter (\<lambda>x. \<not> policy ses (x_tenant_id x)) (tb_embeddings tb), filter (\<lambda>x. \<not> policy ses (x_tenant_id x)) (tb_semantic tb),
      filter (\<lambda>q. \<not> policy ses (q_tenant_id q)) (tb_relations tb), filter (\<lambda>p. \<not> policy ses (o_tenant_id p)) (tb_operations tb),
      filter (\<lambda>t. \<not> policy ses (t_tenant_id t)) (tb_tombstones tb), filter (\<lambda>d. \<not> tenant_policy ses (d_tenant_id d)) (tb_deletions tb),
      filter (\<lambda>a. \<not> tenant_policy ses (a_tenant_id a)) (tb_audit tb))"

section \<open>Statements\<close>

lemma row_allowed_Inr [act_simps]:
  "row_allowed f p k tb = (Inr u, tb') \<longleftrightarrow> f \<and> p \<and> k \<and> tb' = tb"
  by (auto simp: row_allowed_def act_simps)

lemma integrity_as_Inr [act_simps]: "integrity_as e m tb = (Inr x, tb') \<longleftrightarrow> m tb = (Inr x, tb')"
  by (auto simp: integrity_as_def split: prod.splits sum.splits pg_error.splits)

lemma insert_memories_False: "insert_memories ses target r tb = (Inr False, tb') \<Longrightarrow> tb' = tb"
  by (auto simp: insert_memories_def act_simps split: if_splits)

lemma insert_memories_True:
  "insert_memories ses target r tb = (Inr True, tb') \<longleftrightarrow>
     memories_fits r \<and> memories_check r \<and> policy ses (r_tenant_id r) \<and> tenant_known tb (r_tenant_id r) \<and>
     (\<forall>x\<in>set (tb_memories tb). \<not> same_id r x \<and> \<not> same_key r x) \<and> tb' = tb\<lparr>tb_memories := tb_memories tb @ [r]\<rparr>"
  by (cases target) (auto simp: insert_memories_def act_simps list_ex_iff)

lemma insert_version_Inr [act_simps]:
  "insert_version ses v tb = (Inr u, tb') \<longleftrightarrow>
     versions_fits v \<and> versions_check v \<and> policy ses (v_tenant_id v) \<and>
     (\<forall>w\<in>set (tb_versions tb). \<not> (v_memory_id w = v_memory_id v \<and> v_version w = v_version v)) \<and>
     refers_to_memory tb (v_memory_id v) (v_tenant_id v) \<and> tb' = tb\<lparr>tb_versions := tb_versions tb @ [v]\<rparr>"
  by (auto simp: insert_version_def act_simps list_ex_iff)

lemma insert_embedding_Inr [act_simps]:
  "insert_embedding ses t x tb = (Inr u, tb') \<longleftrightarrow>
     embeddings_fits (vector_length t) x \<and> embedding_check t x \<and> policy ses (x_tenant_id x) \<and>
     (\<forall>y\<in>set (table_rows t tb). embedding_key t y \<noteq> embedding_key t x) \<and>
     refers_to_memory tb (x_memory_id x) (x_tenant_id x) \<and> tb' = set_table_rows t (table_rows t tb @ [x]) tb"
  by (auto simp: insert_embedding_def act_simps list_ex_iff)

lemma insert_relation_Inr:
  "insert_relation ses ignore q tb = (Inr u, tb') \<Longrightarrow>
     policy ses (q_tenant_id q) \<and> (tb' = tb \<or> endpoint_known tb q (q_source_id q) \<and> endpoint_known tb q (q_target_id q) \<and>
       tb' = tb\<lparr>tb_relations := tb_relations tb @ [q]\<rparr>)"
  by (auto simp: insert_relation_def act_simps split: if_splits)

lemma insert_tombstone_Inr:
  "insert_tombstone ses t tb = (Inr u, tb') \<Longrightarrow> policy ses (t_tenant_id t) \<and>
     (tb' = tb \<and> tombstoned tb (t_owner_id t) (t_memory_id t) \<or> tb' = tb\<lparr>tb_tombstones := tb_tombstones tb @ [t]\<rparr>)"
  by (auto simp: insert_tombstone_def act_simps list_ex_iff tombstoned_def split: if_splits)

text \<open>Tables that the statements of the ledgers extend.\<close>

definition log_frame :: "PgSession \<Rightarrow> PgTables \<Rightarrow> PgTables \<Rightarrow> bool" where
  "log_frame ses tb tb' \<longleftrightarrow> tb_tenants tb' = tb_tenants tb \<and> tb_memories tb' = tb_memories tb \<and>
     tb_versions tb' = tb_versions tb \<and> tb_embeddings tb' = tb_embeddings tb \<and> tb_semantic tb' = tb_semantic tb \<and>
     tb_relations tb' = tb_relations tb \<and> tb_tombstones tb' = tb_tombstones tb \<and> foreign_rows ses tb' = foreign_rows ses tb"

lemma log_frame_refl [intro, simp]: "log_frame ses tb tb"
  by (simp add: log_frame_def)

lemma log_frame_ok: "log_frame ses tb tb' \<Longrightarrow> tables_ok c tb \<Longrightarrow> tables_ok c tb'"
  by (simp add: log_frame_def tables_ok_def memories_ok_def keys_ok_def references_ok_def ledger_ok_def stored_for_def
      row_owned_def tombstoned_def)

lemma pg_audit_frame: "pg_audit env ses action owner mid tb = (Inr u, tb') \<Longrightarrow> log_frame ses tb tb'"
  by (auto simp: pg_audit_def act_simps log_frame_def foreign_rows_def split: option.splits if_splits)

lemma insert_deletion_frame: "insert_deletion ses d tb = (Inr u, tb') \<Longrightarrow> log_frame ses tb tb'"
  by (auto simp: insert_deletion_def act_simps log_frame_def foreign_rows_def split: if_splits)

lemma pg_claim_frame: "pg_claim env ses owner optype key fp tb = (Inr u, tb') \<Longrightarrow> log_frame ses tb tb'"
  by (auto simp: pg_claim_def insert_operation_def act_simps log_frame_def foreign_rows_def Let_def
      split: option.splits if_splits)

lemma filter_map_kept:
  assumes "\<And>x. x \<in> set xs \<Longrightarrow> P (f x) = P x" "\<And>x. x \<in> set xs \<Longrightarrow> P x \<Longrightarrow> f x = x"
  shows "filter P (map f xs) = filter P xs"
  using assms by (induction xs) auto

lemma pg_complete_frame: "pg_complete env ses claim mid v st tb = (Inr u, tb') \<Longrightarrow> log_frame ses tb tb'"
  by (auto simp: pg_complete_def log_frame_def foreign_rows_def Let_def completable_def intro!: filter_map_kept
      split: option.splits if_splits)

section \<open>Preservation by statements\<close>

lemmas tables_ok_defs = tables_ok_def memories_ok_def keys_ok_def references_ok_def ledger_ok_def

lemma policy_unique: "policy ses a \<Longrightarrow> policy ses b \<Longrightarrow> a = b"
  by (auto simp: policy_def)

lemma policy_bound:
  assumes "policy ses (ps_tenant ses)" "pg_assert_owner ses owner = Inr b"
  shows "bound_owner (ps_community ses) owner (ps_tenant ses)" "b = ps_tenant ses"
  using assms by (auto simp: policy_def bound_owner_def pg_assert_owner_def act_simps split: option.splits if_splits)

lemma refers_stored:
  assumes "tables_ok (ps_community ses) tb" "policy ses t" "refers_to_memory tb mid t"
  shows "stored_for tb mid t"
proof -
  from assms(3) obtain r where r: "r \<in> set (tb_memories tb)" "r_id r = mid" "t = None \<or> r_tenant_id r = t"
    by (auto simp: refers_to_memory_def list_ex_iff)
  have "r_tenant_id r = t"
  proof (cases "ps_community ses")
    case True
    then have "t = None" using assms(2) by (simp add: policy_def)
    moreover have "bound_owner True (r_owner_id r) (r_tenant_id r)"
      using assms(1) r(1) True by (auto simp: tables_ok_defs)
    ultimately show ?thesis by (simp add: bound_owner_def)
  next
    case False
    then show ?thesis using assms(2) r(3) by (auto simp: policy_def)
  qed
  with r show ?thesis by (auto simp: stored_for_def)
qed

lemma endpoint_owned:
  assumes "tables_ok (ps_community ses) tb" "policy ses (q_tenant_id q)" "endpoint_known tb q mid"
  shows "row_owned tb (q_owner_id q) mid (q_tenant_id q)"
proof -
  from assms(3) obtain r where r: "r \<in> set (tb_memories tb)" "r_owner_id r = q_owner_id q" "r_id r = mid"
    "q_tenant_id q = None \<or> r_tenant_id r = q_tenant_id q"
    by (auto simp: endpoint_known_def list_ex_iff)
  have "bound_owner (ps_community ses) (r_owner_id r) (r_tenant_id r)" using assms(1) r(1) by (auto simp: tables_ok_defs)
  with r(4) assms(2) have "r_tenant_id r = q_tenant_id q" by (auto simp: bound_owner_def policy_def split: if_splits)
  with r show ?thesis by (auto simp: row_owned_def)
qed

lemma insert_memory_ok:
  assumes "tables_ok c tb" "memories_fits r" "memories_check r" "bound_owner c (r_owner_id r) (r_tenant_id r)"
    and "\<forall>x\<in>set (tb_memories tb). \<not> same_id r x \<and> \<not> same_key r x" "\<not> tombstoned tb (r_owner_id r) (r_id r)"
  shows "tables_ok c (tb\<lparr>tb_memories := tb_memories tb @ [r]\<rparr>)"
proof -
  have "same_key x r \<Longrightarrow> same_key r x" for x by (auto simp: same_key_def)
  then show ?thesis
    using assms by (fastforce simp: tables_ok_defs stored_for_def row_owned_def tombstoned_def same_id_def)
qed

lemma insert_version_ok:
  assumes "tables_ok (ps_community ses) tb" "insert_version ses v tb = (Inr u, tb')"
  shows "tables_ok (ps_community ses) tb'"
proof -
  have "stored_for tb (v_memory_id v) (v_tenant_id v)"
    using assms(2) by (auto simp: act_simps intro: refers_stored [OF assms(1)])
  then show ?thesis
    using assms by (auto simp: act_simps tables_ok_defs stored_for_def row_owned_def tombstoned_def)
qed

lemma set_table_rows_ok:
  assumes "tables_ok c tb" "\<forall>x\<in>set rows. stored_for tb (x_memory_id x) (x_tenant_id x)"
  shows "tables_ok c (set_table_rows t rows tb)"
  using assms by (cases t) (auto simp: tables_ok_defs stored_for_def row_owned_def tombstoned_def)

lemma table_rows_stored:
  "tables_ok c tb \<Longrightarrow> x \<in> set (table_rows t tb) \<Longrightarrow> stored_for tb (x_memory_id x) (x_tenant_id x)"
  by (cases t) (auto simp: tables_ok_defs)

lemma insert_embedding_ok:
  assumes "tables_ok (ps_community ses) tb" "insert_embedding ses t x tb = (Inr u, tb')"
  shows "tables_ok (ps_community ses) tb'"
  using assms refers_stored [OF assms(1)] table_rows_stored [OF assms(1)]
  by (auto simp: act_simps intro!: set_table_rows_ok)

lemma update_embedding_Inr:
  "update_embedding ses t x tb = (Inr u, tb') \<Longrightarrow> tb' = tb \<or> policy ses (x_tenant_id x) \<and>
     refers_to_memory tb (x_memory_id x) (x_tenant_id x) \<and>
     tb' = set_table_rows t (map (\<lambda>y. if x_memory_id y = x_memory_id x \<and> policy ses (x_tenant_id y) then x else y) (table_rows t tb)) tb"
  by (auto simp: update_embedding_def act_simps Let_def split: if_splits)

lemma update_embedding_ok:
  assumes "tables_ok (ps_community ses) tb" "update_embedding ses t x tb = (Inr u, tb')"
  shows "tables_ok (ps_community ses) tb'"
  using update_embedding_Inr [OF assms(2)] assms(1) refers_stored [OF assms(1)] table_rows_stored [OF assms(1)]
  by (auto intro!: set_table_rows_ok)

lemma update_memories_False: "update_memories ses m ev new tb = (Inr False, tb') \<Longrightarrow> tb' = tb \<and> find (update_hits ses m ev) (tb_memories tb) = None"
  by (auto simp: update_memories_def act_simps split: option.splits if_splits)

lemma update_memories_True:
  assumes "update_memories ses m ev new tb = (Inr True, tb')"
  obtains old where "old \<in> set (tb_memories tb)" "update_hits ses m ev old" "memories_fits (keep_immutable old new)"
    "memories_check (keep_immutable old new)" "policy ses (r_tenant_id new)"
    "tb' = tb\<lparr>tb_memories := map (\<lambda>r. if update_hits ses m ev r then keep_immutable r new else r) (tb_memories tb)\<rparr>"
  using assms that
  by (auto simp: update_memories_def act_simps split: option.splits if_splits dest!: find_SomeD)

lemma insert_relation_ok:
  assumes "tables_ok (ps_community ses) tb" "insert_relation ses ignore q tb = (Inr u, tb')"
  shows "tables_ok (ps_community ses) tb'"
proof -
  from insert_relation_Inr [OF assms(2)] consider "tb' = tb"
    | "row_owned tb (q_owner_id q) (q_source_id q) (q_tenant_id q)" "row_owned tb (q_owner_id q) (q_target_id q) (q_tenant_id q)"
      "tb' = tb\<lparr>tb_relations := tb_relations tb @ [q]\<rparr>"
    using endpoint_owned [OF assms(1)] by blast
  then show ?thesis
    by cases (use assms(1) in \<open>auto simp: tables_ok_defs stored_for_def row_owned_def tombstoned_def\<close>)
qed

text \<open>A change of the memories row by row that keeps the columns the invariant looks at.\<close>

lemma map_memories_ok:
  assumes "tables_ok c tb"
    and f: "\<And>r. r \<in> set (tb_memories tb) \<Longrightarrow> r_id (f r) = r_id r \<and> r_owner_id (f r) = r_owner_id r \<and>
      r_tenant_id (f r) = r_tenant_id r \<and> r_idempotency_key (f r) = r_idempotency_key r \<and> memories_fits (f r) \<and> memories_check (f r)"
  shows "tables_ok c (tb\<lparr>tb_memories := map f (tb_memories tb)\<rparr>)"
proof -
  let ?tb = "tb\<lparr>tb_memories := map f (tb_memories tb)\<rparr>"
  have same: "map r_id (map f (tb_memories tb)) = map r_id (tb_memories tb)" using f by simp
  have refs: "stored_for ?tb mid t = stored_for tb mid t" "row_owned ?tb owner mid t = row_owned tb owner mid t" for mid t owner
    using f by (auto simp: stored_for_def row_owned_def)
  have tomb: "tombstoned ?tb = tombstoned tb" by (simp add: tombstoned_def fun_eq_iff)
  have "distinct (map r_id (map f (tb_memories tb)))" unfolding same using assms(1) by (simp add: tables_ok_defs)
  then have "memories_ok c ?tb" using assms(1) f unfolding memories_ok_def tables_ok_def by simp
  moreover have "same_key (f r) (f x) = same_key r x" if "r \<in> set (tb_memories tb)" "x \<in> set (tb_memories tb)" for r x
    using f [OF that(1)] f [OF that(2)] by (simp add: same_key_def)
  then have "keys_ok ?tb" using assms(1) f unfolding keys_ok_def tables_ok_def by simp
  moreover have "references_ok ?tb" using assms(1) refs by (simp add: references_ok_def tables_ok_def)
  moreover have "ledger_ok c ?tb" using assms(1) f tomb unfolding ledger_ok_def tables_ok_def by simp
  ultimately show ?thesis by (simp add: tables_ok_def)
qed

lemma distinct_row: "distinct (map f xs) \<Longrightarrow> x \<in> set xs \<Longrightarrow> y \<in> set xs \<Longrightarrow> f x = f y \<Longrightarrow> x = y"
  by (meson distinct_map inj_onD)

lemma update_memories_ok:
  assumes ok: "tables_ok c tb" and upd: "update_memories ses m ev new tb = (Inr True, tb')"
  shows "tables_ok c tb'"
proof -
  from upd obtain old where old: "old \<in> set (tb_memories tb)" "update_hits ses m ev old" "memories_fits (keep_immutable old new)"
      "memories_check (keep_immutable old new)" "policy ses (r_tenant_id new)"
    and tb': "tb' = tb\<lparr>tb_memories := map (\<lambda>r. if update_hits ses m ev r then keep_immutable r new else r) (tb_memories tb)\<rparr>"
    by (rule update_memories_True)
  have only: "r = old" if "r \<in> set (tb_memories tb)" "update_hits ses m ev r" for r
    using that old(1,2) ok distinct_row [of r_id "tb_memories tb" r old] by (auto simp: tables_ok_defs update_hits_def)
  have tenant: "r_tenant_id old = r_tenant_id new" using old(2,5) policy_unique by (auto simp: update_hits_def)
  have rest: "memories_fits r \<and> memories_check r" if "r \<in> set (tb_memories tb)" for r
    using ok that by (simp add: tables_ok_defs)
  show ?thesis
    unfolding tb' using ok only old(3,4) tenant rest by (intro map_memories_ok) (auto simp: keep_immutable_def)
qed

lemma cascade_delete_ok:
  assumes ok: "tables_ok c tb" and r: "r \<in> set (tb_memories tb)"
  shows "tables_ok c (cascade_delete r tb)"
proof -
  let ?tb = "cascade_delete r tb"
  have only: "x = r" if "x \<in> set (tb_memories tb)" "r_id x = r_id r" for x
    using ok that r distinct_row [of r_id] by (auto simp: tables_ok_defs)
  have st: "stored_for tb mid t \<Longrightarrow> mid \<noteq> r_id r \<Longrightarrow> stored_for ?tb mid t" for mid t
    by (auto simp: stored_for_def cascade_delete_def)
  have ow: "row_owned tb owner mid t \<Longrightarrow> \<not> (owner = r_owner_id r \<and> mid = r_id r) \<Longrightarrow> row_owned ?tb owner mid t" for owner mid t
    using only by (fastforce simp: row_owned_def cascade_delete_def)
  have "references_ok ?tb"
    using ok st ow unfolding references_ok_def tables_ok_def by (simp add: cascade_delete_def)
  moreover have "memories_ok c ?tb" "keys_ok ?tb"
    using ok by (auto simp: tables_ok_defs cascade_delete_def distinct_map_filter)
  moreover have "ledger_ok c ?tb" using ok by (simp add: tables_ok_defs cascade_delete_def tombstoned_def)
  ultimately show ?thesis by (simp add: tables_ok_def)
qed

lemma insert_tombstone_ok:
  assumes "tables_ok c tb" "insert_tombstone ses t tb = (Inr u, tb')" "bound_owner c (t_owner_id t) (t_tenant_id t)"
    and "\<forall>r\<in>set (tb_memories tb). \<not> (r_owner_id r = t_owner_id t \<and> r_id r = t_memory_id t)"
  shows "tables_ok c tb'"
proof (cases "tb' = tb")
  case False
  then have tb': "tb' = tb\<lparr>tb_tombstones := tb_tombstones tb @ [t]\<rparr>" using insert_tombstone_Inr [OF assms(2)] by blast
  have "references_ok tb'" using assms(1) by (simp add: tb' tables_ok_def references_ok_def stored_for_def row_owned_def)
  moreover have "ledger_ok c tb'"
    using assms(1,3,4) unfolding tb' tables_ok_def ledger_ok_def tombstoned_def by auto
  moreover have "memories_ok c tb'" "keys_ok tb'" using assms(1) by (simp_all add: tb' tables_ok_def memories_ok_def keys_ok_def)
  ultimately show ?thesis by (simp add: tables_ok_def)
qed (use assms(1) in simp)

section \<open>Isolation of statements\<close>

lemma foreign_insert_memory: "policy ses (r_tenant_id r) \<Longrightarrow> foreign_rows ses (tb\<lparr>tb_memories := tb_memories tb @ [r]\<rparr>) = foreign_rows ses tb"
  by (simp add: foreign_rows_def)

lemma foreign_insert_version: "insert_version ses v tb = (Inr u, tb') \<Longrightarrow> foreign_rows ses tb' = foreign_rows ses tb"
  by (auto simp: act_simps foreign_rows_def)

lemma foreign_set_table:
  "filter (\<lambda>x. \<not> policy ses (x_tenant_id x)) rows = filter (\<lambda>x. \<not> policy ses (x_tenant_id x)) (table_rows t tb) \<Longrightarrow>
     foreign_rows ses (set_table_rows t rows tb) = foreign_rows ses tb"
  by (cases t) (simp_all add: foreign_rows_def)

lemma foreign_insert_embedding: "insert_embedding ses t x tb = (Inr u, tb') \<Longrightarrow> foreign_rows ses tb' = foreign_rows ses tb"
  by (auto simp: act_simps intro!: foreign_set_table)

lemma foreign_update_embedding: "update_embedding ses t x tb = (Inr u, tb') \<Longrightarrow> foreign_rows ses tb' = foreign_rows ses tb"
  by (drule update_embedding_Inr) (auto intro!: foreign_set_table filter_map_kept split: if_splits)

lemma foreign_update_memories: "update_memories ses m ev new tb = (Inr True, tb') \<Longrightarrow> foreign_rows ses tb' = foreign_rows ses tb"
  by (erule update_memories_True) (auto simp: foreign_rows_def update_hits_def keep_immutable_def intro!: filter_map_kept split: if_splits)

lemma foreign_insert_relation: "insert_relation ses ignore q tb = (Inr u, tb') \<Longrightarrow> foreign_rows ses tb' = foreign_rows ses tb"
  by (drule insert_relation_Inr) (auto simp: foreign_rows_def)

lemma foreign_insert_tombstone: "insert_tombstone ses t tb = (Inr u, tb') \<Longrightarrow> foreign_rows ses tb' = foreign_rows ses tb"
  by (drule insert_tombstone_Inr) (auto simp: foreign_rows_def)

lemma foreign_cascade:
  assumes ok: "tables_ok c tb" and r: "r \<in> set (tb_memories tb)" "policy ses (r_tenant_id r)"
  shows "foreign_rows ses (cascade_delete r tb) = foreign_rows ses tb"
proof -
  have only: "x = r" if "x \<in> set (tb_memories tb)" "r_id x = r_id r" for x
    using ok that r(1) distinct_row [of r_id] by (auto simp: tables_ok_defs)
  have st: "stored_for tb (r_id r) t \<Longrightarrow> policy ses t" for t
    using only r(2) by (auto simp: stored_for_def)
  have ow: "row_owned tb owner (r_id r) t \<Longrightarrow> policy ses t" for owner t
    using only r(2) by (auto simp: row_owned_def)
  have refs: "references_ok tb" using ok by (simp add: tables_ok_def)
  show ?thesis
    using refs only r(2) st ow unfolding foreign_rows_def cascade_delete_def references_ok_def
    by (simp, intro conjI filter_cong refl) auto
qed

end
