(* ===== verification/Postgres_Steps.thy ===== *)
theory Postgres_Steps
  imports Postgres_Invariant
begin

text \<open>
  The methods of the repositories as steps of the tables: each keeps the invariant and the rows of other
  tenants, adds to the tombstones and never takes a memory back to an older version. A transaction is a
  sequence of such calls in one session; the contracts of \<open>Store_Interfaces\<close> are interpreted on it.
\<close>

section \<open>What a statement keeps\<close>

definition grown :: "PgTables \<Rightarrow> PgTables \<Rightarrow> bool" where
  "grown tb tb' \<longleftrightarrow> (\<forall>owner mid. tombstoned tb owner mid \<longrightarrow> tombstoned tb' owner mid) \<and>
     (\<forall>r\<in>set (tb_memories tb). tombstoned tb' (r_owner_id r) (r_id r) \<or>
        (\<exists>r'\<in>set (tb_memories tb'). r_owner_id r' = r_owner_id r \<and> r_id r' = r_id r \<and> r_version r \<le> r_version r'))"

definition kept :: "PgSession \<Rightarrow> PgTables \<Rightarrow> PgTables \<Rightarrow> bool" where
  "kept ses tb tb' \<longleftrightarrow> tables_ok (ps_community ses) tb' \<and> foreign_rows ses tb' = foreign_rows ses tb \<and> grown tb tb'"

lemma grown_refl [intro, simp]: "grown tb tb"
  by (auto simp: grown_def)

lemma grown_same: "tb_memories tb' = tb_memories tb \<Longrightarrow> tb_tombstones tb' = tb_tombstones tb \<Longrightarrow> grown tb tb'"
  by (auto simp: grown_def tombstoned_def)

lemma grown_trans: "grown tb tb1 \<Longrightarrow> grown tb1 tb2 \<Longrightarrow> grown tb tb2"
proof -
  assume a: "grown tb tb1" and b: "grown tb1 tb2"
  have "tombstoned tb2 (r_owner_id r) (r_id r) \<or>
      (\<exists>r'\<in>set (tb_memories tb2). r_owner_id r' = r_owner_id r \<and> r_id r' = r_id r \<and> r_version r \<le> r_version r')"
    if r: "r \<in> set (tb_memories tb)" for r
  proof (cases "tombstoned tb1 (r_owner_id r) (r_id r)")
    case True
    then show ?thesis using b by (simp add: grown_def)
  next
    case False
    then obtain r1 where r1: "r1 \<in> set (tb_memories tb1)" "r_owner_id r1 = r_owner_id r" "r_id r1 = r_id r" "r_version r \<le> r_version r1"
      using a r unfolding grown_def by blast
    with b have "tombstoned tb2 (r_owner_id r1) (r_id r1) \<or>
      (\<exists>r'\<in>set (tb_memories tb2). r_owner_id r' = r_owner_id r1 \<and> r_id r' = r_id r1 \<and> r_version r1 \<le> r_version r')"
      unfolding grown_def by blast
    then show ?thesis using r1 by fastforce
  qed
  then show "grown tb tb2" using a b by (simp add: grown_def)
qed

lemma kept_refl: "tables_ok (ps_community ses) tb \<Longrightarrow> kept ses tb tb"
  by (simp add: kept_def)

lemma kept_step:
  assumes "kept ses tb tb1" "tables_ok (ps_community ses) tb1 \<Longrightarrow> kept ses tb1 tb2"
  shows "kept ses tb tb2"
  using assms grown_trans by (auto simp: kept_def)

lemma kept_log: "tables_ok (ps_community ses) tb \<Longrightarrow> log_frame ses tb tb' \<Longrightarrow> kept ses tb tb'"
  by (simp add: kept_def log_frame_ok) (simp add: log_frame_def grown_same)

lemma table_same [simp]:
  "tb_memories (set_table_rows t rows tb) = tb_memories tb" "tb_tombstones (set_table_rows t rows tb) = tb_tombstones tb"
  by (cases t; simp)+

lemma kept_statements:
  assumes ok: "tables_ok (ps_community ses) tb"
  shows "insert_version ses v tb = (Inr u, tb') \<Longrightarrow> kept ses tb tb'"
    and "insert_embedding ses t x tb = (Inr u, tb') \<Longrightarrow> kept ses tb tb'"
    and "update_embedding ses t x tb = (Inr u, tb') \<Longrightarrow> kept ses tb tb'"
    and "insert_relation ses ignore q tb = (Inr u, tb') \<Longrightarrow> kept ses tb tb'"
    and "pg_audit env ses action owner mid tb = (Inr u, tb') \<Longrightarrow> kept ses tb tb'"
    and "insert_deletion ses d tb = (Inr u, tb') \<Longrightarrow> kept ses tb tb'"
proof -
  show "kept ses tb tb'" if s: "insert_version ses v tb = (Inr u, tb')"
    using insert_version_ok [OF ok s] foreign_insert_version [OF s] s by (auto simp: kept_def act_simps intro: grown_same)
  show "kept ses tb tb'" if s: "insert_embedding ses t x tb = (Inr u, tb')"
    using insert_embedding_ok [OF ok s] foreign_insert_embedding [OF s] s by (auto simp: kept_def act_simps intro: grown_same)
  show "kept ses tb tb'" if s: "update_embedding ses t x tb = (Inr u, tb')"
    using update_embedding_ok [OF ok s] foreign_update_embedding [OF s] update_embedding_Inr [OF s]
    by (auto simp: kept_def intro: grown_same)
  show "kept ses tb tb'" if s: "insert_relation ses ignore q tb = (Inr u, tb')"
    using insert_relation_ok [OF ok s] foreign_insert_relation [OF s] insert_relation_Inr [OF s]
    by (auto simp: kept_def intro: grown_same)
  show "kept ses tb tb'" if s: "pg_audit env ses action owner mid tb = (Inr u, tb')"
    by (rule kept_log [OF ok pg_audit_frame [OF s]])
  show "kept ses tb tb'" if s: "insert_deletion ses d tb = (Inr u, tb')"
    by (rule kept_log [OF ok insert_deletion_frame [OF s]])
qed

section \<open>Calls\<close>

lemmas bind_simps = act_bind_Inr act_basic_Inr integrity_as_Inr

lemma memory_values_Inr:
  assumes "memory_values env ses m fp = Inr r"
  shows "r_id r = m_id m" "r_owner_id r = m_owner_id m" "r_tenant_id r = ps_tenant ses" "r_version r = m_version m"
    "r_idempotency_key r = m_idempotency_key m" "r_fingerprint r = fp" "\<exists>b. pg_assert_owner ses (m_owner_id m) = Inr b"
  using assms by (auto simp: memory_values_def act_simps set_cloud_fields_def split: option.splits)

lemma insert_memories_kept:
  assumes ok: "tables_ok (ps_community ses) tb" and r: "memory_values env ses m fp = Inr r"
    and new: "\<not> tombstoned tb (m_owner_id m) (m_id m)" and ins: "insert_memories ses target r tb = (Inr True, tb')"
  shows "kept ses tb tb'"
proof -
  note f = memory_values_Inr [OF r] and i = ins [unfolded insert_memories_True]
  have "bound_owner (ps_community ses) (r_owner_id r) (r_tenant_id r)" using policy_bound(1) f(2,3,7) i by auto
  then have "tables_ok (ps_community ses) tb'"
    using i insert_memory_ok [OF ok, of r] new by (simp add: f(1,2))
  moreover have "foreign_rows ses tb' = foreign_rows ses tb" using i foreign_insert_memory by blast
  moreover have "grown tb tb'" using i by (auto simp: grown_def tombstoned_def)
  ultimately show ?thesis by (simp add: kept_def)
qed

definition create_target :: "Memory \<Rightarrow> conflict_target" where
  "create_target m = (if py_truthy (m_idempotency_key m) then OnKey else NoTarget)"

lemma pg_create_run:
  assumes "pg_create env ses m fp vec tb = (Inr res, tb')"
  obtains (replay) r pm where "memory_values env ses m (Some fp) = Inr r" "insert_memories ses (create_target m) r tb = (Inr False, tb)"
      "tb' = tb" "res = \<lparr>cr_memory = pm, cr_created = False\<rparr>"
      "pg_find_by_idempotency_key env ses (m_owner_id m) (case m_idempotency_key m of None \<Rightarrow> [] | Some k \<Rightarrow> k) tb = Inr (Some (pm, Some fp))"
  | (created) r tb1 t x tb2 v tb3 where "memory_values env ses m (Some fp) = Inr r"
      "insert_memories ses (create_target m) r tb = (Inr True, tb1)"
      "embedding_table (memory_dimension m) = Inr t" "embedding_values env ses m vec = Inr x"
      "insert_embedding ses t x tb1 = (Inr (), tb2)" "version_values env ses (memory_snapshot m ''created'') = Inr v"
      "insert_version ses v tb2 = (Inr (), tb3)"
      "pg_audit env ses ''memory.write'' (m_owner_id m) (m_id m) tb3 = (Inr (), tb')" "res = \<lparr>cr_memory = m, cr_created = True\<rparr>"
proof -
  from assms obtain r inserted tb1 where r: "memory_values env ses m (Some fp) = Inr r"
    and ins: "insert_memories ses (create_target m) r tb = (Inr inserted, tb1)"
    and cont: "(if \<not> inserted then
       act_bind (act_getr (pg_find_by_idempotency_key env ses (m_owner_id m) (case m_idempotency_key m of None \<Rightarrow> [] | Some k \<Rightarrow> k))) (\<lambda>prior.
       case prior of
         None \<Rightarrow> act_raise (PgDomain IdempotencyConflictError)
       | Some (pm, fp0) \<Rightarrow>
           if fp0 \<noteq> Some fp then act_raise (PgDomain IdempotencyConflictError)
           else act_return \<lparr>cr_memory = pm, cr_created = False\<rparr>)
     else
       act_bind (act_res (embedding_table (memory_dimension m))) (\<lambda>t.
       act_bind (act_res (embedding_values env ses m vec)) (\<lambda>x.
       act_bind (insert_embedding ses t x) (\<lambda>_.
       act_bind (act_res (version_values env ses (memory_snapshot m ''created''))) (\<lambda>v.
       act_bind (insert_version ses v) (\<lambda>_.
       act_bind (pg_audit env ses ''memory.write'' (m_owner_id m) (m_id m)) (\<lambda>_.
       act_return \<lparr>cr_memory = m, cr_created = True\<rparr>))))))) tb1 = (Inr res, tb')"
    unfolding pg_create_def create_target_def [symmetric] act_bind_Inr act_basic_Inr integrity_as_Inr by blast
  show thesis
  proof (cases inserted)
    case True
    with cont obtain t x tb2 v tb3 where "embedding_table (memory_dimension m) = Inr t" "embedding_values env ses m vec = Inr x"
      "insert_embedding ses t x tb1 = (Inr (), tb2)" "version_values env ses (memory_snapshot m ''created'') = Inr v"
      "insert_version ses v tb2 = (Inr (), tb3)"
      "pg_audit env ses ''memory.write'' (m_owner_id m) (m_id m) tb3 = (Inr (), tb')" "res = \<lparr>cr_memory = m, cr_created = True\<rparr>"
      by (auto simp: bind_simps)
    moreover have "insert_memories ses (create_target m) r tb = (Inr True, tb1)" using ins True by simp
    ultimately show thesis using created r by blast
  next
    case False
    then have "insert_memories ses (create_target m) r tb = (Inr False, tb1)" using ins by simp
    moreover from this have "tb1 = tb" by (rule insert_memories_False)
    moreover from cont False obtain pm where "tb' = tb1" "res = \<lparr>cr_memory = pm, cr_created = False\<rparr>"
      "pg_find_by_idempotency_key env ses (m_owner_id m) (case m_idempotency_key m of None \<Rightarrow> [] | Some k \<Rightarrow> k) tb1 = Inr (Some (pm, Some fp))"
      by (auto simp: bind_simps split: option.splits if_splits prod.splits)
    ultimately show thesis using replay r by blast
  qed
qed

lemma pg_create_kept:
  assumes ok: "tables_ok (ps_community ses) tb" and new: "\<not> tombstoned tb (m_owner_id m) (m_id m)"
    and call: "pg_create env ses m fp vec tb = (Inr res, tb')"
  shows "kept ses tb tb'"
  using call
proof (cases rule: pg_create_run)
  case replay
  then show ?thesis using kept_refl [OF ok] by simp
next
  case (created r tb1 t x tb2 v tb3)
  from insert_memories_kept [OF ok created(1) new created(2)]
  have "kept ses tb tb2" by (rule kept_step) (rule kept_statements(2) [OF _ created(5)])
  then have "kept ses tb tb3" by (rule kept_step) (rule kept_statements(1) [OF _ created(7)])
  then show ?thesis by (rule kept_step) (rule kept_statements(5) [OF _ created(8)])
qed

lemma update_memories_kept:
  assumes ok: "tables_ok (ps_community ses) tb" and r: "memory_values env ses m fp = Inr r" and "ev \<le> m_version m"
    and upd: "update_memories ses m ev r tb = (Inr True, tb')"
  shows "kept ses tb tb'"
proof -
  from upd obtain old where tb': "tb' = tb\<lparr>tb_memories := map (\<lambda>x. if update_hits ses m ev x then keep_immutable x r else x) (tb_memories tb)\<rparr>"
    by (rule update_memories_True)
  define f where "f x = (if update_hits ses m ev x then keep_immutable x r else x)" for x
  have "r_owner_id (f x) = r_owner_id x \<and> r_id (f x) = r_id x \<and> r_version x \<le> r_version (f x)" for x
    using assms(3) memory_values_Inr(4) [OF r] by (simp add: f_def update_hits_def keep_immutable_def)
  moreover have "tb_memories tb' = map f (tb_memories tb)" "tombstoned tb' = tombstoned tb"
    by (simp_all add: tb' f_def tombstoned_def fun_eq_iff)
  ultimately have "grown tb tb'" unfolding grown_def by force
  then show ?thesis
    using update_memories_ok [OF ok upd] foreign_update_memories [OF upd] by (simp add: kept_def)
qed

lemma pg_update_kept:
  assumes ok: "tables_ok (ps_community ses) tb" and ver: "ev \<le> m_version m"
    and call: "pg_update env ses m ev snapshot vec tb = (Inr res, tb')"
  shows "kept ses tb tb'"
proof -
  from call obtain r tb1 t x tb2 v tb3 where s: "memory_values env ses m None = Inr r" "update_memories ses m ev r tb = (Inr True, tb1)"
      "insert_version ses v tb1 = (Inr (), tb2)" "update_embedding ses t x tb2 = (Inr (), tb3)"
      "pg_audit env ses ''memory.update'' (m_owner_id m) (m_id m) tb3 = (Inr (), tb')"
    by (auto simp: pg_update_def bind_simps split: if_splits)
  from update_memories_kept [OF ok s(1) ver s(2)]
  have "kept ses tb tb2" by (rule kept_step) (rule kept_statements(1) [OF _ s(3)])
  then have "kept ses tb tb3" by (rule kept_step) (rule kept_statements(3) [OF _ s(4)])
  then show ?thesis by (rule kept_step) (rule kept_statements(5) [OF _ s(5)])
qed

lemma seen_memories_mem: "find P (seen_memories ses tb) = Some r \<Longrightarrow> r \<in> set (tb_memories tb) \<and> policy ses (r_tenant_id r) \<and> P r"
  by (auto simp: seen_memories_def dest!: find_SomeD)

lemma pg_forget_run:
  assumes "pg_forget env ses owner mid tb = (Inr res, tb')"
  obtains "\<not> res" "tb' = tb"
  | r tb1 b where "res" "r \<in> set (tb_memories tb)" "policy ses (r_tenant_id r)" "r_owner_id r = owner" "r_id r = mid"
      "pg_assert_owner ses owner = Inr b"
      "insert_tombstone ses \<lparr>t_owner_id = owner, t_tenant_id = ps_tenant ses, t_memory_id = mid,
         t_deleted_at = te_now (pe_text env), t_reason = ''memory.forget''\<rparr> (cascade_delete r tb) = (Inr (), tb1)"
      "log_frame ses tb1 tb'"
proof -
  define found where "found b = find (\<lambda>r. r_owner_id r = owner \<and> r_id r = mid \<and> bound_to b (r_tenant_id r)) (seen_memories ses tb)" for b
  define ts where "ts = \<lparr>t_owner_id = owner, t_tenant_id = ps_tenant ses, t_memory_id = mid,
         t_deleted_at = te_now (pe_text env), t_reason = ''memory.forget''\<rparr>"
  from assms obtain b where b: "pg_assert_owner ses owner = Inr b"
    by (auto simp: pg_forget_def bind_simps)
  show thesis
  proof (cases "found b")
    case None
    then show thesis using assms that(1) b by (auto simp: pg_forget_def bind_simps found_def)
  next
    case (Some r)
    then obtain tb1 where ins: "insert_tombstone ses ts (cascade_delete r tb) = (Inr (), tb1)" "res"
      and rest: "tb' = tb1 \<or> (\<exists>d tb2. insert_deletion ses d tb1 = (Inr (), tb2) \<and> pg_audit env ses ''memory.forget'' owner mid tb2 = (Inr (), tb'))"
      using assms b by (auto simp: pg_forget_def bind_simps found_def ts_def split: option.splits)
    from rest have "log_frame ses tb1 tb'"
      using insert_deletion_frame pg_audit_frame by (fastforce simp: log_frame_def)
    moreover have "r \<in> set (tb_memories tb)" "policy ses (r_tenant_id r)" "r_owner_id r = owner" "r_id r = mid"
      using seen_memories_mem [OF Some [unfolded found_def]] by auto
    ultimately show thesis using that(2) b ins unfolding ts_def by blast
  qed
qed

lemma pg_forget_kept:
  assumes ok: "tables_ok (ps_community ses) tb" and call: "pg_forget env ses owner mid tb = (Inr res, tb')"
  shows "kept ses tb tb' \<and> (res \<longrightarrow> tombstoned tb' owner mid)"
  using call
proof (cases rule: pg_forget_run)
  case 1
  then show ?thesis using kept_refl [OF ok] by simp
next
  case (2 r tb1 b)
  note tomb = insert_tombstone_Inr [OF 2(7)]
  have pol: "policy ses (ps_tenant ses)" using tomb by simp
  have ok1: "tables_ok (ps_community ses) tb1"
    by (rule insert_tombstone_ok [OF cascade_delete_ok [OF ok 2(2)] 2(7)])
      (use policy_bound(1) [OF pol 2(6)] 2(4,5) in \<open>auto simp: cascade_delete_def\<close>)
  have mems: "tb_memories tb1 = tb_memories (cascade_delete r tb)" using tomb by auto
  have dead: "tombstoned tb1 owner mid" "tombstoned tb1 o' i" if "tombstoned tb o' i" for o' i
    using tomb that by (auto simp: tombstoned_def cascade_delete_def)
  have dead1: "tombstoned tb1 owner mid" using tomb by (auto simp: tombstoned_def cascade_delete_def)
  have only: "x = r" if "x \<in> set (tb_memories tb)" "r_id x = r_id r" for x
    using ok that 2(2) distinct_row [of r_id] by (auto simp: tables_ok_defs)
  have "grown tb tb1"
    unfolding grown_def mems using dead dead1 only 2(4,5) by (fastforce simp: cascade_delete_def)
  moreover have "foreign_rows ses tb1 = foreign_rows ses tb"
    using foreign_insert_tombstone [OF 2(7)] foreign_cascade [OF ok 2(2,3)] by simp
  ultimately have "kept ses tb tb1" using ok1 by (simp add: kept_def)
  then have "kept ses tb tb'" by (rule kept_step) (rule kept_log [OF _ 2(8)])
  moreover have "tombstoned tb' owner mid" using dead1 2(8) by (simp add: log_frame_def tombstoned_def)
  ultimately show ?thesis by simp
qed

lemma pg_add_relation_kept:
  assumes ok: "tables_ok (ps_community ses) tb" and call: "pg_add_relation env ses relation tb = (Inr res, tb')"
  shows "kept ses tb tb'"
proof -
  from call have "insert_relation ses False (relation_values ses relation) tb = (Inr (), tb')"
    by (auto simp: pg_add_relation_def bind_simps)
  then show ?thesis by (rule kept_statements(4) [OF ok])
qed

lemma not_tombstoned:
  assumes ok: "tables_ok (ps_community ses) tb" and owner: "pg_assert_owner ses owner = Inr b"
    and pol: "policy ses (ps_tenant ses)" and not: "pg_is_tombstoned ses owner mid tb = Inr False"
  shows "\<not> tombstoned tb owner mid"
proof
  assume "tombstoned tb owner mid"
  then obtain t where t: "t \<in> set (tb_tombstones tb)" "t_owner_id t = owner" "t_memory_id t = mid"
    by (auto simp: tombstoned_def)
  then have "bound_owner (ps_community ses) owner (t_tenant_id t)" using ok by (auto simp: tables_ok_defs)
  moreover note bound = policy_bound [OF pol owner]
  ultimately have "t_tenant_id t = ps_tenant ses" by (auto simp: bound_owner_def split: if_splits)
  then have "pg_is_tombstoned ses owner mid tb = Inr True"
    using t pol bound(2) owner by (simp add: pg_is_tombstoned_def list_ex_iff bound_to_def) (metis (full_types))
  with not show False by simp
qed

lemma kept_iter:
  assumes "tables_ok (ps_community ses) tb" "act_iter f xs tb = (Inr u, tb')"
    and "\<And>x a v b. x \<in> set xs \<Longrightarrow> tables_ok (ps_community ses) a \<Longrightarrow> f x a = (Inr v, b) \<Longrightarrow> kept ses a b"
  shows "kept ses tb tb'"
  using assms(2) kept_refl [OF assms(1)]
proof (rule act_iter_invariant [where P = "kept ses tb"])
  fix x a b v
  assume "x \<in> set xs" "kept ses tb a" "f x a = (Inr v, b)"
  then show "kept ses tb b" using assms(3) kept_step by blast
qed

lemma import_parts_kept:
  assumes ok: "tables_ok (ps_community ses) tb" and call: "import_parts env ses record vec tb = (Inr u, tb')"
  shows "kept ses tb tb'"
proof -
  from call obtain t x tb1 versions where s: "insert_embedding ses t x tb = (Inr (), tb1)"
      "act_iter (insert_version ses) versions tb1 = (Inr u, tb')"
    by (auto simp: import_parts_def bind_simps)
  from kept_statements(2) [OF ok s(1)] show ?thesis
    by (rule kept_step) (erule kept_iter [OF _ s(2)], erule (1) kept_statements(1))
qed

lemma pg_import_one_run:
  assumes "pg_import_one env ses x tb = (Inr new, tb')"
  obtains (replay) b r current where "pg_assert_owner ses (m_owner_id (xr_memory x)) = Inr b"
      "pg_is_tombstoned ses (m_owner_id (xr_memory x)) (m_id (xr_memory x)) tb = Inr False"
      "memory_values env ses (xr_memory x) (xr_write_fingerprint x) = Inr r"
      "insert_memories ses OnId r tb = (Inr False, tb)" "\<not> new" "tb' = tb"
      "pg_get env ses (m_owner_id (xr_memory x)) (m_id (xr_memory x)) tb = Inr (Some current)" "memory_eq current (xr_memory x)"
  | (imported) b r tb1 vec where "pg_assert_owner ses (m_owner_id (xr_memory x)) = Inr b"
      "pg_is_tombstoned ses (m_owner_id (xr_memory x)) (m_id (xr_memory x)) tb = Inr False"
      "memory_values env ses (xr_memory x) (xr_write_fingerprint x) = Inr r"
      "insert_memories ses OnId r tb = (Inr True, tb1)" "new" "xr_embedding x = Some vec"
      "import_parts env ses x vec tb1 = (Inr (), tb')"
proof -
  from assms obtain b r inserted tb1 where s: "pg_assert_owner ses (m_owner_id (xr_memory x)) = Inr b"
      "pg_is_tombstoned ses (m_owner_id (xr_memory x)) (m_id (xr_memory x)) tb = Inr False"
      "memory_values env ses (xr_memory x) (xr_write_fingerprint x) = Inr r"
      and ins: "insert_memories ses OnId r tb = (Inr inserted, tb1)"
      and rest: "(if \<not> inserted then
       act_bind (act_getr (pg_get env ses (m_owner_id (xr_memory x)) (m_id (xr_memory x)))) (\<lambda>current.
       act_bind (act_guard (case current of None \<Rightarrow> False | Some c \<Rightarrow> memory_eq c (xr_memory x)) (PgDomain ImportConflictError)) (\<lambda>_.
       act_return False))
     else (case xr_embedding x of
         None \<Rightarrow> act_raise (PgDomain ImportConflictError)
       | Some vec \<Rightarrow>
           act_bind (integrity_as ImportConflictError (import_parts env ses x vec)) (\<lambda>_.
           act_return True))) tb1 = (Inr new, tb')"
    unfolding pg_import_one_def Let_def act_bind_Inr act_basic_Inr integrity_as_Inr by auto
  show thesis
  proof (cases inserted)
    case True
    then have "insert_memories ses OnId r tb = (Inr True, tb1)" using ins by simp
    moreover from rest True obtain vec where "xr_embedding x = Some vec" "import_parts env ses x vec tb1 = (Inr (), tb')" "new"
      by (auto simp: bind_simps split: option.splits)
    ultimately show thesis using imported s by blast
  next
    case False
    then have ins': "insert_memories ses OnId r tb = (Inr False, tb1)" using ins by simp
    then have tb1: "tb1 = tb" by (rule insert_memories_False)
    from rest False obtain current where "pg_get env ses (m_owner_id (xr_memory x)) (m_id (xr_memory x)) tb1 = Inr (Some current)"
        "memory_eq current (xr_memory x)" "\<not> new" "tb' = tb1"
      by (auto simp: bind_simps split: option.splits)
    with replay s ins' show thesis unfolding tb1 by blast
  qed
qed

lemma pg_import_one_kept:
  assumes ok: "tables_ok (ps_community ses) tb" and call: "pg_import_one env ses x tb = (Inr new, tb')"
  shows "kept ses tb tb'"
  using call
proof (cases rule: pg_import_one_run)
  case replay
  then show ?thesis using kept_refl [OF ok] by simp
next
  case (imported b r tb1 vec)
  then have "policy ses (ps_tenant ses)" using memory_values_Inr(3) [OF imported(3)] by (auto simp: insert_memories_True)
  from not_tombstoned [OF ok imported(1) this imported(2)] have "kept ses tb tb1"
    by (rule insert_memories_kept [OF ok imported(3) _ imported(4)])
  then show ?thesis by (rule kept_step) (rule import_parts_kept [OF _ imported(7)])
qed

lemma pg_import_records_kept:
  "tables_ok (ps_community ses) tb \<Longrightarrow> pg_import_records env ses items i j tb = (Inr res, tb') \<Longrightarrow> kept ses tb tb'"
proof (induction items arbitrary: i j tb)
  case Nil
  then show ?case by (simp add: bind_simps kept_refl)
next
  case (Cons x items)
  then obtain new tb1 i' j' where "pg_import_one env ses x tb = (Inr new, tb1)"
      and rest: "pg_import_records env ses items i' j' tb1 = (Inr res, tb')"
    by (auto simp: bind_simps split: if_splits)
  then have "kept ses tb tb1" using pg_import_one_kept Cons.prems(1) by blast
  then show ?case by (rule kept_step) (rule Cons.IH [OF _ rest])
qed

lemma pg_import_kept:
  assumes ok: "tables_ok (ps_community ses) tb" and call: "pg_import_memories env ses items tb = (Inr res, tb')"
  shows "kept ses tb tb'"
proof -
  from call obtain tb1 where s: "pg_import_records env ses items 0 0 tb = (Inr res, tb1)"
      "act_iter (\<lambda>r. insert_relation ses True (relation_values ses r)) (new_edges {} (concat (map xr_relations items))) tb1 = (Inr (), tb')"
    by (auto simp: pg_import_memories_def bind_simps)
  from pg_import_records_kept [OF ok s(1)] show ?thesis
    by (rule kept_step) (erule kept_iter [OF _ s(2)], erule (1) kept_statements(4))
qed

section \<open>Key rotation\<close>

lemma res_map_projr: "res_map f xs = Inr ys \<Longrightarrow> ys = map (\<lambda>x. projr (f x)) xs \<and> (\<forall>x\<in>set xs. f x = Inr (projr (f x)))"
  by (induction xs arbitrary: ys) (auto simp: act_simps)

lemma rewrap_memory_Inr:
  assumes "rewrap_memory env ses key r = Inr r'"
  shows "r' = r \<or> (policy ses (r_tenant_id r) \<and> memories_fits r' \<and> (\<exists>m f. r' = set_cloud_fields f r \<and> memory_from_row env ses r = Inr m \<and>
     cloud_fields env ses ''memories'' (m_id m) (m_version m) (m_content m) (m_provenance m) key = Inr f))"
  using assms by (auto simp: rewrap_memory_def act_simps split: if_splits)

lemma rewrap_version_Inr:
  assumes "rewrap_version env ses key v = Inr v'"
  shows "v' = v \<or> (policy ses (v_tenant_id v) \<and> (\<exists>mv f. v' = set_version_fields f v \<and> version_from_row env ses v = Inr mv \<and>
     cloud_fields env ses ''memory_versions'' (mv_memory_id mv) (mv_version mv) (mv_content mv) (mv_provenance mv) key = Inr f))"
  using assms by (auto simp: rewrap_version_def act_simps split: if_splits)

lemma cloud_fields_check:
  assumes "cloud_fields env ses table rid version content prov key = Inr f" "ps_tenant ses \<noteq> None"
  shows "content_check (cf_plain f) (cf_sealed f)"
  using assms by (auto simp: cloud_fields_def act_simps content_check_def split: option.splits)

lemma rewrap_memory_fields:
  assumes "rewrap_memory env ses key r = Inr r'" "ps_tenant ses \<noteq> None" "memories_fits r" "memories_check r"
  shows "r_id r' = r_id r \<and> r_owner_id r' = r_owner_id r \<and> r_tenant_id r' = r_tenant_id r \<and>
     r_idempotency_key r' = r_idempotency_key r \<and> r_version r' = r_version r \<and> memories_fits r' \<and> memories_check r' \<and>
     (\<not> policy ses (r_tenant_id r) \<longrightarrow> r' = r)"
  using rewrap_memory_Inr [OF assms(1)] assms(2-4) cloud_fields_check
  by (auto simp: set_cloud_fields_def memories_check_def)

lemma rewrap_version_fields:
  "rewrap_version env ses key v = Inr v' \<Longrightarrow> v_memory_id v' = v_memory_id v \<and> v_tenant_id v' = v_tenant_id v \<and>
     (\<not> policy ses (v_tenant_id v) \<longrightarrow> v' = v)"
  by (drule rewrap_version_Inr) (auto simp: set_version_fields_def)

lemma pg_rewrap_run:
  assumes "pg_rewrap_envelopes env ses key tb = (Inr n, tb')"
  shows "ps_tenant ses \<noteq> None" "1 \<le> key"
    and "\<forall>r\<in>set (tb_memories tb). rewrap_memory env ses key r = Inr (projr (rewrap_memory env ses key r))"
    and "\<forall>v\<in>set (tb_versions tb). rewrap_version env ses key v = Inr (projr (rewrap_version env ses key v))"
    and "tb' = tb\<lparr>tb_memories := map (\<lambda>r. projr (rewrap_memory env ses key r)) (tb_memories tb),
                 tb_versions := map (\<lambda>v. projr (rewrap_version env ses key v)) (tb_versions tb)\<rparr>"
  using assms by (auto simp: pg_rewrap_envelopes_def bind_simps dest!: res_map_projr)

lemma pg_rewrap_kept:
  assumes ok: "tables_ok (ps_community ses) tb" and call: "pg_rewrap_envelopes env ses key tb = (Inr n, tb')"
  shows "kept ses tb tb'"
proof -
  note run = pg_rewrap_run [OF call]
  define f where "f r = projr (rewrap_memory env ses key r)" for r
  define g where "g v = projr (rewrap_version env ses key v)" for v
  have f: "r_id (f r) = r_id r \<and> r_owner_id (f r) = r_owner_id r \<and> r_tenant_id (f r) = r_tenant_id r \<and>
      r_idempotency_key (f r) = r_idempotency_key r \<and> r_version (f r) = r_version r \<and> memories_fits (f r) \<and> memories_check (f r) \<and>
      (\<not> policy ses (r_tenant_id r) \<longrightarrow> f r = r)" if "r \<in> set (tb_memories tb)" for r
    using rewrap_memory_fields [of env ses key r "f r"] run(1,3) that ok by (simp add: tables_ok_defs f_def)
  have g: "v_memory_id (g v) = v_memory_id v \<and> v_tenant_id (g v) = v_tenant_id v \<and> (\<not> policy ses (v_tenant_id v) \<longrightarrow> g v = v)"
    if "v \<in> set (tb_versions tb)" for v
    using rewrap_version_fields [of env ses key v "g v"] run(4) that by (simp add: g_def)
  let ?tb1 = "tb\<lparr>tb_memories := map f (tb_memories tb)\<rparr>"
  have tb': "tb' = ?tb1\<lparr>tb_versions := map g (tb_versions tb)\<rparr>" using run(5) by (simp add: f_def [abs_def] g_def [abs_def])
  have "tables_ok (ps_community ses) ?tb1" by (rule map_memories_ok [OF ok]) (use f in blast)
  then have "tables_ok (ps_community ses) tb'"
    unfolding tb' using g by (simp add: tables_ok_defs stored_for_def row_owned_def tombstoned_def)
  moreover have "foreign_rows ses tb' = foreign_rows ses tb"
    unfolding tb' foreign_rows_def using f g by (simp, intro conjI filter_map_kept) auto
  moreover have "grown tb tb'" unfolding tb' grown_def using f by (auto simp: tombstoned_def)
  ultimately show ?thesis by (simp add: kept_def)
qed

section \<open>Transactions\<close>

text \<open>
  One call of a repository that returns. A created memory has an identifier of \<open>uuid4\<close>, which no tombstone
  names; an updated memory has a later version than the expected one, as \<open>evolve\<close> gives it.
\<close>

inductive pg_call :: "PgSession \<Rightarrow> PgTables \<Rightarrow> PgTables \<Rightarrow> bool" for ses where
  create: "pg_create env ses m fp vec tb = (Inr res, tb') \<Longrightarrow> \<not> tombstoned tb (m_owner_id m) (m_id m) \<Longrightarrow> pg_call ses tb tb'"
| update: "pg_update env ses m ev snapshot vec tb = (Inr m', tb') \<Longrightarrow> ev < m_version m \<Longrightarrow> pg_call ses tb tb'"
| forget: "pg_forget env ses owner mid tb = (Inr b, tb') \<Longrightarrow> pg_call ses tb tb'"
| relate: "pg_add_relation env ses relation tb = (Inr r, tb') \<Longrightarrow> pg_call ses tb tb'"
| claim: "pg_claim env ses owner optype key fp tb = (Inr c, tb') \<Longrightarrow> pg_call ses tb tb'"
| complete: "pg_complete env ses c mid v st tb = (Inr u, tb') \<Longrightarrow> pg_call ses tb tb'"
| restore: "pg_import_memories env ses items tb = (Inr i, tb') \<Longrightarrow> pg_call ses tb tb'"
| rewrap: "pg_rewrap_envelopes env ses key tb = (Inr n, tb') \<Longrightarrow> pg_call ses tb tb'"

definition pg_transaction :: "PgSession \<Rightarrow> PgTables \<Rightarrow> PgTables \<Rightarrow> bool" where
  "pg_transaction ses tb tb' \<longleftrightarrow> (ps_community ses \<or> ps_tenant ses \<noteq> None) \<and> (pg_call ses)\<^sup>*\<^sup>* tb tb'"

text \<open>Committed transactions of a deployment, which is in community mode or not.\<close>

definition pg_step :: "bool \<Rightarrow> PgTables \<Rightarrow> PgTables \<Rightarrow> bool" where
  "pg_step c tb tb' \<longleftrightarrow> (\<exists>ses. ps_community ses = c \<and> pg_transaction ses tb tb')"

lemma pg_call_kept: "pg_call ses tb tb' \<Longrightarrow> tables_ok (ps_community ses) tb \<Longrightarrow> kept ses tb tb'"
proof (induction rule: pg_call.induct)
  case create
  then show ?case using pg_create_kept by blast
next
  case update
  then show ?case using pg_update_kept less_imp_le by blast
next
  case forget
  then show ?case using pg_forget_kept by blast
next
  case relate
  then show ?case using pg_add_relation_kept by blast
next
  case claim
  then show ?case using kept_log pg_claim_frame by blast
next
  case complete
  then show ?case using kept_log pg_complete_frame by blast
next
  case restore
  then show ?case using pg_import_kept by blast
next
  case rewrap
  then show ?case using pg_rewrap_kept by blast
qed

lemma pg_transaction_kept:
  assumes "pg_transaction ses tb tb'" "tables_ok (ps_community ses) tb"
  shows "kept ses tb tb'"
proof -
  have "(pg_call ses)\<^sup>*\<^sup>* tb tb'" using assms(1) by (simp add: pg_transaction_def)
  then show ?thesis
  proof (induction rule: rtranclp_induct)
    case base
    show ?case by (rule kept_refl [OF assms(2)])
  next
    case (step a b)
    from step(3) show ?case by (rule kept_step) (rule pg_call_kept [OF step(2)])
  qed
qed

definition pg_ver :: "string \<times> uuid \<Rightarrow> PgTables \<Rightarrow> int option" where
  "pg_ver k tb = map_option r_version (find (\<lambda>r. (r_owner_id r, r_id r) = k) (tb_memories tb))"

definition pg_dead :: "string \<times> uuid \<Rightarrow> PgTables \<Rightarrow> bool" where
  "pg_dead k tb = tombstoned tb (fst k) (snd k)"

lemma pg_ver_Some:
  assumes "tables_ok c tb"
  shows "pg_ver (owner, mid) tb = Some n \<longleftrightarrow> (\<exists>r\<in>set (tb_memories tb). r_owner_id r = owner \<and> r_id r = mid \<and> r_version r = n)"
proof
  assume "pg_ver (owner, mid) tb = Some n"
  then show "\<exists>r\<in>set (tb_memories tb). r_owner_id r = owner \<and> r_id r = mid \<and> r_version r = n"
    by (auto simp: pg_ver_def dest!: find_SomeD)
next
  assume "\<exists>r\<in>set (tb_memories tb). r_owner_id r = owner \<and> r_id r = mid \<and> r_version r = n"
  then obtain r where r: "r \<in> set (tb_memories tb)" "r_owner_id r = owner" "r_id r = mid" "r_version r = n" by blast
  have "distinct (map (\<lambda>r. (r_owner_id r, r_id r)) (tb_memories tb))"
    using assms by (auto simp: tables_ok_defs distinct_map inj_on_def)
  from find_distinct [OF this r(1)] r(2-4) show "pg_ver (owner, mid) tb = Some n" by (simp add: pg_ver_def)
qed

interpretation pg_store: versioned_store "tables_ok c" "pg_step c" pg_ver pg_dead for c
proof
  fix tb tb' k n
  assume ok: "tables_ok c tb"
  show "\<not> pg_ver k tb \<noteq> None" if "pg_dead k tb"
  proof (rule ccontr)
    assume "\<not> \<not> pg_ver k tb \<noteq> None"
    then obtain r where "r \<in> set (tb_memories tb)" "(r_owner_id r, r_id r) = k"
      by (auto simp: pg_ver_def dest!: find_SomeD)
    with that ok show False by (auto simp: pg_dead_def tables_ok_defs)
  qed
  assume "pg_step c tb tb'"
  then obtain ses where ses: "ps_community ses = c" and tx: "pg_transaction ses tb tb'" by (auto simp: pg_step_def)
  note kept = pg_transaction_kept [OF tx, unfolded ses, OF ok, unfolded kept_def ses]
  show "tables_ok c tb'" using kept by simp
  show "pg_dead k tb'" if "pg_dead k tb" using kept that by (simp add: grown_def pg_dead_def)
  show "pg_dead k tb' \<or> (\<exists>m\<ge>n. pg_ver k tb' = Some m)" if "pg_ver k tb = Some n"
  proof -
    obtain owner mid where k: "k = (owner, mid)" by (cases k)
    from that obtain r where r: "r \<in> set (tb_memories tb)" "r_owner_id r = owner" "r_id r = mid" "r_version r = n"
      unfolding k pg_ver_Some [OF ok] by blast
    with kept have "tombstoned tb' owner mid \<or> (\<exists>r'\<in>set (tb_memories tb'). r_owner_id r' = owner \<and> r_id r' = mid \<and> n \<le> r_version r')"
      unfolding grown_def by blast
    then show ?thesis unfolding k pg_dead_def using pg_ver_Some [of c tb' owner mid] kept by auto
  qed
qed

end
