(* ===== verification/Postgres_Fixtures.thy ===== *)
theory Postgres_Fixtures
  imports Postgres_Steps Codec_Properties Token_Properties
begin

text \<open>
  Concrete environments, memories and databases on which the hypotheses of the PostgreSQL properties hold: a
  community database with one memory that is created, updated and forgotten, and a database shared by two
  tenants with an encrypted memory each.
\<close>

section \<open>Calls that succeed\<close>

text \<open>A call returns when its rows fit their tables and conflict with no stored row.\<close>

lemma pg_audit_new:
  assumes "policy ses (ps_tenant ses)" "tenant_known tb (ps_tenant ses)" "\<forall>a\<in>set (tb_audit tb). a_id a \<noteq> pe_uuid4 env 0"
  obtains tb' where "pg_audit env ses action owner mid tb = (Inr (), tb')"
    "a_id ` set (tb_audit tb') \<subseteq> insert (pe_uuid4 env 0) (a_id ` set (tb_audit tb))"
proof (cases "ps_tenant ses")
  case None
  then show thesis using that [of tb] by (simp add: pg_audit_def act_simps subset_insertI)
next
  case (Some t)
  have "tenant_policy ses t" using assms(1) Some by (auto simp: policy_def tenant_policy_def)
  with Some assms(2,3) show thesis
    using that by (simp add: pg_audit_def act_simps row_allowed_def list_ex_iff tenant_known_def opt_holds_def)
qed

lemma pg_create_new:
  assumes r: "memory_values env ses m (Some fp) = Inr r" "memories_fits r" "memories_check r"
    and ses: "policy ses (ps_tenant ses)" "tenant_known tb (ps_tenant ses)"
    and x: "memory_dimension m = 64" "embedding_values env ses m vec = Inr x" "embeddings_fits 64 x"
    and v: "version_values env ses (memory_snapshot m ''created'') = Inr v" "versions_fits v" "versions_check v"
    and new: "\<forall>y\<in>set (tb_memories tb). \<not> same_id r y \<and> \<not> same_key r y" "\<forall>y\<in>set (tb_embeddings tb). x_memory_id y \<noteq> m_id m"
      "\<forall>w\<in>set (tb_versions tb). v_memory_id w \<noteq> m_id m" "\<forall>a\<in>set (tb_audit tb). a_id a \<noteq> pe_uuid4 env 0"
  obtains tb' where "pg_create env ses m fp vec tb = (Inr \<lparr>cr_memory = m, cr_created = True\<rparr>, tb')"
    "tb_memories tb' = tb_memories tb @ [r]" "tb_embeddings tb' = tb_embeddings tb @ [x]" "tb_versions tb' = tb_versions tb @ [v]"
    "tb_tenants tb' = tb_tenants tb" "tb_tombstones tb' = tb_tombstones tb" "a_id ` set (tb_audit tb') \<subseteq> insert (pe_uuid4 env 0) (a_id ` set (tb_audit tb))"
proof -
  note row = memory_values_Inr [OF r(1)]
  obtain b where b: "pg_assert_owner ses (m_owner_id m) = Inr b" using row(7) by blast
  have xv: "x_memory_id x = m_id m" "x_tenant_id x = ps_tenant ses" using x(2) by (auto simp: embedding_values_def split: option.splits)
  have vv: "v_memory_id v = m_id m" "v_tenant_id v = ps_tenant ses"
    using v(1) by (auto simp: version_values_def act_simps set_version_fields_def memory_snapshot_def)
  have ins: "integrity_as IdempotencyConflictError (insert_memories ses target r) tb = (Inr True, tb\<lparr>tb_memories := tb_memories tb @ [r]\<rparr>)" for target
    using r(2,3) new(1) ses row(3) by (simp add: integrity_as_Inr insert_memories_True)
  let ?tb1 = "tb\<lparr>tb_memories := tb_memories tb @ [r]\<rparr>"
  let ?tb2 = "?tb1\<lparr>tb_embeddings := tb_embeddings tb @ [x]\<rparr>"
  let ?tb3 = "?tb2\<lparr>tb_versions := tb_versions tb @ [v]\<rparr>"
  have refers: "refers_to_memory t (m_id m) (ps_tenant ses)" if "tb_memories t = tb_memories tb @ [r]" for t
    using row that by (simp add: refers_to_memory_def)
  have e: "insert_embedding ses HashTable x ?tb1 = (Inr (), ?tb2)"
    using x(3) ses(1) xv new(2) refers [of ?tb1] by (auto simp: insert_embedding_Inr list_ex_iff)
  have vs: "insert_version ses v ?tb2 = (Inr (), ?tb3)"
    using v(2,3) ses(1) vv new(3) refers [of ?tb2] by (auto simp: insert_version_Inr list_ex_iff)
  from pg_audit_new [of ses ?tb3 env "''memory.write''" "m_owner_id m" "m_id m"] ses new(4)
  obtain tb' where a: "pg_audit env ses ''memory.write'' (m_owner_id m) (m_id m) ?tb3 = (Inr (), tb')"
      "a_id ` set (tb_audit tb') \<subseteq> insert (pe_uuid4 env 0) (a_id ` set (tb_audit tb))"
    by (auto simp: tenant_known_def)
  have t: "embedding_table (memory_dimension m) = Inr HashTable" using x(1) by (simp add: embedding_table_def)
  have "pg_create env ses m fp vec tb = (Inr \<lparr>cr_memory = m, cr_created = True\<rparr>, tb')"
    by (simp add: pg_create_def act_bind_run act_run b r(1) ins t x(2) e v(1) vs a(1))
  with that a(2) pg_audit_frame [OF a(1)] show thesis by (simp add: log_frame_def)
qed

section \<open>Memories and environments\<close>

definition ex_pg_vector :: "pyfloat list" where
  "ex_pg_vector = 1 # replicate 63 0"

definition ex_pg_memory :: "string \<Rightarrow> uuid \<Rightarrow> Memory" where
  "ex_pg_memory owner mid = ex_codec_memory\<lparr>m_id := mid, m_owner_id := owner, m_version := 1, m_tenant_id := None,
     m_embedding := Some \<lparr>ed_profile_id = ''hash'', ed_profile_version = ''1'', ed_dimension = 64, ed_metric = ''cosine''\<rparr>\<rparr>"

text \<open>The two envelopes of the memory of tenant 5, whose texts the environment tells apart by their lengths.\<close>

definition ex_pg_key :: kms where
  "ex_pg_key = LocalKMS (replicate 16 (CHR ''a''))"

definition ex_pg_envelope :: "uuid \<Rightarrow> uuid \<Rightarrow> string \<Rightarrow> string \<Rightarrow> EnvelopeCiphertext" where
  "ex_pg_envelope tenant rid field plain = \<lparr>key_version = 1,
     wrapped_dek = replicate 12 (CHR ''m'') @ replicate 32 (CHR ''k'') @ ex_tag (kms_aad tenant 1),
     nonce_bytes = replicate 12 (CHR ''n''), ciphertext = utf8_encode plain @ ex_tag (content_aad tenant rid field 1)\<rparr>"

definition ex_pg_content :: EnvelopeCiphertext where "ex_pg_content = ex_pg_envelope 5 7 ''content'' ''likes tea''"
definition ex_pg_provenance :: EnvelopeCiphertext where "ex_pg_provenance = ex_pg_envelope 5 7 ''provenance'' ''v''"

fun ex_pg_dumps :: "json \<Rightarrow> string" where
  "ex_pg_dumps (JObj ((k, JStr c) # rest)) = (if length c = 36 then ''c'' else ''p'')"
| "ex_pg_dumps j = ''v''"

definition ex_pg_provenance_json :: json where
  "ex_pg_provenance_json = pg_provenance_to_json (ex_provenance\<lparr>pv_evidence := [''a'', ''b'']\<rparr>)"

definition ex_pg_text :: TokenEnv where
  "ex_pg_text = \<lparr>te_mac = (\<lambda>k m. rev m @ k), te_sha = (\<lambda>b. b), te_dumps = ex_pg_dumps,
     te_loads = (\<lambda>b. if b = ''c'' then Some (envelope_payload ex_pg_content)
        else if b = ''p'' then Some (envelope_payload ex_pg_provenance) else Some ex_pg_provenance_json),
     te_unb64 = (\<lambda>s. Some (if length s = 80 then wrapped_dek ex_pg_content else if length s = 16 then nonce_bytes ex_pg_content
        else if length s = 36 then ciphertext ex_pg_content else ciphertext ex_pg_provenance)),
     te_codec = ex_codec_env, te_now = ex_now\<rparr>"

definition ex_pg_env :: "uuid \<Rightarrow> PgEnv" where
  "ex_pg_env n = \<lparr>pe_text = ex_pg_text, pe_dumps = (\<lambda>j. ''v''), pe_aead = ex_aead, pe_encryptor = Some ex_pg_key,
     pe_draw = (\<lambda>table rid version field. ex_entropy), pe_uuid4 = (\<lambda>i. n + of_nat i), pe_float4 = (\<lambda>x. x),
     pe_similarity = cosine_similarity\<rparr>"

lemma ex_pg_env_simps [simp]:
  "pe_text (ex_pg_env n) = ex_pg_text" "pe_dumps (ex_pg_env n) j = ''v''" "pe_aead (ex_pg_env n) = ex_aead"
  "pe_encryptor (ex_pg_env n) = Some ex_pg_key" "pe_draw (ex_pg_env n) table rid version field = ex_entropy"
  "pe_uuid4 (ex_pg_env n) 0 = n" "pe_float4 (ex_pg_env n) x = x" "te_codec ex_pg_text = ex_codec_env"
  by (simp_all add: ex_pg_env_def ex_pg_text_def)

lemma ex_pg_seals:
  "field \<noteq> [] \<Longrightarrow> CHR ''/'' \<notin> set field \<Longrightarrow>
     encryptor_encrypt ex_aead ex_pg_key ex_entropy tenant rid field plain 1 = Inr (ex_pg_envelope tenant rid field plain)"
  by (simp add: encryptor_encrypt_def kms_wrap_def local_wrap_def ex_pg_key_def ex_entropy_def ex_aead_def ex_pg_envelope_def)

lemma ex_pg_lengths:
  "length (wrapped_dek ex_pg_content) = 60" "length (nonce_bytes ex_pg_content) = 12"
  "length (ciphertext ex_pg_content) = 25" "length (ciphertext ex_pg_provenance) = 17"
  by (simp_all add: ex_pg_content_def ex_pg_provenance_def ex_pg_envelope_def ex_tag_def)

lemma ex_pg_shared_parts:
  "wrapped_dek ex_pg_provenance = wrapped_dek ex_pg_content" "nonce_bytes ex_pg_provenance = nonce_bytes ex_pg_content"
  by (simp_all add: ex_pg_content_def ex_pg_provenance_def ex_pg_envelope_def)

lemma ex_pg_reads:
  "envelope_decode ex_pg_text (envelope_encode ex_pg_text ex_pg_content) = Inr ex_pg_content"
  "envelope_decode ex_pg_text (envelope_encode ex_pg_text ex_pg_provenance) = Inr ex_pg_provenance"
proof -
  note parts = ex_pg_lengths ex_pg_shared_parts length_b64_text
  show "envelope_decode ex_pg_text (envelope_encode ex_pg_text ex_pg_content) = Inr ex_pg_content"
    by (rule envelope_text)
      (simp_all add: ex_pg_text_def envelope_payload_def parts envelope_lengths_def, simp add: ex_pg_content_def ex_pg_envelope_def)
  show "envelope_decode ex_pg_text (envelope_encode ex_pg_text ex_pg_provenance) = Inr ex_pg_provenance"
    by (rule envelope_text)
      (simp_all add: ex_pg_text_def envelope_payload_def parts envelope_lengths_def, simp add: ex_pg_provenance_def ex_pg_envelope_def)
qed

lemma ex_pg_memory_ok:
  assumes "owner_id_ok owner"
  shows "memory_ok (ex_pg_memory owner mid)" "parts_ok (ex_pg_memory owner mid)"
  using ex_codec_memory_ok assms by (auto simp: memory_ok_def parts_ok_def ex_pg_memory_def ex_codec_memory_def
    embedding_descriptor_post_init_def)

lemma ex_pg_times: "reads_back ex_codec_env {ex_now}"
  by (simp add: reads_back_def ex_codec_env_def)

section \<open>Running the calls\<close>

lemma ex_pg_dumps_cases: "ex_pg_dumps j = ''c'' \<or> ex_pg_dumps j = ''p'' \<or> ex_pg_dumps j = ''v''"
  by (cases j rule: ex_pg_dumps.cases) simp_all

lemma ex_pg_fields:
  obtains f where "cloud_fields (ex_pg_env n) ses table rid version content (ex_provenance\<lparr>pv_evidence := [''a'', ''b'']\<rparr>) 1 = Inr f"
    and "opt_holds no_nul (cf_plain f) \<or> \<not> no_nul content" "opt_holds no_nul (cf_sealed f)" "opt_holds json_no_nul (cf_provenance f)"
      "opt_holds no_nul (cf_provenance_sealed f)" "content_check (cf_plain f) (cf_sealed f) \<or> \<not> trim_nonempty content"
proof (cases "ps_tenant ses")
  case None
  have "json_no_nul ex_pg_provenance_json" by code_simp
  then show thesis using that None
    by (simp add: cloud_fields_def opt_holds_def content_check_def ex_pg_provenance_json_def)
next
  case (Some t)
  have seal: "seal_field (ex_pg_env n) ex_pg_key t table rid version field plain 1 = Inr (ex_pg_dumps (envelope_payload (ex_pg_envelope t rid field plain)))"
    if "field \<noteq> []" "CHR ''/'' \<notin> set field" for field plain
    using that by (simp add: seal_field_def ex_pg_seals as_cloud_def envelope_encode_def ex_pg_text_def)
  have "no_nul (ex_pg_dumps j)" for j using ex_pg_dumps_cases [of j] by (auto simp: no_nul_def)
  then show thesis using that Some by (simp add: cloud_fields_def seal opt_holds_def content_check_def)
qed

lemma ex_pg_rows:
  fixes owner :: string and m :: Memory
  assumes m: "m = (ex_pg_memory owner mid)\<lparr>m_content := content, m_version := version\<rparr>" "no_nul content" "trim_nonempty content" "1 \<le> version" "int4 version"
    and owner: "pg_assert_owner ses owner = Inr b" "varchar 256 owner" "trim_nonempty owner" and fp: "opt_holds (varchar 64) fp"
    and reason: "varchar 256 reason"
  obtains r v x where "memory_values (ex_pg_env n) ses m fp = Inr r" "memories_fits r" "memories_check r"
    "version_values (ex_pg_env n) ses (memory_snapshot m reason) = Inr v" "versions_fits v" "versions_check v"
    "embedding_values (ex_pg_env n) ses m ex_pg_vector = Inr x" "embeddings_fits 64 x"
proof -
  let ?p = "ex_provenance\<lparr>pv_evidence := [''a'', ''b'']\<rparr>"
  obtain f where f: "cloud_fields (ex_pg_env n) ses ''memories'' mid version content ?p 1 = Inr f"
      "opt_holds no_nul (cf_plain f)" "opt_holds no_nul (cf_sealed f)" "opt_holds json_no_nul (cf_provenance f)"
      "opt_holds no_nul (cf_provenance_sealed f)" "content_check (cf_plain f) (cf_sealed f)"
    using ex_pg_fields [of n ses "''memories''" mid version content] m(2,3) by metis
  obtain g where g: "cloud_fields (ex_pg_env n) ses ''memory_versions'' mid version content ?p 1 = Inr g"
      "opt_holds no_nul (cf_plain g)" "opt_holds no_nul (cf_sealed g)" "opt_holds json_no_nul (cf_provenance g)"
      "opt_holds no_nul (cf_provenance_sealed g)" "content_check (cf_plain g) (cf_sealed g)"
    using ex_pg_fields [of n ses "''memory_versions''" mid version content] m(2,3) by metis
  have consent: "opt_holds json_no_nul (pg_consent_to_json (Some ex_consent))" by code_simp
  have texts: "varchar 64 ''fact''" "varchar 32 ''active''" "opt_holds (varchar 256) (Some ''home'')" "opt_holds (varchar 256) (Some ''k1'')"
      "varchar 128 ''hash''" "varchar 128 ''1''" "varchar 32 ''cosine''" "''fact'' \<in> set check_memory_types" "''active'' \<in> set check_states"
    by code_simp+
  have vec: "length ex_pg_vector = 64" "int4 64" by (simp_all add: ex_pg_vector_def int4_def)
  note defs = m(1) ex_pg_memory_def ex_codec_memory_def
  have "\<exists>r. memory_values (ex_pg_env n) ses m fp = Inr r \<and> memories_fits r \<and> memories_check r"
    using f owner fp consent texts m(4,5) vec(2)
    by (simp add: memory_values_def defs set_cloud_fields_def memories_fits_def memories_check_def)
  moreover have "\<exists>v. version_values (ex_pg_env n) ses (memory_snapshot m reason) = Inr v \<and> versions_fits v \<and> versions_check v"
    using g reason consent texts m(4,5)
    by (simp add: version_values_def defs memory_snapshot_def set_version_fields_def versions_fits_def versions_check_def)
  moreover have "\<exists>x. embedding_values (ex_pg_env n) ses m ex_pg_vector = Inr x \<and> embeddings_fits 64 x"
    using texts vec by (simp add: embedding_values_def defs embeddings_fits_def opt_holds_def)
  ultimately show thesis using that by blast
qed

lemma ex_pg_memory_same: "ex_pg_memory owner mid = (ex_pg_memory owner mid)\<lparr>m_content := ''likes tea'', m_version := 1\<rparr>"
  by (simp add: ex_pg_memory_def ex_codec_memory_def)

lemma ex_pg_create:
  assumes owner: "pg_assert_owner ses owner = Inr b" "varchar 256 owner" "trim_nonempty owner"
    and ses: "policy ses (ps_tenant ses)" "tenant_known tb (ps_tenant ses)"
    and new: "\<forall>y\<in>set (tb_memories tb). r_id y \<noteq> mid \<and> r_owner_id y \<noteq> owner" "\<forall>y\<in>set (tb_embeddings tb). x_memory_id y \<noteq> mid"
      "\<forall>w\<in>set (tb_versions tb). v_memory_id w \<noteq> mid" "\<forall>a\<in>set (tb_audit tb). a_id a \<noteq> n"
  obtains tb' r x v where "pg_create (ex_pg_env n) ses (ex_pg_memory owner mid) ''sha'' ex_pg_vector tb = (Inr \<lparr>cr_memory = ex_pg_memory owner mid, cr_created = True\<rparr>, tb')"
    "memory_values (ex_pg_env n) ses (ex_pg_memory owner mid) (Some ''sha'') = Inr r" "embedding_values (ex_pg_env n) ses (ex_pg_memory owner mid) ex_pg_vector = Inr x"
    "version_values (ex_pg_env n) ses (memory_snapshot (ex_pg_memory owner mid) ''created'') = Inr v"
    "tb_memories tb' = tb_memories tb @ [r]" "tb_embeddings tb' = tb_embeddings tb @ [x]" "tb_versions tb' = tb_versions tb @ [v]"
    "tb_tenants tb' = tb_tenants tb" "tb_tombstones tb' = tb_tombstones tb" "a_id ` set (tb_audit tb') \<subseteq> insert n (a_id ` set (tb_audit tb))"
proof -
  have small: "no_nul ''likes tea''" "trim_nonempty ''likes tea''" "opt_holds (varchar 64) (Some ''sha'')" "varchar 256 ''created''" "int4 1"
    by code_simp+
  obtain r v x where rows: "memory_values (ex_pg_env n) ses (ex_pg_memory owner mid) (Some ''sha'') = Inr r" "memories_fits r" "memories_check r"
      "version_values (ex_pg_env n) ses (memory_snapshot (ex_pg_memory owner mid) ''created'') = Inr v" "versions_fits v" "versions_check v"
      "embedding_values (ex_pg_env n) ses (ex_pg_memory owner mid) ex_pg_vector = Inr x" "embeddings_fits 64 x"
    by (rule ex_pg_rows [OF ex_pg_memory_same small(1,2) order_refl small(5) owner small(3,4)])
  note row = memory_values_Inr [OF rows(1)]
  have mem: "m_id (ex_pg_memory owner mid) = mid" "m_owner_id (ex_pg_memory owner mid) = owner" "memory_dimension (ex_pg_memory owner mid) = 64"
    by (simp_all add: ex_pg_memory_def memory_dimension_def)
  have "\<forall>y\<in>set (tb_memories tb). \<not> same_id r y \<and> \<not> same_key r y"
    using new(1) row mem by (auto simp: same_id_def same_key_def)
  then show thesis
    by (rule pg_create_new [OF rows(1-3) ses mem(3) rows(7,8,4-6)])
      (use new(2-4) mem(1) that [OF _ rows(1,7,4)] in \<open>simp_all add: mem\<close>)
qed

section \<open>A community database\<close>

definition ex_local :: PgSession where "ex_local = \<lparr>ps_community = True, ps_tenant = None\<rparr>"

definition ex_changed :: Memory where
  "ex_changed = (ex_pg_memory ''ana'' 7)\<lparr>m_content := ''likes coffee'', m_version := 2\<rparr>"

lemma ex_ana: "pg_assert_owner ex_local ''ana'' = Inr None" "varchar 256 ''ana''" "trim_nonempty ''ana''"
  by code_simp+

lemma ex_local_simps [simp]: "policy ex_local t \<longleftrightarrow> t = None" "ps_tenant ex_local = None" "ps_community ex_local"
  by (auto simp: ex_local_def policy_def)

lemma ex_changed_simps [simp]: "m_id ex_changed = 7" "m_owner_id ex_changed = ''ana''" "m_version ex_changed = 2" "memory_dimension ex_changed = 64"
  by (simp_all add: ex_changed_def ex_pg_memory_def memory_dimension_def)

lemma ex_local_update:
  assumes tb: "tb_memories tb = [old]" "tb_embeddings tb = [x0]" "tb_versions tb = [v0]"
    and old: "memory_values (ex_pg_env 0) ex_local (ex_pg_memory ''ana'' 7) (Some ''sha'') = Inr old"
    and x0: "embedding_values (ex_pg_env 0) ex_local (ex_pg_memory ''ana'' 7) ex_pg_vector = Inr x0"
    and v0: "version_values (ex_pg_env 0) ex_local (memory_snapshot (ex_pg_memory ''ana'' 7) ''created'') = Inr v0"
  obtains tb' r where "pg_update (ex_pg_env 0) ex_local ex_changed 1 (memory_snapshot ex_changed ''changed'') ex_pg_vector tb = (Inr ex_changed, tb')"
    "tb_memories tb' = [keep_immutable old r]" "tb_tombstones tb' = tb_tombstones tb" "r_tenant_id r = None"
proof -
  have small: "no_nul ''likes coffee''" "trim_nonempty ''likes coffee''" "opt_holds (varchar 64) None" "varchar 256 ''changed''" "int4 2" "1 \<le> (2::int)"
    by code_simp+
  obtain r v x where rows: "memory_values (ex_pg_env 0) ex_local ex_changed None = Inr r" "memories_fits r" "memories_check r"
      "version_values (ex_pg_env 0) ex_local (memory_snapshot ex_changed ''changed'') = Inr v" "versions_fits v" "versions_check v"
      "embedding_values (ex_pg_env 0) ex_local ex_changed ex_pg_vector = Inr x" "embeddings_fits 64 x"
    by (rule ex_pg_rows [OF ex_changed_def small(1,2,6,5) ex_ana small(3,4)])
  note row = memory_values_Inr [OF rows(1)] and old_row = memory_values_Inr [OF old]
  have mem: "m_id (ex_pg_memory ''ana'' 7) = 7" "m_owner_id (ex_pg_memory ''ana'' 7) = ''ana''" "m_version (ex_pg_memory ''ana'' 7) = 1"
      "m_idempotency_key (ex_pg_memory ''ana'' 7) = Some ''k1''" "m_idempotency_key ex_changed = Some ''k1''"
    by (simp_all add: ex_changed_def ex_pg_memory_def ex_codec_memory_def)
  have hit: "update_hits ex_local ex_changed 1 old" using old_row mem by (simp add: update_hits_def)
  have "memories_fits (keep_immutable old r) \<and> memories_check (keep_immutable old r)"
    using rows(2,3) row old_row mem small
    by (simp add: keep_immutable_def memories_fits_def memories_check_def varchar_def no_nul_def opt_holds_def)
  then have upd: "update_memories ex_local ex_changed 1 r tb = (Inr True, tb\<lparr>tb_memories := [keep_immutable old r]\<rparr>)"
    using hit row(3) by (simp add: update_memories_def tb act_simps row_allowed_def tenant_known_def opt_holds_def)
  let ?tb1 = "tb\<lparr>tb_memories := [keep_immutable old r]\<rparr>"
  have keys: "v_memory_id v = 7 \<and> v_version v = 2 \<and> v_tenant_id v = None" "v_version v0 = 1" "x_memory_id x0 = 7 \<and> x_tenant_id x0 = None" "x_memory_id x = 7 \<and> x_tenant_id x = None"
    using rows(4,7) v0 x0 mem by (auto simp: version_values_def embedding_values_def act_simps set_version_fields_def memory_snapshot_def split: option.splits)
  have ref: "refers_to_memory t 7 None" if "tb_memories t = [keep_immutable old r]" for t
    using that old_row(1) mem by (simp add: refers_to_memory_def keep_immutable_def)
  have ver: "insert_version ex_local v ?tb1 = (Inr (), ?tb1\<lparr>tb_versions := [v0, v]\<rparr>)"
    using rows(5,6) keys ref [of ?tb1] by (simp add: insert_version_Inr tb)
  have emb: "update_embedding ex_local HashTable x (?tb1\<lparr>tb_versions := [v0, v]\<rparr>) = (Inr (), ?tb1\<lparr>tb_versions := [v0, v], tb_embeddings := [x]\<rparr>)"
    using rows(8) keys ref [of "?tb1\<lparr>tb_versions := [v0, v]\<rparr>"] by (simp add: update_embedding_def tb act_simps row_allowed_def)
  have "pg_update (ex_pg_env 0) ex_local ex_changed 1 (memory_snapshot ex_changed ''changed'') ex_pg_vector tb =
      (Inr ex_changed, ?tb1\<lparr>tb_versions := [v0, v], tb_embeddings := [x]\<rparr>)"
    by (simp add: pg_update_def act_bind_run act_run ex_ana rows upd ver emb embedding_table_def pg_audit_def)
  with that row(3) show thesis by simp
qed

lemma ex_local_forget:
  assumes "tb_memories tb = [r]" "r_id r = 7" "r_owner_id r = ''ana''" "r_tenant_id r = None" "tb_tombstones tb = []"
  obtains tb' where "pg_forget (ex_pg_env 0) ex_local ''ana'' 7 tb = (Inr True, tb')"
proof -
  let ?t = "\<lparr>t_owner_id = ''ana'', t_tenant_id = None, t_memory_id = 7, t_deleted_at = ex_now, t_reason = ''memory.forget''\<rparr>"
  have "insert_tombstone ex_local ?t (cascade_delete r tb) = (Inr (), (cascade_delete r tb)\<lparr>tb_tombstones := [?t]\<rparr>)"
    using assms(5) ex_ana by (simp add: insert_tombstone_def act_simps row_allowed_def tenant_known_def opt_holds_def cascade_delete_def)
  then have "pg_forget (ex_pg_env 0) ex_local ''ana'' 7 tb = (Inr True, (cascade_delete r tb)\<lparr>tb_tombstones := [?t]\<rparr>)"
    using assms by (simp add: pg_forget_def act_bind_run act_run ex_ana seen_memories_def bound_to_def ex_pg_text_def)
  with that show thesis by blast
qed

lemma ex_local_run:
  obtains tb1 tb2 tb3 where
    "pg_create (ex_pg_env 0) ex_local (ex_pg_memory ''ana'' 7) ''sha'' ex_pg_vector (empty_tables {}) =
       (Inr \<lparr>cr_memory = ex_pg_memory ''ana'' 7, cr_created = True\<rparr>, tb1)"
    "pg_update (ex_pg_env 0) ex_local ex_changed 1 (memory_snapshot ex_changed ''changed'') ex_pg_vector tb1 = (Inr ex_changed, tb2)"
    "pg_forget (ex_pg_env 0) ex_local ''ana'' 7 tb2 = (Inr True, tb3)" "tb_tombstones tb1 = []"
proof -
  obtain tb1 r x v where c: "pg_create (ex_pg_env 0) ex_local (ex_pg_memory ''ana'' 7) ''sha'' ex_pg_vector (empty_tables {}) =
       (Inr \<lparr>cr_memory = ex_pg_memory ''ana'' 7, cr_created = True\<rparr>, tb1)"
      "memory_values (ex_pg_env 0) ex_local (ex_pg_memory ''ana'' 7) (Some ''sha'') = Inr r" "embedding_values (ex_pg_env 0) ex_local (ex_pg_memory ''ana'' 7) ex_pg_vector = Inr x"
      "version_values (ex_pg_env 0) ex_local (memory_snapshot (ex_pg_memory ''ana'' 7) ''created'') = Inr v"
      "tb_memories tb1 = [r]" "tb_embeddings tb1 = [x]" "tb_versions tb1 = [v]" "tb_tombstones tb1 = []"
    by (rule ex_pg_create [OF ex_ana, of "empty_tables {}" 7 0]) (auto simp: empty_tables_def tenant_known_def opt_holds_def intro: that)
  obtain tb2 r' where u: "pg_update (ex_pg_env 0) ex_local ex_changed 1 (memory_snapshot ex_changed ''changed'') ex_pg_vector tb1 = (Inr ex_changed, tb2)"
      "tb_memories tb2 = [keep_immutable r r']" "tb_tombstones tb2 = []" "r_tenant_id r' = None"
    using ex_local_update [OF c(5-7) c(2-4)] c(8) by metis
  have "r_id (keep_immutable r r') = 7" "r_owner_id (keep_immutable r r') = ''ana''" "r_tenant_id (keep_immutable r r') = None"
    using memory_values_Inr(1,2) [OF c(2)] u(4) by (simp_all add: keep_immutable_def ex_pg_memory_def)
  from ex_local_forget [OF u(2) this u(3)] obtain tb3 where "pg_forget (ex_pg_env 0) ex_local ''ana'' 7 tb2 = (Inr True, tb3)" by blast
  with that c(1,8) u(1) show thesis by blast
qed

section \<open>A database of two tenants\<close>

definition ex_session :: "uuid \<Rightarrow> PgSession" where "ex_session t = \<lparr>ps_community = False, ps_tenant = Some t\<rparr>"

definition ex_owner :: "uuid \<Rightarrow> string" where "ex_owner t = cloud_owner t 1"

lemma ex_session_simps [simp]: "policy (ex_session t) u \<longleftrightarrow> u = Some t" "ps_tenant (ex_session t) = Some t" "\<not> ps_community (ex_session t)"
  by (auto simp: ex_session_def policy_def)

lemma ex_owner_tenant: "pg_assert_owner (ex_session t) (ex_owner t) = Inr (Some t)"
  by (simp add: pg_assert_owner_def pg_owner_tenant_def ex_owner_def)

lemma ex_owner_texts: "varchar 256 (ex_owner 5)" "trim_nonempty (ex_owner 5)" "varchar 256 (ex_owner 6)" "trim_nonempty (ex_owner 6)"
  "ex_owner 5 \<noteq> ex_owner 6" "owner_id_ok (ex_owner 5)"
  by code_simp+

lemma ex_shared_run:
  obtains tb1 tb2 where
    "pg_create (ex_pg_env 0) (ex_session 5) (ex_pg_memory (ex_owner 5) 7) ''sha'' ex_pg_vector (empty_tables {5, 6}) =
       (Inr \<lparr>cr_memory = ex_pg_memory (ex_owner 5) 7, cr_created = True\<rparr>, tb1)"
    "pg_create (ex_pg_env 10) (ex_session 6) (ex_pg_memory (ex_owner 6) 8) ''sha'' ex_pg_vector tb1 =
       (Inr \<lparr>cr_memory = ex_pg_memory (ex_owner 6) 8, cr_created = True\<rparr>, tb2)"
    "tb_tombstones tb1 = []"
proof -
  obtain tb1 r x v where c: "pg_create (ex_pg_env 0) (ex_session 5) (ex_pg_memory (ex_owner 5) 7) ''sha'' ex_pg_vector (empty_tables {5, 6}) =
       (Inr \<lparr>cr_memory = ex_pg_memory (ex_owner 5) 7, cr_created = True\<rparr>, tb1)"
      "memory_values (ex_pg_env 0) (ex_session 5) (ex_pg_memory (ex_owner 5) 7) (Some ''sha'') = Inr r"
      "embedding_values (ex_pg_env 0) (ex_session 5) (ex_pg_memory (ex_owner 5) 7) ex_pg_vector = Inr x"
      "version_values (ex_pg_env 0) (ex_session 5) (memory_snapshot (ex_pg_memory (ex_owner 5) 7) ''created'') = Inr v"
      "tb_memories tb1 = [r]" "tb_embeddings tb1 = [x]" "tb_versions tb1 = [v]" "tb_tenants tb1 = {5, 6}" "tb_tombstones tb1 = []"
      "a_id ` set (tb_audit tb1) \<subseteq> {0}"
    by (rule ex_pg_create [OF ex_owner_tenant ex_owner_texts(1,2), of "empty_tables {5, 6}" 7 0])
      (auto simp: empty_tables_def tenant_known_def opt_holds_def intro: that)
  have ids: "r_id r = 7" "r_owner_id r = ex_owner 5" "x_memory_id x = 7" "v_memory_id v = 7"
    using memory_values_Inr(1,2) [OF c(2)] c(3,4)
    by (auto simp: ex_pg_memory_def embedding_values_def version_values_def act_simps set_version_fields_def memory_snapshot_def)
  have fresh: "\<forall>a\<in>set (tb_audit tb1). a_id a \<noteq> 10" using c(10) by force
  obtain tb2 where "pg_create (ex_pg_env 10) (ex_session 6) (ex_pg_memory (ex_owner 6) 8) ''sha'' ex_pg_vector tb1 =
       (Inr \<lparr>cr_memory = ex_pg_memory (ex_owner 6) 8, cr_created = True\<rparr>, tb2)"
    by (rule ex_pg_create [OF ex_owner_tenant ex_owner_texts(3,4), of tb1 8 10])
      (use ids c(5-8) fresh ex_owner_texts(5) in \<open>auto simp: tenant_known_def opt_holds_def intro: that\<close>)
  with that c(1,9) show thesis by blast
qed

end
