(* ===== verification/Postgres_Properties.thy ===== *)
theory Postgres_Properties
  imports Postgres_Fixtures
begin

text \<open>
  What the PostgreSQL repositories guarantee: the tables of every reachable database are consistent, a
  transaction of one tenant is invisible to every other, a forgotten memory stays forgotten, an update is
  never lost, and a memory that was written is read back as it was, encrypted or not.
\<close>

section \<open>Reachable databases\<close>

lemma pg_reachable: "(pg_step c)\<^sup>*\<^sup>* (empty_tables tenants) tb \<Longrightarrow> tables_ok c tb"
  by (rule pg_store.inv_run [OF _ tables_ok_empty])


section \<open>Isolation\<close>

text \<open>The rows that the policy shows to a session; a read is a function of them.\<close>

definition seen_rows where
  "seen_rows ses tb =
     (seen_memories ses tb, seen_versions ses tb,
      filter (\<lambda>x. policy ses (x_tenant_id x)) (tb_embeddings tb), filter (\<lambda>x. policy ses (x_tenant_id x)) (tb_semantic tb),
      filter (\<lambda>q. policy ses (q_tenant_id q)) (tb_relations tb), filter (\<lambda>t. policy ses (t_tenant_id t)) (tb_tombstones tb))"

lemma filter_by_hidden:
  assumes "filter (\<lambda>x. \<not> P x) xs = filter (\<lambda>x. \<not> P x) ys" "\<And>x. Q x \<Longrightarrow> \<not> P x"
  shows "filter Q xs = filter Q ys"
proof -
  have "filter Q xs = filter Q (filter (\<lambda>x. \<not> P x) xs)" for xs
    using assms(2) by (induction xs) auto
  then show ?thesis using assms(1) by metis
qed

lemma foreign_seen:
  assumes "foreign_rows ses' tb' = foreign_rows ses' tb" "\<And>t. policy ses t \<Longrightarrow> \<not> policy ses' t"
  shows "seen_rows ses tb' = seen_rows ses tb"
proof -
  note hide = filter_by_hidden [where P = "\<lambda>x. policy ses' (g x)" and Q = "\<lambda>x. policy ses (g x)" for g, OF _ assms(2)]
  show ?thesis
    using assms(1) unfolding seen_rows_def seen_memories_def seen_versions_def foreign_rows_def prod.inject
    by (elim conjE, intro conjI) (rule hide, assumption, assumption)+
qed

lemma by_seen:
  assumes "filter P xs = filter P ys"
  shows "filter (\<lambda>x. P x \<and> Q x) xs = filter (\<lambda>x. P x \<and> Q x) ys"
    "list_ex (\<lambda>x. P x \<and> Q x) xs = list_ex (\<lambda>x. P x \<and> Q x) ys"
    "find (\<lambda>x. P x \<and> Q x) xs = find (\<lambda>x. P x \<and> Q x) ys"
proof -
  have eqs: "filter (\<lambda>x. P x \<and> Q x) zs = filter Q (filter P zs)" "list_ex (\<lambda>x. P x \<and> Q x) zs = list_ex Q (filter P zs)"
    "find (\<lambda>x. P x \<and> Q x) zs = find Q (filter P zs)" for zs
    by (induction zs) auto
  show "filter (\<lambda>x. P x \<and> Q x) xs = filter (\<lambda>x. P x \<and> Q x) ys"
    "list_ex (\<lambda>x. P x \<and> Q x) xs = list_ex (\<lambda>x. P x \<and> Q x) ys"
    "find (\<lambda>x. P x \<and> Q x) xs = find (\<lambda>x. P x \<and> Q x) ys"
    by (simp_all only: eqs assms)
qed

lemma reads_of_seen:
  assumes "seen_rows ses tb' = seen_rows ses tb"
  shows "pg_get env ses owner mid tb' = pg_get env ses owner mid tb"
    and "pg_history env ses owner mid tb' = pg_history env ses owner mid tb"
    and "pg_list_relations ses owner mid tb' = pg_list_relations ses owner mid tb"
    and "pg_is_tombstoned ses owner mid tb' = pg_is_tombstoned ses owner mid tb"
    and "pg_list_candidates env ses owner space limit tb' = pg_list_candidates env ses owner space limit tb"
    and "pg_search_candidates env ses owner query profile filters limit tb' =
         pg_search_candidates env ses owner query profile filters limit tb"
    and "exported_vector ses b m tb' = exported_vector ses b m tb"
proof -
  have s: "seen_memories ses tb' = seen_memories ses tb" "seen_versions ses tb' = seen_versions ses tb"
    using assms by (simp_all add: seen_rows_def)
  have rows: "filter (\<lambda>q. policy ses (q_tenant_id q)) (tb_relations tb') = filter (\<lambda>q. policy ses (q_tenant_id q)) (tb_relations tb)"
    "filter (\<lambda>t. policy ses (t_tenant_id t)) (tb_tombstones tb') = filter (\<lambda>t. policy ses (t_tenant_id t)) (tb_tombstones tb)"
    "filter (\<lambda>x. policy ses (x_tenant_id x)) (table_rows t tb') = filter (\<lambda>x. policy ses (x_tenant_id x)) (table_rows t tb)" for t
    using assms by (simp_all add: seen_rows_def) (cases t; simp)
  show get: "pg_get env ses owner mid tb' = pg_get env ses owner mid tb"
    using s by (simp add: pg_get_def)
  show "pg_history env ses owner mid tb' = pg_history env ses owner mid tb" using s get by (simp add: pg_history_def)
  show "pg_list_relations ses owner mid tb' = pg_list_relations ses owner mid tb"
    by (simp add: pg_list_relations_def by_seen(1) [OF rows(1)])
  show "pg_is_tombstoned ses owner mid tb' = pg_is_tombstoned ses owner mid tb"
    by (simp add: pg_is_tombstoned_def by_seen(2) [OF rows(2)])
  show "pg_list_candidates env ses owner space limit tb' = pg_list_candidates env ses owner space limit tb"
    using s by (simp add: pg_list_candidates_def)
  show "pg_search_candidates env ses owner query profile filters limit tb' =
         pg_search_candidates env ses owner query profile filters limit tb"
    by (simp add: pg_search_candidates_def search_rows_def s by_seen(1) [OF rows(3)])
  show "exported_vector ses b m tb' = exported_vector ses b m tb"
    by (simp add: exported_vector_def by_seen(3) [OF rows(3)] split: option.splits)
qed

lemma export_of_seen:
  assumes "seen_rows ses tb' = seen_rows ses tb"
  shows "pg_export_memories env ses owner b tb' = pg_export_memories env ses owner b tb"
proof -
  have "seen_memories ses tb' = seen_memories ses tb" using assms by (simp add: seen_rows_def)
  moreover have "pg_export_memory env ses owner mid b tb' = pg_export_memory env ses owner mid b tb" for mid
    by (simp add: pg_export_memory_def reads_of_seen(2,3,7) [OF assms] calculation cong: option.case_cong)
  ultimately show ?thesis by (simp add: pg_export_memories_def)
qed

text \<open>C16: Tenants do not interfere. In a database shared by tenants, whatever a transaction of one tenant does
  (writes, updates, forgets, relations, imports, key rotation), every read of a session of another tenant
  returns exactly what it returned before: single memories, histories, relations, the inbox, searches,
  tombstones and the full export.\<close>

theorem pg_tenants_do_not_interfere:
  assumes "(pg_step False)\<^sup>*\<^sup>* (empty_tables tenants) tb" "\<not> ps_community ses'" "\<not> ps_community ses"
    and "ps_tenant ses \<noteq> ps_tenant ses'" "pg_transaction ses' tb tb'"
  shows "pg_get env ses owner mid tb' = pg_get env ses owner mid tb \<and>
     pg_history env ses owner mid tb' = pg_history env ses owner mid tb \<and>
     pg_list_relations ses owner mid tb' = pg_list_relations ses owner mid tb \<and>
     pg_list_candidates env ses owner space limit tb' = pg_list_candidates env ses owner space limit tb \<and>
     pg_search_candidates env ses owner query profile filters limit tb' =
       pg_search_candidates env ses owner query profile filters limit tb \<and>
     pg_is_tombstoned ses owner mid tb' = pg_is_tombstoned ses owner mid tb \<and>
     pg_export_memories env ses owner b tb' = pg_export_memories env ses owner b tb"
proof -
  have "kept ses' tb tb'"
    by (rule pg_transaction_kept [OF assms(5)]) (use pg_reachable [OF assms(1)] assms(2) in simp)
  then have "foreign_rows ses' tb' = foreign_rows ses' tb" by (simp add: kept_def)
  then have "seen_rows ses tb' = seen_rows ses tb"
    by (rule foreign_seen) (use assms(2-4) in \<open>auto simp: policy_def\<close>)
  note seen = reads_of_seen [OF this] export_of_seen [OF this]
  show ?thesis by (intro conjI) (rule seen)+
qed

section \<open>Forgetting and updating\<close>

lemma pg_get_Some:
  assumes "pg_get env ses owner mid tb = Inr (Some m)"
  obtains r where "r \<in> set (tb_memories tb)" "policy ses (r_tenant_id r)" "r_owner_id r = owner" "r_id r = mid"
    "memory_from_row env ses r = Inr m"
proof -
  from assms obtain a r where f: "find (\<lambda>r. r_owner_id r = owner \<and> r_id r = mid \<and> bound_to a (r_tenant_id r)) (seen_memories ses tb) = Some r"
      "memory_from_row env ses r = Inr m"
    by (auto simp: pg_get_def act_simps split: option.splits)
  from seen_memories_mem [OF f(1)] f(2) that show thesis by blast
qed


lemma pg_update_run:
  assumes "pg_update env ses m ev snapshot vec tb = (Inr res, tb')"
  obtains r tb1 v tb2 t x tb3 where "res = m" "memory_values env ses m None = Inr r" "update_memories ses m ev r tb = (Inr True, tb1)"
      "version_values env ses snapshot = Inr v" "insert_version ses v tb1 = (Inr (), tb2)"
      "embedding_table (memory_dimension m) = Inr t" "embedding_values env ses m vec = Inr x"
      "update_embedding ses t x tb2 = (Inr (), tb3)"
      "pg_audit env ses ''memory.update'' (m_owner_id m) (m_id m) tb3 = (Inr (), tb')"
  using assms by (auto simp: pg_update_def bind_simps split: if_splits)

lemma pg_update_memories:
  assumes "pg_update env ses m ev snapshot vec tb = (Inr res, tb')"
  obtains r where "memory_values env ses m None = Inr r"
    "tb_memories tb' = map (\<lambda>x. if update_hits ses m ev x then keep_immutable x r else x) (tb_memories tb)"
    "\<exists>old\<in>set (tb_memories tb). update_hits ses m ev old"
proof -
  from assms obtain r tb1 v tb2 t x tb3 where s: "memory_values env ses m None = Inr r" "update_memories ses m ev r tb = (Inr True, tb1)"
      "insert_version ses v tb1 = (Inr (), tb2)" "update_embedding ses t x tb2 = (Inr (), tb3)"
      "pg_audit env ses ''memory.update'' (m_owner_id m) (m_id m) tb3 = (Inr (), tb')"
    by (rule pg_update_run)
  have "tb_memories tb' = tb_memories tb3" using pg_audit_frame [OF s(5)] by (simp add: log_frame_def)
  moreover have "tb_memories tb3 = tb_memories tb2" using update_embedding_Inr [OF s(4)] by auto
  moreover have "tb_memories tb2 = tb_memories tb1" using s(3) by (auto simp: insert_version_Inr)
  ultimately have eq: "tb_memories tb' = tb_memories tb1" by simp
  from s(2) obtain old where "old \<in> set (tb_memories tb)" "update_hits ses m ev old"
      "tb1 = tb\<lparr>tb_memories := map (\<lambda>x. if update_hits ses m ev x then keep_immutable x r else x) (tb_memories tb)\<rparr>"
    by (rule update_memories_True)
  with that s(1) eq show thesis by auto
qed

text \<open>C19: No update is lost. Once an update has replaced a version, no later update of the memory that still
  expects that version, or an older one, succeeds, whatever transactions ran in between.\<close>

theorem pg_no_lost_update:
  assumes "(pg_step c)\<^sup>*\<^sup>* (empty_tables tenants) tb" "ps_community ses = c"
    and "pg_update env ses m ev snapshot vec tb = (Inr res, tb1)" "ev < m_version m" "(pg_step c)\<^sup>*\<^sup>* tb1 tb2"
    and "m_owner_id m' = m_owner_id m" "m_id m' = m_id m" "ev' < m_version m"
  shows "pg_update env' ses' m' ev' snapshot' vec' tb2 \<noteq> (Inr res', tb3)"
proof
  assume late: "pg_update env' ses' m' ev' snapshot' vec' tb2 = (Inr res', tb3)"
  have ok: "tables_ok c tb" by (rule pg_reachable [OF assms(1)])
  then have ok1: "tables_ok c tb1" using pg_update_kept [OF _ _ assms(3)] assms(2,4) by (simp add: kept_def)
  have ok2: "tables_ok c tb2" by (rule pg_store.inv_run [OF assms(5) ok1])
  from assms(3) obtain r where r: "memory_values env ses m None = Inr r"
      "tb_memories tb1 = map (\<lambda>x. if update_hits ses m ev x then keep_immutable x r else x) (tb_memories tb)"
      "\<exists>old\<in>set (tb_memories tb). update_hits ses m ev old"
    by (rule pg_update_memories)
  from r(3) obtain old where old: "old \<in> set (tb_memories tb)" "update_hits ses m ev old" by blast
  then have "keep_immutable old r \<in> set (tb_memories tb1)" unfolding r(2) by force
  moreover have "r_owner_id (keep_immutable old r) = m_owner_id m" "r_id (keep_immutable old r) = m_id m"
      "r_version (keep_immutable old r) = m_version m"
    using old(2) memory_values_Inr(4) [OF r(1)] by (simp_all add: keep_immutable_def update_hits_def)
  ultimately have "pg_ver (m_owner_id m, m_id m) tb1 = Some (m_version m)"
    unfolding pg_ver_Some [OF ok1] by blast
  then have stale: "pg_ver (m_owner_id m, m_id m) tb2 \<noteq> Some ev'" by (rule pg_store.stale_forever [OF assms(5) ok1 _ assms(8)])
  from late obtain old' where "old' \<in> set (tb_memories tb2)" "update_hits ses' m' ev' old'"
    by (rule pg_update_memories) blast
  with stale show False unfolding pg_ver_Some [OF ok2] update_hits_def using assms(6,7) by auto
qed

text \<open>
  An update under a profile of the other dimension finds no row in the table of that dimension and inserts
  none: the memory then names a profile for which it has no vector, so no search returns it, and the
  re-embedding job, which looks for dimension 64, passes it over.
\<close>

lemma update_leaves_no_vector:
  assumes "pg_update env ses m ev snapshot vec tb = (Inr res, tb')" "memory_dimension m = 384"
    and "\<forall>y\<in>set (tb_semantic tb). x_memory_id y \<noteq> m_id m"
  shows "\<forall>y\<in>set (tb_semantic tb'). x_memory_id y \<noteq> m_id m"
  using assms(1)
proof (rule pg_update_run)
  fix r tb1 v tb2 t x tb3
  assume s: "update_memories ses m ev r tb = (Inr True, tb1)" "insert_version ses v tb1 = (Inr (), tb2)"
    "embedding_table (memory_dimension m) = Inr t" "embedding_values env ses m vec = Inr x" "update_embedding ses t x tb2 = (Inr (), tb3)"
    "pg_audit env ses ''memory.update'' (m_owner_id m) (m_id m) tb3 = (Inr (), tb')"
  from s(1) have "tb_semantic tb1 = tb_semantic tb" by (rule update_memories_True) simp
  then have "tb_semantic tb2 = tb_semantic tb" using s(2) by (simp add: insert_version_Inr)
  moreover have "t = SemanticTable" using s(3) assms(2) by (simp add: embedding_table_def)
  moreover have "x_memory_id x = m_id m" using s(4) by (auto simp: embedding_values_def split: option.splits)
  ultimately have "tb_semantic tb3 = tb_semantic tb"
    using update_embedding_Inr [OF s(5)] assms(3) by (auto intro!: map_idI)
  then show ?thesis using pg_audit_frame [OF s(6)] assms(3) by (simp add: log_frame_def)
qed

section \<open>Reading what was written\<close>

text \<open>A memory as the database returns it: its timestamps in UTC, under the tenant of the session.\<close>

definition row_form :: "PgSession \<Rightarrow> Memory \<Rightarrow> Memory" where
  "row_form ses m = m\<lparr>m_created_at := astimezone_utc (m_created_at m), m_updated_at := astimezone_utc (m_updated_at m),
     m_occurred_at := map_option astimezone_utc (m_occurred_at m), m_tenant_id := map_option uuid_str (ps_tenant ses)\<rparr>"

definition version_form :: "MemoryVersion \<Rightarrow> MemoryVersion" where
  "version_form v = v\<lparr>mv_occurred_at := map_option astimezone_utc (mv_occurred_at v),
     mv_changed_at := astimezone_utc (mv_changed_at v)\<rparr>"

text \<open>
  What reading an encrypted row relies on: the cipher works, its random values have their lengths, and the
  texts of the two envelopes and of the provenance are read back. In a session without tenant nothing is
  encrypted and nothing is assumed.
\<close>

definition storage_reads :: "PgEnv \<Rightarrow> PgSession \<Rightarrow> string \<Rightarrow> uuid \<Rightarrow> int \<Rightarrow> string \<Rightarrow> Provenance \<Rightarrow> int \<Rightarrow> bool" where
  "storage_reads env ses table rid version content prov key \<longleftrightarrow>
     (\<forall>t k. ps_tenant ses = Some t \<longrightarrow> pe_encryptor env = Some k \<longrightarrow> aead_ok (pe_aead env) \<and>
        te_loads (pe_text env) (utf8_encode (pe_dumps env (pg_provenance_to_json prov))) = Some (pg_provenance_to_json prov) \<and>
        (\<forall>(field, plain) \<in> {(''content'', content), (''provenance'', pe_dumps env (pg_provenance_to_json prov))}.
           entropy_ok (pe_draw env table rid version field) \<and>
           (\<forall>e. encryptor_encrypt (pe_aead env) k (pe_draw env table rid version field) t rid field plain key = Inr e \<longrightarrow>
              envelope_decode (pe_text env) (envelope_encode (pe_text env) e) = Inr e)))"

lemma as_simps [act_simps]:
  "as_domain r = Inr x \<longleftrightarrow> r = Inr x" "as_cloud q = Inr y \<longleftrightarrow> q = Inr y"
  by (simp_all add: as_domain_def as_cloud_def split: sum.splits)

lemma as_run [simp]: "as_domain (Inr x) = Inr x" "as_cloud (Inr y) = Inr y"
  by (simp_all add: as_domain_def as_cloud_def)

lemma open_sealed:
  assumes "seal_field env k t table rid version field plain key = Inr s" "aead_ok (pe_aead env)"
    and "entropy_ok (pe_draw env table rid version field)"
    and "\<forall>e. encryptor_encrypt (pe_aead env) k (pe_draw env table rid version field) t rid field plain key = Inr e \<longrightarrow>
              envelope_decode (pe_text env) (envelope_encode (pe_text env) e) = Inr e"
  shows "open_field env k t rid field (Some s) = Inr plain"
proof -
  from assms(1) obtain e where e: "encryptor_encrypt (pe_aead env) k (pe_draw env table rid version field) t rid field plain key = Inr e"
      "s = envelope_encode (pe_text env) e"
    by (auto simp: seal_field_def act_simps)
  from encrypt_decrypt [OF assms(2,3) e(1)] assms(4) e show ?thesis by (simp add: open_field_def)
qed

lemma open_cloud_fields:
  assumes "cloud_fields env ses table rid version content prov key = Inr f"
    and "storage_reads env ses table rid version content prov key"
  shows "open_row env ses (ps_tenant ses) rid f = Inr (Some content, pg_provenance_to_json prov)"
proof (cases "ps_tenant ses")
  case None
  then show ?thesis using assms(1) by (auto simp: cloud_fields_def open_row_def)
next
  case (Some t)
  with assms(1) obtain k c p where k: "pe_encryptor env = Some k"
    and c: "seal_field env k t table rid version ''content'' content key = Inr c"
    and p: "seal_field env k t table rid version ''provenance'' (pe_dumps env (pg_provenance_to_json prov)) key = Inr p"
    and f: "f = \<lparr>cf_plain = None, cf_sealed = Some c, cf_provenance = None, cf_provenance_sealed = Some p\<rparr>"
    by (auto simp: cloud_fields_def act_simps split: option.splits)
  note reads = assms(2) [unfolded storage_reads_def, rule_format, OF Some k]
  have "open_field env k t rid ''content'' (Some c) = Inr content"
    by (rule open_sealed [OF c]) (use reads in auto)
  moreover have "open_field env k t rid ''provenance'' (Some p) = Inr (pe_dumps env (pg_provenance_to_json prov))"
    by (rule open_sealed [OF p]) (use reads in auto)
  ultimately show ?thesis using Some k reads by (simp add: open_row_def f)
qed

lemma provenance_not_empty:
  assumes "provenance_post_init p = Inr q"
  shows "pv_source_id p \<noteq> Some []" "pv_source_model p \<noteq> Some []"
  using assms by (auto simp: provenance_post_init_def act_simps not_blank_def)

lemma provenance_column:
  assumes "provenance_post_init p = Inr p" "co_fromiso env (isoformat (pv_captured_at p)) = Some (pv_captured_at p)"
  shows "pg_provenance_from_json env (pg_provenance_to_json p) = Inr p"
  using assms provenance_ids [OF assms(1)] provenance_not_empty [OF assms(1)]
  by (cases p) (simp add: pg_provenance_from_json_def pg_provenance_to_json_def str_item_def time_item_def)

lemma consent_column:
  assumes "\<And>x. c = Some x \<Longrightarrow> capture_consent_post_init x = Inr x \<and> co_fromiso env (isoformat (cc_granted_at x)) = Some (cc_granted_at x)"
  shows "pg_consent_from_json env (pg_consent_to_json c) = Inr c"
proof (cases c)
  case (Some x)
  have "consent_from_dict env (consent_to_dict x) = Inr x" using assms [OF Some] by (simp add: consent_roundtrip)
  then show ?thesis by (simp add: Some pg_consent_to_json_def pg_consent_from_json_def consent_to_dict_def)
qed (simp add: pg_consent_to_json_def pg_consent_from_json_def)

lemma owner_id_ok_uuid: "owner_id_ok (uuid_str u)"
proof -
  have "CHR ''-'' \<in> set (uuid_str u)" by (simp add: uuid_str_def Let_def)
  moreover have "\<not> py_isspace (CHR ''-'')" by (simp add: py_isspace_def)
  ultimately have "py_strip (uuid_str u) \<noteq> []" by (auto simp: str_simps)
  moreover have "length (py_strip (uuid_str u)) \<le> length (uuid_str u)"
    unfolding py_strip_def by (metis length_dropWhile_le length_rev order_trans)
  moreover have "length (uuid_str u) \<le> 256" by (simp add: uuid_str_def Let_def uuid_hex_def)
  ultimately show ?thesis by (simp add: owner_id_ok_def MAX_OWNER_ID_LENGTH_def)
qed

lemma memory_ok_row_form: "memory_ok m \<Longrightarrow> memory_ok (row_form ses m)"
  by (auto simp: memory_ok_def row_form_def owner_id_ok_uuid)

definition column_times :: "Provenance \<Rightarrow> CaptureConsent option \<Rightarrow> datetime set" where
  "column_times p c = insert (pv_captured_at p) (cc_granted_at ` set_option c)"

lemma memory_row_read:
  assumes "memory_ok m" "parts_ok m" "reads_back (te_codec (pe_text env)) (column_times (m_provenance m) (m_capture_consent m))"
    and "storage_reads env ses ''memories'' (m_id m) (m_version m) (m_content m) (m_provenance m) 1"
    and "memory_values env ses m fp = Inr r"
  shows "memory_from_row env ses r = Inr (row_form ses m)"
proof -
  from assms(5) obtain e f where e: "m_embedding m = Some e"
    and f: "cloud_fields env ses ''memories'' (m_id m) (m_version m) (m_content m) (m_provenance m) 1 = Inr f"
    by (auto simp: memory_values_def act_simps split: option.splits)
  have fields: "row_fields r = f" using assms(5) f by (auto simp: memory_values_def act_simps e row_fields_def set_cloud_fields_def)
  have opened: "open_row env ses (r_tenant_id r) (r_id r) (row_fields r) = Inr (Some (m_content m), pg_provenance_to_json (m_provenance m))"
    using open_cloud_fields [OF f assms(4)] memory_values_Inr(1,3) [OF assms(5)] by (simp add: fields)
  have prov: "pg_provenance_from_json (te_codec (pe_text env)) (pg_provenance_to_json (m_provenance m)) = Inr (m_provenance m)"
    using assms(2,3) by (intro provenance_column) (simp_all add: parts_ok_def reads_back_def column_times_def)
  have con: "pg_consent_from_json (te_codec (pe_text env)) (pg_consent_to_json (m_capture_consent m)) = Inr (m_capture_consent m)"
    using assms(2,3) by (intro consent_column) (auto simp: parts_ok_def reads_back_def column_times_def)
  have emb: "embedding_descriptor_post_init e = Inr e" using assms(2) e by (simp add: parts_ok_def)
  have init: "memory_post_init (row_form ses m) = Inr (row_form ses m)" by (rule memory_ok_post_init [OF memory_ok_row_form [OF assms(1)]])
  have cols: "r_memory_type r = memory_type_value (m_memory_type m) \<and> r_state r = memory_state_value (m_state m) \<and>
      r_capture_consent r = pg_consent_to_json (m_capture_consent m) \<and>
      \<lparr>ed_profile_id = r_profile_id r, ed_profile_version = r_profile_version r, ed_dimension = r_dimension r, ed_metric = r_metric r\<rparr> = e \<and>
      \<lparr>m_id = r_id r, m_owner_id = r_owner_id r, m_content = m_content m, m_memory_type = m_memory_type m,
          m_importance = r_importance r, m_confidence = r_confidence r, m_state = m_state m, m_version = r_version r,
          m_created_at = r_created_at r, m_updated_at = r_updated_at r, m_occurred_at = r_occurred_at r,
          m_space = r_space r, m_provenance = m_provenance m, m_embedding = Some e,
          m_idempotency_key = r_idempotency_key r, m_tenant_id = map_option uuid_str (r_tenant_id r),
          m_capture_consent = m_capture_consent m\<rparr> = row_form ses m"
    using assms(5) by (auto simp: memory_values_def act_simps e set_cloud_fields_def row_form_def)
  show ?thesis
    using cols emb init by (simp add: memory_from_row_def opened memory_from_row_values_def prov con)
qed

lemma version_row_read:
  assumes "provenance_post_init (mv_provenance v) = Inr (mv_provenance v)"
    and "\<And>c. mv_capture_consent v = Some c \<Longrightarrow> capture_consent_post_init c = Inr c"
    and "reads_back (te_codec (pe_text env)) (column_times (mv_provenance v) (mv_capture_consent v))"
    and "storage_reads env ses ''memory_versions'' (mv_memory_id v) (mv_version v) (mv_content v) (mv_provenance v) 1"
    and "version_values env ses v = Inr w"
  shows "version_from_row env ses w = Inr (version_form v)"
proof -
  from assms(5) obtain f where f: "cloud_fields env ses ''memory_versions'' (mv_memory_id v) (mv_version v) (mv_content v) (mv_provenance v) 1 = Inr f"
    by (auto simp: version_values_def act_simps)
  have cols: "v_memory_type w = memory_type_value (mv_memory_type v) \<and> v_state w = memory_state_value (mv_state v) \<and>
      v_capture_consent w = pg_consent_to_json (mv_capture_consent v) \<and> v_tenant_id w = ps_tenant ses \<and> v_memory_id w = mv_memory_id v \<and>
      version_fields w = f \<and>
      \<lparr>mv_memory_id = mv_memory_id v, mv_version = v_version w, mv_content = mv_content v, mv_memory_type = mv_memory_type v,
          mv_state = mv_state v, mv_importance = v_importance w, mv_confidence = v_confidence w, mv_space = v_space w,
          mv_occurred_at = v_occurred_at w, mv_provenance = mv_provenance v, mv_changed_at = v_changed_at w,
          mv_change_reason = v_change_reason w, mv_capture_consent = mv_capture_consent v\<rparr> = version_form v"
    using assms(5) f by (auto simp: version_values_def act_simps set_version_fields_def version_form_def version_fields_def)
  have "pg_provenance_from_json (te_codec (pe_text env)) (pg_provenance_to_json (mv_provenance v)) = Inr (mv_provenance v)"
    using assms(1,3) by (intro provenance_column) (simp_all add: reads_back_def column_times_def)
  moreover have "pg_consent_from_json (te_codec (pe_text env)) (pg_consent_to_json (mv_capture_consent v)) = Inr (mv_capture_consent v)"
    using assms(2,3) by (intro consent_column) (auto simp: reads_back_def column_times_def)
  ultimately show ?thesis
    using cols open_cloud_fields [OF f assms(4)] by (simp add: version_from_row_def)
qed

lemma memory_values_sealed:
  "memory_values env ses m fp = Inr r \<Longrightarrow> ps_tenant ses \<noteq> None \<Longrightarrow> r_content r = None \<and> r_provenance r = None"
  by (auto simp: memory_values_def cloud_fields_def act_simps set_cloud_fields_def split: option.splits)

lemma version_values_Inr:
  "version_values env ses v = Inr w \<Longrightarrow> v_memory_id w = mv_memory_id v \<and> v_tenant_id w = ps_tenant ses \<and> v_version w = mv_version v"
  by (auto simp: version_values_def act_simps set_version_fields_def)

lemma find_new_row:
  assumes "\<forall>x\<in>set xs. \<not> (Q x \<and> P x)" "Q r" "P r"
  shows "find P (filter Q (xs @ [r])) = Some r"
proof -
  have "find P (filter Q xs) = None" using assms(1) by (induction xs) auto
  then show ?thesis using assms(2,3) by (simp add: find_append)
qed


section \<open>Witnesses\<close>

lemma call_step: "pg_call ses tb tb' \<Longrightarrow> ps_community ses \<or> ps_tenant ses \<noteq> None \<Longrightarrow> pg_step (ps_community ses) tb tb'"
  unfolding pg_step_def pg_transaction_def by blast

lemma create_step:
  assumes "pg_create env ses m fp vec tb = (Inr res, tb')" "tb_tombstones tb = []" "ps_community ses \<or> ps_tenant ses \<noteq> None"
  shows "pg_step (ps_community ses) tb tb'"
  by (rule call_step [OF pg_call.create [OF assms(1)] assms(3)]) (simp add: tombstoned_def assms(2))

lemma ex_local_reached:
  assumes "pg_create (ex_pg_env 0) ex_local (ex_pg_memory ''ana'' 7) ''sha'' ex_pg_vector (empty_tables {}) = (Inr res, tb1)"
  shows "(pg_step True)\<^sup>*\<^sup>* (empty_tables {}) tb1"
  using create_step [OF assms] by (simp add: empty_tables_def)

lemma ex_shared_reached:
  assumes "pg_create (ex_pg_env 0) (ex_session 5) (ex_pg_memory (ex_owner 5) 7) ''sha'' ex_pg_vector (empty_tables {5, 6}) = (Inr res, tb1)"
  shows "(pg_step False)\<^sup>*\<^sup>* (empty_tables {5, 6}) tb1"
  using create_step [OF assms] by (simp add: empty_tables_def)


theorem pg_tenants_do_not_interfere_witness:
  "\<exists>tb tb'. pg_transaction (ex_session 6) tb tb' \<and> tb' \<noteq> tb \<and>
     pg_get (ex_pg_env 0) (ex_session 5) (ex_owner 5) 7 tb' = pg_get (ex_pg_env 0) (ex_session 5) (ex_owner 5) 7 tb \<and>
     pg_export_memories (ex_pg_env 0) (ex_session 5) (ex_owner 5) True tb' = pg_export_memories (ex_pg_env 0) (ex_session 5) (ex_owner 5) True tb"
proof (rule ex_shared_run)
  fix tb1 tb2
  assume c: "pg_create (ex_pg_env 0) (ex_session 5) (ex_pg_memory (ex_owner 5) 7) ''sha'' ex_pg_vector (empty_tables {5, 6}) =
       (Inr \<lparr>cr_memory = ex_pg_memory (ex_owner 5) 7, cr_created = True\<rparr>, tb1)"
    and d: "pg_create (ex_pg_env 10) (ex_session 6) (ex_pg_memory (ex_owner 6) 8) ''sha'' ex_pg_vector tb1 =
       (Inr \<lparr>cr_memory = ex_pg_memory (ex_owner 6) 8, cr_created = True\<rparr>, tb2)"
    and none: "tb_tombstones tb1 = []"
  have t: "pg_transaction (ex_session 6) tb1 tb2"
    using pg_call.create [OF d] none by (auto simp: pg_transaction_def tombstoned_def)
  from d have "length (tb_memories tb2) = Suc (length (tb_memories tb1))"
  proof (cases rule: pg_create_run)
    case (created r tb' t x tb3 v tb4)
    then show ?thesis using created(2) created(5) created(7) pg_audit_frame [OF created(8)]
      by (auto simp: insert_memories_True insert_embedding_Inr insert_version_Inr log_frame_def)
  qed simp
  then have "tb2 \<noteq> tb1" by auto
  then show ?thesis
    using t pg_tenants_do_not_interfere [OF ex_shared_reached [OF c] _ _ _ t, of "ex_session 5" "ex_pg_env 0" "ex_owner 5" 7 _ _ _ _ _ True]
    by (intro exI [of _ tb1] exI [of _ tb2]) simp
qed


theorem pg_no_lost_update_witness:
  "\<exists>tb tb1. pg_update (ex_pg_env 0) ex_local ex_changed 1 (memory_snapshot ex_changed ''changed'') ex_pg_vector tb = (Inr ex_changed, tb1) \<and>
     (\<forall>res tb3. pg_update (ex_pg_env 0) ex_local (ex_changed\<lparr>m_content := ''likes milk''\<rparr>) 1 (memory_snapshot ex_changed ''changed'')
        ex_pg_vector tb1 \<noteq> (Inr res, tb3))"
proof (rule ex_local_run)
  fix tb1 tb2 tb3
  assume c: "pg_create (ex_pg_env 0) ex_local (ex_pg_memory ''ana'' 7) ''sha'' ex_pg_vector (empty_tables {}) =
       (Inr \<lparr>cr_memory = ex_pg_memory ''ana'' 7, cr_created = True\<rparr>, tb1)"
    and u: "pg_update (ex_pg_env 0) ex_local ex_changed 1 (memory_snapshot ex_changed ''changed'') ex_pg_vector tb1 = (Inr ex_changed, tb2)"
  have "pg_update (ex_pg_env 0) ex_local (ex_changed\<lparr>m_content := ''likes milk''\<rparr>) 1 (memory_snapshot ex_changed ''changed'') ex_pg_vector tb2
      \<noteq> (Inr res, tb')" for res tb'
    by (rule pg_no_lost_update [OF ex_local_reached [OF c] _ u _ rtranclp.rtrancl_refl]) simp_all
  with u show ?thesis by blast
qed


end
