(* ===== verification/Postgres_Refinement.thy ===== *)
theory Postgres_Refinement
  imports Postgres_Properties Store_Invariant
begin

text \<open>
  In community mode, where no tenant is bound, the PostgreSQL repository implements the in-memory repository
  of \<open>Memory_Store\<close>, on which the properties of the application service are proved: read as the in-memory
  store of its rows, every call of the tables is the call of the store. The vectors are those of the
  64-dimensional table, in single precision, and timestamps are in UTC.
\<close>

section \<open>The abstraction\<close>

definition community :: "PgSession \<Rightarrow> bool" where
  "community ses \<longleftrightarrow> ps_community ses \<and> ps_tenant ses = None"

definition memory_rel :: "PgEnv \<Rightarrow> PgSession \<Rightarrow> PgTables \<Rightarrow> InMemoryStore \<Rightarrow> bool" where
  "memory_rel env ses tb s \<longleftrightarrow> list_all2 (\<lambda>r (i, m). i = r_id r \<and> memory_from_row env ses r = Inr m) (tb_memories tb) (st_memories s)"

definition stored :: "PgTables \<Rightarrow> uuid \<Rightarrow> bool" where
  "stored tb i \<longleftrightarrow> (\<exists>r\<in>set (tb_memories tb). r_id r = i)"

definition versions_of :: "PgTables \<Rightarrow> uuid \<Rightarrow> VersionRow list" where
  "versions_of tb i = filter (\<lambda>v. v_memory_id v = i) (tb_versions tb)"

definition history_rel :: "PgEnv \<Rightarrow> PgSession \<Rightarrow> PgTables \<Rightarrow> InMemoryStore \<Rightarrow> bool" where
  "history_rel env ses tb s \<longleftrightarrow> (\<forall>i. rel_option (list_all2 (\<lambda>v h. version_from_row env ses v = Inr h))
     (if stored tb i then Some (versions_of tb i) else None) (dict_get (st_history s) i))"

definition vector_of :: "PgTables \<Rightarrow> uuid \<Rightarrow> pyfloat list option" where
  "vector_of tb i = map_option x_vector (find (\<lambda>x. x_memory_id x = i) (tb_embeddings tb))"

definition vector_rel :: "PgTables \<Rightarrow> InMemoryStore \<Rightarrow> bool" where
  "vector_rel tb s \<longleftrightarrow> (\<forall>i. dict_get (st_vectors s) i = vector_of tb i) \<and> (\<forall>i. stored tb i \<longrightarrow> vector_of tb i \<noteq> None)"

definition fingerprint_of :: "PgTables \<Rightarrow> string \<Rightarrow> string \<Rightarrow> string option" where
  "fingerprint_of tb owner k = Option.bind (find (\<lambda>r. r_owner_id r = owner \<and> r_idempotency_key r = Some k) (tb_memories tb)) r_fingerprint"

definition fingerprint_rel :: "PgTables \<Rightarrow> InMemoryStore \<Rightarrow> bool" where
  "fingerprint_rel tb s \<longleftrightarrow> (\<forall>owner k. dict_get (st_fingerprints s) (owner, k) = fingerprint_of tb owner k) \<and>
     (\<forall>r\<in>set (tb_memories tb). r_idempotency_key r \<noteq> None \<longrightarrow> r_fingerprint r \<noteq> None)"

definition relation_rel :: "PgTables \<Rightarrow> InMemoryStore \<Rightarrow> bool" where
  "relation_rel tb s \<longleftrightarrow> list_all2 (\<lambda>q (key, rel). key = relation_key rel \<and> relation_from_row q = Inr rel) (tb_relations tb) (st_relations s)"

definition tombstone_rel :: "PgTables \<Rightarrow> InMemoryStore \<Rightarrow> bool" where
  "tombstone_rel tb s \<longleftrightarrow> (\<forall>owner t i. (owner, t, i) \<in> st_tombstones s \<longleftrightarrow> t = None \<and> tombstoned tb owner i)"

definition store_rel :: "PgEnv \<Rightarrow> PgSession \<Rightarrow> PgTables \<Rightarrow> InMemoryStore \<Rightarrow> bool" where
  "store_rel env ses tb s \<longleftrightarrow> memory_rel env ses tb s \<and> history_rel env ses tb s \<and> vector_rel tb s \<and>
     fingerprint_rel tb s \<and> relation_rel tb s \<and> tombstone_rel tb s"

section \<open>Community sessions\<close>

lemma community_simps [simp]:
  assumes "community ses"
  shows "policy ses t \<longleftrightarrow> t = None" "ps_tenant ses = None" "ps_community ses" "pg_assert_owner ses owner = Inr None"
  using assms by (auto simp: community_def policy_def pg_assert_owner_def)

lemma bound_to_None [simp]: "bound_to None t"
  by (simp add: bound_to_def)

lemma community_rows:
  assumes "community ses" "tables_ok True tb"
  shows "seen_memories ses tb = tb_memories tb" "seen_versions ses tb = tb_versions tb"
proof -
  have t: "r_tenant_id r = None" if "r \<in> set (tb_memories tb)" for r
    using assms(2) that by (auto simp: tables_ok_defs bound_owner_def)
  then show "seen_memories ses tb = tb_memories tb" using assms(1) by (auto simp: seen_memories_def intro!: filter_True)
  show "seen_versions ses tb = tb_versions tb"
    using assms t by (auto simp: seen_versions_def tables_ok_defs stored_for_def intro!: filter_True)
qed

lemma memory_from_row_Inr:
  assumes "memory_from_row env ses r = Inr m"
  shows "m_id m = r_id r" "m_owner_id m = r_owner_id r" "m_version m = r_version r" "m_created_at m = r_created_at r"
    "m_idempotency_key m = r_idempotency_key r" "m_tenant_id m = map_option uuid_str (r_tenant_id r)" "memory_ok m"
  using assms by (auto simp: memory_from_row_def memory_from_row_values_def act_simps split: option.splits)

lemma list_all2_mem_left: "list_all2 P xs ys \<Longrightarrow> x \<in> set xs \<Longrightarrow> \<exists>y\<in>set ys. P x y"
  by (induction rule: list_all2_induct) auto

lemma dict_find:
  assumes "list_all2 (\<lambda>r (i, m). i = r_id r \<and> memory_from_row env ses r = Inr m) rows ms"
  shows "(case find (\<lambda>r. r_id r = i) rows of None \<Rightarrow> dict_get ms i = None
     | Some r \<Rightarrow> \<exists>m. dict_get ms i = Some m \<and> memory_from_row env ses r = Inr m)"
  using assms by (induction rule: list_all2_induct) (auto split: option.splits)

lemma memory_rel_get:
  assumes "memory_rel env ses tb s" "tables_ok True tb"
  shows "dict_get (st_memories s) i = Some m \<longleftrightarrow> (\<exists>r\<in>set (tb_memories tb). r_id r = i \<and> memory_from_row env ses r = Inr m)"
proof -
  note f = dict_find [OF assms(1) [unfolded memory_rel_def], of i]
  have d: "distinct (map r_id (tb_memories tb))" using assms(2) by (simp add: tables_ok_defs)
  show ?thesis
  proof (cases "find (\<lambda>r. r_id r = i) (tb_memories tb)")
    case None
    then have "\<forall>r\<in>set (tb_memories tb). r_id r \<noteq> i" by (auto simp: find_None_iff)
    with f None show ?thesis by auto
  next
    case (Some r)
    then have r: "r \<in> set (tb_memories tb)" "r_id r = i" by (auto dest: find_SomeD)
    have "r' = r" if "r' \<in> set (tb_memories tb)" "r_id r' = i" for r' using distinct_row [OF d that(1) r(1)] that(2) r(2) by simp
    moreover obtain m' where "dict_get (st_memories s) i = Some m'" "memory_from_row env ses r = Inr m'" using f Some by auto
    ultimately show ?thesis using r by (metis option.inject sum.inject(2))
  qed
qed

lemma memory_rel_stored: "memory_rel env ses tb s \<Longrightarrow> dict_get (st_memories s) i = None \<longleftrightarrow> \<not> stored tb i"
  using dict_find [of env ses "tb_memories tb" "st_memories s" i]
  by (auto simp: memory_rel_def stored_def find_None_iff split: option.splits dest: find_SomeD)

text \<open>Reading a memory.\<close>

lemma refines_get:
  assumes com: "community ses" and ok: "tables_ok True tb" and rel: "memory_rel env ses tb s"
  shows "pg_get env ses owner mid tb = Inr (repo_get s owner mid None)"
proof (cases "find (\<lambda>r. r_owner_id r = owner \<and> r_id r = mid) (tb_memories tb)")
  case None
  then have "repo_get s owner mid None = None"
    using memory_rel_get [OF rel ok] memory_from_row_Inr(2)
    by (auto simp: repo_get_def find_None_iff split: option.splits)
  then show ?thesis using None com by (simp add: pg_get_def community_rows [OF com ok])
next
  case (Some r)
  then have r: "r \<in> set (tb_memories tb)" "r_owner_id r = owner" "r_id r = mid" by (auto dest!: find_SomeD)
  obtain m where m: "memory_from_row env ses r = Inr m"
    using rel r(1) list_all2_mem_left [of _ "tb_memories tb" "st_memories s" r] unfolding memory_rel_def by fastforce
  then have "dict_get (st_memories s) mid = Some m" using memory_rel_get [OF rel ok] r by blast
  then have "repo_get s owner mid None = Some m" using memory_from_row_Inr(2) [OF m] r(2) by (simp add: repo_get_def)
  then show ?thesis using Some com m by (simp add: pg_get_def community_rows [OF com ok])
qed

section \<open>create\<close>

text \<open>A new row beside the rows of other memories.\<close>

lemma stored_snoc: "tb_memories tb' = tb_memories tb @ [r] \<Longrightarrow> stored tb' i \<longleftrightarrow> stored tb i \<or> i = r_id r"
  by (auto simp: stored_def)

lemma list_all2_snoc: "list_all2 P xs ys \<Longrightarrow> P x y \<Longrightarrow> list_all2 P (xs @ [x]) (ys @ [y])"
  by (simp add: list_all2_appendI)

lemma find_fingerprint_new:
  assumes "\<forall>x\<in>set (tb_memories tb). \<not> same_key r x" "tb_memories tb' = tb_memories tb @ [r]"
  shows "fingerprint_of tb' owner k = (if r_owner_id r = owner \<and> r_idempotency_key r = Some k then r_fingerprint r else fingerprint_of tb owner k)"
proof (cases "r_owner_id r = owner \<and> r_idempotency_key r = Some k")
  case True
  then have "find (\<lambda>x. r_owner_id x = owner \<and> r_idempotency_key x = Some k) (tb_memories tb) = None"
    using assms(1) by (auto simp: find_None_iff same_key_def)
  then show ?thesis using True assms(2) by (simp add: fingerprint_of_def find_append)
next
  case False
  then show ?thesis using assms(2) by (auto simp: fingerprint_of_def find_append split: option.splits)
qed

lemma refines_find_key:
  assumes "memory_rel env ses tb s" "community ses" "tables_ok True tb" "r \<in> set (tb_memories tb)"
    and "r_owner_id r = owner" "r_idempotency_key r = Some k" "memory_from_row env ses r = Inr m"
  shows "memory_with_key s owner k = Some m"
proof -
  have uniq: "r' = r" if "r' \<in> set (tb_memories tb)" "r_owner_id r' = owner" "r_idempotency_key r' = Some k" for r'
  proof -
    have "same_key r r'" using that assms(5,6) by (simp add: same_key_def)
    then have "r_id r' = r_id r" using assms(3,4) that(1) unfolding tables_ok_def keys_ok_def by blast
    then show ?thesis using distinct_row [of r_id "tb_memories tb" r' r] that(1) assms(3,4) by (simp add: tables_ok_defs)
  qed
  have "find (\<lambda>value. m_owner_id value = owner \<and> m_idempotency_key value = Some k) (map snd ms) = Some m"
    if "list_all2 (\<lambda>r (i, m). i = r_id r \<and> memory_from_row env ses r = Inr m) rows ms" "r \<in> set rows" "set rows \<subseteq> set (tb_memories tb)" for rows ms
    using that
  proof (induction rows ms rule: list_all2_induct)
    case (Cons x rows y ms)
    obtain i m' where y: "y = (i, m')" "memory_from_row env ses x = Inr m'" using Cons(1) by (auto split: prod.splits)
    show ?case
    proof (cases "m_owner_id m' = owner \<and> m_idempotency_key m' = Some k")
      case True
      then have "x = r" using uniq [of x] Cons.prems(2) memory_from_row_Inr(2,5) [OF y(2)] by simp
      then show ?thesis using y assms(7) True by simp
    next
      case False
      then have "x \<noteq> r" using memory_from_row_Inr(2,5) [OF y(2)] assms(5,6) by auto
      then show ?thesis using Cons False y(1) by auto
    qed
  qed simp
  from this [OF assms(1) [unfolded memory_rel_def] assms(4)] show ?thesis by (simp add: memory_with_key_def)
qed

lemma insert_memories_conflict:
  "insert_memories ses target r tb = (Inr False, tb') \<Longrightarrow> \<exists>x\<in>set (tb_memories tb). conflicts_on target r x"
  by (auto simp: insert_memories_def act_simps list_ex_iff split: if_splits)

definition writable :: "PgEnv \<Rightarrow> Memory \<Rightarrow> bool" where
  "writable env m \<longleftrightarrow> memory_ok m \<and> parts_ok m \<and>
     reads_back (te_codec (pe_text env)) (column_times (m_provenance m) (m_capture_consent m)) \<and> memory_dimension m = 64"

lemma storage_reads_community: "community ses \<Longrightarrow> storage_reads env ses table rid version content prov key"
  by (simp add: storage_reads_def)

lemma created_row:
  assumes "community ses" "writable env m" "memory_values env ses m fp = Inr r"
  shows "memory_from_row env ses r = Inr (row_form ses m)"
  using memory_row_read [OF _ _ _ storage_reads_community [OF assms(1)] assms(3)] assms(2) by (simp add: writable_def)

lemma created_version:
  assumes "community ses" "writable env m" "version_values env ses (memory_snapshot m reason) = Inr v"
  shows "version_from_row env ses v = Inr (memory_snapshot (row_form ses m) reason)"
proof -
  have "version_from_row env ses v = Inr (version_form (memory_snapshot m reason))"
    by (rule version_row_read [OF _ _ _ storage_reads_community [OF assms(1)] assms(3)])
      (use assms(2) in \<open>auto simp: writable_def parts_ok_def memory_snapshot_def\<close>)
  then show ?thesis by (simp add: version_form_def memory_snapshot_def row_form_def)
qed

lemma versions_of_snoc: "tb_versions tb' = tb_versions tb @ [v] \<Longrightarrow>
    versions_of tb' i = (if v_memory_id v = i then versions_of tb i @ [v] else versions_of tb i)"
  by (simp add: versions_of_def)

lemma unstored_empty:
  assumes "tables_ok c tb" "\<not> stored tb i"
  shows "versions_of tb i = []" "vector_of tb i = None"
  using assms by (auto simp: versions_of_def vector_of_def tables_ok_defs stored_for_def stored_def filter_empty_conv find_None_iff)

lemma rel_new_memory:
  assumes ok: "tables_ok True tb" and rel: "store_rel env ses tb s"
    and new: "\<forall>y\<in>set (tb_memories tb). \<not> same_id r y \<and> \<not> same_key r y"
    and tb': "tb_memories tb' = tb_memories tb @ [r]" "tb_versions tb' = tb_versions tb @ [v]" "tb_embeddings tb' = tb_embeddings tb @ [x]"
      "tb_relations tb' = tb_relations tb" "tb_tombstones tb' = tb_tombstones tb"
    and rows: "memory_from_row env ses r = Inr m" "version_from_row env ses v = Inr h" "v_memory_id v = r_id r" "x_memory_id x = r_id r"
    and fps: "\<And>o' k. dict_get fps (o', k) = (if r_owner_id r = o' \<and> r_idempotency_key r = Some k then r_fingerprint r else dict_get (st_fingerprints s) (o', k))"
    and key: "r_idempotency_key r \<noteq> None \<longrightarrow> r_fingerprint r \<noteq> None"
  shows "store_rel env ses tb' (insert_memory m (x_vector x) [h] (s\<lparr>st_fingerprints := fps\<rparr>))"
proof -
  note parts = rel [unfolded store_rel_def]
  have mid: "m_id m = r_id r" by (rule memory_from_row_Inr(1) [OF rows(1)])
  have fresh: "\<not> stored tb (r_id r)" using new by (auto simp: stored_def same_id_def)
  have "dict_get (st_memories s) (m_id m) = None" using memory_rel_stored parts fresh mid by metis
  then have "memory_rel env ses tb' (insert_memory m (x_vector x) [h] (s\<lparr>st_fingerprints := fps\<rparr>))"
    using parts rows(1) mid by (simp add: memory_rel_def insert_memory_def dict_set_new tb' list_all2_snoc)
  moreover have "history_rel env ses tb' (insert_memory m (x_vector x) [h] (s\<lparr>st_fingerprints := fps\<rparr>))"
    unfolding history_rel_def
  proof
    fix i
    show "rel_option (list_all2 (\<lambda>v h. version_from_row env ses v = Inr h)) (if stored tb' i then Some (versions_of tb' i) else None)
        (dict_get (st_history (insert_memory m (x_vector x) [h] (s\<lparr>st_fingerprints := fps\<rparr>))) i)"
    proof (cases "i = r_id r")
      case True
      then show ?thesis using unstored_empty(1) [OF ok fresh] rows(2,3) mid
        by (simp add: insert_memory_def dict_simps stored_snoc [OF tb'(1)] versions_of_snoc [OF tb'(2)])
    next
      case False
      have "rel_option (list_all2 (\<lambda>v h. version_from_row env ses v = Inr h))
          (if stored tb i then Some (versions_of tb i) else None) (dict_get (st_history s) i)"
        using parts by (simp add: history_rel_def)
      then show ?thesis using False rows(3) mid
        by (simp add: insert_memory_def dict_simps stored_snoc [OF tb'(1)] versions_of_snoc [OF tb'(2)] split: if_splits)
    qed
  qed
  moreover have vec: "vector_of tb' i = (if i = r_id r then Some (x_vector x) else vector_of tb i)" for i
    using unstored_empty(2) [OF ok fresh] rows(4) by (auto simp: vector_of_def tb' find_append split: option.splits)
  have "vector_rel tb' (insert_memory m (x_vector x) [h] (s\<lparr>st_fingerprints := fps\<rparr>))"
    using parts mid by (auto simp: vector_rel_def vec insert_memory_def dict_simps stored_snoc [OF tb'(1)])
  moreover have "fingerprint_of tb' o' k = dict_get fps (o', k)" for o' k
  proof -
    have "fingerprint_of tb o' k = dict_get (st_fingerprints s) (o', k)" using parts by (simp add: fingerprint_rel_def)
    then show ?thesis using find_fingerprint_new [of tb r tb' o' k] new tb'(1) by (simp add: fps)
  qed
  then have "fingerprint_rel tb' (insert_memory m (x_vector x) [h] (s\<lparr>st_fingerprints := fps\<rparr>))"
    using parts key by (auto simp: fingerprint_rel_def insert_memory_def tb'(1))
  moreover have "relation_rel tb' (insert_memory m (x_vector x) [h] (s\<lparr>st_fingerprints := fps\<rparr>))"
      "tombstone_rel tb' (insert_memory m (x_vector x) [h] (s\<lparr>st_fingerprints := fps\<rparr>))"
    using parts by (simp_all add: relation_rel_def tombstone_rel_def tombstoned_def insert_memory_def tb')
  ultimately show ?thesis by (simp add: store_rel_def)
qed

lemma embedding_values_Inr:
  "embedding_values env ses m vec = Inr x \<Longrightarrow> x_memory_id x = m_id m \<and> x_tenant_id x = ps_tenant ses \<and> x_vector x = map (pe_float4 env) vec"
  by (auto simp: embedding_values_def split: option.splits)

lemma refines_create:
  assumes com: "community ses" and ok: "tables_ok True tb" and rel: "store_rel env ses tb s" and w: "writable env m"
    and call: "pg_create env ses m fp vec tb = (Inr res, tb')"
  shows "\<exists>mem s'. repo_create (row_form ses m) fp (map (pe_float4 env) vec) s = (Inr \<lparr>cr_memory = mem, cr_created = cr_created res\<rparr>, s') \<and>
     (cr_created res \<longrightarrow> mem = row_form ses m) \<and> (\<not> cr_created res \<longrightarrow> mem = cr_memory res) \<and> store_rel env ses tb' s'"
  using call
proof (cases rule: pg_create_run)
  case (replay r pm)
  note row = memory_values_Inr [OF replay(1)]
  from insert_memories_conflict [OF replay(2)] have "py_truthy (m_idempotency_key m)" by (auto simp: create_target_def split: if_splits)
  then obtain k where k: "m_idempotency_key m = Some k" "k \<noteq> []" by (cases "m_idempotency_key m") auto
  from replay(5) obtain x where x: "x \<in> set (tb_memories tb)" "r_owner_id x = m_owner_id m" "r_idempotency_key x = Some k"
      "memory_from_row env ses x = Inr pm" "r_fingerprint x = Some fp"
      and f: "find (\<lambda>r. r_owner_id r = m_owner_id m \<and> r_idempotency_key r = Some k) (tb_memories tb) = Some x"
    using com by (auto simp: pg_find_by_idempotency_key_def k key_rows_def act_simps community_rows [OF com ok] split: option.splits dest: find_SomeD)
  have "dict_get (st_fingerprints s) (m_owner_id m, k) = Some fp"
    using rel f x(5) by (simp add: store_rel_def fingerprint_rel_def fingerprint_of_def)
  moreover have "memory_with_key s (m_owner_id m) k = Some pm"
    using refines_find_key [OF _ com ok x(1-4)] rel by (simp add: store_rel_def)
  ultimately have "repo_create (row_form ses m) fp (map (pe_float4 env) vec) s = (Inr \<lparr>cr_memory = pm, cr_created = False\<rparr>, s)"
    using k by (simp add: repo_create_def row_form_def)
  then show ?thesis using replay(3,4) rel by auto
next
  case (created r tb1 t x tb2 v tb3)
  note row = memory_values_Inr [OF created(1)] and ins = created(2) [unfolded insert_memories_True]
    and xv = embedding_values_Inr [OF created(4)] and vv = version_values_Inr [OF created(6)] and log = pg_audit_frame [OF created(8), unfolded log_frame_def]
  have t: "t = HashTable" using created(3) w by (simp add: writable_def embedding_table_def)
  have tb': "tb_memories tb' = tb_memories tb @ [r]" "tb_versions tb' = tb_versions tb @ [v]" "tb_embeddings tb' = tb_embeddings tb @ [x]"
      "tb_relations tb' = tb_relations tb" "tb_tombstones tb' = tb_tombstones tb"
    using ins created(5,7) log by (auto simp: t insert_embedding_Inr insert_version_Inr)
  have lab: "label_ok MAX_IDEMPOTENCY_KEY_LENGTH (m_idempotency_key m)" using w by (simp add: writable_def memory_ok_def)
  define fps where "fps = (case m_idempotency_key m of None \<Rightarrow> st_fingerprints s
     | Some k \<Rightarrow> dict_set (m_owner_id m, k) fp (st_fingerprints s))"
  have "store_rel env ses tb' (insert_memory (row_form ses m) (x_vector x) [memory_snapshot (row_form ses m) ''created''] (s\<lparr>st_fingerprints := fps\<rparr>))"
    using ins xv vv row
    by (intro rel_new_memory [OF ok rel _ tb' created_row [OF com w created(1)] created_version [OF com w created(6)]])
      (auto simp: fps_def memory_snapshot_def dict_simps split: option.splits)
  moreover have "repo_create (row_form ses m) fp (map (pe_float4 env) vec) s = (Inr \<lparr>cr_memory = row_form ses m, cr_created = True\<rparr>,
      insert_memory (row_form ses m) (x_vector x) [memory_snapshot (row_form ses m) ''created''] (s\<lparr>st_fingerprints := fps\<rparr>))"
  proof (cases "m_idempotency_key m")
    case None
    have "s\<lparr>st_fingerprints := fps\<rparr> = s" by (simp add: fps_def None)
    then show ?thesis using None xv by (simp add: repo_create_def row_form_def)
  next
    case (Some k)
    then have "k \<noteq> []" using lab by (auto simp: label_ok_def)
    moreover have "fingerprint_of tb (m_owner_id m) k = None"
    proof -
      have "find (\<lambda>r. r_owner_id r = m_owner_id m \<and> r_idempotency_key r = Some k) (tb_memories tb) = None"
        using ins row(2,5) Some by (auto simp: find_None_iff same_key_def)
      then show ?thesis by (simp add: fingerprint_of_def)
    qed
    then have "dict_get (st_fingerprints s) (m_owner_id m, k) = None" using rel by (simp add: store_rel_def fingerprint_rel_def)
    ultimately show ?thesis using Some xv by (simp add: repo_create_def row_form_def fps_def)
  qed
  ultimately show ?thesis using created(9) by auto
qed

section \<open>update\<close>

text \<open>Replacing the row of one memory, with the entry of the dictionary at the same place.\<close>

lemma dict_set_list_all2:
  assumes "list_all2 (\<lambda>r (i, m). i = r_id r \<and> memory_from_row env ses r = Inr m) rows ms" "distinct (map r_id rows)"
    and "memory_from_row env ses r' = Inr m'" "r_id r' = i" "\<exists>r\<in>set rows. r_id r = i"
  shows "list_all2 (\<lambda>r (i, m). i = r_id r \<and> memory_from_row env ses r = Inr m) (map (\<lambda>r. if r_id r = i then r' else r) rows) (dict_set i m' ms)"
  using assms
proof (induction rows ms rule: list_all2_induct)
  case (Cons x rows y ms)
  obtain j m where y: "y = (j, m)" "j = r_id x" "memory_from_row env ses x = Inr m" using Cons(1) by (cases y) auto
  show ?case
  proof (cases "j = i")
    case True
    then have "r_id z \<noteq> i" if "z \<in> set rows" for z using Cons.prems(1) y(2) imageI [OF that, of r_id] by auto
    then have "map (\<lambda>r. if r_id r = i then r' else r) rows = rows" by (simp add: map_idI)
    then show ?thesis using True y Cons.prems Cons(2) by simp
  next
    case False
    then show ?thesis using y Cons by simp
  qed
qed simp

lemma stored_ids: "stored tb i \<longleftrightarrow> i \<in> set (map r_id (tb_memories tb))"
  by (auto simp: stored_def)

lemma history_rel_stored: "history_rel env ses tb s \<Longrightarrow> stored tb i \<Longrightarrow> \<exists>hs. dict_get (st_history s) i = Some hs"
  unfolding history_rel_def by (drule spec [of _ i]) (cases "dict_get (st_history s) i"; simp)

lemma rel_changed_memory:
  assumes ok: "tables_ok True tb" and rel: "store_rel env ses tb s"
    and old: "old \<in> set (tb_memories tb)" "r_id r = r_id old" "r_owner_id r = r_owner_id old"
      "r_idempotency_key r = r_idempotency_key old" "r_fingerprint r = r_fingerprint old"
    and tb': "tb_memories tb' = map (\<lambda>y. if r_id y = r_id old then r else y) (tb_memories tb)" "tb_versions tb' = tb_versions tb @ [v]"
      "tb_embeddings tb' = map (\<lambda>y. if x_memory_id y = r_id old then x else y) (tb_embeddings tb)"
      "tb_relations tb' = tb_relations tb" "tb_tombstones tb' = tb_tombstones tb"
    and rows: "memory_from_row env ses r = Inr m" "version_from_row env ses v = Inr h" "v_memory_id v = r_id old" "x_memory_id x = r_id old"
    and hist: "dict_get (st_history s) (r_id old) = Some hs"
  shows "store_rel env ses tb' (insert_memory m (x_vector x) (hs @ [h]) s)"
proof -
  note parts = rel [unfolded store_rel_def]
  let ?s = "insert_memory m (x_vector x) (hs @ [h]) s"
  have mid: "m_id m = r_id old" using memory_from_row_Inr(1) [OF rows(1)] old(2) by simp
  have "map r_id (tb_memories tb') = map r_id (tb_memories tb)" using old(2) by (auto simp: tb'(1))
  then have stored: "stored tb' i = stored tb i" for i using stored_ids by metis
  have d: "distinct (map r_id (tb_memories tb))" using ok by (simp add: tables_ok_defs)
  have only: "y = old" if "y \<in> set (tb_memories tb)" "r_id y = r_id old" for y by (rule distinct_row [OF d that(1) old(1) that(2)])
  have "memory_rel env ses tb' ?s"
    using dict_set_list_all2 [OF _ d rows(1), of "st_memories s" "r_id old"] parts old(1,2) mid
    by (auto simp: memory_rel_def tb'(1) insert_memory_def)
  moreover have "history_rel env ses tb' ?s"
    unfolding history_rel_def
  proof
    fix i
    have h: "rel_option (list_all2 (\<lambda>v h. version_from_row env ses v = Inr h)) (if stored tb i then Some (versions_of tb i) else None) (dict_get (st_history s) i)" for i
      using parts by (simp add: history_rel_def)
    show "rel_option (list_all2 (\<lambda>v h. version_from_row env ses v = Inr h)) (if stored tb' i then Some (versions_of tb' i) else None) (dict_get (st_history ?s) i)"
    proof (cases "i = r_id old")
      case True
      have "stored tb (r_id old)" using old(1) by (auto simp: stored_def)
      then show ?thesis using h [of "r_id old"] hist rows(2,3) mid True
        by (simp add: insert_memory_def dict_simps stored versions_of_snoc [OF tb'(2)] list_all2_snoc)
    next
      case False
      then show ?thesis using h [of i] rows(3) mid
        by (simp add: insert_memory_def dict_simps stored versions_of_snoc [OF tb'(2)] split: if_splits)
    qed
  qed
  moreover have vec: "vector_of tb' i = (if i = r_id old then Some (x_vector x) else vector_of tb i)" for i
  proof -
    have "find (\<lambda>z. x_memory_id z = i) (map (\<lambda>y. if x_memory_id y = r_id old then x else y) ys) =
        (if i = r_id old then map_option (\<lambda>_. x) (find (\<lambda>z. x_memory_id z = i) ys) else find (\<lambda>z. x_memory_id z = i) ys)" for ys
      using rows(4) by (induction ys) auto
    moreover have "vector_of tb (r_id old) \<noteq> None" using parts old(1) by (auto simp: vector_rel_def stored_def)
    ultimately show ?thesis by (auto simp: vector_of_def tb'(3))
  qed
  have "vector_rel tb' ?s" using parts mid by (auto simp: vector_rel_def vec insert_memory_def dict_simps stored)
  moreover have "fingerprint_rel tb' ?s"
  proof -
    have "find (\<lambda>y. r_owner_id y = o' \<and> r_idempotency_key y = Some k) (map (\<lambda>y. if r_id y = r_id old then r else y) ys) =
        map_option (\<lambda>y. if r_id y = r_id old then r else y) (find (\<lambda>y. r_owner_id y = o' \<and> r_idempotency_key y = Some k) ys)"
      if "set ys \<subseteq> set (tb_memories tb)" for ys o' k
      using that old(3,4) only by (induction ys) auto
    moreover have fp: "r_fingerprint r = r_fingerprint y" if "y \<in> set (tb_memories tb)" "r_id y = r_id old" for y
      using only [OF that] old(5) by simp
    ultimately have "fingerprint_of tb' o' k = fingerprint_of tb o' k" for o' k
      using fp by (auto simp: fingerprint_of_def tb'(1) Option.bind_map_option dest!: find_SomeD intro!: Option.bind_cong)
    then show ?thesis using parts old only by (auto simp: fingerprint_rel_def insert_memory_def tb'(1))
  qed
  moreover have "relation_rel tb' ?s" "tombstone_rel tb' ?s"
    using parts by (simp_all add: relation_rel_def tombstone_rel_def tombstoned_def insert_memory_def tb')
  ultimately show ?thesis by (simp add: store_rel_def)
qed

lemma read_without_fingerprint: "memory_from_row env ses (r\<lparr>r_fingerprint := fp\<rparr>) = memory_from_row env ses r"
  by (simp add: memory_from_row_def memory_from_row_values_def row_fields_def cong: option.case_cong)

text \<open>The condition under which the aggregate calls \<open>update\<close>: the immutable columns agree with the row.\<close>

definition same_origin :: "Memory \<Rightarrow> PgTables \<Rightarrow> bool" where
  "same_origin m tb \<longleftrightarrow> (\<forall>r\<in>set (tb_memories tb). r_id r = m_id m \<longrightarrow>
     r_created_at r = astimezone_utc (m_created_at m) \<and> r_idempotency_key r = m_idempotency_key m)"

lemma created_at_column: "memory_values env ses m fp = Inr r \<Longrightarrow> r_created_at r = astimezone_utc (m_created_at m)"
  by (auto simp: memory_values_def act_simps set_cloud_fields_def split: option.splits)

lemma update_embedding_hash:
  assumes com: "community ses" and ok: "tables_ok True tb" and vec: "vector_of tb (x_memory_id x) \<noteq> None"
    and upd: "update_embedding ses HashTable x tb = (Inr u, tb')"
  shows "tb' = tb\<lparr>tb_embeddings := map (\<lambda>y. if x_memory_id y = x_memory_id x then x else y) (tb_embeddings tb)\<rparr>"
proof -
  have t: "x_tenant_id y = None" if "y \<in> set (tb_embeddings tb)" for y
    using ok that by (auto simp: tables_ok_defs stored_for_def bound_owner_def)
  have "\<exists>y\<in>set (tb_embeddings tb). x_memory_id y = x_memory_id x" using vec by (auto simp: vector_of_def dest!: find_SomeD)
  then have "list_ex (\<lambda>y. x_memory_id y = x_memory_id x \<and> policy ses (x_tenant_id y)) (tb_embeddings tb)"
    using t com by (auto simp: list_ex_iff)
  then have "tb' = tb\<lparr>tb_embeddings := map (\<lambda>y. if x_memory_id y = x_memory_id x \<and> policy ses (x_tenant_id y) then x else y) (tb_embeddings tb)\<rparr>"
    using upd by (auto simp: update_embedding_def Let_def act_simps split: if_splits)
  moreover have "map (\<lambda>y. if x_memory_id y = x_memory_id x \<and> policy ses (x_tenant_id y) then x else y) (tb_embeddings tb) =
      map (\<lambda>y. if x_memory_id y = x_memory_id x then x else y) (tb_embeddings tb)"
    using t com by (intro map_cong) auto
  ultimately show ?thesis by (simp only:)
qed

lemma refines_update:
  assumes com: "community ses" and ok: "tables_ok True tb" and rel: "store_rel env ses tb s" and w: "writable env m"
    and same: "same_origin m tb" and ev: "ev < m_version m"
    and call: "pg_update env ses m ev (memory_snapshot m reason) vec tb = (Inr res, tb')"
  shows "\<exists>s'. repo_update (row_form ses m) ev (memory_snapshot (row_form ses m) reason) (map (pe_float4 env) vec) s =
      (Inr (row_form ses m), s') \<and> store_rel env ses tb' s'"
proof -
  from call obtain r tb1 v tb2 t x tb3 where run: "memory_values env ses m None = Inr r" "update_memories ses m ev r tb = (Inr True, tb1)"
      "version_values env ses (memory_snapshot m reason) = Inr v" "insert_version ses v tb1 = (Inr (), tb2)"
      "embedding_table (memory_dimension m) = Inr t" "embedding_values env ses m vec = Inr x"
      "update_embedding ses t x tb2 = (Inr (), tb3)"
      "pg_audit env ses ''memory.update'' (m_owner_id m) (m_id m) tb3 = (Inr (), tb')"
    by (rule pg_update_run)
  note row = memory_values_Inr [OF run(1)] and xv = embedding_values_Inr [OF run(6)] and vv = version_values_Inr [OF run(3)]
    and log = pg_audit_frame [OF run(8), unfolded log_frame_def]
  from run(2) obtain old where old: "old \<in> set (tb_memories tb)" "update_hits ses m ev old"
      "tb1 = tb\<lparr>tb_memories := map (\<lambda>y. if update_hits ses m ev y then keep_immutable y r else y) (tb_memories tb)\<rparr>"
    by (rule update_memories_True)
  have hit: "r_id old = m_id m" "r_owner_id old = m_owner_id m" "r_version old = ev" using old(2) by (simp_all add: update_hits_def)
  have d: "distinct (map r_id (tb_memories tb))" using ok by (simp add: tables_ok_defs)
  have only: "y = old" if "y \<in> set (tb_memories tb)" "r_id y = r_id old" for y by (rule distinct_row [OF d that(1) old(1) that(2)])
  define new where "new = r\<lparr>r_fingerprint := r_fingerprint old\<rparr>"
  have keep: "keep_immutable old r = new"
    using same old(1) hit row created_at_column [OF run(1)] by (simp add: same_origin_def keep_immutable_def new_def)
  have mems: "tb_memories tb1 = map (\<lambda>y. if r_id y = r_id old then new else y) (tb_memories tb)"
    using only hit old(2) keep by (auto simp: old(3) update_hits_def)
  have t: "t = HashTable" using run(5) w by (simp add: writable_def embedding_table_def)
  have tb2: "tb2 = tb1\<lparr>tb_versions := tb_versions tb1 @ [v]\<rparr>" using run(4) by (simp add: insert_version_Inr)
  have ok2: "tables_ok True tb2"
    using kept_step [OF update_memories_kept [OF _ run(1) _ run(2)] kept_statements(1) [OF _ run(4)]] ok ev com by (simp add: kept_def)
  have stored_vec: "vector_of tb2 (m_id m) \<noteq> None"
    using rel old(1) hit(1) by (auto simp: store_rel_def vector_rel_def stored_def vector_of_def tb2 old(3))
  have tb3: "tb3 = tb2\<lparr>tb_embeddings := map (\<lambda>y. if x_memory_id y = r_id old then x else y) (tb_embeddings tb2)\<rparr>"
    using update_embedding_hash [OF com ok2 _ run(7) [unfolded t]] stored_vec xv hit(1) by simp
  have tb': "tb_memories tb' = map (\<lambda>y. if r_id y = r_id old then new else y) (tb_memories tb)" "tb_versions tb' = tb_versions tb @ [v]"
      "tb_embeddings tb' = map (\<lambda>y. if x_memory_id y = r_id old then x else y) (tb_embeddings tb)"
      "tb_relations tb' = tb_relations tb" "tb_tombstones tb' = tb_tombstones tb"
    using log mems by (auto simp: tb3 tb2 old(3))
  obtain cur where cur: "memory_from_row env ses old = Inr cur"
    using rel old(1) list_all2_mem_left [of _ "tb_memories tb" "st_memories s" old] unfolding store_rel_def memory_rel_def by fastforce
  have "dict_get (st_memories s) (m_id m) = Some cur"
    using memory_rel_get [OF _ ok, of env ses s] rel old(1) hit(1) cur by (auto simp: store_rel_def)
  moreover obtain hs where hs: "dict_get (st_history s) (r_id old) = Some hs"
    using history_rel_stored [of env ses tb s "r_id old"] rel old(1) by (auto simp: store_rel_def stored_def)
  ultimately have "repo_update (row_form ses m) ev (memory_snapshot (row_form ses m) reason) (map (pe_float4 env) vec) s =
      (Inr (row_form ses m), insert_memory (row_form ses m) (x_vector x) (hs @ [memory_snapshot (row_form ses m) reason]) s)"
    using memory_from_row_Inr(2,3) [OF cur] hit xv by (simp add: repo_update_def row_form_def)
  moreover have "store_rel env ses tb' (insert_memory (row_form ses m) (x_vector x) (hs @ [memory_snapshot (row_form ses m) reason]) s)"
  proof (rule rel_changed_memory [OF ok rel old(1) _ _ _ _ tb' _ created_version [OF com w run(3)] _ _ hs])
    show "memory_from_row env ses new = Inr (row_form ses m)"
      using created_row [OF com w run(1)] by (simp add: new_def read_without_fingerprint)
  qed (use row hit xv vv same old(1) in \<open>auto simp: new_def same_origin_def memory_snapshot_def\<close>)
  ultimately show ?thesis by blast
qed

section \<open>forget\<close>

lemma list_all2_filter: "list_all2 P xs ys \<Longrightarrow> (\<And>x y. x \<in> set xs \<Longrightarrow> P x y \<Longrightarrow> Q x = R y) \<Longrightarrow> list_all2 P (filter Q xs) (filter R ys)"
  by (induction rule: list_all2_induct) auto

lemma forget_relations:
  assumes ok: "tables_ok c tb" and r: "r \<in> set (tb_memories tb)" and rel: "relation_rel tb s"
  shows "list_all2 (\<lambda>q (key, rel). key = relation_key rel \<and> relation_from_row q = Inr rel) (tb_relations (cascade_delete r tb))
    (filter (\<lambda>(key, relation). rel_source_id relation \<noteq> r_id r \<and> rel_target_id relation \<noteq> r_id r) (st_relations s))"
proof -
  have d: "distinct (map r_id (tb_memories tb))" using ok by (simp add: tables_ok_defs)
  have owner: "q_owner_id q = r_owner_id r" if "q \<in> set (tb_relations tb)" "q_source_id q = r_id r \<or> q_target_id q = r_id r" for q
  proof -
    have "row_owned tb (q_owner_id q) (r_id r) (q_tenant_id q)"
      using ok that unfolding tables_ok_def references_ok_def by metis
    then obtain x where "x \<in> set (tb_memories tb)" "r_owner_id x = q_owner_id q" "r_id x = r_id r" by (auto simp: row_owned_def)
    with distinct_row [OF d this(1) r] show ?thesis by simp
  qed
  show ?thesis
    unfolding cascade_delete_def
    by simp (rule list_all2_filter [OF rel [unfolded relation_rel_def]],
      use owner in \<open>auto simp: relation_from_row_def act_simps relation_post_init_def split: if_splits\<close>)
qed

lemma forget_fingerprints:
  assumes ok: "tables_ok c tb" and r: "r \<in> set (tb_memories tb)"
  shows "fingerprint_of (cascade_delete r tb) owner k =
    (if r_owner_id r = owner \<and> r_idempotency_key r = Some k then None else fingerprint_of tb owner k)"
proof -
  have d: "distinct (map r_id (tb_memories tb))" using ok by (simp add: tables_ok_defs)
  let ?P = "\<lambda>x. r_owner_id x = owner \<and> r_idempotency_key x = Some k"
  have other: "find ?P (filter (\<lambda>x. r_id x \<noteq> r_id r) ys) = find ?P ys" if "\<not> ?P r" "set ys \<subseteq> set (tb_memories tb)" for ys
    using that by (induction ys) (auto dest: distinct_row [OF d _ r])
  have "x = r" if "?P r" "x \<in> set (tb_memories tb)" "?P x" for x
  proof -
    have "same_key r x" using that by (simp add: same_key_def)
    then have "r_id x = r_id r" using ok r that(2) unfolding tables_ok_def keys_ok_def by blast
    then show ?thesis using distinct_row [OF d that(2) r] by simp
  qed
  then have "find ?P (filter (\<lambda>x. r_id x \<noteq> r_id r) (tb_memories tb)) = None" if "?P r"
    using that by (auto simp: find_None_iff)
  then show ?thesis using other [OF _ subset_refl] by (auto simp: fingerprint_of_def cascade_delete_def)
qed

lemma delete_list_all2:
  assumes "list_all2 (\<lambda>r (i, m). i = r_id r \<and> memory_from_row env ses r = Inr m) rows ms"
  shows "list_all2 (\<lambda>r (i, m). i = r_id r \<and> memory_from_row env ses r = Inr m) (filter (\<lambda>x. r_id x \<noteq> i) rows) (dict_pop i ms)"
  using assms by (induction rule: list_all2_induct) auto

lemma find_filter_other: "find (\<lambda>x. f x = i) (filter (\<lambda>x. f x \<noteq> j) xs) = (if i = j then None else find (\<lambda>x. f x = i) xs)"
  by (induction xs) auto

lemma rel_forgotten_memory:
  assumes ok: "tables_ok True tb" and rel: "store_rel env ses tb s" and r: "r \<in> set (tb_memories tb)"
    and m: "memory_from_row env ses r = Inr m" "m_tenant_id m = None"
    and tb': "tb' = (cascade_delete r tb)\<lparr>tb_tombstones := ts\<rparr>" "\<And>o' i. tombstoned tb' o' i \<longleftrightarrow> tombstoned tb o' i \<or> o' = r_owner_id r \<and> i = r_id r"
  shows "\<exists>s'. repo_forget (r_owner_id r) (r_id r) None s = (Inr True, s') \<and> store_rel env ses tb' s'"
proof -
  note parts = rel [unfolded store_rel_def] and fields = memory_from_row_Inr [OF m(1)]
  have del: "tb_memories tb' = filter (\<lambda>x. r_id x \<noteq> r_id r) (tb_memories tb)" "tb_versions tb' = filter (\<lambda>v. v_memory_id v \<noteq> r_id r) (tb_versions tb)"
      "tb_embeddings tb' = filter (\<lambda>x. x_memory_id x \<noteq> r_id r) (tb_embeddings tb)" "tb_relations tb' = tb_relations (cascade_delete r tb)"
    by (simp_all add: tb'(1) cascade_delete_def)
  have stored: "stored tb' i \<longleftrightarrow> stored tb i \<and> i \<noteq> r_id r" for i by (auto simp: stored_def del)
  have key: "k \<noteq> []" if "m_idempotency_key m = Some k" for k using fields(7) that by (auto simp: memory_ok_def label_ok_def)
  have fps: "fingerprint_of tb' o' k = (if r_owner_id r = o' \<and> r_idempotency_key r = Some k then None else fingerprint_of tb o' k)" for o' k
    using forget_fingerprints [OF ok r, of o' k] by (simp add: fingerprint_of_def tb'(1))
  define t where "t = s\<lparr>st_memories := dict_pop (r_id r) (st_memories s), st_vectors := dict_pop (r_id r) (st_vectors s),
      st_history := dict_pop (r_id r) (st_history s),
      st_fingerprints := (case m_idempotency_key m of Some k \<Rightarrow> dict_pop (r_owner_id r, k) (st_fingerprints s) | None \<Rightarrow> st_fingerprints s),
      st_relations := filter (\<lambda>(key, relation). rel_source_id relation \<noteq> r_id r \<and> rel_target_id relation \<noteq> r_id r) (st_relations s),
      st_tombstones := insert (r_owner_id r, None, r_id r) (st_tombstones s)\<rparr>"
  have "dict_get (st_memories s) (r_id r) = Some m" using memory_rel_get [OF _ ok] parts r m(1) by blast
  then have "repo_forget (r_owner_id r) (r_id r) None s = (Inr True, t)"
    using fields(2) m(2) key by (auto simp: repo_forget_def t_def split: option.splits)
  moreover have "memory_rel env ses tb' t"
    using parts delete_list_all2 [of env ses "tb_memories tb" "st_memories s" "r_id r"] by (simp add: memory_rel_def del t_def)
  moreover have "history_rel env ses tb' t"
    unfolding history_rel_def
  proof
    fix i
    have "versions_of tb' i = versions_of tb i" if "i \<noteq> r_id r" using that by (auto simp: versions_of_def del intro!: filter_cong)
    moreover have "rel_option (list_all2 (\<lambda>v h. version_from_row env ses v = Inr h))
        (if stored tb i then Some (versions_of tb i) else None) (dict_get (st_history s) i)"
      using parts by (simp add: history_rel_def)
    ultimately show "rel_option (list_all2 (\<lambda>v h. version_from_row env ses v = Inr h))
        (if stored tb' i then Some (versions_of tb' i) else None) (dict_get (st_history t) i)"
      by (cases "i = r_id r") (simp_all add: t_def stored dict_simps split: if_splits)
  qed
  moreover have "vector_of tb' i = (if i = r_id r then None else vector_of tb i)" for i
    by (simp add: vector_of_def del find_filter_other)
  then have "vector_rel tb' t" using parts by (auto simp: vector_rel_def t_def stored dict_simps)
  moreover have "fingerprint_rel tb' t"
    using parts fields(5) by (auto simp: fingerprint_rel_def t_def fps del dict_simps split: option.splits)
  moreover have "relation_rel tb' t"
    using forget_relations [OF ok r] parts by (simp add: relation_rel_def del(4) t_def)
  moreover have "tombstone_rel tb' t" using parts by (auto simp: tombstone_rel_def tb'(2) t_def)
  ultimately show ?thesis by (auto simp: store_rel_def)
qed

lemma refines_forget:
  assumes com: "community ses" and ok: "tables_ok True tb" and rel: "store_rel env ses tb s"
    and call: "pg_forget env ses owner mid tb = (Inr res, tb')"
  shows "\<exists>s'. repo_forget owner mid None s = (Inr res, s') \<and> store_rel env ses tb' s'"
proof (cases "find (\<lambda>r. r_owner_id r = owner \<and> r_id r = mid) (tb_memories tb)")
  case None
  then have "repo_forget owner mid None s = (Inr False, s)"
    using memory_rel_get [OF _ ok, of env ses s mid] rel memory_from_row_Inr(2)
    by (auto simp: repo_forget_def find_None_iff store_rel_def split: option.splits)
  moreover have "\<not> res" "tb' = tb" using call None com by (auto simp: pg_forget_def act_simps community_rows [OF com ok])
  ultimately show ?thesis using rel by auto
next
  case (Some r)
  then have r: "r \<in> set (tb_memories tb)" "r_owner_id r = owner" "r_id r = mid" by (auto dest!: find_SomeD)
  let ?t = "\<lparr>t_owner_id = owner, t_tenant_id = None, t_memory_id = mid, t_deleted_at = te_now (pe_text env), t_reason = ''memory.forget''\<rparr>"
  have ins: "res" "insert_tombstone ses ?t (cascade_delete r tb) = (Inr (), tb')"
    using call Some com by (auto simp: pg_forget_def act_simps community_rows [OF com ok])
  have tb': "tb' = (cascade_delete r tb)\<lparr>tb_tombstones := tb_tombstones tb'\<rparr>"
    using insert_tombstone_Inr [OF ins(2)] by auto
  have dead: "tombstoned tb' o' i \<longleftrightarrow> tombstoned tb o' i \<or> o' = r_owner_id r \<and> i = r_id r" for o' i
    using insert_tombstone_Inr [OF ins(2)] r by (auto simp: tombstoned_def cascade_delete_def)
  obtain m where m: "memory_from_row env ses r = Inr m"
    using rel r(1) list_all2_mem_left [of _ "tb_memories tb" "st_memories s" r] unfolding store_rel_def memory_rel_def by fastforce
  have "r_tenant_id r = None" using ok r(1) by (auto simp: tables_ok_defs bound_owner_def)
  then have "m_tenant_id m = None" using memory_from_row_Inr(6) [OF m] by simp
  from rel_forgotten_memory [OF ok rel r(1) m this tb' dead] ins(1) r(2,3) show ?thesis by simp
qed

section \<open>Relations\<close>

text \<open>A relation read back from its row, with its timestamp in UTC.\<close>

definition relation_form :: "Relation \<Rightarrow> Relation" where
  "relation_form r = r\<lparr>rel_created_at := astimezone_utc (rel_created_at r)\<rparr>"

lemma enum_of_sound: "enum_of f xs v = Inr x \<Longrightarrow> f x = v"
  by (induction xs) (auto split: if_splits)

lemma relation_row_key: "relation_from_row q = Inr r \<Longrightarrow> relation_key r = (q_owner_id q, q_source_id q, q_target_id q, q_relation_type q)"
  by (auto simp: relation_from_row_def act_simps relation_key_def relation_type_of_def dest!: enum_of_sound)

lemma dict_get_relation:
  assumes "list_all2 (\<lambda>q (key, rel). key = relation_key rel \<and> relation_from_row q = Inr rel) qs ds"
  shows "dict_get ds (relation_key rel) \<noteq> None \<longleftrightarrow> list_ex (same_edge (relation_values ses rel)) qs"
  using assms
proof (induction qs ds rule: list_all2_induct)
  case (Cons q qs d ds)
  obtain r where r: "d = (relation_key r, r)" "relation_from_row q = Inr r" using Cons(1) by (cases d) auto
  have "relation_key rel = relation_key r \<longleftrightarrow> same_edge (relation_values ses rel) q"
    unfolding relation_row_key [OF r(2)] by (auto simp: relation_key_def same_edge_def relation_values_def)
  with Cons(3) r(1) show ?case by auto
qed simp

lemma refines_add_relation:
  assumes com: "community ses" and ok: "tables_ok True tb" and rel: "store_rel env ses tb s"
    and valid: "relation_post_init relation = Inr relation"
    and call: "pg_add_relation env ses relation tb = (Inr res, tb')"
  shows "\<exists>s'. repo_add_relation (relation_form relation) s = (Inr (relation_form relation), s') \<and> store_rel env ses tb' s'"
proof -
  note parts = rel [unfolded store_rel_def]
  let ?q = "relation_values ses relation" and ?r = "relation_form relation"
  from call have ins: "insert_relation ses False ?q tb = (Inr (), tb')"
    and known: "pg_get env ses (rel_owner_id relation) (rel_source_id relation) tb \<noteq> Inr None"
      "pg_get env ses (rel_owner_id relation) (rel_target_id relation) tb \<noteq> Inr None"
    by (auto simp: pg_add_relation_def bind_simps integrity_as_def split: sum.splits prod.splits pg_error.splits)
  have get: "repo_get s (rel_owner_id relation) i None \<noteq> None" if "pg_get env ses (rel_owner_id relation) i tb \<noteq> Inr None" for i
    using refines_get [OF com ok, of env s] parts that by auto
  have new: "\<not> list_ex (same_edge ?q) (tb_relations tb)" and tb': "tb' = tb\<lparr>tb_relations := tb_relations tb @ [?q]\<rparr>"
    using ins by (auto simp: insert_relation_def act_simps split: if_splits)
  have key: "relation_key ?r = relation_key relation" by (simp add: relation_key_def relation_form_def)
  then have none: "dict_get (st_relations s) (relation_key ?r) = None"
    using dict_get_relation [of "tb_relations tb" "st_relations s" relation ses] parts new by (auto simp: relation_rel_def)
  have read: "relation_from_row ?q = Inr ?r"
    using valid by (auto simp: relation_from_row_def relation_values_def relation_form_def act_simps)
  let ?s = "s\<lparr>st_relations := dict_set (relation_key ?r) ?r (st_relations s)\<rparr>"
  have "relation_rel tb' ?s" using parts read by (simp add: relation_rel_def tb' dict_set_new [OF none] list_all2_snoc)
  moreover have same: "tb_memories tb' = tb_memories tb" "stored tb' i = stored tb i" "versions_of tb' i = versions_of tb i"
      "vector_of tb' i = vector_of tb i" "fingerprint_of tb' o' k = fingerprint_of tb o' k" "tombstoned tb' o' i = tombstoned tb o' i" for i o' k
    by (simp_all add: tb' stored_def versions_of_def vector_of_def fingerprint_of_def tombstoned_def)
  have "memory_rel env ses tb' ?s" "history_rel env ses tb' ?s" "vector_rel tb' ?s" "fingerprint_rel tb' ?s" "tombstone_rel tb' ?s"
    using parts by (simp_all add: same memory_rel_def history_rel_def vector_rel_def fingerprint_rel_def tombstone_rel_def split del: if_split cong: if_cong)
  moreover have "repo_add_relation ?r s = (Inr ?r, ?s)"
    using get [OF known(1)] get [OF known(2)] none by (simp add: repo_add_relation_def relation_form_def)
  ultimately show ?thesis by (auto simp: store_rel_def)
qed

section \<open>Runs\<close>

fun run_calls :: "('l \<Rightarrow> 's \<Rightarrow> ('r \<times> 's) option) \<Rightarrow> 'l list \<Rightarrow> 's \<Rightarrow> ('r list \<times> 's) option" where
  "run_calls step [] s = Some ([], s)"
| "run_calls step (l # ls) s = Option.bind (step l s) (\<lambda>(r, t). Option.bind (run_calls step ls t) (\<lambda>(rs, u). Some (r # rs, u)))"

text \<open>
  A forward simulation of two systems with the same calls: the concrete system answers as the abstract one
  does, from related states to related states.
\<close>

locale forward_simulation =
  fixes inv :: "'c \<Rightarrow> bool"
    and concrete :: "'l \<Rightarrow> 'c \<Rightarrow> ('r \<times> 'c) option"
    and abstract :: "'l \<Rightarrow> 'a \<Rightarrow> ('r \<times> 'a) option"
    and related :: "'c \<Rightarrow> 'a \<Rightarrow> bool"
  assumes inv_call: "inv c \<Longrightarrow> concrete l c = Some (r, c') \<Longrightarrow> inv c'"
    and simulated: "inv c \<Longrightarrow> related c a \<Longrightarrow> concrete l c = Some (r, c') \<Longrightarrow> \<exists>a'. abstract l a = Some (r, a') \<and> related c' a'"
begin

lemma run_simulated:
  "inv c \<Longrightarrow> related c a \<Longrightarrow> run_calls concrete ls c = Some (rs, c') \<Longrightarrow>
     inv c' \<and> (\<exists>a'. run_calls abstract ls a = Some (rs, a') \<and> related c' a')"
proof (induction ls arbitrary: c a rs)
  case (Cons l ls)
  from Cons.prems(3) obtain r d qs where step: "concrete l c = Some (r, d)" and rest: "run_calls concrete ls d = Some (qs, c')" and rs: "rs = r # qs"
    by (auto simp: bind_eq_Some_conv)
  from simulated [OF Cons.prems(1,2) step] obtain b where b: "abstract l a = Some (r, b)" "related d b" by blast
  from Cons.IH [OF inv_call [OF Cons.prems(1) step] b(2) rest] b(1) rs show ?case by auto
qed auto

end

datatype store_call =
  CreateCall Memory string "pyfloat list"
| UpdateCall Memory int string "pyfloat list"
| ForgetCall string uuid
| RelateCall Relation

text \<open>
  What the application service guarantees of its calls: valid values, a fresh identifier for a new memory, a
  greater version and the immutable fields of the stored memory for an update.
\<close>

fun sound_call :: "PgEnv \<Rightarrow> store_call \<Rightarrow> PgTables \<Rightarrow> bool" where
  "sound_call env (CreateCall m fp vec) tb \<longleftrightarrow> writable env m \<and>
     (\<forall>t\<in>set (tb_tombstones tb). \<not> (t_owner_id t = m_owner_id m \<and> t_memory_id t = m_id m))"
| "sound_call env (UpdateCall m ev reason vec) tb \<longleftrightarrow> writable env m \<and> ev < m_version m \<and> same_origin m tb"
| "sound_call env (ForgetCall owner mid) tb \<longleftrightarrow> True"
| "sound_call env (RelateCall r) tb \<longleftrightarrow> relation_post_init r = Inr r"

fun pg_answer :: "PgEnv \<Rightarrow> PgSession \<Rightarrow> store_call \<Rightarrow> bool pg_act" where
  "pg_answer env ses (CreateCall m fp vec) = act_bind (pg_create env ses m fp vec) (\<lambda>res. act_return (cr_created res))"
| "pg_answer env ses (UpdateCall m ev reason vec) =
     act_bind (pg_update env ses m ev (memory_snapshot m reason) vec) (\<lambda>_. act_return True)"
| "pg_answer env ses (ForgetCall owner mid) = pg_forget env ses owner mid"
| "pg_answer env ses (RelateCall r) = act_bind (pg_add_relation env ses r) (\<lambda>_. act_return True)"

fun store_answer :: "PgEnv \<Rightarrow> PgSession \<Rightarrow> store_call \<Rightarrow> bool store_act" where
  "store_answer env ses (CreateCall m fp vec) =
     act_bind (repo_create (row_form ses m) fp (map (pe_float4 env) vec)) (\<lambda>res. act_return (cr_created res))"
| "store_answer env ses (UpdateCall m ev reason vec) =
     act_bind (repo_update (row_form ses m) ev (memory_snapshot (row_form ses m) reason) (map (pe_float4 env) vec)) (\<lambda>_. act_return True)"
| "store_answer env ses (ForgetCall owner mid) = repo_forget owner mid None"
| "store_answer env ses (RelateCall r) = act_bind (repo_add_relation (relation_form r)) (\<lambda>_. act_return True)"

definition answered :: "('e, 'r) res \<times> 's \<Rightarrow> ('r \<times> 's) option" where
  "answered p = (case p of (Inr r, s) \<Rightarrow> Some (r, s) | (Inl e, s) \<Rightarrow> None)"

definition pg_does :: "PgEnv \<Rightarrow> PgSession \<Rightarrow> store_call \<Rightarrow> PgTables \<Rightarrow> (bool \<times> PgTables) option" where
  "pg_does env ses call tb = (if sound_call env call tb then answered (pg_answer env ses call tb) else None)"

definition store_does :: "PgEnv \<Rightarrow> PgSession \<Rightarrow> store_call \<Rightarrow> InMemoryStore \<Rightarrow> (bool \<times> InMemoryStore) option" where
  "store_does env ses call s = answered (store_answer env ses call s)"

lemma answered_Some: "answered p = Some (r, s) \<longleftrightarrow> p = (Inr r, s)"
  by (auto simp: answered_def split: prod.splits sum.splits)

lemma pg_does_call:
  assumes "pg_does env ses call tb = Some (r, tb')"
  shows "pg_call ses tb tb'"
proof (cases call)
  case (CreateCall m fp vec)
  with assms show ?thesis by (auto simp: pg_does_def answered_Some bind_simps split: if_splits intro!: pg_call.create simp: tombstoned_def)
next
  case (UpdateCall m ev reason vec)
  with assms show ?thesis by (auto simp: pg_does_def answered_Some bind_simps split: if_splits intro: pg_call.update)
next
  case (ForgetCall owner mid)
  with assms show ?thesis by (auto simp: pg_does_def answered_Some intro: pg_call.forget)
next
  case (RelateCall rel)
  with assms show ?thesis by (auto simp: pg_does_def answered_Some bind_simps split: if_splits intro: pg_call.relate)
qed

lemma act_bind_done: "m s = (Inr x, t) \<Longrightarrow> act_bind m (\<lambda>x. act_return (f x)) s = (Inr (f x), t)"
  by (simp add: act_bind_def act_return_def)

lemma call_simulated:
  assumes com: "community ses" and ok: "tables_ok True tb" and rel: "store_rel env ses tb s"
    and call: "pg_does env ses call tb = Some (r, tb')"
  shows "\<exists>s'. store_does env ses call s = Some (r, s') \<and> store_rel env ses tb' s'"
proof (cases call)
  case (CreateCall m fp vec)
  with call obtain res where w: "writable env m" and c: "pg_create env ses m fp vec tb = (Inr res, tb')" "r = cr_created res"
    by (auto simp: pg_does_def answered_Some bind_simps split: if_splits)
  from refines_create [OF com ok rel w c(1)] c(2) show ?thesis
    by (auto simp: CreateCall store_does_def answered_Some act_bind_done)
next
  case (UpdateCall m ev reason vec)
  with call obtain res where w: "writable env m" "same_origin m tb" "ev < m_version m"
      and c: "pg_update env ses m ev (memory_snapshot m reason) vec tb = (Inr res, tb')" "r"
    by (auto simp: pg_does_def answered_Some bind_simps split: if_splits)
  from refines_update [OF com ok rel w c(1)] c(2) show ?thesis
    by (auto simp: UpdateCall store_does_def answered_Some act_bind_done)
next
  case (ForgetCall owner mid)
  with refines_forget [OF com ok rel] call show ?thesis by (auto simp: pg_does_def store_does_def answered_Some)
next
  case (RelateCall q)
  with call obtain res where w: "relation_post_init q = Inr q" and c: "pg_add_relation env ses q tb = (Inr res, tb')" "r"
    by (auto simp: pg_does_def answered_Some bind_simps split: if_splits)
  from refines_add_relation [OF com ok rel w c(1)] c(2) show ?thesis
    by (auto simp: RelateCall store_does_def answered_Some act_bind_done)
qed

interpretation pg_refinement: forward_simulation "\<lambda>tb. community ses \<and> tables_ok True tb" "pg_does env ses" "store_does env ses" "store_rel env ses"
  for env ses
proof unfold_locales
  fix c c' r l
  assume "community ses \<and> tables_ok True c" "pg_does env ses l c = Some (r, c')"
  then show "community ses \<and> tables_ok True c'" using pg_call_kept [OF pg_does_call] by (fastforce simp: kept_def)
next
  fix c c' a r l
  assume "community ses \<and> tables_ok True c" "store_rel env ses c a" "pg_does env ses l c = Some (r, c')"
  then show "\<exists>a'. store_does env ses l a = Some (r, a') \<and> store_rel env ses c' a'" using call_simulated by blast
qed

lemma store_rel_empty: "store_rel env ses (empty_tables tenants) empty_store"
  by (simp add: store_rel_def memory_rel_def history_rel_def vector_rel_def fingerprint_rel_def relation_rel_def tombstone_rel_def
    stored_def vector_of_def fingerprint_of_def tombstoned_def empty_tables_def empty_store_def)

lemma refines_list_relations:
  assumes com: "community ses" and ok: "tables_ok True tb" and rel: "relation_rel tb s"
  shows "pg_list_relations ses owner mid tb = Inr (repo_list_relations s owner mid)"
proof -
  have t: "q_tenant_id q = None" if "q \<in> set (tb_relations tb)" for q
    using ok that by (fastforce simp: tables_ok_defs row_owned_def bound_owner_def)
  have "list_all2 (\<lambda>q r. relation_from_row q = Inr r)
      (filter (\<lambda>q. policy ses (q_tenant_id q) \<and> q_owner_id q = owner \<and> (q_source_id q = mid \<or> q_target_id q = mid)) qs)
      (filter (\<lambda>r. rel_owner_id r = owner \<and> (rel_source_id r = mid \<or> rel_target_id r = mid)) (dict_values ds))"
    if "list_all2 (\<lambda>q (key, rel). key = relation_key rel \<and> relation_from_row q = Inr rel) qs ds" "set qs \<subseteq> set (tb_relations tb)" for qs ds
    using that
  proof (induction qs ds rule: list_all2_induct)
    case (Cons q qs d ds)
    obtain r where r: "d = (relation_key r, r)" "relation_from_row q = Inr r" using Cons(1) by (cases d) auto
    then show ?case using relation_row_key [OF r(2)] Cons t com by (auto simp: relation_key_def)
  qed simp
  from this [OF rel [unfolded relation_rel_def] subset_refl]
  show ?thesis using com by (simp add: pg_list_relations_def repo_list_relations_def res_map_Inr)
qed

lemma refines_is_tombstoned:
  assumes com: "community ses" and ok: "tables_ok True tb" and rel: "tombstone_rel tb s"
  shows "pg_is_tombstoned ses owner mid tb = Inr (admin_is_tombstoned s owner mid None)"
proof -
  have "t_tenant_id t = None" if "t \<in> set (tb_tombstones tb)" for t
    using ok that by (auto simp: tables_ok_defs bound_owner_def)
  then have "list_ex (\<lambda>t. policy ses (t_tenant_id t) \<and> t_owner_id t = owner \<and> t_memory_id t = mid) (tb_tombstones tb) \<longleftrightarrow> tombstoned tb owner mid"
    using com by (auto simp: list_ex_iff tombstoned_def)
  then show ?thesis using rel com by (simp add: pg_is_tombstoned_def admin_is_tombstoned_def tombstone_rel_def)
qed


section \<open>Witness\<close>

lemma ex_writable:
  assumes "m = (ex_pg_memory ''ana'' 7)\<lparr>m_content := content, m_version := version\<rparr>"
    and "py_strip content \<noteq> []" "normalize_content content = content" "length content \<le> 100" "1 \<le> version"
  shows "writable (ex_pg_env 0) m"
proof -
  have "owner_id_ok ''ana''" by code_simp
  from ex_pg_memory_ok [OF this, of 7] have "memory_ok m" "parts_ok m" using assms by (simp_all add: memory_ok_def parts_ok_def)
  moreover have "reads_back ex_codec_env (column_times (m_provenance m) (m_capture_consent m))" "memory_dimension m = 64"
    using ex_pg_times assms(1)
    by (simp_all add: reads_back_def column_times_def ex_pg_memory_def ex_codec_memory_def ex_provenance_def ex_consent_def memory_dimension_def)
  ultimately show ?thesis by (simp add: writable_def)
qed

lemma ex_contents:
  "py_strip ''likes tea'' \<noteq> []" "normalize_content ''likes tea'' = ''likes tea''" "py_strip ''likes coffee'' \<noteq> []" "normalize_content ''likes coffee'' = ''likes coffee''"
  by code_simp+

lemma ex_same_origin:
  assumes "pg_create (ex_pg_env 0) ex_local (ex_pg_memory ''ana'' 7) ''sha'' ex_pg_vector (empty_tables {}) =
       (Inr \<lparr>cr_memory = ex_pg_memory ''ana'' 7, cr_created = True\<rparr>, tb1)"
  shows "same_origin ex_changed tb1"
  using assms
proof (cases rule: pg_create_run)
  case (created r tb2 t x tb3 v tb4)
  have "tb_memories tb1 = [r]"
    using created(2) created(5) created(7) pg_audit_frame [OF created(8)]
    by (auto simp: insert_memories_True insert_embedding_Inr insert_version_Inr log_frame_def empty_tables_def)
  then show ?thesis using memory_values_Inr(5) [OF created(1)] created_at_column [OF created(1)]
    by (simp add: same_origin_def ex_changed_def ex_pg_memory_def)
qed simp


end
