(* ===== verification/Spec2Isabelle.thy ===== *)
theory Spec2Isabelle
  imports Search_Properties Worker_Properties Cloud_Refinement Mcp_Properties Identity_Properties
    Reembedding_Properties Admin_Properties Codec_Properties M1_Properties Token_Properties
    Postgres_Refinement
begin

text \<open>
  \<^bold>\<open>A verification library for the Open Memory Protocol server\<close> (the Python package \<open>omp\<close> under
  \<open>src/src/omp\<close>).

  The program stores short texts, memories, for their owners, and serves them to agents. A domain layer
  defines the memory and its lifecycle; an application service runs every use case as a transaction over
  repositories, with optimistic concurrency, idempotency keys, consent, spaces and tombstones; adapters
  put the service behind tools, behind an authenticated HTTP transport and behind an administrative API;
  a cloud variant keeps memories encrypted per tenant, with its own worker, recovery and tenant context.

  \<^bold>\<open>Foundations.\<close>
  \<^item> \<open>Prelude\<close>: exceptions as values (\<open>res\<close>), stateful code that may raise (\<open>act\<close>, with \<open>act_atomic\<close> for a
    transaction), insertion-ordered dictionaries, Python slices and texts, and the collections
    \<open>act_simps\<close>, \<open>dict_simps\<close> and \<open>str_simps\<close> that the other theories extend.
  \<^item> \<open>Pyfloat\<close>: binary64 arithmetic as correctly rounded rational arithmetic, with \<open>sum\<close>, \<open>sqrt\<close> and
    \<open>round\<close>; infinities, NaN and overflow are outside. \<open>Pyvalues\<close>: \<open>datetime\<close> with \<open>isoformat\<close>, 128-bit
    UUIDs and JSON. \<open>Pytext\<close>: \<open>int\<close>, UUID parsing, UTF-8, splitting and JSON text.
  \<^item> \<open>Store_Interfaces\<close>: the locales \<open>deletion_ledger\<close> (what is recorded as deleted never comes back) and
    \<open>versioned_store\<close> (versions never go back, so a stale writer stays stale), whose consequences are
    proved once and used by the service, the encrypted store, the PostgreSQL tables and the administrative
    API through their interpretations.

  \<^bold>\<open>Domain and service\<close> (\<open>domain/\<close>, \<open>application/\<close>).
  \<^item> \<open>Domain_Types\<close>, \<open>Memory_Aggregate\<close>: enums, value objects, errors, and \<open>Memory\<close> with its constructor
    checks, \<open>create\<close>, \<open>snapshot\<close>, \<open>evolve\<close> and the lifecycle table. \<open>App_Models\<close>: commands, results, ports.
  \<^item> \<open>Memory_Store\<close>: \<open>fakes.py\<close>, the record \<open>InMemoryStore\<close> with the idempotency, memory and
    administrative repositories; a unit of work is \<open>act_atomic\<close>.
  \<^item> \<open>Memory_Service\<close>, \<open>Service_Search\<close>, \<open>Service_Import\<close>: \<open>services.py\<close>, one definition per use case
    (\<open>svc_write\<close>, \<open>svc_capture\<close>, \<open>svc_confirm_candidate\<close>, \<open>svc_pin\<close>, \<open>svc_discard_candidate\<close>, \<open>svc_update\<close>,
    \<open>svc_forget\<close>, \<open>svc_relate\<close>, \<open>svc_search\<close>, \<open>svc_recall\<close>, import and export). The embedding provider, the
    clock, \<open>uuid4\<close> and the SHA-256 digest of a command are fields of \<open>ServiceEnv\<close>.
  \<^item> \<open>Store_Invariant\<close>, \<open>Service_Steps\<close>, \<open>Service_Frames\<close>: the invariant of the store, the use cases as
    sequences of \<open>store_effect\<close>s (the abstract specification), isolation and growth of the store.
    \<open>Service_Properties\<close>, \<open>Forget_Properties\<close>, \<open>Search_Properties\<close>: the theorems on reachable stores,
    transactions, lost updates, replay, forgetting, imports, captures, the inbox, search and recall.
    \<open>Fixtures\<close> holds the concrete runs of the witnesses.
  \<^item> \<open>Serialization\<close>, \<open>Export_Codec\<close>, \<open>Codec_Properties\<close>: \<open>domain/serialization.py\<close> and
    \<open>server/admin.py\<close>; reading is typed and the two forms round-trip, the export form up to the fields
    it does not carry.
  \<^item> \<open>Reembedding\<close>, \<open>Reembedding_Properties\<close>: \<open>application/reembedding.py\<close> over the four methods of
    \<open>adapters/postgres/repository.py\<close> that it calls; the batched loop takes fuel, and one unit more than
    the number of rows is proved to be enough.

  \<^bold>\<open>PostgreSQL\<close> (\<open>adapters/postgres/\<close>).
  \<^item> \<open>Postgres_Rows\<close>: the rows of \<open>schema.py\<close> with the column types and check constraints, the row level
    security policies of migrations 0005 and 0009 (\<open>policy\<close>, \<open>tenant_policy\<close>), and the conversions between
    rows and domain values, encrypted for a tenant and plain in community mode.
  \<^item> \<open>Postgres_Store\<close>: \<open>repository.py\<close>, the record \<open>PgTables\<close> of tables as lists of rows, one action per
    statement (with its unique constraints, foreign keys and cascades) and one per method of the memory,
    idempotency and administrative repositories; a unit of work is \<open>act_atomic\<close>. Transactions are serial.
    Vector similarity, single precision rounding, the clock, \<open>uuid4\<close> and the cipher are fields of \<open>PgEnv\<close>.
  \<^item> \<open>Postgres_Invariant\<close>, \<open>Postgres_Steps\<close>: consistency of the tables, kept by every statement and call, the
    step relation of committed transactions, and its interpretation as a \<open>versioned_store\<close>.
    \<open>Postgres_Properties\<close>: consistency of every reachable database, isolation of tenants for every read,
    forgetting, lost updates, and the round trip of a stored memory. \<open>Postgres_Fixtures\<close> holds the concrete
    databases of the witnesses.
  \<^item> \<open>Postgres_Refinement\<close>: a forward simulation (locale \<open>forward_simulation\<close>) from the tables in community
    mode to \<open>Memory_Store\<close>, so that the in-memory repository, on which the service's properties are proved,
    stands for the database too.

  \<^bold>\<open>Adapters\<close> (\<open>adapters/mcp/\<close>, \<open>server/\<close>).
  \<^item> \<open>Mcp_Adapter\<close>, \<open>Mcp_Properties\<close>: public errors, the two rate limiters and the control flow of
    \<open>call_tool\<close>; parsing and the service behind it are arguments. The deque limiter is equivalent to a
    log of all granted calls.
  \<^item> \<open>M1_Http\<close>, \<open>M1_Properties\<close>: \<open>http.py\<close> composed with the service model. The principals are shared
    mutable objects, kept in a list that the registry's dictionaries index. Every tool call is shown to be
    at most one service step for the owner of its token, so the service's properties carry over; revocation,
    isolation, recall and forgetting are stated for the transport as a transition system.
  \<^item> \<open>Identity\<close>, \<open>Identity_Properties\<close>: \<open>server/hosted_auth.py\<close> and \<open>server/identity_contracts.py\<close>.

  \<^bold>\<open>Cloud\<close> (\<open>cloud/\<close>).
  \<^item> \<open>Cloud_Security\<close>: principals and scopes, the key services, the envelope encryptor and the signed worker
    envelope. AES-GCM is an argument, assumed to decrypt what it encrypted and nothing else; HMAC is one too.
  \<^item> \<open>Cloud_Tokens\<close>, \<open>Token_Properties\<close>: the signed tokens of \<open>LocalDevelopmentTokenVerifier\<close> and the stored
    form of a ciphertext; only signed tokens are accepted, an issued token gives its identity back, and
    encrypted content survives its storage.
  \<^item> \<open>Encrypted_Memory\<close>, \<open>Encrypted_Invariant\<close>, \<open>Encrypted_Properties\<close>, \<open>Cloud_Refinement\<close>: the encrypted
    store, its invariant, and the refinement of a plain map of memories, call by call.
  \<^item> \<open>Cloud_Worker\<close>, \<open>Worker_Properties\<close>: the job queue with its nonce and dedupe tables, snapshot and
    restore. \<open>Cloud_Recovery\<close>, \<open>Cloud_Properties\<close>: recovery, tenant context, and the theorems on the cloud
    components together.
  \<^item> \<open>Cloud_Admin\<close>, \<open>Admin_Properties\<close>: \<open>cloud/admin.py\<close>, sign-in by magic link, sessions, CSRF,
    connections, agent credentials, receipts, account deletion and the memory handlers.

  \<^bold>\<open>Bounds and fuel.\<close> Python integers are \<open>int\<close>, UUIDs are 128-bit words, and text is of 8-bit
  characters. Only \<open>reembed_loop\<close> and the client \<open>all_pages\<close> take fuel; both have theorems that a stated
  amount suffices. Every other loop is structural or has a termination proof.

  \<^bold>\<open>Parameters.\<close> AES-GCM, HMAC-SHA256 and SHA-256, \<open>uuid5\<close>, random tokens and clocks,
  \<open>datetime.fromisoformat\<close>, \<open>json.dumps\<close> and \<open>json.loads\<close> where their text matters, \<open>repr\<close>, the embedding
  provider, the credential verifier and the service behind an adapter. What a theorem needs of them is a
  hypothesis of the theorem, shown satisfiable by its witness.

  \<^bold>\<open>Not modelled.\<close> Concurrent interleaving of database transactions, the approximate vector index and the
  migration tool, whose meaning is that of the database; the transports, servers and process start-up, which
  are I/O and third-party frameworks; pydantic parsing beyond the declared bounds, and the application
  gateway and the hosted boundary, which map wire values field by field onto modelled parts; the command
  line and SDK client; the embedding providers; the demo backend; the offline evaluation harness.
\<close>

end
